(* ===== verification/Prelude.thy ===== *)
theory Prelude
  imports Complex_Main "HOL-Library.Multiset"
begin

text \<open>
  What every component of the development shares: the JavaScript array operations the
  sources use (\<open>slice(-n)\<close>, \<open>slice(0, n)\<close>, \<open>find\<close>, \<open>findIndex\<close>, the idiom
  \<open>filter((v, i, arr) => arr.findIndex(x => eq x v) === i)\<close>), the stable sort of
  \<open>Array.prototype.sort\<close>, the insertion-ordered dictionary that stands for a plain
  object or a \<open>Map\<close>, and the ASCII string operations. The named collections
  \<open>js_array\<close> and \<open>js_dict\<close> hold the facts the component proofs simplify with.
\<close>

named_theorems js_array
named_theorems js_dict

subsection \<open>Arrays\<close>

definition slice_last :: "nat \<Rightarrow> 'a list \<Rightarrow> 'a list" where
  "slice_last n xs = drop (length xs - n) xs"

definition slice_first :: "nat \<Rightarrow> 'a list \<Rightarrow> 'a list" where
  "slice_first n xs = take n xs"

definition array_last :: "'a list \<Rightarrow> 'a option" where
  "array_last xs = (if xs = [] then None else Some (last xs))"

fun find_index :: "('a \<Rightarrow> bool) \<Rightarrow> 'a list \<Rightarrow> nat option" where
  "find_index P [] = None"
| "find_index P (x # xs) = (if P x then Some 0 else map_option Suc (find_index P xs))"

definition dedup_by :: "('a \<Rightarrow> 'a \<Rightarrow> bool) \<Rightarrow> 'a list \<Rightarrow> 'a list" where
  "dedup_by eq xs =
     map snd (filter (\<lambda>(i, v). find_index (\<lambda>x. eq x v) xs = Some i) (enumerate 0 xs))"

lemma length_slice_last [js_array, simp]: "length (slice_last n xs) = min n (length xs)"
  by (simp add: slice_last_def)

lemma length_slice_last_le: "length (slice_last n xs) \<le> n"
  by simp

lemma set_slice_last: "set (slice_last n xs) \<subseteq> set xs"
  by (simp add: slice_last_def set_drop_subset)

lemma slice_last_id [js_array]: "length xs \<le> n \<Longrightarrow> slice_last n xs = xs"
  by (simp add: slice_last_def)

lemma slice_last_snoc: "slice_last (Suc n) (xs @ [x]) = slice_last n xs @ [x]"
  by (simp add: slice_last_def)

lemma distinct_slice_last [js_array]: "distinct xs \<Longrightarrow> distinct (slice_last n xs)"
  by (simp add: slice_last_def)

lemma map_slice_last: "map f (slice_last n xs) = slice_last n (map f xs)"
  by (simp add: slice_last_def drop_map)

lemma sorted_wrt_slice_last [js_array]: "sorted_wrt P xs \<Longrightarrow> sorted_wrt P (slice_last n xs)"
  by (simp add: slice_last_def sorted_wrt_drop)

lemma slice_first_id [js_array]: "length xs \<le> n \<Longrightarrow> slice_first n xs = xs"
  by (simp add: slice_first_def)

lemma length_slice_first [js_array, simp]: "length (slice_first n xs) = min n (length xs)"
  by (simp add: slice_first_def)

lemma array_last_eq_Some: "array_last xs = Some x \<longleftrightarrow> xs \<noteq> [] \<and> last xs = x"
  by (auto simp: array_last_def)

lemma array_last_in_set: "array_last xs = Some x \<Longrightarrow> x \<in> set xs"
  by (auto simp: array_last_def split: if_splits)

subsection \<open>Searching\<close>

lemma find_index_Some_iff:
  "find_index P xs = Some i \<longleftrightarrow> i < length xs \<and> P (xs ! i) \<and> (\<forall>j<i. \<not> P (xs ! j))"
proof (induction xs arbitrary: i)
  case Nil
  then show ?case by simp
next
  case (Cons x xs)
  then show ?case
    by (cases i) (auto simp: nth_Cons split: nat.splits if_splits)
qed

lemma find_index_None_iff: "find_index P xs = None \<longleftrightarrow> (\<forall>x\<in>set xs. \<not> P x)"
  by (induction xs) auto

lemma find_Some_set: "find P xs = Some x \<Longrightarrow> x \<in> set xs \<and> P x"
  by (auto simp: find_Some_iff)

lemma find_exists: "x \<in> set xs \<Longrightarrow> P x \<Longrightarrow> \<exists>y. find P xs = Some y \<and> y \<in> set xs \<and> P y"
  by (cases "find P xs") (auto simp: find_None_iff find_Some_iff)

lemma find_unique_key:
  assumes "distinct (map key xs)" and "x \<in> set xs"
  shows "find (\<lambda>y. key y = key x) xs = Some x"
  using assms by (induction xs) (auto simp: image_iff)

subsection \<open>Keeping the first of equal elements\<close>

lemma dedup_by_filter_nth:
  "dedup_by eq xs =
     map ((!) xs) (filter (\<lambda>i. find_index (\<lambda>x. eq x (xs ! i)) xs = Some i) [0..<length xs])"
proof -
  have "enumerate 0 xs = map (\<lambda>i. (i, xs ! i)) [0..<length xs]"
    by (rule nth_equalityI) (auto simp: nth_enumerate_eq)
  then show ?thesis
    by (simp add: dedup_by_def filter_map comp_def)
qed

lemma set_dedup_by_subset: "set (dedup_by eq xs) \<subseteq> set xs"
  by (auto simp: dedup_by_filter_nth)

lemma dedup_by_pairwise:
  assumes "i < j" and "j < length (dedup_by eq xs)"
  shows "\<not> eq (dedup_by eq xs ! i) (dedup_by eq xs ! j)"
proof -
  obtain ns where ns: "ns = filter (\<lambda>i. find_index (\<lambda>x. eq x (xs ! i)) xs = Some i) [0..<length xs]"
    by simp
  have dd: "dedup_by eq xs = map ((!) xs) ns" by (simp add: ns dedup_by_filter_nth)
  have "sorted_wrt (<) ns" by (simp add: ns sorted_wrt_filter)
  with assms have lt: "ns ! i < ns ! j" by (simp add: dd sorted_wrt_iff_nth_less)
  have "ns ! j \<in> set ns" using assms by (simp add: dd)
  then have "find_index (\<lambda>x. eq x (xs ! (ns ! j))) xs = Some (ns ! j)" by (simp add: ns)
  then have "\<not> eq (xs ! (ns ! i)) (xs ! (ns ! j))" using lt by (simp add: find_index_Some_iff)
  then show ?thesis using assms by (simp add: dd)
qed

lemma dedup_by_first:
  assumes "i < length xs" and "eq (xs ! i) (xs ! i)" and "\<forall>j<i. \<not> eq (xs ! j) (xs ! i)"
  shows "xs ! i \<in> set (dedup_by eq xs)"
  using assms by (auto simp: dedup_by_filter_nth find_index_Some_iff intro!: imageI)

lemma dedup_by_kept:
  assumes "v \<in> set (dedup_by eq xs)"
  shows "\<exists>i<length xs. xs ! i = v \<and> eq v v \<and> (\<forall>j<i. \<not> eq (xs ! j) v)"
  using assms by (auto simp: dedup_by_filter_nth find_index_Some_iff)

lemma dedup_by_distinct_key:
  assumes "\<And>x y. x \<in> set xs \<Longrightarrow> y \<in> set xs \<Longrightarrow> key x = key y \<Longrightarrow> eq x y"
  shows "distinct (map key (dedup_by eq xs))"
proof -
  have "key (dedup_by eq xs ! i) \<noteq> key (dedup_by eq xs ! j)"
    if "i < j" "j < length (dedup_by eq xs)" for i j
  proof -
    have "dedup_by eq xs ! i \<in> set xs" "dedup_by eq xs ! j \<in> set xs"
      using that set_dedup_by_subset [of eq xs] by (meson nth_mem order_less_trans subsetD)+
    then show ?thesis using dedup_by_pairwise [OF that] assms by blast
  qed
  then show ?thesis
    by (auto simp: distinct_conv_nth) (metis linorder_neqE_nat)
qed

lemma dedup_by_id:
  assumes "\<And>x. x \<in> set xs \<Longrightarrow> eq x x"
    and "\<And>x y. x \<in> set xs \<Longrightarrow> y \<in> set xs \<Longrightarrow> eq x y \<Longrightarrow> key x = key y"
    and "distinct (map key xs)"
  shows "dedup_by eq xs = xs"
proof -
  have "find_index (\<lambda>x. eq x (xs ! i)) xs = Some i" if "i < length xs" for i
  proof -
    have "\<not> eq (xs ! j) (xs ! i)" if j: "j < i" for j
    proof
      assume "eq (xs ! j) (xs ! i)"
      with assms(2) [of "xs ! j" "xs ! i"] \<open>i < length xs\<close> j have "key (xs ! j) = key (xs ! i)"
        by simp
      with assms(3) \<open>i < length xs\<close> j show False
        by (simp add: distinct_conv_nth)
    qed
    with that assms(1) show ?thesis by (simp add: find_index_Some_iff)
  qed
  then have "filter (\<lambda>i. find_index (\<lambda>x. eq x (xs ! i)) xs = Some i) [0..<length xs] = [0..<length xs]"
    by simp
  then show ?thesis by (simp add: dedup_by_filter_nth map_nth)
qed

subsection \<open>Stable sorting\<close>

text \<open>
  \<open>before x y\<close> is "the comparator does not put \<open>x\<close> after \<open>y\<close>". For a comparator that
  orders the elements consistently ECMAScript fixes the result of \<open>Array.prototype.sort\<close>:
  the one stable sorted permutation, which insertion from the right computes.
\<close>

fun insort_js :: "('a \<Rightarrow> 'a \<Rightarrow> bool) \<Rightarrow> 'a \<Rightarrow> 'a list \<Rightarrow> 'a list" where
  "insort_js before x [] = [x]"
| "insort_js before x (y # ys) =
     (if before x y then x # y # ys else y # insort_js before x ys)"

fun sort_js :: "('a \<Rightarrow> 'a \<Rightarrow> bool) \<Rightarrow> 'a list \<Rightarrow> 'a list" where
  "sort_js before [] = []"
| "sort_js before (x # xs) = insort_js before x (sort_js before xs)"

lemma mset_insort_js [simp]: "mset (insort_js before x xs) = add_mset x (mset xs)"
  by (induction xs) auto

lemma mset_sort_js [js_array, simp]: "mset (sort_js before xs) = mset xs"
  by (induction xs) auto

lemma set_sort_js [js_array, simp]: "set (sort_js before xs) = set xs"
  by (rule mset_eq_setD) simp

lemma length_sort_js [js_array, simp]: "length (sort_js before xs) = length xs"
  by (rule mset_eq_length) simp

lemma distinct_map_sort_js [js_array, simp]:
  "distinct (map f (sort_js before xs)) = distinct (map f xs)"
  by (rule mset_eq_imp_distinct_iff) simp

lemma distinct_sort_js [js_array, simp]: "distinct (sort_js before xs) = distinct xs"
  using distinct_map_sort_js [of "\<lambda>x. x"] by simp

lemma insort_js_before_all: "(\<forall>y\<in>set xs. before x y) \<Longrightarrow> insort_js before x xs = x # xs"
  by (cases xs) auto

lemma sort_js_id [js_array]: "sorted_wrt before xs \<Longrightarrow> sort_js before xs = xs"
  by (induction xs) (auto simp: insort_js_before_all)

locale sort_order =
  fixes before :: "'a \<Rightarrow> 'a \<Rightarrow> bool" and ok :: "'a \<Rightarrow> bool"
  assumes before_trans: "ok x \<Longrightarrow> ok y \<Longrightarrow> ok z \<Longrightarrow> before x y \<Longrightarrow> before y z \<Longrightarrow> before x z"
    and before_total: "ok x \<Longrightarrow> ok y \<Longrightarrow> before x y \<or> before y x"
begin

lemma set_insort: "set (insort_js before x xs) = insert x (set xs)"
  by (induction xs) auto

lemma sorted_insort:
  "ok x \<Longrightarrow> \<forall>y\<in>set xs. ok y \<Longrightarrow> sorted_wrt before xs \<Longrightarrow> sorted_wrt before (insort_js before x xs)"
proof (induction xs)
  case Nil
  then show ?case by simp
next
  case (Cons y ys)
  show ?case
  proof (cases "before x y")
    case True
    with Cons.prems show ?thesis by (auto intro: before_trans)
  next
    case False
    with Cons.prems have "before y x" using before_total by auto
    with False Cons show ?thesis by (auto simp: set_insort)
  qed
qed

lemma sorted_sort: "\<forall>x\<in>set xs. ok x \<Longrightarrow> sorted_wrt before (sort_js before xs)"
  by (induction xs) (auto intro!: sorted_insort)

lemma sort_idem: "\<forall>x\<in>set xs. ok x \<Longrightarrow> sort_js before (sort_js before xs) = sort_js before xs"
  by (intro sort_js_id sorted_sort) auto

lemma filter_insort_other:
  "\<not> P x \<Longrightarrow> filter P (insort_js before x xs) = filter P xs"
  by (induction xs) auto

lemma filter_insort_class:
  assumes "\<forall>y\<in>set xs. P y \<longrightarrow> before x y" and "P x" and "ok x" "\<forall>y\<in>set xs. ok y"
    and "sorted_wrt before xs"
  shows "filter P (insort_js before x xs) = x # filter P xs"
  using assms
proof (induction xs)
  case Nil
  then show ?case by simp
next
  case (Cons y ys)
  show ?case
  proof (cases "before x y")
    case True
    with Cons.prems show ?thesis by simp
  next
    case False
    with Cons.prems have "\<not> P y" by auto
    with False Cons show ?thesis by simp
  qed
qed

text \<open>Stability: the elements of one equivalence class keep their order.\<close>

lemma sort_stable:
  assumes "\<forall>x\<in>set xs. ok x" and "\<And>x y. P x \<Longrightarrow> P y \<Longrightarrow> before x y"
  shows "filter P (sort_js before xs) = filter P xs"
  using assms(1)
proof (induction xs)
  case Nil
  then show ?case by simp
next
  case (Cons x xs)
  have srt: "sorted_wrt before (sort_js before xs)" using Cons.prems by (simp add: sorted_sort)
  show ?case
  proof (cases "P x")
    case True
    with Cons srt show ?thesis by (simp add: assms(2) filter_insort_class)
  next
    case False
    with Cons show ?thesis by (simp add: filter_insort_other)
  qed
qed

end

subsection \<open>Dictionaries\<close>

text \<open>
  A plain object used as a dictionary, or a \<open>Map\<close> with string keys: an association list
  in insertion order. Assigning an existing key keeps its place, a new key goes last.
  \<open>own_entries\<close> is the order of \<open>Object.entries\<close>: array-index keys first, ascending.
\<close>

type_synonym 'v dict = "(string \<times> 'v) list"

abbreviation dict_get :: "'v dict \<Rightarrow> string \<Rightarrow> 'v option" where
  "dict_get d k \<equiv> map_of d k"

fun dict_set :: "'k \<Rightarrow> 'v \<Rightarrow> ('k \<times> 'v) list \<Rightarrow> ('k \<times> 'v) list" where
  "dict_set k v [] = [(k, v)]"
| "dict_set k v ((k', v') # d) = (if k = k' then (k, v) # d else (k', v') # dict_set k v d)"

definition dict_del :: "'k \<Rightarrow> ('k \<times> 'v) list \<Rightarrow> ('k \<times> 'v) list" where
  "dict_del k d = filter (\<lambda>(k', v). k' \<noteq> k) d"

definition dict_spread :: "('k \<times> 'v) list \<Rightarrow> ('k \<times> 'v) list \<Rightarrow> ('k \<times> 'v) list" where
  "dict_spread d e = fold (\<lambda>(k, v). dict_set k v) e d"

definition dict_wf :: "('k \<times> 'v) list \<Rightarrow> bool" where
  "dict_wf d \<longleftrightarrow> distinct (map fst d)"

locale dict_laws =
  fixes get :: "'d \<Rightarrow> 'k \<Rightarrow> 'v option" and put :: "'k \<Rightarrow> 'v \<Rightarrow> 'd \<Rightarrow> 'd"
    and del :: "'k \<Rightarrow> 'd \<Rightarrow> 'd" and inv :: "'d \<Rightarrow> bool"
  assumes get_put: "get (put k v d) = (get d)(k \<mapsto> v)"
    and get_del: "get (del k d) = (get d)(k := None)"
    and inv_put: "inv d \<Longrightarrow> inv (put k v d)"
    and inv_del: "inv d \<Longrightarrow> inv (del k d)"
begin

lemma dom_put: "dom (get (put k v d)) = insert k (dom (get d))"
  by (simp add: get_put)

lemma dom_del: "dom (get (del k d)) = dom (get d) - {k}"
  by (auto simp: get_del split: if_splits)

lemma get_put_all:
  "get (fold (\<lambda>(k, v). put k v) e d) k =
     (case map_of (rev e) k of None \<Rightarrow> get d k | Some v \<Rightarrow> Some v)"
  by (induction e arbitrary: d) (auto simp: get_put map_add_Some_iff map_of_append split: option.splits)

lemma inv_put_all: "inv d \<Longrightarrow> inv (fold (\<lambda>(k, v). put k v) e d)"
  by (induction e arbitrary: d) (auto simp: inv_put)

end

lemma dict_get_set [js_dict]: "map_of (dict_set k v d) = (map_of d)(k \<mapsto> v)"
  by (induction k v d rule: dict_set.induct) auto

lemma dict_get_del [js_dict]: "map_of (dict_del k d) = (map_of d)(k := None)"
  by (induction d) (auto simp: dict_del_def)

lemma keys_dict_set: "set (map fst (dict_set k v d)) = insert k (set (map fst d))"
  by (induction k v d rule: dict_set.induct) auto

lemma dict_wf_set [js_dict]: "dict_wf d \<Longrightarrow> dict_wf (dict_set k v d)"
  unfolding dict_wf_def
proof (induction k v d rule: dict_set.induct)
  case (1 k v)
  then show ?case by simp
next
  case (2 k v k' v' d)
  then show ?case using keys_dict_set [of k v d] by auto
qed

lemma dict_set_new: "k \<notin> set (map fst d) \<Longrightarrow> dict_set k v d = d @ [(k, v)]"
  by (induction k v d rule: dict_set.induct) auto

lemma dict_wf_del [js_dict]: "dict_wf d \<Longrightarrow> dict_wf (dict_del k d)"
  by (auto simp: dict_wf_def dict_del_def distinct_map_filter)

interpretation dict: dict_laws map_of dict_set dict_del dict_wf
  by unfold_locales (auto simp: js_dict)

lemma dict_get_spread [js_dict]:
  "map_of (dict_spread d e) k = (case map_of (rev e) k of None \<Rightarrow> map_of d k | Some v \<Rightarrow> Some v)"
  unfolding dict_spread_def by (rule dict.get_put_all)

lemma dict_wf_spread [js_dict]: "dict_wf d \<Longrightarrow> dict_wf (dict_spread d e)"
  unfolding dict_spread_def by (rule dict.inv_put_all)

end
