(* ===== verification/JsString.thy ===== *)
theory JsString
  imports Prelude
begin

text \<open>
  The string operations of the sources on ASCII strings: \<open>trim\<close>, \<open>toUpperCase\<close>,
  \<open>toLowerCase\<close>, \<open>includes\<close>, \<open>startsWith\<close>, \<open>split\<close>, \<open>join\<close>, and the decimal text of
  a non-negative integer. A string is a list of code units below 256; the case mappings are those
  of the ASCII letters, which is what the product keys, sides, statuses and identifiers of
  the program are made of. \<open>own_entries\<close> is the enumeration order of object properties.
\<close>

named_theorems js_text

definition lower_char :: "char \<Rightarrow> char" where
  "lower_char c = (let n = of_char c :: nat in if 65 \<le> n \<and> n \<le> 90 then char_of (n + 32) else c)"

definition upper_char :: "char \<Rightarrow> char" where
  "upper_char c = (let n = of_char c :: nat in if 97 \<le> n \<and> n \<le> 122 then char_of (n - 32) else c)"

definition to_lower :: "string \<Rightarrow> string" where
  "to_lower s = map lower_char s"

definition to_upper :: "string \<Rightarrow> string" where
  "to_upper s = map upper_char s"

text \<open>White space and line terminators below code 256.\<close>

definition is_space :: "char \<Rightarrow> bool" where
  "is_space c = (let n = of_char c :: nat in (9 \<le> n \<and> n \<le> 13) \<or> n = 32 \<or> n = 160)"

definition trim :: "string \<Rightarrow> string" where
  "trim s = rev (dropWhile is_space (rev (dropWhile is_space s)))"

fun starts_with :: "'a list \<Rightarrow> 'a list \<Rightarrow> bool" where
  "starts_with [] s = True"
| "starts_with (p # ps) [] = False"
| "starts_with (p # ps) (c # cs) = (p = c \<and> starts_with ps cs)"

fun str_includes :: "'a list \<Rightarrow> 'a list \<Rightarrow> bool" where
  "str_includes p [] = (p = [])"
| "str_includes p (c # cs) = (starts_with p (c # cs) \<or> str_includes p cs)"

fun split_on :: "char \<Rightarrow> string \<Rightarrow> string list" where
  "split_on d [] = [[]]"
| "split_on d (c # cs) =
     (if c = d then [] # split_on d cs
      else (case split_on d cs of [] \<Rightarrow> [[c]] | w # ws \<Rightarrow> (c # w) # ws))"

fun join_with :: "string \<Rightarrow> string list \<Rightarrow> string" where
  "join_with sep [] = []"
| "join_with sep [s] = s"
| "join_with sep (s # t # ts) = s @ sep @ join_with sep (t # ts)"

subsection \<open>Decimal digits\<close>

definition digit_char :: "nat \<Rightarrow> char" where
  "digit_char n = char_of (48 + n)"

definition is_digit :: "char \<Rightarrow> bool" where
  "is_digit c = (let n = of_char c :: nat in 48 \<le> n \<and> n \<le> 57)"

definition digit_val :: "char \<Rightarrow> nat" where
  "digit_val c = of_char c - 48"

text \<open>The decimal digits of a non-negative integer.\<close>

function int_text :: "int \<Rightarrow> string" where
  "int_text n = (if n < 10 then [digit_char (nat n)]
     else int_text (n div 10) @ [digit_char (nat (n mod 10))])"
  by pat_completeness auto
termination
  by (relation "measure nat") auto

declare int_text.simps [simp del]

definition text_int :: "string \<Rightarrow> int" where
  "text_int s = fold (\<lambda>c a. 10 * a + int (digit_val c)) s 0"

lemma starts_with_iff: "starts_with p s \<longleftrightarrow> (\<exists>t. s = p @ t)"
  by (induction p s rule: starts_with.induct) auto

lemma includes_iff: "str_includes p s \<longleftrightarrow> (\<exists>u v. s = u @ p @ v)"
proof (induction p s rule: str_includes.induct)
  case (1 p)
  then show ?case by auto
next
  case (2 p c cs)
  have "(\<exists>u v. c # cs = u @ p @ v) \<longleftrightarrow> (\<exists>v. c # cs = p @ v) \<or> (\<exists>u v. cs = u @ p @ v)"
    by (metis append_Cons append_Nil list.sel(3) list.exhaust)
  with 2 show ?case by (simp add: starts_with_iff)
qed

lemma lower_lower [js_text, simp]: "lower_char (lower_char c) = lower_char c"
  by (cases "65 \<le> (of_char c :: nat) \<and> (of_char c :: nat) \<le> 90") (auto simp: lower_char_def Let_def)

lemma upper_upper [js_text, simp]: "upper_char (upper_char c) = upper_char c"
  by (cases "97 \<le> (of_char c :: nat) \<and> (of_char c :: nat) \<le> 122") (auto simp: upper_char_def Let_def)

lemma to_lower_idem [js_text, simp]: "to_lower (to_lower s) = to_lower s"
  by (simp add: to_lower_def)

lemma to_upper_idem [js_text, simp]: "to_upper (to_upper s) = to_upper s"
  by (simp add: to_upper_def)

lemma is_space_upper [js_text, simp]: "is_space (upper_char c) = is_space c"
proof (cases "97 \<le> (of_char c :: nat) \<and> (of_char c :: nat) \<le> 122")
  case True
  then show ?thesis by (auto simp: is_space_def upper_char_def Let_def)
next
  case False
  then show ?thesis by (auto simp: upper_char_def Let_def)
qed

lemma is_space_lower [js_text, simp]: "is_space (lower_char c) = is_space c"
proof (cases "65 \<le> (of_char c :: nat) \<and> (of_char c :: nat) \<le> 90")
  case True
  then show ?thesis by (auto simp: is_space_def lower_char_def Let_def)
next
  case False
  then show ?thesis by (auto simp: lower_char_def Let_def)
qed

lemma dropWhile_map_commute:
  "(\<And>x. P (f x) = P x) \<Longrightarrow> dropWhile P (map f xs) = map f (dropWhile P xs)"
  by (induction xs) auto

lemma trim_to_upper: "trim (to_upper s) = to_upper (trim s)"
  by (simp add: trim_def to_upper_def dropWhile_map_commute rev_map)

lemma trim_to_lower: "trim (to_lower s) = to_lower (trim s)"
  by (simp add: trim_def to_lower_def dropWhile_map_commute rev_map)

lemma hd_dropWhile_not: "dropWhile P xs \<noteq> [] \<Longrightarrow> \<not> P (hd (dropWhile P xs))"
  by (induction xs) auto

lemma dropWhile_rev_dropWhile:
  "dropWhile P (rev (dropWhile P (rev (dropWhile P xs)))) = rev (dropWhile P (rev (dropWhile P xs)))"
proof (cases "rev (dropWhile P (rev (dropWhile P xs)))")
  case Nil
  show ?thesis by (simp only: Nil dropWhile.simps)
next
  case (Cons y ys)
  obtain ws where ws: "dropWhile P xs = rev (dropWhile P (rev (dropWhile P xs))) @ ws"
    by (metis rev_append rev_rev_ident takeWhile_dropWhile_id)
  with Cons have "dropWhile P xs \<noteq> []" "hd (dropWhile P xs) = y" by auto
  then have "\<not> P y" using hd_dropWhile_not [of P xs] by simp
  with Cons show ?thesis by simp
qed

lemma trim_trim [js_text, simp]: "trim (trim s) = trim s"
proof -
  have "trim s = rev (dropWhile is_space (rev (dropWhile is_space s)))" by (rule trim_def)
  moreover have "dropWhile is_space (trim s) = trim s"
    unfolding trim_def by (rule dropWhile_rev_dropWhile)
  ultimately show ?thesis by (simp add: trim_def)
qed

lemma digit_char_props [js_text, simp]:
  "n < 10 \<Longrightarrow> is_digit (digit_char n)" "n < 10 \<Longrightarrow> digit_val (digit_char n) = n"
  by (auto simp: is_digit_def digit_char_def digit_val_def Let_def)

lemma int_text_digits: "0 \<le> n \<Longrightarrow> \<forall>c\<in>set (int_text n). is_digit c"
proof (induction n rule: int_text.induct)
  case (1 n)
  then show ?case by (subst int_text.simps) (auto simp: nat_less_iff)
qed

lemma int_text_nonempty [js_text, simp]: "int_text n \<noteq> []"
  by (subst int_text.simps) simp

lemma text_int_snoc: "text_int (s @ [c]) = 10 * text_int s + int (digit_val c)"
  by (simp add: text_int_def)

lemma text_int_text [js_text, simp]: "0 \<le> n \<Longrightarrow> text_int (int_text n) = n"
proof (induction n rule: int_text.induct)
  case (1 n)
  show ?case
  proof (cases "n < 10")
    case True
    with "1.prems" show ?thesis by (subst int_text.simps) (simp add: text_int_def nat_less_iff)
  next
    case False
    with 1 show ?thesis by (subst int_text.simps) (simp add: text_int_snoc nat_less_iff)
  qed
qed

lemma int_text_inj: "0 \<le> m \<Longrightarrow> 0 \<le> n \<Longrightarrow> int_text m = int_text n \<longleftrightarrow> m = n"
  by (metis text_int_text)

subsection \<open>Property order\<close>

definition is_array_index :: "string \<Rightarrow> bool" where
  "is_array_index k \<longleftrightarrow> k \<noteq> [] \<and> list_all is_digit k \<and> int_text (text_int k) = k
     \<and> text_int k < 4294967295"

definition own_entries :: "'v dict \<Rightarrow> (string \<times> 'v) list" where
  "own_entries d =
     sort_js (\<lambda>a b. text_int (fst a) \<le> text_int (fst b)) (filter (\<lambda>e. is_array_index (fst e)) d)
     @ filter (\<lambda>e. \<not> is_array_index (fst e)) d"

lemma mset_own_entries [js_dict, simp]: "mset (own_entries d) = mset d"
  by (simp add: own_entries_def multiset_partition [symmetric])

lemma set_own_entries [js_dict, simp]: "set (own_entries d) = set d"
  by (rule mset_eq_setD) simp

subsection \<open>The default order of an array's sort\<close>

text \<open>\<open>sort()\<close> without a comparison orders texts by their code units.\<close>

fun text_le :: "string \<Rightarrow> string \<Rightarrow> bool" where
  "text_le [] t = True"
| "text_le (c # s) [] = False"
| "text_le (c # s) (d # t) =
     ((of_char c :: nat) < of_char d \<or> c = d \<and> text_le s t)"

lemma text_le_trans: "text_le a b \<Longrightarrow> text_le b c \<Longrightarrow> text_le a c"
proof (induction a b arbitrary: c rule: text_le.induct)
  case (3 x xs y ys)
  then show ?case by (cases c) auto
qed simp_all

lemma text_le_total: "text_le a b \<or> text_le b a"
  by (induction a b rule: text_le.induct) (auto simp: neq_iff)

lemma text_le_antisym: "text_le a b \<Longrightarrow> text_le b a \<Longrightarrow> a = b"
proof (induction a b rule: text_le.induct)
  case (1 t)
  then show ?case by (cases t) auto
qed auto

interpretation code_units: sort_order text_le "\<lambda>s. True"
  by unfold_locales (auto intro: text_le_trans simp: text_le_total)

lemma sorted_texts: "sorted_wrt text_le (sort_js text_le xs)"
  by (rule code_units.sorted_sort) simp

end
