(* ===== verification/JsNumber.thy ===== *)
theory JsNumber
  imports JsString
begin

text \<open>
  JavaScript numbers: IEEE-754 binary64, executable over the rationals. A finite number
  other than negative zero is \<open>Fin q\<close>; every arithmetic operation computes exactly and then
  rounds to nearest, ties to even, with gradual underflow (\<open>rnd\<close>), so rounding, overflow
  to infinity, underflow to a signed zero and the NaN cases are those of the language. The
  named collection \<open>js_num\<close> holds the exactness and ordering facts the components use:
  integers up to \<open>2 ^ 53\<close> are exact, and the sign of a difference of two doubles is the
  order of the two (gradual underflow), which is what makes the comparators
  \<open>(a, b) => a.ts - b.ts\<close> of the sources consistent.
\<close>

named_theorems js_num

datatype jsnum = NaN | Inf bool | NegZero | Fin rat

subsection \<open>Rounding\<close>

function int_log2 :: "int \<Rightarrow> nat" where
  "int_log2 n = (if n < 2 then 0 else Suc (int_log2 (n div 2)))"
  by pat_completeness auto
termination
  by (relation "measure nat") auto

declare int_log2.simps [simp del]

definition log2_rat :: "rat \<Rightarrow> int" where
  "log2_rat q = (let (n, d) = quotient_of q; k = int (int_log2 n) - int (int_log2 d)
     in if 2 powi k \<le> q then k else k - 1)"

definition round_half_even :: "rat \<Rightarrow> int" where
  "round_half_even x = (let f = \<lfloor>x\<rfloor>; r = x - of_int f in
     if r < 1 / 2 then f else if 1 / 2 < r then f + 1 else if even f then f else f + 1)"

definition ulp_exp :: "rat \<Rightarrow> int" where
  "ulp_exp q = max (log2_rat q - 52) (- 1074)"

definition rnd_mag :: "rat \<Rightarrow> rat" where
  "rnd_mag q = of_int (round_half_even (q / 2 powi (ulp_exp q))) * 2 powi (ulp_exp q)"

definition zero_of :: "bool \<Rightarrow> jsnum" where
  "zero_of s = (if s then NegZero else Fin 0)"

text \<open>The sign \<open>s\<close> is that of an exact zero result.\<close>

definition rnd :: "bool \<Rightarrow> rat \<Rightarrow> jsnum" where
  "rnd s q = (if q = 0 then zero_of s
     else let m = rnd_mag \<bar>q\<bar> in
       if m = 0 then zero_of (q < 0)
       else if 2 ^ 1024 \<le> m then Inf (q < 0)
       else Fin (if q < 0 then - m else m))"

definition representable :: "rat \<Rightarrow> bool" where
  "representable q \<longleftrightarrow> q = 0 \<or> (rnd_mag \<bar>q\<bar> = \<bar>q\<bar> \<and> \<bar>q\<bar> < 2 ^ 1024)"

text \<open>The largest magnitude is compared as a literal, so that evaluation does not compute a power.\<close>

lemma two_pow_1024: "(2::rat) ^ 1024 = 179769313486231590772930519078902473361797697894230657273430081157732675805500963132708477322407536021120113879871393357658789768814416622492847430639474124377767893424865485276302219601246094119453082952085005768838150682342462881473913110540827237163350510684586298239947245938479716304835356329624224137216"
  by simp

lemmas rnd_code [code] = rnd_def [unfolded two_pow_1024]

lemmas representable_code [code] = representable_def [unfolded two_pow_1024]

fun is_finite :: "jsnum \<Rightarrow> bool" where
  "is_finite (Fin q) = True"
| "is_finite NegZero = True"
| "is_finite NaN = False"
| "is_finite (Inf s) = False"

fun val :: "jsnum \<Rightarrow> rat" where
  "val (Fin q) = q"
| "val NegZero = 0"
| "val NaN = 0"
| "val (Inf s) = 0"

text \<open>A finite double: the values a program can hold besides NaN and the infinities.\<close>

definition is_double :: "jsnum \<Rightarrow> bool" where
  "is_double x \<longleftrightarrow> is_finite x \<and> representable (val x)"

definition num_of_int :: "int \<Rightarrow> jsnum" where
  "num_of_int n = Fin (of_int n)"

lemma int_log2_bounds: "0 < n \<Longrightarrow> 2 ^ int_log2 n \<le> n \<and> n < 2 ^ Suc (int_log2 n)"
proof (induction n rule: int_log2.induct)
  case (1 n)
  show ?case
  proof (cases "n < 2")
    case True
    with "1.prems" show ?thesis by (simp add: int_log2.simps)
  next
    case False
    with "1.IH" have "2 ^ int_log2 (n div 2) \<le> n div 2" "n div 2 < 2 ^ Suc (int_log2 (n div 2))" by auto
    with False show ?thesis by (simp add: int_log2.simps [of n]) linarith
  qed
qed

lemma powi2_pos [simp]: "0 < (2::rat) powi k"
  by simp

lemma powi2_less: "(2::rat) powi a < 2 powi b \<longleftrightarrow> a < b"
  using power_int_strict_increasing [of a b "2::rat"] power_int_increasing [of b a "2::rat"]
  by (cases "a < b") auto

lemma powi2_le: "(2::rat) powi a \<le> 2 powi b \<longleftrightarrow> a \<le> b"
  using powi2_less [of b a] by (simp add: not_less [symmetric])

lemma powi2_add: "(2::rat) powi (a + b) = 2 powi a * 2 powi b"
  by (simp add: power_int_add)

lemma powi2_diff: "(2::rat) powi (a - b) = 2 powi a / 2 powi b"
  by (simp add: power_int_diff)

lemma powi2_nat: "0 \<le> k \<Longrightarrow> (2::rat) powi k = of_int (2 ^ nat k)"
  by (simp add: power_int_def)

lemma int_log2_rat:
  assumes "0 < n"
  shows "2 powi (int (int_log2 n)) \<le> (of_int n :: rat)"
    and "(of_int n :: rat) < 2 powi (int (int_log2 n) + 1)"
proof -
  have le: "2 ^ int_log2 n \<le> n" and lt: "n < 2 ^ Suc (int_log2 n)"
    using int_log2_bounds [OF assms] by auto
  have "(of_int (2 ^ int_log2 n) :: rat) \<le> of_int n" using le by (simp only: of_int_le_iff)
  then show "2 powi (int (int_log2 n)) \<le> (of_int n :: rat)" by simp
  have "(of_int n :: rat) < of_int (2 ^ Suc (int_log2 n))" using lt by (simp only: of_int_less_iff)
  then show "(of_int n :: rat) < 2 powi (int (int_log2 n) + 1)" by (simp add: powi2_add)
qed

lemma log2_rat_bounds:
  assumes "0 < q"
  shows "2 powi (log2_rat q) \<le> q \<and> q < 2 powi (log2_rat q + 1)"
proof -
  obtain n d where nd: "quotient_of q = (n, d)" by (cases "quotient_of q")
  then have q: "q = of_int n / of_int d" and d: "0 < d"
    by (auto dest: quotient_of_div quotient_of_denom_pos)
  with assms have n: "0 < n" by (simp add: zero_less_divide_iff)
  obtain a b where a: "a = int_log2 n" and b: "b = int_log2 d" by simp
  have na: "2 powi (int a) \<le> (of_int n :: rat)" "of_int n < (2::rat) powi (int a + 1)"
    using int_log2_rat [OF n] by (simp_all add: a)
  have db: "2 powi (int b) \<le> (of_int d :: rat)" "of_int d < (2::rat) powi (int b + 1)"
    using int_log2_rat [OF d] by (simp_all add: b)
  have lo: "2 powi (int a - int b - 1) < q"
  proof -
    have "2 powi (int a - int b - 1) * of_int d < 2 powi (int a - int b - 1) * (2::rat) powi (int b + 1)"
      using db(2) by simp
    also have "\<dots> = 2 powi (int a)" by (simp flip: powi2_add)
    also have "\<dots> \<le> of_int n" by (rule na(1))
    finally show ?thesis using d by (simp add: q field_simps)
  qed
  have hi: "q < 2 powi (int a - int b + 1)"
  proof -
    have "of_int n < (2::rat) powi (int a + 1)" by (rule na(2))
    also have "\<dots> = 2 powi (int a - int b + 1) * 2 powi (int b)"
      using powi2_add [of "int a - int b + 1" "int b"] by simp
    also have "\<dots> \<le> 2 powi (int a - int b + 1) * of_int d" using db(1) by simp
    finally show ?thesis using d by (simp add: q field_simps)
  qed
  show ?thesis
    using lo hi by (auto simp: log2_rat_def nd Let_def a [symmetric] b [symmetric])
qed

lemma log2_rat_unique: "2 powi k \<le> q \<Longrightarrow> q < 2 powi (k + 1) \<Longrightarrow> log2_rat q = k"
proof -
  assume k: "2 powi k \<le> q" "q < 2 powi (k + 1)"
  then have "0 < q" using powi2_pos [of k] by linarith
  then have L: "2 powi (log2_rat q) \<le> q" "q < 2 powi (log2_rat q + 1)"
    using log2_rat_bounds by auto
  from k(2) L(1) have "log2_rat q < k + 1" using powi2_less [of "log2_rat q" "k + 1"] by linarith
  moreover from k(1) L(2) have "k < log2_rat q + 1" using powi2_less [of k "log2_rat q + 1"] by linarith
  ultimately show ?thesis by simp
qed

lemma round_half_even_of_int [simp]: "round_half_even (of_int n) = n"
  by (simp add: round_half_even_def)

lemma round_half_even_close: "\<bar>of_int (round_half_even x) - x\<bar> \<le> 1 / 2"
proof -
  have "of_int \<lfloor>x\<rfloor> \<le> x" "x < of_int \<lfloor>x\<rfloor> + 1" by linarith+
  then show ?thesis
    by (cases "x - of_int \<lfloor>x\<rfloor> < 1 / 2"; cases "1 / 2 < x - of_int \<lfloor>x\<rfloor>"; cases "even \<lfloor>x\<rfloor>")
      (simp_all add: round_half_even_def Let_def abs_le_iff)
qed

lemma round_half_even_ge: "of_int n \<le> x \<Longrightarrow> n \<le> round_half_even x"
proof -
  assume n: "of_int n \<le> x"
  have "n \<le> \<lfloor>x\<rfloor>" using n by linarith
  then show ?thesis by (auto simp: round_half_even_def Let_def)
qed

lemma round_half_even_le: "x \<le> of_int n \<Longrightarrow> round_half_even x \<le> n"
proof -
  assume n: "x \<le> of_int n"
  show ?thesis
  proof (cases "x = of_int n")
    case True
    then show ?thesis by simp
  next
    case False
    with n have "\<lfloor>x\<rfloor> + 1 \<le> n" by linarith
    then show ?thesis by (auto simp: round_half_even_def Let_def)
  qed
qed

lemma ulp_exp_ge: "- 1074 \<le> ulp_exp q"
  by (simp add: ulp_exp_def)

lemma rnd_mag_exact:
  assumes m: "0 < m" "m \<le> 2 ^ 53" and e: "- 1074 \<le> e"
  shows "rnd_mag (of_int m * 2 powi e) = of_int m * 2 powi e"
proof -
  let ?q = "of_int m * 2 powi e :: rat"
  let ?u = "ulp_exp ?q"
  have q0: "0 < ?q" using m by simp
  have qle: "?q \<le> 2 powi (53 + e)"
  proof -
    have "(of_int m :: rat) \<le> of_int (2 ^ 53)" using m(2) by (simp only: of_int_le_iff)
    then show ?thesis by (simp add: powi2_add)
  qed
  have L: "2 powi (log2_rat ?q) \<le> ?q" using log2_rat_bounds [OF q0] by simp
  show ?thesis
  proof (cases "?q = 2 powi (53 + e)")
    case True
    then have "log2_rat ?q = 53 + e" by (intro log2_rat_unique) (auto simp: powi2_less)
    then have u: "?u = e + 1" using e by (simp add: ulp_exp_def)
    have "?q / 2 powi ?u = of_int (2 ^ 52)" unfolding u
      by (simp add: True powi2_add field_simps)
    then show ?thesis
      unfolding rnd_mag_def using u by (simp only: round_half_even_of_int) (simp add: True powi2_add)
  next
    case False
    with qle L have "2 powi (log2_rat ?q) < (2::rat) powi (53 + e)" by linarith
    then have ue: "?u \<le> e" using e by (simp add: powi2_less ulp_exp_def)
    have "?q / 2 powi ?u = of_int m * 2 powi (e - ?u)" by (simp add: powi2_diff)
    also have "\<dots> = of_int (m * 2 ^ nat (e - ?u))" using ue by (simp add: powi2_nat)
    finally have x: "?q / 2 powi ?u = of_int (m * 2 ^ nat (e - ?u))" .
    have "rnd_mag ?q = of_int (m * 2 ^ nat (e - ?u)) * 2 powi ?u"
      unfolding rnd_mag_def by (simp only: x round_half_even_of_int)
    also have "\<dots> = ?q / 2 powi ?u * 2 powi ?u" by (simp only: x)
    also have "\<dots> = ?q" by simp
    finally show ?thesis .
  qed
qed

lemma representableI:
  assumes "\<bar>m\<bar> \<le> 2 ^ 53" and "- 1074 \<le> e" and "\<bar>of_int m * 2 powi e\<bar> < (2 ^ 1024 :: rat)"
  shows "representable (of_int m * 2 powi e)"
proof (cases "m = 0")
  case True
  then show ?thesis by (simp add: representable_def)
next
  case False
  have "\<bar>of_int m * 2 powi e :: rat\<bar> = of_int \<bar>m\<bar> * 2 powi e" by (simp add: abs_mult)
  with rnd_mag_exact [of "\<bar>m\<bar>" e] False assms show ?thesis by (simp add: representable_def)
qed

lemma representable_int [js_num]:
  assumes "\<bar>n\<bar> \<le> 2 ^ 53"
  shows "representable (of_int n)"
proof -
  have "(of_int \<bar>n\<bar> :: rat) \<le> of_int (2 ^ 53)" using assms by (simp only: of_int_le_iff)
  then have "\<bar>of_int n :: rat\<bar> < 2 ^ 1024" by simp
  then show ?thesis using representableI [of n 0] assms by simp
qed

lemma rnd_representable [js_num]: "representable q \<Longrightarrow> q \<noteq> 0 \<Longrightarrow> rnd s q = Fin q"
  by (auto simp: rnd_def representable_def Let_def)

lemma rnd_zero [simp]: "rnd s 0 = zero_of s"
  by (simp add: rnd_def)

lemma rnd_int [js_num]: "\<bar>n\<bar> \<le> 2 ^ 53 \<Longrightarrow> rnd False (of_int n) = Fin (of_int n)"
  by (cases "n = 0") (auto simp: rnd_representable representable_int zero_of_def)

lemma representable_multiple:
  assumes "representable q"
  shows "\<exists>m::int. q = of_int m * 2 powi (- 1074)"
proof (cases "q = 0")
  case True
  then show ?thesis by (intro exI [of _ 0]) simp
next
  case False
  let ?u = "ulp_exp \<bar>q\<bar>" and ?r = "round_half_even (\<bar>q\<bar> / 2 powi (ulp_exp \<bar>q\<bar>))"
  from False assms have "\<bar>q\<bar> = of_int ?r * 2 powi ?u" by (simp add: representable_def rnd_mag_def)
  also have "\<dots> = of_int ?r * (2 powi (?u + 1074) * 2 powi (- 1074))"
    by (simp only: powi2_add [symmetric]) simp
  also have "\<dots> = of_int (?r * 2 ^ nat (?u + 1074)) * 2 powi (- 1074)"
    using ulp_exp_ge [of "\<bar>q\<bar>"] by (simp add: powi2_nat)
  finally obtain m :: int where "\<bar>q\<bar> = of_int m * 2 powi (- 1074)" by blast
  then show ?thesis
    by (cases "0 \<le> q") (auto intro: exI [of _ m] exI [of _ "- m"])
qed

lemma rnd_mag_pos:
  assumes "2 powi (- 1074) \<le> q"
  shows "0 < rnd_mag q"
proof -
  have q0: "0 < q" using assms powi2_pos [of "- 1074"] by linarith
  let ?u = "ulp_exp q"
  have "1 \<le> q / 2 powi ?u"
  proof (cases "log2_rat q - 52 \<le> - 1074")
    case True
    then have "?u = - 1074" by (simp add: ulp_exp_def)
    with assms show ?thesis by (simp add: pos_le_divide_eq)
  next
    case False
    then have "?u \<le> log2_rat q" by (simp add: ulp_exp_def)
    then have "2 powi ?u \<le> (2::rat) powi (log2_rat q)" by (simp add: powi2_le)
    also have "\<dots> \<le> q" using log2_rat_bounds [OF q0] by simp
    finally show ?thesis by (simp add: pos_le_divide_eq)
  qed
  then have "1 \<le> round_half_even (q / 2 powi ?u)" by (intro round_half_even_ge) simp
  then show ?thesis by (simp add: rnd_mag_def)
qed

subsection \<open>Comparison\<close>

definition jlt :: "jsnum \<Rightarrow> jsnum \<Rightarrow> bool" where
  "jlt a b = (if a = NaN \<or> b = NaN then False
     else case a of
       Inf s \<Rightarrow> (case b of Inf t \<Rightarrow> s \<and> \<not> t | _ \<Rightarrow> s)
     | _ \<Rightarrow> (case b of Inf t \<Rightarrow> \<not> t | _ \<Rightarrow> val a < val b))"

text \<open>\<open>===\<close> on numbers: NaN differs from itself, the two zeros are equal.\<close>

definition jeq :: "jsnum \<Rightarrow> jsnum \<Rightarrow> bool" where
  "jeq a b = (if a = NaN \<or> b = NaN then False
     else case a of
       Inf s \<Rightarrow> b = Inf s
     | _ \<Rightarrow> (case b of Inf t \<Rightarrow> False | _ \<Rightarrow> val a = val b))"

definition jle :: "jsnum \<Rightarrow> jsnum \<Rightarrow> bool" where
  "jle a b \<longleftrightarrow> jlt a b \<or> jeq a b"

abbreviation jgt :: "jsnum \<Rightarrow> jsnum \<Rightarrow> bool" where
  "jgt a b \<equiv> jlt b a"

abbreviation jge :: "jsnum \<Rightarrow> jsnum \<Rightarrow> bool" where
  "jge a b \<equiv> jle b a"

lemma jlt_finite [js_num]: "is_finite a \<Longrightarrow> is_finite b \<Longrightarrow> jlt a b \<longleftrightarrow> val a < val b"
  by (cases a; cases b) (auto simp: jlt_def)

lemma jeq_finite [js_num]: "is_finite a \<Longrightarrow> is_finite b \<Longrightarrow> jeq a b \<longleftrightarrow> val a = val b"
  by (cases a; cases b) (auto simp: jeq_def)

lemma jle_finite [js_num]: "is_finite a \<Longrightarrow> is_finite b \<Longrightarrow> jle a b \<longleftrightarrow> val a \<le> val b"
  by (auto simp: jle_def jlt_finite jeq_finite)

lemma jeq_refl_iff: "jeq a a \<longleftrightarrow> a \<noteq> NaN"
  by (cases a) (auto simp: jeq_def)

lemma jeq_sym: "jeq a b \<longleftrightarrow> jeq b a"
  by (cases a; cases b) (auto simp: jeq_def)

lemma jeq_trans: "jeq a b \<Longrightarrow> jeq b c \<Longrightarrow> jeq a c"
  by (cases a; cases b; cases c) (auto simp: jeq_def)

lemma jlt_irrefl [simp]: "\<not> jlt a a"
  by (cases a) (auto simp: jlt_def)

lemma jlt_trans: "jlt a b \<Longrightarrow> jlt b c \<Longrightarrow> jlt a c"
  by (cases a; cases b; cases c) (auto simp: jlt_def split: if_splits)

lemma jle_refl_iff: "jle a a \<longleftrightarrow> a \<noteq> NaN"
  by (simp add: jle_def jeq_refl_iff)

lemma jle_trans: "jle a b \<Longrightarrow> jle b c \<Longrightarrow> jle a c"
  by (cases a; cases b; cases c) (auto simp: jle_def jlt_def jeq_def split: if_splits)

lemma jle_total: "a \<noteq> NaN \<Longrightarrow> b \<noteq> NaN \<Longrightarrow> jle a b \<or> jle b a"
  by (cases a; cases b) (auto simp: jle_def jlt_def jeq_def)

lemma jle_antisym: "jle a b \<Longrightarrow> jle b a \<Longrightarrow> jeq a b"
  by (cases a; cases b) (auto simp: jle_def jlt_def jeq_def split: if_splits)

lemma not_jlt: "a \<noteq> NaN \<Longrightarrow> b \<noteq> NaN \<Longrightarrow> \<not> jlt a b \<longleftrightarrow> jle b a"
  by (cases a; cases b) (auto simp: jle_def jlt_def jeq_def)

subsection \<open>Arithmetic\<close>

fun neg_sign :: "jsnum \<Rightarrow> bool" where
  "neg_sign NaN = False"
| "neg_sign (Inf s) = s"
| "neg_sign NegZero = True"
| "neg_sign (Fin q) = (q < 0)"

fun jneg :: "jsnum \<Rightarrow> jsnum" where
  "jneg NaN = NaN"
| "jneg (Inf s) = Inf (\<not> s)"
| "jneg NegZero = Fin 0"
| "jneg (Fin q) = (if q = 0 then NegZero else Fin (- q))"

definition jadd :: "jsnum \<Rightarrow> jsnum \<Rightarrow> jsnum" where
  "jadd a b = (if a = NaN \<or> b = NaN then NaN
     else case a of
       Inf s \<Rightarrow> (case b of Inf t \<Rightarrow> if s = t then Inf s else NaN | _ \<Rightarrow> Inf s)
     | _ \<Rightarrow> (case b of Inf t \<Rightarrow> Inf t
         | _ \<Rightarrow> rnd (a = NegZero \<and> b = NegZero) (val a + val b)))"

definition jsub :: "jsnum \<Rightarrow> jsnum \<Rightarrow> jsnum" where
  "jsub a b = jadd a (jneg b)"

definition jmul :: "jsnum \<Rightarrow> jsnum \<Rightarrow> jsnum" where
  "jmul a b = (let s = (neg_sign a \<noteq> neg_sign b) in
     if a = NaN \<or> b = NaN then NaN
     else if \<not> is_finite a \<or> \<not> is_finite b then
       (if (is_finite a \<and> val a = 0) \<or> (is_finite b \<and> val b = 0) then NaN else Inf s)
     else rnd s (val a * val b))"

definition jdiv :: "jsnum \<Rightarrow> jsnum \<Rightarrow> jsnum" where
  "jdiv a b = (let s = (neg_sign a \<noteq> neg_sign b) in
     if a = NaN \<or> b = NaN then NaN
     else if \<not> is_finite a then (if is_finite b then Inf s else NaN)
     else if \<not> is_finite b then zero_of s
     else if val b = 0 then (if val a = 0 then NaN else Inf s)
     else rnd s (val a / val b))"

subsection \<open>Math\<close>

fun math_floor :: "jsnum \<Rightarrow> jsnum" where
  "math_floor (Fin q) = Fin (of_int \<lfloor>q\<rfloor>)"
| "math_floor x = x"

fun math_trunc :: "jsnum \<Rightarrow> jsnum" where
  "math_trunc (Fin q) = (if - 1 < q \<and> q < 0 then NegZero
     else Fin (of_int (if q < 0 then \<lceil>q\<rceil> else \<lfloor>q\<rfloor>)))"
| "math_trunc x = x"

fun math_round :: "jsnum \<Rightarrow> jsnum" where
  "math_round (Fin q) = (let f = \<lfloor>q + 1 / 2\<rfloor> in
     if f = 0 \<and> q < 0 then NegZero else Fin (of_int f))"
| "math_round x = x"

fun math_abs :: "jsnum \<Rightarrow> jsnum" where
  "math_abs (Fin q) = Fin \<bar>q\<bar>"
| "math_abs NegZero = Fin 0"
| "math_abs (Inf s) = Inf False"
| "math_abs NaN = NaN"

definition math_max :: "jsnum \<Rightarrow> jsnum \<Rightarrow> jsnum" where
  "math_max a b = (if a = NaN \<or> b = NaN then NaN
     else if jlt a b then b else if jlt b a then a
     else if a = NegZero then b else a)"

definition math_min :: "jsnum \<Rightarrow> jsnum \<Rightarrow> jsnum" where
  "math_min a b = (if a = NaN \<or> b = NaN then NaN
     else if jlt a b then a else if jlt b a then b
     else if a = NegZero then a else b)"

definition math_max_list :: "jsnum list \<Rightarrow> jsnum" where
  "math_max_list xs = fold (\<lambda>x m. math_max m x) xs (Inf True)"

definition math_min_list :: "jsnum list \<Rightarrow> jsnum" where
  "math_min_list xs = fold (\<lambda>x m. math_min m x) xs (Inf False)"

fun is_integer :: "jsnum \<Rightarrow> bool" where
  "is_integer (Fin q) = (of_int \<lfloor>q\<rfloor> = q)"
| "is_integer NegZero = True"
| "is_integer x = False"

definition num_truthy :: "jsnum \<Rightarrow> bool" where
  "num_truthy x \<longleftrightarrow> x \<noteq> NaN \<and> \<not> jeq x (Fin 0)"

definition jsum :: "jsnum list \<Rightarrow> jsnum" where
  "jsum xs = foldl jadd (Fin 0) xs"

lemma is_finite_jneg [simp]: "is_finite (jneg x) = is_finite x"
  by (cases x) auto

lemma val_jneg [simp]: "val (jneg x) = - val x"
  by (cases x) auto

lemma jadd_finite: "is_finite a \<Longrightarrow> is_finite b \<Longrightarrow>
    jadd a b = rnd (a = NegZero \<and> b = NegZero) (val a + val b)"
  by (cases a; cases b) (auto simp: jadd_def)

lemma jsub_finite: "is_finite a \<Longrightarrow> is_finite b \<Longrightarrow>
    jsub a b = rnd (a = NegZero \<and> jneg b = NegZero) (val a - val b)"
  by (simp add: jsub_def jadd_finite)

lemma jadd_int [js_num]:
  "\<bar>m + n\<bar> \<le> 2 ^ 53 \<Longrightarrow> jadd (Fin (of_int m)) (Fin (of_int n)) = Fin (of_int (m + n))"
  using rnd_int [of "m + n"] by (simp add: jadd_finite)

lemma min_int: "math_min (Fin (of_int a)) (Fin (of_int b)) = Fin (of_int (min a b))"
  by (auto simp: math_min_def jlt_def min_def)

lemma max_int: "math_max (Fin (of_int a)) (Fin (of_int b)) = Fin (of_int (max a b))"
  by (auto simp: math_max_def jlt_def max_def)

lemma jsub_int [js_num]:
  "\<bar>m - n\<bar> \<le> 2 ^ 53 \<Longrightarrow> jsub (Fin (of_int m)) (Fin (of_int n)) = Fin (of_int (m - n))"
  using rnd_int [of "m - n"] by (simp add: jsub_finite)

lemma math_max_cases: "math_max a b = a \<or> math_max a b = b \<or> math_max a b = NaN"
  by (auto simp: math_max_def)

lemma math_min_cases: "math_min a b = a \<or> math_min a b = b \<or> math_min a b = NaN"
  by (auto simp: math_min_def)

lemma math_max_finite [js_num]:
  assumes "is_finite a" "is_finite b"
  shows "is_finite (math_max a b)" "val (math_max a b) = max (val a) (val b)"
  using assms by (cases a; cases b; auto simp: math_max_def jlt_def)+

lemma math_min_finite [js_num]:
  assumes "is_finite a" "is_finite b"
  shows "is_finite (math_min a b)" "val (math_min a b) = min (val a) (val b)"
  using assms by (cases a; cases b; auto simp: math_min_def jlt_def)+

lemma math_max_NaN [simp]: "math_max NaN b = NaN" "math_max a NaN = NaN"
  by (auto simp: math_max_def)

lemma math_min_NaN [simp]: "math_min NaN b = NaN" "math_min a NaN = NaN"
  by (auto simp: math_min_def)

lemma math_max_ge:
  assumes "a \<noteq> NaN" "b \<noteq> NaN"
  shows "jle a (math_max a b)" "jle b (math_max a b)" "math_max a b \<noteq> NaN"
  using assms by (cases a; cases b; auto simp: math_max_def jle_def jlt_def jeq_def)+

lemma math_min_le:
  assumes "a \<noteq> NaN" "b \<noteq> NaN"
  shows "jle (math_min a b) a" "jle (math_min a b) b" "math_min a b \<noteq> NaN"
  using assms by (cases a; cases b; auto simp: math_min_def jle_def jlt_def jeq_def)+

subsection \<open>The sign of a difference\<close>

lemma is_double_finite: "is_double x \<Longrightarrow> is_finite x"
  by (simp add: is_double_def)

lemma is_double_int [js_num]: "\<bar>n\<bar> \<le> 2 ^ 53 \<Longrightarrow> is_double (Fin (of_int n))"
  by (simp add: is_double_def representable_int)

lemma double_gap:
  assumes "representable p" "representable q" "q < p"
  shows "2 powi (- 1074) \<le> p - q"
proof -
  obtain m n :: int where m: "p = of_int m * 2 powi (- 1074)" and n: "q = of_int n * 2 powi (- 1074)"
    using assms representable_multiple by meson
  have "n < m" using assms(3) by (simp add: m n)
  then have "1 \<le> (of_int (m - n) :: rat)" by simp
  then have "1 * 2 powi (- 1074) \<le> (of_int (m - n) :: rat) * 2 powi (- 1074)"
    by (intro mult_right_mono) auto
  then show ?thesis by (simp add: m n algebra_simps)
qed

lemma jsub_sign:
  assumes "is_double a" "is_double b"
  shows "jlt (Fin 0) (jsub a b) \<longleftrightarrow> val b < val a"
proof -
  have fin: "is_finite a" "is_finite b" using assms by (auto simp: is_double_def)
  consider "val a = val b" | "val b < val a" | "val a < val b" by linarith
  then show ?thesis
  proof cases
    case 1
    then show ?thesis using fin by (simp add: jsub_finite zero_of_def jlt_def)
  next
    case 2
    then have "0 < rnd_mag \<bar>val a - val b\<bar>"
      using assms double_gap [of "val a" "val b"] by (intro rnd_mag_pos) (auto simp: is_double_def)
    with 2 fin show ?thesis by (auto simp: jsub_finite rnd_def Let_def jlt_def)
  next
    case 3
    then have "0 < rnd_mag \<bar>val a - val b\<bar>"
      using assms double_gap [of "val b" "val a"] by (intro rnd_mag_pos) (auto simp: is_double_def)
    with 3 fin show ?thesis by (auto simp: jsub_finite rnd_def Let_def jlt_def)
  qed
qed

subsection \<open>The numbers of the language\<close>

text \<open>
  A number of the program is NaN, an infinity or a double. The data type has more rationals than
  there are doubles; every operation gives a number of the program (\<open>is_number\<close>), and the
  facts below that speak of order ask for one that is not NaN (\<open>is_float\<close>).
\<close>

definition is_number :: "jsnum \<Rightarrow> bool" where
  "is_number x \<longleftrightarrow> (is_finite x \<longrightarrow> representable (val x))"

definition is_float :: "jsnum \<Rightarrow> bool" where
  "is_float x \<longleftrightarrow> x \<noteq> NaN \<and> is_number x"

lemma is_double_float: "is_double x \<longleftrightarrow> is_float x \<and> is_finite x"
  by (cases x) (auto simp: is_double_def is_float_def is_number_def)

lemma is_float_consts [simp]: "is_float (Inf s)" "\<not> is_float NaN" "is_number NaN" "is_number (Inf s)"
  by (auto simp: is_float_def is_number_def)

lemma is_number_float: "is_number x \<Longrightarrow> x \<noteq> NaN \<Longrightarrow> is_float x"
  by (simp add: is_float_def)

lemma rnd_mag_representable:
  assumes "0 < q" and "rnd_mag q < 2 ^ 1024"
  shows "representable (rnd_mag q)"
proof -
  let ?u = "ulp_exp q" let ?r = "round_half_even (q / 2 powi ?u)"
  have L: "q < 2 powi (log2_rat q + 1)" using log2_rat_bounds [OF assms(1)] by simp
  have "q / 2 powi ?u \<le> of_int (2 ^ 53)"
  proof -
    have "(2::rat) powi (log2_rat q + 1) \<le> 2 powi (53 + ?u)" by (simp add: powi2_le ulp_exp_def)
    also have "\<dots> = of_int (2 ^ 53) * 2 powi ?u" by (simp add: powi2_add)
    finally show ?thesis using L by (simp add: pos_divide_le_eq)
  qed
  then have hi: "?r \<le> 2 ^ 53" by (rule round_half_even_le)
  have lo: "0 \<le> ?r" using assms(1) by (intro round_half_even_ge) simp
  have "\<bar>of_int ?r * 2 powi ?u :: rat\<bar> < 2 ^ 1024" using assms(2) lo by (simp add: rnd_mag_def abs_mult)
  moreover have "\<bar>?r\<bar> \<le> 2 ^ 53" using hi lo by simp
  ultimately show ?thesis
    using representableI [OF _ ulp_exp_ge, of ?r q] by (simp add: rnd_mag_def)
qed

lemma representable_minus [simp]: "representable (- q) = representable q"
  by (simp add: representable_def)

lemma zero_of_number [simp]: "is_number (zero_of s)" "is_number NegZero" "is_number (Fin 0)" "zero_of s \<noteq> NaN"
  by (auto simp: is_number_def zero_of_def representable_def)

lemma rnd_number [js_num, simp]: "is_number (rnd s q)"
proof (cases "q = 0")
  case False
  then have "0 < \<bar>q\<bar>" by simp
  from rnd_mag_representable [OF this] False show ?thesis
    by (auto simp: rnd_def Let_def not_le is_number_def zero_of_def representable_def)
qed simp

lemma rnd_not_NaN [simp]: "rnd s q \<noteq> NaN"
  by (simp add: rnd_def Let_def zero_of_def)

lemma jadd_number [js_num, simp]: "is_number (jadd a b)"
  by (auto simp: jadd_def split: jsnum.splits)

lemma jsub_number [js_num, simp]: "is_number (jsub a b)"
  by (simp add: jsub_def)

lemma jmul_number [js_num, simp]: "is_number (jmul a b)"
  by (simp add: jmul_def Let_def)

lemma jdiv_number [js_num, simp]: "is_number (jdiv a b)"
  by (simp add: jdiv_def Let_def)

lemma jneg_number [js_num, simp]: "is_number (jneg x) = is_number x"
  by (simp add: is_number_def)

lemma math_abs_number [js_num]: "is_number x \<Longrightarrow> is_number (math_abs x)"
  by (cases x) (auto simp: is_number_def representable_def)

lemma math_max_number [js_num]: "is_number a \<Longrightarrow> is_number b \<Longrightarrow> is_number (math_max a b)"
  by (auto simp: math_max_def)

lemma math_min_number [js_num]: "is_number a \<Longrightarrow> is_number b \<Longrightarrow> is_number (math_min a b)"
  by (auto simp: math_min_def)

lemma jsub_pos_float:
  assumes "is_float a" "is_float b"
  shows "jlt (Fin 0) (jsub a b) \<longleftrightarrow> jlt b a"
proof (cases "is_finite a \<and> is_finite b")
  case True
  with assms have "is_double a" "is_double b" by (auto simp: is_double_float)
  with jsub_sign True show ?thesis by (simp add: jlt_finite)
next
  case False
  with assms show ?thesis by (cases a; cases b) (auto simp: jsub_def jadd_def jlt_def is_float_def)
qed

text \<open>Rounding does not pass a double, so the difference of two doubles of one sign is finite.\<close>

lemma log2_rat_mono: "0 < x \<Longrightarrow> x \<le> y \<Longrightarrow> log2_rat x \<le> log2_rat y"
proof -
  assume "0 < x" "x \<le> y"
  then have "2 powi (log2_rat x) \<le> x" "y < 2 powi (log2_rat y + 1)"
    using log2_rat_bounds [of x] log2_rat_bounds [of y] by auto
  with \<open>x \<le> y\<close> have "(2::rat) powi (log2_rat x) < 2 powi (log2_rat y + 1)" by linarith
  then show ?thesis by (simp add: powi2_less)
qed

lemma rnd_mag_le:
  assumes "0 < x" "x \<le> M" "rnd_mag M = M"
  shows "rnd_mag x \<le> M"
proof -
  let ?u = "ulp_exp x" let ?v = "ulp_exp M" let ?m = "round_half_even (M / 2 powi ?v)"
  have uv: "?u \<le> ?v" using log2_rat_mono [OF assms(1,2)] by (simp add: ulp_exp_def)
  have "M = of_int ?m * 2 powi ?v" using assms(3) by (simp add: rnd_mag_def)
  also have "\<dots> = of_int ?m * (2 powi (?v - ?u) * 2 powi ?u)" by (simp only: powi2_add [symmetric]) simp
  also have "\<dots> = of_int (?m * 2 ^ nat (?v - ?u)) * 2 powi ?u" using uv by (simp add: powi2_nat)
  finally have M: "M = of_int (?m * 2 ^ nat (?v - ?u)) * 2 powi ?u" .
  have "x / 2 powi ?u \<le> of_int (?m * 2 ^ nat (?v - ?u))"
    using assms(2) by (subst (asm) M) (simp add: pos_divide_le_eq)
  then have "(of_int (round_half_even (x / 2 powi ?u)) :: rat) \<le> of_int (?m * 2 ^ nat (?v - ?u))"
    using round_half_even_le by (simp only: of_int_le_iff)
  then have "rnd_mag x \<le> of_int (?m * 2 ^ nat (?v - ?u)) * 2 powi ?u"
    unfolding rnd_mag_def by (intro mult_right_mono) auto
  with M show ?thesis by simp
qed

lemma rnd_finite:
  assumes "representable M" "\<bar>q\<bar> \<le> \<bar>M\<bar>"
  shows "is_finite (rnd s q)"
proof (cases "q = 0")
  case False
  then have "rnd_mag \<bar>M\<bar> = \<bar>M\<bar>" "\<bar>M\<bar> < 2 ^ 1024" using assms by (auto simp: representable_def)
  with rnd_mag_le [of "\<bar>q\<bar>" "\<bar>M\<bar>"] False assms(2) show ?thesis
    by (auto simp: rnd_def Let_def zero_of_def)
qed (simp add: zero_of_def)

lemma jsub_finite_nonneg:
  assumes "is_double a" "is_double b" "0 \<le> val a" "0 \<le> val b"
  shows "is_finite (jsub a b)"
proof -
  have f: "is_finite a" "is_finite b" "representable (val a)" "representable (val b)"
    using assms by (auto simp: is_double_def)
  have "\<bar>val a - val b\<bar> \<le> \<bar>val a\<bar> \<or> \<bar>val a - val b\<bar> \<le> \<bar>val b\<bar>" using assms(3,4) by linarith
  then show ?thesis using f rnd_finite by (auto simp: jsub_finite)
qed

text \<open>
  The comparators \<open>(a, b) => key a - key b\<close> and \<open>(a, b) => key b - key a\<close>: a
  result that is not above zero (NaN counts as zero) leaves the pair in place.
\<close>

definition before_asc :: "('a \<Rightarrow> jsnum) \<Rightarrow> 'a \<Rightarrow> 'a \<Rightarrow> bool" where
  "before_asc key a b \<longleftrightarrow> \<not> jlt (Fin 0) (jsub (key a) (key b))"

definition before_desc :: "('a \<Rightarrow> jsnum) \<Rightarrow> 'a \<Rightarrow> 'a \<Rightarrow> bool" where
  "before_desc key a b \<longleftrightarrow> \<not> jlt (Fin 0) (jsub (key b) (key a))"

lemma before_asc_double [js_num]:
  "is_double (key a) \<Longrightarrow> is_double (key b) \<Longrightarrow> before_asc key a b \<longleftrightarrow> val (key a) \<le> val (key b)"
  by (auto simp: before_asc_def jsub_sign)

lemma before_desc_double [js_num]:
  "is_double (key a) \<Longrightarrow> is_double (key b) \<Longrightarrow> before_desc key a b \<longleftrightarrow> val (key b) \<le> val (key a)"
  by (auto simp: before_desc_def jsub_sign)

lemma before_asc_float [js_num]:
  "is_float (key a) \<Longrightarrow> is_float (key b) \<Longrightarrow> before_asc key a b \<longleftrightarrow> jle (key a) (key b)"
  by (auto simp: before_asc_def jsub_pos_float not_jlt is_float_def)

lemma before_desc_float [js_num]:
  "is_float (key a) \<Longrightarrow> is_float (key b) \<Longrightarrow> before_desc key a b \<longleftrightarrow> jle (key b) (key a)"
  by (auto simp: before_desc_def jsub_pos_float not_jlt is_float_def)

interpretation asc: sort_order "before_asc key" "\<lambda>x. is_float (key x)" for key
proof
  fix x y z :: 'a
  assume "is_float (key x)" "is_float (key y)" "is_float (key z)" "before_asc key x y" "before_asc key y z"
  then show "before_asc key x z" using jle_trans by (auto simp: before_asc_float)
next
  fix x y :: 'a
  assume "is_float (key x)" "is_float (key y)"
  then show "before_asc key x y \<or> before_asc key y x"
    using jle_total by (auto simp: before_asc_float is_float_def)
qed

interpretation desc: sort_order "before_desc key" "\<lambda>x. is_float (key x)" for key
proof
  fix x y z :: 'a
  assume "is_float (key x)" "is_float (key y)" "is_float (key z)" "before_desc key x y" "before_desc key y z"
  then show "before_desc key x z" using jle_trans by (auto simp: before_desc_float)
next
  fix x y :: 'a
  assume "is_float (key x)" "is_float (key y)"
  then show "before_desc key x y \<or> before_desc key y x"
    using jle_total by (auto simp: before_desc_float is_float_def)
qed

subsection \<open>Numbers of moderate size\<close>

lemma rnd_mag_close: "0 < q \<Longrightarrow> q < 2 ^ 28 \<Longrightarrow> \<bar>rnd_mag q - q\<bar> \<le> 1 / 2 ^ 26"
proof -
  assume q: "0 < q" "q < 2 ^ 28"
  let ?u = "ulp_exp q" let ?p = "2 powi ?u :: rat"
  have "2 powi (log2_rat q) < (2 :: rat) powi 28" using log2_rat_bounds [OF q(1)] q(2) by (simp add: powi2_nat)
  then have "log2_rat q < 28" by (simp only: powi2_less)
  then have "?u \<le> - 25" by (simp add: ulp_exp_def)
  then have "?p \<le> 2 powi (- 25)" by (simp only: powi2_le)
  moreover have "\<bar>rnd_mag q - q\<bar> = \<bar>of_int (round_half_even (q / ?p)) - q / ?p\<bar> * ?p"
  proof -
    have "rnd_mag q - q = (of_int (round_half_even (q / ?p)) - q / ?p) * ?p" by (simp add: rnd_mag_def left_diff_distrib)
    then show ?thesis using powi2_pos [of ?u] by (simp only: abs_mult abs_of_pos)
  qed
  moreover have "\<dots> \<le> 1 / 2 * ?p" using round_half_even_close [of "q / ?p"] powi2_pos [of ?u] by (intro mult_right_mono) auto
  moreover have "1 / 2 * (2 :: rat) powi (- 25) = 1 / 2 ^ 26" by (simp add: power_int_minus divide_simps)
  ultimately show ?thesis by linarith
qed

lemma rnd_pos: "0 < q \<Longrightarrow> 0 < rnd_mag q \<Longrightarrow> rnd_mag q < 2 ^ 1024 \<Longrightarrow> rnd s q = Fin (rnd_mag q)"
  by (simp add: rnd_def Let_def)

lemma rnd_close:
  assumes "1 / 1000 \<le> q" and "q < 2 ^ 28"
  shows "\<exists>x. rnd s q = Fin x \<and> \<bar>x - q\<bar> \<le> 1 / 2 ^ 26"
proof -
  have close: "\<bar>rnd_mag q - q\<bar> \<le> 1 / 2 ^ 26" using assms by (intro rnd_mag_close) auto
  have "(1 / 2 ^ 26 :: rat) < 1 / 1000" by simp
  then have "0 < rnd_mag q" using close assms(1) by linarith
  moreover have "(2 ^ 28 + 1 :: rat) < 2 ^ 1024" using two_pow_1024 by simp
  moreover have "rnd_mag q < 2 ^ 28 + 1"
    using abs_le_D1 [OF close] assms(2) by (simp only: diff_le_eq) (simp add: field_simps)
  ultimately have "0 < rnd_mag q" "rnd_mag q < 2 ^ 1024" by (simp_all only: less_trans)
  then show ?thesis using close assms(1) by (intro exI [of _ "rnd_mag q"]) (simp add: rnd_pos)
qed

end
