(* ===== verification/JsNumText.thy ===== *)
theory JsNumText
  imports JsNumber
begin

text \<open>
  The text of numbers: \<open>String(x)\<close> (the shortest decimal that reads back, in the layouts
  of \<open>Number::toString\<close>), \<open>Number(s)\<close>, \<open>parseFloat(s)\<close> and \<open>toFixed\<close>. The main result
  is that a finite double reads back from its text (\<open>num_text_back\<close>): seventeen digits are
  enough (\<open>seventeen_enough\<close>), so the search for the shortest text always succeeds. The
  order book of the gateway hook keys its levels by this text.
\<close>

subsection \<open>Printing\<close>

definition dec_exp :: "rat \<Rightarrow> int" where
  "dec_exp q = (if 1 \<le> q then int (length (int_text \<lfloor>q\<rfloor>))
     else 1 - int (length (int_text (\<lceil>1 / q\<rceil> - 1))))"

text \<open>The \<open>k\<close>-digit decimal \<open>s * 10 powi (n - k)\<close> closest to \<open>q\<close>.\<close>

definition dec_candidate :: "rat \<Rightarrow> nat \<Rightarrow> int \<times> int" where
  "dec_candidate q k = (let n = dec_exp q; s = round_half_even (q * 10 powi (int k - n))
     in if s = 10 ^ k then (10 ^ (k - 1), n + 1) else (s, n))"

definition reads_back :: "rat \<Rightarrow> nat \<Rightarrow> bool" where
  "reads_back q k = (let (s, n) = dec_candidate q k in rnd_mag (of_int s * 10 powi (n - int k)) = q)"

definition shortest_len :: "rat \<Rightarrow> nat" where
  "shortest_len q = (case find (reads_back q) [1..<18] of None \<Rightarrow> 17 | Some k \<Rightarrow> k)"

definition dec_layout :: "string \<Rightarrow> int \<Rightarrow> string" where
  "dec_layout ds n = (let k = int (length ds) in
     if k \<le> n \<and> n \<le> 21 then ds @ replicate (nat (n - k)) (CHR ''0'')
     else if 0 < n \<and> n \<le> 21 then take (nat n) ds @ CHR ''.'' # drop (nat n) ds
     else if - 6 < n \<and> n \<le> 0 then ''0.'' @ replicate (nat (- n)) (CHR ''0'') @ ds
     else (let e = n - 1; es = (if e < 0 then ''-'' else ''+'') @ int_text \<bar>e\<bar> in
       if k = 1 then ds @ CHR ''e'' # es
       else take 1 ds @ CHR ''.'' # drop 1 ds @ CHR ''e'' # es))"

definition pos_text :: "rat \<Rightarrow> string" where
  "pos_text q = (let k = shortest_len q; (s, n) = dec_candidate q k
     in dec_layout (int_text s) n)"

fun num_text :: "jsnum \<Rightarrow> string" where
  "num_text NaN = ''NaN''"
| "num_text (Inf s) = (if s then ''-Infinity'' else ''Infinity'')"
| "num_text NegZero = ''0''"
| "num_text (Fin q) = (if q = 0 then ''0''
     else if q < 0 then CHR ''-'' # pos_text (- q) else pos_text q)"

subsection \<open>Reading\<close>

definition span_digits :: "string \<Rightarrow> string \<times> string" where
  "span_digits s = (takeWhile is_digit s, dropWhile is_digit s)"

definition scan_fraction :: "string \<Rightarrow> string \<times> string" where
  "scan_fraction s = (case s of c # t \<Rightarrow> if c = CHR ''.'' then span_digits t else ([], s)
     | [] \<Rightarrow> ([], []))"

definition scan_exponent :: "string \<Rightarrow> int \<times> string" where
  "scan_exponent s = (case s of [] \<Rightarrow> (0, [])
     | c # t \<Rightarrow> if c = CHR ''e'' \<or> c = CHR ''E'' then
         (let sg = (case t of [] \<Rightarrow> False | d # u \<Rightarrow> d = CHR ''+'' \<or> d = CHR ''-'');
              neg = (t \<noteq> [] \<and> hd t = CHR ''-'');
              (ds, r) = span_digits (if sg then tl t else t)
          in if ds = [] then (0, s) else ((if neg then - 1 else 1) * text_int ds, r))
       else (0, s))"

text \<open>The longest decimal literal at the start of a text, and what follows it.\<close>

definition scan_decimal :: "string \<Rightarrow> (rat \<times> string) option" where
  "scan_decimal s = (let (ip, r1) = span_digits s; (fp, r2) = scan_fraction r1 in
     if ip = [] \<and> fp = [] then None
     else let (e, r3) = scan_exponent r2 in
       Some (of_int (text_int (ip @ fp)) * 10 powi (e - int (length fp)), r3))"

definition scan_sign :: "string \<Rightarrow> bool \<times> string" where
  "scan_sign s = (case s of c # t \<Rightarrow> if c = CHR ''-'' then (True, t)
       else if c = CHR ''+'' then (False, t) else (False, s) | [] \<Rightarrow> (False, []))"

definition signed_num :: "bool \<Rightarrow> rat \<Rightarrow> jsnum" where
  "signed_num neg v = rnd neg (if neg then - v else v)"

definition radix_val :: "char \<Rightarrow> nat" where
  "radix_val c = (let n = of_char c :: nat in
     if 48 \<le> n \<and> n \<le> 57 then n - 48
     else if 97 \<le> n \<and> n \<le> 102 then n - 87
     else if 65 \<le> n \<and> n \<le> 70 then n - 55 else 99)"

definition radix_number :: "nat \<Rightarrow> string \<Rightarrow> jsnum" where
  "radix_number b ds = (if ds = [] \<or> (\<exists>c\<in>set ds. b \<le> radix_val c) then NaN
     else rnd False (of_int (fold (\<lambda>c a. int b * a + int (radix_val c)) ds 0)))"

definition string_number :: "string \<Rightarrow> jsnum" where
  "string_number s = (let t = trim s; (neg, u) = scan_sign t in
     if t = [] then Fin 0
     else if starts_with ''0x'' t \<or> starts_with ''0X'' t then radix_number 16 (drop 2 t)
     else if starts_with ''0o'' t \<or> starts_with ''0O'' t then radix_number 8 (drop 2 t)
     else if starts_with ''0b'' t \<or> starts_with ''0B'' t then radix_number 2 (drop 2 t)
     else if u = ''Infinity'' then Inf neg
     else case scan_decimal u of
       Some (v, r) \<Rightarrow> if r = [] then signed_num neg v else NaN
     | None \<Rightarrow> NaN)"

definition parse_float :: "string \<Rightarrow> jsnum" where
  "parse_float s = (let (neg, u) = scan_sign (dropWhile is_space s) in
     if starts_with ''Infinity'' u then Inf neg
     else case scan_decimal u of Some (v, r) \<Rightarrow> signed_num neg v | None \<Rightarrow> NaN)"

subsection \<open>Fixed notation\<close>

definition fixed_digits :: "int \<Rightarrow> nat \<Rightarrow> string" where
  "fixed_digits n d = (let t = int_text n; u = replicate (Suc d - length t) (CHR ''0'') @ t in
     if d = 0 then u else take (length u - d) u @ CHR ''.'' # drop (length u - d) u)"

text \<open>\<open>toFixed(d)\<close>: the exact value, ties away from zero, below \<open>10 ^ 21\<close>.\<close>

definition to_fixed :: "nat \<Rightarrow> jsnum \<Rightarrow> string" where
  "to_fixed d x = (if \<not> is_finite x \<or> 10 ^ 21 \<le> \<bar>val x\<bar> then num_text x
     else (if val x < 0 then ''-'' else []) @ fixed_digits \<lfloor>\<bar>val x\<bar> * 10 ^ d + 1 / 2\<rfloor> d)"

subsection \<open>Rounding near a double\<close>

lemma rnd_mag_same_ulp:
  assumes "q = of_int r * 2 powi u" and "ulp_exp y = u" and "\<bar>y - q\<bar> < 2 powi u / 2"
  shows "rnd_mag y = q"
proof -
  have "y / 2 powi u - of_int r = (y - q) / 2 powi u" by (simp add: assms(1) diff_divide_distrib)
  then have "\<bar>y / 2 powi u - of_int r\<bar> < 1 / 2"
    using assms(3) by (simp add: abs_divide divide_less_eq)
  with round_half_even_close [of "y / 2 powi u"]
  have "\<bar>of_int (round_half_even (y / 2 powi u)) - (of_int r :: rat)\<bar> < 1" by linarith
  then have "\<bar>of_int (round_half_even (y / 2 powi u) - r) :: rat\<bar> < 1" by simp
  then have "round_half_even (y / 2 powi u) = r" by linarith
  then show ?thesis using assms(1,2) by (simp add: rnd_mag_def)
qed

lemma int_below: "of_int a < (of_int b :: rat) \<Longrightarrow> of_int a + 1 \<le> (of_int b :: rat)"
  by (metis of_int_1 of_int_add of_int_le_iff of_int_less_iff zless_imp_add1_zle)

lemma rnd_mag_near:
  assumes q0: "0 < q" and rq: "rnd_mag q = q" and near: "\<bar>y - q\<bar> < q * 2 powi (- 54)"
  shows "rnd_mag y = q"
proof -
  let ?L = "log2_rat q" and ?u = "ulp_exp q"
  let ?r = "round_half_even (q / 2 powi ?u)"
  have L: "2 powi ?L \<le> q" "q < 2 powi (?L + 1)" using log2_rat_bounds [OF q0] by auto
  have uge: "?L - 52 \<le> ?u" by (simp add: ulp_exp_def)
  have qr: "q = of_int ?r * 2 powi ?u" using rq by (simp add: rnd_mag_def)
  have y0: "0 < y" proof -
    have "q * 2 powi (- 54) < q * 1" using q0 powi2_less [of "-54" 0] by (intro mult_strict_left_mono) auto
    with near show ?thesis by linarith
  qed
  have half: "\<bar>y - q\<bar> < 2 powi ?u / 2"
  proof -
    have "q * 2 powi (- 54) < 2 powi (?L + 1) * 2 powi (- 54)" using L(2) by simp
    also have "\<dots> = 2 powi (?L - 53)" by (simp only: powi2_add [symmetric]) simp
    also have "\<dots> \<le> 2 powi (?u - 1)" using uge by (simp add: powi2_le)
    also have "\<dots> = 2 powi ?u / 2" by (simp add: powi2_diff)
    finally show ?thesis using near by linarith
  qed
  show ?thesis
  proof (cases "y < 2 powi ?L")
    case False
    have "y < 2 powi (?L + 1)"
    proof (cases "?u \<le> ?L + 1")
      case True
      have "(2::rat) powi (?L + 1) = of_int (2 ^ nat (?L + 1 - ?u)) * 2 powi ?u"
        using True powi2_add [of "?L + 1 - ?u" ?u] by (simp add: powi2_nat)
      then have "of_int ?r * 2 powi ?u < of_int (2 ^ nat (?L + 1 - ?u)) * (2::rat) powi ?u"
        using L(2) qr by linarith
      then have "(of_int ?r :: rat) < of_int (2 ^ nat (?L + 1 - ?u))" by simp
      then have "(of_int ?r + 1) * 2 powi ?u \<le> of_int (2 ^ nat (?L + 1 - ?u)) * (2::rat) powi ?u"
        by (intro mult_right_mono int_below) auto
      then have "q + 2 powi ?u \<le> 2 powi (?L + 1)"
        using qr \<open>2 powi (?L + 1) = _\<close> by (simp add: distrib_right)
      with half powi2_pos [of ?u] show ?thesis by linarith
    next
      case False
      have "1 \<le> ?r"
      proof (rule ccontr)
        assume "\<not> 1 \<le> ?r"
        then have "of_int ?r * 2 powi ?u \<le> (0::rat)" by (simp add: mult_le_0_iff)
        with qr q0 show False by linarith
      qed
      then have "1 * 2 powi ?u \<le> of_int ?r * (2::rat) powi ?u" by (intro mult_right_mono) auto
      with qr have "2 powi ?u \<le> q" by simp
      with L(2) have "2 powi ?u < (2::rat) powi (?L + 1)" by linarith
      with False show ?thesis by (simp add: powi2_less)
    qed
    with False have "log2_rat y = ?L" by (intro log2_rat_unique) auto
    then have "ulp_exp y = ?u" by (simp add: ulp_exp_def)
    with qr half show ?thesis by (intro rnd_mag_same_ulp) auto
  next
    case True
    have "\<bar>y - q\<bar> < 2 powi ?L"
    proof -
      have "q * 2 powi (- 54) < 2 powi (?L + 1) * 2 powi (- 54)" using L(2) by simp
      also have "\<dots> = 2 powi (?L - 53)" by (simp only: powi2_add [symmetric]) simp
      also have "\<dots> \<le> 2 powi (?L - 1)" by (simp add: powi2_le)
      finally have a: "\<bar>y - q\<bar> < 2 powi (?L - 1)" using near by linarith
      also have "\<dots> < 2 powi ?L" by (simp add: powi2_less)
      finally show ?thesis .
    qed
    show ?thesis
    proof (cases "?u = - 1074 \<and> ?L - 52 < - 1074")
      case sub: True
      have "log2_rat y \<le> ?L" using log2_rat_bounds [OF y0] True powi2_less [of "log2_rat y" ?L] by linarith
      then have "ulp_exp y = ?u" using sub by (simp add: ulp_exp_def)
      with qr half show ?thesis by (intro rnd_mag_same_ulp) auto
    next
      case False
      then have u: "?u = ?L - 52" by (auto simp: ulp_exp_def max_def split: if_splits)
      have two52: "(2::rat) powi ?L = of_int (2 ^ 52) * 2 powi ?u"
        unfolding u using powi2_add [of 52 "?L - 52"] by simp
      have "\<not> of_int (2 ^ 52) < (of_int ?r :: rat)"
      proof
        assume "of_int (2 ^ 52) < (of_int ?r :: rat)"
        then have "(of_int (2 ^ 52) + 1) * 2 powi ?u \<le> of_int ?r * (2::rat) powi ?u"
          by (intro mult_right_mono int_below) auto
        then have "2 powi ?L + 2 powi ?u \<le> q" using qr two52 by (simp add: distrib_right)
        with True half powi2_pos [of ?u] show False by linarith
      qed
      then have "of_int ?r * 2 powi ?u \<le> of_int (2 ^ 52) * (2::rat) powi ?u"
        by (intro mult_right_mono) auto
      then have qL: "q = 2 powi ?L" using qr two52 L(1) by linarith
      have d: "\<bar>y - q\<bar> < 2 powi (?L - 54)"
        using near qL powi2_add [of ?L "- 54"] by simp
      have "2 powi (?L - 1) \<le> y"
      proof -
        have "(2::rat) powi (?L - 54) \<le> 2 powi (?L - 1)" by (simp add: powi2_le)
        moreover have "(2::rat) powi ?L = 2 * 2 powi (?L - 1)" using powi2_add [of 1 "?L - 1"] by simp
        ultimately show ?thesis using d qL by linarith
      qed
      with True have ly: "log2_rat y = ?L - 1" by (intro log2_rat_unique) auto
      show ?thesis
      proof (cases "?L - 53 \<ge> - 1074")
        case True
        with ly have uy: "ulp_exp y = ?L - 53" by (simp add: ulp_exp_def)
        have "q = of_int (2 ^ 53) * 2 powi (?L - 53)" using qL powi2_add [of 53 "?L - 53"] by simp
        moreover have "2 powi (?L - 54) = (2::rat) powi (?L - 53) / 2"
          using powi2_add [of 1 "?L - 54"] by simp
        ultimately show ?thesis using d uy by (intro rnd_mag_same_ulp [where r = "2 ^ 53"]) auto
      next
        case False
        with u ulp_exp_ge [of q] have "?u = - 1074" by linarith
        with ly u have "ulp_exp y = ?u" by (simp add: ulp_exp_def)
        with qr half show ?thesis by (intro rnd_mag_same_ulp) auto
      qed
    qed
  qed
qed


subsection \<open>Decimal exponents\<close>

lemma int_text_length: "1 \<le> n \<Longrightarrow>
    10 ^ (length (int_text n) - 1) \<le> n \<and> n < 10 ^ length (int_text n)"
proof (induction n rule: int_text.induct)
  case (1 n)
  show ?case
  proof (cases "n < 10")
    case True
    with "1.prems" show ?thesis by (simp add: int_text.simps)
  next
    case False
    obtain l where l: "length (int_text (n div 10)) = Suc l"
      using int_text_nonempty [of "n div 10"] by (cases "int_text (n div 10)") auto
    with 1 False have "10 ^ l \<le> n div 10" "n div 10 < 10 ^ Suc l" by auto
    with False l show ?thesis by (simp add: int_text.simps [of n]) linarith
  qed
qed

lemma powi10_add: "(10::rat) powi (a + b) = 10 powi a * 10 powi b"
  by (simp add: power_int_add)

lemma powi10_nat: "(10::rat) powi (int n) = of_int (10 ^ n)"
  by (simp add: power_int_def)

lemma dec_exp_bounds:
  assumes "0 < q"
  shows "10 powi (dec_exp q - 1) \<le> q \<and> q < 10 powi (dec_exp q)"
proof (cases "1 \<le> q")
  case True
  let ?k = "length (int_text \<lfloor>q\<rfloor>)"
  have k: "10 ^ (?k - 1) \<le> \<lfloor>q\<rfloor>" "\<lfloor>q\<rfloor> < 10 ^ ?k" using int_text_length [of "\<lfloor>q\<rfloor>"] True by auto
  have kp: "1 \<le> ?k" using int_text_nonempty [of "\<lfloor>q\<rfloor>"] by (simp add: Suc_le_eq)
  have "of_int (10 ^ (?k - 1)) \<le> q" using k(1) by linarith
  moreover have "q < of_int (10 ^ ?k)" using k(2) by linarith
  moreover have "int ?k - 1 = int (?k - 1)" using kp by simp
  ultimately show ?thesis using True by (simp only: dec_exp_def if_True powi10_nat simp_thms)
next
  case False
  let ?c = "\<lceil>1 / q\<rceil> - 1"
  let ?k = "length (int_text ?c)"
  have "1 < 1 / q" using False assms by simp
  then have c: "1 \<le> ?c" by linarith
  have k: "10 ^ (?k - 1) \<le> ?c" "?c < 10 ^ ?k" using int_text_length [OF c] by auto
  have kp: "1 \<le> ?k" using int_text_nonempty [of ?c] by (simp add: Suc_le_eq)
  have hi: "1 / q \<le> of_int (10 ^ ?k)" using k(2) by linarith
  have lo: "of_int (10 ^ (?k - 1)) < 1 / q" using k(1) by linarith
  have "10 powi (- int ?k) \<le> q"
  proof -
    have "1 \<le> 10 powi (int ?k) * q" using hi assms by (simp add: field_simps powi10_nat)
    then have "10 powi (- int ?k) * 1 \<le> 10 powi (- int ?k) * (10 powi (int ?k) * q)"
      by (intro mult_left_mono) auto
    also have "\<dots> = q" by (simp add: power_int_minus)
    finally show ?thesis by simp
  qed
  moreover have "q < 10 powi (1 - int ?k)"
  proof -
    have "10 powi (int (?k - 1)) * q < 1" using lo assms by (simp add: field_simps powi10_nat)
    then have "10 powi (- int (?k - 1)) * (10 powi (int (?k - 1)) * q) < 10 powi (- int (?k - 1)) * 1"
      by (intro mult_strict_left_mono) auto
    moreover have "10 powi (- int (?k - 1)) * (10 powi (int (?k - 1)) * q) = q"
      by (simp add: power_int_minus)
    moreover have "- int (?k - 1) = 1 - int ?k" using kp by simp
    ultimately show ?thesis by (metis mult.right_neutral)
  qed
  ultimately show ?thesis using False by (simp add: dec_exp_def)
qed

lemma dec_candidate_bounds:
  assumes "0 < q" and "1 \<le> k" and "dec_candidate q k = (s, n)"
  shows "10 ^ (k - 1) \<le> s \<and> s < 10 ^ k"
proof -
  let ?n = "dec_exp q" let ?x = "q * 10 powi (int k - dec_exp q)"
  have b: "10 powi (?n - 1) \<le> q" "q < 10 powi ?n" using dec_exp_bounds [OF assms(1)] by auto
  have lo: "of_int (10 ^ (k - 1)) \<le> ?x"
  proof -
    have "10 powi (?n - 1) * 10 powi (int k - ?n) \<le> ?x" using b(1) by (intro mult_right_mono) auto
    moreover have "10 powi (?n - 1) * 10 powi (int k - ?n) = (10::rat) powi (int (k - 1))"
      using assms(2) by (simp only: powi10_add [symmetric]) (simp add: of_nat_diff)
    ultimately show ?thesis by (simp only: powi10_nat)
  qed
  have hi: "?x \<le> of_int (10 ^ k)"
  proof -
    have "?x \<le> 10 powi ?n * 10 powi (int k - ?n)" using b(2) by (intro mult_right_mono) auto
    moreover have "10 powi ?n * 10 powi (int k - ?n) = (10::rat) powi (int k)"
      by (simp only: powi10_add [symmetric]) simp
    ultimately show ?thesis by (simp only: powi10_nat)
  qed
  have r: "10 ^ (k - 1) \<le> round_half_even ?x" "round_half_even ?x \<le> 10 ^ k"
    using round_half_even_ge [OF lo] round_half_even_le [OF hi] by auto
  have "(10::int) ^ (k - 1) < 10 ^ k" using assms(2) by (intro power_strict_increasing) auto
  with r assms(3) show ?thesis
    by (auto simp: dec_candidate_def Let_def split: if_splits)
qed

text \<open>The value of a candidate: the nearest \<open>k\<close>-digit decimal.\<close>

lemma dec_candidate_val:
  assumes "1 \<le> k" and "dec_candidate q k = (s, n)"
  shows "of_int s * 10 powi (n - int k) =
     of_int (round_half_even (q * 10 powi (int k - dec_exp q))) * (10::rat) powi (dec_exp q - int k)"
proof (cases "round_half_even (q * 10 powi (int k - dec_exp q)) = 10 ^ k")
  case True
  then have sn: "s = 10 ^ (k - 1)" "n = dec_exp q + 1"
    using assms(2) by (auto simp: dec_candidate_def Let_def)
  have "(10::rat) ^ (k - 1) * 10 powi (dec_exp q + 1 - int k) = 10 ^ k * 10 powi (dec_exp q - int k)"
    using assms(1) powi10_add [of 1 "dec_exp q - int k"] power_Suc [of "10::rat" "k - 1"]
    by (simp add: algebra_simps)
  with True sn show ?thesis by simp
next
  case False
  with assms(2) show ?thesis by (auto simp: dec_candidate_def Let_def)
qed

lemma seventeen_enough:
  assumes q0: "0 < q" and rq: "rnd_mag q = q"
  shows "reads_back q 17"
proof -
  obtain s n where sn: "dec_candidate q 17 = (s, n)" by (cases "dec_candidate q 17")
  let ?e = "dec_exp q" let ?r = "round_half_even (q * 10 powi (17 - ?e))"
  let ?y = "of_int ?r * (10::rat) powi (?e - 17)"
  have "?y - q = (of_int ?r - q * 10 powi (17 - ?e)) * 10 powi (?e - 17)"
    using powi10_add [of "17 - ?e" "?e - 17"] by (simp add: left_diff_distrib mult.assoc)
  then have "\<bar>?y - q\<bar> = \<bar>of_int ?r - q * 10 powi (17 - ?e)\<bar> * 10 powi (?e - 17)"
    by (simp add: abs_mult)
  also have "\<dots> \<le> 1 / 2 * 10 powi (?e - 17)"
    by (intro mult_right_mono round_half_even_close) auto
  also have "\<dots> = 10 powi (?e - 1) * (1 / (2 * 10 ^ 16))"
    using powi10_add [of "?e - 17" 16] by simp
  also have "\<dots> \<le> q * (1 / (2 * 10 ^ 16))"
    using dec_exp_bounds [OF q0] by (intro mult_right_mono) auto
  also have "\<dots> < q * 2 powi (- 54)"
    using q0 by (intro mult_strict_left_mono) (auto simp: power_int_minus)
  finally have "rnd_mag ?y = q" by (rule rnd_mag_near [OF q0 rq])
  with dec_candidate_val [of 17 q s n] sn show ?thesis by (simp add: reads_back_def)
qed

lemma shortest_len_reads_back:
  assumes "0 < q" and "rnd_mag q = q"
  shows "reads_back q (shortest_len q)" and "1 \<le> shortest_len q" and "shortest_len q \<le> 17"
proof -
  have "(17::nat) \<in> set [1..<18]" by (simp only: set_upt) simp
  from find_exists [where P = "reads_back q", OF this seventeen_enough [OF assms]] obtain k where
    "find (reads_back q) [1..<18] = Some k" "k \<in> set [1..<18]" "reads_back q k" by blast
  moreover have "1 \<le> k \<and> k \<le> 17" using \<open>k \<in> set [1..<18]\<close> by (simp only: set_upt) simp
  ultimately show "reads_back q (shortest_len q)" "1 \<le> shortest_len q" "shortest_len q \<le> 17"
    by (simp_all only: shortest_len_def option.case)
qed

subsection \<open>A number reads back from its text\<close>

lemma fold_digits: "fold (\<lambda>c a. 10 * a + int (digit_val c)) s a
    = a * 10 ^ length s + text_int s"
proof (induction s rule: rev_induct)
  case (snoc c s)
  then show ?case by (simp add: text_int_def)
qed (simp add: text_int_def)

lemma text_int_append: "text_int (s @ t) = text_int s * 10 ^ length t + text_int t"
  using fold_digits [of t "text_int s"] by (simp add: text_int_def)

lemma text_int_zeros [js_text, simp]: "text_int (replicate n (CHR ''0'')) = 0"
  by (induction n) (simp_all add: text_int_def digit_val_def)

lemma span_digits_append:
  assumes "list_all is_digit ds" and "r = [] \<or> \<not> is_digit (hd r)"
  shows "span_digits (ds @ r) = (ds, r)"
proof -
  have "takeWhile is_digit r = []" "dropWhile is_digit r = r" using assms(2) by (cases r; auto)+
  with assms(1) show ?thesis
    by (simp add: span_digits_def list_all_iff takeWhile_append2 dropWhile_append2)
qed

lemma int_text_list_all [js_text, simp]: "0 \<le> n \<Longrightarrow> list_all is_digit (int_text n)"
  by (simp add: list_all_iff int_text_digits)

lemma not_digits [js_text, simp]:
  "\<not> is_digit (CHR ''.'')" "\<not> is_digit (CHR ''e'')" "\<not> is_digit (CHR ''E'')"
  "\<not> is_digit (CHR ''-'')" "\<not> is_digit (CHR ''+'')" "is_digit (CHR ''0'')"
  by (simp_all add: is_digit_def)

lemma scan_exponent_text:
  "scan_exponent (CHR ''e'' # (if e < 0 then ''-'' else ''+'') @ int_text \<bar>e\<bar>) = (e, [])"
  using span_digits_append [of "int_text \<bar>e\<bar>" "[]"]
  by (auto simp: scan_exponent_def Let_def)

lemma scan_decimal_parts:
  assumes "list_all is_digit ip" and "list_all is_digit fp" and "ip \<noteq> []" and "fp \<noteq> []"
    and "r = [] \<or> \<not> is_digit (hd r)" and "scan_exponent r = (e, [])"
  shows "scan_decimal (ip @ CHR ''.'' # fp @ r)
     = Some (of_int (text_int (ip @ fp)) * 10 powi (e - int (length fp)), [])"
  using assms span_digits_append [of ip "CHR ''.'' # fp @ r"] span_digits_append [of fp r]
  by (simp add: scan_decimal_def scan_fraction_def)

lemma scan_decimal_whole:
  assumes "list_all is_digit ip" and "ip \<noteq> []"
    and "r = [] \<or> (\<not> is_digit (hd r) \<and> hd r \<noteq> CHR ''.'')" and "scan_exponent r = (e, [])"
  shows "scan_decimal (ip @ r) = Some (of_int (text_int ip) * 10 powi e, [])"
  using assms span_digits_append [of ip r]
  by (cases r) (auto simp: scan_decimal_def scan_fraction_def)

lemma scan_dec_layout:
  assumes ds: "list_all is_digit ds" and ne: "ds \<noteq> []"
  shows "scan_decimal (dec_layout ds n) = Some (of_int (text_int ds) * 10 powi (n - int (length ds)), [])"
proof -
  let ?k = "int (length ds)"
  have k1: "1 \<le> ?k" using ne by (cases ds) auto
  have e0: "scan_exponent [] = (0, [])" by (simp add: scan_exponent_def)
  consider (a) "?k \<le> n" "n \<le> 21" | (b) "\<not> (?k \<le> n \<and> n \<le> 21)" "0 < n" "n \<le> 21"
    | (c) "- 6 < n" "n \<le> 0" | (d) "\<not> (0 < n \<and> n \<le> 21)" "\<not> (- 6 < n \<and> n \<le> 0)" by linarith
  then show ?thesis
  proof cases
    case a
    have "list_all is_digit (ds @ replicate (nat (n - ?k)) (CHR ''0''))" using ds by (auto simp: list_all_iff)
    from scan_decimal_whole [OF this _ _ e0] ne a
    have "scan_decimal (dec_layout ds n) = Some (of_int (text_int (ds @ replicate (nat (n - ?k)) (CHR ''0''))), [])"
      by (simp add: dec_layout_def Let_def)
    moreover have "(10::rat) ^ nat (n - ?k) = 10 powi (n - ?k)" using a by (simp add: power_int_def)
    ultimately show ?thesis by (simp add: text_int_append)
  next
    case b
    have "list_all is_digit (take (nat n) ds)" "list_all is_digit (drop (nat n) ds)"
      using ds by (auto simp: list_all_iff dest: in_set_takeD in_set_dropD)
    moreover have "take (nat n) ds \<noteq> []" "drop (nat n) ds \<noteq> []" using b ne by auto
    ultimately have "scan_decimal (take (nat n) ds @ CHR ''.'' # drop (nat n) ds @ [])
      = Some (of_int (text_int (take (nat n) ds @ drop (nat n) ds)) * 10 powi (0 - int (length (drop (nat n) ds))), [])"
      using e0 by (intro scan_decimal_parts) auto
    with b show ?thesis by (simp add: dec_layout_def Let_def of_nat_diff)
  next
    case c
    have "list_all is_digit (replicate (nat (- n)) (CHR ''0'') @ ds)" using ds by (auto simp: list_all_iff)
    then have "scan_decimal (''0'' @ CHR ''.'' # (replicate (nat (- n)) (CHR ''0'') @ ds) @ [])
      = Some (of_int (text_int (''0'' @ (replicate (nat (- n)) (CHR ''0'') @ ds)))
         * 10 powi (0 - int (length (replicate (nat (- n)) (CHR ''0'') @ ds))), [])"
      using e0 ne by (intro scan_decimal_parts) auto
    moreover have "text_int (''0'' @ (replicate (nat (- n)) (CHR ''0'') @ ds)) = text_int ds"
      using text_int_append [of "replicate (Suc (nat (- n))) (CHR ''0'')" ds] text_int_zeros [of "Suc (nat (- n))"]
      by simp
    ultimately show ?thesis using c k1 by (simp add: dec_layout_def Let_def)
  next
    case d
    let ?r = "CHR ''e'' # (if n - 1 < 0 then ''-'' else ''+'') @ int_text \<bar>n - 1\<bar>"
    have big: "dec_layout ds n = (if ?k = 1 then ds @ ?r else take 1 ds @ CHR ''.'' # drop 1 ds @ ?r)"
    proof -
      have "\<not> (?k \<le> n \<and> n \<le> 21)" using d k1 by linarith
      with d show ?thesis by (simp only: dec_layout_def Let_def if_False)
    qed
    show ?thesis
    proof (cases "?k = 1")
      case True
      with scan_decimal_whole [OF ds ne _ scan_exponent_text [of "n - 1"]] big show ?thesis by simp
    next
      case False
      have "list_all is_digit (take 1 ds)" "list_all is_digit (drop 1 ds)"
        using ds by (auto simp: list_all_iff dest: in_set_takeD in_set_dropD)
      moreover have "take 1 ds \<noteq> []" "drop 1 ds \<noteq> []" using False k1 by auto
      ultimately have "scan_decimal (take 1 ds @ CHR ''.'' # drop 1 ds @ ?r)
        = Some (of_int (text_int (take 1 ds @ drop 1 ds)) * 10 powi (n - 1 - int (length (drop 1 ds))), [])"
        by (intro scan_decimal_parts scan_exponent_text) auto
      with big False k1 show ?thesis by (simp add: of_nat_diff del: drop_Suc)
    qed
  qed
qed


definition text_chars :: "char set" where
  "text_chars = {c. is_digit c} \<union> {CHR ''.'', CHR ''e'', CHR ''+'', CHR ''-''}"

lemma dec_layout_chars:
  "list_all is_digit ds \<Longrightarrow> set (dec_layout ds n) \<subseteq> text_chars"
  by (auto simp: dec_layout_def text_chars_def Let_def list_all_iff
     dest: in_set_takeD in_set_dropD bspec [OF int_text_digits, rotated])

lemma dec_layout_hd:
  "list_all is_digit ds \<Longrightarrow> ds \<noteq> [] \<Longrightarrow> dec_layout ds n \<noteq> [] \<and> is_digit (hd (dec_layout ds n))"
  by (cases ds) (auto simp: dec_layout_def Let_def take_Cons')

lemma text_chars_plain: "c \<in> text_chars \<Longrightarrow>
    \<not> is_space c \<and> c \<notin> {CHR ''x'', CHR ''X'', CHR ''o'', CHR ''O'', CHR ''b'', CHR ''B'', CHR ''I''}"
  by (auto simp: text_chars_def is_space_def is_digit_def Let_def)

lemma trim_plain: "\<forall>c\<in>set s. \<not> is_space c \<Longrightarrow> trim s = s"
proof -
  assume "\<forall>c\<in>set s. \<not> is_space c"
  moreover from this have "\<forall>c\<in>set (rev s). \<not> is_space c" by simp
  ultimately have "dropWhile is_space s = s" "dropWhile is_space (rev s) = rev s"
    by (metis dropWhile_eq_self_iff hd_in_set)+
  then show ?thesis by (simp add: trim_def)
qed

lemma string_number_plain:
  assumes t: "set t \<subseteq> text_chars" "t \<noteq> []" "is_digit (hd t)" and v: "scan_decimal t = Some (v, [])"
  shows "string_number t = signed_num False v" and "string_number (CHR ''-'' # t) = signed_num True v"
proof -
  have sp: "\<forall>c\<in>set t. \<not> is_space c" using t(1) text_chars_plain by blast
  have p: "\<forall>c\<in>set t. c \<notin> {CHR ''x'', CHR ''X'', CHR ''o'', CHR ''O'', CHR ''b'', CHR ''B'', CHR ''I''}"
    using t(1) text_chars_plain by blast
  have "\<forall>c\<in>set (CHR ''-'' # t). \<not> is_space c" using sp by (simp add: is_space_def)
  note tr = trim_plain [OF sp] trim_plain [OF this]
  have hx: "\<not> starts_with [a, b] t" if "b \<in> {CHR ''x'', CHR ''X'', CHR ''o'', CHR ''O'', CHR ''b'', CHR ''B''}" for a b
    using that p unfolding starts_with_iff by force
  have sgn: "scan_sign t = (False, t)" using t(2,3) by (cases t) (auto simp: scan_sign_def)
  have inf: "t \<noteq> ''Infinity''" using t(3) by (auto simp: is_digit_def)
  show "string_number t = signed_num False v"
    using hx inf sgn t(2) v by (simp add: string_number_def tr Let_def)
  show "string_number (CHR ''-'' # t) = signed_num True v"
    using inf v by (simp add: string_number_def tr scan_sign_def Let_def)
qed

lemma pos_text_back:
  assumes q: "0 < q" "rnd_mag q = q" "q < 2 ^ 1024"
  shows "string_number (pos_text q) = Fin q" and "string_number (CHR ''-'' # pos_text q) = Fin (- q)"
proof -
  let ?k = "shortest_len q"
  obtain s n where sn: "dec_candidate q ?k = (s, n)" by (cases "dec_candidate q ?k")
  have b: "10 ^ (?k - 1) \<le> s" "s < 10 ^ ?k"
    using dec_candidate_bounds [OF q(1) shortest_len_reads_back(2) [OF q(1,2)] sn] by auto
  have s1: "1 \<le> s" using b(1) one_le_power [of "10::int" "?k - 1"] by linarith
  have len: "length (int_text s) = ?k"
  proof -
    have l: "10 ^ (length (int_text s) - 1) \<le> s" "s < 10 ^ length (int_text s)"
      using int_text_length [OF s1] by auto
    have "(10::int) ^ (length (int_text s) - 1) < 10 ^ ?k" "(10::int) ^ (?k - 1) < 10 ^ length (int_text s)"
      using l b by linarith+
    then have "length (int_text s) - 1 < ?k" "?k - 1 < length (int_text s)"
      by (simp_all add: power_strict_increasing_iff)
    then show ?thesis using shortest_len_reads_back(2) [OF q(1,2)] by linarith
  qed
  have d: "list_all is_digit (int_text s)" using s1 by simp
  let ?y = "of_int s * (10::rat) powi (n - int ?k)"
  have sc: "scan_decimal (dec_layout (int_text s) n) = Some (?y, [])"
    using scan_dec_layout [OF d int_text_nonempty, of n] s1 len by simp
  have pt: "pos_text q = dec_layout (int_text s) n" by (simp add: pos_text_def sn Let_def)
  have y: "0 < ?y" using s1 by simp
  have ry: "rnd_mag ?y = q" using shortest_len_reads_back(1) [OF q(1,2)] sn by (simp add: reads_back_def)
  have "signed_num False ?y = Fin q" "signed_num True ?y = Fin (- q)"
    using y ry q(1,3) by (auto simp only: signed_num_def rnd_def Let_def split: if_splits) auto
  then show "string_number (pos_text q) = Fin q" "string_number (CHR ''-'' # pos_text q) = Fin (- q)"
    using string_number_plain [OF dec_layout_chars [OF d] _ _ sc] dec_layout_hd [OF d int_text_nonempty]
    by (simp_all add: pt)
qed

definition drop_sign :: "jsnum \<Rightarrow> jsnum" where
  "drop_sign x = (if x = NegZero then Fin 0 else x)"

theorem num_text_back:
  assumes "is_double x"
  shows "string_number (num_text x) = drop_sign x"
proof -
  have zero: "string_number ''0'' = Fin 0" by code_simp
  show ?thesis
  proof (cases x)
    case (Fin q)
    then have r: "q = 0 \<or> (rnd_mag \<bar>q\<bar> = \<bar>q\<bar> \<and> \<bar>q\<bar> < 2 ^ 1024)"
      using assms by (simp add: is_double_def representable_def)
    consider "q = 0" | "0 < q" | "q < 0" by linarith
    then show ?thesis
    proof cases
      case 3
      with r have "rnd_mag (- q) = - q" "- q < 2 ^ 1024" by auto
      with pos_text_back(2) [of "- q"] 3 Fin show ?thesis by (simp add: drop_sign_def)
    qed (use r zero pos_text_back(1) [of q] Fin in \<open>auto simp: drop_sign_def\<close>)
  qed (use zero assms in \<open>auto simp: is_double_def drop_sign_def\<close>)
qed

subsection \<open>Codecs\<close>

text \<open>What a client of a text encoding relies on: on its domain the encoding reads back, up to
  a canonical form.\<close>

locale codec =
  fixes enc :: "'a \<Rightarrow> 't" and dec :: "'t \<Rightarrow> 'a" and canon :: "'a \<Rightarrow> 'a" and ok :: "'a \<Rightarrow> bool"
  assumes dec_enc: "ok x \<Longrightarrow> dec (enc x) = canon x"
begin

lemma enc_inj: "ok x \<Longrightarrow> ok y \<Longrightarrow> enc x = enc y \<Longrightarrow> canon x = canon y"
  by (metis dec_enc)

lemma distinct_enc:
  "(\<And>x. x \<in> set xs \<Longrightarrow> ok x) \<Longrightarrow> distinct (map canon xs) \<Longrightarrow> distinct (map enc xs)"
  by (induction xs) (auto dest: enc_inj)

end

interpretation num: codec num_text string_number drop_sign is_double
  by unfold_locales (rule num_text_back)

interpretation digits: codec int_text text_int "\<lambda>n. n" "\<lambda>n. 0 \<le> n"
  by unfold_locales simp

lemma drop_sign_jeq: "is_finite x \<Longrightarrow> is_finite y \<Longrightarrow> drop_sign x = drop_sign y \<longleftrightarrow> jeq x y"
  by (cases x; cases y) (auto simp: drop_sign_def jeq_finite)

end
