(* ===== verification/JsValue.thy ===== *)
theory JsValue
  imports JsNumText
begin

text \<open>
  Untyped values, for the places where the sources read a payload of unknown shape: JSON values
  with \<open>undefined\<close>, property access with optional chaining, the conversions \<open>Number\<close>,
  \<open>String\<close> and \<open>Boolean\<close>, the operators \<open>??\<close> and \<open>||\<close>, the round trip through JSON text,
  and browser storage. An object is the dictionary of its own properties in insertion order; no
  payload of the program has a property of the object prototype. Reading a property of
  \<open>undefined\<close> or \<open>null\<close> without \<open>?.\<close> throws: the readers that can meet it return a sum
  (\<open>Inl\<close> the error).
\<close>

named_theorems js_value

datatype jsv = Undefined | Null | Bool bool | Num jsnum | Str string | Arr "jsv list"
  | Obj "(string \<times> jsv) list"

type_synonym jobj = "jsv dict"

datatype js_error = TypeError | SyntaxError | RangeError

type_synonym 'a js_result = "js_error + 'a"

definition nullish :: "jsv \<Rightarrow> bool" where
  "nullish v \<longleftrightarrow> v = Undefined \<or> v = Null"

text \<open>\<open>a ?? b\<close> on values.\<close>

definition coalesce :: "jsv \<Rightarrow> jsv \<Rightarrow> jsv" where
  "coalesce a b = (if nullish a then b else a)"

text \<open>\<open>a ?? b\<close> where the absence of \<open>a\<close> is \<open>None\<close>, and the chain of such alternatives.\<close>

definition or_else :: "'a option \<Rightarrow> 'a option \<Rightarrow> 'a option" where
  "or_else a b = (case a of None \<Rightarrow> b | Some x \<Rightarrow> Some x)"

definition get_or :: "'a option \<Rightarrow> 'a \<Rightarrow> 'a" where
  "get_or a b = (case a of None \<Rightarrow> b | Some x \<Rightarrow> x)"

fun first_some :: "'a option list \<Rightarrow> 'a option" where
  "first_some [] = None"
| "first_some (Some x # os) = Some x"
| "first_some (None # os) = first_some os"

definition truthy :: "jsv \<Rightarrow> bool" where
  "truthy v = (case v of Undefined \<Rightarrow> False | Null \<Rightarrow> False | Bool b \<Rightarrow> b
     | Num n \<Rightarrow> num_truthy n | Str s \<Rightarrow> s \<noteq> [] | Arr xs \<Rightarrow> True | Obj d \<Rightarrow> True)"

text \<open>\<open>a || b\<close> on values.\<close>

definition js_or :: "jsv \<Rightarrow> jsv \<Rightarrow> jsv" where
  "js_or a b = (if truthy a then a else b)"

text \<open>A loop whose body can throw: the first error ends it.\<close>

fun fold_result :: "('a \<Rightarrow> 's \<Rightarrow> 's js_result) \<Rightarrow> 'a list \<Rightarrow> 's \<Rightarrow> 's js_result" where
  "fold_result f [] s = Inr s"
| "fold_result f (x # xs) s = (case f x s of Inl e \<Rightarrow> Inl e | Inr s' \<Rightarrow> fold_result f xs s')"

lemma fold_result_append:
  "fold_result f (xs @ ys) s = (case fold_result f xs s of Inl e \<Rightarrow> Inl e | Inr s' \<Rightarrow> fold_result f ys s')"
  by (induction xs arbitrary: s) (auto split: sum.splits)

lemma fold_result_inv:
  assumes "fold_result f xs s = Inr s'" and "I s"
    and "\<And>x s s'. x \<in> set xs \<Longrightarrow> I s \<Longrightarrow> f x s = Inr s' \<Longrightarrow> I s'"
  shows "I s'"
  using assms
proof (induction xs arbitrary: s)
  case (Cons x xs)
  then obtain t where "f x s = Inr t" "fold_result f xs t = Inr s'" by (auto split: sum.splits)
  with Cons show ?case by (meson list.set_intros)
qed simp

subsection \<open>Properties\<close>

definition oget :: "jobj \<Rightarrow> string \<Rightarrow> jsv" where
  "oget d k = (case map_of d k of None \<Rightarrow> Undefined | Some v \<Rightarrow> v)"

text \<open>\<open>v?.k\<close>, on a payload that is an object, or not one.\<close>

definition jget :: "jsv \<Rightarrow> string \<Rightarrow> jsv" where
  "jget v k = (case v of Obj d \<Rightarrow> oget d k | _ \<Rightarrow> Undefined)"

text \<open>\<open>v.k\<close>.\<close>

definition jget_strict :: "jsv \<Rightarrow> string \<Rightarrow> jsv js_result" where
  "jget_strict v k = (if nullish v then Inl TypeError else Inr (jget v k))"

text \<open>The first of several properties that is neither \<open>undefined\<close> nor \<open>null\<close>.\<close>

fun oget_any :: "jobj \<Rightarrow> string list \<Rightarrow> jsv" where
  "oget_any d [] = Undefined"
| "oget_any d [k] = oget d k"
| "oget_any d (k # k' # ks) = coalesce (oget d k) (oget_any d (k' # ks))"

definition has_own :: "jobj \<Rightarrow> string \<Rightarrow> bool" where
  "has_own d k \<longleftrightarrow> map_of d k \<noteq> None"

definition is_array :: "jsv \<Rightarrow> bool" where
  "is_array v = (case v of Arr xs \<Rightarrow> True | _ \<Rightarrow> False)"

definition is_object :: "jsv \<Rightarrow> bool" where
  "is_object v = (case v of Obj d \<Rightarrow> True | _ \<Rightarrow> False)"

definition is_str :: "jsv \<Rightarrow> bool" where
  "is_str v = (case v of Str s \<Rightarrow> True | _ \<Rightarrow> False)"

definition as_list :: "jsv \<Rightarrow> jsv list" where
  "as_list v = (case v of Arr xs \<Rightarrow> xs | _ \<Rightarrow> [])"

definition as_obj :: "jsv \<Rightarrow> jobj" where
  "as_obj v = (case v of Obj d \<Rightarrow> d | _ \<Rightarrow> [])"

subsection \<open>Conversions\<close>

fun to_str :: "jsv \<Rightarrow> string" where
  "to_str Undefined = ''undefined''"
| "to_str Null = ''null''"
| "to_str (Bool b) = (if b then ''true'' else ''false'')"
| "to_str (Num n) = num_text n"
| "to_str (Str s) = s"
| "to_str (Arr xs) = join_with '','' (map (\<lambda>x. if nullish x then [] else to_str x) xs)"
| "to_str (Obj d) = ''[object Object]''"

fun to_num :: "jsv \<Rightarrow> jsnum" where
  "to_num Undefined = NaN"
| "to_num Null = Fin 0"
| "to_num (Bool b) = (if b then Fin 1 else Fin 0)"
| "to_num (Num n) = n"
| "to_num (Str s) = string_number s"
| "to_num (Arr xs) = string_number (to_str (Arr xs))"
| "to_num (Obj d) = NaN"

text \<open>Optional and nullable fields of typed records, as values.\<close>

definition opt_num :: "jsnum option \<Rightarrow> jsv" where
  "opt_num x = (case x of None \<Rightarrow> Undefined | Some n \<Rightarrow> Num n)"

definition null_num :: "jsnum option \<Rightarrow> jsv" where
  "null_num x = (case x of None \<Rightarrow> Null | Some n \<Rightarrow> Num n)"

definition opt_str :: "string option \<Rightarrow> jsv" where
  "opt_str x = (case x of None \<Rightarrow> Undefined | Some s \<Rightarrow> Str s)"

text \<open>\<open>===\<close> against a string or a boolean literal.\<close>

definition is_lit :: "jsv \<Rightarrow> string \<Rightarrow> bool" where
  "is_lit v s \<longleftrightarrow> v = Str s"

subsection \<open>JSON text\<close>

text \<open>
  What \<open>JSON.parse(JSON.stringify(v))\<close> gives: properties whose value is \<open>undefined\<close> are
  dropped, \<open>undefined\<close> in an array, NaN and the infinities become \<open>null\<close>, and the negative
  zero loses its sign. Numbers read back by \<open>num_text_back\<close>.
\<close>

fun json_norm :: "jsv \<Rightarrow> jsv" where
  "json_norm Undefined = Null"
| "json_norm Null = Null"
| "json_norm (Bool b) = Bool b"
| "json_norm (Num n) = (if is_finite n then Num (drop_sign n) else Null)"
| "json_norm (Str s) = Str s"
| "json_norm (Arr xs) = Arr (map json_norm xs)"
| "json_norm (Obj d) = Obj (map (\<lambda>(k, v). (k, json_norm v)) (filter (\<lambda>(k, v). v \<noteq> Undefined) d))"

text \<open>The content of one storage key: nothing, a text (not the empty one, which no program part writes)
  that is not JSON, or the text of a value.\<close>

datatype cell = Absent | Malformed | Json jsv

type_synonym storage = "cell dict"

definition get_item :: "storage \<Rightarrow> string \<Rightarrow> cell" where
  "get_item st k = (case map_of st k of None \<Rightarrow> Absent | Some c \<Rightarrow> c)"

definition set_json :: "string \<Rightarrow> jsv \<Rightarrow> storage \<Rightarrow> storage" where
  "set_json k v st = dict_set k (Json (json_norm v)) st"

lemma get_item_set_json [js_value, simp]:
  "get_item (set_json k v st) k' = (if k' = k then Json (json_norm v) else get_item st k')"
  by (simp add: get_item_def set_json_def dict_get_set)

lemma oget_set [js_value, simp]: "oget (dict_set k v d) k' = (if k' = k then v else oget d k')"
  by (simp add: oget_def dict_get_set)

lemma oget_Nil [js_value, simp]: "oget [] k = Undefined"
  by (simp add: oget_def)

lemma oget_Cons [js_value, simp]: "oget ((k, v) # d) k' = (if k' = k then v else oget d k')"
  by (simp add: oget_def)

lemma oget_append [js_value]: "oget (d @ e) k = (if has_own d k then oget d k else oget e k)"
  by (auto simp: oget_def has_own_def map_add_def split: option.splits)

lemma coalesce_simps [js_value, simp]:
  "coalesce Undefined b = b" "coalesce Null b = b" "coalesce (Bool x) b = Bool x"
  "coalesce (Num n) b = Num n" "coalesce (Str s) b = Str s" "coalesce (Arr xs) b = Arr xs"
  "coalesce (Obj d) b = Obj d"
  by (simp_all add: coalesce_def nullish_def)

lemma nullish_simps [js_value, simp]:
  "nullish Undefined" "nullish Null" "\<not> nullish (Bool x)" "\<not> nullish (Num n)" "\<not> nullish (Str s)"
  "\<not> nullish (Arr xs)" "\<not> nullish (Obj d)"
  by (simp_all add: nullish_def)

lemma or_else_simps [js_value, simp]: "or_else None b = b" "or_else (Some x) b = Some x"
  by (simp_all add: or_else_def)

lemma get_or_simps [js_value, simp]: "get_or None b = b" "get_or (Some x) b = x"
  by (simp_all add: get_or_def)

lemma drop_sign_idem [simp]: "drop_sign (drop_sign n) = drop_sign n"
  by (simp add: drop_sign_def)

lemma drop_sign_finite [simp]: "is_finite (drop_sign n) = is_finite n"
  by (simp add: drop_sign_def)

lemma val_drop_sign [simp]: "val (drop_sign n) = val n"
  by (simp add: drop_sign_def)

lemma json_norm_not_undefined [simp]: "json_norm v \<noteq> Undefined"
  by (cases v) auto

lemma json_norm_idem [js_value, simp]: "json_norm (json_norm v) = json_norm v"
proof (induction v rule: json_norm.induct)
  case (7 d)
  have "json_norm (json_norm (snd e)) = json_norm (snd e)" if "e \<in> set d" "snd e \<noteq> Undefined" for e
    using that 7 [of "(fst e, snd e)" "fst e" "snd e"] by (auto simp: split_def)
  then show ?case by (simp add: filter_map o_def split_def)
qed auto

lemma map_of_json_norm:
  assumes "distinct (map fst d)"
  shows "map_of (map (\<lambda>(k, v). (k, json_norm v)) (filter (\<lambda>(k, v). v \<noteq> Undefined) d)) k =
     (case map_of d k of None \<Rightarrow> None | Some v \<Rightarrow> if v = Undefined then None else Some (json_norm v))"
  using assms
proof (induction d)
  case (Cons e d)
  have "map_of (map (\<lambda>(k, v). (k, json_norm v)) (filter (\<lambda>(k, v). v \<noteq> Undefined) d)) k = None"
    if "k \<notin> fst ` set d" using that by (force simp: map_of_eq_None_iff)
  with Cons show ?case by (cases e) auto
qed simp

subsection \<open>Values of the program\<close>

text \<open>Every number inside is a number of the program.\<close>

fun value_ok :: "jsv \<Rightarrow> bool" where
  "value_ok (Num n) = is_number n"
| "value_ok (Arr xs) = (\<forall>x\<in>set xs. value_ok x)"
| "value_ok (Obj d) = (\<forall>e\<in>set d. value_ok (snd e))"
| "value_ok v = True"

lemma string_number_number [js_value, simp]: "is_number (string_number s)"
  by (simp add: string_number_def radix_number_def signed_num_def Let_def split_beta split: option.splits)

lemma parse_float_number [js_value, simp]: "is_number (parse_float s)"
  by (simp add: parse_float_def signed_num_def Let_def split_beta split: option.splits)

lemma is_number_numerals [simp]: "is_number (Fin 1)"
    "(numeral k :: int) \<le> 9007199254740992 \<Longrightarrow> is_number (Fin (numeral k))"
  using representable_int [of 1] representable_int [of "numeral k"] by (simp_all add: is_number_def)

lemma to_num_number [js_value]: "value_ok v \<Longrightarrow> is_number (to_num v)"
  by (cases v) auto

lemma oget_ok [js_value]: "\<forall>e\<in>set d. value_ok (snd e) \<Longrightarrow> value_ok (oget d k)"
  by (force simp: oget_def split: option.splits dest: map_of_SomeD)

lemma jget_ok [js_value]: "value_ok v \<Longrightarrow> value_ok (jget v k)"
  by (cases v) (auto simp: jget_def oget_ok)

lemma coalesce_ok [js_value]: "value_ok a \<Longrightarrow> value_ok b \<Longrightarrow> value_ok (coalesce a b)"
  by (simp add: coalesce_def)

end
