(* ===== verification/Types.thy ===== *)
theory Types
  imports JsValue
begin

text \<open>
  The data model of \<open>apps/terminal/src/types.ts\<close>. Every interface is a record whose fields are
  those of the source behind a prefix; an optional field, or one that may be \<open>null\<close>, is an
  option, and one that may be both is a value (\<open>jsv\<close>). Orders, positions and prints carry
  their optional and undeclared properties in a dictionary (the \<open>rest\<close> fields), since the
  program spreads them from the payload. String unions are strings: payloads arrive unchecked,
  and the program compares them with literals.
\<close>

subsection \<open>Records\<close>

record bar =
  br_timestamp :: jsnum
  br_open :: jsnum
  br_high :: jsnum
  br_low :: jsnum
  br_close :: jsnum
  br_volume :: jsnum

record keltner_bands =
  kb_upper :: jsnum
  kb_mid :: jsnum
  kb_lower :: jsnum

record order_book_level =
  ol_price :: jsnum
  ol_size :: jsnum
  ol_count :: "jsnum option"
  ol_ct :: "jsnum option"

record order_book =
  ob_market_id :: string
  ob_bids :: "order_book_level list"
  ob_asks :: "order_book_level list"
  ob_best_bid :: "jsnum option"
  ob_best_ask :: "jsnum option"
  ob_mid :: "jsnum option"
  ob_spread_bps :: "jsnum option"

record trade_tick =
  tk_timestamp :: jsnum
  tk_price :: jsnum
  tk_size :: jsnum
  tk_volume :: "jsnum option"
  tk_side :: string

record poly_trade_tick =
  pt_timestamp :: jsnum
  pt_marketKey :: string
  pt_price :: jsnum
  pt_size :: jsnum
  pt_side :: string
  pt_rest :: jobj

record sim_order =
  so_id :: string
  so_marketKey :: string
  so_outcome :: string
  so_side :: string
  so_orderType :: string
  so_price :: jsnum
  so_size :: jsnum
  so_remaining :: jsnum
  so_filledSize :: jsnum
  so_matchedVolume :: jsnum
  so_status :: string
  so_createdAt :: jsnum
  so_updatedAt :: jsnum
  so_operator :: string
  so_source :: string
  so_strategy :: string
  so_legId :: string
  so_rest :: jobj

record sim_position =
  sp_id :: string
  sp_marketKey :: string
  sp_outcome :: string
  sp_size :: jsnum
  sp_avgPrice :: jsnum
  sp_markPrice :: jsnum
  sp_openPnl :: jsnum
  sp_realizedPnl :: jsnum
  sp_totalPnl :: jsnum
  sp_status :: string
  sp_openedAt :: jsnum
  sp_closedAt :: "jsnum option"
  sp_operator :: string
  sp_source :: string
  sp_strategy :: string
  sp_legId :: string
  sp_rest :: jobj

record signal =
  sg_timestamp :: jsnum
  sg_asset :: string
  sg_model :: string
  sg_direction :: string
  sg_strength :: jsnum
  sg_regime :: string
  sg_zscore :: jsnum
  sg_ofi :: jsnum
  sg_vpin :: jsnum

record position =
  ps_position_id :: string
  ps_asset :: string
  ps_direction :: string
  ps_entry_price :: jsnum
  ps_size :: jsnum
  ps_entry_time :: jsnum
  ps_expiry_secs :: jsnum
  ps_unrealized_pnl :: jsnum
  ps_current_price :: jsnum
  ps_partial_exit_done :: bool
  ps_is_copy :: bool
  ps_master_wallet :: "string option"

record trade =
  tr_trade_id :: string
  tr_asset :: string
  tr_direction :: string
  tr_model :: "string option"
  tr_regime :: string
  tr_entry_time :: jsnum
  tr_exit_time :: jsnum
  tr_entry_price :: jsnum
  tr_exit_price :: jsnum
  tr_size :: jsnum
  tr_net_pnl :: jsnum
  tr_fees :: jsnum
  tr_win :: bool
  tr_signal_strength :: jsnum
  tr_is_copy :: bool

record daily_metrics =
  dm_date :: string
  dm_trade_count :: jsnum
  dm_win_count :: jsnum
  dm_win_rate :: jsnum
  dm_net_pnl :: jsnum
  dm_sharpe :: jsnum
  dm_max_drawdown :: jsnum
  dm_trades_remaining :: jsnum
  dm_concurrent_positions :: jsnum
  dm_at_trade_limit :: bool
  dm_at_loss_limit :: bool

record master_info =
  mi_wallet_address :: string
  mi_alias :: "string option"
  mi_source :: string
  mi_win_rate :: jsnum
  mi_sharpe :: jsnum
  mi_trade_count :: jsnum
  mi_paused :: bool

record copy_status =
  cs_enabled :: bool
  cs_active_masters :: "master_info list"
  cs_copy_trades_today :: jsnum
  cs_copy_pnl_today :: jsnum

record execution_position =
  ep_position_id :: string
  ep_asset :: string
  ep_direction :: string
  ep_status :: string
  ep_entry_price :: jsnum
  ep_current_price :: jsnum
  ep_size :: jsnum
  ep_unrealized_pnl :: jsnum
  ep_pnl_pct :: "jsnum option"
  ep_sl_distance_pct :: jsv
  ep_tp_distance_pct :: jsv
  ep_model :: "string option"

record execution_risk =
  er_open_count :: jsnum
  er_up_exposure :: jsnum
  er_dn_exposure :: jsnum
  er_total_exposure :: jsnum
  er_daily_pnl :: jsnum
  er_regime :: string
  er_regime_mult :: jsnum
  er_near_sl_distance_pct :: "jsnum option"

record prob_point =
  pp_ts :: jsnum
  pp_up_pct :: jsnum

record staged_market =
  sm_question :: string
  sm_expiry_ts :: jsnum
  sm_up_pct :: jsnum
  sm_down_pct :: jsnum
  sm_up_token_id :: "string option"
  sm_condition_id :: "string option"
  sm_live :: bool

record market_info =
  mk_key :: string
  mk_asset :: string
  mk_timeframe :: string
  mk_question :: string
  mk_category :: "string option"
  mk_up_pct :: jsnum
  mk_down_pct :: jsnum
  mk_volume :: jsnum
  mk_expiry_ts :: jsnum
  mk_resolution_price :: "jsnum option"
  mk_start_price :: "jsnum option"
  mk_price_to_beat :: "jsnum option"
  mk_condition_id :: "string option"
  mk_up_token_id :: "string option"
  mk_live :: bool
  mk_marketStatus :: "string option"
  mk_marketStatusDetail :: "string option"
  mk_last_update_ms :: "jsnum option"
  mk_prob_history :: "prob_point list option"
  mk_truth_history :: "prob_point list option"
  mk_staged_market :: "staged_market option option"
  mk_truth_up_pct :: "jsnum option"
  mk_truth_down_pct :: "jsnum option"
  mk_truth_feature_source :: "string option"
  mk_gamma :: "jsnum option"
  mk_theta :: "jsnum option"
  mk_vega :: "jsnum option"
  mk_vanna :: "jsnum option"
  mk_charm :: "jsnum option"
  mk_atr :: "jsnum option"
  mk_volatility :: "jsnum option"
  mk_zscore :: "jsnum option"
  mk_edge_up :: "jsnum option"
  mk_edge_down :: "jsnum option"
  mk_tickSize :: "jsnum option"
  mk_tickValue :: "jsnum option"

record poly_book_level =
  pl_price :: jsnum
  pl_size :: jsnum
  pl_count :: "jsnum option"
  pl_ct :: "jsnum option"

record poly_book =
  pb_market_key :: string
  pb_question :: string
  pb_up_token_id :: string
  pb_bids :: "poly_book_level list"
  pb_asks :: "poly_book_level list"
  pb_best_bid :: "jsnum option"
  pb_best_ask :: "jsnum option"
  pb_mid :: jsnum
  pb_spread_pct :: "jsnum option"
  pb_up_pct :: jsnum
  pb_down_pct :: jsnum
  pb_ltp :: "jsnum option"
  pb_ltp_size :: "jsnum option"
  pb_sessionOpen :: "jsnum option"
  pb_sessionHigh :: "jsnum option"
  pb_sessionLow :: "jsnum option"
  pb_sessionReference :: "jsnum option"
  pb_sessionLast :: "jsnum option"
  pb_netChange :: "jsnum option"
  pb_netChangePct :: "jsnum option"
  pb_sessionStartMs :: "jsnum option"
  pb_sessionStatsMs :: "jsnum option"
  pb_marketStatus :: "string option"
  pb_marketStatusDetail :: "string option"
  pb_expiry_ts :: jsnum
  pb_live :: bool
  pb_timestamp_ms :: jsnum
  pb_seen_ms :: "jsnum option"
  pb_final_minute_mode :: "bool option"
  pb_final_minute_hold :: "bool option"
  pb_book_has_real_two_sided :: "bool option"

record cme_book =
  cb_symbol :: string
  cb_venue :: string
  cb_source :: "string option"
  cb_live :: "bool option"
  cb_bids :: "order_book_level list"
  cb_asks :: "order_book_level list"
  cb_bestBid :: "jsnum option"
  cb_bestAsk :: "jsnum option"
  cb_bidSize :: "jsnum option"
  cb_askSize :: "jsnum option"
  cb_bidCount :: "jsnum option"
  cb_askCount :: "jsnum option"
  cb_mid :: "jsnum option"
  cb_ltp :: "jsnum option"
  cb_ltpSize :: "jsnum option"
  cb_sessionOpen :: "jsnum option"
  cb_sessionHigh :: "jsnum option"
  cb_sessionLow :: "jsnum option"
  cb_sessionReference :: "jsnum option"
  cb_sessionLast :: "jsnum option"
  cb_netChange :: "jsnum option"
  cb_netChangePct :: "jsnum option"
  cb_sessionStartMs :: "jsnum option"
  cb_sessionStatsMs :: "jsnum option"
  cb_marketStatus :: "string option"
  cb_marketStatusDetail :: "string option"
  cb_volume :: "jsnum option"
  cb_spread :: "jsnum option"
  cb_tsMs :: "jsnum option"
  cb_tickSize :: "jsnum option"
  cb_tickValue :: "jsnum option"
  cb_synthetic :: "bool option"
  cb_ltpSource :: "string option"

record cme_trade_tick =
  ct_symbol :: string
  ct_venue :: string
  ct_source :: "string option"
  ct_timestamp :: jsnum
  ct_price :: jsnum
  ct_size :: jsnum
  ct_volume :: "jsnum option"
  ct_side :: "string option"
  ct_bestBid :: "jsnum option"
  ct_bestAsk :: "jsnum option"
  ct_tickSize :: "jsnum option"
  ct_tickValue :: "jsnum option"

record settlement =
  st_settled_at :: jsnum
  st_key :: string
  st_asset :: string
  st_timeframe :: string
  st_question :: string
  st_final_up_pct :: jsnum
  st_final_down_pct :: jsnum
  st_outcome :: string
  st_volume :: jsnum
  st_expiry_ts :: jsnum
  st_condition_id :: string
  st_live :: bool
  st_price_to_beat :: "jsnum option"
  st_final_price :: "jsnum option"
  st_winning_side :: "string option"

record kalshi_market =
  km_id :: string
  km_title :: string
  km_yes_price :: jsnum
  km_no_price :: jsnum
  km_volume :: jsnum
  km_close_time :: string
  km_category :: string
  km_truth_up_pct :: "jsnum option"
  km_truth_down_pct :: "jsnum option"
  km_truth_feature_source :: "string option"
  km_gamma :: "jsnum option"
  km_theta :: "jsnum option"
  km_vega :: "jsnum option"
  km_vanna :: "jsnum option"
  km_charm :: "jsnum option"
  km_atr :: "jsnum option"
  km_volatility :: "jsnum option"
  km_edge_up :: "jsnum option"
  km_edge_down :: "jsnum option"

record ibkr_market =
  im_conid :: string
  im_title :: string
  im_yes_price :: jsnum
  im_no_price :: jsnum
  im_volume :: jsnum
  im_expiry :: string
  im_category :: string

record crypto_price =
  cp_price :: jsnum
  cp_change24h :: jsnum
  cp_open :: "jsnum option"
  cp_high :: "jsnum option"
  cp_low :: "jsnum option"
  cp_previousClose :: "jsnum option"
  cp_volume :: "jsnum option"
  cp_bid :: "jsnum option"
  cp_ask :: "jsnum option"
  cp_bidSize :: "jsnum option"
  cp_askSize :: "jsnum option"
  cp_timestamp :: "jsnum option"

subsection \<open>Messages of the web socket\<close>

record order_payload =
  op_simOrders :: "jobj list option"
  op_simPositions :: "jobj list option"
  op_fills :: "jobj list dict option"
  op_simMessages :: "string list option"

datatype ws_msg =
    BarMsg string bar
  | BandsMsg string keltner_bands
  | BookMsg string order_book
  | TickMsg string trade_tick
  | CmeBookMsg string cme_book
  | CmeTradeMsg string cme_trade_tick
  | SignalMsg signal
  | PositionMsg "position list"
  | MetricsMsg daily_metrics
  | ZscoreMsg string jsnum string
  | CopyStatusMsg copy_status
  | MarketsMsg "market_info list"
  | SettlementsMsg "settlement list"
  | PolyBookMsg string poly_book
  | PolyTickMsg string poly_trade_tick
  | FillMsg string poly_trade_tick
  | OrderSnapshotMsg order_payload
  | ExecutionEventMsg "execution_position list option" "execution_risk option"

subsection \<open>Models and time frames\<close>

definition model_labels :: "string dict" where
  "model_labels = [(''kc_reversion'', ''KC Reversion''), (''flow_toxicity'', ''Flow Toxicity''),
     (''low_vol_accum'', ''Low Vol Accum''), (''high_vol_momentum'', ''HV Momentum''),
     (''tri_engine'', ''Tri-Engine''), (''v3_titanium'', ''V3 Titanium''),
     (''rubber_band'', ''Rubber Band'')]"

definition model_colors :: "string dict" where
  "model_colors = [(''kc_reversion'', ''#3b82f6''), (''flow_toxicity'', ''#a855f7''),
     (''low_vol_accum'', ''#22c55e''), (''high_vol_momentum'', ''#f59e0b''),
     (''tri_engine'', ''#ef4444''), (''v3_titanium'', ''#8b5cf6''), (''rubber_band'', ''#00d4a4'')]"

definition canonical_model_names :: "string list" where
  "canonical_model_names = [''rubber_band'', ''kc_reversion'', ''flow_toxicity'']"

definition model_aliases :: "string dict" where
  "model_aliases = [(''titanium'', ''v3_titanium''), (''v3titanium'', ''v3_titanium''),
     (''v3-titanium'', ''v3_titanium''), (''tri_engine_v2'', ''tri_engine''),
     (''v5_titanium'', ''v3_titanium''), (''rubberband'', ''rubber_band''),
     (''rubber-band'', ''rubber_band'')]"

definition normalizeModel :: "string \<Rightarrow> string" where
  "normalizeModel raw = get_or (dict_get model_aliases raw) raw"

definition timeframe_labels :: "string dict" where
  "timeframe_labels = [(''20sec'', ''20-Second''), (''5min'', ''5-Minute''), (''15min'', ''15-Minute''),
     (''1h'', ''1-Hour''), (''4h'', ''4-Hour''), (''event'', ''Event'')]"

definition assets :: "string list" where
  "assets = [''ES'', ''NQ'', ''YM'', ''RTY'', ''CL'', ''GC'', ''ZM'', ''ZS'', ''ES_NQ'', ''YM_ES'', ''RTY_ES'',
     ''BTC'', ''ETH'', ''SOL'', ''XRP'', ''HYPE'', ''BNB'', ''DOGE'', ''EVENT'']"

text \<open>An alias stands for a model that is not itself an alias, so normalising twice changes nothing.\<close>

lemma alias_targets: "\<forall>(a, m)\<in>set model_aliases. dict_get model_aliases m = None"
  by (simp add: model_aliases_def)

lemma normalizeModel_idem [simp]: "normalizeModel (normalizeModel m) = normalizeModel m"
proof (cases "dict_get model_aliases m")
  case None
  then show ?thesis by (simp add: normalizeModel_def)
next
  case (Some v)
  then have "(m, v) \<in> set model_aliases" by (rule map_of_SomeD)
  with alias_targets have "dict_get model_aliases v = None" by fast
  with Some show ?thesis by (simp add: normalizeModel_def)
qed

lemma normalizeModel_canonical: "m \<in> set canonical_model_names \<Longrightarrow> normalizeModel m = m"
  by (auto simp: canonical_model_names_def normalizeModel_def model_aliases_def)

end
