(* ===== verification/GatewayBook.thy ===== *)
theory GatewayBook
  imports Types
begin

text \<open>
  \<open>apps/terminal/src/hooks/useGatewayEventBook.ts\<close>: the order book that the gateway's event
  packets build. A side is a dictionary from the text of a price to its level; a packet's deltas
  set and delete levels, and each side is then cut to its best levels. The hook buffers the
  packets of the socket and applies them on a timer. The books are keyed by \<open>String(price)\<close> and
  read back with \<open>Number\<close>: what makes that sound is the codec of \<open>JsNumText\<close>.
\<close>

record gateway_level =
  gl_price :: jsnum
  gl_qty :: jsnum
  gl_orders :: jsnum

record gateway_book =
  gb_bids :: "gateway_level dict"
  gb_asks :: "gateway_level dict"

datatype book_side = Bids | Asks

definition empty_book :: gateway_book where
  "empty_book = \<lparr>gb_bids = [], gb_asks = []\<rparr>"

definition side_target :: "jsv \<Rightarrow> book_side" where
  "side_target delta = (let side = to_lower (to_str (coalesce (jget delta ''sideCode'')
        (coalesce (jget delta ''side'') (Str []))))
     in if side = ''s'' \<or> side = ''sell'' then Asks else Bids)"

definition finite_field :: "jsv \<Rightarrow> jsnum option" where
  "finite_field v = (case v of Num n \<Rightarrow> if is_finite n then Some n else None | _ \<Rightarrow> None)"

text \<open>\<open>boundBook\<close>.\<close>

definition book_prices :: "gateway_level dict \<Rightarrow> jsnum list" where
  "book_prices book = filter is_finite (map (\<lambda>e. string_number (fst e)) (own_entries book))"

definition keep_level :: "gateway_level dict \<Rightarrow> jsnum \<Rightarrow> gateway_level dict \<Rightarrow> gateway_level dict" where
  "keep_level book price acc = (case dict_get book (num_text price) of
     None \<Rightarrow> acc | Some level \<Rightarrow> dict_set (num_text price) level acc)"

definition boundBook :: "gateway_level dict \<Rightarrow> bool \<Rightarrow> nat \<Rightarrow> gateway_level dict" where
  "boundBook book descending maxLevels =
     fold (keep_level book)
       (slice_first maxLevels
         (sort_js (if descending then before_desc (\<lambda>p. p) else before_asc (\<lambda>p. p)) (book_prices book))) []"

definition apply_side :: "jsv \<Rightarrow> jsnum \<Rightarrow> gateway_level dict \<Rightarrow> gateway_level dict" where
  "apply_side delta price book =
     (let priceKey = num_text price;
          qty = get_or (finite_field (jget delta ''qty'')) (Fin 0);
          orders = get_or (finite_field (jget delta ''orders'')) (Fin 0)
      in if is_lit (jget delta ''action'') ''D'' \<or> jle qty (Fin 0) \<or> jle orders (Fin 0)
         then dict_del priceKey book
         else dict_set priceKey \<lparr>gl_price = price, gl_qty = qty, gl_orders = orders\<rparr> book)"

definition apply_delta :: "jsv \<Rightarrow> gateway_book \<Rightarrow> gateway_book js_result" where
  "apply_delta delta b = (if nullish delta then Inl TypeError else Inr (
     case finite_field (jget delta ''price'') of
       None \<Rightarrow> b
     | Some price \<Rightarrow> (case side_target delta of
         Bids \<Rightarrow> b\<lparr>gb_bids := apply_side delta price (gb_bids b)\<rparr>
       | Asks \<Rightarrow> b\<lparr>gb_asks := apply_side delta price (gb_asks b)\<rparr>)))"

definition applyGatewayEventPacket :: "nat \<Rightarrow> jsv \<Rightarrow> gateway_book \<Rightarrow> gateway_book js_result" where
  "applyGatewayEventPacket maxLevels packet prevBook =
     map_sum id (\<lambda>b. \<lparr>gb_bids = boundBook (gb_bids b) True maxLevels,
                     gb_asks = boundBook (gb_asks b) False maxLevels\<rparr>)
       (fold_result apply_delta (as_list (jget packet ''deltas'')) prevBook)"

subsection \<open>The hook\<close>

record gateway_hook =
  gh_buffer :: "jsv list"
  gh_book :: gateway_book
  gh_clearing :: bool

text \<open>A frame of the socket is the value its text parses to, or \<open>None\<close> when it does not parse. Without a
  url the buffer is emptied at once and the book when a timer fires, unless a url comes first.\<close>

datatype hook_event = Frame "jsv option" | RenderTick | UrlCleared | UrlGiven | ClearTimer

definition on_frame :: "jsv option \<Rightarrow> gateway_hook \<Rightarrow> gateway_hook" where
  "on_frame raw h = (case raw of None \<Rightarrow> h
     | Some v \<Rightarrow> if truthy (jget v ''event_packet'')
         then h\<lparr>gh_buffer := gh_buffer h @ [jget v ''event_packet'']\<rparr> else h)"

definition on_render_tick :: "nat \<Rightarrow> gateway_hook \<Rightarrow> gateway_hook js_result" where
  "on_render_tick maxLevels h = (if gh_buffer h = [] then Inr h
     else map_sum id (\<lambda>b. h\<lparr>gh_buffer := [], gh_book := b\<rparr>)
       (fold_result (applyGatewayEventPacket maxLevels) (gh_buffer h) (gh_book h)))"

definition on_url_cleared :: "gateway_hook \<Rightarrow> gateway_hook" where
  "on_url_cleared h = h\<lparr>gh_buffer := [], gh_clearing := True\<rparr>"

definition on_url_given :: "gateway_hook \<Rightarrow> gateway_hook" where
  "on_url_given h = h\<lparr>gh_clearing := False\<rparr>"

definition on_clear_timer :: "gateway_hook \<Rightarrow> gateway_hook" where
  "on_clear_timer h = (if gh_clearing h then h\<lparr>gh_book := empty_book, gh_clearing := False\<rparr> else h)"

fun hook_step :: "nat \<Rightarrow> hook_event \<Rightarrow> gateway_hook \<Rightarrow> gateway_hook js_result" where
  "hook_step maxLevels (Frame raw) h = Inr (on_frame raw h)"
| "hook_step maxLevels RenderTick h = on_render_tick maxLevels h"
| "hook_step maxLevels UrlCleared h = Inr (on_url_cleared h)"
| "hook_step maxLevels UrlGiven h = Inr (on_url_given h)"
| "hook_step maxLevels ClearTimer h = Inr (on_clear_timer h)"

subsection \<open>The invariant of a side\<close>

definition level_ok :: "string \<Rightarrow> gateway_level \<Rightarrow> bool" where
  "level_ok k l \<longleftrightarrow> is_double (gl_price l) \<and> k = num_text (gl_price l)
     \<and> is_double (gl_qty l) \<and> 0 < val (gl_qty l) \<and> is_double (gl_orders l) \<and> 0 < val (gl_orders l)"

definition side_ok :: "gateway_level dict \<Rightarrow> bool" where
  "side_ok b \<longleftrightarrow> dict_wf b \<and> (\<forall>e\<in>set b. level_ok (fst e) (snd e))"

definition book_ok :: "gateway_book \<Rightarrow> bool" where
  "book_ok b \<longleftrightarrow> side_ok (gb_bids b) \<and> side_ok (gb_asks b)"

lemma finite_field_double: "finite_field v = Some n \<Longrightarrow> value_ok v \<Longrightarrow> is_double n"
  by (cases v) (auto simp: finite_field_def is_double_def is_number_def split: if_splits)

lemma side_ok_Nil [simp]: "side_ok []"
  by (simp add: side_ok_def dict_wf_def)

lemma set_dict_set: "e \<in> set (dict_set k v d) \<Longrightarrow> e = (k, v) \<or> e \<in> set d"
  by (induction k v d rule: dict_set.induct) (auto split: if_splits)

lemma side_ok_set: "side_ok b \<Longrightarrow> level_ok k l \<Longrightarrow> side_ok (dict_set k l b)"
  by (auto simp: side_ok_def dict_wf_set dest!: set_dict_set)

lemma side_ok_del: "side_ok b \<Longrightarrow> side_ok (dict_del k b)"
  by (auto simp: side_ok_def dict_wf_del) (auto simp: dict_del_def)

lemma apply_side_ok:
  assumes "side_ok b" and "is_double price" and "value_ok delta"
  shows "side_ok (apply_side delta price b)"
proof -
  have f: "is_double (get_or (finite_field (jget delta k)) (Fin 0))" for k
    using finite_field_double [of "jget delta k"] jget_ok [OF assms(3)]
    by (cases "finite_field (jget delta k)") (auto simp: is_double_def representable_def)
  then have "is_finite (get_or (finite_field (jget delta k)) (Fin 0))" for k
    by (simp add: is_double_def)
  then show ?thesis
    using assms f by (auto simp: apply_side_def Let_def level_ok_def jle_finite intro!: side_ok_set side_ok_del)
qed

lemma apply_delta_ok:
  assumes "apply_delta delta b = Inr b'" and "book_ok b" and "value_ok delta"
  shows "book_ok b'"
proof (cases "finite_field (jget delta ''price'')")
  case None
  with assms show ?thesis by (auto simp: apply_delta_def split: if_splits)
next
  case (Some p)
  then have "is_double p" using finite_field_double jget_ok [OF assms(3)] by blast
  with Some assms show ?thesis
    by (auto simp: apply_delta_def book_ok_def apply_side_ok split: if_splits book_side.splits)
qed

subsection \<open>Bounding a side\<close>

lemma num_text_drop_sign [simp]: "num_text (drop_sign x) = num_text x"
  by (simp add: drop_sign_def)

lemma is_double_drop_sign [simp]: "is_double (drop_sign x) = is_double x"
  by (auto simp: drop_sign_def is_double_def representable_def)

lemma key_back:
  assumes "side_ok b" and "e \<in> set b"
  shows "string_number (fst e) = drop_sign (gl_price (snd e))" and "num_text (string_number (fst e)) = fst e"
    and "is_double (string_number (fst e))"
  using assms num.dec_enc by (auto simp: side_ok_def level_ok_def)

lemma book_prices_keys:
  assumes "side_ok b"
  shows "mset (map num_text (book_prices b)) = mset (map fst b)"
proof -
  have "\<forall>e\<in>set (own_entries b). is_finite (string_number (fst e)) \<and> num_text (string_number (fst e)) = fst e"
    using key_back [OF assms] by (auto simp: is_double_def)
  then have "map num_text (book_prices b) = map fst (own_entries b)"
    by (auto simp: book_prices_def filter_map o_def intro!: map_cong)
  then show ?thesis by (metis mset_map mset_own_entries)
qed

definition ordered_prices :: "gateway_level dict \<Rightarrow> bool \<Rightarrow> jsnum list" where
  "ordered_prices b descending =
     sort_js (if descending then before_desc (\<lambda>p. p) else before_asc (\<lambda>p. p)) (book_prices b)"

lemma ordered_prices_keys:
  assumes "side_ok b"
  shows "mset (map num_text (ordered_prices b desc)) = mset (map fst b)"
    and "distinct (map num_text (ordered_prices b desc))"
    and "length (ordered_prices b desc) = length b"
proof -
  show m: "mset (map num_text (ordered_prices b desc)) = mset (map fst b)"
    using book_prices_keys [OF assms] by (simp add: ordered_prices_def)
  then show "distinct (map num_text (ordered_prices b desc))"
    using assms by (metis dict_wf_def mset_eq_imp_distinct_iff side_ok_def)
  show "length (ordered_prices b desc) = length b"
    using m by (metis length_map mset_eq_length)
qed

lemma ordered_prices_double:
  "side_ok b \<Longrightarrow> p \<in> set (ordered_prices b desc) \<Longrightarrow> is_double p"
  using key_back(3) by (auto simp: ordered_prices_def book_prices_def)

lemma ordered_prices_sorted:
  assumes "side_ok b"
  shows "sorted_wrt (\<lambda>p q. if desc then val q \<le> val p else val p \<le> val q) (ordered_prices b desc)"
proof -
  have d: "\<forall>p\<in>set (book_prices b). is_double p"
    using ordered_prices_double [OF assms, of _ desc] by (simp add: ordered_prices_def)
  then have f: "\<forall>p\<in>set (book_prices b). is_float p" by (simp add: is_double_float)
  show ?thesis
  proof (cases desc)
    case True
    have "sorted_wrt (before_desc (\<lambda>p. p)) (ordered_prices b desc)"
      using desc.sorted_sort [where key = "\<lambda>p. p", OF f] True by (simp add: ordered_prices_def)
    with True show ?thesis
      using d by (auto elim!: sorted_wrt_mono_rel [rotated] simp: ordered_prices_def before_desc_double)
  next
    case False
    have "sorted_wrt (before_asc (\<lambda>p. p)) (ordered_prices b desc)"
      using asc.sorted_sort [where key = "\<lambda>p. p", OF f] False by (simp add: ordered_prices_def)
    with False show ?thesis
      using d by (auto elim!: sorted_wrt_mono_rel [rotated] simp: ordered_prices_def before_asc_double)
  qed
qed

definition entry_at :: "gateway_level dict \<Rightarrow> jsnum \<Rightarrow> string \<times> gateway_level" where
  "entry_at b p = (num_text p, the (map_of b (num_text p)))"

lemma keep_levels:
  assumes "distinct (map num_text ps)" and "\<forall>p\<in>set ps. num_text p \<in> set (map fst b)"
    and "\<forall>p\<in>set ps. num_text p \<notin> set (map fst acc)"
  shows "fold (keep_level b) ps acc = acc @ map (entry_at b) ps"
  using assms
proof (induction ps arbitrary: acc)
  case (Cons p ps)
  from Cons.prems(2) obtain l where l: "map_of b (num_text p) = Some l"
    by (metis list.set_intros(1) map_of_eq_None_iff not_Some_eq set_map)
  have "keep_level b p acc = acc @ [entry_at b p]"
    using Cons.prems(3) l by (simp add: keep_level_def entry_at_def dict_set_new)
  moreover have "\<forall>q\<in>set ps. num_text q \<notin> set (map fst (acc @ [entry_at b p]))"
    using Cons.prems by (auto simp: entry_at_def) (metis image_eqI)
  ultimately show ?case using Cons by simp
qed simp

lemma boundBook_eq:
  assumes "side_ok b"
  shows "boundBook b desc n = map (entry_at b) (take n (ordered_prices b desc))"
proof -
  have "distinct (map num_text (take n (ordered_prices b desc)))"
    using ordered_prices_keys(2) [OF assms] by (simp add: take_map [symmetric] distinct_take)
  moreover have "\<forall>p\<in>set (take n (ordered_prices b desc)). num_text p \<in> set (map fst b)"
    using mset_eq_setD [OF ordered_prices_keys(1) [OF assms, of desc]] by (auto dest!: in_set_takeD)
  ultimately show ?thesis
    using keep_levels [of "take n (ordered_prices b desc)" b "[]"]
    by (simp add: boundBook_def ordered_prices_def slice_first_def)
qed

lemma ordered_in_book:
  assumes "side_ok b" and "p \<in> set (ordered_prices b desc)"
  shows "\<exists>l. map_of b (num_text p) = Some l \<and> level_ok (num_text p) l \<and> (num_text p, l) \<in> set b"
proof -
  have "num_text p \<in> set (map fst b)"
    using assms(2) mset_eq_setD [OF ordered_prices_keys(1) [OF assms(1), of desc]] by auto
  then obtain l where "map_of b (num_text p) = Some l"
    by (metis map_of_eq_None_iff not_Some_eq set_map)
  with assms(1) map_of_SomeD [OF this] show ?thesis by (fastforce simp: side_ok_def)
qed

lemma boundBook_ok:
  assumes "side_ok b"
  shows "side_ok (boundBook b desc n)" and "length (boundBook b desc n) = min n (length b)"
proof -
  have "distinct (map num_text (take n (ordered_prices b desc)))"
    using ordered_prices_keys(2) [OF assms] by (simp add: take_map [symmetric] distinct_take)
  then have "dict_wf (boundBook b desc n)"
    by (simp add: boundBook_eq [OF assms] dict_wf_def entry_at_def o_def)
  moreover have "level_ok (fst e) (snd e)" if "e \<in> set (boundBook b desc n)" for e
  proof -
    from that obtain p where "p \<in> set (ordered_prices b desc)" "e = entry_at b p"
      by (auto simp: boundBook_eq [OF assms] dest: in_set_takeD)
    with ordered_in_book [OF assms this(1)] show ?thesis by (auto simp: entry_at_def)
  qed
  ultimately show "side_ok (boundBook b desc n)" by (simp add: side_ok_def)
  show "length (boundBook b desc n) = min n (length b)"
    by (simp add: boundBook_eq [OF assms] ordered_prices_keys(3) [OF assms] min.commute)
qed

lemma boundBook_get:
  assumes "side_ok b" and "map_of (boundBook b desc n) k = Some l"
  shows "map_of b k = Some l"
proof -
  from map_of_SomeD [OF assms(2)] obtain p where p: "p \<in> set (ordered_prices b desc)" "(k, l) = entry_at b p"
    by (auto simp: boundBook_eq [OF assms(1)] dest: in_set_takeD)
  with ordered_in_book [OF assms(1) p(1)] show ?thesis by (auto simp: entry_at_def)
qed

lemma boundBook_dropped:
  assumes ok: "side_ok b" and "map_of b k = Some l" and "map_of (boundBook b desc n) k = None"
    and "map_of (boundBook b desc n) k' = Some l'"
  shows "if desc then val (gl_price l) \<le> val (gl_price l') else val (gl_price l') \<le> val (gl_price l)"
proof -
  let ?ps = "ordered_prices b desc"
  from map_of_SomeD [OF assms(4)] obtain p' where p': "p' \<in> set (take n ?ps)" "(k', l') = entry_at b p'"
    by (auto simp: boundBook_eq [OF ok])
  have kl: "(k, l) \<in> set b" using map_of_SomeD [OF assms(2)] .
  then have "k \<in> num_text ` set ?ps"
    using mset_eq_setD [OF ordered_prices_keys(1) [OF ok, of desc]] by force
  then obtain p where p: "p \<in> set ?ps" "k = num_text p" by blast
  have "p \<notin> set (take n ?ps)"
  proof
    assume "p \<in> set (take n ?ps)"
    then have "(k, the (map_of b k)) \<in> set (boundBook b desc n)"
      using p(2) by (auto simp: boundBook_eq [OF ok] entry_at_def)
    with assms(3) show False by (force simp: map_of_eq_None_iff)
  qed
  then have "p \<in> set (drop n ?ps)" using p(1) by (metis Un_iff append_take_drop_id set_append)
  moreover have "sorted_wrt (\<lambda>p q. if desc then val q \<le> val p else val p \<le> val q) (take n ?ps @ drop n ?ps)"
    using ordered_prices_sorted [OF ok, of desc] by simp
  ultimately have ord: "if desc then val p \<le> val p' else val p' \<le> val p"
    using p'(1) by (simp only: sorted_wrt_append) blast
  have pr: "val q = val (gl_price m)" if "q \<in> set ?ps" "map_of b (num_text q) = Some m" for q m
  proof -
    have "level_ok (num_text q) m" using ordered_in_book [OF ok that(1)] that(2) by auto
    then have "num_text q = num_text (gl_price m)" "is_double (gl_price m)" by (simp_all add: level_ok_def)
    then have "drop_sign q = drop_sign (gl_price m)"
      using num.enc_inj [OF ordered_prices_double [OF ok that(1)]] by blast
    then show ?thesis by (metis val_drop_sign)
  qed
  have "p' \<in> set ?ps" using p'(1) by (rule in_set_takeD)
  moreover from this have "map_of b (num_text p') = Some l'"
    using p'(2) ordered_in_book [OF ok, of p' desc] by (auto simp: entry_at_def)
  ultimately show ?thesis using ord pr [of p l] pr [of p' l'] p assms(2) by (cases desc) simp_all
qed

lemma apply_deltas_ok:
  assumes "fold_result apply_delta ds b = Inr b'" and "book_ok b" and "\<forall>d\<in>set ds. value_ok d"
  shows "book_ok b'"
proof (rule fold_result_inv [where I = book_ok, OF assms(1,2)])
  fix d c c' assume "d \<in> set ds" "book_ok c" "apply_delta d c = Inr c'"
  then show "book_ok c'" using apply_delta_ok assms(3) by blast
qed

lemma deltas_value_ok: "value_ok packet \<Longrightarrow> \<forall>d\<in>set (as_list (jget packet k)). value_ok d"
  using jget_ok [of packet k] by (cases "jget packet k") (auto simp: as_list_def)

text \<open>C1. A packet keeps the book well-formed: on each side there are at most \<open>maxLevels\<close> levels,
  under distinct keys, each key the text of its level's price, each price a finite double, and
  every quantity and order count finite and positive.\<close>

theorem gateway_packet_invariant:
  assumes "book_ok b" and "value_ok packet" and "applyGatewayEventPacket n packet b = Inr b'"
  shows "book_ok b' \<and> length (gb_bids b') \<le> n \<and> length (gb_asks b') \<le> n"
proof -
  obtain c where c: "fold_result apply_delta (as_list (jget packet ''deltas'')) b = Inr c"
    "b' = \<lparr>gb_bids = boundBook (gb_bids c) True n, gb_asks = boundBook (gb_asks c) False n\<rparr>"
    using assms(3) by (auto simp: applyGatewayEventPacket_def map_sum_def split: sum.splits)
  have "book_ok c" using apply_deltas_ok [OF c(1) assms(1) deltas_value_ok [OF assms(2)]] .
  then show ?thesis using boundBook_ok by (simp add: c(2) book_ok_def)
qed

text \<open>Cutting a side keeps the best levels: a kept level is the level of the side unchanged, as
  many are kept as fit, and a level that is dropped is no better than any level that is kept (not
  above it for bids, not below it for asks).\<close>

theorem bound_keeps_best:
  assumes "side_ok b"
  shows "length (boundBook b desc n) = min n (length b)
    \<and> (\<forall>k l. map_of (boundBook b desc n) k = Some l \<longrightarrow> map_of b k = Some l)
    \<and> (\<forall>k l k' l'. map_of b k = Some l \<longrightarrow> map_of (boundBook b desc n) k = None
         \<longrightarrow> map_of (boundBook b desc n) k' = Some l'
         \<longrightarrow> (if desc then val (gl_price l) \<le> val (gl_price l') else val (gl_price l') \<le> val (gl_price l)))"
  using boundBook_ok(2) [OF assms] boundBook_get [OF assms] boundBook_dropped [OF assms]
  by blast

lemma gateway_witness_levels:
  shows "side_ok [(num_text (Fin 7), \<lparr>gl_price = Fin 7, gl_qty = Fin 2, gl_orders = Fin 1\<rparr>)]"
  using is_double_int [of 7] is_double_int [of 2] is_double_int [of 1]
  by (simp add: side_ok_def dict_wf_def level_ok_def)

lemma bound_keeps_best_witness:
  "length (boundBook [(num_text (Fin 7), \<lparr>gl_price = Fin 7, gl_qty = Fin 2, gl_orders = Fin 1\<rparr>)] True 0) = min 0 1"
  using bound_keeps_best [OF gateway_witness_levels, of True 0] by simp

lemma gateway_packet_invariant_witness:
  "\<exists>b'. book_ok b' \<and> length (gb_bids b') \<le> 5 \<and> length (gb_asks b') \<le> 5"
proof -
  let ?b = "\<lparr>gb_bids = [(num_text (Fin 7), \<lparr>gl_price = Fin 7, gl_qty = Fin 2, gl_orders = Fin 1\<rparr>)], gb_asks = []\<rparr>"
  let ?p = "Obj [(''deltas'', Arr [Obj [(''side'', Str ''S''), (''price'', Num (Fin 9)), (''qty'', Num (Fin 4)), (''orders'', Num (Fin 1))]])]"
  have "book_ok ?b" using gateway_witness_levels by (simp add: book_ok_def)
  moreover have "value_ok ?p" by simp
  moreover obtain b' where "applyGatewayEventPacket 5 ?p ?b = Inr b'"
    by (simp add: applyGatewayEventPacket_def jget_def as_list_def apply_delta_def finite_field_def)
  ultimately show ?thesis using gateway_packet_invariant [of ?b ?p 5 b'] by blast
qed

subsection \<open>Refinement: a side is a finite map from prices to levels\<close>

definition side_map :: "gateway_level dict \<Rightarrow> rat \<Rightarrow> gateway_level option" where
  "side_map b q = (if representable q then map_of b (num_text (Fin q)) else None)"

text \<open>What a delta means for the levels of a side.\<close>

definition spec_side :: "jsv \<Rightarrow> jsnum \<Rightarrow> (rat \<Rightarrow> gateway_level option) \<Rightarrow> rat \<Rightarrow> gateway_level option" where
  "spec_side delta price m =
     (let qty = get_or (finite_field (jget delta ''qty'')) (Fin 0);
          orders = get_or (finite_field (jget delta ''orders'')) (Fin 0)
      in m(val price := (if is_lit (jget delta ''action'') ''D'' \<or> jle qty (Fin 0) \<or> jle orders (Fin 0)
           then None else Some \<lparr>gl_price = price, gl_qty = qty, gl_orders = orders\<rparr>)))"

lemma same_key:
  assumes "is_double x" and "representable q"
  shows "num_text (Fin q) = num_text x \<longleftrightarrow> q = val x"
proof
  have d: "is_double (Fin q)" using assms(2) by (simp add: is_double_def)
  show "q = val x" if "num_text (Fin q) = num_text x"
  proof -
    have "drop_sign (Fin q) = drop_sign x" using num.enc_inj [OF d assms(1) that] .
    then show ?thesis by (metis val.simps(1) val_drop_sign)
  qed
  show "num_text (Fin q) = num_text x" if "q = val x"
  proof -
    have "drop_sign (Fin q) = drop_sign x"
      using that assms(1) drop_sign_jeq [of "Fin q" x] by (simp add: is_double_def jeq_finite)
    then show ?thesis by (metis num_text_drop_sign)
  qed
qed

text \<open>C2. A delta does to the levels of a side what its meaning says, seen as a map from prices:
  the level at its price is set or removed and no other price is touched. Distinct prices never
  meet in one key, because the text of a double reads back.\<close>

theorem apply_side_refines:
  assumes "is_double price"
  shows "side_map (apply_side delta price b) = spec_side delta price (side_map b)"
proof
  fix q
  have r: "representable (val price)" using assms by (simp add: is_double_def)
  show "side_map (apply_side delta price b) q = spec_side delta price (side_map b) q"
    using same_key [OF assms, of q] r
    by (cases "representable q")
      (auto simp: side_map_def apply_side_def spec_side_def Let_def dict_get_set dict_get_del)
qed

lemma apply_side_refines_witness:
  "side_map (apply_side Undefined (Fin 3) []) = spec_side Undefined (Fin 3) (side_map [])"
  using apply_side_refines [of "Fin 3" Undefined "[]"] is_double_int [of 3] by simp

text \<open>While a side holds no more than \<open>maxLevels\<close> levels, cutting it does not change it as a map.\<close>

theorem bound_identity:
  assumes "side_ok b" and "length b \<le> n"
  shows "side_map (boundBook b desc n) = side_map b"
proof -
  have "map_of (boundBook b desc n) k = map_of b k" for k
  proof (cases "map_of b k")
    case None
    then show ?thesis using boundBook_get [OF assms(1), of desc n k] by (cases "map_of (boundBook b desc n) k") auto
  next
    case (Some l)
    have "set (map fst (boundBook b desc n)) = set (map fst b)"
      using mset_eq_setD [OF ordered_prices_keys(1) [OF assms(1), of desc]] ordered_prices_keys(3) [OF assms(1), of desc] assms(2)
      by (simp add: boundBook_eq [OF assms(1)] entry_at_def o_def)
    then have "k \<in> fst ` set (boundBook b desc n)" using map_of_SomeD [OF Some] by force
    then obtain l' where "map_of (boundBook b desc n) k = Some l'"
      by (metis map_of_eq_None_iff not_Some_eq)
    with boundBook_get [OF assms(1) this] Some show ?thesis by simp
  qed
  then show ?thesis by (simp add: side_map_def fun_eq_iff)
qed

lemma bound_identity_witness:
  "side_map (boundBook [(num_text (Fin 7), \<lparr>gl_price = Fin 7, gl_qty = Fin 2, gl_orders = Fin 1\<rparr>)] False 200)
   = side_map [(num_text (Fin 7), \<lparr>gl_price = Fin 7, gl_qty = Fin 2, gl_orders = Fin 1\<rparr>)]"
  by (rule bound_identity [OF gateway_witness_levels]) simp

subsection \<open>The hook loses no packet\<close>

definition frame_packets :: "hook_event \<Rightarrow> jsv list" where
  "frame_packets ev = (case ev of Frame (Some v) \<Rightarrow>
      (if truthy (jget v ''event_packet'') then [jget v ''event_packet''] else []) | _ \<Rightarrow> [])"

text \<open>What the hook will show once its buffer is applied.\<close>

definition flushed :: "nat \<Rightarrow> gateway_hook \<Rightarrow> gateway_book js_result" where
  "flushed n h = fold_result (applyGatewayEventPacket n) (gh_buffer h) (gh_book h)"

lemma flushed_step:
  assumes "ev \<notin> {UrlCleared, ClearTimer}"
  shows "(case hook_step n ev h of Inl e \<Rightarrow> Inl e | Inr h' \<Rightarrow> flushed n h')
    = (case flushed n h of Inl e \<Rightarrow> Inl e
         | Inr b \<Rightarrow> fold_result (applyGatewayEventPacket n) (frame_packets ev) b)"
proof (cases ev)
  case (Frame raw)
  then show ?thesis
    by (auto simp: on_frame_def frame_packets_def flushed_def fold_result_append split: option.splits sum.splits)
next
  case RenderTick
  then show ?thesis
    by (auto simp: on_render_tick_def frame_packets_def flushed_def map_sum_def split: sum.splits)
next
  case UrlGiven
  then show ?thesis by (simp add: on_url_given_def frame_packets_def flushed_def split: sum.splits)
qed (use assms in simp_all)

text \<open>C3. As long as the url is not taken away, however the timer ticks fall between the frames, the book the hook shows after its buffer
  is applied is the one that all packets received so far build in order, from the same start:
  none is lost, none applied twice, and if one makes the fold throw the hook throws too.\<close>

theorem hook_batches_packets:
  assumes "UrlCleared \<notin> set evs" and "ClearTimer \<notin> set evs"
  shows "(case fold_result (hook_step n) evs h of Inl e \<Rightarrow> Inl e | Inr h' \<Rightarrow> flushed n h')
    = (case flushed n h of Inl e \<Rightarrow> Inl e
         | Inr b \<Rightarrow> fold_result (applyGatewayEventPacket n) (concat (map frame_packets evs)) b)"
  using assms
proof (induction evs arbitrary: h)
  case (Cons ev evs)
  have s: "(case hook_step n ev h of Inl e \<Rightarrow> Inl e | Inr h' \<Rightarrow> flushed n h')
    = (case flushed n h of Inl e \<Rightarrow> Inl e
         | Inr b \<Rightarrow> fold_result (applyGatewayEventPacket n) (frame_packets ev) b)"
    using Cons.prems by (intro flushed_step) auto
  show ?case
  proof (cases "hook_step n ev h")
    case (Inl e)
    with s show ?thesis by (auto simp: fold_result_append split: sum.splits)
  next
    case (Inr h')
    have ih: "(case fold_result (hook_step n) evs h' of Inl e \<Rightarrow> Inl e | Inr h'' \<Rightarrow> flushed n h'')
      = (case flushed n h' of Inl e \<Rightarrow> Inl e
         | Inr b \<Rightarrow> fold_result (applyGatewayEventPacket n) (concat (map frame_packets evs)) b)"
      using Cons by simp
    show ?thesis
    proof (cases "flushed n h")
      case (Inr b)
      with s \<open>hook_step n ev h = Inr h'\<close>
      have "flushed n h' = fold_result (applyGatewayEventPacket n) (frame_packets ev) b" by simp
      with ih Inr \<open>hook_step n ev h = Inr h'\<close> show ?thesis by (simp add: fold_result_append)
    next
      case (Inl e)
      with s \<open>hook_step n ev h = Inr h'\<close> have "flushed n h' = Inl e" by simp
      with ih Inl \<open>hook_step n ev h = Inr h'\<close> show ?thesis by simp
    qed
  qed
qed (simp split: sum.splits)

lemma hook_batches_packets_witness:
  "(case fold_result (hook_step 3) [RenderTick, Frame None] \<lparr>gh_buffer = [], gh_book = empty_book, gh_clearing = False\<rparr> of
      Inl e \<Rightarrow> Inl e | Inr h' \<Rightarrow> flushed 3 h')
    = (case flushed 3 \<lparr>gh_buffer = [], gh_book = empty_book, gh_clearing = False\<rparr> of Inl e \<Rightarrow> Inl e
         | Inr b \<Rightarrow> fold_result (applyGatewayEventPacket 3) (concat (map frame_packets [RenderTick, Frame None])) b)"
  by (rule hook_batches_packets) simp_all

end
