(* ===== verification/Bars.thy ===== *)
theory Bars
  imports Types
begin

text \<open>
  \<open>apps/terminal/src/utils/bars.ts\<close>: the normaliser of a chart-bar payload. The payload is an
  untyped value; \<open>Date.parse\<close> is the parameter \<open>date_parse\<close>. A row that is \<open>null\<close> or
  \<open>undefined\<close> makes the property read throw, so the result is a sum. The request itself
  (\<open>fetchBars\<close>) is modelled up to the network: its URL, and what it returns or throws for
  each way the request can end.
\<close>

definition finiteNumber :: "jsv \<Rightarrow> jsnum option" where
  "finiteNumber v = (let n = to_num v in if is_finite n then Some n else None)"

definition normalizeTimestamp :: "(string \<Rightarrow> jsnum) \<Rightarrow> jsv \<Rightarrow> jsnum option" where
  "normalizeTimestamp date_parse v = or_else
     (case v of Str s \<Rightarrow> if is_finite (date_parse s) then Some (date_parse s) else None | _ \<Rightarrow> None)
     (case finiteNumber v of
        None \<Rightarrow> None
      | Some n \<Rightarrow> Some (if jlt n (Fin 10000000000) then jmul n (Fin 1000) else n))"

text \<open>One row: \<open>Inr None\<close> is a row that is dropped.\<close>

definition parse_bar_row :: "(string \<Rightarrow> jsnum) \<Rightarrow> jsv \<Rightarrow> bar option js_result" where
  "parse_bar_row date_parse row = (if nullish row then Inl TypeError else Inr (
     case finiteNumber (coalesce (jget row ''close'') (jget row ''price'')) of
       None \<Rightarrow> None
     | Some close \<Rightarrow>
         (case normalizeTimestamp date_parse (coalesce (jget row ''time'')
             (coalesce (jget row ''timestampMs'') (coalesce (jget row ''timestamp'') (jget row ''ts'')))) of
            None \<Rightarrow> None
          | Some timestamp \<Rightarrow>
              (let op = get_or (finiteNumber (jget row ''open'')) close;
                   high = get_or (finiteNumber (jget row ''high'')) (math_max op close);
                   low = get_or (finiteNumber (jget row ''low'')) (math_min op close);
                   volume = get_or (finiteNumber (jget row ''volume'')) (Fin 0)
               in Some \<lparr>br_timestamp = timestamp, br_open = op, br_high = high, br_low = low,
                        br_close = close, br_volume = volume\<rparr>))))"

fun parse_rows :: "(jsv \<Rightarrow> 'a option js_result) \<Rightarrow> jsv list \<Rightarrow> 'a list js_result" where
  "parse_rows f [] = Inr []"
| "parse_rows f (r # rs) = (case f r of
     Inl e \<Rightarrow> Inl e
   | Inr x \<Rightarrow> (case parse_rows f rs of
        Inl e \<Rightarrow> Inl e
      | Inr xs \<Rightarrow> Inr (case x of None \<Rightarrow> xs | Some b \<Rightarrow> b # xs)))"

definition bars_source :: "jsv \<Rightarrow> jsv list" where
  "bars_source payload = (case payload of Arr rows \<Rightarrow> rows
     | Obj d \<Rightarrow> (case oget d ''bars'' of Arr rows \<Rightarrow> rows | _ \<Rightarrow> [])
     | _ \<Rightarrow> [])"

definition parseBarsPayload :: "(string \<Rightarrow> jsnum) \<Rightarrow> jsv \<Rightarrow> bar list js_result" where
  "parseBarsPayload date_parse payload =
     map_sum id (sort_js (before_asc br_timestamp))
       (parse_rows (parse_bar_row date_parse) (bars_source payload))"

subsection \<open>The request\<close>

definition bars_url :: "(string \<Rightarrow> string) \<Rightarrow> string \<Rightarrow> string \<Rightarrow> jsnum \<Rightarrow> string" where
  "bars_url encode asset interval limit =
     ''/api/bars/'' @ encode asset @ ''?interval='' @ encode interval @ ''&limit='' @ num_text limit"

text \<open>How a request ends: an answer with its status and its body (\<open>None\<close> when it is not JSON),
  an abort, or another failure.\<close>

datatype fetch_end = Answer bool jsnum "jsv option" | Aborted | NetFailure string

datatype bars_error = HttpStatus string | RequestTimedOut string | Thrown js_error | NetError string

definition fetchBars_outcome ::
    "(string \<Rightarrow> jsnum) \<Rightarrow> jsnum \<Rightarrow> bool \<Rightarrow> fetch_end \<Rightarrow> bars_error + bar list" where
  "fetchBars_outcome date_parse timeoutMs timedOut response =
     (let body = (case response of
            Answer ok status content \<Rightarrow>
              (if \<not> ok then Inl (HttpStatus (''HTTP '' @ num_text status))
               else case content of None \<Rightarrow> Inl (Thrown SyntaxError)
                 | Some v \<Rightarrow> map_sum Thrown id (parseBarsPayload date_parse v))
          | Aborted \<Rightarrow> Inl (NetError ''AbortError'')
          | NetFailure m \<Rightarrow> Inl (NetError m));
          isAbort = (response = Aborted)
      in case body of
           Inr bars \<Rightarrow> Inr bars
         | Inl err \<Rightarrow> if timedOut \<or> isAbort
             then Inl (RequestTimedOut (''Chart bars request timed out after ''
                    @ num_text (math_round (jdiv timeoutMs (Fin 1000))) @ ''s''))
             else Inl err)"

subsection \<open>Properties of the parser\<close>

text \<open>What a parsed row satisfies, whatever the payload.\<close>

definition bar_ok :: "bar \<Rightarrow> bool" where
  "bar_ok b \<longleftrightarrow> is_double (br_open b) \<and> is_double (br_high b) \<and> is_double (br_low b)
     \<and> is_double (br_close b) \<and> is_double (br_volume b) \<and> is_float (br_timestamp b)"

lemma finiteNumber_Some: "finiteNumber v = Some n \<Longrightarrow> value_ok v \<Longrightarrow> is_double n"
  using to_num_number [of v]
  by (auto simp: finiteNumber_def Let_def is_double_def is_number_def split: if_splits)

lemma get_or_finiteNumber:
  "value_ok v \<Longrightarrow> is_double d \<Longrightarrow> is_double (get_or (finiteNumber v) d)"
  by (cases "finiteNumber v") (auto simp: finiteNumber_Some)

lemma is_double_math: "is_double a \<Longrightarrow> is_double b \<Longrightarrow> is_double (math_max a b)"
  "is_double a \<Longrightarrow> is_double b \<Longrightarrow> is_double (math_min a b)"
  by (auto simp: is_double_def math_max_finite math_min_finite max_def min_def)

lemma is_double_zero [simp]: "is_double (Fin 0)" "is_double NegZero"
  by (auto simp: is_double_def representable_def)

lemma jmul_not_NaN: "is_finite a \<Longrightarrow> is_finite b \<Longrightarrow> jmul a b \<noteq> NaN"
  by (auto simp: jmul_def Let_def)

lemma normalizeTimestamp_float:
  assumes "\<And>s. is_number (date_parse s)" and "value_ok v" and "normalizeTimestamp date_parse v = Some t"
  shows "is_float t"
proof -
  have dated: "is_float (date_parse s)" if "is_finite (date_parse s)" for s
    using assms(1) [of s] that by (auto simp: is_float_def)
  have plain: "is_float (if jlt n (Fin 10000000000) then jmul n (Fin 1000) else n)"
    if "finiteNumber v = Some n" for n
    using finiteNumber_Some [OF that assms(2)] is_double_finite [of n]
    by (auto simp: is_float_def is_double_def is_number_def [of n] jmul_not_NaN)
  let ?d = "case v of Str s \<Rightarrow> if is_finite (date_parse s) then Some (date_parse s) else None | _ \<Rightarrow> None"
  show ?thesis
  proof (cases ?d)
    case None
    with assms(3) obtain n where "finiteNumber v = Some n"
      "t = (if jlt n (Fin 10000000000) then jmul n (Fin 1000) else n)"
      by (auto simp: normalizeTimestamp_def split: option.splits)
    then show ?thesis using plain by simp
  next
    case (Some d)
    with assms(3) have "t = d" by (simp add: normalizeTimestamp_def)
    with Some dated show ?thesis by (auto split: jsv.splits if_splits)
  qed
qed

lemma parse_bar_row_ok:
  assumes "\<And>s. is_number (date_parse s)" and "value_ok row"
    and "parse_bar_row date_parse row = Inr (Some b)"
  shows "bar_ok b"
proof -
  have v: "value_ok (jget row k)" for k using assms(2) by (rule jget_ok)
  note stamp = normalizeTimestamp_float [where date_parse = date_parse, OF assms(1)
     coalesce_ok [OF v coalesce_ok [OF v coalesce_ok [OF v v]]]]
  from assms(3) show ?thesis
    using v finiteNumber_Some
    by (auto dest!: stamp simp: parse_bar_row_def bar_ok_def Let_def coalesce_ok is_double_math get_or_finiteNumber
        split: if_splits option.splits)
qed

lemma parse_rows_set:
  "parse_rows f rs = Inr xs \<Longrightarrow> x \<in> set xs \<Longrightarrow> \<exists>r\<in>set rs. f r = Inr (Some x)"
  by (induction rs arbitrary: xs) (auto split: sum.splits option.splits)

lemma parse_rows_fail:
  "(\<exists>e. parse_rows f rs = Inl e) \<longleftrightarrow> (\<exists>r\<in>set rs. \<exists>e. f r = Inl e)"
  by (induction rs) (auto split: sum.splits)

lemma parse_bar_row_fail: "(\<exists>e. parse_bar_row date_parse row = Inl e) \<longleftrightarrow> nullish row"
  by (simp add: parse_bar_row_def)

text \<open>C34. The bars a payload parses to are in time order (ties kept in the order of the payload by
  the stable sort), the prices and the volume of every bar are finite doubles, and its timestamp is
  a number that is not NaN (an infinite one is kept): a row whose close or timestamp is unreadable is
  dropped, never kept half-filled.\<close>

theorem parsed_bars_sorted:
  assumes "\<And>s. is_number (date_parse s)" and "value_ok payload"
    and "parseBarsPayload date_parse payload = Inr bars"
  shows "sorted_wrt (\<lambda>a b. jle (br_timestamp a) (br_timestamp b)) bars \<and> (\<forall>b\<in>set bars. bar_ok b)"
proof -
  obtain xs where xs: "parse_rows (parse_bar_row date_parse) (bars_source payload) = Inr xs"
    "bars = sort_js (before_asc br_timestamp) xs"
    using assms(3) by (auto simp: parseBarsPayload_def map_sum_def split: sum.splits)
  have rows: "\<forall>r\<in>set (bars_source payload). value_ok r"
  proof (cases payload)
    case (Obj d)
    with assms(2) oget_ok [of d "''bars''"] show ?thesis
      by (cases "oget d ''bars''") (auto simp: bars_source_def)
  qed (use assms(2) in \<open>auto simp: bars_source_def\<close>)
  have ok: "\<forall>b\<in>set xs. bar_ok b"
  proof
    fix b assume "b \<in> set xs"
    then obtain r where "r \<in> set (bars_source payload)" "parse_bar_row date_parse r = Inr (Some b)"
      using parse_rows_set [OF xs(1)] by blast
    with rows show "bar_ok b" using parse_bar_row_ok [where date_parse = date_parse, OF assms(1)] by blast
  qed
  then have "sorted_wrt (before_asc br_timestamp) (sort_js (before_asc br_timestamp) xs)"
    by (intro asc.sorted_sort) (simp add: bar_ok_def)
  then have "sorted_wrt (before_asc br_timestamp) bars" by (simp only: xs(2))
  then have "sorted_wrt (\<lambda>a b. jle (br_timestamp a) (br_timestamp b)) bars"
    using ok xs(2) by (auto elim!: sorted_wrt_mono_rel [rotated] simp: bar_ok_def before_asc_float)
  with ok xs(2) show ?thesis by simp
qed

text \<open>Parsing throws exactly when a row of the payload is \<open>null\<close> or \<open>undefined\<close>; every other
  payload, of any shape, gives a list of bars.\<close>

theorem parse_bars_throws_iff:
  "(\<exists>e. parseBarsPayload date_parse payload = Inl e) \<longleftrightarrow> (\<exists>row\<in>set (bars_source payload). nullish row)"
proof -
  have "(\<exists>e. parseBarsPayload date_parse payload = Inl e)
     \<longleftrightarrow> (\<exists>e. parse_rows (parse_bar_row date_parse) (bars_source payload) = Inl e)"
    by (auto simp: parseBarsPayload_def map_sum_def split: sum.splits)
  then show ?thesis by (simp only: parse_rows_fail parse_bar_row_fail)
qed

definition sample_bars :: "bar list" where
  "sample_bars = [\<lparr>br_timestamp = Fin 60000, br_open = Fin 5, br_high = Fin 7, br_low = Fin 5, br_close = Fin 7, br_volume = Fin 0\<rparr>,
      \<lparr>br_timestamp = Fin 120000, br_open = Fin 9, br_high = Fin 9, br_low = Fin 9, br_close = Fin 9, br_volume = Fin 3\<rparr>]"

definition sample_bars_payload :: jsv where
  "sample_bars_payload = Obj [(''bars'', Arr
      [Obj [(''ts'', Num (Fin 120)), (''close'', Num (Fin 9)), (''volume'', Str ''3'')],
       Obj [(''ts'', Str ''x''), (''close'', Num (Fin 9))],
       Obj [(''ts'', Num (Fin 60)), (''price'', Str ''7''), (''open'', Num (Fin 5))]])]"

lemma parsed_bars_sorted_witness:
  "parseBarsPayload (\<lambda>s. NaN) sample_bars_payload = Inr sample_bars
   \<and> sorted_wrt (\<lambda>a b. jle (br_timestamp a) (br_timestamp b)) sample_bars \<and> list_all bar_ok sample_bars"
proof -
  have p: "parseBarsPayload (\<lambda>s. NaN) sample_bars_payload = Inr sample_bars" by code_simp
  have "value_ok sample_bars_payload" by (simp add: sample_bars_payload_def)
  from parsed_bars_sorted [OF _ this p] p show ?thesis by (simp add: list_all_iff)
qed

end
