(* ===== verification/MarketDisplay.thy ===== *)
theory MarketDisplay
  imports Bars
begin

text \<open>
  \<open>apps/terminal/src/utils/marketDisplay.ts\<close>: the price increment of a ladder (published by the
  book, given by the product definition, or inferred from the distance of the depth levels), the
  formatting and rounding of prices to it, and the grouping factors offered for a tick size.
\<close>

record market_depth_level =
  md_price :: jsnum
  md_size :: "jsnum option"

datatype increment_source = FromBook | FromProduct | FromDepth | MissingIncrement

record depth_contract =
  dc_ready :: bool
  dc_increment :: "jsnum option"
  dc_source :: increment_source
  dc_message :: "string option"

definition finiteMarketPrice :: "jsv \<Rightarrow> jsnum option" where
  "finiteMarketPrice v = (let n = to_num v in if is_finite n then Some n else None)"

definition positiveNumber :: "jsv \<Rightarrow> jsnum option" where
  "positiveNumber v = (let n = to_num v in if is_finite n \<and> jgt n (Fin 0) then Some n else None)"

definition strip_zeros :: "string \<Rightarrow> string" where
  "strip_zeros s = rev (dropWhile (\<lambda>c. c = CHR ''0'') (rev s))"

definition decimalsForIncrement :: "jsnum option \<Rightarrow> nat option" where
  "decimalsForIncrement increment = (case increment of
     None \<Rightarrow> None
   | Some x \<Rightarrow>
      if \<not> num_truthy x \<or> \<not> is_finite x \<or> jle x (Fin 0) then None
      else (let fixed = strip_zeros (to_fixed 10 x) in
        case find_index (\<lambda>c. c = CHR ''.'') fixed of
          None \<Rightarrow> Some 0
        | Some dot \<Rightarrow> Some (min 8 (length fixed - dot - 1))))"

definition formatMarketPrice :: "jsnum \<Rightarrow> jsnum option \<Rightarrow> string" where
  "formatMarketPrice price priceIncrement =
     (if \<not> is_finite price then ''-''
      else case decimalsForIncrement priceIncrement of
        Some d \<Rightarrow> to_fixed d price
      | None \<Rightarrow> if jge (math_abs price) (Fin 100) then to_fixed 2 price else to_fixed 3 price)"

definition roundToPriceIncrement :: "jsnum \<Rightarrow> jsnum \<Rightarrow> jsnum" where
  "roundToPriceIncrement price inc =
     (if \<not> is_finite price \<or> \<not> is_finite inc \<or> jle inc (Fin 0) then price
      else jmul (math_round (jdiv price inc)) inc)"

text \<open>The distances of neighbours in a sorted list that exceed the tolerance.\<close>

fun level_gaps :: "jsnum list \<Rightarrow> jsnum list" where
  "level_gaps (p # q # ps) =
     (let diff = math_abs (jsub q p) in
      if jgt diff (rnd False (1 / 1000000000)) then diff # level_gaps (q # ps) else level_gaps (q # ps))"
| "level_gaps ps = []"

definition level_prices :: "market_depth_level list \<Rightarrow> jsnum list" where
  "level_prices levels =
     sort_js (before_asc (\<lambda>p. p)) (List.map_filter (\<lambda>l. finiteMarketPrice (Num (md_price l))) levels)"

definition inferPriceIncrementFromLevels :: "market_depth_level list \<Rightarrow> jsnum option" where
  "inferPriceIncrementFromLevels levels =
     (case sort_js (before_asc (\<lambda>d. d)) (level_gaps (level_prices levels)) of
        [] \<Rightarrow> None | d # ds \<Rightarrow> Some d)"

text \<open>The fields of the argument object: an absent list of levels is the empty one.\<close>

definition resolvePriceIncrement ::
    "jsv \<Rightarrow> jsv \<Rightarrow> market_depth_level list \<Rightarrow> market_depth_level list \<Rightarrow> jsnum option" where
  "resolvePriceIncrement publishedTickSize productTickSize bids asks =
     or_else (positiveNumber publishedTickSize)
       (or_else (positiveNumber productTickSize) (inferPriceIncrementFromLevels (bids @ asks)))"

definition truthy_num :: "jsnum option \<Rightarrow> jsnum option" where
  "truthy_num x = (case x of None \<Rightarrow> None | Some n \<Rightarrow> if num_truthy n then Some n else None)"

definition resolveDepthDisplayContract ::
    "jsv \<Rightarrow> jsv \<Rightarrow> market_depth_level list \<Rightarrow> market_depth_level list \<Rightarrow> depth_contract" where
  "resolveDepthDisplayContract publishedTickSize productTickSize bids asks =
     (case truthy_num (positiveNumber publishedTickSize) of
        Some b \<Rightarrow> \<lparr>dc_ready = True, dc_increment = Some b, dc_source = FromBook, dc_message = None\<rparr>
      | None \<Rightarrow>
     (case truthy_num (positiveNumber productTickSize) of
        Some p \<Rightarrow> \<lparr>dc_ready = True, dc_increment = Some p, dc_source = FromProduct, dc_message = None\<rparr>
      | None \<Rightarrow>
     (case truthy_num (inferPriceIncrementFromLevels (bids @ asks)) of
        Some d \<Rightarrow> \<lparr>dc_ready = True, dc_increment = Some d, dc_source = FromDepth, dc_message = None\<rparr>
      | None \<Rightarrow> \<lparr>dc_ready = False, dc_increment = None, dc_source = MissingIncrement,
          dc_message = Some ''Waiting for product definition from price service.''\<rparr>)))"

definition depthMultiplierOptionsForTickSize :: "jsv \<Rightarrow> nat list" where
  "depthMultiplierOptionsForTickSize tickSize = (let tick = to_num tickSize in
     if is_finite tick \<and> jlt (math_abs (jsub tick (rnd False (1 / 10)))) (rnd False (1 / 1000000000))
     then [1, 2, 5, 10] else [1, 2, 4, 8, 16])"

subsection \<open>Increments are positive\<close>

lemma positiveNumber_pos: "positiveNumber v = Some n \<Longrightarrow> is_finite n \<and> 0 < val n"
  by (auto simp: positiveNumber_def Let_def jlt_finite split: if_splits)

lemma num_truthy_pos: "jlt (Fin 0) n \<Longrightarrow> num_truthy n"
  by (cases n) (auto simp: num_truthy_def jlt_def jeq_def)

lemma tolerance_pos: "jlt (Fin 0) (rnd False (1 / 1000000000))"
  by code_simp

lemma level_gaps_pos: "\<forall>d\<in>set (level_gaps ps). jlt (Fin 0) d"
  using jlt_trans [OF tolerance_pos] by (induction ps rule: level_gaps.induct) (auto simp: Let_def)

lemma inferred_pos: "inferPriceIncrementFromLevels levels = Some d \<Longrightarrow> jlt (Fin 0) d"
proof -
  assume "inferPriceIncrementFromLevels levels = Some d"
  then have "d \<in> set (sort_js (before_asc (\<lambda>d. d)) (level_gaps (level_prices levels)))"
    by (auto simp: inferPriceIncrementFromLevels_def simp del: set_sort_js split: list.splits)
  then have "d \<in> set (level_gaps (level_prices levels))" by simp
  then show ?thesis using level_gaps_pos by blast
qed

lemma truthy_positive [simp]: "truthy_num (positiveNumber v) = positiveNumber v"
  by (auto simp: truthy_num_def positiveNumber_def Let_def num_truthy_pos)

lemma truthy_inferred [simp]:
  "truthy_num (inferPriceIncrementFromLevels levels) = inferPriceIncrementFromLevels levels"
  using inferred_pos num_truthy_pos by (auto simp: truthy_num_def split: option.splits)

text \<open>The depth contract is ready exactly when an increment can be resolved, its increment is
  the one \<open>resolvePriceIncrement\<close> gives, and its source is the first of book, product definition
  and depth levels that has one.\<close>

theorem depth_contract_resolves:
  "dc_increment (resolveDepthDisplayContract pub def bids asks) = resolvePriceIncrement pub def bids asks
   \<and> dc_ready (resolveDepthDisplayContract pub def bids asks) = (resolvePriceIncrement pub def bids asks \<noteq> None)
   \<and> dc_source (resolveDepthDisplayContract pub def bids asks) =
       (if positiveNumber pub \<noteq> None then FromBook
        else if positiveNumber def \<noteq> None then FromProduct
        else if inferPriceIncrementFromLevels (bids @ asks) \<noteq> None then FromDepth
        else MissingIncrement)"
  by (simp add: resolveDepthDisplayContract_def resolvePriceIncrement_def split: option.splits)

text \<open>A resolved increment is positive, whatever the published values and the levels are: the
  ladder never divides by zero or steps backwards.\<close>

theorem resolved_increment_positive:
  assumes "resolvePriceIncrement pub def bids asks = Some inc"
  shows "jlt (Fin 0) inc"
  using assms inferred_pos
  by (auto simp: resolvePriceIncrement_def or_else_def positiveNumber_def Let_def split: option.splits if_splits)

lemma resolved_increment_positive_witness:
  "jlt (Fin 0) (Fin (1 / 4))"
  by (rule resolved_increment_positive [of Undefined "Str ''x''"
        "[\<lparr>md_price = Fin 10, md_size = None\<rparr>, \<lparr>md_price = Fin (39 / 4), md_size = None\<rparr>]"
        "[\<lparr>md_price = Fin 11, md_size = None\<rparr>]"]) code_simp

end
