(* ===== verification/ExchangeRows.thy ===== *)
theory ExchangeRows
  imports Types
begin

text \<open>
  The normalisers of \<open>apps/terminal/src/store/index.ts\<close> for what the exchange service sends:
  orders, positions and fills arrive as objects with alternative spellings of their fields, and
  are turned into the records of the store. \<open>now\<close> is the reading of \<open>Date.now()\<close> during the
  call. A field the normaliser does not set is carried over by the object spread (the \<open>rest\<close>
  field). Main results: what a normalised order always satisfies, and that normalising the object
  of a normalised order or position gives it back.
\<close>

definition normalizeExchangeNumber :: "jsv \<Rightarrow> jsnum \<Rightarrow> jsnum" where
  "normalizeExchangeNumber value fallback =
     (if nullish value then fallback
      else let parsed = (case value of Str s \<Rightarrow> parse_float s | _ \<Rightarrow> to_num value)
           in if is_finite parsed then parsed else fallback)"

text \<open>The properties of a spread that later properties of the literal do not override.\<close>

definition spread_rest :: "string list \<Rightarrow> jobj \<Rightarrow> jobj" where
  "spread_rest keys raw = filter (\<lambda>e. fst e \<notin> set keys) raw"

definition order_keys :: "string list" where
  "order_keys = [''id'', ''marketKey'', ''outcome'', ''side'', ''orderType'', ''price'', ''size'',
     ''remaining'', ''filledSize'', ''matchedVolume'', ''status'', ''createdAt'', ''updatedAt'',
     ''operator'', ''source'', ''strategy'', ''legId'']"

definition normalizeSimOrder :: "jsnum \<Rightarrow> jobj \<Rightarrow> sim_order" where
  "normalizeSimOrder now raw =
     (let ident = to_str (coalesce (oget_any raw [''id'', ''orderId'', ''order_id'']) (Str (''sim-order-'' @ num_text now)));
          marketKey = to_str (coalesce (oget_any raw [''marketKey'', ''symbol'', ''product'']) (Str ''UNKNOWN''));
          rawSide = to_lower (to_str (coalesce (oget_any raw [''side'', ''orderSide'']) (Str [])));
          side = (if rawSide = ''offer'' \<or> rawSide = ''ask'' \<or> rawSide = ''sell'' then ''offer'' else ''bid'');
          status = (case oget raw ''status'' of
              Str s \<Rightarrow> if s \<in> {''partially_filled'', ''filled'', ''cancelled'', ''working''} then s else ''working''
            | _ \<Rightarrow> ''working'');
          orderType = (if is_lit (oget raw ''orderType'') ''market'' \<or> is_lit (oget raw ''type'') ''market''
            then ''market'' else ''limit'');
          sz = math_max (Fin 0) (normalizeExchangeNumber (oget_any raw [''size'', ''quantity'']) (Fin 0));
          remaining = math_max (Fin 0) (normalizeExchangeNumber (oget_any raw [''remaining'', ''remainingQuantity'']) sz)
      in \<lparr>so_id = ident, so_marketKey = marketKey,
          so_outcome = (if is_lit (oget raw ''outcome'') ''no'' then ''no'' else ''yes''),
          so_side = side, so_orderType = orderType,
          so_price = normalizeExchangeNumber (oget_any raw [''price'', ''limitPrice'']) (Fin 0),
          so_size = sz, so_remaining = remaining,
          so_filledSize = math_max (Fin 0) (normalizeExchangeNumber (oget raw ''filledSize'')
            (math_max (Fin 0) (jsub sz remaining))),
          so_matchedVolume = math_max (Fin 0) (normalizeExchangeNumber (oget raw ''matchedVolume'') (Fin 0)),
          so_status = status,
          so_createdAt = normalizeExchangeNumber (oget_any raw [''createdAt'', ''timestampMs'']) now,
          so_updatedAt = normalizeExchangeNumber (oget_any raw [''updatedAt'', ''timestampMs'']) now,
          so_operator = to_str (coalesce (oget_any raw [''operator'', ''operatorId'']) (Str ''tsturiale'')),
          so_source = (if is_lit (oget raw ''source'') ''algo'' then ''algo'' else ''manual''),
          so_strategy = to_str (coalesce (oget raw ''strategy'') (Str [])),
          so_legId = to_str (coalesce (oget_any raw [''legId'', ''leg_id'']) (Str (marketKey @ ''-'' @ ident))),
          so_rest = spread_rest order_keys raw\<rparr>)"

definition position_keys :: "string list" where
  "position_keys = [''id'', ''marketKey'', ''outcome'', ''size'', ''avgPrice'', ''markPrice'',
     ''openPnl'', ''realizedPnl'', ''totalPnl'', ''status'', ''openedAt'', ''closedAt'', ''operator'',
     ''source'', ''strategy'', ''legId'']"

definition normalizeSimPosition :: "jsnum \<Rightarrow> jobj \<Rightarrow> sim_position" where
  "normalizeSimPosition now raw =
     (let ident = to_str (coalesce (oget_any raw [''id'', ''positionId'', ''position_id''])
            (Str (''sim-position-'' @ to_str (coalesce (oget_any raw [''marketKey'', ''symbol'']) (Str ''UNKNOWN'')))));
          marketKey = to_str (coalesce (oget_any raw [''marketKey'', ''symbol'']) (Str ''UNKNOWN''));
          avgPrice = normalizeExchangeNumber (oget_any raw [''avgPrice'', ''averagePrice'']) (Fin 0)
      in \<lparr>sp_id = ident, sp_marketKey = marketKey,
          sp_outcome = (if is_lit (oget raw ''outcome'') ''no'' then ''no'' else ''yes''),
          sp_size = normalizeExchangeNumber (oget_any raw [''size'', ''qty'']) (Fin 0),
          sp_avgPrice = avgPrice,
          sp_markPrice = normalizeExchangeNumber (oget_any raw [''markPrice'', ''marketPrice'']) avgPrice,
          sp_openPnl = normalizeExchangeNumber (oget raw ''openPnl'') (Fin 0),
          sp_realizedPnl = normalizeExchangeNumber (oget raw ''realizedPnl'') (Fin 0),
          sp_totalPnl = normalizeExchangeNumber (oget raw ''totalPnl'') (Fin 0),
          sp_status = (if is_lit (oget raw ''status'') ''closed'' then ''closed'' else ''open''),
          sp_openedAt = normalizeExchangeNumber (oget raw ''openedAt'') now,
          sp_closedAt = (if nullish (oget raw ''closedAt'') then None
            else Some (normalizeExchangeNumber (oget raw ''closedAt'') (Fin 0))),
          sp_operator = to_str (coalesce (oget_any raw [''operator'', ''operatorId'']) (Str ''tsturiale'')),
          sp_source = (if is_lit (oget raw ''source'') ''algo'' then ''algo'' else ''manual''),
          sp_strategy = to_str (coalesce (oget raw ''strategy'') (Str [])),
          sp_legId = to_str (coalesce (oget_any raw [''legId'', ''leg_id'']) (Str (marketKey @ ''-'' @ ident))),
          sp_rest = spread_rest position_keys raw\<rparr>)"

definition normalize_fill :: "jsnum \<Rightarrow> string \<Rightarrow> nat \<Rightarrow> jobj \<Rightarrow> poly_trade_tick" where
  "normalize_fill now marketKey index raw =
     \<lparr>pt_timestamp = normalizeExchangeNumber (oget_any raw [''timestamp'', ''timestampMs'', ''ts'']) now,
      pt_marketKey = to_str (coalesce (oget_any raw [''marketKey'', ''symbol'']) (Str marketKey)),
      pt_price = normalizeExchangeNumber (oget_any raw [''price'', ''match_price'']) (Fin 0),
      pt_size = normalizeExchangeNumber (oget_any raw [''size'', ''qty'', ''match_qty'']) (Fin 0),
      pt_side = (if to_lower (to_str (coalesce (oget raw ''side'') (Str []))) \<in> {''no'', ''sell'', ''offer'', ''ask''}
        then ''no'' else ''yes''),
      pt_rest = dict_set ''orderId'' (Str (to_str (coalesce (oget_any raw [''orderId'', ''order_id''])
          (Str (''fill-'' @ marketKey @ ''-'' @ int_text (int index))))))
        (spread_rest [''timestamp'', ''marketKey'', ''price'', ''size'', ''side''] raw)\<rparr>"

definition normalizeExchangeFills :: "jsnum \<Rightarrow> jobj list dict \<Rightarrow> poly_trade_tick list dict" where
  "normalizeExchangeFills now fills =
     map (\<lambda>(marketKey, rows). (marketKey,
         map (\<lambda>(index, fill). normalize_fill now marketKey index fill) (enumerate 0 rows)))
       (own_entries fills)"

subsection \<open>Facts\<close>

named_theorems exchange_rows

lemma spread_rest_oget [exchange_rows]:
  "oget (spread_rest keys raw) k = (if k \<in> set keys then Undefined else oget raw k)"
  by (induction raw) (auto simp: spread_rest_def oget_def)

lemma spread_rest_idem [exchange_rows]: "spread_rest keys (spread_rest keys raw) = spread_rest keys raw"
  by (simp add: spread_rest_def)

lemma normalizeExchangeNumber_finite [exchange_rows]:
  "is_finite fallback \<Longrightarrow> is_finite (normalizeExchangeNumber v fallback)"
  by (simp add: normalizeExchangeNumber_def Let_def)

lemma normalizeExchangeNumber_double [exchange_rows]:
  "is_double fallback \<Longrightarrow> value_ok v \<Longrightarrow> is_double (normalizeExchangeNumber v fallback)"
  using to_num_number [of v] parse_float_number
  by (auto simp: normalizeExchangeNumber_def Let_def is_double_def is_number_def split: jsv.splits
      simp del: parse_float_number to_num.simps)

lemma max_double [exchange_rows]: "is_double n \<Longrightarrow> is_double (math_max (Fin 0) n) \<and> 0 \<le> val (math_max (Fin 0) n)"
  by (auto simp: is_double_def math_max_finite max_def representable_def)

lemma oget_any_ok [exchange_rows]:
  "\<forall>e\<in>set d. value_ok (snd e) \<Longrightarrow> value_ok (oget_any d ks)"
  by (induction d ks rule: oget_any.induct) (auto simp: oget_ok coalesce_ok)

lemma normalizeExchangeNumber_Num [exchange_rows]:
  "is_finite n \<Longrightarrow> normalizeExchangeNumber (Num n) fallback = n"
  by (simp add: normalizeExchangeNumber_def Let_def)

lemma nonneg_max [exchange_rows]: "is_finite n \<Longrightarrow> is_finite (math_max (Fin 0) n) \<and> 0 \<le> val (math_max (Fin 0) n)"
  by (simp add: math_max_finite)

lemma max_again [exchange_rows]: "math_max (Fin 0) (math_max (Fin 0) n) = math_max (Fin 0) n"
  by (cases n) (auto simp: math_max_def jlt_def)

lemma normalizeExchangeNumber_max [exchange_rows]:
  "is_finite n \<Longrightarrow> math_max (Fin 0) (normalizeExchangeNumber (Num (math_max (Fin 0) n)) fallback) = math_max (Fin 0) n"
  using nonneg_max [of n] by (simp add: normalizeExchangeNumber_Num max_again)

definition order_ok :: "sim_order \<Rightarrow> bool" where
  "order_ok order \<longleftrightarrow>
     so_side order \<in> {''bid'', ''offer''} \<and> so_outcome order \<in> {''yes'', ''no''}
     \<and> so_orderType order \<in> {''limit'', ''market''} \<and> so_source order \<in> {''manual'', ''algo''}
     \<and> so_status order \<in> {''working'', ''partially_filled'', ''filled'', ''cancelled''}
     \<and> (\<forall>n\<in>{so_size order, so_remaining order, so_filledSize order, so_matchedVolume order}.
          is_finite n \<and> 0 \<le> val n)
     \<and> is_finite (so_price order) \<and> is_finite (so_createdAt order) \<and> is_finite (so_updatedAt order)"

text \<open>Whatever object the exchange sends for an order, the normalised order has a side, an
  outcome, a type, a source and a status among the literals of its type, finite times and price,
  and finite sizes that are not negative.\<close>

theorem normalized_order_ok:
  assumes "is_finite now" and "value_ok (Obj raw)"
  shows "order_ok (normalizeSimOrder now raw)"
proof -
  let ?o = "normalizeSimOrder now raw"
  have v: "value_ok (oget_any raw ks)" "value_ok (oget raw k)" for ks k
    using assms(2) by (simp_all add: oget_any_ok oget_ok)
  have z: "is_double (Fin 0)" by (simp add: is_double_def representable_def)
  have enums: "so_side ?o \<in> {''bid'', ''offer''}" "so_outcome ?o \<in> {''yes'', ''no''}"
    "so_orderType ?o \<in> {''limit'', ''market''}" "so_source ?o \<in> {''manual'', ''algo''}"
    by (simp_all add: normalizeSimOrder_def Let_def)
  have status: "so_status ?o \<in> {''working'', ''partially_filled'', ''filled'', ''cancelled''}"
    by (auto simp: normalizeSimOrder_def Let_def split: jsv.splits)
  have times: "is_finite (so_price ?o)" "is_finite (so_createdAt ?o)" "is_finite (so_updatedAt ?o)"
    using assms by (simp_all add: normalizeSimOrder_def Let_def normalizeExchangeNumber_finite)
  have size: "is_double (so_size ?o) \<and> 0 \<le> val (so_size ?o)"
    using v z by (simp add: normalizeSimOrder_def Let_def max_double normalizeExchangeNumber_double del: oget_any.simps)
  have "so_remaining ?o = math_max (Fin 0)
      (normalizeExchangeNumber (oget_any raw [''remaining'', ''remainingQuantity'']) (so_size ?o))"
    by (simp add: normalizeSimOrder_def Let_def)
  then have remaining: "is_double (so_remaining ?o) \<and> 0 \<le> val (so_remaining ?o)"
    using size v by (simp add: max_double normalizeExchangeNumber_double del: oget_any.simps)
  have "is_double (jsub (so_size ?o) (so_remaining ?o))"
    using size remaining jsub_finite_nonneg [of "so_size ?o" "so_remaining ?o"]
      jsub_number [of "so_size ?o" "so_remaining ?o"]
    by (simp add: is_double_def is_number_def)
  moreover have "so_filledSize ?o = math_max (Fin 0) (normalizeExchangeNumber (oget raw ''filledSize'')
      (math_max (Fin 0) (jsub (so_size ?o) (so_remaining ?o))))"
    by (simp add: normalizeSimOrder_def Let_def)
  ultimately have filled: "is_double (so_filledSize ?o) \<and> 0 \<le> val (so_filledSize ?o)"
    using v by (simp add: max_double normalizeExchangeNumber_double del: oget_any.simps)
  have volume: "is_double (so_matchedVolume ?o) \<and> 0 \<le> val (so_matchedVolume ?o)"
    using v z by (simp add: normalizeSimOrder_def Let_def max_double normalizeExchangeNumber_double del: oget_any.simps)
  show ?thesis using enums status times size remaining filled volume
    by (auto simp: order_ok_def is_double_def)
qed

lemma normalized_order_ok_witness:
  "order_ok (normalizeSimOrder (Fin 7) [(''order_id'', Num (Fin 3)), (''side'', Str ''SELL''), (''quantity'', Str ''12'')])"
  by (rule normalized_order_ok) simp_all

subsection \<open>Normalising twice\<close>

definition sim_order_obj :: "sim_order \<Rightarrow> jobj" where
  "sim_order_obj order = so_rest order @
     [(''id'', Str (so_id order)), (''marketKey'', Str (so_marketKey order)),
      (''outcome'', Str (so_outcome order)), (''side'', Str (so_side order)),
      (''orderType'', Str (so_orderType order)), (''price'', Num (so_price order)),
      (''size'', Num (so_size order)), (''remaining'', Num (so_remaining order)),
      (''filledSize'', Num (so_filledSize order)), (''matchedVolume'', Num (so_matchedVolume order)),
      (''status'', Str (so_status order)), (''createdAt'', Num (so_createdAt order)),
      (''updatedAt'', Num (so_updatedAt order)), (''operator'', Str (so_operator order)),
      (''source'', Str (so_source order)), (''strategy'', Str (so_strategy order)),
      (''legId'', Str (so_legId order))]"

lemma spread_rest_has [exchange_rows]: "k \<in> set keys \<Longrightarrow> \<not> has_own (spread_rest keys raw) k"
  by (force simp: has_own_def spread_rest_def dest: map_of_SomeD)

lemma spread_rest_append: "spread_rest keys (d @ e) = spread_rest keys d @ spread_rest keys e"
  by (simp add: spread_rest_def)

lemma is_lit_Str [simp]: "is_lit (Str s) t = (s = t)"
  by (simp add: is_lit_def)

lemma spread_append_key: "k \<in> set keys \<Longrightarrow> oget (spread_rest keys raw @ e) k = oget e k"
  by (simp add: oget_append spread_rest_has)

lemma spread_append_other:
  "k \<notin> set keys \<Longrightarrow> oget e k = Undefined \<Longrightarrow> oget (spread_rest keys raw @ e) k = oget raw k"
  by (induction raw) (auto simp: spread_rest_def oget_def)

lemma order_obj_get:
  assumes "so_rest order = spread_rest order_keys raw"
  shows "oget (sim_order_obj order) ''id'' = Str (so_id order)"
    and "oget (sim_order_obj order) ''marketKey'' = Str (so_marketKey order)"
    and "oget (sim_order_obj order) ''outcome'' = Str (so_outcome order)"
    and "oget (sim_order_obj order) ''side'' = Str (so_side order)"
    and "oget (sim_order_obj order) ''orderType'' = Str (so_orderType order)"
    and "oget (sim_order_obj order) ''price'' = Num (so_price order)"
    and "oget (sim_order_obj order) ''size'' = Num (so_size order)"
    and "oget (sim_order_obj order) ''remaining'' = Num (so_remaining order)"
    and "oget (sim_order_obj order) ''filledSize'' = Num (so_filledSize order)"
    and "oget (sim_order_obj order) ''matchedVolume'' = Num (so_matchedVolume order)"
    and "oget (sim_order_obj order) ''status'' = Str (so_status order)"
    and "oget (sim_order_obj order) ''createdAt'' = Num (so_createdAt order)"
    and "oget (sim_order_obj order) ''updatedAt'' = Num (so_updatedAt order)"
    and "oget (sim_order_obj order) ''operator'' = Str (so_operator order)"
    and "oget (sim_order_obj order) ''source'' = Str (so_source order)"
    and "oget (sim_order_obj order) ''strategy'' = Str (so_strategy order)"
    and "oget (sim_order_obj order) ''legId'' = Str (so_legId order)"
    and "oget (sim_order_obj order) ''type'' = oget raw ''type''"
    and "spread_rest order_keys (sim_order_obj order) = spread_rest order_keys raw"
  by (simp_all add: sim_order_obj_def assms spread_append_key spread_append_other spread_rest_append
      order_keys_def) (simp add: spread_rest_def)

text \<open>Normalising is idempotent on orders: a normalised order written back as an object
  normalises to itself, whatever the clock reads the second time.\<close>

theorem normalizeSimOrder_idem:
  assumes "is_finite now" and "value_ok (Obj raw)"
  shows "normalizeSimOrder now' (sim_order_obj (normalizeSimOrder now raw)) = normalizeSimOrder now raw"
proof -
  obtain n where n: "n = normalizeSimOrder now raw" by simp
  have rest: "so_rest n = spread_rest order_keys raw" by (simp add: n normalizeSimOrder_def Let_def)
  have ok: "order_ok n" unfolding n by (rule normalized_order_ok [OF assms])
  have ty: "is_lit (oget raw ''type'') ''market'' \<Longrightarrow> so_orderType n = ''market''"
    by (simp add: n normalizeSimOrder_def Let_def)
  have max: "math_max (Fin 0) (so_size n) = so_size n" "math_max (Fin 0) (so_remaining n) = so_remaining n"
    "math_max (Fin 0) (so_filledSize n) = so_filledSize n"
    "math_max (Fin 0) (so_matchedVolume n) = so_matchedVolume n"
    by (simp_all add: n normalizeSimOrder_def Let_def max_again)
  have fin: "is_finite (so_size n)" "is_finite (so_remaining n)" "is_finite (so_filledSize n)"
    "is_finite (so_matchedVolume n)" "is_finite (so_price n)" "is_finite (so_createdAt n)" "is_finite (so_updatedAt n)"
    using ok by (simp_all add: order_ok_def)
  have side: "(if to_lower (so_side n) = ''offer'' \<or> to_lower (so_side n) = ''ask'' \<or> to_lower (so_side n) = ''sell''
      then ''offer'' else ''bid'') = so_side n"
  proof -
    have "so_side n = ''bid'' \<or> so_side n = ''offer''" using ok by (simp add: order_ok_def)
    then show ?thesis by (elim disjE) (simp_all only:, code_simp, code_simp)
  qed
  have outcome: "(if so_outcome n = ''no'' then ''no'' else ''yes'') = so_outcome n" using ok by (auto simp: order_ok_def)
  have type: "(if so_orderType n = ''market'' \<or> is_lit (oget raw ''type'') ''market'' then ''market'' else ''limit'')
      = so_orderType n" using ok ty by (auto simp: order_ok_def)
  have source: "(if so_source n = ''algo'' then ''algo'' else ''manual'') = so_source n" using ok by (auto simp: order_ok_def)
  have status: "(if so_status n \<in> {''partially_filled'', ''filled'', ''cancelled'', ''working''}
      then so_status n else ''working'') = so_status n" using ok by (auto simp: order_ok_def)
  note get = order_obj_get [OF rest]
  have "normalizeSimOrder now' (sim_order_obj n) = n"
    unfolding normalizeSimOrder_def Let_def
    by (rule sim_order.equality,
      simp_all only: sim_order.simps oget_any.simps get coalesce_simps to_str.simps is_lit_Str jsv.case
        normalizeExchangeNumber_Num fin max side outcome type source status rest simp_thms, simp)
  then show ?thesis by (simp add: n)
qed

lemma normalizeSimOrder_idem_witness:
  "normalizeSimOrder (Fin 8) (sim_order_obj (normalizeSimOrder (Fin 7) [(''orderId'', Num (Fin 3)), (''type'', Str ''market'')]))
   = normalizeSimOrder (Fin 7) [(''orderId'', Num (Fin 3)), (''type'', Str ''market'')]"
  by (rule normalizeSimOrder_idem) simp_all

end
