(* ===== verification/ExecutionMarks.thy ===== *)
theory ExecutionMarks
  imports ExchangeRows
begin

text \<open>
  Marking of execution positions in \<open>apps/terminal/src/store/index.ts\<close>: the yes-price of a
  book, which positions a market marks, and the pass over all known books and tapes. Positions
  whose status speaks of \<open>closed\<close>, \<open>filled\<close> or \<open>cancel\<close> keep their price.
\<close>

definition storeFiniteNumber :: "jsv \<Rightarrow> jsnum option" where
  "storeFiniteNumber v = (let n = to_num v in if is_finite n then Some n else None)"

definition yesPriceFromBook :: "poly_book \<Rightarrow> jsnum option" where
  "yesPriceFromBook book =
     (case storeFiniteNumber (opt_num (pb_ltp book)) of
        Some ltp \<Rightarrow> Some ltp
      | None \<Rightarrow>
     (case storeFiniteNumber (Num (pb_mid book)) of
        Some mid \<Rightarrow> Some mid
      | None \<Rightarrow>
     (let bid = storeFiniteNumber (null_num (pb_best_bid book));
          ask = storeFiniteNumber (null_num (pb_best_ask book))
      in case (bid, ask) of
           (Some b, Some a) \<Rightarrow> Some (jdiv (jadd b a) (Fin 2))
         | _ \<Rightarrow> or_else bid ask)))"

definition executionPositionMatchesMarket :: "execution_position \<Rightarrow> string \<Rightarrow> bool" where
  "executionPositionMatchesMarket position marketKey \<longleftrightarrow>
     to_upper (trim (ep_asset position)) = to_upper (trim marketKey)"

definition position_done :: "string \<Rightarrow> bool" where
  "position_done status \<longleftrightarrow> (let s = to_lower status in
     str_includes ''closed'' s \<or> str_includes ''filled'' s \<or> str_includes ''cancel'' s)"

definition mark_position :: "string \<Rightarrow> jsnum \<Rightarrow> execution_position \<Rightarrow> execution_position option" where
  "mark_position marketKey markPrice position =
     (if \<not> executionPositionMatchesMarket position marketKey \<or> position_done (ep_status position) then None
      else if \<not> is_finite (ep_entry_price position) then None
      else if jeq (ep_current_price position) markPrice then None
      else Some (position\<lparr>ep_current_price := markPrice\<rparr>))"

definition markOpenExecutionPositionsToPrice ::
    "execution_position list \<Rightarrow> string \<Rightarrow> jsnum option \<Rightarrow> execution_position list" where
  "markOpenExecutionPositionsToPrice positions marketKey markPrice = (case markPrice of
     None \<Rightarrow> positions
   | Some price \<Rightarrow>
      if \<not> is_finite price then positions
      else (let changed = list_ex (\<lambda>p. mark_position marketKey price p \<noteq> None) positions;
                next = map (\<lambda>p. get_or (mark_position marketKey price p) p) positions
            in if changed then next else positions))"

definition markOpenExecutionPositionsFromBook ::
    "execution_position list \<Rightarrow> string \<Rightarrow> poly_book \<Rightarrow> execution_position list" where
  "markOpenExecutionPositionsFromBook positions marketKey book =
     markOpenExecutionPositionsToPrice positions marketKey (yesPriceFromBook book)"

definition markOpenExecutionPositions ::
    "execution_position list \<Rightarrow> string \<Rightarrow> poly_trade_tick \<Rightarrow> execution_position list" where
  "markOpenExecutionPositions positions marketKey tick =
     markOpenExecutionPositionsToPrice positions marketKey (Some (pt_price tick))"

definition mark_latest_tick ::
    "string \<times> poly_trade_tick list \<Rightarrow> execution_position list \<Rightarrow> execution_position list" where
  "mark_latest_tick entry next = (case array_last (snd entry) of
     None \<Rightarrow> next | Some latest \<Rightarrow> markOpenExecutionPositions next (fst entry) latest)"

definition markOpenExecutionPositionsFromKnownMarkets ::
    "execution_position list \<Rightarrow> poly_book dict \<Rightarrow> poly_trade_tick list dict \<Rightarrow> execution_position list" where
  "markOpenExecutionPositionsFromKnownMarkets positions books ticks =
     fold mark_latest_tick (own_entries ticks)
       (fold (\<lambda>(marketKey, book) next. markOpenExecutionPositionsFromBook next marketKey book)
         (own_entries books) positions)"

subsection \<open>Only the current price of open positions moves\<close>

text \<open>Two positions that agree but for the current price, and there too when closed.\<close>

definition marked_from :: "execution_position \<Rightarrow> execution_position \<Rightarrow> bool" where
  "marked_from p q \<longleftrightarrow> q = p\<lparr>ep_current_price := ep_current_price q\<rparr>
     \<and> (position_done (ep_status p) \<longrightarrow> q = p)
     \<and> (is_finite (ep_current_price p) \<longrightarrow> is_finite (ep_current_price q))"

named_theorems marks

lemma marked_from_refl [marks, simp]: "marked_from p p"
  by (simp add: marked_from_def)

lemma marked_from_trans [marks]: "marked_from p q \<Longrightarrow> marked_from q r \<Longrightarrow> marked_from p r"
  by (cases p; cases q; cases r) (auto simp: marked_from_def)

lemma marked_lists_trans:
  "list_all2 marked_from ps qs \<Longrightarrow> list_all2 marked_from qs rs \<Longrightarrow> list_all2 marked_from ps rs"
  by (rule list_all2_trans [of marked_from marked_from marked_from]) (auto intro: marked_from_trans)

text \<open>The effect on one position.\<close>

definition mark_one :: "string \<Rightarrow> jsnum option \<Rightarrow> execution_position \<Rightarrow> execution_position" where
  "mark_one marketKey markPrice p = (case markPrice of None \<Rightarrow> p
     | Some price \<Rightarrow> if is_finite price then get_or (mark_position marketKey price p) p else p)"

lemma mark_to_price_map [marks]:
  "markOpenExecutionPositionsToPrice ps marketKey markPrice = map (mark_one marketKey markPrice) ps"
proof (cases markPrice)
  case (Some price)
  have "map (\<lambda>p. get_or (mark_position marketKey price p) p) ps = ps"
    if "\<not> list_ex (\<lambda>p. mark_position marketKey price p \<noteq> None) ps"
    using that by (auto simp: list_ex_iff intro!: map_idI)
  moreover have "map (mark_one marketKey (Some price)) ps
      = (if is_finite price then map (\<lambda>p. get_or (mark_position marketKey price p) p) ps else ps)"
    by (simp add: mark_one_def [abs_def])
  ultimately show ?thesis
    using Some by (simp add: markOpenExecutionPositionsToPrice_def Let_def)
qed (simp add: markOpenExecutionPositionsToPrice_def mark_one_def [abs_def])

lemma mark_one_from [marks]: "marked_from p (mark_one marketKey markPrice p)"
  by (auto simp: mark_one_def mark_position_def marked_from_def split: option.splits)

definition mark_tick_one :: "string \<times> poly_trade_tick list \<Rightarrow> execution_position \<Rightarrow> execution_position" where
  "mark_tick_one entry = mark_one (fst entry) (map_option pt_price (array_last (snd entry)))"

lemma mark_latest_tick_map [marks]: "mark_latest_tick entry ps = map (mark_tick_one entry) ps"
proof (cases "array_last (snd entry)")
  case None
  then show ?thesis by (auto simp: mark_latest_tick_def mark_tick_one_def mark_one_def [abs_def] intro!: map_idI [symmetric])
next
  case (Some t)
  then show ?thesis
    by (simp add: mark_latest_tick_def mark_tick_one_def markOpenExecutionPositions_def mark_to_price_map)
qed

lemma fold_map_pointwise:
  assumes "\<And>x ps. x \<in> set xs \<Longrightarrow> g x ps = map (h x) ps"
  shows "fold g xs ps = map (fold h xs) ps"
  using assms by (induction xs arbitrary: ps) (auto simp: o_def)

lemma fold_marked: "(\<And>x p. marked_from p (h x p)) \<Longrightarrow> marked_from p (fold h xs p)"
  by (induction xs arbitrary: p) (auto intro: marked_from_trans)

lemma known_markets_map:
  "markOpenExecutionPositionsFromKnownMarkets ps books ticks =
     map (\<lambda>p. fold mark_tick_one (own_entries ticks)
        (fold (\<lambda>(k, book). mark_one k (yesPriceFromBook book)) (own_entries books) p)) ps"
proof -
  have "fold (\<lambda>(k, book) next. markOpenExecutionPositionsFromBook next k book) (own_entries books) ps
      = map (fold (\<lambda>(k, book). mark_one k (yesPriceFromBook book)) (own_entries books)) ps"
    by (rule fold_map_pointwise) (auto simp: markOpenExecutionPositionsFromBook_def mark_to_price_map)
  moreover have "fold mark_latest_tick (own_entries ticks) qs = map (fold mark_tick_one (own_entries ticks)) qs" for qs
    by (rule fold_map_pointwise) (simp add: mark_latest_tick_map)
  ultimately show ?thesis
    by (simp add: markOpenExecutionPositionsFromKnownMarkets_def o_def)
qed

text \<open>Marking the positions from all known books and tapes changes nothing but current prices:
  the list keeps its length and order, every other field of every position is the same, a closed,
  filled or cancelled position is untouched, and a finite price is never replaced by NaN or an
  infinity.\<close>

theorem marks_frame:
  "list_all2 marked_from ps (markOpenExecutionPositionsFromKnownMarkets ps books ticks)"
proof -
  have "marked_from p (fold mark_tick_one (own_entries ticks)
        (fold (\<lambda>(k, book). mark_one k (yesPriceFromBook book)) (own_entries books) p))" for p
    by (rule marked_from_trans; rule fold_marked) (auto simp: mark_tick_one_def mark_one_from split: prod.splits)
  then show ?thesis by (simp add: known_markets_map list_all2_conv_all_nth)
qed

text \<open>Marking twice to one price is marking once.\<close>

theorem mark_to_price_idem:
  "markOpenExecutionPositionsToPrice (markOpenExecutionPositionsToPrice ps marketKey price) marketKey price
     = markOpenExecutionPositionsToPrice ps marketKey price"
proof -
  have "mark_one marketKey price (mark_one marketKey price p) = mark_one marketKey price p" for p
    by (auto simp: mark_one_def mark_position_def executionPositionMatchesMarket_def jeq_finite split: option.splits)
  then show ?thesis by (simp add: mark_to_price_map o_def)
qed

subsection \<open>The last print wins\<close>

definition open_for :: "string \<Rightarrow> execution_position \<Rightarrow> bool" where
  "open_for marketKey p \<longleftrightarrow> executionPositionMatchesMarket p marketKey
     \<and> \<not> position_done (ep_status p) \<and> is_finite (ep_entry_price p)"

lemma marked_from_open: "marked_from p q \<Longrightarrow> open_for k p = open_for k q \<and>
    executionPositionMatchesMarket q k = executionPositionMatchesMarket p k"
  by (cases p; cases q) (auto simp: marked_from_def open_for_def executionPositionMatchesMarket_def)

lemma mark_one_open: "open_for k p \<Longrightarrow> is_finite price \<Longrightarrow> jeq (ep_current_price (mark_one k (Some price) p)) price"
  by (auto simp: mark_one_def mark_position_def open_for_def jeq_finite)

lemma mark_one_other: "\<not> executionPositionMatchesMarket p k \<Longrightarrow> mark_one k price p = p"
  by (auto simp: mark_one_def mark_position_def split: option.splits)

lemma mark_ticks_last:
  assumes "(k, series) \<in> set es" and "array_last series = Some latest" and "is_finite (pt_price latest)"
    and "open_for k p"
    and "\<forall>e\<in>set es. executionPositionMatchesMarket p (fst e) \<longrightarrow> e = (k, series)"
  shows "jeq (ep_current_price (fold mark_tick_one es p)) (pt_price latest)"
  using assms
proof (induction es rule: rev_induct)
  case (snoc e es)
  let ?q = "fold mark_tick_one es p"
  have q: "marked_from p ?q" by (rule fold_marked) (simp add: mark_tick_one_def mark_one_from)
  show ?case
  proof (cases "e = (k, series)")
    case True
    have "open_for k ?q" using marked_from_open [OF q] snoc.prems(4) by simp
    then have "jeq (ep_current_price (mark_one k (Some (pt_price latest)) ?q)) (pt_price latest)"
      using snoc.prems(3) by (rule mark_one_open)
    moreover have "mark_tick_one (k, series) ?q = mark_one k (Some (pt_price latest)) ?q"
      using snoc.prems(2) by (subst mark_tick_one_def) simp
    ultimately show ?thesis using True by simp
  next
    case False
    then have "\<not> executionPositionMatchesMarket ?q (fst e)"
      using snoc.prems(5) marked_from_open [OF q] by auto
    then have "mark_tick_one e ?q = ?q" by (simp add: mark_tick_one_def mark_one_other)
    moreover have "(k, series) \<in> set es" using False snoc.prems(1) by auto
    ultimately show ?thesis using snoc by simp
  qed
qed simp

text \<open>After the pass over all known markets an open position stands at the last print of its
  market's tape, whatever the books say, when no second spelling of the market has a tape.\<close>

theorem last_print_marks:
  assumes "i < length ps" and "open_for k (ps ! i)"
    and "(k, series) \<in> set ticks" and "array_last series = Some latest" and "is_finite (pt_price latest)"
    and "\<forall>e\<in>set ticks. executionPositionMatchesMarket (ps ! i) (fst e) \<longrightarrow> e = (k, series)"
  shows "jeq (ep_current_price (markOpenExecutionPositionsFromKnownMarkets ps books ticks ! i)) (pt_price latest)"
proof -
  let ?q = "fold (\<lambda>(k, book). mark_one k (yesPriceFromBook book)) (own_entries books) (ps ! i)"
  have q: "marked_from (ps ! i) ?q"
    by (rule fold_marked) (auto simp: mark_one_from split: prod.splits)
  have "jeq (ep_current_price (fold mark_tick_one (own_entries ticks) ?q)) (pt_price latest)"
    using assms marked_from_open [OF q] by (intro mark_ticks_last [of k series]) auto
  with assms(1) show ?thesis by (simp add: known_markets_map)
qed

definition sample_position :: execution_position where
  "sample_position = \<lparr>ep_position_id = ''p'', ep_asset = ''es '', ep_direction = ''UP'', ep_status = ''open'',
     ep_entry_price = Fin 3, ep_current_price = Fin 3, ep_size = Fin 1, ep_unrealized_pnl = Fin 0,
     ep_pnl_pct = None, ep_sl_distance_pct = Undefined, ep_tp_distance_pct = Undefined, ep_model = None\<rparr>"

definition sample_tick :: "int \<Rightarrow> poly_trade_tick" where
  "sample_tick n = \<lparr>pt_timestamp = Fin (of_int n), pt_marketKey = ''ES'', pt_price = Fin (of_int n),
     pt_size = Fin 1, pt_side = ''yes'', pt_rest = []\<rparr>"

lemma last_print_marks_witness:
  "jeq (ep_current_price (markOpenExecutionPositionsFromKnownMarkets [sample_position] []
      [(''ES'', [sample_tick 4, sample_tick 5])] ! 0)) (pt_price (sample_tick 5))"
  by (rule last_print_marks [of 0 _ "''ES''" "[sample_tick 4, sample_tick 5]"])
    (simp_all only: open_for_def, code_simp+)

text \<open>C0. A book without a mid whose bid is \<open>null\<close> is priced as if its bid were zero: \<open>Number(null)\<close>
  is zero, so the test that both sides are there does not see the missing one.\<close>

theorem missing_bid_prices_as_zero:
  assumes "pb_ltp book = None" and "pb_mid book = NaN" and "pb_best_bid book = None"
    and "pb_best_ask book = Some ask" and "is_finite ask"
  shows "yesPriceFromBook book = Some (jdiv (jadd (Fin 0) ask) (Fin 2))"
  using assms by (simp add: yesPriceFromBook_def storeFiniteNumber_def opt_num_def null_num_def)

definition sample_book :: poly_book where
  "sample_book = \<lparr>pb_market_key = ''ES'', pb_question = [], pb_up_token_id = [], pb_bids = [], pb_asks = [],
     pb_best_bid = None, pb_best_ask = Some (Fin 8), pb_mid = NaN, pb_spread_pct = None, pb_up_pct = Fin 50,
     pb_down_pct = Fin 50, pb_ltp = None, pb_ltp_size = None, pb_sessionOpen = None, pb_sessionHigh = None,
     pb_sessionLow = None, pb_sessionReference = None, pb_sessionLast = None, pb_netChange = None,
     pb_netChangePct = None, pb_sessionStartMs = None, pb_sessionStatsMs = None, pb_marketStatus = None,
     pb_marketStatusDetail = None, pb_expiry_ts = Fin 0, pb_live = True, pb_timestamp_ms = Fin 0,
     pb_seen_ms = None, pb_final_minute_mode = None, pb_final_minute_hold = None,
     pb_book_has_real_two_sided = None\<rparr>"

lemma missing_bid_prices_as_zero_witness:
  "yesPriceFromBook sample_book = Some (jdiv (jadd (Fin 0) (Fin 8)) (Fin 2))"
  by (rule missing_bid_prices_as_zero) (simp_all add: sample_book_def)

end
