(* ===== verification/Store.thy ===== *)
theory Store
  imports ExecutionMarks
begin

text \<open>
  The zustand store of \<open>apps/terminal/src/store/index.ts\<close>: the state as one record, and every
  action as a function of the state. The per-asset tables hold an entry for each asset of
  \<open>ASSETS\<close>; \<open>pushBar\<close> and \<open>pushTick\<close> read the entry without a guard, so an unknown asset
  makes them throw, which is the left of a sum. The clock and the ISO text of the date are
  parameters. Wrappers that only replace one field are definitions too, so that the stream and
  the broadcast use the store through its actions.
\<close>

record terminal_state =
  ts_activeAsset :: string
  ts_bars :: "bar list dict"
  ts_bands :: "keltner_bands option dict"
  ts_orderBook :: "order_book option dict"
  ts_ticks :: "trade_tick list dict"
  ts_zscore :: "jsnum dict"
  ts_regime :: "string dict"
  ts_signals :: "signal list dict"
  ts_positions :: "position list"
  ts_trades :: "trade list"
  ts_metrics :: "daily_metrics option"
  ts_copyStatus :: "copy_status option"
  ts_executionPositions :: "execution_position list"
  ts_executionRisk :: "execution_risk option"
  ts_simulationEnabled :: bool
  ts_simOrders :: "sim_order list"
  ts_simPositions :: "sim_position list"
  ts_simMessages :: "string list"
  ts_markets :: "market_info list"
  ts_probHistory :: "prob_point list dict"
  ts_activeMarketKey :: "string option"
  ts_usingLiveData :: bool
  ts_polyBooks :: "poly_book dict"
  ts_polyTicks :: "poly_trade_tick list dict"
  ts_fills :: "poly_trade_tick list dict"
  ts_settlements :: "settlement list"
  ts_connected :: bool
  ts_autoRotate :: bool
  ts_marketProvider :: string
  ts_cryptoPrices :: "crypto_price dict"
  ts_kalshiMarkets :: "kalshi_market list"
  ts_ibkrMarkets :: "ibkr_market list"
  ts_poppedTabs :: "string list"
  ts_bookClickPrice :: "(string \<times> jsnum) option"

definition initRecord :: "'v \<Rightarrow> 'v dict" where
  "initRecord v = map (\<lambda>a. (a, v)) assets"

definition initial_state :: terminal_state where
  "initial_state = \<lparr>ts_activeAsset = ''ES'', ts_bars = initRecord [], ts_bands = initRecord None,
     ts_orderBook = initRecord None, ts_ticks = initRecord [], ts_zscore = initRecord (Fin 0),
     ts_regime = initRecord ''medium'', ts_signals = initRecord [], ts_positions = [], ts_trades = [],
     ts_metrics = None, ts_copyStatus = None, ts_executionPositions = [], ts_executionRisk = None,
     ts_simulationEnabled = True, ts_simOrders = [], ts_simPositions = [], ts_simMessages = [],
     ts_markets = [], ts_probHistory = [], ts_activeMarketKey = None, ts_usingLiveData = False,
     ts_polyBooks = [], ts_polyTicks = [], ts_fills = [], ts_settlements = [], ts_connected = False,
     ts_autoRotate = False, ts_marketProvider = ''cme'', ts_cryptoPrices = [], ts_kalshiMarkets = [],
     ts_ibkrMarkets = [], ts_poppedTabs = [], ts_bookClickPrice = None\<rparr>"

subsection \<open>Selection\<close>

text \<open>A market that is still at its opening fifty-fifty is passed over.\<close>

definition market_moved :: "market_info \<Rightarrow> bool" where
  "market_moved m \<longleftrightarrow> \<not> (jeq (mk_up_pct m) (Fin 50) \<and> jeq (mk_down_pct m) (Fin 50))"

definition tf_pref :: "string list" where
  "tf_pref = [''5min'', ''15min'', ''1h'', ''4h'']"

definition preferred_market :: "market_info list \<Rightarrow> market_info option" where
  "preferred_market live =
     first_some (map (\<lambda>tf. find (\<lambda>m. mk_timeframe m = tf \<and> market_moved m) live) tf_pref)"

definition array_first :: "'a list \<Rightarrow> 'a option" where
  "array_first xs = (case xs of [] \<Rightarrow> None | x # ys \<Rightarrow> Some x)"

definition setActiveAsset :: "string \<Rightarrow> terminal_state \<Rightarrow> terminal_state" where
  "setActiveAsset a s =
     (let live = filter (\<lambda>m. mk_asset m = a \<and> mk_live m) (ts_markets s);
          best = or_else (preferred_market live) (array_first live)
      in s\<lparr>ts_activeAsset := a, ts_activeMarketKey := map_option mk_key best\<rparr>)"

definition setActiveMarketKey :: "string option \<Rightarrow> terminal_state \<Rightarrow> terminal_state" where
  "setActiveMarketKey k s = (case k of
     None \<Rightarrow> s\<lparr>ts_activeMarketKey := None\<rparr>
   | Some key \<Rightarrow>
      if key = [] then s\<lparr>ts_activeMarketKey := None\<rparr>
      else (case find (\<lambda>m. mk_key m = key) (ts_markets s) of
          None \<Rightarrow> s\<lparr>ts_activeMarketKey := Some key\<rparr>
        | Some market \<Rightarrow> s\<lparr>ts_activeMarketKey := Some key, ts_activeAsset := mk_asset market\<rparr>))"

definition setAutoRotate :: "bool \<Rightarrow> terminal_state \<Rightarrow> terminal_state" where
  "setAutoRotate v s = s\<lparr>ts_autoRotate := v\<rparr>"

definition setMarketProvider :: "string \<Rightarrow> terminal_state \<Rightarrow> terminal_state" where
  "setMarketProvider p s = s\<lparr>ts_marketProvider := p\<rparr>"

definition setCryptoPrices :: "crypto_price dict \<Rightarrow> terminal_state \<Rightarrow> terminal_state" where
  "setCryptoPrices data s = s\<lparr>ts_cryptoPrices := data\<rparr>"

definition setKalshiMarkets :: "kalshi_market list \<Rightarrow> terminal_state \<Rightarrow> terminal_state" where
  "setKalshiMarkets m s = s\<lparr>ts_kalshiMarkets := m\<rparr>"

definition setIbkrMarkets :: "ibkr_market list \<Rightarrow> terminal_state \<Rightarrow> terminal_state" where
  "setIbkrMarkets m s = s\<lparr>ts_ibkrMarkets := m\<rparr>"

definition toggleTabPop :: "string \<Rightarrow> terminal_state \<Rightarrow> terminal_state" where
  "toggleTabPop tabId s = s\<lparr>ts_poppedTabs :=
     (if tabId \<in> set (ts_poppedTabs s) then filter (\<lambda>t. t \<noteq> tabId) (ts_poppedTabs s)
      else ts_poppedTabs s @ [tabId])\<rparr>"

definition setBookClickPrice :: "(string \<times> jsnum) option \<Rightarrow> terminal_state \<Rightarrow> terminal_state" where
  "setBookClickPrice v s = s\<lparr>ts_bookClickPrice := v\<rparr>"

definition setConnected :: "bool \<Rightarrow> terminal_state \<Rightarrow> terminal_state" where
  "setConnected v s = s\<lparr>ts_connected := v\<rparr>"

subsection \<open>Per-asset market data\<close>

definition push_bar_list :: "bar \<Rightarrow> bar list \<Rightarrow> bar list" where
  "push_bar_list bar prev =
     (if prev \<noteq> [] \<and> jeq (br_timestamp (last prev)) (br_timestamp bar)
      then prev[length prev - 1 := bar]
      else slice_last 4499 prev @ [bar])"

definition pushBar :: "string \<Rightarrow> bar \<Rightarrow> terminal_state \<Rightarrow> terminal_state js_result" where
  "pushBar asset bar s = (case dict_get (ts_bars s) asset of
     None \<Rightarrow> Inl TypeError
   | Some prev \<Rightarrow> Inr (s\<lparr>ts_bars := dict_set asset (push_bar_list bar prev) (ts_bars s)\<rparr>))"

definition setBands :: "string \<Rightarrow> keltner_bands \<Rightarrow> terminal_state \<Rightarrow> terminal_state" where
  "setBands asset b s = s\<lparr>ts_bands := dict_set asset (Some b) (ts_bands s)\<rparr>"

definition setBook :: "string \<Rightarrow> order_book \<Rightarrow> terminal_state \<Rightarrow> terminal_state" where
  "setBook asset b s = s\<lparr>ts_orderBook := dict_set asset (Some b) (ts_orderBook s)\<rparr>"

definition pushTick :: "string \<Rightarrow> trade_tick \<Rightarrow> terminal_state \<Rightarrow> terminal_state js_result" where
  "pushTick asset t s = (case dict_get (ts_ticks s) asset of
     None \<Rightarrow> Inl TypeError
   | Some prev \<Rightarrow> Inr (s\<lparr>ts_ticks := dict_set asset (slice_last 49 prev @ [t]) (ts_ticks s)\<rparr>))"

definition setZscore :: "string \<Rightarrow> jsnum \<Rightarrow> string \<Rightarrow> terminal_state \<Rightarrow> terminal_state" where
  "setZscore asset z r s = s\<lparr>ts_zscore := dict_set asset z (ts_zscore s),
     ts_regime := dict_set asset r (ts_regime s)\<rparr>"

definition push_signal_list :: "signal \<Rightarrow> signal list \<Rightarrow> signal list" where
  "push_signal_list normalized prev =
     slice_last 8 (filter (\<lambda>x. sg_model x \<noteq> sg_model normalized) prev @ [normalized])"

definition normalize_signal :: "signal \<Rightarrow> signal" where
  "normalize_signal sig = sig\<lparr>sg_model := normalizeModel (sg_model sig)\<rparr>"

definition pushSignal :: "signal \<Rightarrow> terminal_state \<Rightarrow> terminal_state" where
  "pushSignal sig s =
     (let normalized = normalize_signal sig;
          prev = get_or (dict_get (ts_signals s) (sg_asset normalized)) []
      in s\<lparr>ts_signals := dict_set (sg_asset normalized) (push_signal_list normalized prev) (ts_signals s)\<rparr>)"

definition setPositions :: "position list \<Rightarrow> terminal_state \<Rightarrow> terminal_state" where
  "setPositions p s = s\<lparr>ts_positions := p\<rparr>"

definition setMetrics :: "daily_metrics \<Rightarrow> terminal_state \<Rightarrow> terminal_state" where
  "setMetrics m s = s\<lparr>ts_metrics := Some m\<rparr>"

definition setCopyStatus :: "copy_status \<Rightarrow> terminal_state \<Rightarrow> terminal_state" where
  "setCopyStatus c s = s\<lparr>ts_copyStatus := Some c\<rparr>"

definition setExecutionPositions :: "execution_position list \<Rightarrow> terminal_state \<Rightarrow> terminal_state" where
  "setExecutionPositions p s = s\<lparr>ts_executionPositions :=
     markOpenExecutionPositionsFromKnownMarkets p (ts_polyBooks s) (ts_polyTicks s)\<rparr>"

definition setExecutionRisk :: "execution_risk \<Rightarrow> terminal_state \<Rightarrow> terminal_state" where
  "setExecutionRisk r s = s\<lparr>ts_executionRisk := Some r\<rparr>"

definition setSettlements :: "settlement list \<Rightarrow> terminal_state \<Rightarrow> terminal_state" where
  "setSettlements x s = s\<lparr>ts_settlements := x\<rparr>"

subsection \<open>Orders of the simulated exchange\<close>

definition push_message :: "string \<Rightarrow> string list \<Rightarrow> string list" where
  "push_message m ms = slice_first 50 (m # ms)"

definition setSimulationEnabled :: "bool \<Rightarrow> terminal_state \<Rightarrow> terminal_state" where
  "setSimulationEnabled v s = s\<lparr>ts_simulationEnabled := v,
     ts_simMessages := push_message (''Sim Exchange '' @ (if v then ''enabled'' else ''disabled'') @ ''.'')
       (ts_simMessages s)\<rparr>"

definition setSimTradingState :: "jsnum \<Rightarrow> order_payload \<Rightarrow> terminal_state \<Rightarrow> terminal_state" where
  "setSimTradingState now state s = s\<lparr>
     ts_simOrders := (case op_simOrders state of None \<Rightarrow> ts_simOrders s | Some os \<Rightarrow> map (normalizeSimOrder now) os),
     ts_simPositions := (case op_simPositions state of None \<Rightarrow> ts_simPositions s | Some ps \<Rightarrow> map (normalizeSimPosition now) ps),
     ts_fills := (case op_fills state of None \<Rightarrow> ts_fills s | Some fs \<Rightarrow> normalizeExchangeFills now fs),
     ts_simMessages := get_or (op_simMessages state) (ts_simMessages s)\<rparr>"

record place_order =
  po_id :: "string option"
  po_marketKey :: string
  po_outcome :: string
  po_side :: string
  po_price :: jsnum

definition place_order_id :: "jsnum \<Rightarrow> place_order \<Rightarrow> string" where
  "place_order_id now order = get_or (po_id order)
     (''sim-'' @ po_marketKey order @ ''-'' @ po_outcome order @ ''-'' @ po_side order @ ''-''
        @ num_text (po_price order) @ ''-'' @ num_text now)"

definition placeSimOrder :: "jsnum \<Rightarrow> place_order \<Rightarrow> terminal_state \<Rightarrow> string \<times> terminal_state" where
  "placeSimOrder now order s = (place_order_id now order,
     s\<lparr>ts_simMessages := push_message (''Order '' @ place_order_id now order
        @ '' was not applied locally. Waiting for native exchange snapshot.'') (ts_simMessages s)\<rparr>)"

definition cancelSimOrder :: "string \<Rightarrow> terminal_state \<Rightarrow> terminal_state" where
  "cancelSimOrder ident s = s\<lparr>ts_simMessages :=
     push_message (''Cancel '' @ ident @ '' must be confirmed by the native exchange.'') (ts_simMessages s)\<rparr>"

definition cancelSimOrders :: "terminal_state \<Rightarrow> terminal_state" where
  "cancelSimOrders s = s\<lparr>ts_simMessages :=
     push_message ''Cancel-all must be confirmed by the native exchange.'' (ts_simMessages s)\<rparr>"

definition clearSimMessages :: "terminal_state \<Rightarrow> terminal_state" where
  "clearSimMessages s = s\<lparr>ts_simMessages := []\<rparr>"

definition resetTradingSession :: "string \<Rightarrow> terminal_state \<Rightarrow> terminal_state" where
  "resetTradingSession isoDate s = s\<lparr>ts_executionPositions := [], ts_executionRisk := None,
     ts_simOrders := [], ts_simPositions := [], ts_fills := [],
     ts_simMessages := [''Session reset '' @ isoDate @ ''. Local orders, fills, and positions cleared.'']\<rparr>"

subsection \<open>Markets\<close>

definition same_ts :: "prob_point \<Rightarrow> prob_point \<Rightarrow> bool" where
  "same_ts x v \<longleftrightarrow> jeq (pp_ts x) (pp_ts v)"

definition merge_points :: "prob_point list \<Rightarrow> prob_point list" where
  "merge_points ps = slice_last 4320 (sort_js (before_asc pp_ts) (dedup_by same_ts ps))"

definition withoutProbHistory :: "market_info \<Rightarrow> market_info" where
  "withoutProbHistory m = m\<lparr>mk_prob_history := None\<rparr>"

definition truthy_text :: "string option \<Rightarrow> string option" where
  "truthy_text t = (case t of None \<Rightarrow> None | Some x \<Rightarrow> if x = [] then None else Some x)"

text \<open>The keys whose slot has rolled to another contract.\<close>

definition rotated :: "market_info list \<Rightarrow> market_info \<Rightarrow> bool" where
  "rotated current m = (case truthy_text (mk_condition_id m) of
     None \<Rightarrow> False
   | Some cid \<Rightarrow> (case find (\<lambda>pm. mk_key pm = mk_key m) current of
        None \<Rightarrow> False
      | Some prev \<Rightarrow> (case truthy_text (mk_condition_id prev) of
           None \<Rightarrow> False | Some old \<Rightarrow> old \<noteq> cid)))"

definition wipe_rotated :: "market_info list \<Rightarrow> market_info list \<Rightarrow> 'v dict \<Rightarrow> 'v dict" where
  "wipe_rotated current incoming d =
     fold (\<lambda>m d. if rotated current m then dict_del (mk_key m) d else d) incoming d"

text \<open>One market of the incoming list: its history is merged into the table and taken off it.\<close>

definition seed_history :: "prob_point list dict \<Rightarrow> market_info \<Rightarrow> prob_point list dict \<Rightarrow> prob_point list dict" where
  "seed_history base m acc = (case mk_prob_history m of
     None \<Rightarrow> acc
   | Some points \<Rightarrow> if points = [] then acc
       else dict_set (mk_key m) (merge_points (get_or (dict_get base (mk_key m)) [] @ points)) acc)"

definition prune_fills :: "market_info list \<Rightarrow> 'v dict \<Rightarrow> 'v dict" where
  "prune_fills incoming d = fold (\<lambda>key d. if key \<notin> mk_key ` set incoming then dict_del key d else d) (map fst d) d"

definition repaired_key :: "string option \<Rightarrow> bool \<Rightarrow> market_info list \<Rightarrow> string option" where
  "repaired_key active hasLive updated =
     (let current = (case truthy_text active of None \<Rightarrow> None
          | Some k \<Rightarrow> find (\<lambda>m. mk_key m = k) updated)
      in if hasLive \<and> (case current of None \<Rightarrow> True | Some m \<Rightarrow> \<not> mk_live m)
         then (let asset = (case truthy_text active of
                   Some k \<Rightarrow> hd (split_on (CHR ''_'') k)
                 | None \<Rightarrow> get_or (map_option mk_asset (find mk_live updated)) ''ES'');
                   live = filter (\<lambda>m. mk_asset m = asset \<and> mk_live m) updated;
                   best = or_else (preferred_market live) (or_else (array_first live) (find mk_live updated))
               in case best of None \<Rightarrow> active | Some m \<Rightarrow> Some (mk_key m))
         else active)"

definition setMarkets :: "market_info list \<Rightarrow> bool \<Rightarrow> terminal_state \<Rightarrow> terminal_state" where
  "setMarkets incoming live s =
     (let wiped = wipe_rotated (ts_markets s) incoming (ts_probHistory s);
          history = fold (\<lambda>m acc. seed_history acc m acc) incoming wiped;
          updated = map withoutProbHistory incoming;
          hasLive = live \<or> list_ex mk_live incoming \<or> ts_usingLiveData s
      in s\<lparr>ts_markets := updated,
           ts_probHistory := history,
           ts_fills := prune_fills incoming (ts_fills s),
           ts_polyTicks := wipe_rotated (ts_markets s) incoming (ts_polyTicks s),
           ts_polyBooks := wipe_rotated (ts_markets s) incoming (ts_polyBooks s),
           ts_usingLiveData := hasLive,
           ts_activeMarketKey := repaired_key (ts_activeMarketKey s) hasLive updated\<rparr>)"

definition mergeProbHistory :: "string \<Rightarrow> prob_point list \<Rightarrow> terminal_state \<Rightarrow> terminal_state" where
  "mergeProbHistory key points s = s\<lparr>ts_probHistory := dict_set key
     (merge_points (points @ get_or (dict_get (ts_probHistory s) key) [])) (ts_probHistory s)\<rparr>"

subsection \<open>Books, tapes and fills\<close>

definition seen_time :: "poly_book \<Rightarrow> jsnum" where
  "seen_time book = get_or (pb_seen_ms book) (pb_timestamp_ms book)"

definition setPolyBook :: "string \<Rightarrow> poly_book \<Rightarrow> terminal_state \<Rightarrow> terminal_state" where
  "setPolyBook key book s = (case dict_get (ts_polyBooks s) key of
     Some prev \<Rightarrow> if jlt (seen_time book) (seen_time prev) then s
       else s\<lparr>ts_polyBooks := dict_set key book (ts_polyBooks s)\<rparr>
   | None \<Rightarrow> s\<lparr>ts_polyBooks := dict_set key book (ts_polyBooks s)\<rparr>)"

definition same_print :: "poly_trade_tick \<Rightarrow> poly_trade_tick \<Rightarrow> bool" where
  "same_print a b \<longleftrightarrow> jeq (pt_timestamp a) (pt_timestamp b) \<and> jeq (pt_price a) (pt_price b)
     \<and> jeq (pt_size a) (pt_size b) \<and> pt_side a = pt_side b"

text \<open>A repeated print leaves the state as it is, without an entry for its market.\<close>

definition pushPolyTick :: "string \<Rightarrow> poly_trade_tick \<Rightarrow> terminal_state \<Rightarrow> terminal_state" where
  "pushPolyTick key tick s =
     (let prev = get_or (dict_get (ts_polyTicks s) key) [] in
      if (case array_last prev of None \<Rightarrow> False | Some l \<Rightarrow> same_print l tick) then s
      else s\<lparr>ts_polyTicks := dict_set key (slice_last 199 prev @ [tick]) (ts_polyTicks s)\<rparr>)"

definition tick_key :: "poly_trade_tick \<Rightarrow> string" where
  "tick_key t = num_text (pt_timestamp t) @ ''-'' @ num_text (pt_price t) @ ''-''
     @ num_text (pt_size t) @ ''-'' @ pt_side t"

definition pushPolyFill :: "string \<Rightarrow> poly_trade_tick \<Rightarrow> terminal_state \<Rightarrow> terminal_state" where
  "pushPolyFill key tick s =
     (let prev = get_or (dict_get (ts_fills s) key) [] in
      if list_ex (\<lambda>f. tick_key f = tick_key tick) prev then s
      else s\<lparr>ts_fills := dict_set key (slice_last 100 (prev @ [tick])) (ts_fills s)\<rparr>)"

subsection \<open>Snapshots\<close>

record snapshot_orders =
  sn_simOrders :: "sim_order list option"
  sn_simPositions :: "sim_position list option"
  sn_fills :: "poly_trade_tick list dict option"
  sn_simMessages :: "string list option"

record snapshot =
  ss_bars :: "bar list option"
  ss_bands :: "keltner_bands option"
  ss_zscore :: "jsnum option"
  ss_regime :: "string option"
  ss_signals :: "signal list option"
  ss_positions :: "position list option"
  ss_metrics :: "daily_metrics option"
  ss_copy_status :: "copy_status option"
  ss_execution_positions :: "execution_position list option"
  ss_execution_risk :: "execution_risk option"
  ss_poly_books :: "poly_book dict option"
  ss_poly_ticks :: "poly_trade_tick list dict option"
  ss_order_state :: "snapshot_orders option"
  ss_markets :: "market_info list option"

definition load_orders :: "snapshot_orders option \<Rightarrow> terminal_state \<Rightarrow> terminal_state" where
  "load_orders data s = (case data of None \<Rightarrow> s
     | Some orders \<Rightarrow> s\<lparr>ts_simOrders := get_or (sn_simOrders orders) (ts_simOrders s),
         ts_simPositions := get_or (sn_simPositions orders) (ts_simPositions s),
         ts_fills := get_or (sn_fills orders) (ts_fills s),
         ts_simMessages := get_or (sn_simMessages orders) (ts_simMessages s)\<rparr>)"

definition load_markets :: "market_info list option \<Rightarrow> terminal_state \<Rightarrow> terminal_state" where
  "load_markets data s = (case data of None \<Rightarrow> s
     | Some markets \<Rightarrow> s\<lparr>ts_markets := map withoutProbHistory markets,
         ts_probHistory := fold (seed_history (ts_probHistory s)) markets (ts_probHistory s),
         ts_usingLiveData := (list_ex mk_live markets \<or> ts_usingLiveData s)\<rparr>)"

definition loadSnapshot :: "string \<Rightarrow> snapshot \<Rightarrow> terminal_state \<Rightarrow> terminal_state" where
  "loadSnapshot asset data s =
     (let books = dict_spread (ts_polyBooks s) (get_or (ss_poly_books data) []);
          ticks = dict_spread (ts_polyTicks s) (get_or (ss_poly_ticks data) []);
          exec = markOpenExecutionPositionsFromKnownMarkets
            (get_or (ss_execution_positions data) []) books ticks
      in load_markets (ss_markets data) (load_orders (ss_order_state data)
          (s\<lparr>ts_bars := dict_set asset (get_or (ss_bars data) []) (ts_bars s),
             ts_bands := dict_set asset (ss_bands data) (ts_bands s),
             ts_zscore := dict_set asset (get_or (ss_zscore data) (Fin 0)) (ts_zscore s),
             ts_regime := dict_set asset (get_or (ss_regime data) ''medium'') (ts_regime s),
             ts_signals := dict_set asset (map normalize_signal (get_or (ss_signals data) [])) (ts_signals s),
             ts_positions := get_or (ss_positions data) [],
             ts_metrics := ss_metrics data,
             ts_copyStatus := ss_copy_status data,
             ts_executionPositions := exec,
             ts_executionRisk := ss_execution_risk data,
             ts_polyBooks := books,
             ts_polyTicks := ticks\<rparr>)))"

end
