(* ===== verification/StoreProps.thy ===== *)
theory StoreProps
  imports Store
begin

text \<open>
  Properties of the store: bounds and uniqueness of the rolling lists, the merge of probability
  history, market rotation and the repair of the selected market, books that never go back in
  time, and what a snapshot replaces. The lists are treated first, then the actions.
\<close>

named_theorems store_lists

subsection \<open>Bars\<close>

definition bars_ordered :: "bar list \<Rightarrow> bool" where
  "bars_ordered bs \<longleftrightarrow> length bs \<le> 4500 \<and> (\<forall>b\<in>set bs. br_timestamp b \<noteq> NaN)
     \<and> sorted_wrt (\<lambda>a b. jlt (br_timestamp a) (br_timestamp b)) bs"

lemma jlt_jeq_trans: "jlt a b \<Longrightarrow> jeq b c \<Longrightarrow> jlt a c"
  by (cases a; cases b; cases c) (auto simp: jlt_def jeq_def)

lemma jlt_jle_trans: "jlt a b \<Longrightarrow> jle b c \<Longrightarrow> jlt a c"
  by (auto simp: jle_def intro: jlt_trans jlt_jeq_trans)

text \<open>Pushing a bar that is not older than the last one keeps the series of an asset strictly
  ordered in time and at most 4500 bars long, with the new bar last; a bar of the same timestamp
  replaces the last one and leaves all others.\<close>

theorem push_bar_ordered:
  assumes "bars_ordered prev" and "br_timestamp bar \<noteq> NaN"
    and "prev \<noteq> [] \<Longrightarrow> jle (br_timestamp (last prev)) (br_timestamp bar)"
  shows "bars_ordered (push_bar_list bar prev) \<and> last (push_bar_list bar prev) = bar
    \<and> (prev \<noteq> [] \<and> jeq (br_timestamp (last prev)) (br_timestamp bar)
        \<longrightarrow> push_bar_list bar prev = butlast prev @ [bar])"
proof (cases "prev \<noteq> [] \<and> jeq (br_timestamp (last prev)) (br_timestamp bar)")
  case True
  then obtain ys y where p: "prev = ys @ [y]" by (cases prev rule: rev_exhaust) auto
  then have e: "push_bar_list bar prev = ys @ [bar]" using True by (simp add: push_bar_list_def)
  have "jlt (br_timestamp b) (br_timestamp bar)" if "b \<in> set ys" for b
    using that assms(1) True p by (auto simp: bars_ordered_def sorted_wrt_append intro: jlt_jeq_trans)
  then show ?thesis using assms(1,2) p e by (auto simp: bars_ordered_def sorted_wrt_append)
next
  case False
  then have e: "push_bar_list bar prev = slice_last 4499 prev @ [bar]" by (auto simp: push_bar_list_def)
  have "jlt (br_timestamp b) (br_timestamp bar)" if b: "b \<in> set prev" for b
  proof -
    obtain ys y where p: "prev = ys @ [y]" using b by (cases prev rule: rev_exhaust) auto
    then have y: "jlt (br_timestamp y) (br_timestamp bar)"
      using assms(3) False by (auto simp: jle_def)
    show ?thesis
    proof (cases "b \<in> set ys")
      case True
      then have "jlt (br_timestamp b) (br_timestamp y)"
        using assms(1) p by (auto simp: bars_ordered_def sorted_wrt_append)
      then show ?thesis using y jlt_trans by blast
    next
      case False
      then show ?thesis using b p y by auto
    qed
  qed
  moreover have "sorted_wrt (\<lambda>a b. jlt (br_timestamp a) (br_timestamp b)) (slice_last 4499 prev)"
    using assms(1) by (simp add: bars_ordered_def sorted_wrt_slice_last)
  ultimately show ?thesis
    using assms(1,2) set_slice_last [of 4499 prev] False
    by (auto simp: e bars_ordered_def sorted_wrt_append)
qed

lemma push_bar_ordered_witness:
  "bars_ordered (push_bar_list (\<lparr>br_timestamp = Fin 2, br_open = Fin 1, br_high = Fin 1, br_low = Fin 1, br_close = Fin 1, br_volume = Fin 0\<rparr>)
     [\<lparr>br_timestamp = Fin 1, br_open = Fin 1, br_high = Fin 1, br_low = Fin 1, br_close = Fin 1, br_volume = Fin 0\<rparr>])"
  using push_bar_ordered [of "[\<lparr>br_timestamp = Fin 1, br_open = Fin 1, br_high = Fin 1, br_low = Fin 1, br_close = Fin 1, br_volume = Fin 0\<rparr>]"
      "\<lparr>br_timestamp = Fin 2, br_open = Fin 1, br_high = Fin 1, br_low = Fin 1, br_close = Fin 1, br_volume = Fin 0\<rparr>"]
  by (simp add: bars_ordered_def jle_finite)

subsection \<open>Signals\<close>

definition signals_ok :: "signal list \<Rightarrow> bool" where
  "signals_ok xs \<longleftrightarrow> length xs \<le> 8 \<and> distinct (map sg_model xs)"

lemma distinct_map_filter_snoc:
  "distinct (map f xs) \<Longrightarrow> distinct (map f (filter (\<lambda>x. f x \<noteq> f y) xs @ [y]))"
  by (auto simp: distinct_map_filter)

text \<open>The signals of an asset are at most eight, one per model under the canonical names, with
  the newest last: a new signal replaces the one of its model whichever alias it came under.\<close>

theorem push_signal_unique:
  assumes "signals_ok (get_or (dict_get (ts_signals s) (sg_asset sig)) [])"
  shows "\<exists>xs. dict_get (ts_signals (pushSignal sig s)) (sg_asset sig) = Some xs
    \<and> signals_ok xs \<and> last xs = normalize_signal sig
    \<and> (\<forall>a. a \<noteq> sg_asset sig \<longrightarrow> dict_get (ts_signals (pushSignal sig s)) a = dict_get (ts_signals s) a)"
proof -
  let ?prev = "get_or (dict_get (ts_signals s) (sg_asset sig)) []"
  let ?xs = "push_signal_list (normalize_signal sig) ?prev"
  have "distinct (map sg_model (filter (\<lambda>x. sg_model x \<noteq> sg_model (normalize_signal sig)) ?prev @ [normalize_signal sig]))"
    using assms by (intro distinct_map_filter_snoc) (simp add: signals_ok_def)
  then have "distinct (map sg_model ?xs)"
    by (simp add: push_signal_list_def map_slice_last distinct_slice_last)
  moreover have "last ?xs = normalize_signal sig"
    by (simp add: push_signal_list_def slice_last_def)
  moreover have "sg_asset (normalize_signal sig) = sg_asset sig" by (simp add: normalize_signal_def)
  ultimately show ?thesis
    by (auto simp: pushSignal_def Let_def dict_get_set signals_ok_def push_signal_list_def)
qed

definition sample_signal :: "string \<Rightarrow> signal" where
  "sample_signal m = \<lparr>sg_timestamp = Fin 1, sg_asset = ''ES'', sg_model = m, sg_direction = ''UP'',
     sg_strength = Fin 1, sg_regime = ''low'', sg_zscore = Fin 0, sg_ofi = Fin 0, sg_vpin = Fin 0\<rparr>"

lemma push_signal_unique_witness:
  "\<exists>xs. dict_get (ts_signals (pushSignal (sample_signal ''rubberband'')
        (pushSignal (sample_signal ''rubber_band'') initial_state))) ''ES'' = Some xs \<and> signals_ok xs"
proof -
  let ?s = "pushSignal (sample_signal ''rubber_band'') initial_state"
  have "signals_ok (get_or (dict_get (ts_signals ?s) (sg_asset (sample_signal ''rubberband''))) [])"
    by code_simp
  from push_signal_unique [OF this] show ?thesis by (auto simp: sample_signal_def)
qed

subsection \<open>Tapes and fills\<close>

definition tape_ok :: "poly_trade_tick list \<Rightarrow> bool" where
  "tape_ok ts \<longleftrightarrow> length ts \<le> 200 \<and> successively (\<lambda>a b. \<not> same_print a b) ts"

definition tapes_ok :: "poly_trade_tick list dict \<Rightarrow> bool" where
  "tapes_ok d \<longleftrightarrow> (\<forall>k ts. dict_get d k = Some ts \<longrightarrow> tape_ok ts)"

definition fills_ok :: "poly_trade_tick list dict \<Rightarrow> bool" where
  "fills_ok d \<longleftrightarrow> (\<forall>k ts. dict_get d k = Some ts \<longrightarrow> length ts \<le> 100 \<and> distinct (map tick_key ts))"

lemma successively_slice_last: "successively P xs \<Longrightarrow> successively P (slice_last n xs)"
  by (metis append_take_drop_id slice_last_def successively_append_iff)

lemma last_slice_last: "slice_last n xs \<noteq> [] \<Longrightarrow> last (slice_last n xs) = last xs"
  by (simp add: slice_last_def)

lemma tape_push_ok:
  assumes "tape_ok prev" and "\<not> (case array_last prev of None \<Rightarrow> False | Some l \<Rightarrow> same_print l tick)"
  shows "tape_ok (slice_last 199 prev @ [tick])"
proof -
  have "\<not> same_print (last (slice_last 199 prev)) tick" if "slice_last 199 prev \<noteq> []"
    using assms(2) that by (auto simp: array_last_def last_slice_last slice_last_def split: if_splits)
  then show ?thesis
    using assms(1) by (auto simp: tape_ok_def successively_append_iff successively_slice_last)
qed

lemma push_tick_bounded:
  assumes "tapes_ok (ts_polyTicks s)"
  shows "tapes_ok (ts_polyTicks (pushPolyTick key tick s))"
proof -
  have "tape_ok (get_or (dict_get (ts_polyTicks s) key) [])"
    using assms by (cases "dict_get (ts_polyTicks s) key") (auto simp: tapes_ok_def tape_ok_def)
  from tape_push_ok [OF this] assms show ?thesis
    by (auto simp: pushPolyTick_def Let_def tapes_ok_def dict_get_set)
qed

lemma push_fill_bounded:
  assumes "fills_ok (ts_fills s)"
  shows "fills_ok (ts_fills (pushPolyFill key tick s))
    \<and> (\<exists>ts. dict_get (ts_fills (pushPolyFill key tick s)) key = Some ts
          \<and> (\<exists>f\<in>set ts. tick_key f = tick_key tick))"
proof -
  let ?prev = "get_or (dict_get (ts_fills s) key) []"
  have prev: "length ?prev \<le> 100" "distinct (map tick_key ?prev)"
    using assms by (cases "dict_get (ts_fills s) key"; auto simp: fills_ok_def)+
  show ?thesis
  proof (cases "list_ex (\<lambda>f. tick_key f = tick_key tick) ?prev")
    case True
    then have "dict_get (ts_fills s) key = Some ?prev"
      by (cases "dict_get (ts_fills s) key") auto
    with True assms show ?thesis by (auto simp: pushPolyFill_def list_ex_iff)
  next
    case False
    then have "tick_key tick \<notin> set (map tick_key ?prev)" by (force simp: list_ex_iff)
    then have "distinct (map tick_key (slice_last 100 (?prev @ [tick])))"
      using prev by (simp add: map_slice_last distinct_slice_last)
    moreover have "tick \<in> set (slice_last 100 (?prev @ [tick]))"
      by (simp add: slice_last_def)
    ultimately show ?thesis
      using assms False by (auto simp: pushPolyFill_def Let_def fills_ok_def dict_get_set)
  qed
qed

text \<open>Pushing a print keeps every tape at most 200 prints long and without the same print twice in
  a row. Fills are recorded once: after a fill, one with the same timestamp, price, size and side
  changes nothing, and every market keeps at most 100 fills, all distinct in these.\<close>

theorem tapes_and_fills:
  assumes "tapes_ok (ts_polyTicks s)" and "fills_ok (ts_fills s)"
  shows "tapes_ok (ts_polyTicks (pushPolyTick key tick s)) \<and> fills_ok (ts_fills (pushPolyFill key tick s))
    \<and> pushPolyFill key tick (pushPolyFill key tick s) = pushPolyFill key tick s
    \<and> (tick_key a = tick_key b \<longrightarrow> pushPolyFill key b (pushPolyFill key a s) = pushPolyFill key a s)"
proof -
  have again: "pushPolyFill key b (pushPolyFill key a s) = pushPolyFill key a s"
    if "tick_key a = tick_key b" for a b
  proof -
    obtain ts where ts: "dict_get (ts_fills (pushPolyFill key a s)) key = Some ts"
      "\<exists>f\<in>set ts. tick_key f = tick_key a"
      using push_fill_bounded [OF assms(2), of key a] by blast
    then show ?thesis using that by (auto simp: pushPolyFill_def [of key b] list_ex_iff)
  qed
  then show ?thesis
    using push_tick_bounded [OF assms(1)] push_fill_bounded [OF assms(2)] by blast
qed

lemma tapes_and_fills_witness:
  "tapes_ok (ts_polyTicks (pushPolyTick ''ES'' (sample_tick 4) initial_state))
   \<and> pushPolyFill ''ES'' (sample_tick 4) (pushPolyFill ''ES'' (sample_tick 4) initial_state)
     = pushPolyFill ''ES'' (sample_tick 4) initial_state"
  using tapes_and_fills [of initial_state "''ES''" "sample_tick 4" "sample_tick 4" "sample_tick 4"]
  by (simp add: tapes_ok_def fills_ok_def initial_state_def)

subsection \<open>Probability history\<close>

definition points_ok :: "prob_point list \<Rightarrow> bool" where
  "points_ok ps \<longleftrightarrow> (\<forall>p\<in>set ps. is_float (pp_ts p))"

definition history_ok :: "prob_point list \<Rightarrow> bool" where
  "history_ok ps \<longleftrightarrow> length ps \<le> 4320 \<and> sorted_wrt (\<lambda>a b. jlt (pp_ts a) (pp_ts b)) ps"

lemma drop_sign_float: "a \<noteq> NaN \<Longrightarrow> b \<noteq> NaN \<Longrightarrow> drop_sign a = drop_sign b \<longleftrightarrow> jeq a b"
  by (cases a; cases b) (auto simp: drop_sign_def jeq_def)

lemma merge_points_sorted:
  assumes "points_ok ps"
  shows "sorted_wrt (\<lambda>a b. jlt (pp_ts a) (pp_ts b)) (sort_js (before_asc pp_ts) (dedup_by same_ts ps))"
proof -
  let ?d = "dedup_by same_ts ps" let ?s = "sort_js (before_asc pp_ts) ?d"
  have f: "\<forall>p\<in>set ?d. is_float (pp_ts p)"
    using assms set_dedup_by_subset [of same_ts ps] by (auto simp: points_ok_def)
  then have le: "sorted_wrt (before_asc pp_ts) ?s" by (rule asc.sorted_sort)
  have "distinct (map (\<lambda>p. drop_sign (pp_ts p)) ?d)"
    using assms by (intro dedup_by_distinct_key) (auto simp: same_ts_def points_ok_def is_float_def drop_sign_float)
  then have ne: "distinct (map (\<lambda>p. drop_sign (pp_ts p)) ?s)" by simp
  show ?thesis
    unfolding sorted_wrt_iff_nth_less
  proof (intro allI impI)
    fix i j assume ij: "i < j" "j < length ?s"
    then have fl: "is_float (pp_ts (?s ! i))" "is_float (pp_ts (?s ! j))"
      using f nth_mem [of i ?s] nth_mem [of j ?s] by (auto simp del: nth_mem)
    have "before_asc pp_ts (?s ! i) (?s ! j)" using le ij by (simp only: sorted_wrt_iff_nth_less)
    then have "jle (pp_ts (?s ! i)) (pp_ts (?s ! j))" using fl by (simp only: before_asc_float)
    moreover have "drop_sign (pp_ts (?s ! i)) \<noteq> drop_sign (pp_ts (?s ! j))"
      using ne ij nth_eq_iff_index_eq [OF ne, of i j] by simp
    then have "\<not> jeq (pp_ts (?s ! i)) (pp_ts (?s ! j))" using fl by (simp add: drop_sign_float is_float_def)
    ultimately show "jlt (pp_ts (?s ! i)) (pp_ts (?s ! j))" by (simp add: jle_def)
  qed
qed

lemma merge_points_history: "points_ok ps \<Longrightarrow> history_ok (merge_points ps) \<and> points_ok (merge_points ps)"
  using merge_points_sorted [of ps] set_slice_last set_dedup_by_subset [of same_ts ps]
  by (fastforce simp: merge_points_def history_ok_def points_ok_def sorted_wrt_slice_last)

lemma merge_points_first:
  assumes "length ps \<le> 4320" and "i < length ps" and "pp_ts (ps ! i) \<noteq> NaN"
    and "\<forall>j<i. \<not> same_ts (ps ! j) (ps ! i)"
  shows "ps ! i \<in> set (merge_points ps)"
proof -
  have "length (dedup_by same_ts ps) \<le> length ps"
    by (metis dedup_by_def length_enumerate length_filter_le length_map)
  then have "merge_points ps = sort_js (before_asc pp_ts) (dedup_by same_ts ps)"
    using assms(1) by (simp add: merge_points_def slice_last_id)
  moreover have "ps ! i \<in> set (dedup_by same_ts ps)"
    using assms(2-4) by (intro dedup_by_first) (auto simp: same_ts_def jeq_refl_iff)
  ultimately show ?thesis by simp
qed

text \<open>Merging a fetched history gives one point per timestamp, strictly ordered in time, the
  newest 4320 at most. While all points fit, a fetched point whose timestamp occurs once is in the
  result, and a stored point is kept exactly when no fetched point has its timestamp: fetched
  points win.\<close>

theorem merge_history_new_wins:
  assumes "points_ok points" and "points_ok (get_or (dict_get (ts_probHistory s) key) [])"
  shows "\<exists>h. dict_get (ts_probHistory (mergeProbHistory key points s)) key = Some h \<and> history_ok h
    \<and> (length points + length (get_or (dict_get (ts_probHistory s) key) []) \<le> 4320 \<longrightarrow>
        (\<forall>p\<in>set points. (\<forall>q\<in>set points. same_ts q p \<longrightarrow> q = p) \<longrightarrow> p \<in> set h))
    \<and> (\<forall>p\<in>set h. p \<notin> set points \<longrightarrow> (\<forall>q\<in>set points. \<not> same_ts q p))"
proof -
  let ?old = "get_or (dict_get (ts_probHistory s) key) []" let ?h = "merge_points (points @ ?old)"
  have get: "dict_get (ts_probHistory (mergeProbHistory key points s)) key = Some ?h"
    by (simp add: mergeProbHistory_def dict_get_set)
  have ok: "history_ok ?h"
    using merge_points_history [of "points @ ?old"] assms by (auto simp: points_ok_def)
  have new: "p \<in> set ?h" if len: "length points + length ?old \<le> 4320" and p: "p \<in> set points"
    and u: "\<forall>q\<in>set points. same_ts q p \<longrightarrow> q = p" for p
  proof -
    obtain i where i: "i < length points" "points ! i = p" "\<forall>j<i. points ! j \<noteq> p"
      using p find_index_None_iff [of "\<lambda>x. x = p" points] find_index_Some_iff [of "\<lambda>x. x = p" points]
      by (cases "find_index (\<lambda>x. x = p) points") auto
    then have "\<forall>j<i. \<not> same_ts ((points @ ?old) ! j) ((points @ ?old) ! i)"
      using u by (auto simp: nth_append)
    moreover have "pp_ts p \<noteq> NaN" using assms(1) p by (auto simp: points_ok_def)
    ultimately show ?thesis
      using merge_points_first [of "points @ ?old" i] i len by (simp add: nth_append)
  qed
  have old: "\<not> same_ts q p" if ph: "p \<in> set ?h" "p \<notin> set points" "q \<in> set points" for p q
  proof -
    have "p \<in> set (dedup_by same_ts (points @ ?old))"
      using ph(1) set_slice_last [of 4320 "sort_js (before_asc pp_ts) (dedup_by same_ts (points @ ?old))"]
      by (auto simp: merge_points_def)
    from dedup_by_kept [OF this] obtain i where i: "i < length (points @ ?old)" "(points @ ?old) ! i = p"
      "\<forall>j<i. \<not> same_ts ((points @ ?old) ! j) p" by auto
    have "length points \<le> i"
    proof (rule ccontr)
      assume "\<not> length points \<le> i"
      then have "(points @ ?old) ! i \<in> set points" by (simp add: nth_append)
      with i(2) ph(2) show False by simp
    qed
    moreover obtain j where j: "j < length points" "points ! j = q" using ph(3) by (meson in_set_conv_nth)
    ultimately have "\<not> same_ts ((points @ ?old) ! j) p" using i(3) by simp
    then show ?thesis using j by (simp add: nth_append)
  qed
  show ?thesis
  proof (intro exI conjI)
    show "dict_get (ts_probHistory (mergeProbHistory key points s)) key = Some ?h" by (rule get)
  qed (use ok new old in auto)
qed

lemma merge_history_new_wins_witness:
  "\<exists>h. dict_get (ts_probHistory (mergeProbHistory ''K'' [\<lparr>pp_ts = Fin 5, pp_up_pct = Fin 60\<rparr>] initial_state)) ''K'' = Some h
     \<and> history_ok h"
  using merge_history_new_wins [of "[\<lparr>pp_ts = Fin 5, pp_up_pct = Fin 60\<rparr>]" initial_state "''K''"]
  by (auto simp: points_ok_def initial_state_def is_float_def)

subsection \<open>Market rotation\<close>

lemma wipe_rotated_get:
  "dict_get (wipe_rotated current incoming d) k =
     (if \<exists>m\<in>set incoming. mk_key m = k \<and> rotated current m then None else dict_get d k)"
  unfolding wipe_rotated_def
  by (induction incoming arbitrary: d) (auto simp: dict_get_del)

lemma prune_get: "dict_get (prune_fills incoming d) k = (if k \<in> mk_key ` set incoming then dict_get d k else None)"
proof -
  have "dict_get (fold (\<lambda>key d. if key \<notin> mk_key ` set incoming then dict_del key d else d) ks d) k
      = (if k \<in> set ks \<and> k \<notin> mk_key ` set incoming then None else dict_get d k)" for ks and d :: "'a dict"
    by (induction ks arbitrary: d) (auto simp: dict_get_del)
  from this [of "map fst d" d] show ?thesis
    by (cases "k \<in> fst ` set d") (auto simp: prune_fills_def map_of_eq_None_iff)
qed

lemma seed_history_other:
  "mk_key m \<noteq> k \<Longrightarrow> dict_get (seed_history base m acc) k = dict_get acc k"
  by (auto simp: seed_history_def dict_get_set split: option.splits)

lemma seed_fold_other:
  "(\<forall>m\<in>set ms. mk_key m \<noteq> k) \<Longrightarrow> dict_get (fold (\<lambda>m acc. seed_history acc m acc) ms acc) k = dict_get acc k"
  by (induction ms arbitrary: acc) (auto simp: seed_history_other)

text \<open>When the slot of an incoming market has rolled to another contract, the market update drops
  the slot's tape and book, and its history holds only the incoming points (none when there are
  none): nothing of the old period is left. A slot that has not rolled keeps its tape and book.\<close>

theorem rotation_clears_slot:
  assumes "m \<in> set incoming" and "rotated (ts_markets s) m" and "distinct (map mk_key incoming)"
  shows "dict_get (ts_polyTicks (setMarkets incoming live s)) (mk_key m) = None
    \<and> dict_get (ts_polyBooks (setMarkets incoming live s)) (mk_key m) = None
    \<and> dict_get (ts_probHistory (setMarkets incoming live s)) (mk_key m)
        = (case mk_prob_history m of None \<Rightarrow> None
           | Some ps \<Rightarrow> if ps = [] then None else Some (merge_points ps))"
proof -
  let ?w = "wipe_rotated (ts_markets s) incoming (ts_probHistory s)"
  obtain xs ys where inc: "incoming = xs @ m # ys" using assms(1) by (meson split_list)
  then have "\<forall>x\<in>set xs. mk_key x \<noteq> mk_key m" "\<forall>y\<in>set ys. mk_key y \<noteq> mk_key m"
    using assms(3) by (auto simp: image_iff)
  moreover have "dict_get ?w (mk_key m) = None" using assms(1,2) by (simp add: wipe_rotated_get) blast
  then have w: "dict_get (fold (\<lambda>m acc. seed_history acc m acc) xs ?w) (mk_key m) = None"
    using \<open>\<forall>x\<in>set xs. mk_key x \<noteq> mk_key m\<close> by (simp add: seed_fold_other)
  have step: "dict_get (seed_history acc m acc) (mk_key m) = (case mk_prob_history m of None \<Rightarrow> None
           | Some ps \<Rightarrow> if ps = [] then None else Some (merge_points ps))"
    if "dict_get acc (mk_key m) = None" for acc
    using that by (auto simp: seed_history_def dict_get_set split: option.splits)
  have "dict_get (fold (\<lambda>m acc. seed_history acc m acc) incoming ?w) (mk_key m)
      = (case mk_prob_history m of None \<Rightarrow> None
           | Some ps \<Rightarrow> if ps = [] then None else Some (merge_points ps))"
    unfolding inc fold_append fold_simps o_apply
    using \<open>\<forall>y\<in>set ys. mk_key y \<noteq> mk_key m\<close> step [OF w] by (simp add: seed_fold_other inc)
  then show ?thesis using assms(1,2) by (auto simp: setMarkets_def Let_def wipe_rotated_get)
qed

definition sample_market :: "string \<Rightarrow> string \<Rightarrow> string \<Rightarrow> string \<Rightarrow> bool \<Rightarrow> market_info" where
  "sample_market key asset tf cid live = \<lparr>mk_key = key, mk_asset = asset, mk_timeframe = tf, mk_question = [],
     mk_category = None, mk_up_pct = Fin 60, mk_down_pct = Fin 40, mk_volume = Fin 0, mk_expiry_ts = Fin 0,
     mk_resolution_price = None, mk_start_price = None, mk_price_to_beat = None, mk_condition_id = Some cid,
     mk_up_token_id = None, mk_live = live, mk_marketStatus = None, mk_marketStatusDetail = None,
     mk_last_update_ms = None, mk_prob_history = None, mk_truth_history = None, mk_staged_market = None,
     mk_truth_up_pct = None, mk_truth_down_pct = None, mk_truth_feature_source = None, mk_gamma = None,
     mk_theta = None, mk_vega = None, mk_vanna = None, mk_charm = None, mk_atr = None, mk_volatility = None,
     mk_zscore = None, mk_edge_up = None, mk_edge_down = None, mk_tickSize = None, mk_tickValue = None\<rparr>"

lemma rotation_clears_slot_witness:
  "dict_get (ts_polyTicks (setMarkets [sample_market ''BTC_5min'' ''BTC'' ''5min'' ''new'' True] False
      (initial_state\<lparr>ts_markets := [sample_market ''BTC_5min'' ''BTC'' ''5min'' ''old'' True],
         ts_polyTicks := [(''BTC_5min'', [sample_tick 4])]\<rparr>))) ''BTC_5min'' = None"
  using rotation_clears_slot [of "sample_market ''BTC_5min'' ''BTC'' ''5min'' ''new'' True"
      "[sample_market ''BTC_5min'' ''BTC'' ''5min'' ''new'' True]"
      "initial_state\<lparr>ts_markets := [sample_market ''BTC_5min'' ''BTC'' ''5min'' ''old'' True],
         ts_polyTicks := [(''BTC_5min'', [sample_tick 4])]\<rparr>" False]
  by (simp add: sample_market_def rotated_def truthy_text_def)

text \<open>C19. A slot that is not rotated keeps its tape and its book through a market update, and fills
  are kept unchanged for the incoming markets and dropped for all others.\<close>

theorem market_update_keeps:
  "(\<forall>k. \<not> (\<exists>m\<in>set incoming. mk_key m = k \<and> rotated (ts_markets s) m) \<longrightarrow>
       dict_get (ts_polyTicks (setMarkets incoming live s)) k = dict_get (ts_polyTicks s) k
       \<and> dict_get (ts_polyBooks (setMarkets incoming live s)) k = dict_get (ts_polyBooks s) k)
   \<and> (\<forall>k. dict_get (ts_fills (setMarkets incoming live s)) k =
         (if k \<in> mk_key ` set incoming then dict_get (ts_fills s) k else None))"
  by (auto simp: setMarkets_def Let_def wipe_rotated_get prune_get)

lemma market_update_keeps_witness:
  "dict_get (ts_fills (setMarkets [sample_market ''BTC_5min'' ''BTC'' ''5min'' ''c'' True] False
      (initial_state\<lparr>ts_fills := [(''BTC_5min'', [sample_tick 4]), (''ETH_5min'', [])]\<rparr>))) ''ETH_5min'' = None"
  using market_update_keeps [of "[sample_market ''BTC_5min'' ''BTC'' ''5min'' ''c'' True]"
      "initial_state\<lparr>ts_fills := [(''BTC_5min'', [sample_tick 4]), (''ETH_5min'', [])]\<rparr>" False]
  by (simp add: sample_market_def)

subsection \<open>The selected market\<close>

lemma first_some_in: "first_some os = Some x \<Longrightarrow> Some x \<in> set os"
  by (induction os rule: first_some.induct) auto

lemma preferred_in: "preferred_market live = Some m \<Longrightarrow> m \<in> set live"
  by (auto simp: preferred_market_def dest!: first_some_in find_Some_set [OF sym])

lemma preferred_or_first:
  "or_else (preferred_market live) (array_first live) = None \<longleftrightarrow> live = []"
  "or_else (preferred_market live) (array_first live) = Some m \<Longrightarrow> m \<in> set live"
proof -
  have n: "preferred_market [] = None" by (simp add: preferred_market_def tf_pref_def)
  show "or_else (preferred_market live) (array_first live) = None \<longleftrightarrow> live = []"
    by (cases "preferred_market live"; cases live) (auto simp: array_first_def n)
  show "or_else (preferred_market live) (array_first live) = Some m \<Longrightarrow> m \<in> set live"
    using preferred_in [of live m] by (cases "preferred_market live"; cases live) (auto simp: array_first_def)
qed

lemma set_active_asset_selects_market:
  "ts_activeAsset (setActiveAsset a s) = a
   \<and> (case ts_activeMarketKey (setActiveAsset a s) of
        None \<Rightarrow> \<not> (\<exists>m\<in>set (ts_markets s). mk_asset m = a \<and> mk_live m)
      | Some k \<Rightarrow> \<exists>m\<in>set (ts_markets s). mk_asset m = a \<and> mk_live m \<and> mk_key m = k)"
proof -
  let ?live = "filter (\<lambda>m. mk_asset m = a \<and> mk_live m) (ts_markets s)"
  show ?thesis
    using preferred_or_first [of ?live]
    by (cases "or_else (preferred_market ?live) (array_first ?live)")
      (auto simp: setActiveAsset_def Let_def filter_empty_conv)
qed

text \<open>Choosing an asset selects a live market of that asset, and none exactly when the asset has no
  live market.\<close>

theorem set_active_asset_selects:
  "ts_activeAsset (setActiveAsset a s) = a
   \<and> (case ts_activeMarketKey (setActiveAsset a s) of
        None \<Rightarrow> \<not> (\<exists>m\<in>set (ts_markets s). mk_asset m = a \<and> mk_live m)
      | Some k \<Rightarrow> \<exists>m\<in>set (ts_markets s). mk_asset m = a \<and> mk_live m \<and> mk_key m = k)"
  by (rule set_active_asset_selects_market)

lemma withoutProbHistory_fields [simp]:
  "mk_key (withoutProbHistory m) = mk_key m" "mk_live (withoutProbHistory m) = mk_live m"
  "mk_asset (withoutProbHistory m) = mk_asset m" "mk_prob_history (withoutProbHistory m) = None"
  by (simp_all add: withoutProbHistory_def)

lemma repaired_key_live:
  assumes "\<exists>m\<in>set updated. mk_live m" and "distinct (map mk_key updated)"
  shows "\<exists>m\<in>set updated. mk_live m \<and> repaired_key active True updated = Some (mk_key m)"
proof -
  let ?cur = "case truthy_text active of None \<Rightarrow> None | Some k \<Rightarrow> find (\<lambda>m. mk_key m = k) updated"
  show ?thesis
  proof (cases "case ?cur of None \<Rightarrow> True | Some m \<Rightarrow> \<not> mk_live m")
    case False
    then obtain m where m: "?cur = Some m" "mk_live m" by (auto split: option.splits)
    then obtain k where k: "active = Some k" "find (\<lambda>m. mk_key m = k) updated = Some m"
      by (auto simp: truthy_text_def split: option.splits if_splits)
    then have "m \<in> set updated" "mk_key m = k" using find_Some_set by fastforce+
    with m k False show ?thesis by (auto simp: repaired_key_def Let_def)
  next
    case True
    obtain asset where asset: "asset = (case truthy_text active of
                   Some k \<Rightarrow> hd (split_on (CHR ''_'') k)
                 | None \<Rightarrow> get_or (map_option mk_asset (find mk_live updated)) ''ES'')" by simp
    let ?live = "filter (\<lambda>m. mk_asset m = asset \<and> mk_live m) updated"
    let ?best = "or_else (preferred_market ?live) (or_else (array_first ?live) (find mk_live updated))"
    obtain l where l: "find mk_live updated = Some l" "l \<in> set updated" "mk_live l"
      using assms(1) find_exists by metis
    have best: "\<exists>m\<in>set updated. mk_live m \<and> ?best = Some m"
    proof (cases "or_else (preferred_market ?live) (array_first ?live)")
      case None
      then have "?best = Some l" using l by (auto simp: or_else_def split: option.splits)
      with l show ?thesis by blast
    next
      case (Some m)
      then have "?best = Some m" by (auto simp: or_else_def split: option.splits)
      with preferred_or_first(2) [OF Some] show ?thesis by auto
    qed
    then show ?thesis
      using True unfolding repaired_key_def Let_def asset by (auto simp del: or_else_simps)
  qed
qed

text \<open>C15. After an update with a live market in it, the selected key is that of a live market of the
  list: the selection never stays on an expired or missing slot.\<close>

theorem selection_points_at_live:
  assumes "\<exists>m\<in>set incoming. mk_live m" and "distinct (map mk_key incoming)"
  shows "\<exists>m\<in>set (ts_markets (setMarkets incoming live s)). mk_live m
    \<and> ts_activeMarketKey (setMarkets incoming live s) = Some (mk_key m)"
proof -
  have "\<exists>m\<in>set (map withoutProbHistory incoming). mk_live m"
    "distinct (map mk_key (map withoutProbHistory incoming))"
    using assms by (auto simp: o_def)
  from repaired_key_live [OF this] assms(1) show ?thesis
    by (auto simp: setMarkets_def Let_def list_ex_iff)
qed

lemma selection_points_at_live_witness:
  "\<exists>m\<in>set (ts_markets (setMarkets [sample_market ''BTC_5min'' ''BTC'' ''5min'' ''c'' True] False initial_state)).
     mk_live m \<and> ts_activeMarketKey (setMarkets [sample_market ''BTC_5min'' ''BTC'' ''5min'' ''c'' True] False initial_state)
       = Some (mk_key m)"
  by (rule selection_points_at_live) (simp_all add: sample_market_def)

text \<open>The repair reads the asset off the key up to its first underscore, so the spread products,
  whose names contain one, fall back to another product: with the fifteen-minute slot of
  \<open>ES_NQ\<close> gone and its five-minute slot live, the selection jumps to \<open>ES\<close>.\<close>

theorem spread_selection_jumps:
  "ts_activeMarketKey (setMarkets
      [sample_market ''ES_NQ_5min'' ''ES_NQ'' ''5min'' ''a'' True, sample_market ''ES_5min'' ''ES'' ''5min'' ''b'' True]
      False (initial_state\<lparr>ts_activeMarketKey := Some ''ES_NQ_15min''\<rparr>)) = Some ''ES_5min''"
  by code_simp

subsection \<open>Books never go back in time\<close>

text \<open>The book of a market is replaced only by one that is not older, by the time it was seen or
  else its own timestamp; other markets' books do not change.\<close>

theorem poly_book_monotone:
  assumes "dict_get (ts_polyBooks s) key = Some prev" and "seen_time prev \<noteq> NaN" and "seen_time book \<noteq> NaN"
  shows "\<exists>b. dict_get (ts_polyBooks (setPolyBook key book s)) key = Some b
    \<and> jle (seen_time prev) (seen_time b) \<and> (b = book \<or> b = prev)
    \<and> (\<forall>k. k \<noteq> key \<longrightarrow> dict_get (ts_polyBooks (setPolyBook key book s)) k = dict_get (ts_polyBooks s) k)"
  using assms not_jlt [of "seen_time book" "seen_time prev"]
  by (auto simp: setPolyBook_def dict_get_set jle_refl_iff)

lemma poly_book_monotone_witness:
  "\<exists>b. dict_get (ts_polyBooks (setPolyBook ''ES'' (sample_book\<lparr>pb_timestamp_ms := Fin 3\<rparr>)
       (initial_state\<lparr>ts_polyBooks := [(''ES'', sample_book\<lparr>pb_timestamp_ms := Fin 4\<rparr>)]\<rparr>))) ''ES'' = Some b
     \<and> jle (Fin 4) (seen_time b)"
  using poly_book_monotone [of "initial_state\<lparr>ts_polyBooks := [(''ES'', sample_book\<lparr>pb_timestamp_ms := Fin 4\<rparr>)]\<rparr>"
      "''ES''" "sample_book\<lparr>pb_timestamp_ms := Fin 4\<rparr>" "sample_book\<lparr>pb_timestamp_ms := Fin 3\<rparr>"]
  by (auto simp: seen_time_def sample_book_def)

subsection \<open>Snapshots\<close>

text \<open>A snapshot's market list does not do what a market update does: tapes and books of a rolled
  slot stay (only the snapshot's own entries are laid over them), fills of markets that are gone
  stay, and the selected market is not repaired.\<close>

theorem snapshot_keeps_stale:
  assumes "ss_order_state data = None"
  shows "ts_fills (loadSnapshot asset data s) = ts_fills s
    \<and> ts_activeMarketKey (loadSnapshot asset data s) = ts_activeMarketKey s
    \<and> (\<forall>k. dict_get (rev (get_or (ss_poly_ticks data) [])) k = None \<longrightarrow>
         dict_get (ts_polyTicks (loadSnapshot asset data s)) k = dict_get (ts_polyTicks s) k)
    \<and> (\<forall>k. dict_get (rev (get_or (ss_poly_books data) [])) k = None \<longrightarrow>
         dict_get (ts_polyBooks (loadSnapshot asset data s)) k = dict_get (ts_polyBooks s) k)"
  using assms
  by (auto simp: loadSnapshot_def Let_def load_orders_def load_markets_def dict_get_spread split: option.splits)

definition empty_snapshot :: snapshot where
  "empty_snapshot = \<lparr>ss_bars = None, ss_bands = None, ss_zscore = None, ss_regime = None, ss_signals = None,
     ss_positions = None, ss_metrics = None, ss_copy_status = None, ss_execution_positions = None,
     ss_execution_risk = None, ss_poly_books = None, ss_poly_ticks = None, ss_order_state = None, ss_markets = None\<rparr>"

lemma snapshot_keeps_stale_witness:
  "ts_activeMarketKey (loadSnapshot ''ES'' (empty_snapshot\<lparr>ss_markets := Some []\<rparr>)
      (initial_state\<lparr>ts_activeMarketKey := Some ''gone''\<rparr>)) = Some ''gone''"
  using snapshot_keeps_stale [of "empty_snapshot\<lparr>ss_markets := Some []\<rparr>" "''ES''"
      "initial_state\<lparr>ts_activeMarketKey := Some ''gone''\<rparr>"]
  by (simp add: empty_snapshot_def)

end
