(* ===== verification/Services.thy ===== *)
theory Services
  imports StoreProps
begin

text \<open>
  The small services around the store. \<open>apps/terminal/src/platform/transport.ts\<close>: where the
  terminal's HTTP and web-socket requests go, with the configured bases and the page's location
  as parameters. \<open>services/settings.ts\<close>: the theme read from browser storage.
  \<open>services/workspaceServices.ts\<close>: the provider and service tables. \<open>App.tsx\<close>: the rotation
  of the active asset and the choice of the application shell from the query of the page.
\<close>

subsection \<open>Transport\<close>

definition trimTrailingSlash :: "string \<Rightarrow> string" where
  "trimTrailingSlash value = rev (dropWhile (\<lambda>c. c = CHR ''/'') (rev value))"

text \<open>The build's environment and the page: an unset variable is \<open>None\<close>.\<close>

record transport_env =
  te_http_base :: "string option"
  te_ws_base :: "string option"
  te_protocol :: string
  te_host :: string
  te_origin :: string

definition configured :: "string option \<Rightarrow> string option" where
  "configured v = truthy_text (map_option trim v)"

definition ceriousHttpBase :: "transport_env \<Rightarrow> string" where
  "ceriousHttpBase env = (case configured (te_http_base env) of
     Some base \<Rightarrow> trimTrailingSlash base | None \<Rightarrow> [])"

text \<open>\<open>replace(/^http/i, 'ws')\<close>.\<close>

definition http_to_ws :: "string \<Rightarrow> string" where
  "http_to_ws s = (if to_lower (take 4 s) = ''http'' then ''ws'' @ drop 4 s else s)"

definition ceriousWsBase :: "transport_env \<Rightarrow> string" where
  "ceriousWsBase env = (case configured (te_ws_base env) of
     Some base \<Rightarrow> trimTrailingSlash base
   | None \<Rightarrow> (let httpBase = ceriousHttpBase env in
       if httpBase \<noteq> [] then http_to_ws httpBase @ ''/ws''
       else (if te_protocol env = ''https:'' then ''wss'' else ''ws'') @ ''://'' @ te_host env @ ''/ws''))"

record url_parts =
  up_origin :: string
  up_pathname :: string
  up_search :: string
  up_hash :: string

datatype request_input = TextInput string | UrlInput url_parts | RequestInput

text \<open>The text a resolved URL is built from is kept as text.\<close>

definition resolveCeriousHttp :: "transport_env \<Rightarrow> request_input \<Rightarrow> request_input" where
  "resolveCeriousHttp env input = (let base = ceriousHttpBase env in
     if base = [] then input
     else case input of
       TextInput s \<Rightarrow> if starts_with ''/api'' s then TextInput (base @ s) else input
     | UrlInput u \<Rightarrow>
         if starts_with ''/api'' (up_pathname u) \<and> up_origin u = te_origin env
         then TextInput (base @ up_pathname u @ up_search u @ up_hash u) else input
     | RequestInput \<Rightarrow> input)"

definition resolveCeriousWs :: "transport_env \<Rightarrow> string \<Rightarrow> string" where
  "resolveCeriousWs env raw =
     (if starts_with ''/ws'' raw then ceriousWsBase env @ drop 3 raw else raw)"

text \<open>Installing is done once per window: what the window's \<open>fetch\<close> and \<open>WebSocket\<close> do to
  their target, as a stack of wrappers.\<close>

record window_transport =
  wt_installed :: bool
  wt_fetch_wraps :: nat
  wt_socket_wraps :: nat

definition installCeriousTransport :: "window_transport \<Rightarrow> window_transport" where
  "installCeriousTransport w = (if wt_installed w then w
     else \<lparr>wt_installed = True, wt_fetch_wraps = Suc (wt_fetch_wraps w),
           wt_socket_wraps = Suc (wt_socket_wraps w)\<rparr>)"

lemma trim_slash_snoc: "trimTrailingSlash (xs @ [c]) = (if c = CHR ''/'' then trimTrailingSlash xs else xs @ [c])"
  by (simp add: trimTrailingSlash_def)

lemma trim_slash_last: "trimTrailingSlash s \<noteq> [] \<Longrightarrow> last (trimTrailingSlash s) \<noteq> CHR ''/''"
  by (induction s rule: rev_induct) (auto simp: trim_slash_snoc, simp add: trimTrailingSlash_def)

lemma trim_slash_idem [simp]: "trimTrailingSlash (trimTrailingSlash s) = trimTrailingSlash s"
  by (induction s rule: rev_induct) (auto simp: trim_slash_snoc, simp add: trimTrailingSlash_def)

text \<open>A web-socket target under \<open>/ws\<close> becomes the base followed by the rest of its path, every
  other target is left as it is, and resolving a second time changes nothing, provided the base is
  not itself a path of the page.\<close>

theorem resolve_ws_once:
  assumes "ceriousWsBase env \<noteq> []" and "hd (ceriousWsBase env) \<noteq> CHR ''/''"
  shows "resolveCeriousWs env (resolveCeriousWs env raw) = resolveCeriousWs env raw
    \<and> resolveCeriousWs env (''/ws'' @ rest) = ceriousWsBase env @ rest"
proof -
  obtain c cs where b: "ceriousWsBase env = c # cs" "c \<noteq> CHR ''/''"
    using assms by (cases "ceriousWsBase env") auto
  then have "\<not> starts_with ''/ws'' (ceriousWsBase env @ t)" for t by auto
  then show ?thesis by (auto simp: resolveCeriousWs_def starts_with_iff)
qed

definition sample_env :: transport_env where
  "sample_env = \<lparr>te_http_base = Some ''https://gw.local//'', te_ws_base = None, te_protocol = ''http:'',
     te_host = ''localhost'', te_origin = ''http://localhost''\<rparr>"

lemma resolve_ws_once_witness:
  "resolveCeriousWs sample_env (resolveCeriousWs sample_env ''/ws/ES'') = resolveCeriousWs sample_env ''/ws/ES''
   \<and> resolveCeriousWs sample_env (''/ws'' @ ''/ES'') = ceriousWsBase sample_env @ ''/ES''"
  by (rule resolve_ws_once; code_simp)

text \<open>The web-socket base derived from the HTTP base.\<close>

lemma ws_base_from_http: "ceriousWsBase sample_env = ''wss://gw.local/ws''"
  by code_simp

lemma install_once: "installCeriousTransport (installCeriousTransport w) = installCeriousTransport w"
  by (simp add: installCeriousTransport_def)

subsection \<open>Settings\<close>

definition theme_keys :: "string list" where
  "theme_keys = [''dark-navy'', ''deep-purple'', ''dark-midnight'', ''gunmetal'', ''abyss'', ''terminal'']"

text \<open>The properties every object inherits: \<open>value in THEMES\<close> is true of them too.\<close>

definition object_prototype_keys :: "string list" where
  "object_prototype_keys = [''constructor'', ''__defineGetter__'', ''__defineSetter__'', ''hasOwnProperty'',
     ''__lookupGetter__'', ''__lookupSetter__'', ''isPrototypeOf'', ''propertyIsEnumerable'', ''toString'',
     ''valueOf'', ''__proto__'', ''toLocaleString'']"

definition isThemeKey :: "jsv \<Rightarrow> bool" where
  "isThemeKey v = (case v of Str s \<Rightarrow> s \<in> set (theme_keys @ object_prototype_keys) | _ \<Rightarrow> False)"

definition settings_key :: string where
  "settings_key = ''pt_settings_v1''"

text \<open>The storage is \<open>None\<close> where reading it throws. Every failure gives the default.\<close>

definition loadSettings :: "storage option \<Rightarrow> string" where
  "loadSettings st = (case st of
     None \<Rightarrow> ''dark-navy''
   | Some store \<Rightarrow> (case get_item store settings_key of
        Absent \<Rightarrow> ''dark-navy''
      | Malformed \<Rightarrow> ''dark-navy''
      | Json v \<Rightarrow> (case jget_strict v ''theme'' of
           Inl e \<Rightarrow> ''dark-navy''
         | Inr t \<Rightarrow> if isThemeKey t then to_str t else ''dark-navy'')))"

definition applyTheme :: "string \<Rightarrow> string" where
  "applyTheme key = (if key = ''dark-navy'' then [] else key)"

lemma loaded_theme_accepted: "isThemeKey (Str (loadSettings st))"
  by (auto simp: loadSettings_def isThemeKey_def jget_strict_def theme_keys_def split: option.splits cell.splits jsv.splits)

text \<open>A stored theme that is the name of an inherited object property passes the check and is
  applied, although no such theme exists.\<close>

theorem settings_prototype_theme:
  "loadSettings (Some [(settings_key, Json (Obj [(''theme'', Str ''toString'')]))]) = ''toString''
   \<and> ''toString'' \<notin> set theme_keys"
  by code_simp

subsection \<open>Provider and service tables\<close>

record provider_descriptor =
  pd_key :: string
  pd_label :: string
  pd_protocol :: string
  pd_productModel :: string
  pd_service :: string

definition providers :: "provider_descriptor list" where
  "providers = [\<lparr>pd_key = ''cme'', pd_label = ''CME'', pd_protocol = ''CME futures market data'',
     pd_productModel = ''futures'', pd_service = ''price.cme-ingress''\<rparr>]"

record service_blueprint_entry =
  sb_key :: string
  sb_label :: string
  sb_role :: string
  sb_dependsOn :: "string list"

definition service_blueprint :: "service_blueprint_entry list" where
  "service_blueprint = [
     \<lparr>sb_key = ''price'', sb_label = ''Price Service'',
      sb_role = ''Normalizes CME market data into the terminal tape and depth contracts.'',
      sb_dependsOn = [''CME adapter'', ''market registry'', ''websocket fanout'']\<rparr>,
     \<lparr>sb_key = ''knowledge'', sb_label = ''Knowledge Service'',
      sb_role = ''Publishes the education wiki, model definitions, playbooks, and contextual explanations into the workspace.'',
      sb_dependsOn = [''wiki corpus'', ''model metadata'', ''research notes'']\<rparr>,
     \<lparr>sb_key = ''orders'', sb_label = ''Order Service'',
      sb_role = ''Owns canonical order state, applies risk, routes to the selected destination exchange, then returns fills and position events.'',
      sb_dependsOn = [''risk gate'', ''routing gateway'', ''journal service'']\<rparr>,
     \<lparr>sb_key = ''algo-engine'', sb_label = ''Algo Engine Service'',
      sb_role = ''Owns held algos, synthetic order state, trigger evaluation, and release into the order service.'',
      sb_dependsOn = [''price service'', ''study engine'', ''risk gate'', ''sim exchange'']\<rparr>,
     \<lparr>sb_key = ''sim-exchange'', sb_label = ''Sim Exchange Service'',
      sb_role = ''Runs the local matching engine, waits for at least two contracts of confirming tape volume, publishes simulated fills, and marks simulated P&L.'',
      sb_dependsOn = [''price service'', ''local order book'', ''fill publisher'', ''position ledger'']\<rparr>,
     \<lparr>sb_key = ''alerts'', sb_label = ''Alert Service'',
      sb_role = ''Evaluates price, fill, position, study, and risk thresholds without coupling the workspace to a specific venue.'',
      sb_dependsOn = [''price service'', ''study engine'', ''workspace state'']\<rparr>,
     \<lparr>sb_key = ''fix-engine'', sb_label = ''FIX Route Gateway'',
      sb_role = ''Manages FIX 4.4 transport sessions below the order service. It is a route hop to exchanges, not the trader-facing destination.'',
      sb_dependsOn = [''order service'', ''audit trail'', ''session state'']\<rparr>]"

definition product_assets :: "string list" where
  "product_assets = [''ES'', ''NQ'', ''YM'', ''RTY'', ''CL'', ''GC'', ''ZM'', ''ZS'', ''ES_NQ'', ''YM_ES'', ''RTY_ES'']"

definition providerLabel :: "string \<Rightarrow> string" where
  "providerLabel key = get_or (map_option pd_label (find (\<lambda>p. pd_key p = key) providers)) key"

definition providerForTemplate :: "string \<Rightarrow> string" where
  "providerForTemplate template = ''cme''"

definition workspace_window_kinds :: "string list" where
  "workspace_window_kinds = [''marketData'', ''depthLadder'', ''order'', ''fills'', ''alerts'', ''charts'',
     ''liquidityMap'', ''algoBuilder'', ''algoManager'', ''serviceMap'', ''depthTrader'', ''depthTraderEsNq'',
     ''depthTraderYmEs'', ''depthTraderRtyEs'', ''mdTraderEs'', ''goose'', ''dailySummary'', ''streamingNews'',
     ''liveApiArchitecture'', ''tradeAnalytics'', ''positionsOrders'', ''auditTrail'', ''spreadConfigurations'',
     ''spreadBuilder'', ''relativeSpreadCharts'', ''relativeSpreadVisuals'', ''notionalCalculator'',
     ''macroRegimeSummary'', ''liveSpreadSignals'', ''atrZScoreEngine'', ''executionRules'',
     ''orderLayeringTechniques'', ''moneyManagement'', ''crossSpreadOpportunityMap'', ''riskChecklist'',
     ''sourceNotes'', ''modelResearchGovernance'']"

lemma product_assets_known: "set product_assets \<subseteq> set assets"
  by (simp add: product_assets_def assets_def)

subsection \<open>The application shell\<close>

fun distinct_first :: "string list \<Rightarrow> string list" where
  "distinct_first [] = []"
| "distinct_first (x # xs) = x # filter (\<lambda>y. y \<noteq> x) (distinct_first xs)"

definition rotation_assets :: "terminal_state \<Rightarrow> string list" where
  "rotation_assets s = distinct_first (filter (\<lambda>a. a \<noteq> []) (map mk_asset (ts_markets s)))"

text \<open>One beat of the rotation timer, which runs only while there is an asset to rotate to.\<close>

definition rotate_tick :: "terminal_state \<Rightarrow> terminal_state" where
  "rotate_tick s = (let xs = rotation_assets s in
     if \<not> ts_autoRotate s \<or> xs = [] then s
     else let idx = (case find_index (\<lambda>a. a = ts_activeAsset s) xs of None \<Rightarrow> - 1 | Some i \<Rightarrow> int i);
              nextIdx = nat ((idx + 1) mod int (length xs))
          in setActiveAsset (xs ! nextIdx) s)"

text \<open>What the application mounts inside its error boundary and portal gate: the rotation and the
  broadcast subscription or not, and one view. The toaster is always there.\<close>

datatype app_view = ToolbarView | LauncherView | DesktopWindowView | CanvasView

record app_shell =
  as_rotator :: bool
  as_broadcast :: bool
  as_view :: app_view

definition app_shell_of :: "string option \<Rightarrow> string option \<Rightarrow> string option \<Rightarrow> app_shell" where
  "app_shell_of cerious_client cerious_desktop cerious_window =
     (let isOpenFinDesktopLauncher = (cerious_client = Some ''openfin'' \<and> cerious_desktop = Some ''launcher'');
          isOpenFinDesktopToolbar = (cerious_client = Some ''openfin'' \<and> cerious_desktop = Some ''toolbar'')
      in if isOpenFinDesktopToolbar then \<lparr>as_rotator = False, as_broadcast = False, as_view = ToolbarView\<rparr>
         else if isOpenFinDesktopLauncher then \<lparr>as_rotator = True, as_broadcast = True, as_view = LauncherView\<rparr>
         else if truthy_text cerious_window \<noteq> None
           then \<lparr>as_rotator = True, as_broadcast = True, as_view = DesktopWindowView\<rparr>
         else \<lparr>as_rotator = True, as_broadcast = True, as_view = CanvasView\<rparr>)"

text \<open>The error boundary: its children until a render error, then the crash screen with the error's
  title line and, when there is one, its stack.\<close>

record js_exception =
  ex_name :: string
  ex_message :: string
  ex_stack :: "string option"

record error_boundary =
  eb_error :: "js_exception option"

datatype boundary_view = Children | CrashScreen string "string option"

definition getDerivedStateFromError :: "js_exception \<Rightarrow> error_boundary" where
  "getDerivedStateFromError error = \<lparr>eb_error = Some error\<rparr>"

definition render_boundary :: "error_boundary \<Rightarrow> boundary_view" where
  "render_boundary b = (case eb_error b of None \<Rightarrow> Children
     | Some e \<Rightarrow> CrashScreen (ex_name e @ '': '' @ ex_message e) (truthy_text (ex_stack e)))"

lemma set_distinct_first [simp]: "set (distinct_first xs) = set xs"
  by (induction xs) auto

lemma distinct_distinct_first [simp]: "distinct (distinct_first xs)"
  by (induction xs) auto

text \<open>While rotation is on, one beat moves the active asset to the asset of a market, from the
  \<open>i\<close>-th of the distinct assets to the next, from the last to the first, and to the first when the
  active asset is not among them.\<close>

theorem rotation_cycles:
  assumes "ts_autoRotate s" and "rotation_assets s \<noteq> []"
  shows "ts_activeAsset (rotate_tick s) \<in> set (rotation_assets s)
    \<and> (\<forall>i < length (rotation_assets s). ts_activeAsset s = rotation_assets s ! i \<longrightarrow>
        ts_activeAsset (rotate_tick s) = rotation_assets s ! (Suc i mod length (rotation_assets s)))
    \<and> (ts_activeAsset s \<notin> set (rotation_assets s) \<longrightarrow> ts_activeAsset (rotate_tick s) = hd (rotation_assets s))"
proof -
  let ?xs = "rotation_assets s"
  let ?i = "find_index (\<lambda>a. a = ts_activeAsset s) ?xs"
  let ?n = "nat (((case ?i of None \<Rightarrow> - 1 | Some i \<Rightarrow> int i) + 1) mod int (length ?xs))"
  have act: "ts_activeAsset (setActiveAsset a s) = a" for a by (simp add: setActiveAsset_def Let_def)
  have r: "ts_activeAsset (rotate_tick s) = ?xs ! ?n"
    using assms by (simp add: rotate_tick_def Let_def act)
  have pos: "0 < length ?xs" using assms(2) by simp
  have n: "?n < length ?xs" using pos by (simp add: nat_less_iff)
  have dis: "distinct ?xs" by (simp add: rotation_assets_def)
  have known: "?n = Suc i mod length ?xs" if "i < length ?xs" "ts_activeAsset s = ?xs ! i" for i
  proof -
    have "?i = Some i"
      using that dis by (auto simp: find_index_Some_iff nth_eq_iff_index_eq)
    then have "?n = nat (int (Suc i) mod int (length ?xs))" by (simp add: add.commute)
    then show ?thesis by (simp only: zmod_int [symmetric] nat_int)
  qed
  have "?n = 0" if "ts_activeAsset s \<notin> set ?xs"
  proof -
    have "?i = None" using that by (auto simp: find_index_None_iff)
    then show ?thesis by simp
  qed
  then show ?thesis using r n known assms(2) by (auto simp: hd_conv_nth)
qed

lemma rotation_cycles_witness:
  "ts_activeAsset (rotate_tick (initial_state\<lparr>ts_autoRotate := True,
      ts_markets := [sample_market ''ES_5min'' ''ES'' ''5min'' ''a'' True, sample_market ''NQ_5min'' ''NQ'' ''5min'' ''b'' True]\<rparr>))
     \<in> set (rotation_assets (initial_state\<lparr>ts_autoRotate := True,
      ts_markets := [sample_market ''ES_5min'' ''ES'' ''5min'' ''a'' True, sample_market ''NQ_5min'' ''NQ'' ''5min'' ''b'' True]\<rparr>))"
  using rotation_cycles [of "initial_state\<lparr>ts_autoRotate := True,
      ts_markets := [sample_market ''ES_5min'' ''ES'' ''5min'' ''a'' True, sample_market ''NQ_5min'' ''NQ'' ''5min'' ''b'' True]\<rparr>"]
  by (simp add: rotation_assets_def sample_market_def)

end
