(* ===== verification/EngineStream.thy ===== *)
theory EngineStream
  imports Services
begin

text \<open>
  \<open>apps/terminal/src/services/engineStream.ts\<close>: the dispatch of web-socket messages to the
  store's actions, and the legacy browser stream's connection: one socket per asset and provider,
  reopened on a change of either and two seconds after a close. A message that makes an action
  throw is dropped by the handler's \<open>catch\<close>. Main results: every run of incremental messages
  keeps the rolling lists of the store within their bounds, and reconnecting never opens a second
  socket beside one that is connecting or open.
\<close>

subsection \<open>Dispatch\<close>

datatype engine_msg = SnapshotMsg string snapshot "settlement list option" | Typed ws_msg | UnknownMsg

fun apply_typed :: "jsnum \<Rightarrow> ws_msg \<Rightarrow> terminal_state \<Rightarrow> terminal_state js_result" where
  "apply_typed now (BarMsg asset bar) s = pushBar asset bar s"
| "apply_typed now (BandsMsg asset b) s = Inr (setBands asset b s)"
| "apply_typed now (BookMsg asset b) s = Inr (setBook asset b s)"
| "apply_typed now (TickMsg asset t) s = pushTick asset t s"
| "apply_typed now (ZscoreMsg asset z r) s = Inr (setZscore asset z r s)"
| "apply_typed now (SignalMsg sig) s = Inr (pushSignal sig s)"
| "apply_typed now (PositionMsg p) s = Inr (setPositions p s)"
| "apply_typed now (MetricsMsg m) s = Inr (setMetrics m s)"
| "apply_typed now (CopyStatusMsg c) s = Inr (setCopyStatus c s)"
| "apply_typed now (MarketsMsg ms) s = Inr (setMarkets ms False s)"
| "apply_typed now (SettlementsMsg x) s = Inr (setSettlements x s)"
| "apply_typed now (PolyBookMsg key book) s = Inr (setPolyBook key book s)"
| "apply_typed now (PolyTickMsg key tick) s = Inr (pushPolyTick key tick s)"
| "apply_typed now (FillMsg key tick) s = Inr (pushPolyFill key tick s)"
| "apply_typed now (OrderSnapshotMsg payload) s = Inr (setSimTradingState now payload s)"
| "apply_typed now (ExecutionEventMsg positions risk) s = Inr (case positions of
     None \<Rightarrow> s
   | Some ps \<Rightarrow> setExecutionPositions ps (case risk of None \<Rightarrow> s | Some r \<Rightarrow> setExecutionRisk r s))"
| "apply_typed now (CmeBookMsg symbol b) s = Inr s"
| "apply_typed now (CmeTradeMsg symbol t) s = Inr s"

definition applyEngineMessage :: "jsnum \<Rightarrow> engine_msg \<Rightarrow> terminal_state \<Rightarrow> terminal_state js_result" where
  "applyEngineMessage now msg s = (case msg of
     SnapshotMsg asset data settlements \<Rightarrow>
       (let s' = loadSnapshot asset data s in
        Inr (case settlements of None \<Rightarrow> s' | Some x \<Rightarrow> if x \<noteq> [] then setSettlements x s' else s'))
   | Typed m \<Rightarrow> apply_typed now m s
   | UnknownMsg \<Rightarrow> Inr s)"

text \<open>The socket's handler: a frame that does not parse, or whose action throws, is discarded.\<close>

definition on_socket_message :: "jsnum \<Rightarrow> engine_msg option \<Rightarrow> terminal_state \<Rightarrow> terminal_state" where
  "on_socket_message now frame s = (case frame of None \<Rightarrow> s
     | Some msg \<Rightarrow> (case applyEngineMessage now msg s of Inl e \<Rightarrow> s | Inr s' \<Rightarrow> s'))"

text \<open>A metrics poll: \<open>None\<close> is a failed or refused request.\<close>

definition pollMetrics :: "daily_metrics option \<Rightarrow> terminal_state \<Rightarrow> terminal_state" where
  "pollMetrics response s = (case response of None \<Rightarrow> s | Some m \<Rightarrow> setMetrics m s)"

subsection \<open>The connection\<close>

datatype ready_state = Connecting | OpenSocket | Closing | Closed

record stream_conn =
  sc_installed :: bool
  sc_key :: string
  sc_socket :: "ready_state option"
  sc_timers :: "nat list"
  sc_wsRetry :: "nat option"
  sc_nextTimer :: nat
  sc_opened :: "string list"

text \<open>The timers that are pending, the one that \<open>wsRetry\<close> names (it need not be pending any more, and
  others may be), and the number of the next one.\<close>

definition stream_init :: stream_conn where
  "stream_init = \<lparr>sc_installed = False, sc_key = [], sc_socket = None, sc_timers = [], sc_wsRetry = None, sc_nextTimer = 0, sc_opened = []\<rparr>"

text \<open>The stored session token; reading a storage that throws (\<open>None\<close>) gives none.\<close>

definition workspaceToken :: "string option option \<Rightarrow> string" where
  "workspaceToken item = (case item of None \<Rightarrow> [] | Some v \<Rightarrow> get_or v [])"

definition stream_url :: "(string \<Rightarrow> string) \<Rightarrow> string \<Rightarrow> string \<Rightarrow> terminal_state \<Rightarrow> string" where
  "stream_url encode base token s = base @ ''/'' @ ts_activeAsset s @ ''?provider='' @ encode (ts_marketProvider s)
     @ (if token = [] then [] else ''&token='' @ encode token)"

definition socket_live :: "stream_conn \<Rightarrow> bool" where
  "socket_live c \<longleftrightarrow> sc_socket c = Some Connecting \<or> sc_socket c = Some OpenSocket"

definition stream_key :: "terminal_state \<Rightarrow> string" where
  "stream_key s = ts_activeAsset s @ '':'' @ ts_marketProvider s"

text \<open>\<open>clearTimeout\<close> of the timer that \<open>wsRetry\<close> names; any other that is pending stays.\<close>

definition clear_retry :: "stream_conn \<Rightarrow> stream_conn" where
  "clear_retry c = c\<lparr>sc_timers := filter (\<lambda>t. Some t \<noteq> sc_wsRetry c) (sc_timers c)\<rparr>"

text \<open>A new socket starts connecting; the former one is closed and the last retry cancelled.\<close>

definition connectLegacyBrowserStream ::
    "bool \<Rightarrow> (terminal_state \<Rightarrow> string) \<Rightarrow> terminal_state \<Rightarrow> stream_conn \<Rightarrow> stream_conn" where
  "connectLegacyBrowserStream enabled url s c =
     (if \<not> enabled then c
      else if stream_key s = sc_key c \<and> socket_live c then c
      else (clear_retry c)\<lparr>sc_key := stream_key s, sc_socket := Some Connecting, sc_opened := url s # sc_opened c\<rparr>)"

definition installEngineStream ::
    "bool \<Rightarrow> (terminal_state \<Rightarrow> string) \<Rightarrow> terminal_state \<Rightarrow> stream_conn \<Rightarrow> stream_conn" where
  "installEngineStream enabled url s c = (if sc_installed c then c
     else connectLegacyBrowserStream enabled url s (c\<lparr>sc_installed := True\<rparr>))"

text \<open>The subscription to the store, and the events of the sockets: \<open>onclose\<close> also fires for a
  socket that was replaced, which leaves the current one as it is (\<open>True\<close> is the current one); each
  sets a timer of its own.\<close>

definition on_store_change ::
    "bool \<Rightarrow> (terminal_state \<Rightarrow> string) \<Rightarrow> terminal_state \<Rightarrow> terminal_state \<Rightarrow> stream_conn \<Rightarrow> stream_conn" where
  "on_store_change enabled url state previous c =
     (if ts_activeAsset state \<noteq> ts_activeAsset previous \<or> ts_marketProvider state \<noteq> ts_marketProvider previous
      then connectLegacyBrowserStream enabled url state c else c)"

definition on_socket_open :: "stream_conn \<Rightarrow> stream_conn" where
  "on_socket_open c = (if sc_socket c = Some Connecting then c\<lparr>sc_socket := Some OpenSocket\<rparr> else c)"

definition on_socket_close :: "bool \<Rightarrow> stream_conn \<Rightarrow> stream_conn" where
  "on_socket_close current c = c\<lparr>sc_timers := sc_timers c @ [sc_nextTimer c], sc_wsRetry := Some (sc_nextTimer c),
     sc_nextTimer := sc_nextTimer c + 1,
     sc_socket := (if current then map_option (\<lambda>r. Closed) (sc_socket c) else sc_socket c)\<rparr>"

text \<open>\<open>ws?.close()\<close> on the current socket, whichever socket has the error; a closed one stays closed.\<close>

definition on_socket_error :: "stream_conn \<Rightarrow> stream_conn" where
  "on_socket_error c = c\<lparr>sc_socket := map_option (\<lambda>r. if r = Closed then Closed else Closing) (sc_socket c)\<rparr>"

definition on_retry_timer ::
    "bool \<Rightarrow> (terminal_state \<Rightarrow> string) \<Rightarrow> terminal_state \<Rightarrow> nat \<Rightarrow> stream_conn \<Rightarrow> stream_conn" where
  "on_retry_timer enabled url s t c = (if t \<in> set (sc_timers c)
     then connectLegacyBrowserStream enabled url s (c\<lparr>sc_timers := removeAll t (sc_timers c)\<rparr>) else c)"

definition stopEngineStreamForTests :: "stream_conn \<Rightarrow> stream_conn" where
  "stopEngineStreamForTests c = (clear_retry c)\<lparr>sc_installed := False, sc_key := [], sc_socket := None, sc_wsRetry := None\<rparr>"

subsection \<open>Bounds of the store under the stream\<close>

definition store_bounded :: "terminal_state \<Rightarrow> bool" where
  "store_bounded s \<longleftrightarrow>
     (\<forall>a xs. dict_get (ts_bars s) a = Some xs \<longrightarrow> length xs \<le> 4500)
     \<and> (\<forall>a xs. dict_get (ts_ticks s) a = Some xs \<longrightarrow> length xs \<le> 50)
     \<and> (\<forall>a xs. dict_get (ts_signals s) a = Some xs \<longrightarrow> signals_ok xs)
     \<and> (\<forall>k xs. dict_get (ts_probHistory s) k = Some xs \<longrightarrow> length xs \<le> 4320)
     \<and> tapes_ok (ts_polyTicks s) \<and> fills_ok (ts_fills s)"

text \<open>The messages that add to the store; a snapshot replaces parts of it by what the payload holds.\<close>

fun incremental :: "ws_msg \<Rightarrow> bool" where
  "incremental (OrderSnapshotMsg payload) = (op_fills payload = None)"
| "incremental m = True"

inductive streamed :: "terminal_state \<Rightarrow> bool" where
  start: "streamed initial_state"
| message: "streamed s \<Longrightarrow> incremental m \<Longrightarrow> streamed (on_socket_message now (Some (Typed m)) s)"
| dropped: "streamed s \<Longrightarrow> streamed (on_socket_message now None s)"
| backfill: "streamed s \<Longrightarrow> streamed (mergeProbHistory key points s)"
| select: "streamed s \<Longrightarrow> streamed (setActiveMarketKey k s)"

lemma tapes_ok_sub: "tapes_ok d \<Longrightarrow> (\<And>k. dict_get e k = None \<or> dict_get e k = dict_get d k) \<Longrightarrow> tapes_ok e"
  by (metis option.distinct(1) tapes_ok_def)

lemma fills_ok_sub: "fills_ok d \<Longrightarrow> (\<And>k. dict_get e k = None \<or> dict_get e k = dict_get d k) \<Longrightarrow> fills_ok e"
  unfolding fills_ok_def by (metis option.distinct(1))

lemma bounded_initial: "store_bounded initial_state"
proof -
  have e: "xs = []" if "dict_get (initRecord ([] :: 'a list)) a = Some xs" for a and xs :: "'a list"
    using map_of_SomeD [OF that] by (auto simp: initRecord_def)
  show ?thesis
    using e by (auto simp: store_bounded_def initial_state_def signals_ok_def tapes_ok_def fills_ok_def dest!: e)
qed

lemma merge_points_length: "length (merge_points ps) \<le> 4320"
  by (simp add: merge_points_def)

lemma seed_history_length:
  "(\<forall>k xs. dict_get acc k = Some xs \<longrightarrow> length xs \<le> 4320) \<Longrightarrow>
   dict_get (seed_history base m acc) k = Some xs \<Longrightarrow> length xs \<le> 4320"
  using merge_points_length
  by (auto simp: seed_history_def dict_get_set split: option.splits if_splits)

lemma seed_fold_length:
  "(\<forall>k xs. dict_get acc k = Some xs \<longrightarrow> length xs \<le> 4320) \<Longrightarrow>
   dict_get (fold (\<lambda>m acc. seed_history acc m acc) ms acc) k = Some xs \<Longrightarrow> length xs \<le> 4320"
proof (induction ms arbitrary: acc)
  case (Cons m ms)
  have "\<forall>k xs. dict_get (seed_history acc m acc) k = Some xs \<longrightarrow> length xs \<le> 4320"
    using seed_history_length [OF Cons.prems(1)] by blast
  from Cons.IH [OF this] Cons.prems(2) show ?case by simp
qed simp

lemma push_bar_length: "length prev \<le> 4500 \<Longrightarrow> length (push_bar_list bar prev) \<le> 4500"
  by (simp add: push_bar_list_def)

lemma bounded_setMarkets: "store_bounded s \<Longrightarrow> store_bounded (setMarkets ms live s)"
proof -
  assume b: "store_bounded s"
  have h: "\<forall>k xs. dict_get (wipe_rotated (ts_markets s) ms (ts_probHistory s)) k = Some xs \<longrightarrow> length xs \<le> 4320"
    using b by (auto simp: wipe_rotated_get store_bounded_def split: if_splits)
  have "tapes_ok (wipe_rotated (ts_markets s) ms (ts_polyTicks s))"
    by (rule tapes_ok_sub [of "ts_polyTicks s"]) (use b in \<open>auto simp: wipe_rotated_get store_bounded_def\<close>)
  moreover have "fills_ok (prune_fills ms (ts_fills s))"
    by (rule fills_ok_sub [of "ts_fills s"]) (use b in \<open>auto simp: prune_get store_bounded_def\<close>)
  ultimately show ?thesis
    using b seed_fold_length [OF h] by (simp add: store_bounded_def setMarkets_def Let_def)
qed

lemma bounded_pushSignal: "store_bounded s \<Longrightarrow> store_bounded (pushSignal sig s)"
proof -
  assume b: "store_bounded s"
  have "signals_ok (get_or (dict_get (ts_signals s) (sg_asset sig)) [])"
    using b by (cases "dict_get (ts_signals s) (sg_asset sig)") (auto simp: store_bounded_def signals_ok_def)
  then have "signals_ok (push_signal_list (normalize_signal sig) (get_or (dict_get (ts_signals s) (sg_asset sig)) []))"
    by (auto simp: signals_ok_def push_signal_list_def map_slice_last
      intro!: distinct_slice_last distinct_map_filter_snoc [simplified])
  moreover have "sg_asset (normalize_signal sig) = sg_asset sig" by (simp add: normalize_signal_def)
  ultimately show ?thesis using b by (simp add: store_bounded_def pushSignal_def Let_def dict_get_set)
qed

lemma bounded_tick: "store_bounded s \<Longrightarrow> store_bounded (pushPolyTick key tick s)"
  using push_tick_bounded [of s key tick] by (auto simp: store_bounded_def pushPolyTick_def Let_def)

lemma bounded_fill: "store_bounded s \<Longrightarrow> store_bounded (pushPolyFill key tick s)"
  using push_fill_bounded [of s key tick] by (auto simp: store_bounded_def pushPolyFill_def Let_def)

lemma bounded_setters:
  assumes "store_bounded s"
  shows "store_bounded (setBands a b s)" "store_bounded (setBook a ob s)" "store_bounded (setPositions p s)"
    "store_bounded (setMetrics m s)" "store_bounded (setZscore a z r s)" "store_bounded (setCopyStatus c s)"
    "store_bounded (setSettlements x s)"
  using assms by (simp_all add: setBands_def setBook_def setPositions_def setMetrics_def setZscore_def
    setCopyStatus_def setSettlements_def store_bounded_def)

lemma bounded_apply_typed:
  assumes "store_bounded s" and "incremental m" and "apply_typed now m s = Inr s'"
  shows "store_bounded s'"
proof (cases m)
  case (BarMsg asset bar)
  then obtain prev where "dict_get (ts_bars s) asset = Some prev"
    "s' = s\<lparr>ts_bars := dict_set asset (push_bar_list bar prev) (ts_bars s)\<rparr>"
    using assms(3) by (auto simp: pushBar_def split: option.splits)
  then show ?thesis using assms(1) push_bar_length by (simp add: store_bounded_def dict_get_set)
next
  case (TickMsg asset t)
  then show ?thesis
    using assms by (auto simp: pushTick_def store_bounded_def dict_get_set split: option.splits if_splits)
next
  case (PolyBookMsg key book)
  then show ?thesis using assms by (auto simp: setPolyBook_def store_bounded_def split: option.splits if_splits)
next
  case (OrderSnapshotMsg payload)
  then show ?thesis using assms by (auto simp: setSimTradingState_def store_bounded_def)
next
  case (ExecutionEventMsg ps risk)
  then show ?thesis
    using assms by (auto simp: setExecutionPositions_def setExecutionRisk_def store_bounded_def split: option.splits)
qed (use assms in \<open>auto simp: bounded_setters bounded_setMarkets bounded_pushSignal bounded_tick bounded_fill\<close>)

lemma bounded_merge: "store_bounded s \<Longrightarrow> store_bounded (mergeProbHistory key points s)"
  using merge_points_length by (simp add: store_bounded_def mergeProbHistory_def dict_get_set)

text \<open>C4. After any run of incremental messages, dropped frames, history backfills and selections from
  the initial store, every rolling list is within its bound: 4500 bars and 50 ticks per asset, 8
  signals one per model, 4320 history points, tapes of 200 prints without repeats in a row, and 100
  distinct fills per market.\<close>

theorem stream_keeps_bounds:
  assumes "streamed s"
  shows "store_bounded s"
  using assms
proof (induction rule: streamed.induct)
  case (message s m now)
  then show ?case
    using bounded_apply_typed [of s m now]
    by (auto simp: on_socket_message_def applyEngineMessage_def split: sum.splits)
next
  case (select s k)
  then show ?case by (auto simp: setActiveMarketKey_def store_bounded_def split: option.splits)
qed (simp_all add: bounded_initial on_socket_message_def bounded_merge)

lemma stream_keeps_bounds_witness:
  "store_bounded (on_socket_message (Fin 1) (Some (Typed (FillMsg ''ES'' (sample_tick 4)))) initial_state)"
  by (rule stream_keeps_bounds) (auto intro: streamed.intros)

subsection \<open>Connecting\<close>

text \<open>Connecting while a socket for the same asset and provider is connecting or open changes
  nothing; after connecting there is a live socket whose key is that of the store.\<close>

lemma connect_live:
  "enabled \<Longrightarrow> socket_live (connectLegacyBrowserStream enabled url s c)
     \<and> sc_key (connectLegacyBrowserStream enabled url s c) = stream_key s
     \<and> sc_installed (connectLegacyBrowserStream enabled url s c) = sc_installed c
     \<and> (socket_live c \<and> sc_key c = stream_key s \<longrightarrow> connectLegacyBrowserStream enabled url s c = c)"
  by (auto simp: connectLegacyBrowserStream_def socket_live_def clear_retry_def)

text \<open>What can happen to the connection while the store goes through its states.\<close>

inductive conn_reach :: "(terminal_state \<Rightarrow> string) \<Rightarrow> terminal_state \<Rightarrow> stream_conn \<Rightarrow> bool" for url where
  conn_start: "conn_reach url s stream_init"
| conn_install: "conn_reach url s c \<Longrightarrow> conn_reach url s (installEngineStream True url s c)"
| conn_change: "conn_reach url s c \<Longrightarrow> conn_reach url s' (on_store_change True url s' s c)"
| conn_open: "conn_reach url s c \<Longrightarrow> conn_reach url s (on_socket_open c)"
| conn_close: "conn_reach url s c \<Longrightarrow> conn_reach url s (on_socket_close current c)"
| conn_error: "conn_reach url s c \<Longrightarrow> conn_reach url s (on_socket_error c)"
| conn_retry: "conn_reach url s c \<Longrightarrow> conn_reach url s (on_retry_timer True url s t c)"
| conn_stop: "conn_reach url s c \<Longrightarrow> conn_reach url s (stopEngineStreamForTests c)"

definition conn_ok :: "terminal_state \<Rightarrow> stream_conn \<Rightarrow> bool" where
  "conn_ok s c \<longleftrightarrow> (sc_installed c \<longrightarrow> sc_key c = stream_key s
     \<and> (socket_live c \<or> sc_timers c \<noteq> [] \<or> sc_socket c = Some Closing))"

lemma conn_ok_connect: "conn_ok s (connectLegacyBrowserStream True url s c)"
  using connect_live [of True url s c] by (simp add: conn_ok_def)

lemma conn_ok_step:
  assumes "conn_ok s c"
  shows "conn_ok s (installEngineStream True url s c)" "conn_ok s (on_socket_open c)"
    "conn_ok s (on_socket_close current c)" "conn_ok s (on_socket_error c)" "conn_ok s (on_retry_timer True url s t c)"
    "conn_ok s (stopEngineStreamForTests c)" "conn_ok s' (on_store_change True url s' s c)"
proof -
  show "conn_ok s (installEngineStream True url s c)" "conn_ok s (on_retry_timer True url s t c)"
    using assms conn_ok_connect by (simp_all add: installEngineStream_def on_retry_timer_def)
  show "conn_ok s (on_socket_open c)" "conn_ok s (on_socket_close current c)" "conn_ok s (stopEngineStreamForTests c)"
    using assms by (auto simp: conn_ok_def on_socket_open_def on_socket_close_def stopEngineStreamForTests_def clear_retry_def socket_live_def)
  show "conn_ok s (on_socket_error c)"
    using assms by (cases "sc_socket c") (auto simp: conn_ok_def on_socket_error_def socket_live_def)
  show "conn_ok s' (on_store_change True url s' s c)"
    using assms conn_ok_connect by (auto simp: on_store_change_def conn_ok_def stream_key_def)
qed

lemma conn_reach_ok: "conn_reach url s c \<Longrightarrow> conn_ok s c"
  by (induction rule: conn_reach.induct) (simp_all add: conn_ok_step, simp add: conn_ok_def stream_init_def)

text \<open>C30. The stream recovers: whatever happened to its sockets and to the store before, an installed
  stream is tied to the asset and provider of the store, and it is live, or closing, or has a retry
  pending; once a closing socket has closed and a pending timer, whichever it is, has fired, it is live
  for the current asset and provider, with at most one socket more than before, and the further timers
  that are still pending, a further install or store update open none.\<close>

theorem stream_recovers:
  assumes "conn_reach url s c" and "sc_installed c"
    and "c' = (if sc_socket c = Some Closing then on_socket_close True c else c)"
    and "sc_timers c' = [] \<or> t \<in> set (sc_timers c')"
    and "c'' = on_retry_timer True url s t c'"
  shows "sc_key c = stream_key s \<and> (socket_live c \<or> sc_timers c \<noteq> [] \<or> sc_socket c = Some Closing)
    \<and> socket_live c'' \<and> sc_key c'' = stream_key s \<and> length (sc_opened c'') \<le> Suc (length (sc_opened c))
    \<and> connectLegacyBrowserStream True url s c'' = c''
    \<and> sc_opened (on_retry_timer True url s t' c'') = sc_opened c''"
proof -
  have ok: "sc_key c = stream_key s" "socket_live c \<or> sc_timers c \<noteq> [] \<or> sc_socket c = Some Closing"
    using conn_reach_ok [OF assms(1)] assms(2) by (auto simp: conn_ok_def)
  have key: "sc_key c' = stream_key s" "sc_opened c' = sc_opened c"
    using ok(1) by (simp_all add: assms(3) on_socket_close_def)
  have live: "socket_live c' \<or> sc_timers c' \<noteq> []"
    using ok(2) by (auto simp: assms(3) on_socket_close_def socket_live_def)
  have up: "socket_live c''" "sc_key c'' = stream_key s" "length (sc_opened c'') \<le> Suc (length (sc_opened c))"
    using live key assms(4) by (auto simp: assms(5) on_retry_timer_def connectLegacyBrowserStream_def clear_retry_def socket_live_def)
  then have "sc_opened (on_retry_timer True url s t' c'') = sc_opened c''"
    by (simp add: on_retry_timer_def connectLegacyBrowserStream_def socket_live_def)
  with ok up show ?thesis using connect_live [of True url s c''] by simp
qed

lemma stream_recovers_witness:
  "socket_live (on_retry_timer True (\<lambda>s. ''ws://h/ES'') initial_state 0 (on_socket_close True
     (on_socket_error (installEngineStream True (\<lambda>s. ''ws://h/ES'') initial_state stream_init))))"
proof -
  obtain c where c: "c = on_socket_error (installEngineStream True (\<lambda>s. ''ws://h/ES'') initial_state stream_init)" by simp
  have "conn_reach (\<lambda>s. ''ws://h/ES'') initial_state c" unfolding c by (intro conn_reach.intros)
  moreover have facts: "sc_installed c" "sc_socket c = Some Closing" "0 \<in> set (sc_timers (on_socket_close True c))"
    by (simp_all add: c on_socket_error_def on_socket_close_def installEngineStream_def connectLegacyBrowserStream_def clear_retry_def
        stream_init_def stream_key_def)
  moreover have "on_socket_close True c = (if sc_socket c = Some Closing then on_socket_close True c else c)"
    using facts(2) by (simp only: if_True refl)
  ultimately have "socket_live (on_retry_timer True (\<lambda>s. ''ws://h/ES'') initial_state 0 (on_socket_close True c))"
    using stream_recovers by blast
  then show ?thesis by (simp only: c)
qed

end
