(* ===== verification/BroadcastSync.thy ===== *)
theory BroadcastSync
  imports EngineStream
begin

text \<open>
  \<open>apps/terminal/src/hooks/useBroadcastSync.ts\<close>: the primary window posts the active asset,
  the active market and the provider when they change in its store; a panel window applies what it
  hears to its own store. The channel delivers in order. Main result: a user's selection reaches a
  panel that shows the same markets; the two theorems after it show selections that do not.
\<close>

datatype sync_msg = AssetMsg string | MarketMsg "string option" | ProviderMsg string

definition provider_values :: "string list" where
  "provider_values = [''cme'', ''polymarket'', ''kalshi'', ''forecasttrader'', ''hyperliquid'', ''coingecko'']"

definition isAsset :: "string \<Rightarrow> bool" where
  "isAsset value \<longleftrightarrow> value \<in> set assets"

definition isMarketProvider :: "string \<Rightarrow> bool" where
  "isMarketProvider value \<longleftrightarrow> value \<in> set provider_values"

text \<open>Whether this window is a panel, from the value of \<open>panel\<close> in its query.\<close>

definition isPanelWindow :: "string option \<Rightarrow> bool" where
  "isPanelWindow panel \<longleftrightarrow> panel \<noteq> None"

record sync_prev =
  sy_asset :: string
  sy_market :: "string option"
  sy_provider :: string

definition sync_init :: "terminal_state \<Rightarrow> sync_prev" where
  "sync_init s = \<lparr>sy_asset = ts_activeAsset s, sy_market = ts_activeMarketKey s, sy_provider = ts_marketProvider s\<rparr>"

text \<open>The subscription of the primary: what it posts for a state, and what it remembers.\<close>

definition sync_posts :: "sync_prev \<Rightarrow> terminal_state \<Rightarrow> sync_msg list" where
  "sync_posts prev state =
     (if ts_activeAsset state \<noteq> sy_asset prev then [AssetMsg (ts_activeAsset state)] else [])
     @ (if ts_activeMarketKey state \<noteq> sy_market prev then [MarketMsg (ts_activeMarketKey state)] else [])
     @ (if ts_marketProvider state \<noteq> sy_provider prev then [ProviderMsg (ts_marketProvider state)] else [])"

definition sync_remember :: "sync_prev \<Rightarrow> terminal_state \<Rightarrow> sync_prev" where
  "sync_remember prev state = sync_init state"

definition sync_apply :: "sync_msg \<Rightarrow> terminal_state \<Rightarrow> terminal_state" where
  "sync_apply msg s = (case msg of
     AssetMsg v \<Rightarrow> if isAsset v then setActiveAsset v s else s
   | MarketMsg v \<Rightarrow> setActiveMarketKey v s
   | ProviderMsg v \<Rightarrow> if isMarketProvider v then setMarketProvider v s else s)"

definition in_sync :: "terminal_state \<Rightarrow> terminal_state \<Rightarrow> bool" where
  "in_sync p q \<longleftrightarrow> ts_activeAsset p = ts_activeAsset q \<and> ts_activeMarketKey p = ts_activeMarketKey q
     \<and> ts_marketProvider p = ts_marketProvider q"

text \<open>One change of the primary's store, delivered to a panel.\<close>

definition deliver_change :: "terminal_state \<Rightarrow> terminal_state \<Rightarrow> terminal_state \<Rightarrow> terminal_state" where
  "deliver_change before after panel = fold sync_apply (sync_posts (sync_init before) after) panel"

lemma selection_fields:
  "ts_markets (setActiveAsset a s) = ts_markets s" "ts_marketProvider (setActiveAsset a s) = ts_marketProvider s"
  "ts_markets (setActiveMarketKey k s) = ts_markets s" "ts_marketProvider (setActiveMarketKey k s) = ts_marketProvider s"
  "ts_activeAsset (setActiveAsset a s) = a"
  by (auto simp: setActiveAsset_def setActiveMarketKey_def Let_def split: option.splits)

lemma active_asset_key:
  "ts_markets p = ts_markets q \<Longrightarrow> ts_activeMarketKey (setActiveAsset a p) = ts_activeMarketKey (setActiveAsset a q)"
  by (simp add: setActiveAsset_def Let_def)

lemma active_asset_known:
  assumes "distinct (map mk_key (ts_markets s))" and "ts_activeMarketKey (setActiveAsset a s) = Some k"
  shows "find (\<lambda>m. mk_key m = k) (ts_markets s) \<noteq> None
    \<and> mk_asset (the (find (\<lambda>m. mk_key m = k) (ts_markets s))) = a"
proof -
  from set_active_asset_selects_market [of a s] assms(2) obtain m where
    m: "m \<in> set (ts_markets s)" "mk_asset m = a" "mk_key m = k" by auto
  with find_unique_key [OF assms(1) m(1)] show ?thesis by simp
qed

text \<open>What a user selects in the primary window.\<close>

datatype user_pick = PickAsset string | PickMarket "string option" | PickProvider string

fun apply_pick :: "user_pick \<Rightarrow> terminal_state \<Rightarrow> terminal_state" where
  "apply_pick (PickAsset a) s = setActiveAsset a s"
| "apply_pick (PickMarket k) s = setActiveMarketKey k s"
| "apply_pick (PickProvider v) s = setMarketProvider v s"

text \<open>The picks the channel carries over: a known asset or provider, and a market that changes the
  selected key whenever it changes the asset.\<close>

definition pick_carried :: "terminal_state \<Rightarrow> user_pick \<Rightarrow> bool" where
  "pick_carried s p \<longleftrightarrow> isAsset (ts_activeAsset (apply_pick p s))
     \<and> isMarketProvider (ts_marketProvider (apply_pick p s))
     \<and> (case p of PickMarket k \<Rightarrow> ts_activeAsset (apply_pick p s) = ts_activeAsset s
            \<or> ts_activeMarketKey (apply_pick p s) \<noteq> ts_activeMarketKey s | _ \<Rightarrow> True)"

lemma set_key_again:
  "k \<noteq> Some [] \<Longrightarrow> ts_activeMarketKey (setActiveMarketKey k s) = k"
  by (auto simp: setActiveMarketKey_def split: option.splits)

lemma carried_asset:
  assumes "ts_markets p = ts_markets q" and "in_sync p q" and "distinct (map mk_key (ts_markets p))"
    and "\<forall>m\<in>set (ts_markets p). mk_key m \<noteq> []" and "isAsset a"
  shows "in_sync (setActiveAsset a p) (deliver_change p (setActiveAsset a p) q)"
proof -
  let ?p = "setActiveAsset a p" let ?k = "ts_activeMarketKey ?p"
  have ne: "?k \<noteq> Some []"
    using set_active_asset_selects_market [of a p] assms(4) by (auto split: option.splits)
  have asset: "ts_activeAsset (setActiveMarketKey ?k r) = a"
    if "ts_markets r = ts_markets p" "ts_activeAsset r = a" for r
  proof (cases ?k)
    case (Some k)
    from active_asset_known [OF assms(3) Some] Some ne that show ?thesis
      by (auto simp: setActiveMarketKey_def split: option.splits)
  qed (use that in \<open>simp add: setActiveMarketKey_def\<close>)
  show ?thesis
    using assms(1,2,5) ne asset [of q] asset [of "setActiveAsset a q"] active_asset_key [OF assms(1), of a]
    by (auto simp: deliver_change_def sync_posts_def sync_init_def sync_apply_def in_sync_def
        selection_fields set_key_again)
qed

lemma carried_market:
  assumes "ts_markets p = ts_markets q" and "in_sync p q" and "pick_carried p (PickMarket k)"
  shows "in_sync (setActiveMarketKey k p) (deliver_change p (setActiveMarketKey k p) q)"
proof -
  let ?p = "setActiveMarketKey k p"
  have found: "ts_activeMarketKey (setActiveMarketKey k r) = truthy_text k" for r
    by (auto simp: setActiveMarketKey_def truthy_text_def split: option.splits)
  have again: "setActiveMarketKey (truthy_text k) r = setActiveMarketKey k r" for r
    by (auto simp: setActiveMarketKey_def truthy_text_def split: option.splits)
  have asset: "ts_activeAsset (setActiveMarketKey k r) = ts_activeAsset ?p"
    if "ts_markets r = ts_markets p" "ts_activeAsset r = ts_activeAsset ?p \<or> ts_activeAsset r = ts_activeAsset p" for r
    using that by (auto simp: setActiveMarketKey_def split: option.splits)
  show ?thesis
    using assms found again asset [of q] asset [of "setActiveAsset (ts_activeAsset ?p) q"]
    by (auto simp: deliver_change_def sync_posts_def sync_init_def sync_apply_def in_sync_def
        selection_fields pick_carried_def)
qed

text \<open>A user's selection in the primary window reaches a panel that shows the same markets: when
  the two agreed on asset, market and provider, they agree again after the panel has applied what
  the primary posted, for every pick the channel carries.\<close>

theorem pick_reaches_panel:
  assumes "in_sync p q" and "ts_markets p = ts_markets q" and "distinct (map mk_key (ts_markets p))"
    and "\<forall>m\<in>set (ts_markets p). mk_key m \<noteq> []" and "pick_carried p pick"
  shows "in_sync (apply_pick pick p) (deliver_change p (apply_pick pick p) q)"
proof (cases pick)
  case (PickAsset a)
  then have "isAsset a" using assms(5) by (simp add: pick_carried_def selection_fields)
  from carried_asset [OF assms(2,1,3,4) this] PickAsset show ?thesis by simp
next
  case (PickMarket k)
  with carried_market [OF assms(2,1)] assms(5) show ?thesis by simp
next
  case (PickProvider v)
  then show ?thesis
    using assms(1,5) by (auto simp: pick_carried_def deliver_change_def sync_posts_def sync_init_def
      sync_apply_def in_sync_def setMarketProvider_def)
qed

definition two_markets :: terminal_state where
  "two_markets = initial_state\<lparr>ts_markets := [sample_market ''BTC_5min'' ''BTC'' ''5min'' ''a'' True,
     sample_market ''BTC_15min'' ''BTC'' ''15min'' ''b'' True]\<rparr>"

lemma pick_reaches_panel_witness:
  "in_sync (apply_pick (PickMarket (Some ''BTC_15min'')) two_markets)
     (deliver_change two_markets (apply_pick (PickMarket (Some ''BTC_15min'')) two_markets) two_markets)"
  by (rule pick_reaches_panel; code_simp)

text \<open>Two selections that do not reach the panel. A market update that repairs the selected key of
  the primary leaves its asset, and posts only the key, whose market then sets the asset of the
  panel. And picking the market that is already selected while another asset is active posts only
  the asset, for which the panel chooses its own preferred market.\<close>

theorem sync_diverges:
  "(let p = initial_state; p' = setMarkets [sample_market ''BTC_5min'' ''BTC'' ''5min'' ''a'' True] False p;
        panel = deliver_change p p' (setMarkets [sample_market ''BTC_5min'' ''BTC'' ''5min'' ''a'' True] False p)
    in ts_activeAsset p' = ''ES'' \<and> ts_activeAsset panel = ''BTC'')
   \<and> (let p = two_markets\<lparr>ts_activeMarketKey := Some ''BTC_15min''\<rparr>; p' = setActiveMarketKey (Some ''BTC_15min'') p;
        panel = deliver_change p p' p
    in ts_activeMarketKey p' = Some ''BTC_15min'' \<and> ts_activeMarketKey panel = Some ''BTC_5min'')"
  by code_simp

end
