(* ===== verification/WorkspaceSettings.thy ===== *)
theory WorkspaceSettings
  imports BroadcastSync
begin

text \<open>
  The stored settings of \<open>apps/terminal/src/components/WorkspaceCanvas.tsx\<close>: normalisers of the
  depth-ladder layout, of alert rules and of the algo manager's state, and their load and save over
  browser storage. A normaliser reads a value of any shape and gives a record; the \<open>_obj\<close>
  functions are the objects that are written, and \<open>now\<close> is the clock. Main results: what a
  normalised value always satisfies, and that what is saved is what is loaded.
\<close>

subsection \<open>Collections by key\<close>

text \<open>The values of a \<open>Map\<close> filled from a list: the last element of a key stands in the place of the
  first.\<close>

definition latest_by :: "('a \<Rightarrow> 'k) \<Rightarrow> 'a list \<Rightarrow> 'a list" where
  "latest_by key xs = map snd (fold (\<lambda>x. dict_set (key x) x) xs [])"

lemma keyed_set: "\<forall>e\<in>set d. fst e = key (snd e) \<Longrightarrow> \<forall>e\<in>set (dict_set (key x) x d). fst e = key (snd e)"
  by (induction "key x" x d rule: dict_set.induct) auto

lemma keyed_fold: "\<forall>e\<in>set d. fst e = key (snd e) \<Longrightarrow>
    \<forall>e\<in>set (fold (\<lambda>x. dict_set (key x) x) xs d). fst e = key (snd e)"
  by (induction xs arbitrary: d) (auto dest: keyed_set)

lemma keyed_fold_wf: "dict_wf d \<Longrightarrow> dict_wf (fold (\<lambda>x. dict_set (key x) x) xs d)"
  by (induction xs arbitrary: d) (auto simp: dict_wf_set)

lemma values_dict_set: "set (map snd (dict_set k v d)) \<subseteq> insert v (set (map snd d))"
  by (induction k v d rule: dict_set.induct) auto

lemma keyed_fold_subset: "set (map snd (fold (\<lambda>x. dict_set (key x) x) xs d)) \<subseteq> set xs \<union> set (map snd d)"
proof (induction xs arbitrary: d)
  case (Cons x xs)
  from Cons [of "dict_set (key x) x d"] values_dict_set [of "key x" x d] show ?case by auto
qed simp

lemma latest_by_distinct [js_dict, simp]: "distinct (map key (latest_by key xs))"
proof -
  obtain d where d: "d = fold (\<lambda>x. dict_set (key x) x) xs []" by simp
  have "map (\<lambda>e. key (snd e)) d = map fst d" using keyed_fold [of "[]" key xs] by (auto simp: d)
  moreover have "distinct (map fst d)" using keyed_fold_wf [of "[]" key xs] by (simp add: d dict_wf_def)
  ultimately have "distinct (map (\<lambda>e. key (snd e)) d)" by (rule forw_subst [where P = distinct])
  then show ?thesis by (simp add: latest_by_def comp_def flip: d)
qed

lemma latest_by_subset: "set (latest_by key xs) \<subseteq> set xs"
  using keyed_fold_subset [of key xs "[]"] by (simp add: latest_by_def)

lemma keyed_fold_new:
  "distinct (map fst d @ map key xs) \<Longrightarrow>
     fold (\<lambda>x. dict_set (key x) x) xs d = d @ map (\<lambda>x. (key x, x)) xs"
  by (induction xs arbitrary: d) (auto simp: dict_set_new)

lemma latest_by_id [js_dict]: "distinct (map key xs) \<Longrightarrow> latest_by key xs = xs"
  using keyed_fold_new [of "[]" key xs] by (simp add: latest_by_def comp_def)

text \<open>A list that stands for a map from keys to elements: what holds of every list the program keeps
  arranged (by a comparison, or as it is) and changes by replacing the element of a key.\<close>

definition by_key :: "('a \<Rightarrow> 'k) \<Rightarrow> 'a list \<Rightarrow> 'k \<Rightarrow> 'a option" where
  "by_key key xs = map_of (map (\<lambda>a. (key a, a)) xs)"

lemma by_key_Cons [simp]: "by_key key (x # xs) = (by_key key xs)(key x \<mapsto> x)"
  by (simp add: by_key_def)

lemma by_key_Nil [simp]: "by_key key [] = Map.empty"
  by (simp add: by_key_def)

lemma by_key_filter: "by_key key (filter (\<lambda>a. key a \<noteq> k) xs) = (by_key key xs)(k := None)"
  by (induction xs) auto

lemma by_key_map: "(\<And>a. key (f a) = key a) \<Longrightarrow>
    by_key key (map (\<lambda>a. if key a = k then f a else a) xs) = (by_key key xs)(k := map_option f (by_key key xs k))"
  by (induction xs) (auto simp: fun_eq_iff)

lemma by_key_in: "by_key key xs k = Some x \<Longrightarrow> x \<in> set xs \<and> key x = k"
  by (induction xs) (auto split: if_splits)

lemma by_key_mem: "distinct (map key xs) \<Longrightarrow> x \<in> set xs \<Longrightarrow> by_key key xs (key x) = Some x"
  by (induction xs) (auto simp: image_iff)

lemma by_key_append: "by_key key (xs @ ys) = by_key key ys ++ by_key key xs"
  by (simp add: by_key_def)

lemma by_key_snoc: "by_key key (xs @ [x]) = (\<lambda>k. case by_key key xs k of None \<Rightarrow> if k = key x then Some x else None | Some y \<Rightarrow> Some y)"
  by (auto simp: by_key_append fun_eq_iff map_add_def split: option.splits)

lemma keyed_fold_get:
  "map_of (fold (\<lambda>x. dict_set (key x) x) xs d) k = (case by_key key (rev xs) k of None \<Rightarrow> map_of d k | Some y \<Rightarrow> Some y)"
  by (induction xs arbitrary: d) (auto simp: by_key_snoc dict_get_set split: option.splits)

text \<open>The list of a \<open>Map\<close> is the map in which the last element of a key counts.\<close>

lemma latest_by_map: "by_key key (latest_by key xs) = by_key key (rev xs)"
proof
  fix k
  obtain d where d: "d = fold (\<lambda>x. dict_set (key x) x) xs []" by simp
  have "\<forall>e\<in>set d. fst e = key (snd e)" using keyed_fold [of "[]" key xs] by (simp add: d)
  then have "map (\<lambda>a. (key a, a)) (map snd d) = d" by (induction d) auto
  then have "by_key key (latest_by key xs) = map_of d" by (simp add: by_key_def latest_by_def flip: d)
  then show "by_key key (latest_by key xs) k = by_key key (rev xs) k"
    using keyed_fold_get [of key xs "[]" k] by (simp add: d split: option.splits)
qed

locale keyed_list =
  fixes key :: "'a \<Rightarrow> 'k" and arrange :: "'a list \<Rightarrow> 'a list"
  assumes mset_arrange: "mset (arrange xs) = mset xs"
begin

lemma arrange_set: "set (arrange xs) = set xs"
  using mset_arrange by (rule mset_eq_setD)

lemma arrange_distinct: "distinct (map key (arrange xs)) = distinct (map key xs)"
  by (rule mset_eq_imp_distinct_iff) (simp add: mset_arrange)

lemma arrange_map:
  assumes "distinct (map key xs)"
  shows "by_key key (arrange xs) = by_key key xs"
proof
  fix k
  have d: "distinct (map key (arrange xs))" using assms by (simp add: arrange_distinct)
  show "by_key key (arrange xs) k = by_key key xs k"
  proof (cases "by_key key xs k")
    case None
    show ?thesis
    proof (rule ccontr)
      assume "by_key key (arrange xs) k \<noteq> by_key key xs k"
      with None obtain y where "by_key key (arrange xs) k = Some y" by auto
      from by_key_in [OF this] have "y \<in> set xs" "key y = k" by (simp_all add: arrange_set)
      with by_key_mem [OF assms] None show False by auto
    qed
  next
    case (Some x)
    from by_key_in [OF this] have x: "x \<in> set (arrange xs)" "key x = k" by (simp_all add: arrange_set)
    from by_key_mem [OF d x(1)] x(2) Some show ?thesis by simp
  qed
qed

lemma upsert_distinct:
  "distinct (map key xs) \<Longrightarrow> distinct (map key (arrange (x # filter (\<lambda>y. key y \<noteq> key x) xs)))"
  by (auto simp: arrange_distinct distinct_map_filter)

lemma upsert_map:
  assumes "distinct (map key xs)"
  shows "by_key key (arrange (x # filter (\<lambda>y. key y \<noteq> key x) xs)) = (by_key key xs)(key x \<mapsto> x)"
proof -
  have "distinct (map key (x # filter (\<lambda>y. key y \<noteq> key x) xs))" using assms by (auto simp: distinct_map_filter)
  from arrange_map [OF this] show ?thesis by (simp add: by_key_filter)
qed

lemma remove_map:
  assumes "distinct (map key xs)"
  shows "by_key key (arrange (filter (\<lambda>y. key y \<noteq> k) xs)) = (by_key key xs)(k := None)"
proof -
  have "distinct (map key (filter (\<lambda>y. key y \<noteq> k) xs))" using assms by (simp add: distinct_map_filter)
  from arrange_map [OF this] show ?thesis by (simp add: by_key_filter)
qed

end

subsection \<open>Text and numbers for display\<close>

text \<open>The set of the names a product goes by.\<close>

record product_option =
  po_provider :: string
  po_symbol :: string
  po_label :: string
  po_subtitle :: string
  po_marketKey :: "string option"
  po_asset :: "string option"
  po_timeframe :: "string option"
  po_yes :: "jsnum option"
  po_no :: "jsnum option"
  po_truthYes :: "jsnum option"
  po_truthNo :: "jsnum option"
  po_spot :: "jsnum option"
  po_priceToBeat :: "jsnum option"
  po_expiryTs :: "jsnum option"
  po_volume :: "jsnum option"
  po_openInterest :: "jsnum option"
  po_lastUpdate :: "jsnum option"
  po_live :: "bool option"
  po_marketStatus :: "string option"
  po_marketStatusDetail :: "string option"
  po_tickSize :: "jsnum option"
  po_tickValue :: "jsnum option"

definition normalizeProviderKey :: "jsv \<Rightarrow> string" where
  "normalizeProviderKey provider = (case provider of
     Str p \<Rightarrow> if p \<noteq> [] \<and> list_ex (\<lambda>item. pd_key item = p) providers then p else ''cme''
   | _ \<Rightarrow> ''cme'')"

definition normalizeProductKey :: "jsv \<Rightarrow> string" where
  "normalizeProductKey value = to_upper (trim (to_str (coalesce value (Str []))))"

definition distinct_strings :: "string list \<Rightarrow> string list" where
  "distinct_strings xs = dedup_by (=) xs"

definition productAliasSet :: "product_option option \<Rightarrow> jsv \<Rightarrow> string list" where
  "productAliasSet option fallback =
     distinct_strings (filter (\<lambda>key. key \<noteq> [])
       (map normalizeProductKey
         [fallback,
          opt_str (Option.bind option po_marketKey),
          opt_str (map_option po_symbol option),
          opt_str (Option.bind option po_asset)]))"

text \<open>The object is a stored or typed definition read as a dictionary.\<close>

definition algoMarketCandidates :: "jobj \<Rightarrow> string list" where
  "algoMarketCandidates algo =
     dedup_by (=) (filter (\<lambda>c. c \<noteq> [])
       (map normalizeProductKey ([oget algo ''marketKey'', oget algo ''symbol''] @ as_list (oget algo ''instruments''))))"

definition displayNumber :: "jsv \<Rightarrow> jsnum \<Rightarrow> jsnum" where
  "displayNumber value fallback = (let parsed = to_num value in if is_finite parsed then parsed else fallback)"

definition finiteOptional :: "jsv \<Rightarrow> jsnum option" where
  "finiteOptional value = (let parsed = to_num value in if is_finite parsed then Some parsed else None)"

definition fmtNum :: "jsv \<Rightarrow> nat \<Rightarrow> string" where
  "fmtNum value digits = (case finiteOptional value of None \<Rightarrow> ''-'' | Some n \<Rightarrow> to_fixed digits n)"

definition fmtPct :: "jsv \<Rightarrow> string" where
  "fmtPct value = (case finiteOptional value of None \<Rightarrow> ''-''
     | Some n \<Rightarrow> to_fixed 1 (jmul n (Fin 100)) @ ''%'')"

text \<open>The locale's text of a currency amount and of an integer are parameters.\<close>

definition fmtMoney :: "(jsnum \<Rightarrow> string) \<Rightarrow> jsv \<Rightarrow> string" where
  "fmtMoney currency value = (case finiteOptional value of None \<Rightarrow> ''-''
     | Some n \<Rightarrow> (let formatted = currency (math_abs n) in
         if jlt n (Fin 0) then ''('' @ formatted @ '')'' else formatted))"

definition fmtInt :: "(jsnum \<Rightarrow> string) \<Rightarrow> jsv \<Rightarrow> string" where
  "fmtInt locale value = (case finiteOptional value of None \<Rightarrow> ''-'' | Some n \<Rightarrow> locale (math_round n))"

text \<open>Class names: the parts that are neither absent nor empty.\<close>

definition cx :: "string option list \<Rightarrow> string" where
  "cx parts = join_with '' '' (filter (\<lambda>p. p \<noteq> []) (map (\<lambda>p. get_or p []) parts))"

definition clamp :: "jsnum \<Rightarrow> jsnum \<Rightarrow> jsnum \<Rightarrow> jsnum" where
  "clamp n lo hi = math_max lo (math_min hi n)"

subsection \<open>Windows of the workspace\<close>

definition window_labels :: "string dict" where
  "window_labels = [
     (''marketData'', ''Market Data''), (''depthLadder'', ''Depth Ladder''), (''order'', ''Order Book''),
     (''fills'', ''Fills''), (''alerts'', ''Alert Manager''), (''charts'', ''Charts''),
     (''liquidityMap'', ''Liquidity Map''), (''algoBuilder'', ''Algo Builder''),
     (''algoManager'', ''Algo Manager''), (''serviceMap'', ''System Services''),
     (''depthTrader'', ''Depth Ladder''), (''depthTraderEsNq'', ''Depth Ladder - ES / NQ''),
     (''depthTraderYmEs'', ''Depth Ladder - YM / ES''), (''depthTraderRtyEs'', ''Depth Ladder - RTY / ES''),
     (''mdTraderEs'', ''Depth Ladder - ES''), (''goose'', ''GOOSE''), (''dailySummary'', ''Daily Summary''),
     (''streamingNews'', ''Streaming News''), (''liveApiArchitecture'', ''Live API Architecture''),
     (''tradeAnalytics'', ''Trade Analytics''), (''positionsOrders'', ''Positions & Orders''),
     (''auditTrail'', ''Audit Trail''), (''spreadConfigurations'', ''Spread Configurations''),
     (''spreadBuilder'', ''Spread Builder''), (''relativeSpreadCharts'', ''Relative Spread Charts''),
     (''relativeSpreadVisuals'', ''Relative Spread Visuals''),
     (''notionalCalculator'', ''Notional Calculator''), (''macroRegimeSummary'', ''Macro Regime Summary''),
     (''liveSpreadSignals'', ''Live Spread Signals''), (''atrZScoreEngine'', ''ATR and Z-Score Engine''),
     (''executionRules'', ''Execution Rules''),
     (''orderLayeringTechniques'', ''Order Layering Techniques''),
     (''moneyManagement'', ''Money Management''),
     (''crossSpreadOpportunityMap'', ''Cross-Spread Opportunity Map''),
     (''riskChecklist'', ''Risk Checklist''), (''sourceNotes'', ''Source Notes''),
     (''modelResearchGovernance'', ''Model Research & Governance'')]"

definition widget_menu :: "(string \<times> string list) list" where
  "widget_menu = [
     (''Cerious Core'', [''marketData'', ''depthLadder'', ''fills'', ''auditTrail'']),
     (''Research & Governance'', [''dailySummary'', ''goose'', ''modelResearchGovernance'']),
     (''Spread Signals'', [''spreadConfigurations'', ''spreadBuilder'', ''relativeSpreadCharts'',
        ''relativeSpreadVisuals'', ''liveSpreadSignals'', ''atrZScoreEngine'', ''crossSpreadOpportunityMap'']),
     (''Research & Risk'', [''macroRegimeSummary'', ''tradeAnalytics'', ''notionalCalculator'',
        ''executionRules'', ''orderLayeringTechniques'', ''moneyManagement'', ''riskChecklist'', ''sourceNotes'']),
     (''News'', [''streamingNews'']),
     (''Trading'', [''order'', ''alerts'']),
     (''Algos'', [''algoBuilder'', ''algoManager'']),
     (''Charts'', [''charts'']),
     (''System'', [''liveApiArchitecture'', ''serviceMap''])]"

text \<open>The patterns of the source are case-insensitive; each is a text that the key is, or begins with.\<close>

datatype kind_pattern = Whole string | Prefix string

definition removed_window_patterns :: "kind_pattern list" where
  "removed_window_patterns = [
     Whole ''fixMonitor'', Whole ''ladder'', Whole ''cryptoTerminal'', Whole ''eventTerminal'',
     Whole ''sportsTerminal'', Prefix ''tradingView'', Whole ''singlePanelChart'',
     Whole ''ceriousTwoPanelChart'', Whole ''ceriousThreePanelChart'', Whole ''predictionChart'',
     Whole ''productLibrary'', Whole ''spreadEsNq'', Whole ''spreadYmEs'', Whole ''spreadRtyEs'',
     Prefix ''ptb'', Whole ''greeks'', Whole ''theoQuoter'', Whole ''liquidityMap'',
     Whole ''positionsOrders'', Whole ''knowledge'']"

fun pattern_test :: "kind_pattern \<Rightarrow> string \<Rightarrow> bool" where
  "pattern_test (Whole p) key = (to_lower key = to_lower p)"
| "pattern_test (Prefix p) key = starts_with (to_lower p) (to_lower key)"

definition isRemovedWindowKind :: "jsv \<Rightarrow> bool" where
  "isRemovedWindowKind kind = (let key = to_str (coalesce kind (Str [])) in
     list_ex (\<lambda>pattern. pattern_test pattern key) removed_window_patterns)"

definition provider_colors :: "string dict" where
  "provider_colors = [(''cme'', ''#00d4a4''), (''polymarket'', ''#00d4a4''), (''kalshi'', ''#7dd3fc''),
     (''hyperliquid'', ''#a78bfa''), (''forecasttrader'', ''#f472b6'')]"

definition venueColor :: "string \<Rightarrow> string option" where
  "venueColor provider =
     (if provider = ''execution'' then Some ''#f6c343''
      else if provider = ''sim'' then Some ''#74ff8d''
      else dict_get provider_colors provider)"

record workspace_window =
  ww_id :: string
  ww_kind :: string
  ww_title :: string
  ww_x :: jsnum
  ww_y :: jsnum
  ww_w :: jsnum
  ww_h :: jsnum
  ww_z :: jsnum
  ww_collapsed :: bool
  ww_template :: "string option"

definition win :: "string \<Rightarrow> int \<Rightarrow> int \<Rightarrow> int \<Rightarrow> int \<Rightarrow> int \<Rightarrow> workspace_window" where
  "win kind x y w h z =
     \<lparr>ww_id = kind @ ''-'' @ int_text z, ww_kind = kind, ww_title = get_or (dict_get window_labels kind) [],
      ww_x = num_of_int x, ww_y = num_of_int y, ww_w = num_of_int w, ww_h = num_of_int h,
      ww_z = num_of_int z, ww_collapsed = False, ww_template = None\<rparr>"

definition defaultWindows :: "workspace_window list" where
  "defaultWindows =
     [win ''marketData'' 16 58 560 315 1,
      win ''charts'' 588 58 620 430 2,
      win ''depthLadder'' 1220 58 600 655 3,
      win ''order'' 16 386 370 430 4,
      win ''fills'' 398 500 390 310 5,
      win ''alerts'' 800 500 400 310 6,
      win ''serviceMap'' 398 1134 520 260 12,
      win ''algoManager'' 930 1134 430 300 13,
      win ''spreadConfigurations'' 1372 1134 448 300 14]"

definition defaultSymbolForWindowKind :: "string \<Rightarrow> string \<Rightarrow> string" where
  "defaultSymbolForWindowKind kind fallback =
     (if kind = ''depthLadder'' then []
      else if kind = ''charts'' then ''ES_NQ''
      else if kind = ''depthTraderEsNq'' then ''ES_NQ''
      else if kind = ''depthTraderYmEs'' then ''YM_ES''
      else if kind = ''depthTraderRtyEs'' then ''RTY_ES''
      else if kind = ''mdTraderEs'' then ''ES''
      else fallback)"

end
