(* ===== verification/CanvasSettings.thy ===== *)
theory CanvasSettings
  imports WorkspaceSettings
begin

text \<open>
  The settings of \<open>WorkspaceCanvas.tsx\<close> that outlive a session: the layout of the depth ladder,
  the alert rules and the state of the algo manager. A normaliser reads a value of any shape and
  gives a record; the \<open>_obj\<close> functions are the objects that are written, \<open>now\<close> is the clock, which
  stands still during one operation. Main results: what every normalised value satisfies, and that
  what is saved is what is loaded.
\<close>

subsection \<open>Depth ladder\<close>

datatype depth_column = OrdersColumn | BidColumn | PriceColumn | AskColumn

fun column_text :: "depth_column \<Rightarrow> string" where
  "column_text OrdersColumn = ''orders''"
| "column_text BidColumn = ''bid''"
| "column_text PriceColumn = ''price''"
| "column_text AskColumn = ''ask''"

definition valid_columns :: "depth_column list" where
  "valid_columns = [OrdersColumn, BidColumn, PriceColumn, AskColumn]"

definition column_of :: "jsv \<Rightarrow> depth_column option" where
  "column_of v = find (\<lambda>c. is_lit v (column_text c)) valid_columns"

record depth_ladder_settings =
  dl_columnOrder :: "depth_column list"
  dl_columnWidths :: "(depth_column \<times> jsnum) list"
  dl_density :: jsv
  dl_priceMultiplier :: jsnum
  dl_softGrid :: bool
  dl_actionMode :: string
  dl_fastTrade :: bool

definition depth_price_multipliers :: "jsnum list" where
  "depth_price_multipliers = [Fin 1, Fin 2, Fin 4, Fin 5, Fin 8, Fin 10, Fin 16]"

definition default_depth_settings :: depth_ladder_settings where
  "default_depth_settings = \<lparr>dl_columnOrder = [OrdersColumn, BidColumn, PriceColumn, AskColumn],
     dl_columnWidths = [(OrdersColumn, Fin 72), (BidColumn, Fin 112), (PriceColumn, Fin 96), (AskColumn, Fin 112)],
     dl_density = Str ''medium'', dl_priceMultiplier = Fin 1, dl_softGrid = True,
     dl_actionMode = ''limit'', dl_fastTrade = False\<rparr>"

definition default_width :: "depth_column \<Rightarrow> jsnum" where
  "default_width c = get_or (map_of (dl_columnWidths default_depth_settings) c) NaN"

definition bool_or :: "jsv \<Rightarrow> bool \<Rightarrow> bool" where
  "bool_or v b = (case v of Bool x \<Rightarrow> x | _ \<Rightarrow> b)"

definition depth_widths :: "jsv \<Rightarrow> (depth_column \<times> jsnum) list" where
  "depth_widths widths = map (\<lambda>c. (c, let rawWidth = to_num (jget widths (column_text c)) in
       if is_finite rawWidth then clamp rawWidth (Fin 48) (Fin 260) else default_width c)) valid_columns"

definition depth_column_order :: "jsv \<Rightarrow> depth_column list" where
  "depth_column_order rawOrder =
     dedup_by (=) ((case rawOrder of Arr xs \<Rightarrow> List.map_filter column_of xs
        | _ \<Rightarrow> dl_columnOrder default_depth_settings) @ valid_columns)"

definition normalizeDepthLadderSettings :: "jsv \<Rightarrow> depth_ladder_settings" where
  "normalizeDepthLadderSettings raw = (let source = as_obj raw; rawMultiplier = to_num (oget source ''priceMultiplier'') in
     \<lparr>dl_columnOrder = depth_column_order (oget source ''columnOrder''),
      dl_columnWidths = depth_widths (oget source ''columnWidths''),
      dl_density = (if to_str (oget source ''density'') \<in> set [''small'', ''medium'', ''large'']
        then oget source ''density'' else dl_density default_depth_settings),
      dl_priceMultiplier = (if list_ex (jeq rawMultiplier) depth_price_multipliers
        then rawMultiplier else dl_priceMultiplier default_depth_settings),
      dl_softGrid = bool_or (oget source ''softGrid'') (dl_softGrid default_depth_settings),
      dl_actionMode = (if is_lit (oget source ''actionMode'') ''market'' then ''market'' else ''limit''),
      dl_fastTrade = bool_or (oget source ''fastTrade'') (dl_fastTrade default_depth_settings)\<rparr>)"

definition depth_settings_obj :: "depth_ladder_settings \<Rightarrow> jsv" where
  "depth_settings_obj s = Obj
     [(''columnOrder'', Arr (map (\<lambda>c. Str (column_text c)) (dl_columnOrder s))),
      (''columnWidths'', Obj (map (\<lambda>(c, w). (column_text c, Num w)) (dl_columnWidths s))),
      (''density'', dl_density s),
      (''priceMultiplier'', Num (dl_priceMultiplier s)),
      (''softGrid'', Bool (dl_softGrid s)),
      (''actionMode'', Str (dl_actionMode s)),
      (''fastTrade'', Bool (dl_fastTrade s))]"

definition depth_ladder_layout_key :: string where
  "depth_ladder_layout_key = ''cerious.depth-ladder.layout.v1''"

definition loadDepthLadderDefaultSettings :: "storage \<Rightarrow> depth_ladder_settings" where
  "loadDepthLadderDefaultSettings st = (case get_item st depth_ladder_layout_key of
     Absent \<Rightarrow> normalizeDepthLadderSettings Undefined
   | Malformed \<Rightarrow> default_depth_settings
   | Json v \<Rightarrow> normalizeDepthLadderSettings v)"

definition saveDepthLadderDefaultSettings ::
    "depth_ladder_settings \<Rightarrow> storage \<Rightarrow> depth_ladder_settings \<times> storage" where
  "saveDepthLadderDefaultSettings settings st =
     (let normalized = normalizeDepthLadderSettings (depth_settings_obj settings) in
      (normalized, set_json depth_ladder_layout_key (depth_settings_obj normalized) st))"

text \<open>What a normalised layout satisfies.\<close>

definition depth_settings_ok :: "depth_ladder_settings \<Rightarrow> bool" where
  "depth_settings_ok s \<longleftrightarrow> distinct (dl_columnOrder s) \<and> set (dl_columnOrder s) = set valid_columns
     \<and> map fst (dl_columnWidths s) = valid_columns
     \<and> (\<forall>(c, w)\<in>set (dl_columnWidths s). is_finite w \<and> 48 \<le> val w \<and> val w \<le> 260)
     \<and> to_str (dl_density s) \<in> set [''small'', ''medium'', ''large'']
     \<and> dl_priceMultiplier s \<in> set depth_price_multipliers
     \<and> dl_actionMode s \<in> set [''limit'', ''market'']"

lemma distinct_dedup [js_array, simp]: "distinct (dedup_by (=) xs)"
  using dedup_by_distinct_key [of xs "\<lambda>x. x" "(=)"] by simp

lemma set_dedup [js_array, simp]: "set (dedup_by (=) xs) = set xs"
proof
  show "set (dedup_by (=) xs) \<subseteq> set xs" by (rule set_dedup_by_subset)
  show "set xs \<subseteq> set (dedup_by (=) xs)"
  proof
    fix x assume "x \<in> set xs"
    then obtain i where i: "find_index (\<lambda>y. y = x) xs = Some i"
      by (cases "find_index (\<lambda>y. y = x) xs") (auto simp: find_index_None_iff)
    then have "i < length xs" "xs ! i = x" "\<forall>j<i. xs ! j \<noteq> x" by (auto simp: find_index_Some_iff)
    then show "x \<in> set (dedup_by (=) xs)" using dedup_by_first [of i xs "(=)"] by auto
  qed
qed

lemma dedup_distinct [js_array]: "distinct xs \<Longrightarrow> dedup_by (=) xs = xs"
  using dedup_by_id [of xs "(=)" "\<lambda>x. x"] by simp

lemma dedup_append_known [js_array]:
  assumes "distinct xs" and "set ys \<subseteq> set xs"
  shows "dedup_by (=) (xs @ ys) = xs"
proof -
  have known: "find_index (\<lambda>x. x = (xs @ ys) ! i) (xs @ ys) = Some i \<longleftrightarrow> i < length xs"
    if "i < length (xs @ ys)" for i
  proof
    assume i: "i < length xs"
    then have "j < i \<Longrightarrow> xs ! j \<noteq> xs ! i" for j using assms(1) by (simp add: nth_eq_iff_index_eq)
    with i show "find_index (\<lambda>x. x = (xs @ ys) ! i) (xs @ ys) = Some i"
      by (auto simp: find_index_Some_iff nth_append)
  next
    assume f: "find_index (\<lambda>x. x = (xs @ ys) ! i) (xs @ ys) = Some i"
    show "i < length xs"
    proof (rule ccontr)
      assume "\<not> i < length xs"
      with that have "(xs @ ys) ! i \<in> set ys" by (auto simp: nth_append)
      with assms(2) obtain j where "j < length xs" "xs ! j = (xs @ ys) ! i" by (metis in_set_conv_nth subsetD)
      then have "j < i" "(xs @ ys) ! j = (xs @ ys) ! i" using \<open>\<not> i < length xs\<close> by (simp_all add: nth_append)
      with f show False by (auto simp: find_index_Some_iff)
    qed
  qed
  have "filter (\<lambda>i. find_index (\<lambda>x. x = (xs @ ys) ! i) (xs @ ys) = Some i) [0..<length (xs @ ys)] =
      filter (\<lambda>i. i < length xs) [0..<length (xs @ ys)]"
    by (rule filter_cong) (auto simp: known)
  also have "\<dots> = [0..<length xs]"
    by (simp add: upt_add_eq_append [of 0 "length xs" "length ys"] del: upt_add_eq_append) 
  finally have "dedup_by (=) (xs @ ys) = map ((!) (xs @ ys)) [0..<length xs]"
    unfolding dedup_by_filter_nth by (rule arg_cong)
  also have "\<dots> = xs" by (rule nth_equalityI) (auto simp: nth_append)
  finally show ?thesis .
qed

lemma clamp_range [js_num]:
  assumes "is_finite n" and "is_finite lo" "is_finite hi" "val lo \<le> val hi"
  shows "is_finite (clamp n lo hi) \<and> val lo \<le> val (clamp n lo hi) \<and> val (clamp n lo hi) \<le> val hi"
  using assms by (auto simp: clamp_def math_max_finite math_min_finite)

lemma default_width_ok: "is_finite (default_width c) \<and> 48 \<le> val (default_width c) \<and> val (default_width c) \<le> 260"
  by (cases c) (simp_all add: default_width_def default_depth_settings_def)

lemma multiplier_in:
  assumes "list_ex (jeq n) depth_price_multipliers"
  shows "n \<in> set depth_price_multipliers"
  using assms by (cases n) (auto simp: depth_price_multipliers_def jeq_def)

lemma column_of_text [simp]: "column_of (Str (column_text c)) = Some c"
  by (cases c) (simp_all add: column_of_def valid_columns_def is_lit_def)

lemma all_columns: "c \<in> set valid_columns"
  by (cases c) (simp_all add: valid_columns_def)

lemma depth_column_order_ok: "distinct (depth_column_order v)" "set (depth_column_order v) = set valid_columns"
  using all_columns by (auto simp: depth_column_order_def)

lemma depth_widths_ok:
  "map fst (depth_widths v) = valid_columns"
  "(c, w) \<in> set (depth_widths v) \<Longrightarrow> is_finite w \<and> 48 \<le> val w \<and> val w \<le> 260"
  using clamp_range [of _ "Fin 48" "Fin 260"] default_width_ok
  by (auto simp: depth_widths_def Let_def comp_def split: if_splits)

lemma normalized_depth_ok: "depth_settings_ok (normalizeDepthLadderSettings v)"
  using depth_column_order_ok depth_widths_ok multiplier_in
  by (auto simp: depth_settings_ok_def normalizeDepthLadderSettings_def Let_def
      default_depth_settings_def depth_price_multipliers_def)

text \<open>Reading back the object of a settled layout.\<close>

lemma map_filter_columns: "List.map_filter column_of (map (\<lambda>c. Str (column_text c)) cs) = cs"
  by (induction cs) (simp_all add: List.map_filter_simps)

lemma clamp_id:
  assumes "is_finite w" and "val (Fin 48) \<le> val w" "val w \<le> val (Fin 260)"
  shows "clamp w (Fin 48) (Fin 260) = w"
  using assms by (cases w) (auto simp: clamp_def math_max_def math_min_def jlt_def)

lemma positive_no_sign: "is_finite w \<Longrightarrow> 0 < val w \<Longrightarrow> drop_sign w = w"
  by (cases w) (auto simp: drop_sign_def)

lemma four_widths:
  assumes "map fst ws = valid_columns"
  obtains a b c d where "ws = [(OrdersColumn, a), (BidColumn, b), (PriceColumn, c), (AskColumn, d)]"
  using assms by (auto simp: valid_columns_def Cons_eq_map_conv)

lemma depth_widths_back:
  assumes "map fst ws = valid_columns" and "\<forall>(c, w)\<in>set ws. is_finite w \<and> 48 \<le> val w \<and> val w \<le> 260"
  shows "depth_widths (json_norm (Obj (map (\<lambda>(c, w). (column_text c, Num w)) ws))) = ws"
proof -
  obtain a b c d where ws: "ws = [(OrdersColumn, a), (BidColumn, b), (PriceColumn, c), (AskColumn, d)]"
    using four_widths [OF assms(1)] by blast
  have "is_finite w \<Longrightarrow> 48 \<le> val w \<Longrightarrow> val w \<le> 260 \<Longrightarrow> clamp (drop_sign w) (Fin 48) (Fin 260) = w" for w
    using clamp_id [of w] positive_no_sign [of w] by simp
  with assms(2) show ?thesis by (simp add: ws depth_widths_def valid_columns_def jget_def)
qed

lemma multiplier_back:
  assumes "n \<in> set depth_price_multipliers"
  shows "is_finite n \<and> drop_sign n = n \<and> list_ex (jeq n) depth_price_multipliers"
  using assms by (auto simp: depth_price_multipliers_def drop_sign_def jeq_def)

lemma depth_settings_back:
  assumes "depth_settings_ok s" and "is_str (dl_density s)"
  shows "normalizeDepthLadderSettings (json_norm (depth_settings_obj s)) = s"
proof -
  obtain t where t: "dl_density s = Str t" using assms(2) by (auto simp: is_str_def split: jsv.splits)
  have cols: "depth_column_order (json_norm (Arr (map (\<lambda>c. Str (column_text c)) (dl_columnOrder s)))) = dl_columnOrder s"
  proof -
    have "depth_column_order (Arr (map (\<lambda>c. Str (column_text c)) (dl_columnOrder s))) =
        dedup_by (=) (dl_columnOrder s @ valid_columns)"
      by (simp add: depth_column_order_def map_filter_columns)
    moreover have "dedup_by (=) (dl_columnOrder s @ valid_columns) = dl_columnOrder s"
      using assms(1) by (intro dedup_append_known) (auto simp: depth_settings_ok_def)
    ultimately show ?thesis by (simp add: comp_def)
  qed
  have widths: "depth_widths (json_norm (Obj (map (\<lambda>(c, w). (column_text c, Num w)) (dl_columnWidths s)))) =
      dl_columnWidths s"
    using assms(1) by (intro depth_widths_back) (auto simp: depth_settings_ok_def)
  have mult: "is_finite (dl_priceMultiplier s)" "drop_sign (dl_priceMultiplier s) = dl_priceMultiplier s"
      "list_ex (jeq (dl_priceMultiplier s)) depth_price_multipliers"
    using assms(1) multiplier_back by (auto simp: depth_settings_ok_def)
  have "dl_actionMode s = ''limit'' \<or> dl_actionMode s = ''market''" "t \<in> set [''small'', ''medium'', ''large'']"
    using assms(1) t by (auto simp: depth_settings_ok_def)
  then show ?thesis
    using cols widths mult
    by (intro depth_ladder_settings.equality)
      (auto simp: normalizeDepthLadderSettings_def depth_settings_obj_def as_obj_def t bool_or_def is_lit_def)
qed

text \<open>The layout of the depth ladder is always well-formed: whatever is stored, loading gives the
  four columns in some order without repetition, a width between 48 and 260 for each, a listed price
  multiplier and a known density and action mode. Saving a layout whose density is a text stores what
  the next load gives back.\<close>

theorem depth_settings_saved:
  assumes "is_str (dl_density s)"
  shows "depth_settings_ok (loadDepthLadderDefaultSettings st)
    \<and> loadDepthLadderDefaultSettings (snd (saveDepthLadderDefaultSettings s st)) =
        fst (saveDepthLadderDefaultSettings s st)
    \<and> depth_settings_ok (fst (saveDepthLadderDefaultSettings s st))"
proof -
  have dflt: "depth_settings_ok default_depth_settings"
    by (simp add: depth_settings_ok_def default_depth_settings_def valid_columns_def depth_price_multipliers_def)
  have "is_str (dl_density (normalizeDepthLadderSettings (depth_settings_obj s)))"
    using assms by (auto simp: normalizeDepthLadderSettings_def depth_settings_obj_def as_obj_def
        default_depth_settings_def is_str_def Let_def)
  with normalized_depth_ok show ?thesis
    by (auto simp: loadDepthLadderDefaultSettings_def saveDepthLadderDefaultSettings_def Let_def dflt
        depth_settings_back split: cell.splits)
qed

lemma depth_settings_saved_witness:
  "depth_settings_ok (loadDepthLadderDefaultSettings [])
   \<and> loadDepthLadderDefaultSettings (snd (saveDepthLadderDefaultSettings default_depth_settings [])) =
       fst (saveDepthLadderDefaultSettings default_depth_settings [])
   \<and> depth_settings_ok (fst (saveDepthLadderDefaultSettings default_depth_settings []))"
  by (rule depth_settings_saved) (simp add: default_depth_settings_def is_str_def)

subsection \<open>Alert rules\<close>

definition alert_fields :: "string list" where
  "alert_fields = [''last'', ''fill'']"

definition alert_ops :: "string list" where
  "alert_ops = [''>'', ''<'', ''>='', ''<='']"

definition alert_value_modes :: "string list" where
  "alert_value_modes = [''money'', ''percent'', ''cents'', ''price'']"

definition alert_sounds :: "string list" where
  "alert_sounds = [''system-chime'', ''system-bell'', ''system-alarm'']"

record alert_rule =
  ar_id :: string
  ar_symbol :: jsv
  ar_provider :: string
  ar_productSymbol :: "string option"
  ar_field :: string
  ar_op :: string
  ar_value :: jsnum
  ar_valueMode :: "string option"
  ar_enabled :: bool
  ar_audio :: bool
  ar_desktop :: bool
  ar_sms :: bool
  ar_sound :: string
  ar_phone :: "string option"

text \<open>The text of a value that is one of a list of literals, and of a value that is a text.\<close>

definition text_in :: "string list \<Rightarrow> jsv \<Rightarrow> string option" where
  "text_in xs v = (case v of Str s \<Rightarrow> if s \<in> set xs then Some s else None | _ \<Rightarrow> None)"

definition text_of :: "jsv \<Rightarrow> string option" where
  "text_of v = (case v of Str s \<Rightarrow> Some s | _ \<Rightarrow> None)"

text \<open>An array is an object without the properties that are read.\<close>

definition object_like :: "jsv \<Rightarrow> bool" where
  "object_like v \<longleftrightarrow> is_object v \<or> is_array v"

definition normalizeAlertRule :: "jsnum \<Rightarrow> jsv \<Rightarrow> nat \<Rightarrow> alert_rule option" where
  "normalizeAlertRule now raw index = (if \<not> object_like raw then None
     else let source = as_obj raw; rawDelivery = as_obj (oget source ''delivery'') in Some
       \<lparr>ar_id = to_str (js_or (oget source ''id'')
           (Str (''alert-'' @ num_text now @ ''-'' @ int_text (int index)))),
        ar_symbol = oget source ''symbol'',
        ar_provider = normalizeProviderKey (oget source ''provider''),
        ar_productSymbol = text_of (oget source ''productSymbol''),
        ar_field = get_or (text_in alert_fields (oget source ''field'')) ''last'',
        ar_op = get_or (text_in alert_ops (oget source ''op'')) ''>='',
        ar_value = displayNumber (oget source ''value'') (Fin 0),
        ar_valueMode = text_in alert_value_modes (oget source ''valueMode''),
        ar_enabled = (oget source ''enabled'' \<noteq> Bool False),
        ar_audio = (oget rawDelivery ''audio'' \<noteq> Bool False),
        ar_desktop = (oget rawDelivery ''desktop'' = Bool True),
        ar_sms = (oget rawDelivery ''sms'' = Bool True),
        ar_sound = get_or (text_in alert_sounds (oget rawDelivery ''sound'')) ''system-chime'',
        ar_phone = text_of (oget rawDelivery ''phone'')\<rparr>)"

definition alert_rule_obj :: "alert_rule \<Rightarrow> jsv" where
  "alert_rule_obj r = Obj
     [(''id'', Str (ar_id r)), (''symbol'', ar_symbol r), (''provider'', Str (ar_provider r)),
      (''productSymbol'', opt_str (ar_productSymbol r)), (''field'', Str (ar_field r)),
      (''op'', Str (ar_op r)), (''value'', Num (ar_value r)), (''valueMode'', opt_str (ar_valueMode r)),
      (''enabled'', Bool (ar_enabled r)),
      (''delivery'', Obj [(''audio'', Bool (ar_audio r)), (''desktop'', Bool (ar_desktop r)),
         (''sms'', Bool (ar_sms r)), (''sound'', Str (ar_sound r)), (''phone'', opt_str (ar_phone r))])]"

text \<open>What a normalised rule satisfies, whatever was stored.\<close>

definition alert_rule_ok :: "alert_rule \<Rightarrow> bool" where
  "alert_rule_ok r \<longleftrightarrow> ar_field r \<in> set alert_fields \<and> ar_op r \<in> set alert_ops
     \<and> is_finite (ar_value r) \<and> ar_sound r \<in> set alert_sounds \<and> ar_provider r = ''cme''
     \<and> (case ar_valueMode r of None \<Rightarrow> True | Some m \<Rightarrow> m \<in> set alert_value_modes)"

lemma text_in_set: "text_in xs v = Some s \<Longrightarrow> s \<in> set xs"
  by (auto simp: text_in_def split: jsv.splits if_splits)

lemma text_in_or: "d \<in> set xs \<Longrightarrow> get_or (text_in xs v) d \<in> set xs"
  using text_in_set by (cases "text_in xs v") auto

lemma provider_always: "normalizeProviderKey v = ''cme''"
  by (cases v) (auto simp: normalizeProviderKey_def providers_def)

lemma displayNumber_finite: "is_finite d \<Longrightarrow> is_finite (displayNumber v d)"
  by (simp add: displayNumber_def Let_def)

lemma alert_defaults [simp]: "''last'' \<in> set alert_fields" "''>='' \<in> set alert_ops"
    "''system-chime'' \<in> set alert_sounds"
  by (simp_all add: alert_fields_def alert_ops_def alert_sounds_def)

lemma normalized_alert_ok: "normalizeAlertRule now raw index = Some r \<Longrightarrow> alert_rule_ok r"
  using text_in_set [of alert_value_modes]
  by (auto simp: normalizeAlertRule_def alert_rule_ok_def Let_def provider_always displayNumber_finite
      text_in_or split: if_splits option.splits)

lemma text_in_member: "s \<in> set xs \<Longrightarrow> text_in xs (Str s) = Some s"
  by (simp add: text_in_def)

lemma text_of_opt [simp]: "text_of (opt_str x) = x" "text_of (Str s) = Some s" "text_of Undefined = None"
  by (simp_all add: text_of_def opt_str_def split: option.splits)

lemma opt_str_simps [simp]: "opt_str None = Undefined" "opt_str (Some s) = Str s"
  by (simp_all add: opt_str_def)

lemma alert_rule_back:
  assumes "alert_rule_ok r" and "ar_id r \<noteq> []" "ar_value r \<noteq> NegZero"
    "json_norm (ar_symbol r) = ar_symbol r \<or> ar_symbol r = Undefined"
  shows "normalizeAlertRule now (json_norm (alert_rule_obj r)) index = Some r"
proof -
  have v: "is_finite (ar_value r)" "drop_sign (ar_value r) = ar_value r"
    using assms(1,3) by (cases "ar_value r"; simp add: alert_rule_ok_def drop_sign_def)+
  have m: "\<And>m. ar_valueMode r = Some m \<Longrightarrow> text_in alert_value_modes (Str m) = Some m"
    using assms(1) by (auto simp: alert_rule_ok_def text_in_member)
  have o: "text_in alert_value_modes Undefined = None" by (simp add: text_in_def)
  from assms(1) have k: "text_in alert_fields (Str (ar_field r)) = Some (ar_field r)"
      "text_in alert_ops (Str (ar_op r)) = Some (ar_op r)"
      "text_in alert_sounds (Str (ar_sound r)) = Some (ar_sound r)" "ar_provider r = ''cme''"
    by (simp_all add: alert_rule_ok_def text_in_member)
  from assms(2,4) v m o k show ?thesis
    by (cases "ar_productSymbol r"; cases "ar_valueMode r"; cases "ar_phone r"; cases "ar_symbol r = Undefined")
      (simp_all add: normalizeAlertRule_def alert_rule_obj_def as_obj_def object_like_def is_object_def
        provider_always js_or_def truthy_def displayNumber_def Let_def)
qed

subsection \<open>Algo manager\<close>

record algo_active_row =
  aa_id :: string
  aa_status :: string
  aa_updatedAt :: jsnum

record algo_manager_state =
  am_stagedAlgoIds :: "string list"
  am_selectedDeployIds :: "string list"
  am_activeAlgoRows :: "algo_active_row list"
  am_statusFilter :: string
  am_deployStatus :: string
  am_updatedAt :: jsnum

definition normalizeStringIdList :: "jsv \<Rightarrow> string list" where
  "normalizeStringIdList value =
     dedup_by (=) (filter (\<lambda>s. s \<noteq> []) (map (\<lambda>item. trim (to_str (js_or item (Str [])))) (as_list value)))"

definition algo_statuses :: "string list" where
  "algo_statuses = [''held'', ''quoting'', ''paused'', ''draft'']"

definition normalizeAlgoStatusFilter :: "jsv \<Rightarrow> string" where
  "normalizeAlgoStatusFilter value = (let raw = to_str (js_or value (Str ''all'')) in
     if raw \<in> set algo_statuses then raw else ''all'')"

definition normalize_active_row :: "jsnum \<Rightarrow> jsv \<Rightarrow> algo_active_row option" where
  "normalize_active_row now item = (let row = as_obj item; ident = trim (to_str (js_or (oget row ''id'') (Str [])));
       status = normalizeAlgoStatusFilter (oget row ''status'') in
     if ident = [] then None
     else Some \<lparr>aa_id = ident,
        aa_status = (if status = ''all'' \<or> status = ''draft'' then ''held'' else status),
        aa_updatedAt = to_num (js_or (oget row ''updatedAt'') (Num now))\<rparr>)"

text \<open>The later row of an id replaces the earlier one, in its place.\<close>

definition normalizeAlgoManagerActiveRows :: "jsnum \<Rightarrow> jsv \<Rightarrow> algo_active_row list" where
  "normalizeAlgoManagerActiveRows now value =
     latest_by aa_id (List.map_filter (normalize_active_row now) (as_list value))"

definition normalizeAlgoManagerWorkspaceState :: "jsnum \<Rightarrow> jsv \<Rightarrow> algo_manager_state" where
  "normalizeAlgoManagerWorkspaceState now raw =
     (let row = as_obj raw; stagedAlgoIds = normalizeStringIdList (oget row ''stagedAlgoIds'') in
      \<lparr>am_stagedAlgoIds = stagedAlgoIds,
       am_selectedDeployIds = filter (\<lambda>i. i \<in> set stagedAlgoIds) (normalizeStringIdList (oget row ''selectedDeployIds'')),
       am_activeAlgoRows = normalizeAlgoManagerActiveRows now (oget row ''activeAlgoRows''),
       am_statusFilter = normalizeAlgoStatusFilter (oget row ''statusFilter''),
       am_deployStatus = [],
       am_updatedAt = to_num (js_or (oget row ''updatedAt'') (Num now))\<rparr>)"

definition active_row_obj :: "algo_active_row \<Rightarrow> jsv" where
  "active_row_obj r = Obj [(''id'', Str (aa_id r)), (''status'', Str (aa_status r)), (''updatedAt'', Num (aa_updatedAt r))]"

definition algo_manager_obj :: "algo_manager_state \<Rightarrow> jsv" where
  "algo_manager_obj s = Obj
     [(''stagedAlgoIds'', Arr (map Str (am_stagedAlgoIds s))),
      (''selectedDeployIds'', Arr (map Str (am_selectedDeployIds s))),
      (''activeAlgoRows'', Arr (map active_row_obj (am_activeAlgoRows s))),
      (''statusFilter'', Str (am_statusFilter s)),
      (''deployStatus'', Str (am_deployStatus s)),
      (''updatedAt'', Num (am_updatedAt s))]"

definition algo_manager_state_key :: string where
  "algo_manager_state_key = ''cerious.algo.manager.state.v1''"

definition loadAlgoManagerWorkspaceState :: "jsnum \<Rightarrow> storage \<Rightarrow> algo_manager_state" where
  "loadAlgoManagerWorkspaceState now st = normalizeAlgoManagerWorkspaceState now
     (case get_item st algo_manager_state_key of Absent \<Rightarrow> Obj [] | Malformed \<Rightarrow> Null | Json v \<Rightarrow> v)"

text \<open>The third component is the state announced to the listeners of the window, if any.\<close>

definition saveAlgoManagerWorkspaceState ::
    "jsnum \<Rightarrow> algo_manager_state \<Rightarrow> bool \<Rightarrow> storage \<Rightarrow> algo_manager_state \<times> storage \<times> algo_manager_state option" where
  "saveAlgoManagerWorkspaceState now next notify st =
     (let normalized = normalizeAlgoManagerWorkspaceState now (algo_manager_obj next) in
      (normalized, set_json algo_manager_state_key (algo_manager_obj normalized) st,
       if notify then Some normalized else None))"

text \<open>What a normalised state satisfies.\<close>

definition active_row_ok :: "algo_active_row \<Rightarrow> bool" where
  "active_row_ok r \<longleftrightarrow> aa_id r \<noteq> [] \<and> trim (aa_id r) = aa_id r \<and> aa_status r \<in> set [''held'', ''quoting'', ''paused'']"

definition ids_ok :: "string list \<Rightarrow> bool" where
  "ids_ok xs \<longleftrightarrow> distinct xs \<and> (\<forall>s\<in>set xs. s \<noteq> [] \<and> trim s = s)"

definition algo_manager_ok :: "algo_manager_state \<Rightarrow> bool" where
  "algo_manager_ok s \<longleftrightarrow> ids_ok (am_stagedAlgoIds s) \<and> ids_ok (am_selectedDeployIds s)
     \<and> set (am_selectedDeployIds s) \<subseteq> set (am_stagedAlgoIds s)
     \<and> distinct (map aa_id (am_activeAlgoRows s)) \<and> (\<forall>r\<in>set (am_activeAlgoRows s). active_row_ok r)
     \<and> am_statusFilter s \<in> insert ''all'' (set algo_statuses) \<and> am_deployStatus s = []"

text \<open>Its time stamps are those of a clock: finite, and not zero.\<close>

definition stamp_ok :: "jsnum \<Rightarrow> bool" where
  "stamp_ok n \<longleftrightarrow> is_finite n \<and> num_truthy n"

definition algo_manager_stamped :: "algo_manager_state \<Rightarrow> bool" where
  "algo_manager_stamped s \<longleftrightarrow> stamp_ok (am_updatedAt s) \<and> (\<forall>r\<in>set (am_activeAlgoRows s). stamp_ok (aa_updatedAt r))"

lemma normalized_ids_ok: "ids_ok (normalizeStringIdList v)"
  by (auto simp: ids_ok_def normalizeStringIdList_def)

lemma normalized_filter_ok: "normalizeAlgoStatusFilter v \<in> insert ''all'' (set algo_statuses)"
  by (simp add: normalizeAlgoStatusFilter_def Let_def)

lemma normalized_row_ok: "normalize_active_row now v = Some r \<Longrightarrow> active_row_ok r"
  using normalized_filter_ok [of "oget (as_obj v) ''status''"]
  by (auto simp: normalize_active_row_def active_row_ok_def algo_statuses_def Let_def split: if_splits)

lemma normalized_rows_ok:
  "distinct (map aa_id (normalizeAlgoManagerActiveRows now v))"
  "\<forall>r\<in>set (normalizeAlgoManagerActiveRows now v). active_row_ok r"
proof -
  show "distinct (map aa_id (normalizeAlgoManagerActiveRows now v))"
    by (simp add: normalizeAlgoManagerActiveRows_def latest_by_distinct)
  have "\<forall>r\<in>set (List.map_filter (normalize_active_row now) (as_list v)). active_row_ok r"
    using normalized_row_ok by (auto simp: List.map_filter_def)
  then show "\<forall>r\<in>set (normalizeAlgoManagerActiveRows now v). active_row_ok r"
    using latest_by_subset [of aa_id "List.map_filter (normalize_active_row now) (as_list v)"]
    by (auto simp: normalizeAlgoManagerActiveRows_def)
qed

lemma normalized_manager_ok: "algo_manager_ok (normalizeAlgoManagerWorkspaceState now v)"
  using normalized_ids_ok normalized_rows_ok normalized_filter_ok
  by (auto simp: algo_manager_ok_def normalizeAlgoManagerWorkspaceState_def ids_ok_def Let_def)

text \<open>Reading back the object of a settled state.\<close>

lemma stamp_ok_simps:
  assumes "stamp_ok n"
  shows "is_finite n" "drop_sign n = n" "truthy (Num n)"
  using assms by (cases n; auto simp: stamp_ok_def drop_sign_def truthy_def num_truthy_def jeq_def)+

lemma ids_back:
  assumes "ids_ok xs"
  shows "normalizeStringIdList (Arr (map Str xs)) = xs"
proof -
  have "map (\<lambda>item. trim (to_str (js_or item (Str [])))) (map Str xs) = xs"
    using assms by (intro nth_equalityI) (auto simp: ids_ok_def js_or_def truthy_def)
  moreover have "filter (\<lambda>s. s \<noteq> []) xs = xs" using assms by (simp add: ids_ok_def filter_id_conv)
  ultimately show ?thesis using assms by (simp add: normalizeStringIdList_def as_list_def ids_ok_def dedup_distinct)
qed

lemma status_back: "s \<in> insert ''all'' (set algo_statuses) \<Longrightarrow> normalizeAlgoStatusFilter (Str s) = s"
  by (auto simp: normalizeAlgoStatusFilter_def js_or_def truthy_def algo_statuses_def)

lemma row_back:
  assumes "active_row_ok r" and "stamp_ok (aa_updatedAt r)"
  shows "normalize_active_row now (json_norm (active_row_obj r)) = Some r"
proof -
  have s: "normalizeAlgoStatusFilter (Str (aa_status r)) = aa_status r"
    using assms(1) by (intro status_back) (auto simp: active_row_ok_def algo_statuses_def)
  have "aa_status r \<noteq> ''all''" "aa_status r \<noteq> ''draft''" using assms(1) by (auto simp: active_row_ok_def)
  with assms s stamp_ok_simps [OF assms(2)] show ?thesis
    by (simp add: normalize_active_row_def active_row_obj_def as_obj_def active_row_ok_def js_or_def Let_def)
      (simp add: truthy_def)
qed

lemma rows_back:
  assumes "\<forall>r\<in>set rows. active_row_ok r" and "\<forall>r\<in>set rows. stamp_ok (aa_updatedAt r)"
    and "distinct (map aa_id rows)"
  shows "normalizeAlgoManagerActiveRows now (Arr (map (\<lambda>r. json_norm (active_row_obj r)) rows)) = rows"
proof -
  have "List.map_filter (normalize_active_row now) (map (\<lambda>r. json_norm (active_row_obj r)) rows) = rows"
    using assms(1,2) by (induction rows) (auto simp: List.map_filter_simps row_back)
  with assms(3) show ?thesis by (simp add: normalizeAlgoManagerActiveRows_def as_list_def latest_by_id)
qed

lemma manager_back:
  assumes "algo_manager_ok s" and "algo_manager_stamped s"
  shows "normalizeAlgoManagerWorkspaceState now (json_norm (algo_manager_obj s)) = s"
proof -
  have "filter (\<lambda>i. i \<in> set (am_stagedAlgoIds s)) (am_selectedDeployIds s) = am_selectedDeployIds s"
    using assms(1) by (auto simp: algo_manager_ok_def filter_id_conv)
  moreover have "drop_sign (am_updatedAt s) = am_updatedAt s" "is_finite (am_updatedAt s)" "truthy (Num (am_updatedAt s))"
    using assms(2) stamp_ok_simps by (simp_all add: algo_manager_stamped_def)
  moreover have "normalizeAlgoManagerActiveRows now
      (Arr (map (\<lambda>r. json_norm (active_row_obj r)) (am_activeAlgoRows s))) = am_activeAlgoRows s"
    using assms by (intro rows_back) (auto simp: algo_manager_ok_def algo_manager_stamped_def)
  moreover have "normalizeStringIdList (Arr (map Str (am_stagedAlgoIds s))) = am_stagedAlgoIds s"
      "normalizeStringIdList (Arr (map Str (am_selectedDeployIds s))) = am_selectedDeployIds s"
      "normalizeAlgoStatusFilter (Str (am_statusFilter s)) = am_statusFilter s" "am_deployStatus s = []"
    using assms(1) by (auto simp: algo_manager_ok_def ids_back intro: status_back)
  ultimately show ?thesis
    by (intro algo_manager_state.equality)
      (simp_all add: normalizeAlgoManagerWorkspaceState_def algo_manager_obj_def as_obj_def comp_def js_or_def Let_def)
qed

lemma stamped_or_now: "stamp_ok now \<Longrightarrow> n \<notin> range Inf \<Longrightarrow> stamp_ok (to_num (js_or (Num n) (Num now)))"
  by (cases n) (auto simp: js_or_def truthy_def stamp_ok_def num_truthy_def)

lemma normalized_row_stamped:
  assumes "stamp_ok now" and "aa_updatedAt r \<notin> range Inf" and "normalize_active_row now (active_row_obj r) = Some r'"
  shows "stamp_ok (aa_updatedAt r')"
  using assms stamped_or_now [of now "aa_updatedAt r"]
  by (auto simp: normalize_active_row_def active_row_obj_def as_obj_def Let_def split: if_splits)

lemma normalized_manager_stamped:
  assumes "stamp_ok now" and "am_updatedAt s \<notin> range Inf" "\<forall>r\<in>set (am_activeAlgoRows s). aa_updatedAt r \<notin> range Inf"
  shows "algo_manager_stamped (normalizeAlgoManagerWorkspaceState now (algo_manager_obj s))"
proof -
  have "\<forall>r\<in>set (List.map_filter (normalize_active_row now) (map active_row_obj (am_activeAlgoRows s))). stamp_ok (aa_updatedAt r)"
    using assms(3) normalized_row_stamped [OF assms(1)] by (auto simp: List.map_filter_def)
  then have "\<forall>r\<in>set (normalizeAlgoManagerActiveRows now (Arr (map active_row_obj (am_activeAlgoRows s)))). stamp_ok (aa_updatedAt r)"
    using latest_by_subset [of aa_id] by (auto simp: normalizeAlgoManagerActiveRows_def as_list_def)
  then show ?thesis using stamped_or_now [OF assms(1,2)]
    by (simp add: algo_manager_stamped_def normalizeAlgoManagerWorkspaceState_def algo_manager_obj_def as_obj_def Let_def)
qed

text \<open>The stored state of the algo manager: whatever is stored, loading gives staged and selected
  ids that are distinct, trimmed and not empty, every selected id staged, one active row per id with
  a status other than draft; and saving a state, with the clock running and no infinite time stamp,
  stores exactly what the next load gives back, at whatever time it happens.\<close>

theorem algo_manager_saved:
  assumes "stamp_ok now" and "am_updatedAt s \<notin> range Inf"
    and "\<forall>r\<in>set (am_activeAlgoRows s). aa_updatedAt r \<notin> range Inf"
  shows "algo_manager_ok (loadAlgoManagerWorkspaceState later st)
    \<and> (case saveAlgoManagerWorkspaceState now s notify st of (normalized, st', announced) \<Rightarrow>
         loadAlgoManagerWorkspaceState later st' = normalized \<and> algo_manager_ok normalized)"
  using manager_back [OF normalized_manager_ok normalized_manager_stamped [OF assms]] normalized_manager_ok
  by (simp add: loadAlgoManagerWorkspaceState_def saveAlgoManagerWorkspaceState_def Let_def)

definition sample_manager :: algo_manager_state where
  "sample_manager = \<lparr>am_stagedAlgoIds = ['' a1 '', ''a2'', ''a1''], am_selectedDeployIds = [''a2'', ''a9''],
     am_activeAlgoRows = [\<lparr>aa_id = ''a1'', aa_status = ''draft'', aa_updatedAt = Fin 4\<rparr>,
        \<lparr>aa_id = ''a1'', aa_status = ''quoting'', aa_updatedAt = Fin 0\<rparr>],
     am_statusFilter = ''none'', am_deployStatus = ''sent'', am_updatedAt = Fin 3\<rparr>"

lemma algo_manager_saved_witness:
  "algo_manager_ok (loadAlgoManagerWorkspaceState (Fin 9) [])
    \<and> (case saveAlgoManagerWorkspaceState (Fin 8) sample_manager True [] of (normalized, st', announced) \<Rightarrow>
         loadAlgoManagerWorkspaceState (Fin 9) st' = normalized \<and> algo_manager_ok normalized)"
  by (rule algo_manager_saved) (auto simp: sample_manager_def stamp_ok_def num_truthy_def jeq_def)

text \<open>The sample is not settled: the normaliser drops, trims and merges.\<close>

lemma sample_manager_normalized:
  "normalizeAlgoManagerWorkspaceState (Fin 8) (algo_manager_obj sample_manager) =
     \<lparr>am_stagedAlgoIds = [''a1'', ''a2''], am_selectedDeployIds = [''a2''],
      am_activeAlgoRows = [\<lparr>aa_id = ''a1'', aa_status = ''quoting'', aa_updatedAt = Fin 8\<rparr>],
      am_statusFilter = ''all'', am_deployStatus = [], am_updatedAt = Fin 3\<rparr>"
  by code_simp

end
