(* ===== verification/AlgoLibrary.thy ===== *)
theory AlgoLibrary
  imports CanvasSettings
begin

text \<open>
  The algo library of \<open>WorkspaceCanvas.tsx\<close>: the normalisers that read a stored or served
  definition of unknown shape, the order of the library, what is written to storage and announced,
  and the operations of the hook \<open>useAlgoLibrary\<close>. Parameters: \<open>now\<close> is the clock,
  \<open>date_parse\<close> is \<open>Date.parse\<close>, \<open>lc\<close> is the sign of \<open>localeCompare\<close>. The nested objects of a
  definition keep whatever properties the payload has, so they are dictionaries. Main results: what
  every normalised definition satisfies, that a stored library never comes back quoting, and that
  the operations keep one definition per id and leave every instance of the hook with one list.
\<close>

subsection \<open>Definitions\<close>

record algo_signal_rule =
  sr_id :: string
  sr_field :: string
  sr_operator :: string
  sr_value :: jsv
  sr_action :: string
  sr_enabled :: bool

record algo_definition =
  ad_id :: string
  ad_name :: string
  ad_template :: string
  ad_templateId :: "string option"
  ad_version :: "string option"
  ad_provider :: string
  ad_symbol :: string
  ad_marketKey :: "string option"
  ad_instruments :: "string list option"
  ad_side :: string
  ad_orderType :: string
  ad_clipSize :: jsnum
  ad_maxPosition :: jsnum
  ad_signalRules :: "algo_signal_rule list option"
  ad_risk :: "jobj option"
  ad_midpointPeg :: "jobj option"
  ad_entryPeg :: "jobj option"
  ad_layerPlan :: "jobj option"
  ad_syntheticOrderManager :: "jobj option"
  ad_exitPolicy :: "jobj option"
  ad_orderPolicy :: "jobj option"
  ad_notes :: "string option"
  ad_operator :: string
  ad_status :: string
  ad_updatedAt :: jsnum

text \<open>The fields that the mean-reversion defaults give, and what replaces them in a payload.\<close>

record cerious_fields =
  cf_templateId :: string
  cf_version :: string
  cf_instruments :: "string list"
  cf_signalRules :: "algo_signal_rule list"
  cf_risk :: jobj
  cf_midpointPeg :: jobj
  cf_entryPeg :: jobj
  cf_layerPlan :: jobj
  cf_syntheticOrderManager :: jobj
  cf_exitPolicy :: jobj
  cf_orderPolicy :: jobj
  cf_notes :: "string option"

definition algoTemplateLabel :: "string \<Rightarrow> string" where
  "algoTemplateLabel template = (if template = ''mean-reversion-v2'' then ''Mean Reversion v2'' else ''Scale In'')"

definition defaultCeriousMeanReversionFields :: "string \<Rightarrow> cerious_fields" where
  "defaultCeriousMeanReversionFields symbol =
     \<lparr>cf_templateId = ''mean-reversion-v2'', cf_version = ''2.0'', cf_instruments = [symbol],
      cf_signalRules =
        [\<lparr>sr_id = ''regression-ready'', sr_field = ''linearRegression'', sr_operator = ''='', sr_value = Bool True,
           sr_action = ''pegEntry'', sr_enabled = True\<rparr>,
         \<lparr>sr_id = ''entry-touch'', sr_field = ''marketCanTradeTarget'', sr_operator = ''='', sr_value = Bool True,
           sr_action = ''releaseSniperEntry'', sr_enabled = True\<rparr>,
         \<lparr>sr_id = ''oco-cover'', sr_field = ''entryFilled'', sr_operator = ''='', sr_value = Bool True,
           sr_action = ''attachOcoCover'', sr_enabled = True\<rparr>],
      cf_risk =
        [(''maxPosition'', Num (Fin 1)), (''maxLossAtr'', Num (Fin 88)), (''clipSchedule'', Str ''layered''),
         (''requireMarketOpen'', Bool True)],
      cf_midpointPeg =
        [(''enabled'', Bool False), (''source'', Str ''30m-vwap''), (''label'', Str ''Peg VWAP for midpoint''),
         (''previousClose'', Bool False)],
      cf_entryPeg = [(''source'', Str ''linear-regression''), (''standardDeviations'', Num (Fin 2))],
      cf_layerPlan =
        [(''layerCount'', Num (Fin 3)), (''layerSpacingTicks'', Num (Fin 2)), (''maxLayers'', Num (Fin 5)),
         (''applySymmetrically'', Bool True), (''workBuySide'', Bool True), (''workSellSide'', Bool True)],
      cf_syntheticOrderManager =
        [(''enabled'', Bool True), (''containerizedOrders'', Bool True),
         (''entryTechnique'', Str ''sniper-market-if-target-price-achievable''),
         (''holdUntilTriggered'', Bool True), (''releaseDestination'', Str ''exchange-gateway'')],
      cf_exitPolicy =
        [(''attachOnEntryFill'', Bool True), (''oco'', Bool True), (''coverTicksFromFill'', Num (Fin 6)),
         (''profitTicksFromEntry'', Num (Fin 6)), (''stopTicksFromEntry'', Num (Fin 88)),
         (''stopType'', Str ''market''), (''coverLimitPlacement'', Str ''above-bid-or-below-offer'')],
      cf_orderPolicy =
        [(''mode'', Str ''synthetic-sniper''), (''orderType'', Str ''synthetic-held-market-release''),
         (''priceReference'', Str ''linear-regression''), (''doNotCrossInside'', Bool True),
         (''doNotCrossSelf'', Bool True), (''liveOrderEntryEnabled'', Bool False)],
      cf_notes = None\<rparr>"

definition defaultAlgo :: "jsnum \<Rightarrow> product_option option \<Rightarrow> string \<Rightarrow> algo_definition" where
  "defaultAlgo now option operator =
     (let symbol = get_or (or_else (Option.bind option po_marketKey) (map_option po_symbol option)) ''ES_NQ'';
          f = defaultCeriousMeanReversionFields symbol in
      \<lparr>ad_id = ''algo-'' @ num_text now, ad_name = symbol @ '' Mean Reversion'', ad_template = ''mean-reversion-v2'',
       ad_templateId = Some (cf_templateId f), ad_version = Some (cf_version f),
       ad_provider = get_or (map_option po_provider option) ''cme'', ad_symbol = symbol,
       ad_marketKey = Option.bind option po_marketKey, ad_instruments = Some (cf_instruments f),
       ad_side = ''both'', ad_orderType = ''limit'', ad_clipSize = Fin 1,
       ad_maxPosition = to_num (oget (cf_risk f) ''maxPosition''),
       ad_signalRules = Some (cf_signalRules f), ad_risk = Some (cf_risk f),
       ad_midpointPeg = Some (cf_midpointPeg f), ad_entryPeg = Some (cf_entryPeg f),
       ad_layerPlan = Some (cf_layerPlan f), ad_syntheticOrderManager = Some (cf_syntheticOrderManager f),
       ad_exitPolicy = Some (cf_exitPolicy f), ad_orderPolicy = Some (cf_orderPolicy f),
       ad_notes = cf_notes f, ad_operator = operator, ad_status = ''held'', ad_updatedAt = now\<rparr>)"

definition asTemplate :: "jsv \<Rightarrow> string" where
  "asTemplate value = (let template = to_str (coalesce value (Str [])) in
     if template = ''mean-reversion-v2'' \<or> template = ''scale-in'' then template else ''mean-reversion-v2'')"

definition as_signal_rule :: "nat \<Rightarrow> jsv \<Rightarrow> algo_signal_rule" where
  "as_signal_rule index rule = (let row = as_obj rule; rawField = to_str (coalesce (oget row ''field'') (Str [])) in
     \<lparr>sr_id = to_str (coalesce (oget row ''id'') (Str (''rule-'' @ int_text (int index + 1)))),
      sr_field = (if str_includes ''linearregression'' (to_lower rawField) then ''linearRegression'' else rawField),
      sr_operator = to_str (coalesce (oget row ''operator'') (Str ''='')),
      sr_value = (case oget row ''value'' of Bool b \<Rightarrow> Bool b | Num n \<Rightarrow> Num n | Str s \<Rightarrow> Str s | _ \<Rightarrow> Bool True),
      sr_action = to_str (coalesce (oget row ''action'') (Str [])),
      sr_enabled = (oget row ''enabled'' \<noteq> Bool False)\<rparr>)"

definition asSignalRules :: "jsv \<Rightarrow> algo_signal_rule list" where
  "asSignalRules value = (case value of
     Arr rules \<Rightarrow> map (\<lambda>(i, r). as_signal_rule i r) (enumerate 0 rules)
   | _ \<Rightarrow> cf_signalRules (defaultCeriousMeanReversionFields ''ES_NQ''))"

text \<open>What \<open>{...v}\<close> copies from a value.\<close>

definition index_entries :: "jsv list \<Rightarrow> jobj" where
  "index_entries xs = map (\<lambda>(i, v). (int_text (int i), v)) (enumerate 0 xs)"

definition spread_entries :: "jsv \<Rightarrow> jobj" where
  "spread_entries v = (case v of Obj d \<Rightarrow> d | Arr xs \<Rightarrow> index_entries xs
     | Str s \<Rightarrow> index_entries (map (\<lambda>c. Str [c]) s) | _ \<Rightarrow> [])"

definition mergeObject :: "jobj \<Rightarrow> jsv \<Rightarrow> jobj" where
  "mergeObject defaults value = (if object_like value then dict_spread defaults (spread_entries value) else defaults)"

definition normalizedLookback :: "jsv \<Rightarrow> jsnum \<Rightarrow> jsnum \<Rightarrow> jsnum option" where
  "normalizedLookback value minimum maximum = (let parsed = to_num value in
     if \<not> is_finite parsed then None
     else let lookback = math_floor parsed in
       if jlt lookback minimum then None else Some (math_min maximum lookback))"

definition migrated_entry_peg :: "jobj \<Rightarrow> jsv \<Rightarrow> jobj" where
  "migrated_entry_peg defaults raw =
     (let entryPeg = mergeObject defaults raw;
          entryPeg = (case normalizedLookback (coalesce (oget (as_obj raw) ''lookback'') (oget entryPeg ''lookback'')) (Fin 2) (Fin 2000) of
            None \<Rightarrow> entryPeg | Some n \<Rightarrow> dict_set ''lookback'' (Num n) entryPeg)
      in if str_includes ''linear-regression'' (to_lower (to_str (oget entryPeg ''source'')))
         then dict_set ''source'' (Str ''linear-regression'') entryPeg else entryPeg)"

definition migrated_order_policy :: "jobj \<Rightarrow> jsv \<Rightarrow> jobj" where
  "migrated_order_policy defaults raw = (let orderPolicy = mergeObject defaults raw in
     if str_includes ''27'' (to_lower (to_str (oget orderPolicy ''priceReference'')))
     then dict_set ''priceReference'' (Str ''linear-regression'') orderPolicy else orderPolicy)"

definition normalizeCeriousFields :: "jobj \<Rightarrow> string \<Rightarrow> cerious_fields" where
  "normalizeCeriousFields item symbol =
     (let key = normalizeProductKey (Str symbol);
          productKey = (if key = [] then ''ES_NQ'' else key);
          d = defaultCeriousMeanReversionFields productKey in
      \<lparr>cf_templateId = to_str (coalesce (oget item ''templateId'') (Str (cf_templateId d))),
       cf_version = to_str (coalesce (oget item ''version'') (Str (cf_version d))),
       cf_instruments = [productKey],
       cf_signalRules = asSignalRules (oget item ''signalRules''),
       cf_risk = mergeObject (cf_risk d) (oget item ''risk''),
       cf_midpointPeg = mergeObject (cf_midpointPeg d) (oget item ''midpointPeg''),
       cf_entryPeg = migrated_entry_peg (cf_entryPeg d) (oget item ''entryPeg''),
       cf_layerPlan = mergeObject (cf_layerPlan d) (oget item ''layerPlan''),
       cf_syntheticOrderManager = mergeObject (cf_syntheticOrderManager d) (oget item ''syntheticOrderManager''),
       cf_exitPolicy = mergeObject (cf_exitPolicy d) (oget item ''exitPolicy''),
       cf_orderPolicy = migrated_order_policy (cf_orderPolicy d) (oget item ''orderPolicy''),
       cf_notes = Some (to_str (coalesce (oget item ''notes'') (Str [])))\<rparr>)"

text \<open>A definition with the fields of a template.\<close>

definition with_fields :: "cerious_fields \<Rightarrow> algo_definition \<Rightarrow> algo_definition" where
  "with_fields f a = a\<lparr>ad_templateId := Some (cf_templateId f), ad_version := Some (cf_version f),
     ad_instruments := Some (cf_instruments f), ad_signalRules := Some (cf_signalRules f),
     ad_risk := Some (cf_risk f), ad_midpointPeg := Some (cf_midpointPeg f), ad_entryPeg := Some (cf_entryPeg f),
     ad_layerPlan := Some (cf_layerPlan f), ad_syntheticOrderManager := Some (cf_syntheticOrderManager f),
     ad_exitPolicy := Some (cf_exitPolicy f), ad_orderPolicy := Some (cf_orderPolicy f),
     ad_notes := or_else (cf_notes f) (ad_notes a)\<rparr>"

text \<open>A definition before the template's fields are filled in.\<close>

definition bare_algo :: algo_definition where
  "bare_algo = \<lparr>ad_id = [], ad_name = [], ad_template = ''mean-reversion-v2'', ad_templateId = None, ad_version = None,
     ad_provider = ''cme'', ad_symbol = [], ad_marketKey = None, ad_instruments = None, ad_side = ''both'',
     ad_orderType = ''limit'', ad_clipSize = Fin 1, ad_maxPosition = Fin 1, ad_signalRules = None, ad_risk = None,
     ad_midpointPeg = None, ad_entryPeg = None, ad_layerPlan = None, ad_syntheticOrderManager = None,
     ad_exitPolicy = None, ad_orderPolicy = None, ad_notes = None, ad_operator = [], ad_status = ''held'',
     ad_updatedAt = Fin 0\<rparr>"

definition positive_or :: "jsnum \<Rightarrow> jsnum \<Rightarrow> jsnum" where
  "positive_or n d = (if is_finite n \<and> jlt (Fin 0) n then n else d)"

text \<open>A definition as the algo service sends it. \<open>null\<close> throws; a definition without an id or a
  name is skipped.\<close>

definition ceriousDefinitionToAlgo :: "(string \<Rightarrow> jsnum) \<Rightarrow> jsv \<Rightarrow> algo_definition option js_result" where
  "ceriousDefinitionToAlgo date_parse v = (if nullish v then Inl TypeError else Inr (
     let item = as_obj v;
         ident = to_str (coalesce (oget item ''id'') (Str []));
         name = to_str (coalesce (oget item ''name'') (Str ident));
         instruments = map to_str (as_list (oget item ''instruments''));
         risk = as_obj (oget item ''risk'');
         layerPlan = as_obj (oget item ''layerPlan'');
         first = normalizeProductKey (oget_any item [''marketKey'', ''symbol'']);
         second = normalizeProductKey (case instruments of [] \<Rightarrow> Undefined | s # ss \<Rightarrow> Str s);
         symbol = (if first \<noteq> [] then first else if second \<noteq> [] then second else ''ES_NQ'');
         statusRaw = to_str (coalesce (oget item ''status'') (Str ''held''));
         rawClipSize = to_num (coalesce (oget_any item [''clipSize'', ''contractsPerOrder'', ''orderSize''])
           (coalesce (oget_any risk [''clipSize'', ''contractsPerOrder'']) (Num (Fin 1))));
         rawMaxPosition = to_num (coalesce (oget item ''maxPosition'') (coalesce (oget risk ''maxPosition'') (Num rawClipSize)));
         clipSize = positive_or rawClipSize (Fin 1);
         stamp = date_parse (to_str (coalesce (oget_any item [''updatedAt'', ''createdAt'']) (Str [])))
     in if ident = [] \<or> name = [] then None
        else Some (with_fields (normalizeCeriousFields item symbol)
          (bare_algo\<lparr>ad_id := ident, ad_name := name,
             ad_template := asTemplate (Str (to_str (coalesce (oget item ''templateId'') (Str ''mean-reversion-v2'')))),
             ad_symbol := symbol, ad_marketKey := Some symbol,
             ad_side := (if oget layerPlan ''workSellSide'' = Bool False then ''bid''
               else if oget layerPlan ''workBuySide'' = Bool False then ''offer'' else ''both''),
             ad_clipSize := clipSize, ad_maxPosition := positive_or rawMaxPosition clipSize,
             ad_operator := ''Cerious Trader'',
             ad_status := (if statusRaw = ''draft'' \<or> statusRaw = ''paused'' then statusRaw else ''held''),
             ad_updatedAt := (if num_truthy stamp then stamp else Fin 0)\<rparr>))))"

definition default_operator :: string where
  "default_operator = ''Operator 1''"

text \<open>\<open>Number(v) || d\<close>.\<close>

definition num_or :: "jsv \<Rightarrow> jsnum \<Rightarrow> jsnum" where
  "num_or v d = (if num_truthy (to_num v) then to_num v else d)"

definition one_of :: "string list \<Rightarrow> string \<Rightarrow> string \<Rightarrow> string" where
  "one_of xs d s = (if s \<in> set xs then s else d)"

definition normalizeStoredAlgoDefinition :: "jsnum \<Rightarrow> jsv \<Rightarrow> algo_definition option" where
  "normalizeStoredAlgoDefinition now v = (if \<not> object_like v then None else
     let item = as_obj v;
         ident = trim (to_str (coalesce (oget item ''id'') (Str [])));
         name = trim (to_str (coalesce (oget item ''name'') (Str ident)));
         symbol = (case algoMarketCandidates item of [] \<Rightarrow> ''ES_NQ'' | c # cs \<Rightarrow> c);
         f = normalizeCeriousFields item symbol;
         clipSize = math_max (Fin 1) (num_or (coalesce (oget item ''clipSize'')
           (coalesce (oget_any (cf_risk f) [''clipSize'', ''contractsPerOrder'']) (Num (Fin 1)))) (Fin 1));
         maxPosition = math_max (Fin 1) (num_or (coalesce (oget item ''maxPosition'')
           (coalesce (oget (cf_risk f) ''maxPosition'') (Num clipSize))) clipSize)
     in if ident = [] \<or> name = [] then None
        else Some (with_fields f
          (bare_algo\<lparr>ad_id := ident, ad_name := name,
             ad_template := asTemplate (oget_any item [''template'', ''templateId'']),
             ad_provider := normalizeProviderKey (oget item ''provider''),
             ad_symbol := symbol,
             ad_marketKey := Some (to_str (coalesce (oget item ''marketKey'') (Str symbol))),
             ad_side := one_of [''bid'', ''offer'', ''both''] ''both'' (to_str (coalesce (oget item ''side'') (Str ''both''))),
             ad_orderType := one_of [''market''] ''limit'' (to_str (coalesce (oget item ''orderType'') (Str ''limit''))),
             ad_clipSize := clipSize, ad_maxPosition := maxPosition,
             ad_operator := to_str (coalesce (oget item ''operator'') (Str default_operator)),
             ad_status := one_of [''draft'', ''paused'', ''quoting'', ''held''] ''held''
               (to_str (coalesce (oget item ''status'') (Str ''held''))),
             ad_updatedAt := to_num (coalesce (oget item ''updatedAt'') (Num now))\<rparr>)))"

subsection \<open>Order and storage\<close>

definition algo_before :: "(string \<Rightarrow> string \<Rightarrow> int) \<Rightarrow> algo_definition \<Rightarrow> algo_definition \<Rightarrow> bool" where
  "algo_before lc a b =
     (let symbolRank = lc (normalizeProductKey (Str (ad_symbol a))) (normalizeProductKey (Str (ad_symbol b)));
          nameRank = lc (ad_name a) (ad_name b) in
      if symbolRank \<noteq> 0 then symbolRank \<le> 0
      else if nameRank \<noteq> 0 then nameRank \<le> 0
      else before_desc ad_updatedAt a b)"

definition sortAlgoDefinitions :: "(string \<Rightarrow> string \<Rightarrow> int) \<Rightarrow> algo_definition list \<Rightarrow> algo_definition list" where
  "sortAlgoDefinitions lc xs = sort_js (algo_before lc) xs"

definition normalizeAlgoLibrarySnapshot ::
    "(string \<Rightarrow> string \<Rightarrow> int) \<Rightarrow> jsnum \<Rightarrow> jsv \<Rightarrow> algo_definition list option" where
  "normalizeAlgoLibrarySnapshot lc now raw = (case raw of
     Arr xs \<Rightarrow> Some (sortAlgoDefinitions lc (List.map_filter (normalizeStoredAlgoDefinition now) xs))
   | _ \<Rightarrow> None)"

definition algo_library_key :: string where
  "algo_library_key = ''cerious.algo.library.v1''"

definition loadAlgoLibrary :: "(string \<Rightarrow> string \<Rightarrow> int) \<Rightarrow> jsnum \<Rightarrow> storage \<Rightarrow> algo_definition list" where
  "loadAlgoLibrary lc now st = (case get_item st algo_library_key of
     Absent \<Rightarrow> get_or (normalizeAlgoLibrarySnapshot lc now (Arr [])) []
   | Malformed \<Rightarrow> []
   | Json v \<Rightarrow> get_or (normalizeAlgoLibrarySnapshot lc now v) [])"

definition algoDefinitionForStorage :: "algo_definition \<Rightarrow> algo_definition" where
  "algoDefinitionForStorage algo = algo\<lparr>ad_status := (if ad_status algo = ''quoting'' then ''held'' else ad_status algo)\<rparr>"

definition signal_rule_obj :: "algo_signal_rule \<Rightarrow> jsv" where
  "signal_rule_obj r = Obj [(''id'', Str (sr_id r)), (''field'', Str (sr_field r)), (''operator'', Str (sr_operator r)),
     (''value'', sr_value r), (''action'', Str (sr_action r)), (''enabled'', Bool (sr_enabled r))]"

definition opt_obj :: "jobj option \<Rightarrow> jsv" where
  "opt_obj x = (case x of None \<Rightarrow> Undefined | Some d \<Rightarrow> Obj d)"

definition algo_obj :: "algo_definition \<Rightarrow> jsv" where
  "algo_obj a = Obj
     [(''id'', Str (ad_id a)), (''name'', Str (ad_name a)), (''template'', Str (ad_template a)),
      (''templateId'', opt_str (ad_templateId a)), (''version'', opt_str (ad_version a)),
      (''provider'', Str (ad_provider a)), (''symbol'', Str (ad_symbol a)), (''marketKey'', opt_str (ad_marketKey a)),
      (''instruments'', case ad_instruments a of None \<Rightarrow> Undefined | Some xs \<Rightarrow> Arr (map Str xs)),
      (''side'', Str (ad_side a)), (''orderType'', Str (ad_orderType a)), (''clipSize'', Num (ad_clipSize a)),
      (''maxPosition'', Num (ad_maxPosition a)),
      (''signalRules'', case ad_signalRules a of None \<Rightarrow> Undefined | Some rs \<Rightarrow> Arr (map signal_rule_obj rs)),
      (''risk'', opt_obj (ad_risk a)), (''midpointPeg'', opt_obj (ad_midpointPeg a)),
      (''entryPeg'', opt_obj (ad_entryPeg a)), (''layerPlan'', opt_obj (ad_layerPlan a)),
      (''syntheticOrderManager'', opt_obj (ad_syntheticOrderManager a)), (''exitPolicy'', opt_obj (ad_exitPolicy a)),
      (''orderPolicy'', opt_obj (ad_orderPolicy a)), (''notes'', opt_str (ad_notes a)),
      (''operator'', Str (ad_operator a)), (''status'', Str (ad_status a)), (''updatedAt'', Num (ad_updatedAt a))]"

text \<open>What is written, and what the listeners of the window hear.\<close>

definition publishAlgoLibrary :: "algo_definition list \<Rightarrow> storage \<Rightarrow> storage \<times> algo_definition list" where
  "publishAlgoLibrary next st =
     (set_json algo_library_key (Arr (map (\<lambda>a. algo_obj (algoDefinitionForStorage a)) next)) st, next)"

subsection \<open>The hook\<close>

text \<open>One instance's list and the storage it writes; \<open>commit\<close> gives also what is announced.\<close>

definition commit_algos :: "(string \<Rightarrow> string \<Rightarrow> int) \<Rightarrow> (algo_definition list \<Rightarrow> algo_definition list) \<Rightarrow>
    algo_definition list \<Rightarrow> storage \<Rightarrow> algo_definition list \<times> storage \<times> algo_definition list" where
  "commit_algos lc updater current st = (let next = sortAlgoDefinitions lc (updater current) in
     (next, publishAlgoLibrary next st))"

definition upsertAlgo :: "jsnum \<Rightarrow> algo_definition \<Rightarrow> algo_definition list \<Rightarrow> algo_definition list" where
  "upsertAlgo now algo current = algo\<lparr>ad_updatedAt := now\<rparr> # filter (\<lambda>item. ad_id item \<noteq> ad_id algo) current"

text \<open>A partial definition is the update it makes.\<close>

definition updateAlgo :: "jsnum \<Rightarrow> string \<Rightarrow> (algo_definition \<Rightarrow> algo_definition) \<Rightarrow>
    algo_definition list \<Rightarrow> algo_definition list" where
  "updateAlgo now ident patch current =
     map (\<lambda>item. if ad_id item = ident then (patch item)\<lparr>ad_updatedAt := now\<rparr> else item) current"

definition removeAlgo :: "string \<Rightarrow> algo_definition list \<Rightarrow> algo_definition list" where
  "removeAlgo ident current = filter (\<lambda>item. ad_id item \<noteq> ident) current"

text \<open>Hearing an announcement (\<open>Some\<close>), or a change of the storage by another window (\<open>None\<close>).\<close>

definition sync_algos :: "(string \<Rightarrow> string \<Rightarrow> int) \<Rightarrow> jsnum \<Rightarrow> storage \<Rightarrow> algo_definition list option \<Rightarrow> algo_definition list" where
  "sync_algos lc now st detail = (case detail of
     Some xs \<Rightarrow> sortAlgoDefinitions lc xs | None \<Rightarrow> loadAlgoLibrary lc now st)"

text \<open>The answer of the algo service: nothing when the request failed or was refused, else the
  payload. A definition that throws, or a list without a usable definition, leaves the hook as it
  is.\<close>

definition cerious_definitions :: "(string \<Rightarrow> jsnum) \<Rightarrow> jsv \<Rightarrow> algo_definition list js_result" where
  "cerious_definitions date_parse payload =
     fold_result (\<lambda>d acc. case ceriousDefinitionToAlgo date_parse d of Inl e \<Rightarrow> Inl e
        | Inr None \<Rightarrow> Inr acc | Inr (Some a) \<Rightarrow> Inr (acc @ [a])) (as_list (jget payload ''definitions'')) []"

definition loadCeriousDefinitions :: "(string \<Rightarrow> string \<Rightarrow> int) \<Rightarrow> (string \<Rightarrow> jsnum) \<Rightarrow> jsv option \<Rightarrow> bool \<Rightarrow>
    algo_definition list \<Rightarrow> storage \<Rightarrow> (algo_definition list \<times> storage \<times> algo_definition list) option" where
  "loadCeriousDefinitions lc date_parse response cancelled current st = (case response of
     None \<Rightarrow> None
   | Some payload \<Rightarrow> (if nullish payload then None else case cerious_definitions date_parse payload of
       Inl e \<Rightarrow> None
     | Inr mapped \<Rightarrow> if cancelled \<or> mapped = [] then None
         else Some (commit_algos lc (\<lambda>_. mapped) current st)))"

subsection \<open>What a definition satisfies\<close>

definition algo_ok :: "algo_definition \<Rightarrow> bool" where
  "algo_ok a \<longleftrightarrow> ad_id a \<noteq> [] \<and> trim (ad_id a) = ad_id a \<and> ad_name a \<noteq> [] \<and> ad_provider a = ''cme''
     \<and> ad_symbol a \<noteq> [] \<and> ad_instruments a = Some [ad_symbol a]
     \<and> ad_template a \<in> set [''mean-reversion-v2'', ''scale-in'']
     \<and> ad_side a \<in> set [''bid'', ''offer'', ''both''] \<and> ad_orderType a \<in> set [''market'', ''limit'']
     \<and> ad_status a \<in> set [''draft'', ''paused'', ''quoting'', ''held'']
     \<and> jle (Fin 1) (ad_clipSize a) \<and> jle (Fin 1) (ad_maxPosition a)"

lemma product_key_idem [simp]: "normalizeProductKey (Str (normalizeProductKey v)) = normalizeProductKey v"
  by (simp add: normalizeProductKey_def trim_to_upper)

lemma candidates_settled:
  assumes "c \<in> set (algoMarketCandidates d)"
  shows "c \<noteq> []" and "normalizeProductKey (Str c) = c"
proof -
  obtain vs where "algoMarketCandidates d = dedup_by (=) (filter (\<lambda>c. c \<noteq> []) (map normalizeProductKey vs))"
    unfolding algoMarketCandidates_def by blast
  with assms show "c \<noteq> []" "normalizeProductKey (Str c) = c" by auto
qed

lemma num_or_not_NaN: "d \<noteq> NaN \<Longrightarrow> num_or v d \<noteq> NaN"
  by (auto simp: num_or_def num_truthy_def)

lemma one_of_in: "d \<in> set xs \<Longrightarrow> one_of xs d s \<in> set xs"
  by (simp add: one_of_def)

lemma asTemplate_in: "asTemplate v \<in> set [''mean-reversion-v2'', ''scale-in'']"
  by (simp add: asTemplate_def Let_def)

lemma with_fields_sel [simp]:
  "ad_id (with_fields f a) = ad_id a" "ad_name (with_fields f a) = ad_name a"
  "ad_template (with_fields f a) = ad_template a" "ad_provider (with_fields f a) = ad_provider a"
  "ad_symbol (with_fields f a) = ad_symbol a" "ad_side (with_fields f a) = ad_side a"
  "ad_orderType (with_fields f a) = ad_orderType a" "ad_status (with_fields f a) = ad_status a"
  "ad_clipSize (with_fields f a) = ad_clipSize a" "ad_maxPosition (with_fields f a) = ad_maxPosition a"
  "ad_instruments (with_fields f a) = Some (cf_instruments f)"
  "ad_updatedAt (with_fields f a) = ad_updatedAt a"
  by (simp_all add: with_fields_def)

lemma instruments_of_key:
  "normalizeProductKey (Str k) = k \<Longrightarrow> k \<noteq> [] \<Longrightarrow> cf_instruments (normalizeCeriousFields d k) = [k]"
  by (simp add: normalizeCeriousFields_def Let_def)

lemma stored_algo_shape:
  assumes "normalizeStoredAlgoDefinition now v = Some a"
  shows "ad_id a \<noteq> []" "trim (ad_id a) = ad_id a" "ad_name a \<noteq> []" "ad_provider a = ''cme''"
    "ad_template a = asTemplate (oget_any (as_obj v) [''template'', ''templateId''])"
    "ad_side a = one_of [''bid'', ''offer'', ''both''] ''both'' (to_str (coalesce (oget (as_obj v) ''side'') (Str ''both'')))"
    "ad_orderType a = one_of [''market''] ''limit'' (to_str (coalesce (oget (as_obj v) ''orderType'') (Str ''limit'')))"
    "ad_status a = one_of [''draft'', ''paused'', ''quoting'', ''held''] ''held''
        (to_str (coalesce (oget (as_obj v) ''status'') (Str ''held'')))"
    "\<exists>w. ad_clipSize a = math_max (Fin 1) (num_or w (Fin 1))"
    "\<exists>w. ad_maxPosition a = math_max (Fin 1) (num_or w (ad_clipSize a))"
    "ad_symbol a = (case algoMarketCandidates (as_obj v) of [] \<Rightarrow> ''ES_NQ'' | c # cs \<Rightarrow> c)"
    "ad_instruments a = Some (cf_instruments (normalizeCeriousFields (as_obj v) (ad_symbol a)))"
  using assms
  by (auto simp: normalizeStoredAlgoDefinition_def Let_def provider_always split: if_splits)

lemma stored_algo_ok:
  assumes "normalizeStoredAlgoDefinition now v = Some a"
  shows "algo_ok a"
proof -
  note shape = stored_algo_shape [OF assms]
  have clip: "jle (Fin 1) (math_max (Fin 1) (num_or w d)) \<and> math_max (Fin 1) (num_or w d) \<noteq> NaN"
    if "d \<noteq> NaN" for w d
    using math_max_ge [of "Fin 1" "num_or w d"] num_or_not_NaN [OF that] by simp
  obtain w1 where w1: "ad_clipSize a = math_max (Fin 1) (num_or w1 (Fin 1))" using shape(9) by blast
  obtain w2 where w2: "ad_maxPosition a = math_max (Fin 1) (num_or w2 (ad_clipSize a))" using shape(10) by blast
  have "jle (Fin 1) (ad_clipSize a)" "ad_clipSize a \<noteq> NaN" using clip [of "Fin 1" w1] w1 by simp_all
  moreover have "jle (Fin 1) (ad_maxPosition a)" using clip [OF calculation(2)] w2 by simp
  moreover have "ad_symbol a \<noteq> [] \<and> normalizeProductKey (Str (ad_symbol a)) = ad_symbol a"
    using candidates_settled [of _ "as_obj v"] shape(11)
    by (cases "algoMarketCandidates (as_obj v)") (simp_all add: normalizeProductKey_def trim_def is_space_def to_upper_def upper_char_def)
  moreover from this have "ad_instruments a = Some [ad_symbol a]" using shape(12) instruments_of_key by simp
  moreover have "ad_template a \<in> set [''mean-reversion-v2'', ''scale-in'']" using asTemplate_in shape(5) by metis
  moreover have "ad_side a \<in> set [''bid'', ''offer'', ''both'']" unfolding shape(6) by (rule one_of_in) simp
  moreover have "ad_orderType a \<in> set [''market'', ''limit'']" unfolding shape(7) by (simp add: one_of_def)
  moreover have "ad_status a \<in> set [''draft'', ''paused'', ''quoting'', ''held'']" unfolding shape(8) by (rule one_of_in) simp
  ultimately show ?thesis using shape(1-4) by (simp add: algo_ok_def)
qed

subsection \<open>The stored library\<close>

lemma oget_json_norm [js_value]:
  assumes "distinct (map fst d)"
  shows "oget (as_obj (json_norm (Obj d))) k = (if oget d k = Undefined then Undefined else json_norm (oget d k))"
  using map_of_json_norm [OF assms, of k] by (simp add: oget_def as_obj_def split: option.splits)

lemma stored_status: "oget (as_obj (json_norm (algo_obj a))) ''status'' = Str (ad_status a)"
  unfolding algo_obj_def by (subst oget_json_norm) simp_all

lemma loaded_ok: "a \<in> set (loadAlgoLibrary lc now st) \<Longrightarrow> algo_ok a"
  by (auto simp: loadAlgoLibrary_def normalizeAlgoLibrarySnapshot_def sortAlgoDefinitions_def List.map_filter_def
      stored_algo_ok split: cell.splits jsv.splits)

lemma loaded_from_published:
  assumes "a \<in> set (loadAlgoLibrary lc now (fst (publishAlgoLibrary next st)))"
  shows "\<exists>b\<in>set next. normalizeStoredAlgoDefinition now (json_norm (algo_obj (algoDefinitionForStorage b))) = Some a"
  using assms by (auto simp: loadAlgoLibrary_def publishAlgoLibrary_def normalizeAlgoLibrarySnapshot_def
      sortAlgoDefinitions_def List.map_filter_def)

lemma loaded_not_quoting:
  assumes "a \<in> set (loadAlgoLibrary lc now (fst (publishAlgoLibrary next st)))"
  shows "ad_status a \<noteq> ''quoting''"
proof -
  obtain b where b: "normalizeStoredAlgoDefinition now (json_norm (algo_obj (algoDefinitionForStorage b))) = Some a"
    using loaded_from_published [OF assms] by blast
  show ?thesis using stored_algo_shape(8) [OF b]
    by (auto simp: stored_status one_of_def algoDefinitionForStorage_def split: if_splits)
qed

text \<open>C7. The stored library never arms an algo: after any change of the library, whatever the
  definitions were, a later load gives definitions that are all well-formed (a trimmed id, a name, a
  known template, side, order type and status, clip size and maximal position of at least one, its
  symbol as its only instrument) and none of which is quoting. Every load gives well-formed
  definitions, whatever the storage holds.\<close>

theorem library_never_rearms:
  "(\<forall>a\<in>set (loadAlgoLibrary lc now (fst (snd (commit_algos lc updater current st)))).
       algo_ok a \<and> ad_status a \<noteq> ''quoting'')
   \<and> (\<forall>a\<in>set (loadAlgoLibrary lc now st). algo_ok a)"
  using loaded_not_quoting loaded_ok by (simp add: commit_algos_def Let_def)

text \<open>The comparison by code points stands for the locale's.\<close>

fun code_compare :: "string \<Rightarrow> string \<Rightarrow> int" where
  "code_compare [] [] = 0"
| "code_compare [] (c # cs) = -1"
| "code_compare (c # cs) [] = 1"
| "code_compare (c # cs) (d # ds) =
     (if (of_char c :: nat) < of_char d then -1 else if (of_char d :: nat) < of_char c then 1 else code_compare cs ds)"

definition sample_algo :: "string \<Rightarrow> string \<Rightarrow> string \<Rightarrow> algo_definition" where
  "sample_algo ident symbol status = (defaultAlgo (Fin 7) None ''Ted'')\<lparr>ad_id := ident, ad_symbol := symbol, ad_status := status\<rparr>"

lemma library_never_rearms_witness:
  "(let st' = fst (snd (commit_algos code_compare (\<lambda>xs. sample_algo '' a1'' ''NQ'' ''quoting'' # xs) [] []));
        xs = loadAlgoLibrary code_compare (Fin 9) st'
    in map (\<lambda>a. (ad_id a, ad_status a)) xs = [(''a1'', ''held'')]
       \<and> list_all (\<lambda>a. algo_ok a \<and> ad_status a \<noteq> ''quoting'') xs)"
  (is "let st' = ?st; xs = ?load st' in ?ids xs \<and> list_all ?ok xs")
proof -
  have "?ids (?load ?st)" by code_simp
  with library_never_rearms [of code_compare "Fin 9" "\<lambda>xs. sample_algo '' a1'' ''NQ'' ''quoting'' # xs" "[]" "[]"]
  show ?thesis by (simp add: Let_def list_all_iff)
qed

end
