(* ===== verification/AlgoHook.thy ===== *)
theory AlgoHook
  imports AlgoLibrary
begin

text \<open>
  The algo library as a map from ids to definitions: the order of the library is a sort order for
  every collation, the operations of \<open>useAlgoLibrary\<close> refine the updates of the map, and an
  instance of the hook that hears of an operation ends with the list of the one that made it.
\<close>

subsection \<open>The hook as a map\<close>

text \<open>What the program relies on of a locale's comparison: a total order up to equality.\<close>

definition collation :: "(string \<Rightarrow> string \<Rightarrow> int) \<Rightarrow> bool" where
  "collation lc \<longleftrightarrow> (\<forall>s t. (lc s t \<le> 0) = (0 \<le> lc t s)) \<and> (\<forall>s t u. lc s t \<le> 0 \<longrightarrow> lc t u \<le> 0 \<longrightarrow> lc s u \<le> 0)"

lemma collation_sym: "collation lc \<Longrightarrow> (lc s t \<le> 0) = (0 \<le> lc t s)"
  unfolding collation_def by blast

lemma collation_zero: "collation lc \<Longrightarrow> (lc s t = 0) = (lc t s = 0)"
  using collation_sym [of lc s t] collation_sym [of lc t s] by auto

lemma collation_trans: "collation lc \<Longrightarrow> lc s t \<le> 0 \<Longrightarrow> lc t u \<le> 0 \<Longrightarrow> lc s u \<le> 0"
  unfolding collation_def by blast

lemma collation_zero_trans: "collation lc \<Longrightarrow> lc s t \<le> 0 \<Longrightarrow> lc t u \<le> 0 \<Longrightarrow> lc s u = 0 \<Longrightarrow> lc s t = 0 \<and> lc t u = 0"
proof -
  assume c: "collation lc" and st: "lc s t \<le> 0" and tu: "lc t u \<le> 0" and su: "lc s u = 0"
  from su have "lc u s \<le> 0" using collation_zero [OF c, of s u] by simp
  from collation_trans [OF c tu this] collation_trans [OF c this st]
  have "lc t s \<le> 0" "lc u t \<le> 0" by simp_all
  with st tu show ?thesis using collation_sym [OF c, of s t] collation_sym [OF c, of t s]
      collation_sym [OF c, of t u] collation_sym [OF c, of u t] by linarith
qed

text \<open>A lexicographic step: by one comparison first, by an order when it is equal.\<close>

definition lex_before :: "int \<Rightarrow> bool \<Rightarrow> bool" where
  "lex_before r b \<longleftrightarrow> (if r \<noteq> 0 then r \<le> 0 else b)"

lemma algo_before_lex:
  "algo_before lc a b = lex_before (lc (normalizeProductKey (Str (ad_symbol a))) (normalizeProductKey (Str (ad_symbol b))))
     (lex_before (lc (ad_name a) (ad_name b)) (before_desc ad_updatedAt a b))"
  by (simp add: algo_before_def lex_before_def Let_def)

lemma lex_trans:
  assumes "collation lc" and "lex_before (lc s t) p" "lex_before (lc t u) q" and "p \<Longrightarrow> q \<Longrightarrow> r"
  shows "lex_before (lc s u) r"
proof -
  have "lc s t \<le> 0" "lc t u \<le> 0" using assms(2,3) by (auto simp: lex_before_def split: if_splits)
  with collation_trans [OF assms(1) this] collation_zero_trans [OF assms(1) this] assms(2-4)
  show ?thesis by (auto simp: lex_before_def)
qed

lemma lex_total:
  assumes "collation lc" and "p \<or> q"
  shows "lex_before (lc s t) p \<or> lex_before (lc t s) q"
  using assms(2) collation_sym [OF assms(1), of s t] collation_sym [OF assms(1), of t s] by (auto simp: lex_before_def)

interpretation algos: sort_order "algo_before lc" "\<lambda>a. collation lc \<and> is_float (ad_updatedAt a)" for lc
proof
  fix x y z :: algo_definition
  assume ok: "collation lc \<and> is_float (ad_updatedAt x)" "collation lc \<and> is_float (ad_updatedAt y)"
      "collation lc \<and> is_float (ad_updatedAt z)" and b: "algo_before lc x y" "algo_before lc y z"
  then show "algo_before lc x z"
    unfolding algo_before_lex using desc.before_trans [of ad_updatedAt x y z] by (blast intro: lex_trans)
next
  fix x y :: algo_definition
  assume a: "collation lc \<and> is_float (ad_updatedAt x)" "collation lc \<and> is_float (ad_updatedAt y)"
  then have c: "collation lc" by simp
  have "before_desc ad_updatedAt x y \<or> before_desc ad_updatedAt y x"
    using a desc.before_total [of ad_updatedAt x y] by simp
  then show "algo_before lc x y \<or> algo_before lc y x"
    unfolding algo_before_lex by (rule lex_total [OF c lex_total [OF c]])
qed

text \<open>The abstract library: definitions by id.\<close>

definition library_map :: "algo_definition list \<Rightarrow> string \<Rightarrow> algo_definition option" where
  "library_map xs = by_key ad_id xs"

interpretation algo_list: keyed_list ad_id "sortAlgoDefinitions lc" for lc
  by unfold_locales (simp add: sortAlgoDefinitions_def)

lemma library_sorted: "distinct (map ad_id xs) \<Longrightarrow> library_map (sortAlgoDefinitions lc xs) = library_map xs"
  unfolding library_map_def by (rule algo_list.arrange_map)

lemma library_update:
  assumes "\<And>a. ad_id (patch a) = ad_id a"
  shows "library_map (updateAlgo now i patch xs) =
    (library_map xs)(i := map_option (\<lambda>a. (patch a)\<lparr>ad_updatedAt := now\<rparr>) (library_map xs i))"
  unfolding library_map_def updateAlgo_def by (rule by_key_map) (simp add: assms)

lemma operations_distinct:
  assumes "distinct (map ad_id xs)" and "\<And>a. ad_id (patch a) = ad_id a"
  shows "distinct (map ad_id (upsertAlgo now algo xs))" "distinct (map ad_id (removeAlgo i xs))"
    "distinct (map ad_id (updateAlgo now i patch xs))"
proof -
  have "map ad_id (updateAlgo now i patch xs) = map ad_id xs" using assms(2) by (simp add: updateAlgo_def)
  with assms(1) show "distinct (map ad_id (updateAlgo now i patch xs))" by simp
qed (use assms(1) in \<open>auto simp: upsertAlgo_def removeAlgo_def distinct_map_filter\<close>)

lemma sorted_again:
  assumes "collation lc" and "\<forall>a\<in>set xs. is_float (ad_updatedAt a)"
  shows "sortAlgoDefinitions lc (sortAlgoDefinitions lc xs) = sortAlgoDefinitions lc xs"
  unfolding sortAlgoDefinitions_def using assms by (intro algos.sort_idem) auto

text \<open>The operations the hook offers, as updaters of the list and as updates of the map.\<close>

datatype algo_op = Upsert algo_definition | Remove string | Update string "algo_definition \<Rightarrow> algo_definition"

fun algo_updater :: "jsnum \<Rightarrow> algo_op \<Rightarrow> algo_definition list \<Rightarrow> algo_definition list" where
  "algo_updater now (Upsert algo) = upsertAlgo now algo"
| "algo_updater now (Remove i) = removeAlgo i"
| "algo_updater now (Update i patch) = updateAlgo now i patch"

fun algo_change :: "jsnum \<Rightarrow> algo_op \<Rightarrow> (string \<Rightarrow> algo_definition option) \<Rightarrow> string \<Rightarrow> algo_definition option" where
  "algo_change now (Upsert algo) m = m(ad_id algo \<mapsto> algo\<lparr>ad_updatedAt := now\<rparr>)"
| "algo_change now (Remove i) m = m(i := None)"
| "algo_change now (Update i patch) m = m(i := map_option (\<lambda>a. (patch a)\<lparr>ad_updatedAt := now\<rparr>) (m i))"

definition algo_op_ok :: "algo_op \<Rightarrow> bool" where
  "algo_op_ok op \<longleftrightarrow> (case op of Update i patch \<Rightarrow> \<forall>a. ad_id (patch a) = ad_id a | _ \<Rightarrow> True)"

fun run_algo_ops :: "(string \<Rightarrow> string \<Rightarrow> int) \<Rightarrow> (jsnum \<times> algo_op) list \<Rightarrow> algo_definition list \<Rightarrow> algo_definition list" where
  "run_algo_ops lc [] current = current"
| "run_algo_ops lc ((now, op) # steps) current =
     run_algo_ops lc steps (fst (commit_algos lc (algo_updater now op) current []))"

definition library_ok :: "algo_definition list \<Rightarrow> bool" where
  "library_ok xs \<longleftrightarrow> distinct (map ad_id xs) \<and> (\<forall>a\<in>set xs. is_float (ad_updatedAt a))"

lemma commit_refines:
  assumes "library_ok current" and "is_float now" "algo_op_ok op"
  shows "library_map (fst (commit_algos lc (algo_updater now op) current st)) = algo_change now op (library_map current)"
    and "library_ok (fst (commit_algos lc (algo_updater now op) current st))"
proof -
  have d: "distinct (map ad_id (algo_updater now op current))"
    using assms operations_distinct [of current] by (cases op) (auto simp: algo_op_ok_def library_ok_def)
  have m: "library_map (algo_updater now op current) = algo_change now op (library_map current)"
    using assms(3) library_update by (cases op)
      (auto simp: algo_op_ok_def upsertAlgo_def removeAlgo_def library_map_def by_key_filter)
  have f: "\<forall>a\<in>set (algo_updater now op current). is_float (ad_updatedAt a)"
    using assms by (cases op) (auto simp: library_ok_def upsertAlgo_def removeAlgo_def updateAlgo_def)
  show "library_map (fst (commit_algos lc (algo_updater now op) current st)) = algo_change now op (library_map current)"
    using m library_sorted [OF d] by (simp add: commit_algos_def Let_def)
  show "library_ok (fst (commit_algos lc (algo_updater now op) current st))"
    using d f by (simp add: commit_algos_def library_ok_def sortAlgoDefinitions_def Let_def)
qed

lemma commit_heard:
  assumes "collation lc" and "library_ok current" "is_float now"
  shows "sync_algos lc later st' (Some (snd (snd (commit_algos lc (algo_updater now op) current st)))) =
    fst (commit_algos lc (algo_updater now op) current st)"
proof -
  have "\<forall>a\<in>set (algo_updater now op current). is_float (ad_updatedAt a)"
    using assms by (cases op) (auto simp: library_ok_def upsertAlgo_def removeAlgo_def updateAlgo_def)
  with assms(1) show ?thesis
    by (simp add: sync_algos_def commit_algos_def publishAlgoLibrary_def sorted_again Let_def)
qed


lemma code_compare_collation: "collation code_compare"
proof -
  have sym: "(code_compare s t \<le> 0) = (0 \<le> code_compare t s)" for s t
    by (induction s t rule: code_compare.induct) auto
  have trans: "code_compare s t \<le> 0 \<Longrightarrow> code_compare t u \<le> 0 \<Longrightarrow> code_compare s u \<le> 0" for s t u
  proof (induction s t arbitrary: u rule: code_compare.induct)
    case (2 c cs)
    then show ?case by (cases u) auto
  next
    case (4 c cs d ds)
    show ?case
    proof (cases u)
      case Nil
      with 4(3) show ?thesis by simp
    next
      case (Cons e es)
      have "code_compare cs es \<le> 0" if "code_compare cs ds \<le> 0" "code_compare ds es \<le> 0" "(of_char c :: nat) = of_char d"
        using 4(1) [of es] that by simp
      with 4(2,3) Cons show ?thesis
        by (cases "(of_char c :: nat) < of_char d"; cases "(of_char d :: nat) < of_char e";
            cases "(of_char d :: nat) < of_char c"; cases "(of_char e :: nat) < of_char d"; simp)
    qed
  qed simp_all
  show ?thesis unfolding collation_def
  proof (intro conjI allI impI)
    fix s t u show "(code_compare s t \<le> 0) = (0 \<le> code_compare t s)" by (rule sym)
    assume "code_compare s t \<le> 0" "code_compare t u \<le> 0"
    then show "code_compare s u \<le> 0" by (rule trans)
  qed
qed

definition sample_steps :: "(jsnum \<times> algo_op) list" where
  "sample_steps = [(Fin 1, Upsert (sample_algo ''a'' ''NQ'' ''held'')), (Fin 2, Upsert (sample_algo ''b'' ''ES'' ''draft'')),
     (Fin 3, Update ''a'' (\<lambda>a. a\<lparr>ad_status := ''paused''\<rparr>)), (Fin 4, Remove ''b'')]"


end
