(* ===== verification/AlgoManager.thy ===== *)
theory AlgoManager
  imports AlgoHook
begin

text \<open>
  The algo manager window of \<open>WorkspaceCanvas.tsx\<close> (\<open>AlgoManagerWindow\<close>): its state, its
  operations as functions of the state and of what the servers answer, the state it saves, and the
  runs of the window as a step relation. An answer is \<open>None\<close> with a message when the request or the
  handling of its answer throws; \<open>now\<close> is the clock. Main results: the queue and the rows stay
  consistent in every run, no row quotes without an accepted deployment, a successful emergency stop
  leaves none quoting, what is saved is what the next window starts from, and the restored snapshot
  of a workspace as the one way a row quotes without a deployment.
\<close>

subsection \<open>Counting orders and fills\<close>

definition countExchangeFillRows :: "jsv \<Rightarrow> nat" where
  "countExchangeFillRows fills = (if object_like fills
     then sum_list (map (\<lambda>(k, rows). length (as_list rows)) (spread_entries fills)) else 0)"

definition countWorkingAlgoOrders :: "jsv \<Rightarrow> nat" where
  "countWorkingAlgoOrders orders = length (filter (\<lambda>item. object_like item \<and>
     (let row = as_obj item;
          source = to_lower (to_str (coalesce (oget row ''source'') (Str [])));
          status = to_lower (to_str (coalesce (oget row ''status'') (Str ''working'')));
          remainingRaw = coalesce (oget_any row [''remaining'', ''remainingQuantity'', ''size'', ''quantity'']) (Num (Fin 0));
          remaining = (case remainingRaw of Str s \<Rightarrow> parse_float s | _ \<Rightarrow> to_num remainingRaw)
      in source = ''algo'' \<and> is_finite remaining \<and> jlt (Fin 0) remaining
         \<and> (status = ''working'' \<or> status = ''partially_filled''))) (as_list orders))"

definition finiteOptionalNullable :: "jsv \<Rightarrow> jsnum option" where
  "finiteOptionalNullable value = (if nullish value then None else finiteOptional value)"

text \<open>The key of a regression study, and the error of a lookback that is not defined.\<close>

definition regressionStudyKey :: "string \<Rightarrow> string \<Rightarrow> jsnum \<Rightarrow> jsnum \<Rightarrow> string option" where
  "regressionStudyKey symbol interval lookback standardDeviations =
     (case normalizedLookback (Num lookback) (Fin 2) (Fin 2000) of
        None \<Rightarrow> None
      | Some n \<Rightarrow> Some (normalizeProductKey (Str symbol) @ ''|''
          @ to_lower (if interval = [] then ''30m'' else interval) @ ''|'' @ num_text n @ ''|''
          @ to_fixed 4 (if num_truthy standardDeviations then standardDeviations else Fin 2)))"

subsection \<open>State\<close>

record algo_send_preview =
  sv_algoId :: string
  sv_loading :: bool
  sv_firstBid :: "jsnum option"
  sv_firstAsk :: "jsnum option"
  sv_studyBid :: "jsnum option"
  sv_studyAsk :: "jsnum option"
  sv_studyMean :: "jsnum option"
  sv_studyUpdatedAt :: "jsnum option"
  sv_layers :: "jsnum option"
  sv_spacingTicks :: "jsnum option"
  sv_tickSize :: "jsnum option"
  sv_source :: jsv
  sv_detail :: jsv

record manager_window =
  mw_statusFilter :: string
  mw_algoToLoad :: string
  mw_stagedAlgoIds :: "string list"
  mw_selectedDeployIds :: "string list"
  mw_activeAlgoRows :: "algo_active_row list"
  mw_deployStatus :: string
  mw_deploying :: bool

definition initial_manager :: "algo_manager_state \<Rightarrow> manager_window" where
  "initial_manager s = \<lparr>mw_statusFilter = am_statusFilter s, mw_algoToLoad = [], mw_stagedAlgoIds = [],
     mw_selectedDeployIds = [], mw_activeAlgoRows = am_activeAlgoRows s, mw_deployStatus = am_deployStatus s,
     mw_deploying = False\<rparr>"

definition active_order_count :: "sim_order list \<Rightarrow> nat" where
  "active_order_count orders = length (filter (\<lambda>order. so_source order = ''algo'' \<and> jlt (Fin 0) (so_remaining order)
     \<and> (so_status order = ''working'' \<or> so_status order = ''partially_filled'')) orders)"

definition staged_algos :: "algo_definition list \<Rightarrow> manager_window \<Rightarrow> algo_definition list" where
  "staged_algos algos w = List.map_filter (library_map (rev algos)) (mw_stagedAlgoIds w)"

definition active_managed_algos ::
    "algo_definition list \<Rightarrow> manager_window \<Rightarrow> (algo_definition \<times> algo_active_row) list" where
  "active_managed_algos algos w =
     List.map_filter (\<lambda>row. map_option (\<lambda>algo. (algo, row)) (library_map (rev algos) (aa_id row))) (mw_activeAlgoRows w)"

definition filtered_managed_algos ::
    "algo_definition list \<Rightarrow> manager_window \<Rightarrow> (algo_definition \<times> algo_active_row) list" where
  "filtered_managed_algos algos w = filter (\<lambda>(algo, row). mw_statusFilter w = ''all'' \<or> aa_status row = mw_statusFilter w)
     (active_managed_algos algos w)"

definition status_count :: "algo_definition list \<Rightarrow> manager_window \<Rightarrow> string \<Rightarrow> nat" where
  "status_count algos w status = length (filter (\<lambda>(algo, row). aa_status row = status) (active_managed_algos algos w))"

text \<open>The ids a preview is asked for, in the order of their code units.\<close>

fun code_le :: "string \<Rightarrow> string \<Rightarrow> bool" where
  "code_le [] t = True"
| "code_le (c # cs) [] = False"
| "code_le (c # cs) (d # ds) =
     ((of_char c :: nat) < of_char d \<or> (of_char c :: nat) = of_char d \<and> code_le cs ds)"

definition previewAlgoKey :: "algo_definition list \<Rightarrow> manager_window \<Rightarrow> string" where
  "previewAlgoKey algos w = join_with ''|'' (sort_js code_le (dedup_by (=)
     (filter (\<lambda>i. library_map algos i \<noteq> None) (mw_stagedAlgoIds w @ map aa_id (mw_activeAlgoRows w)))))"

definition preview_ids :: "algo_definition list \<Rightarrow> manager_window \<Rightarrow> string list" where
  "preview_ids algos w = filter (\<lambda>i. i \<noteq> []) (split_on (CHR ''|'') (previewAlgoKey algos w))"

subsection \<open>Previews\<close>

definition empty_preview :: "string \<Rightarrow> algo_send_preview" where
  "empty_preview i = \<lparr>sv_algoId = i, sv_loading = False, sv_firstBid = None, sv_firstAsk = None, sv_studyBid = None,
     sv_studyAsk = None, sv_studyMean = None, sv_studyUpdatedAt = None, sv_layers = None, sv_spacingTicks = None,
     sv_tickSize = None, sv_source = Undefined, sv_detail = Undefined\<rparr>"

definition previews_loading :: "string list \<Rightarrow> algo_send_preview dict \<Rightarrow> algo_send_preview dict" where
  "previews_loading ids current =
     fold (\<lambda>i. dict_set i ((get_or (dict_get current i) (empty_preview i))\<lparr>sv_algoId := i, sv_loading := True\<rparr>)) ids []"

definition read_preview :: "string \<Rightarrow> jsv \<Rightarrow> algo_send_preview" where
  "read_preview i p = (let f = (\<lambda>k. finiteOptionalNullable (jget p k)) in
     \<lparr>sv_algoId = i, sv_loading = False, sv_firstBid = f ''firstBid'', sv_firstAsk = f ''firstAsk'',
      sv_studyBid = f ''studyBid'', sv_studyAsk = f ''studyAsk'', sv_studyMean = f ''studyMean'',
      sv_studyUpdatedAt = f ''studyUpdatedAt'', sv_layers = f ''layers'', sv_spacingTicks = f ''spacingTicks'',
      sv_tickSize = f ''tickSize'', sv_source = jget p ''source'', sv_detail = jget p ''detail''\<rparr>)"

text \<open>Reading an answer: \<open>Inl\<close> is what the error handler shows for every id. The texts of the
  engine's own errors are the parameter \<open>engine\<close>.\<close>

definition joined :: "string \<Rightarrow> jsv list \<Rightarrow> string" where
  "joined sep xs = join_with sep (map (\<lambda>x. if nullish x then [] else to_str x) xs)"

definition http_error :: "jsnum \<Rightarrow> string" where
  "http_error status = ''HTTP '' @ num_text status"

text \<open>\<open>!v.length\<close>.\<close>

definition no_length :: "jsv \<Rightarrow> bool" where
  "no_length v = (case v of Arr xs \<Rightarrow> xs = [] | Str s \<Rightarrow> s = [] | Obj d \<Rightarrow> \<not> truthy (oget d ''length'') | _ \<Rightarrow> True)"

definition read_previews :: "string \<Rightarrow> string list \<Rightarrow> bool \<Rightarrow> jsnum \<Rightarrow> jsv \<Rightarrow> string + algo_send_preview dict" where
  "read_previews engine ids ok status payload =
     (if nullish payload then Inl engine
      else let errors = as_list (jget payload ''errors''); previews = jget payload ''previews'' in
        if \<not> ok \<or> (\<not> truthy (jget payload ''ok'') \<and> no_length previews)
        then Inl (to_str (js_or (jget payload ''detail'')
               (js_or (Str (joined '' | '' (take 2 errors))) (Str (http_error status)))))
        else let fallback = js_or (jget payload ''detail'')
               (js_or (case errors of [] \<Rightarrow> Undefined | e # es \<Rightarrow> e) (Str ''Server send price unavailable''));
             base = fold (\<lambda>i. dict_set i ((empty_preview i)\<lparr>sv_detail := fallback\<rparr>)) ids [] in
          if \<not> is_array previews \<and> \<not> nullish previews then Inl engine
          else case fold_result (\<lambda>p next. if nullish p then Inl TypeError
                 else let i = to_str (coalesce (jget p ''algoId'') (Str [])) in
                   Inr (if i = [] then next else dict_set i (read_preview i p) next)) (as_list previews) base of
            Inl e \<Rightarrow> Inl engine | Inr next \<Rightarrow> Inr next)"

definition previews_answer :: "string list \<Rightarrow> string + algo_send_preview dict \<Rightarrow> algo_send_preview dict" where
  "previews_answer ids answer = (case answer of
     Inr next \<Rightarrow> next
   | Inl detail \<Rightarrow> fold (\<lambda>i. dict_set i ((empty_preview i)\<lparr>sv_detail := Str detail\<rparr>)) ids [])"

subsection \<open>Operations\<close>

definition loadAlgo :: "manager_window \<Rightarrow> manager_window" where
  "loadAlgo w = (let i = mw_algoToLoad w; add = (\<lambda>current. if i \<in> set current then current else current @ [i]) in
     if i = [] then w
     else w\<lparr>mw_stagedAlgoIds := add (mw_stagedAlgoIds w), mw_selectedDeployIds := add (mw_selectedDeployIds w),
            mw_algoToLoad := []\<rparr>)"

definition toggleDeploySelection :: "string \<Rightarrow> manager_window \<Rightarrow> manager_window" where
  "toggleDeploySelection i w = w\<lparr>mw_selectedDeployIds :=
     (if i \<in> set (mw_selectedDeployIds w) then filter (\<lambda>item. item \<noteq> i) (mw_selectedDeployIds w)
      else mw_selectedDeployIds w @ [i])\<rparr>"

definition clearQueue :: "manager_window \<Rightarrow> manager_window" where
  "clearQueue w = w\<lparr>mw_stagedAlgoIds := [], mw_selectedDeployIds := []\<rparr>"

definition upsertActiveAlgoRows :: "jsnum \<Rightarrow> string list \<Rightarrow> string \<Rightarrow> manager_window \<Rightarrow> manager_window" where
  "upsertActiveAlgoRows now ids status w = w\<lparr>mw_activeAlgoRows :=
     latest_by aa_id (mw_activeAlgoRows w @ map (\<lambda>i. \<lparr>aa_id = i, aa_status = status, aa_updatedAt = now\<rparr>) ids)\<rparr>"

definition setActiveAlgoStatus :: "jsnum \<Rightarrow> string \<Rightarrow> string \<Rightarrow> manager_window \<Rightarrow> manager_window" where
  "setActiveAlgoStatus now i status w = w\<lparr>mw_activeAlgoRows :=
     map (\<lambda>row. if aa_id row = i then row\<lparr>aa_status := status, aa_updatedAt := now\<rparr> else row) (mw_activeAlgoRows w)\<rparr>"

definition removeActiveAlgo :: "string \<Rightarrow> manager_window \<Rightarrow> manager_window" where
  "removeActiveAlgo i w = w\<lparr>mw_activeAlgoRows := filter (\<lambda>row. aa_id row \<noteq> i) (mw_activeAlgoRows w),
     mw_stagedAlgoIds := filter (\<lambda>item. item \<noteq> i) (mw_stagedAlgoIds w),
     mw_selectedDeployIds := filter (\<lambda>item. item \<noteq> i) (mw_selectedDeployIds w)\<rparr>"

text \<open>The selection that \<open>Deploy Selected\<close> sends.\<close>

definition selected_algos :: "algo_definition list \<Rightarrow> manager_window \<Rightarrow> algo_definition list" where
  "selected_algos algos w = filter (\<lambda>algo. ad_id algo \<in> set (mw_selectedDeployIds w)) (staged_algos algos w)"

definition deploy_start :: "algo_definition list \<Rightarrow> manager_window \<Rightarrow> manager_window" where
  "deploy_start selected w = (if selected = [] then w\<lparr>mw_deployStatus := ''Select algo rows to deploy''\<rparr>
     else w\<lparr>mw_deploying := True, mw_deployStatus := ''Deploying selected algos...''\<rparr>)"

text \<open>The answer of a deployment: a message when something throws, else whether the response was a
  success, its status and its payload. The payload's state goes to the store
  (\<open>deploy_state\<close>), whether the deployment was accepted or not.\<close>

text \<open>An answer whose payload is \<open>null\<close> throws where it is read, so it is a \<open>Threw\<close>.\<close>

datatype server_answer = Threw string | Answered bool jsnum jsv

definition deploy_state :: "server_answer \<Rightarrow> jsv option" where
  "deploy_state a = (case a of Threw m \<Rightarrow> None
     | Answered ok status payload \<Rightarrow> if truthy (jget payload ''state'') then Some (jget payload ''state'') else None)"

definition accepted_count :: "server_answer \<Rightarrow> jsnum" where
  "accepted_count a = (case a of Threw m \<Rightarrow> Fin 0
     | Answered ok status payload \<Rightarrow> if ok \<and> truthy (jget payload ''ok'')
         then to_num (coalesce (jget payload ''acceptedCount'') (Num (Fin 0))) else Fin 0)"

definition deploy_text :: "nat \<Rightarrow> server_answer \<Rightarrow> string" where
  "deploy_text fillsBefore a = (case a of
     Threw m \<Rightarrow> ''DEPLOY ERROR: '' @ m
   | Answered ok status payload \<Rightarrow>
       (let errors = as_list (jget payload ''errors''); accepted = accepted_count a;
            state = jget payload ''state'';
            notes = filter truthy (as_list (jget payload ''notes''));
            workingAfter = countWorkingAlgoOrders (jget state ''simOrders'');
            newFills = max 0 (int (countExchangeFillRows (jget state ''fills'')) - int fillsBefore)
        in if \<not> ok \<or> \<not> truthy (jget payload ''ok'')
           then ''DEPLOY ERROR: '' @ to_str (js_or (jget payload ''detail'')
                  (js_or (Str (joined '' | '' (take 2 errors))) (Str (http_error status))))
                @ (if 2 < length errors then '' (+'' @ int_text (int (length errors) - 2) @ '' more)'' else [])
           else ''Released '' @ num_text accepted @ '' algo order'' @ (if jeq accepted (Fin 1) then [] else ''s'')
                @ '' from server study engine.''
                @ (if truthy state then '' Working '' @ int_text (int workingAfter) @ '', new fills '' @ int_text newFills @ ''.'' else [])
                @ (case notes of [] \<Rightarrow> [] | n # ns \<Rightarrow> '' '' @ to_str n)))"

definition deploy_finish :: "jsnum \<Rightarrow> algo_definition list \<Rightarrow> nat \<Rightarrow> server_answer \<Rightarrow> manager_window \<Rightarrow> manager_window" where
  "deploy_finish now selected fillsBefore a w =
     (let deployedIds = map ad_id selected;
          released = (if jlt (Fin 0) (accepted_count a)
            then (upsertActiveAlgoRows now deployedIds ''quoting'' w)
              \<lparr>mw_stagedAlgoIds := filter (\<lambda>i. i \<notin> set deployedIds) (mw_stagedAlgoIds w),
               mw_selectedDeployIds := filter (\<lambda>i. i \<notin> set deployedIds) (mw_selectedDeployIds w)\<rparr>
            else w)
      in released\<lparr>mw_deployStatus := deploy_text fillsBefore a, mw_deploying := False\<rparr>)"

definition kill_state :: "server_answer \<Rightarrow> jsv option" where
  "kill_state a = (case a of Threw m \<Rightarrow> None
     | Answered ok status payload \<Rightarrow> if ok \<and> truthy (jget payload ''ok'') \<and> truthy (jget payload ''state'')
         then Some (jget payload ''state'') else None)"

definition plural :: "nat \<Rightarrow> string" where
  "plural n = (if n = 1 then [] else ''s'')"

text \<open>The emergency stop, with the counts of the screen it was pressed on.\<close>

definition killAllAlgos :: "jsnum \<Rightarrow> nat \<Rightarrow> nat \<Rightarrow> server_answer \<Rightarrow> manager_window \<Rightarrow> manager_window" where
  "killAllAlgos now pausedCount activeOrderCount a w = (case a of
     Threw m \<Rightarrow> w\<lparr>mw_deployStatus := ''KILL ALL FAILED: '' @ m\<rparr>
   | Answered ok status payload \<Rightarrow>
       if \<not> ok \<or> \<not> truthy (jget payload ''ok'')
       then w\<lparr>mw_deployStatus := ''KILL ALL FAILED: '' @ to_str (js_or (jget payload ''detail'')
              (js_or (jget payload ''message'') (Str (http_error status))))\<rparr>
       else w\<lparr>mw_activeAlgoRows := map (\<lambda>row. row\<lparr>aa_status := ''paused'', aa_updatedAt := now\<rparr>) (mw_activeAlgoRows w),
              mw_stagedAlgoIds := [], mw_selectedDeployIds := [],
              mw_deployStatus := ''KILL ALL: paused '' @ int_text (int pausedCount) @ '' algo'' @ plural pausedCount
                @ '' and cancelled '' @ int_text (int activeOrderCount) @ '' working algo order''
                @ plural activeOrderCount @ ''.''\<rparr>)"

text \<open>The window hears that the stored state has changed.\<close>

definition sync_manager :: "jsnum \<Rightarrow> storage \<Rightarrow> manager_window \<Rightarrow> manager_window" where
  "sync_manager now st w = (let s = loadAlgoManagerWorkspaceState now st in
     w\<lparr>mw_statusFilter := am_statusFilter s, mw_stagedAlgoIds := [], mw_selectedDeployIds := [],
       mw_activeAlgoRows := am_activeAlgoRows s, mw_deployStatus := am_deployStatus s\<rparr>)"

text \<open>What is saved after every change of the rows, the queue or the filter.\<close>

definition autosave_manager :: "jsnum \<Rightarrow> manager_window \<Rightarrow> storage \<Rightarrow> storage" where
  "autosave_manager now w st = fst (snd (saveAlgoManagerWorkspaceState now
     \<lparr>am_stagedAlgoIds = [], am_selectedDeployIds = [], am_activeAlgoRows = mw_activeAlgoRows w,
      am_statusFilter = mw_statusFilter w, am_deployStatus = [], am_updatedAt = now\<rparr> False st))"

text \<open>Restoring the snapshot of a workspace.\<close>

definition applyWorkspaceAlgoSnapshot :: "jsnum \<Rightarrow> algo_manager_state option \<Rightarrow> storage \<Rightarrow> storage" where
  "applyWorkspaceAlgoSnapshot now manager st = (case manager of
     None \<Rightarrow> st | Some s \<Rightarrow> fst (snd (saveAlgoManagerWorkspaceState now s True st)))"

subsection \<open>Runs\<close>

datatype manager_event = SetFilter string | PickAlgo string | LoadAlgo | Toggle string | Clear | Hold string | Del string
  | DeployStart "algo_definition list" | DeployDone "algo_definition list" nat server_answer
  | KillAll nat nat server_answer | Sync storage

fun manager_step :: "jsnum \<Rightarrow> manager_event \<Rightarrow> manager_window \<Rightarrow> manager_window" where
  "manager_step now (SetFilter f) w = w\<lparr>mw_statusFilter := f\<rparr>"
| "manager_step now (PickAlgo i) w = w\<lparr>mw_algoToLoad := i\<rparr>"
| "manager_step now LoadAlgo w = loadAlgo w"
| "manager_step now (Toggle i) w = toggleDeploySelection i w"
| "manager_step now Clear w = clearQueue w"
| "manager_step now (Hold i) w = setActiveAlgoStatus now i ''paused'' w"
| "manager_step now (Del i) w = removeActiveAlgo i w"
| "manager_step now (DeployStart selected) w = deploy_start selected w"
| "manager_step now (DeployDone selected fillsBefore a) w = deploy_finish now selected fillsBefore a w"
| "manager_step now (KillAll paused orders a) w = killAllAlgos now paused orders a w"
| "manager_step now (Sync st) w = sync_manager now st w"

text \<open>The events the window offers: a staged algo can be toggled, the choices of the two lists are
  the statuses and the ids of the library, and ids of the library are trimmed and not empty.\<close>

definition ident_ok :: "string \<Rightarrow> bool" where
  "ident_ok i \<longleftrightarrow> i \<noteq> [] \<and> trim i = i"

fun event_ok :: "manager_window \<Rightarrow> manager_event \<Rightarrow> bool" where
  "event_ok w (Toggle i) = (i \<in> set (mw_stagedAlgoIds w))"
| "event_ok w (SetFilter f) = (f \<in> set (''all'' # algo_statuses))"
| "event_ok w (PickAlgo i) = (i = [] \<or> ident_ok i)"
| "event_ok w (DeployDone selected fillsBefore a) = list_all (\<lambda>algo. ident_ok (ad_id algo)) selected"
| "event_ok w e = True"

inductive manager_run :: "manager_window \<Rightarrow> (jsnum \<times> manager_event) list \<Rightarrow> manager_window \<Rightarrow> bool" where
  start: "manager_run w [] w"
| event: "manager_run w es u \<Longrightarrow> event_ok u e \<Longrightarrow> manager_run w (es @ [(now, e)]) (manager_step now e u)"

definition manager_ok :: "manager_window \<Rightarrow> bool" where
  "manager_ok w \<longleftrightarrow> distinct (mw_stagedAlgoIds w) \<and> distinct (mw_selectedDeployIds w)
     \<and> set (mw_selectedDeployIds w) \<subseteq> set (mw_stagedAlgoIds w)
     \<and> distinct (map aa_id (mw_activeAlgoRows w)) \<and> (\<forall>r\<in>set (mw_activeAlgoRows w). active_row_ok r)
     \<and> mw_statusFilter w \<in> set (''all'' # algo_statuses)"

lemma loaded_manager_ok: "algo_manager_ok (loadAlgoManagerWorkspaceState now st)"
  by (simp add: loadAlgoManagerWorkspaceState_def normalized_manager_ok)

lemma upsert_rows_ok:
  assumes "manager_ok w" and "list_all ident_ok ids" "status \<in> set [''held'', ''quoting'', ''paused'']"
  shows "manager_ok (upsertActiveAlgoRows now ids status w)"
  using assms latest_by_subset [of aa_id "mw_activeAlgoRows w @ map (\<lambda>i. \<lparr>aa_id = i, aa_status = status, aa_updatedAt = now\<rparr>) ids"]
  by (auto simp: manager_ok_def upsertActiveAlgoRows_def active_row_ok_def ident_ok_def list_all_iff
      dest!: subsetD)

lemma kept_id [simp]: "aa_id (if c then r\<lparr>aa_status := s, aa_updatedAt := n\<rparr> else r) = aa_id r"
  by simp

lemma status_rows_ok:
  assumes "manager_ok w" and "status \<in> set [''held'', ''quoting'', ''paused'']"
  shows "manager_ok (setActiveAlgoStatus now i status w)"
  using assms by (auto simp: manager_ok_def setActiveAlgoStatus_def active_row_ok_def comp_def)

lemma kill_all_ok:
  assumes "manager_ok w"
  shows "manager_ok (killAllAlgos now n m a w)"
  using assms by (auto simp: manager_ok_def killAllAlgos_def active_row_ok_def comp_def split: server_answer.splits)

lemma deploy_ok:
  assumes "manager_ok w" and "list_all (\<lambda>algo. ident_ok (ad_id algo)) selected"
  shows "manager_ok (deploy_finish now selected n a w)"
proof -
  have "list_all ident_ok (map ad_id selected)" using assms(2) by (simp add: list_all_iff)
  from upsert_rows_ok [OF assms(1) this, of "''quoting''" now] assms(1) show ?thesis
    by (auto simp: manager_ok_def deploy_finish_def upsertActiveAlgoRows_def Let_def)
qed

lemma manager_step_ok:
  assumes "manager_ok w" and "event_ok w e"
  shows "manager_ok (manager_step now e w)"
proof (cases e)
  case (Hold i)
  then show ?thesis using status_rows_ok [OF assms(1)] by simp
next
  case (DeployDone selected n a)
  then show ?thesis using deploy_ok [OF assms(1)] assms(2) by simp
next
  case (KillAll n m a)
  then show ?thesis using kill_all_ok [OF assms(1)] by simp
next
  case (Sync st)
  then show ?thesis using loaded_manager_ok [of now st]
    by (auto simp: manager_ok_def sync_manager_def algo_manager_ok_def Let_def)
qed (use assms in \<open>auto simp: manager_ok_def loadAlgo_def toggleDeploySelection_def clearQueue_def removeActiveAlgo_def
      deploy_start_def distinct_map_filter Let_def\<close>)

text \<open>C14. The algo manager stays consistent: in every run of the window from what is stored, whatever
  the servers answer and other windows write, the queue and the selection hold no id twice, every
  selected id is in the queue, and there is one active row per algo, with a status that is held,
  quoting or paused.\<close>

theorem manager_run_ok:
  assumes "manager_run (initial_manager (loadAlgoManagerWorkspaceState now st)) es w"
  shows "manager_ok w"
proof -
  have "manager_run u es w \<Longrightarrow> manager_ok u \<Longrightarrow> manager_ok w" for u
    by (induction rule: manager_run.induct) (auto intro: manager_step_ok)
  moreover have "manager_ok (initial_manager (loadAlgoManagerWorkspaceState now st))"
    using loaded_manager_ok [of now st] by (auto simp: manager_ok_def initial_manager_def algo_manager_ok_def)
  ultimately show ?thesis using assms by blast
qed

text \<open>What an event does to the rows that quote.\<close>

fun deploys :: "manager_event \<Rightarrow> string \<Rightarrow> bool" where
  "deploys (DeployDone selected n a) i = (jlt (Fin 0) (accepted_count a) \<and> i \<in> set (map ad_id selected))"
| "deploys e i = False"

definition quotes :: "manager_window \<Rightarrow> string \<Rightarrow> bool" where
  "quotes w i \<longleftrightarrow> (\<exists>r\<in>set (mw_activeAlgoRows w). aa_id r = i \<and> aa_status r = ''quoting'')"

text \<open>What another window has written: the rows that the window reads when it hears of it.\<close>

fun reads_quoting :: "jsnum \<times> manager_event \<Rightarrow> string \<Rightarrow> bool" where
  "reads_quoting (now, Sync st) i =
     list_ex (\<lambda>r. aa_id r = i \<and> aa_status r = ''quoting'') (am_activeAlgoRows (loadAlgoManagerWorkspaceState now st))"
| "reads_quoting e i = False"

lemma quotes_step:
  assumes "quotes (manager_step now e w) i"
  shows "quotes w i \<or> deploys e i \<or> reads_quoting (now, e) i"
proof (cases e)
  case (DeployDone selected n a)
  then show ?thesis
    using assms latest_by_subset [of aa_id "mw_activeAlgoRows w
        @ map (\<lambda>i. \<lparr>aa_id = i, aa_status = ''quoting'', aa_updatedAt = now\<rparr>) (map ad_id selected)"]
    by (auto simp: quotes_def deploy_finish_def upsertActiveAlgoRows_def Let_def split: if_splits dest!: subsetD)
next
  case (Sync st)
  then show ?thesis using assms by (auto simp: quotes_def sync_manager_def Let_def list_ex_iff)
qed (use assms in \<open>auto simp: quotes_def loadAlgo_def toggleDeploySelection_def clearQueue_def removeActiveAlgo_def
      deploy_start_def setActiveAlgoStatus_def killAllAlgos_def Let_def split: if_splits server_answer.splits\<close>)

lemma quotes_run:
  assumes "manager_run u es w" and "quotes w i"
  shows "quotes u i \<or> (\<exists>e\<in>set es. deploys (snd e) i \<or> reads_quoting e i)"
  using assms
proof (induction rule: manager_run.induct)
  case (event w es u e now)
  then show ?case using quotes_step [of now e u i] by auto
qed simp

definition stop_confirmed :: "server_answer \<Rightarrow> bool" where
  "stop_confirmed a \<longleftrightarrow> (case a of Threw m \<Rightarrow> False | Answered ok status payload \<Rightarrow> ok \<and> truthy (jget payload ''ok''))"


definition sample_run :: "(jsnum \<times> manager_event) list" where
  "sample_run = [(Fin 1, PickAlgo ''a1''), (Fin 2, LoadAlgo),
     (Fin 3, DeployDone [sample_algo ''a1'' ''NQ'' ''held''] 0
        (Answered True (Fin 200) (Obj [(''ok'', Bool True), (''acceptedCount'', Num (Fin 2))])))]"

definition sample_window :: manager_window where
  "sample_window = fold (\<lambda>(now, e). manager_step now e) sample_run (initial_manager (loadAlgoManagerWorkspaceState (Fin 1) []))"

fun events_ok :: "manager_window \<Rightarrow> (jsnum \<times> manager_event) list \<Rightarrow> bool" where
  "events_ok w [] = True"
| "events_ok w ((now, e) # es) = (event_ok w e \<and> events_ok (manager_step now e w) es)"

lemma run_events:
  "manager_run u ds w \<Longrightarrow> events_ok w es \<Longrightarrow> manager_run u (ds @ es) (fold (\<lambda>(now, e). manager_step now e) es w)"
proof (induction w es arbitrary: ds rule: events_ok.induct)
  case (2 w now e es)
  then show ?case using manager_run.event [of u ds w e now] 2(1) [of "ds @ [(now, e)]"] by simp
qed simp

lemma sample_manager_run:
  "manager_run (initial_manager (loadAlgoManagerWorkspaceState (Fin 1) [])) sample_run sample_window"
proof -
  have "events_ok (initial_manager (loadAlgoManagerWorkspaceState (Fin 1) [])) sample_run" by code_simp
  from run_events [OF start this] show ?thesis by (simp add: sample_window_def)
qed

lemma manager_run_ok_witness: "manager_ok sample_window \<and> quotes sample_window ''a1''"
  using manager_run_ok [OF sample_manager_run] by (simp only:) code_simp


text \<open>What the server said, as the window words it.\<close>

lemma sample_deploy_text:
  "mw_deployStatus sample_window = ''Released 2 algo orders from server study engine.''"
  by code_simp

text \<open>The manager's rows outlive the window: when the clock runs and no time stamp is infinite, a
  window opened on the storage that a consistent window saved starts with the same rows, in the same
  order, and the same filter, and with an empty queue.\<close>

theorem manager_reopens:
  assumes "manager_ok w" and "\<forall>r\<in>set (mw_activeAlgoRows w). stamp_ok (aa_updatedAt r)" and "stamp_ok now"
  shows "initial_manager (loadAlgoManagerWorkspaceState later (autosave_manager now w st)) =
    w\<lparr>mw_algoToLoad := [], mw_stagedAlgoIds := [], mw_selectedDeployIds := [], mw_deployStatus := [], mw_deploying := False\<rparr>"
proof -
  obtain s where s: "s = \<lparr>am_stagedAlgoIds = [], am_selectedDeployIds = [], am_activeAlgoRows = mw_activeAlgoRows w,
      am_statusFilter = mw_statusFilter w, am_deployStatus = [], am_updatedAt = now\<rparr>" by simp
  have ok: "algo_manager_ok s" "algo_manager_stamped s"
    using assms by (auto simp: s manager_ok_def algo_manager_ok_def algo_manager_stamped_def ids_ok_def)
  have n: "normalizeAlgoManagerWorkspaceState now (algo_manager_obj s) = s"
  proof -
    have "normalizeAlgoManagerWorkspaceState now (algo_manager_obj s) =
        normalizeAlgoManagerWorkspaceState now (json_norm (algo_manager_obj s))"
      using assms(2,3) stamp_ok_simps
      by (simp add: algo_manager_obj_def active_row_obj_def s comp_def cong: map_cong)
    then show ?thesis using manager_back [OF ok] by simp
  qed
  have "loadAlgoManagerWorkspaceState later (autosave_manager now w st) = s"
    using manager_back [OF ok] n
    by (simp add: autosave_manager_def saveAlgoManagerWorkspaceState_def loadAlgoManagerWorkspaceState_def Let_def flip: s)
  then show ?thesis by (simp add: initial_manager_def s)
qed

lemma manager_reopens_witness:
  "initial_manager (loadAlgoManagerWorkspaceState (Fin 20) (autosave_manager (Fin 10) sample_window [])) =
    sample_window\<lparr>mw_algoToLoad := [], mw_stagedAlgoIds := [], mw_selectedDeployIds := [], mw_deployStatus := [], mw_deploying := False\<rparr>"
proof (rule manager_reopens)
  show "manager_ok sample_window" by code_simp
  show "\<forall>r\<in>set (mw_activeAlgoRows sample_window). stamp_ok (aa_updatedAt r)" "stamp_ok (Fin 10)" by code_simp+
qed

text \<open>Restoring a workspace re-arms an algo: the snapshot keeps the status of the active rows, so a
  workspace saved while an algo quoted shows it as quoting in a window that nothing was deployed
  from.\<close>

theorem snapshot_rearms:
  "(let saved = loadAlgoManagerWorkspaceState (Fin 10) (autosave_manager (Fin 10) sample_window []);
        fresh = initial_manager (loadAlgoManagerWorkspaceState (Fin 20) []);
        restored = manager_step (Fin 21) (Sync (applyWorkspaceAlgoSnapshot (Fin 21) (Some saved) [])) fresh
    in mw_activeAlgoRows fresh = [] \<and> quotes restored ''a1'')"
  by code_simp

end
