(* ===== verification/Workspaces.thy ===== *)
theory Workspaces
  imports AlgoManager
begin

text \<open>
  Workspaces of \<open>WorkspaceCanvas.tsx\<close>: the normaliser of a stored or served workspace, the keys of
  browser storage, the list of named workspaces, the backups, what is sent to the server and what is
  read from it. Windows and rows keep whatever properties the payload has, so they are
  dictionaries. \<open>normalizeWorkspace\<close> throws on a window or row that is \<open>null\<close>; every loader
  catches that. Main results: what a normalised workspace satisfies, that a stored workspace comes
  back under its name, and the laws of the list and of the backups.
\<close>

subsection \<open>The normaliser\<close>

record saved_workspace =
  sw_workspaceId :: "string option"
  sw_name :: string
  sw_operator :: string
  sw_windows :: "jobj list"
  sw_rows :: "jobj list"
  sw_alerts :: "alert_rule list option"
  sw_algoLibrary :: "algo_definition list option"
  sw_algoManager :: "algo_manager_state option"
  sw_selectedProvider :: "string option"
  sw_selectedSymbol :: jsv
  sw_desktopToolbarBounds :: jsv
  sw_updatedAt :: jsnum
  sw_recoveredFrom :: jsv
  sw_serverFile :: jsv

definition normalizeDesktopWindowState :: "jsv \<Rightarrow> string" where
  "normalizeDesktopWindowState value =
     (if is_lit value ''minimized'' then ''minimized''
      else if is_lit value ''maximized'' then ''maximized'' else ''normal'')"

definition normalize_window :: "jsv \<Rightarrow> jobj" where
  "normalize_window item =
     (let collapsed = Str (if truthy (jget item ''collapsed'') then ''minimized'' else ''normal'');
          w = dict_set ''desktopState'' (Str (normalizeDesktopWindowState (coalesce (jget item ''desktopState'') collapsed)))
                (dict_set ''provider'' (Str (normalizeProviderKey (jget item ''provider''))) (spread_entries item))
      in if is_lit (jget item ''kind'') ''depthLadder'' \<and> truthy (jget item ''depthLadderSettings'')
         then dict_set ''depthLadderSettings''
                (depth_settings_obj (normalizeDepthLadderSettings (jget item ''depthLadderSettings''))) w
         else w)"

definition normalize_row :: "jsv \<Rightarrow> jobj" where
  "normalize_row row = dict_set ''provider'' (Str (normalizeProviderKey (jget row ''provider''))) (spread_entries row)"

definition normalize_alerts :: "jsnum \<Rightarrow> jsv \<Rightarrow> alert_rule list" where
  "normalize_alerts now v =
     List.map_filter (\<lambda>(i, r). normalizeAlertRule now r i) (enumerate 0 (as_list v))"

definition normalizeWorkspace ::
    "(string \<Rightarrow> string \<Rightarrow> int) \<Rightarrow> jsnum \<Rightarrow> jsv \<Rightarrow> saved_workspace option js_result" where
  "normalizeWorkspace lc now raw =
     (if \<not> truthy raw \<or> \<not> is_array (jget raw ''windows'') then Inr None
      else let windows = as_list (jget raw ''windows''); rows = as_list (jget raw ''rows'') in
        if list_ex nullish windows \<or> list_ex nullish rows then Inl TypeError
        else Inr (Some
          \<lparr>sw_workspaceId = (case jget raw ''workspaceId'' of
              Str s \<Rightarrow> if trim s = [] then None else Some (trim s) | _ \<Rightarrow> None),
           sw_name = to_str (js_or (jget raw ''name'') (Str ''Cerious CME Desk'')),
           sw_operator = to_str (js_or (jget raw ''operator'') (Str default_operator)),
           sw_windows = map normalize_window (filter (\<lambda>item. \<not> isRemovedWindowKind (jget item ''kind'')) windows),
           sw_rows = map normalize_row rows,
           sw_alerts = Some (normalize_alerts now (jget raw ''alerts'')),
           sw_algoLibrary = normalizeAlgoLibrarySnapshot lc now (jget raw ''algoLibrary''),
           sw_algoManager = (if truthy (jget raw ''algoManager'')
              then Some (normalizeAlgoManagerWorkspaceState now (jget raw ''algoManager'')) else None),
           sw_selectedProvider = Some (normalizeProviderKey (jget raw ''selectedProvider'')),
           sw_selectedSymbol = jget raw ''selectedSymbol'',
           sw_desktopToolbarBounds = jget raw ''desktopToolbarBounds'',
           sw_updatedAt = to_num (js_or (jget raw ''updatedAt'') (Num now)),
           sw_recoveredFrom = jget raw ''recoveredFrom'',
           sw_serverFile = jget raw ''serverFile''\<rparr>))"

definition opt_arr :: "('a \<Rightarrow> jsv) \<Rightarrow> 'a list option \<Rightarrow> jsv" where
  "opt_arr f x = (case x of None \<Rightarrow> Undefined | Some xs \<Rightarrow> Arr (map f xs))"

definition workspace_obj :: "saved_workspace \<Rightarrow> jsv" where
  "workspace_obj w = Obj
     [(''workspaceId'', opt_str (sw_workspaceId w)), (''name'', Str (sw_name w)), (''operator'', Str (sw_operator w)),
      (''windows'', Arr (map Obj (sw_windows w))), (''rows'', Arr (map Obj (sw_rows w))),
      (''alerts'', opt_arr alert_rule_obj (sw_alerts w)), (''algoLibrary'', opt_arr algo_obj (sw_algoLibrary w)),
      (''algoManager'', case sw_algoManager w of None \<Rightarrow> Undefined | Some s \<Rightarrow> algo_manager_obj s),
      (''selectedProvider'', opt_str (sw_selectedProvider w)), (''selectedSymbol'', sw_selectedSymbol w),
      (''desktopToolbarBounds'', sw_desktopToolbarBounds w), (''updatedAt'', Num (sw_updatedAt w)),
      (''recoveredFrom'', sw_recoveredFrom w), (''serverFile'', sw_serverFile w)]"

subsection \<open>Browser storage\<close>

definition storage_key :: string where "storage_key = ''cerious.workspace.desktop.v1''"

definition workspace_names_key :: string where "workspace_names_key = ''cerious.workspace.names.v1''"

definition default_workspace_key :: string where "default_workspace_key = ''cerious.workspace.default.v1''"

definition workspace_backups_key :: string where "workspace_backups_key = ''cerious.workspace.backups.v1''"

definition max_workspace_backups :: nat where "max_workspace_backups = 12"

definition caught :: "'a \<Rightarrow> 'a js_result \<Rightarrow> 'a" where
  "caught d r = (case r of Inl e \<Rightarrow> d | Inr x \<Rightarrow> x)"

definition load_workspace_at ::
    "(string \<Rightarrow> string \<Rightarrow> int) \<Rightarrow> jsnum \<Rightarrow> string \<Rightarrow> storage \<Rightarrow> saved_workspace option" where
  "load_workspace_at lc now key st = (case get_item st key of
     Absent \<Rightarrow> None | Malformed \<Rightarrow> None | Json v \<Rightarrow> caught None (normalizeWorkspace lc now v))"

definition loadDefaultWorkspace :: "(string \<Rightarrow> string \<Rightarrow> int) \<Rightarrow> jsnum \<Rightarrow> storage \<Rightarrow> saved_workspace option" where
  "loadDefaultWorkspace lc now st = load_workspace_at lc now default_workspace_key st"

definition loadActiveWorkspace :: "(string \<Rightarrow> string \<Rightarrow> int) \<Rightarrow> jsnum \<Rightarrow> storage \<Rightarrow> saved_workspace option" where
  "loadActiveWorkspace lc now st = or_else (loadDefaultWorkspace lc now st) (load_workspace_at lc now storage_key st)"

definition workspaceKey :: "string \<Rightarrow> string \<Rightarrow> string" where
  "workspaceKey operator name = to_lower (trim operator) @ ''::'' @ to_lower (trim name)"

definition key_of :: "saved_workspace \<Rightarrow> string" where
  "key_of w = workspaceKey (sw_operator w) (sw_name w)"

definition upsertSavedWorkspace :: "saved_workspace list \<Rightarrow> saved_workspace \<Rightarrow> saved_workspace list" where
  "upsertSavedWorkspace xs next =
     sort_js (before_desc sw_updatedAt) (next # filter (\<lambda>item. key_of item \<noteq> key_of next) xs)"

text \<open>Normalising a list: one workspace that throws is the end of it.\<close>

definition normalize_all ::
    "(string \<Rightarrow> string \<Rightarrow> int) \<Rightarrow> jsnum \<Rightarrow> jsv list \<Rightarrow> saved_workspace list js_result" where
  "normalize_all lc now vs = fold_result (\<lambda>v acc. case normalizeWorkspace lc now v of
       Inl e \<Rightarrow> Inl e | Inr None \<Rightarrow> Inr acc | Inr (Some w) \<Rightarrow> Inr (acc @ [w])) vs []"

definition loadSavedWorkspaces :: "(string \<Rightarrow> string \<Rightarrow> int) \<Rightarrow> jsnum \<Rightarrow> storage \<Rightarrow> saved_workspace list" where
  "loadSavedWorkspaces lc now st =
     (let finish = (\<lambda>indexed. case loadActiveWorkspace lc now st of
            Some active \<Rightarrow> upsertSavedWorkspace indexed active
          | None \<Rightarrow> sort_js (before_desc sw_updatedAt) indexed)
      in case get_item st workspace_names_key of
        Absent \<Rightarrow> finish [] | Malformed \<Rightarrow> []
      | Json v \<Rightarrow> caught [] (map_sum id finish (normalize_all lc now (as_list v))))"

subsection \<open>Backups\<close>

record workspace_backup =
  wb_id :: string
  wb_backedUpAt :: jsnum
  wb_reason :: string
  wb_workspace :: saved_workspace

definition read_backup ::
    "(string \<Rightarrow> string \<Rightarrow> int) \<Rightarrow> jsnum \<Rightarrow> jsv \<Rightarrow> workspace_backup option js_result" where
  "read_backup lc now item = (if nullish item then Inl TypeError
     else case normalizeWorkspace lc now (jget item ''workspace'') of
       Inl e \<Rightarrow> Inl e | Inr None \<Rightarrow> Inr None
     | Inr (Some w) \<Rightarrow> (let stamp = to_num (js_or (jget item ''backedUpAt'') (js_or (Num (sw_updatedAt w)) (Num now))) in
         Inr (Some
           \<lparr>wb_id = to_str (js_or (jget item ''id'') (Str (key_of w @ ''::'' @ num_text stamp))),
            wb_backedUpAt = stamp,
            wb_reason = to_str (js_or (jget item ''reason'') (Str ''workspace backup'')),
            wb_workspace = w\<rparr>)))"

definition read_backups ::
    "(string \<Rightarrow> string \<Rightarrow> int) \<Rightarrow> jsnum \<Rightarrow> jsv list \<Rightarrow> workspace_backup list js_result" where
  "read_backups lc now vs = fold_result (\<lambda>v acc. case read_backup lc now v of
       Inl e \<Rightarrow> Inl e | Inr None \<Rightarrow> Inr acc | Inr (Some b) \<Rightarrow> Inr (acc @ [b])) vs []"

definition loadWorkspaceBackups :: "(string \<Rightarrow> string \<Rightarrow> int) \<Rightarrow> jsnum \<Rightarrow> storage \<Rightarrow> workspace_backup list" where
  "loadWorkspaceBackups lc now st = (case get_item st workspace_backups_key of
     Absent \<Rightarrow> [] | Malformed \<Rightarrow> []
   | Json v \<Rightarrow> caught [] (map_sum id (sort_js (before_desc wb_backedUpAt)) (read_backups lc now (as_list v))))"

definition backup_obj :: "workspace_backup \<Rightarrow> jsv" where
  "backup_obj b = Obj [(''id'', Str (wb_id b)), (''backedUpAt'', Num (wb_backedUpAt b)),
     (''reason'', Str (wb_reason b)), (''workspace'', workspace_obj (wb_workspace b))]"

definition backupWorkspace ::
    "(string \<Rightarrow> string \<Rightarrow> int) \<Rightarrow> jsnum \<Rightarrow> saved_workspace \<Rightarrow> string \<Rightarrow> storage \<Rightarrow> workspace_backup list \<times> storage" where
  "backupWorkspace lc now next reason st =
     (let backup = \<lparr>wb_id = key_of next @ ''::'' @ num_text now, wb_backedUpAt = now, wb_reason = reason,
            wb_workspace = next\<lparr>sw_updatedAt := now\<rparr>\<rparr>;
          backups = slice_first max_workspace_backups
            (backup # filter (\<lambda>item. wb_id item \<noteq> wb_id backup) (loadWorkspaceBackups lc now st))
      in (backups, set_json workspace_backups_key (Arr (map backup_obj backups)) st))"

definition persistWorkspaceSnapshot ::
    "(string \<Rightarrow> string \<Rightarrow> int) \<Rightarrow> jsnum \<Rightarrow> saved_workspace \<Rightarrow> saved_workspace list \<Rightarrow> bool \<Rightarrow> string \<Rightarrow> storage \<Rightarrow> storage" where
  "persistWorkspaceSnapshot lc now next xs makeDefault reason st =
     (let st1 = set_json storage_key (workspace_obj next)
            (set_json workspace_names_key (Arr (map workspace_obj xs)) st);
          st2 = (if makeDefault then set_json default_workspace_key (workspace_obj next) st1 else st1)
      in snd (backupWorkspace lc now next reason st2))"

subsection \<open>What a workspace satisfies\<close>

definition window_ok :: "jobj \<Rightarrow> bool" where
  "window_ok w \<longleftrightarrow> oget w ''provider'' = Str ''cme'' \<and> \<not> isRemovedWindowKind (oget w ''kind'')
     \<and> oget w ''desktopState'' \<in> {Str ''minimized'', Str ''maximized'', Str ''normal''}"

definition workspace_ok :: "saved_workspace \<Rightarrow> bool" where
  "workspace_ok w \<longleftrightarrow> (\<forall>x\<in>set (sw_windows w). window_ok x) \<and> (\<forall>r\<in>set (sw_rows w). oget r ''provider'' = Str ''cme'')
     \<and> (\<forall>a\<in>set (get_or (sw_alerts w) []). alert_rule_ok a) \<and> (\<forall>a\<in>set (get_or (sw_algoLibrary w) []). algo_ok a)
     \<and> (\<forall>s. sw_algoManager w = Some s \<longrightarrow> algo_manager_ok s) \<and> sw_selectedProvider w = Some ''cme''"

lemma index_entries_other:
  assumes "\<not> is_digit (hd k)"
  shows "oget (index_entries xs) k = Undefined"
proof -
  have "k \<notin> set (map fst (index_entries xs))"
  proof
    assume "k \<in> set (map fst (index_entries xs))"
    then obtain i :: nat where "k = int_text (int i)" by (auto simp: index_entries_def)
    moreover have "is_digit (hd (int_text (int i)))" using int_text_digits [of "int i"] by (simp add: hd_in_set)
    ultimately show False using assms by simp
  qed
  then have "map_of (index_entries xs) k = None" by (simp add: map_of_eq_None_iff)
  then show ?thesis by (simp add: oget_def)
qed

lemma spread_get: "\<not> is_digit (hd k) \<Longrightarrow> oget (spread_entries v) k = jget v k"
  by (cases v) (simp_all add: spread_entries_def jget_def index_entries_other)

lemma normalized_window_ok: "\<not> isRemovedWindowKind (jget item ''kind'') \<Longrightarrow> window_ok (normalize_window item)"
  using spread_get [of "''kind''" item]
  by (auto simp: window_ok_def normalize_window_def provider_always normalizeDesktopWindowState_def is_digit_def Let_def)

lemma normalized_alerts_ok: "a \<in> set (normalize_alerts now v) \<Longrightarrow> alert_rule_ok a"
  by (auto simp: normalize_alerts_def List.map_filter_def normalized_alert_ok)

lemma snapshot_algos_ok: "normalizeAlgoLibrarySnapshot lc now v = Some xs \<Longrightarrow> a \<in> set xs \<Longrightarrow> algo_ok a"
  by (auto simp: normalizeAlgoLibrarySnapshot_def sortAlgoDefinitions_def List.map_filter_def stored_algo_ok split: jsv.splits)

lemma normalized_workspace_ok:
  assumes "normalizeWorkspace lc now raw = Inr (Some w)"
  shows "workspace_ok w"
proof -
  have algos: "\<forall>a\<in>set (get_or (normalizeAlgoLibrarySnapshot lc now v) []). algo_ok a" for v
    using snapshot_algos_ok by (cases "normalizeAlgoLibrarySnapshot lc now v") auto
  show ?thesis using assms algos normalized_manager_ok
    by (auto simp: normalizeWorkspace_def workspace_ok_def normalized_window_ok normalize_row_def provider_always
        normalized_alerts_ok Let_def split: if_splits)
qed

lemma load_workspace_ok: "load_workspace_at lc now key st = Some w \<Longrightarrow> workspace_ok w"
  using normalized_workspace_ok
  by (auto simp: load_workspace_at_def caught_def split: cell.splits sum.splits)

lemma normalize_all_ok:
  assumes "normalize_all lc now vs = Inr ws"
  shows "\<forall>w\<in>set ws. workspace_ok w"
  by (rule fold_result_inv [OF assms [unfolded normalize_all_def], of "\<lambda>ws. \<forall>w\<in>set ws. workspace_ok w"])
    (auto split: sum.splits option.splits dest: normalized_workspace_ok)

interpretation desk_list: keyed_list key_of "sort_js (before_desc sw_updatedAt)"
  by unfold_locales simp

lemma upsert_subset: "set (upsertSavedWorkspace xs next) \<subseteq> insert next (set xs)"
  unfolding upsertSavedWorkspace_def desk_list.arrange_set by auto

lemma saved_workspaces_ok: "w \<in> set (loadSavedWorkspaces lc now st) \<Longrightarrow> workspace_ok w"
proof -
  assume w: "w \<in> set (loadSavedWorkspaces lc now st)"
  have fin: "x \<in> set (case loadActiveWorkspace lc now st of Some active \<Rightarrow> upsertSavedWorkspace xs active
      | None \<Rightarrow> sort_js (before_desc sw_updatedAt) xs) \<Longrightarrow> x \<in> set xs \<or> loadActiveWorkspace lc now st = Some x" for x xs
    using upsert_subset [of xs] by (auto split: option.splits)
  have act: "loadActiveWorkspace lc now st = Some x \<Longrightarrow> workspace_ok x" for x
    using load_workspace_ok by (auto simp: loadActiveWorkspace_def loadDefaultWorkspace_def or_else_def split: option.splits)
  show ?thesis
  proof (cases "get_item st workspace_names_key")
    case (Json v)
    with w fin act normalize_all_ok [of lc now "as_list v"] show ?thesis
      by (cases "normalize_all lc now (as_list v)") (auto simp: loadSavedWorkspaces_def caught_def Let_def)
  qed (use w fin [of w "[]"] act in \<open>auto simp: loadSavedWorkspaces_def Let_def\<close>)
qed

text \<open>Whatever browser storage holds, every workspace that is loaded from it is well-formed: no
  window of a removed kind, the provider of every window and row is the one that exists, every window
  is normal, minimized or maximized, and its alerts, algos and manager state are well-formed.\<close>

theorem loaded_workspaces_ok:
  "(\<forall>w\<in>set (loadSavedWorkspaces lc now st). workspace_ok w)
   \<and> (\<forall>w. loadActiveWorkspace lc now st = Some w \<longrightarrow> workspace_ok w)"
  using saved_workspaces_ok load_workspace_ok
  by (auto simp: loadActiveWorkspace_def loadDefaultWorkspace_def or_else_def split: option.splits)

definition sample_storage :: storage where
  "sample_storage = [(storage_key, Json (Obj [(''name'', Str ''Desk''), (''windows'', Arr
     [Obj [(''id'', Str ''a''), (''kind'', Str ''charts''), (''collapsed'', Bool True)],
      Obj [(''id'', Str ''b''), (''kind'', Str ''tradingViewLight'')]]),
     (''rows'', Arr [Obj [(''symbol'', Str ''NQ''), (''provider'', Str ''kalshi'')]])]))]"

definition outline :: "saved_workspace \<Rightarrow> string \<times> (jsv \<times> jsv) list \<times> jsv list" where
  "outline w = (sw_name w, map (\<lambda>x. (oget x ''id'', oget x ''desktopState'')) (sw_windows w),
     map (\<lambda>x. oget x ''provider'') (sw_rows w))"

lemma sample_outline: "map_option outline (loadActiveWorkspace code_compare (Fin 5) sample_storage) =
    Some (''Desk'', [(Str ''a'', Str ''minimized'')], [Str ''cme''])"
  by code_simp

lemma loaded_workspaces_ok_witness:
  "\<exists>w. loadActiveWorkspace code_compare (Fin 5) sample_storage = Some w \<and> workspace_ok w
     \<and> outline w = (''Desk'', [(Str ''a'', Str ''minimized'')], [Str ''cme''])"
proof -
  obtain w where "loadActiveWorkspace code_compare (Fin 5) sample_storage = Some w"
      "outline w = (''Desk'', [(Str ''a'', Str ''minimized'')], [Str ''cme''])"
    using sample_outline by (cases "loadActiveWorkspace code_compare (Fin 5) sample_storage") simp_all
  moreover from this(1) have "workspace_ok w"
    using conjunct2 [OF loaded_workspaces_ok [of code_compare "Fin 5" sample_storage]] by simp
  ultimately show ?thesis by (intro exI [of _ w]) simp
qed

subsection \<open>The list and the backups\<close>

text \<open>The saved workspaces are a map from the key of operator and name (trimmed, without case) to
  workspaces: saving one replaces the workspace of its key and no other, keeps one per key, and
  leaves the list with the latest first when the time stamps are numbers.\<close>

theorem saved_list_refines_map:
  assumes "distinct (map key_of xs)" and "\<forall>w\<in>set (next # xs). is_float (sw_updatedAt w)"
  shows "by_key key_of (upsertSavedWorkspace xs next) = (by_key key_of xs)(key_of next \<mapsto> next)
    \<and> distinct (map key_of (upsertSavedWorkspace xs next))
    \<and> sorted_wrt (before_desc sw_updatedAt) (upsertSavedWorkspace xs next)"
  using desk_list.upsert_map [OF assms(1)] desk_list.upsert_distinct [OF assms(1)] assms(2)
  unfolding upsertSavedWorkspace_def by (intro conjI desc.sorted_sort) auto

definition sample_desk :: "string \<Rightarrow> jsnum \<Rightarrow> saved_workspace" where
  "sample_desk name stamp = \<lparr>sw_workspaceId = None, sw_name = name, sw_operator = ''Ted'',
     sw_windows = [[(''id'', Str ''a''), (''kind'', Str ''charts''), (''z'', Num (Fin 2))]], sw_rows = [],
     sw_alerts = Some [], sw_algoLibrary = None, sw_algoManager = None, sw_selectedProvider = Some ''cme'',
     sw_selectedSymbol = Str ''ES'', sw_desktopToolbarBounds = Undefined, sw_updatedAt = stamp,
     sw_recoveredFrom = Undefined, sw_serverFile = Undefined\<rparr>"

lemma saved_list_refines_map_witness:
  "by_key key_of (upsertSavedWorkspace [sample_desk ''Desk'' (Fin 1), sample_desk ''Two'' (Fin 2)] (sample_desk '' desk '' (Fin 3))) =
     (by_key key_of [sample_desk ''Desk'' (Fin 1), sample_desk ''Two'' (Fin 2)])
       (key_of (sample_desk '' desk '' (Fin 3)) \<mapsto> sample_desk '' desk '' (Fin 3))
   \<and> map sw_name (upsertSavedWorkspace [sample_desk ''Desk'' (Fin 1), sample_desk ''Two'' (Fin 2)] (sample_desk '' desk '' (Fin 3))) =
       ['' desk '', ''Two'']"
proof -
  have f: "is_float (Fin 1)" "is_float (Fin 2)" "is_float (Fin 3)"
    using is_number_float [of "Fin 1"] is_number_float [of "Fin 2"] is_number_float [of "Fin 3"] by simp_all
  have d: "distinct (map key_of [sample_desk ''Desk'' (Fin 1), sample_desk ''Two'' (Fin 2)])" by code_simp
  have n: "map sw_name (upsertSavedWorkspace [sample_desk ''Desk'' (Fin 1), sample_desk ''Two'' (Fin 2)] (sample_desk '' desk '' (Fin 3))) =
       ['' desk '', ''Two'']" by code_simp
  have "\<forall>w\<in>set (sample_desk '' desk '' (Fin 3) # [sample_desk ''Desk'' (Fin 1), sample_desk ''Two'' (Fin 2)]). is_float (sw_updatedAt w)"
    using f by (simp add: sample_desk_def)
  from conjunct1 [OF saved_list_refines_map [OF d this]] n show ?thesis by simp
qed

text \<open>Backing up keeps at most twelve backups, the new one first and the only one of its id, stamped
  with the time; the others are stored ones of other ids, and one of those is missing only when
  twelve stand before it.\<close>

theorem backups_bounded:
  assumes "backupWorkspace lc now next reason st = (backups, st')"
  shows "length backups \<le> 12
    \<and> (\<exists>b rest. backups = b # rest \<and> wb_id b = key_of next @ ''::'' @ num_text now \<and> wb_backedUpAt b = now
         \<and> wb_workspace b = next\<lparr>sw_updatedAt := now\<rparr>
         \<and> rest = take 11 (filter (\<lambda>x. wb_id x \<noteq> wb_id b) (loadWorkspaceBackups lc now st)))
    \<and> get_item st' workspace_backups_key = Json (json_norm (Arr (map backup_obj backups)))
    \<and> (\<forall>k. k \<noteq> workspace_backups_key \<longrightarrow> get_item st' k = get_item st k)"
proof -
  obtain b where b: "b = \<lparr>wb_id = key_of next @ ''::'' @ num_text now, wb_backedUpAt = now, wb_reason = reason,
      wb_workspace = next\<lparr>sw_updatedAt := now\<rparr>\<rparr>" by simp
  have e: "backups = b # take 11 (filter (\<lambda>x. wb_id x \<noteq> wb_id b) (loadWorkspaceBackups lc now st))"
    using assms by (simp add: backupWorkspace_def b slice_first_def max_workspace_backups_def Let_def)
  have s: "st' = set_json workspace_backups_key (Arr (map backup_obj backups)) st"
    using assms by (auto simp: backupWorkspace_def Let_def)
  show ?thesis using e s by (auto simp: b)
qed

lemma backups_bounded_witness:
  "(case backupWorkspace code_compare (Fin 9) (sample_desk ''Desk'' (Fin 1)) ''save'' [] of (backups, st') \<Rightarrow>
      length backups \<le> 12 \<and> map wb_id backups = [''ted::desk::9''])"
proof -
  obtain backups st' where e: "backupWorkspace code_compare (Fin 9) (sample_desk ''Desk'' (Fin 1)) ''save'' [] = (backups, st')"
    by (cases "backupWorkspace code_compare (Fin 9) (sample_desk ''Desk'' (Fin 1)) ''save'' []") simp
  have "map wb_id (fst (backupWorkspace code_compare (Fin 9) (sample_desk ''Desk'' (Fin 1)) ''save'' [])) = [''ted::desk::9'']"
    by code_simp
  with conjunct1 [OF backups_bounded [OF e]] e show ?thesis by simp
qed

subsection \<open>Reloading\<close>

lemma jget_json_norm:
  assumes "distinct (map fst d)"
  shows "jget (json_norm (Obj d)) k = (if oget d k = Undefined then Undefined else json_norm (oget d k))"
  using oget_json_norm [OF assms, of k] by (simp add: jget_def as_obj_def)

lemma workspace_read:
  "jget (json_norm (workspace_obj w)) ''name'' = Str (sw_name w)"
  "jget (json_norm (workspace_obj w)) ''operator'' = Str (sw_operator w)"
  "jget (json_norm (workspace_obj w)) ''windows'' = Arr (map (\<lambda>d. json_norm (Obj d)) (sw_windows w))"
  "jget (json_norm (workspace_obj w)) ''rows'' = Arr (map (\<lambda>d. json_norm (Obj d)) (sw_rows w))"
  "jget (json_norm (workspace_obj w)) ''updatedAt'' = json_norm (Num (sw_updatedAt w))"
  unfolding workspace_obj_def by (subst jget_json_norm; simp add: comp_def)+

lemma js_or_text: "s \<noteq> [] \<Longrightarrow> js_or (Str s) v = Str s"
  by (simp add: js_or_def truthy_def)

lemma workspace_truthy: "truthy (json_norm (workspace_obj w))"
  by (simp add: workspace_obj_def truthy_def)

text \<open>A window as the program has it: an object with texts for id and kind, of a kind that is not
  removed.\<close>

definition live_window :: "jobj \<Rightarrow> bool" where
  "live_window d \<longleftrightarrow> dict_wf d \<and> is_str (oget d ''id'') \<and> is_str (oget d ''kind'') \<and> \<not> isRemovedWindowKind (oget d ''kind'')"

lemma normalize_window_get:
  "oget (normalize_window v) ''id'' = jget v ''id''" "oget (normalize_window v) ''kind'' = jget v ''kind''"
proof -
  have i: "oget (spread_entries v) ''id'' = jget v ''id''" "oget (spread_entries v) ''kind'' = jget v ''kind''"
    by (rule spread_get, simp add: is_digit_def)+
  have push: "oget (if c then d else e) k = (if c then oget d k else oget e k)" for c d e k by simp
  show "oget (normalize_window v) ''id'' = jget v ''id''" "oget (normalize_window v) ''kind'' = jget v ''kind''"
    unfolding normalize_window_def Let_def push oget_set by (simp_all add: i)
qed

lemma live_window_read:
  assumes "live_window d"
  shows "jget (json_norm (Obj d)) ''id'' = oget d ''id''" "jget (json_norm (Obj d)) ''kind'' = oget d ''kind''"
    "oget (normalize_window (json_norm (Obj d))) ''id'' = oget d ''id''"
    "oget (normalize_window (json_norm (Obj d))) ''kind'' = oget d ''kind''"
proof -
  obtain i k where ik: "oget d ''id'' = Str i" "oget d ''kind'' = Str k"
    using assms by (cases "oget d ''id''"; cases "oget d ''kind''"; simp add: live_window_def is_str_def)
  have wf: "distinct (map fst d)" using assms by (simp add: live_window_def dict_wf_def)
  show r: "jget (json_norm (Obj d)) ''id'' = oget d ''id''" "jget (json_norm (Obj d)) ''kind'' = oget d ''kind''"
    using jget_json_norm [OF wf] ik by simp_all
  show "oget (normalize_window (json_norm (Obj d))) ''id'' = oget d ''id''"
      "oget (normalize_window (json_norm (Obj d))) ''kind'' = oget d ''kind''"
    unfolding normalize_window_get r by (rule refl)+
qed

lemma workspace_back:
  assumes "sw_name w \<noteq> []" "sw_operator w \<noteq> []" "stamp_ok (sw_updatedAt w)" "\<forall>d\<in>set (sw_windows w). live_window d"
  shows "\<exists>w'. normalizeWorkspace lc now (json_norm (workspace_obj w)) = Inr (Some w')
    \<and> sw_name w' = sw_name w \<and> sw_operator w' = sw_operator w \<and> sw_updatedAt w' = sw_updatedAt w
    \<and> map (\<lambda>d. (oget d ''id'', oget d ''kind'')) (sw_windows w') = map (\<lambda>d. (oget d ''id'', oget d ''kind'')) (sw_windows w)"
proof -
  have nn: "\<not> nullish (json_norm (Obj d))" for d by simp
  have keep: "filter (\<lambda>item. \<not> isRemovedWindowKind (jget item ''kind'')) (map (\<lambda>d. json_norm (Obj d)) (sw_windows w)) =
      map (\<lambda>d. json_norm (Obj d)) (sw_windows w)"
    using assms(4) live_window_read(2) by (auto simp: filter_id_conv live_window_def simp del: json_norm.simps)
  have "map (\<lambda>d. (oget d ''id'', oget d ''kind'')) (map normalize_window (map (\<lambda>d. json_norm (Obj d)) (sw_windows w))) =
      map (\<lambda>d. (oget d ''id'', oget d ''kind'')) (sw_windows w)"
    using assms(4) live_window_read(3,4) by (simp del: json_norm.simps)
  moreover have "to_num (js_or (json_norm (Num (sw_updatedAt w))) (Num now)) = sw_updatedAt w"
    using stamp_ok_simps [OF assms(3)] by (simp add: js_or_def)
  ultimately show ?thesis
    using assms(1,2) keep nn
    by (simp add: normalizeWorkspace_def workspace_read workspace_truthy is_array_def as_list_def js_or_text
        list_ex_iff Let_def del: json_norm.simps)
qed

text \<open>The desk that is saved is the desk that comes back: after saving a named workspace as the
  default, with whatever list of workspaces and reason, the active workspace that is loaded at any
  later time has its name, operator and time stamp and the same windows, by id and kind and in the
  same order.\<close>

theorem desk_reloads:
  assumes "sw_name w \<noteq> []" "sw_operator w \<noteq> []" "stamp_ok (sw_updatedAt w)" "\<forall>d\<in>set (sw_windows w). live_window d"
  shows "\<exists>w'. loadActiveWorkspace lc later (persistWorkspaceSnapshot lc now w xs True reason st) = Some w'
    \<and> sw_name w' = sw_name w \<and> sw_operator w' = sw_operator w \<and> sw_updatedAt w' = sw_updatedAt w
    \<and> map (\<lambda>d. (oget d ''id'', oget d ''kind'')) (sw_windows w') = map (\<lambda>d. (oget d ''id'', oget d ''kind'')) (sw_windows w)"
proof -
  have "get_item (snd (backupWorkspace lc now w reason (set_json default_workspace_key v st'))) default_workspace_key =
      Json (json_norm v)" for v st'
    by (simp add: backupWorkspace_def default_workspace_key_def workspace_backups_key_def Let_def)
  with workspace_back [OF assms, of lc later] show ?thesis
    by (auto simp: loadActiveWorkspace_def loadDefaultWorkspace_def load_workspace_at_def persistWorkspaceSnapshot_def
        caught_def Let_def simp del: json_norm.simps)
qed

lemma desk_reloads_witness:
  "\<exists>w'. loadActiveWorkspace code_compare (Fin 8)
        (persistWorkspaceSnapshot code_compare (Fin 7) (sample_desk ''Desk'' (Fin 6)) [] True ''save'' []) = Some w'
    \<and> sw_name w' = ''Desk''"
proof -
  have "\<forall>d\<in>set (sw_windows (sample_desk ''Desk'' (Fin 6))). live_window d" "stamp_ok (sw_updatedAt (sample_desk ''Desk'' (Fin 6)))"
    by code_simp+
  from desk_reloads [OF _ _ this(2) this(1), of code_compare "Fin 8" "Fin 7" "[]" "''save''" "[]"]
  show ?thesis by (auto simp: sample_desk_def)
qed

end
