(* ===== verification/Desktop.thy ===== *)
theory Desktop
  imports Workspaces
begin

text \<open>
  The server side and the desktop side of the workspaces of \<open>WorkspaceCanvas.tsx\<close>: the session
  headers and what is sent to and read from the workspace service, the id of a desktop workspace, the
  bounds of its windows, the inventory of the open windows and the snapshots they answer with.
  An answer of the server is \<open>None\<close> when the request throws, else its success and its payload;
  \<open>enc\<close> is the form encoding of a query value. The OpenFin calls themselves, their timeouts and
  the channel are not modelled: their results are arguments. Main results: the shape and stability of
  a workspace id, that packed windows fit the screen, that collected windows are usable and combined
  by id, and that what is read from the server is well-formed.
\<close>

subsection \<open>Server\<close>

definition desktop_workspace_id :: string where "desktop_workspace_id = ''local-workspace''"

definition cloud_workspace_id :: string where "cloud_workspace_id = ''cloud-workspace''"

text \<open>The names of headers are compared without case.\<close>

definition ceriousSessionHeaders :: "string \<Rightarrow> string dict \<Rightarrow> string dict" where
  "ceriousSessionHeaders token init = (if token = [] then init
     else dict_set ''x-cerious-session'' token (dict_set ''authorization'' (''Bearer '' @ token) init))"

definition is_slug_char :: "char \<Rightarrow> bool" where
  "is_slug_char c = (let n = of_char c :: nat in (97 \<le> n \<and> n \<le> 122) \<or> (48 \<le> n \<and> n \<le> 57))"

text \<open>\<open>replace(/[^a-z0-9]+/g, '-')\<close>: every longest run of other characters becomes one dash.\<close>

fun dash_runs :: "bool \<Rightarrow> string \<Rightarrow> string" where
  "dash_runs inRun [] = []"
| "dash_runs inRun (c # cs) =
     (if is_slug_char c then c # dash_runs False cs
      else if inRun then dash_runs True cs else CHR ''-'' # dash_runs True cs)"

definition strip_dashes :: "string \<Rightarrow> string" where
  "strip_dashes s = rev (dropWhile ((=) (CHR ''-'')) (rev (dropWhile ((=) (CHR ''-'')) s)))"

definition desktopWorkspaceIdFromName :: "string \<Rightarrow> string" where
  "desktopWorkspaceIdFromName name = (let i = strip_dashes (dash_runs False (to_lower (trim name))) in
     if i = [] then desktop_workspace_id else i)"

definition withDesktopWorkspaceId :: "saved_workspace \<Rightarrow> saved_workspace" where
  "withDesktopWorkspaceId w = w\<lparr>sw_workspaceId := Some (case sw_workspaceId w of
     Some i \<Rightarrow> if i = [] then desktopWorkspaceIdFromName (sw_name w) else i
   | None \<Rightarrow> desktopWorkspaceIdFromName (sw_name w))\<rparr>"

definition fallbackDesktopWorkspace :: "jsnum \<Rightarrow> saved_workspace" where
  "fallbackDesktopWorkspace now =
     \<lparr>sw_workspaceId = Some desktop_workspace_id, sw_name = ''Blank Workspace'', sw_operator = default_operator,
      sw_windows = [], sw_rows = [], sw_alerts = Some [], sw_algoLibrary = None, sw_algoManager = None,
      sw_selectedProvider = Some ''cme'', sw_selectedSymbol = Str ''ES'', sw_desktopToolbarBounds = Undefined,
      sw_updatedAt = now, sw_recoveredFrom = Undefined, sw_serverFile = Undefined\<rparr>"

text \<open>What a save sends: the path and the body.\<close>

definition save_body :: "saved_workspace \<Rightarrow> string \<Rightarrow> string \<Rightarrow> string \<Rightarrow> string \<Rightarrow> jsv" where
  "save_body w reason scope ident token = Obj
     [(''workspace'', workspace_obj (w\<lparr>sw_workspaceId := Some ident\<rparr>)), (''reason'', Str reason),
      (''workspaceScope'', Str scope), (''workspaceId'', Str ident), (''sessionToken'', Str token)]"

definition workspace_save_request :: "string \<Rightarrow> saved_workspace \<Rightarrow> string \<Rightarrow> bool \<Rightarrow> string \<times> jsv" where
  "workspace_save_request token next reason desktop =
     (let ident = (if desktop then desktop_workspace_id else cloud_workspace_id) in
      (''/api/workspaces/save'', save_body next reason (if desktop then ''desktop'' else ''cloud'') ident token))"

definition desktop_save_request :: "string \<Rightarrow> saved_workspace \<Rightarrow> string \<Rightarrow> string \<times> jsv" where
  "desktop_save_request token next reason =
     (let ident = get_or (sw_workspaceId (withDesktopWorkspaceId next)) [] in
      (''/api/desktop/workspace/save'', save_body next reason ''desktop'' ident token))"

datatype answer = Answer bool jsv

definition save_outcome :: "answer option \<Rightarrow> bool" where
  "save_outcome a = (case a of None \<Rightarrow> False | Some (Answer ok payload) \<Rightarrow> ok)"

definition fetchRecoveredWorkspaces ::
    "(string \<Rightarrow> string \<Rightarrow> int) \<Rightarrow> jsnum \<Rightarrow> answer option \<Rightarrow> saved_workspace list" where
  "fetchRecoveredWorkspaces lc now a = (case a of None \<Rightarrow> []
     | Some (Answer ok payload) \<Rightarrow> if \<not> ok \<or> nullish payload then []
         else caught [] (normalize_all lc now (as_list (jget payload ''workspaces''))))"

definition saved_workspaces_url :: "(string \<Rightarrow> string) \<Rightarrow> string \<Rightarrow> bool \<Rightarrow> string" where
  "saved_workspaces_url enc token desktop =
     (let params = (if token = [] then [] else [''token='' @ enc token]) @ (if desktop then [''scope=desktop''] else []) in
      ''/api/workspaces/saved'' @ (if params = [] then [] else ''?'' @ join_with ''&'' params))"

definition fetchDesktopSavedWorkspaces ::
    "(string \<Rightarrow> string \<Rightarrow> int) \<Rightarrow> jsnum \<Rightarrow> answer option \<Rightarrow> saved_workspace list" where
  "fetchDesktopSavedWorkspaces lc now a = map withDesktopWorkspaceId (fetchRecoveredWorkspaces lc now a)"

definition loadDesktopWorkspaceWindowsAsync ::
    "(string \<Rightarrow> string \<Rightarrow> int) \<Rightarrow> jsnum \<Rightarrow> answer option \<Rightarrow> saved_workspace" where
  "loadDesktopWorkspaceWindowsAsync lc now a = (case a of
     Some (Answer True payload) \<Rightarrow>
       (if nullish payload then fallbackDesktopWorkspace now
        else case caught None (normalizeWorkspace lc now (jget payload ''workspace'')) of
          Some w \<Rightarrow> withDesktopWorkspaceId w | None \<Rightarrow> fallbackDesktopWorkspace now)
   | _ \<Rightarrow> fallbackDesktopWorkspace now)"

subsection \<open>Bounds\<close>

record window_bounds =
  bd_x :: jsnum
  bd_y :: jsnum
  bd_w :: jsnum
  bd_h :: jsnum

definition bounds_obj :: "window_bounds \<Rightarrow> jsv" where
  "bounds_obj b = Obj [(''x'', Num (bd_x b)), (''y'', Num (bd_y b)), (''w'', Num (bd_w b)), (''h'', Num (bd_h b))]"

text \<open>\<open>Number(v) || d\<close> where \<open>d\<close> is a chain of alternatives, read as a number.\<close>

definition number_or :: "jsv \<Rightarrow> jsv \<Rightarrow> jsnum" where
  "number_or v d = (if num_truthy (to_num v) then to_num v else to_num d)"

definition readDesktopBounds :: "jobj \<Rightarrow> window_bounds" where
  "readDesktopBounds item = (let source = coalesce (oget item ''floatingBounds'') (Obj item) in
     \<lparr>bd_x = number_or (jget source ''x'') (Num (Fin 0)),
      bd_y = number_or (jget source ''y'') (Num (Fin 0)),
      bd_w = math_max (Fin 360) (number_or (jget source ''w'') (js_or (oget item ''w'') (Num (Fin 520)))),
      bd_h = math_max (Fin 260) (number_or (jget source ''h'') (js_or (oget item ''h'') (Num (Fin 360))))\<rparr>)"

text \<open>The screen is what the browser says of it, absent or zero where it says nothing.\<close>

definition primaryDesktopSize :: "jsv \<Rightarrow> jsv \<Rightarrow> jsv \<Rightarrow> jsv \<Rightarrow> jsnum \<times> jsnum" where
  "primaryDesktopSize availWidth availHeight innerWidth innerHeight =
     (math_max (Fin 900) (number_or availWidth (js_or innerWidth (Num (Fin 1440)))),
      math_max (Fin 640) (number_or availHeight (js_or innerHeight (Num (Fin 900)))))"

definition packDesktopBounds :: "jobj \<Rightarrow> nat \<Rightarrow> jsnum \<times> jsnum \<Rightarrow> window_bounds" where
  "packDesktopBounds item index screen =
     (let source = readDesktopBounds item;
          x = num_of_int (18 + int (index mod 6) * 42);
          y = num_of_int (42 + int (index mod 14) * 30) in
      \<lparr>bd_x = x, bd_y = y,
       bd_w = math_max (Fin 360) (math_min (bd_w source) (jsub (jsub (fst screen) x) (Fin 28))),
       bd_h = math_max (Fin 260) (math_min (bd_h source) (jsub (jsub (snd screen) y) (Fin 42)))\<rparr>)"

definition prepareDesktopLaunchWindows :: "saved_workspace \<Rightarrow> (jobj \<times> window_bounds) list" where
  "prepareDesktopLaunchWindows w =
     map (\<lambda>item. (item, readDesktopBounds item))
       (sort_js (before_asc (\<lambda>item. to_num (oget item ''z'')))
         (filter (\<lambda>item. \<not> isRemovedWindowKind (oget item ''kind'')) (sw_windows w)))"

definition currentDesktopWindowBounds :: "jsv \<Rightarrow> jsv \<Rightarrow> jsv \<Rightarrow> jsv \<Rightarrow> window_bounds" where
  "currentDesktopWindowBounds screenX screenY width height =
     \<lparr>bd_x = math_round (displayNumber screenX (Fin 0)), bd_y = math_round (displayNumber screenY (Fin 0)),
      bd_w = math_max (Fin 320) (math_round (to_num (js_or width (Num (Fin 520))))),
      bd_h = math_max (Fin 220) (math_round (to_num (js_or height (Num (Fin 360)))))\<rparr>"

definition usableDesktopBounds :: "window_bounds \<Rightarrow> bool" where
  "usableDesktopBounds b \<longleftrightarrow> is_finite (bd_x b) \<and> is_finite (bd_y b) \<and> is_finite (bd_w b) \<and> is_finite (bd_h b)
     \<and> jle (Fin 120) (bd_w b) \<and> jle (Fin 80) (bd_h b)
     \<and> jlt (math_abs (bd_x b)) (Fin 100000) \<and> jlt (math_abs (bd_y b)) (Fin 100000)"

text \<open>The bounds the desktop runtime reports: \<open>left\<close>, \<open>top\<close>, \<open>width\<close> and \<open>height\<close>, each of which can
  be missing.\<close>

definition reported_bounds :: "jsv \<Rightarrow> window_bounds \<Rightarrow> window_bounds" where
  "reported_bounds v fallback =
     (let f = (\<lambda>k d. math_round (to_num (coalesce (jget v k) (Num d)))) in
      \<lparr>bd_x = f ''left'' (bd_x fallback), bd_y = f ''top'' (bd_y fallback),
       bd_w = f ''width'' (bd_w fallback), bd_h = f ''height'' (bd_h fallback)\<rparr>)"

text \<open>What a window says of itself: the runtime's state and bounds (\<open>Null\<close> when it does not answer in
  time), and the page's own bounds.\<close>

definition currentDesktopWindowSnapshot ::
    "jobj \<Rightarrow> jsv option \<Rightarrow> jsv \<Rightarrow> window_bounds \<Rightarrow> window_bounds \<times> string" where
  "currentDesktopWindowSnapshot previous reportedState reportedBounds pageBounds =
     (let fallback = readDesktopBounds previous;
          state0 = normalizeDesktopWindowState (oget previous ''desktopState'');
          state = normalizeDesktopWindowState (case reportedState of None \<Rightarrow> Str state0 | Some v \<Rightarrow> v);
          b0 = (if truthy reportedBounds then Some (reported_bounds reportedBounds fallback) else None);
          usable = (\<lambda>b. case b of None \<Rightarrow> False | Some b \<Rightarrow> usableDesktopBounds b);
          b1 = (if \<not> usable b0 \<and> state \<noteq> ''minimized'' then Some pageBounds else b0);
          b2 = (if \<not> usable b1 then fallback else get_or b1 fallback)
      in (b2, state))"

subsection \<open>Windows of the desktop\<close>

definition isWorkspaceWindowKind :: "jsv \<Rightarrow> bool" where
  "isWorkspaceWindowKind value = (case value of Str s \<Rightarrow> map_of window_labels s \<noteq> None | _ \<Rightarrow> False)"

definition query_text :: "(string \<Rightarrow> string) \<Rightarrow> (string \<times> jsv) list \<Rightarrow> string" where
  "query_text enc ps = join_with ''&'' (map (\<lambda>(k, v). k @ ''='' @ enc (to_str v)) ps)"

text \<open>\<open>page\<close> is origin and path of the page.\<close>

definition desktopWindowUrl :: "(string \<Rightarrow> string) \<Rightarrow> string \<Rightarrow> jobj \<Rightarrow> string" where
  "desktopWindowUrl enc page item = page @ ''?'' @ query_text enc
     ([(''cerious_client'', Str ''openfin''), (''cerious_window'', oget item ''kind''), (''window_id'', oget item ''id'')]
      @ (if truthy (oget item ''provider'') then [(''provider'', oget item ''provider'')] else [])
      @ (if truthy (oget item ''symbol'') then [(''symbol'', oget item ''symbol'')] else []))"

definition desktopToolbarUrl :: "(string \<Rightarrow> string) \<Rightarrow> string \<Rightarrow> string" where
  "desktopToolbarUrl enc page = page @ ''?'' @ query_text enc
     [(''cerious_client'', Str ''openfin''), (''cerious_desktop'', Str ''toolbar'')]"

definition readStringFromCustomData :: "jsv \<Rightarrow> string \<Rightarrow> string option" where
  "readStringFromCustomData customData key = (case jget customData key of
     Str s \<Rightarrow> if trim s = [] then None else Some (trim s) | _ \<Rightarrow> None)"

record desktop_descriptor =
  dd_id :: string
  dd_kind :: string
  dd_provider :: "string option"
  dd_symbol :: "string option"

text \<open>An empty text counts as absent.\<close>

definition filled :: "string option \<Rightarrow> string option" where
  "filled x = (case x of Some [] \<Rightarrow> None | _ \<Rightarrow> x)"

text \<open>\<open>query\<close> is the parameters of a URL, \<open>None\<close> for a text that is not one.\<close>

definition readDesktopInventoryDescriptor ::
    "(string \<Rightarrow> (string \<times> string) list option) \<Rightarrow> jsv \<Rightarrow> desktop_descriptor option" where
  "readDesktopInventoryDescriptor query options =
     (let customData = jget options ''customData'';
          rawUrl = get_or (text_of (jget options ''url'')) [];
          params = (if rawUrl = [] then None else query rawUrl);
          read = (\<lambda>key param. or_else (readStringFromCustomData customData key)
                    (filled (Option.bind params (\<lambda>ps. map_of ps param))));
          ident = get_or (read ''windowId'' ''window_id'') [];
          rawKind = get_or (read ''windowKind'' ''cerious_window'') []
      in if ident = [] \<or> \<not> isWorkspaceWindowKind (Str rawKind) \<or> isRemovedWindowKind (Str rawKind) then None
         else Some \<lparr>dd_id = ident, dd_kind = rawKind,
           dd_provider = map_option (\<lambda>p. normalizeProviderKey (Str p)) (read ''provider'' ''provider''),
           dd_symbol = read ''symbol'' ''symbol''\<rparr>)"

definition find_window :: "saved_workspace \<Rightarrow> jsv \<Rightarrow> jobj option" where
  "find_window w ident = find (\<lambda>item. oget item ''id'' = ident) (sw_windows w)"

definition desktopInventoryWindowSnapshot ::
    "storage \<Rightarrow> desktop_descriptor \<Rightarrow> window_bounds \<Rightarrow> string \<Rightarrow> saved_workspace \<Rightarrow> nat \<Rightarrow> jobj" where
  "desktopInventoryWindowSnapshot st d b state base index =
     (let existing = find_window base (Str (dd_id d));
          old = (\<lambda>k. case existing of None \<Rightarrow> Undefined | Some e \<Rightarrow> oget e k);
          provider = get_or (dd_provider d)
            (normalizeProviderKey (coalesce (old ''provider'') (opt_str (sw_selectedProvider base))));
          symbol = coalesce (opt_str (dd_symbol d)) (coalesce (old ''symbol'') (coalesce (sw_selectedSymbol base)
            (Str (defaultSymbolForWindowKind (dd_kind d) ''ES''))));
          label = get_or (dict_get window_labels (dd_kind d)) [];
          title = js_or (old ''title'') (Str (if dd_kind d = ''depthLadder'' \<and> truthy symbol
            then label @ '' - '' @ to_str symbol else label));
          z0 = num_of_int (int index + 1);
          xywh = [(''x'', Num (bd_x b)), (''y'', Num (bd_y b)), (''w'', Num (bd_w b)), (''h'', Num (bd_h b))];
          settings = (if dd_kind d = ''depthLadder''
            then depth_settings_obj (normalizeDepthLadderSettings (coalesce (old ''depthLadderSettings'')
                   (depth_settings_obj (loadDepthLadderDefaultSettings st))))
            else old ''depthLadderSettings'')
      in dict_spread (get_or existing [])
           ([(''id'', Str (dd_id d)), (''kind'', Str (dd_kind d)), (''title'', title)] @ xywh
            @ [(''z'', Num (to_num (coalesce (old ''z'') (Num z0)))), (''collapsed'', Bool False),
               (''provider'', Str provider), (''symbol'', symbol), (''floatingBounds'', bounds_obj b),
               (''desktopState'', Str state), (''depthLadderSettings'', settings)]))"

text \<open>What a child window of the application answers: its options, its state and its bounds.\<close>

record child_window =
  cw_options :: jsv
  cw_state :: "jsv option"
  cw_bounds :: jsv

definition child_snapshot ::
    "(string \<Rightarrow> (string \<times> string) list option) \<Rightarrow> storage \<Rightarrow> saved_workspace \<Rightarrow> nat \<times> child_window \<Rightarrow> jobj option" where
  "child_snapshot query st base ic = (case ic of (index, c) \<Rightarrow>
     (case readDesktopInventoryDescriptor query (cw_options c) of
        None \<Rightarrow> None
      | Some d \<Rightarrow> (let existing = find_window base (Str (dd_id d));
            corner = num_of_int (80 + int index * 24);
            fallback = (case existing of Some e \<Rightarrow> readDesktopBounds e
              | None \<Rightarrow> \<lparr>bd_x = corner, bd_y = corner, bd_w = Fin 560, bd_h = Fin 360\<rparr>);
            state = normalizeDesktopWindowState (case cw_state c of Some v \<Rightarrow> v
              | None \<Rightarrow> coalesce (case existing of None \<Rightarrow> Undefined | Some e \<Rightarrow> oget e ''desktopState'') (Str ''normal''));
            b = (if truthy (cw_bounds c) \<and> usableDesktopBounds (reported_bounds (cw_bounds c) fallback)
              then reported_bounds (cw_bounds c) fallback else fallback)
          in Some (desktopInventoryWindowSnapshot st d b state base index))))"

definition collectOpenFinDesktopWindowInventory ::
    "(string \<Rightarrow> (string \<times> string) list option) \<Rightarrow> storage \<Rightarrow> child_window list \<Rightarrow> saved_workspace \<Rightarrow> jobj list" where
  "collectOpenFinDesktopWindowInventory query st children base =
     latest_by (\<lambda>item. oget item ''id'') (List.map_filter (child_snapshot query st base) (enumerate 0 children))"

text \<open>The answers to a snapshot request, in the order they come.\<close>

definition snapshot_response ::
    "(string \<Rightarrow> string \<Rightarrow> int) \<Rightarrow> jsnum \<Rightarrow> string \<Rightarrow> jsv \<Rightarrow> jobj option" where
  "snapshot_response lc now requestId message =
     (if \<not> is_lit (jget message ''type'') ''snapshot-response'' \<or> jget message ''requestId'' \<noteq> Str requestId
        \<or> \<not> truthy (jget message ''item'') then None
      else case caught None (normalizeWorkspace lc now (Obj [(''name'', Str ''snapshot''), (''operator'', Str default_operator),
             (''windows'', Arr [jget message ''item'']), (''rows'', Arr []), (''updatedAt'', Num now)])) of
        None \<Rightarrow> None | Some w \<Rightarrow> (case sw_windows w of [] \<Rightarrow> None | item # rest \<Rightarrow> Some item))"

definition collectDesktopWindowSnapshots ::
    "(string \<Rightarrow> string \<Rightarrow> int) \<Rightarrow> jsnum \<Rightarrow> string \<Rightarrow> jsv list \<Rightarrow> jobj list" where
  "collectDesktopWindowSnapshots lc now requestId messages =
     latest_by (\<lambda>item. oget item ''id'') (List.map_filter (snapshot_response lc now requestId) messages)"

definition combineDesktopSnapshots :: "jobj list \<Rightarrow> jobj list \<Rightarrow> jobj list" where
  "combineDesktopSnapshots primary inventory = latest_by (\<lambda>item. oget item ''id'') (inventory @ primary)"

definition mergeDesktopSnapshots ::
    "(string \<Rightarrow> string \<Rightarrow> int) \<Rightarrow> jsnum \<Rightarrow> storage \<Rightarrow> saved_workspace \<Rightarrow> jobj list \<Rightarrow> saved_workspace" where
  "mergeDesktopSnapshots lc now st base snapshots = withDesktopWorkspaceId (base\<lparr>
     sw_windows := sort_js (before_asc (\<lambda>item. to_num (oget item ''z''))) snapshots,
     sw_algoLibrary := Some (loadAlgoLibrary lc now st),
     sw_algoManager := Some (loadAlgoManagerWorkspaceState now st),
     sw_updatedAt := now\<rparr>)"

definition window_obj :: "workspace_window \<Rightarrow> jobj" where
  "window_obj w = [(''id'', Str (ww_id w)), (''kind'', Str (ww_kind w)), (''title'', Str (ww_title w)),
     (''x'', Num (ww_x w)), (''y'', Num (ww_y w)), (''w'', Num (ww_w w)), (''h'', Num (ww_h w)),
     (''z'', Num (ww_z w)), (''collapsed'', Bool (ww_collapsed w)), (''template'', opt_str (ww_template w))]"

definition defaultDesktopWindowForKind ::
    "jsnum \<Rightarrow> storage \<Rightarrow> jsnum \<times> jsnum \<Rightarrow> string \<Rightarrow> saved_workspace \<Rightarrow> jobj" where
  "defaultDesktopWindowForKind now st screen kind current =
     (let count = length (filter (\<lambda>item. oget item ''kind'' = Str kind) (sw_windows current));
          seed = window_obj (get_or (find (\<lambda>item. ww_kind item = kind) defaultWindows) (win kind 80 120 560 360 (int count + 1)));
          b = packDesktopBounds seed (count + 1) screen;
          label = get_or (dict_get window_labels kind) []
      in dict_spread seed
           [(''id'', Str (kind @ ''-'' @ num_text now)),
            (''title'', Str (if 0 < count then label @ '' '' @ int_text (int count + 1) else label)),
            (''x'', Num (bd_x b)), (''y'', Num (bd_y b)), (''w'', Num (bd_w b)), (''h'', Num (bd_h b)),
            (''z'', Num (jadd (math_max_list (Fin 1 # map (\<lambda>item. to_num (oget item ''z'')) (sw_windows current))) (Fin 1))),
            (''collapsed'', Bool False), (''provider'', Str (get_or (sw_selectedProvider current) ''cme'')),
            (''symbol'', Str (defaultSymbolForWindowKind kind (to_str (coalesce (sw_selectedSymbol current) (Str ''ES''))))),
            (''depthLadderSettings'', if kind = ''depthLadder''
               then depth_settings_obj (loadDepthLadderDefaultSettings st) else Undefined),
            (''floatingBounds'', bounds_obj b), (''desktopState'', Str ''normal'')])"

text \<open>The window a desktop page shows: the query of the page, over the blank workspace it starts from.\<close>

definition resolveDesktopWindow :: "jsnum \<Rightarrow> (string \<Rightarrow> string option) \<Rightarrow> int \<times> int \<Rightarrow> saved_workspace \<times> jobj" where
  "resolveDesktopWindow now param inner =
     (let workspace = fallbackDesktopWorkspace now;
          ident = get_or (param ''window_id'') [];
          requested = opt_str (param ''cerious_window'');
          fromWorkspace = find_window workspace (Str ident);
          fallbackKind = (if isWorkspaceWindowKind requested then to_str requested else ''marketData'');
          fallback = get_or (find (\<lambda>item. oget item ''kind'' = Str fallbackKind) (sw_windows workspace))
            (window_obj (win fallbackKind 0 0 (fst inner) (snd inner) 1));
          have = (\<lambda>k. case fromWorkspace of None \<Rightarrow> Undefined | Some e \<Rightarrow> oget e k);
          provider = normalizeProviderKey (coalesce (opt_str (param ''provider'')) (coalesce (have ''provider'')
            (coalesce (oget fallback ''provider'') (opt_str (sw_selectedProvider workspace)))));
          symbol = coalesce (opt_str (param ''symbol'')) (coalesce (have ''symbol'') (coalesce (oget fallback ''symbol'')
            (coalesce (sw_selectedSymbol workspace) (Str (defaultSymbolForWindowKind (to_str (oget fallback ''kind'')) ''ES'')))))
      in (workspace, dict_spread (dict_spread fallback (get_or fromWorkspace []))
           [(''id'', js_or (Str ident) (js_or (have ''id'') (oget fallback ''id''))),
            (''provider'', Str provider), (''symbol'', symbol), (''collapsed'', Bool False),
            (''x'', Num (Fin 0)), (''y'', Num (Fin 0)), (''w'', Num (num_of_int (fst inner))), (''h'', Num (num_of_int (snd inner)))]))"

subsection \<open>Properties\<close>

text \<open>A workspace id: dashes and the characters of a slug, no dash first or last or beside another.\<close>

fun no_double_dash :: "string \<Rightarrow> bool" where
  "no_double_dash (c # d # s) = (\<not> (c = CHR ''-'' \<and> d = CHR ''-'') \<and> no_double_dash (d # s))"
| "no_double_dash s = True"

definition slug_ok :: "string \<Rightarrow> bool" where
  "slug_ok s \<longleftrightarrow> s \<noteq> [] \<and> (\<forall>c\<in>set s. is_slug_char c \<or> c = CHR ''-'') \<and> hd s \<noteq> CHR ''-'' \<and> last s \<noteq> CHR ''-''
     \<and> no_double_dash s"

lemma not_slug_dash [simp]: "\<not> is_slug_char (CHR ''-'')"
  by (simp add: is_slug_char_def)

lemma dash_runs_chars: "c \<in> set (dash_runs b s) \<Longrightarrow> is_slug_char c \<or> c = CHR ''-''"
  by (induction b s rule: dash_runs.induct) (auto split: if_splits)

lemma dash_runs_after: "dash_runs True s = [] \<or> hd (dash_runs True s) \<noteq> CHR ''-''"
proof (induction s)
  case (Cons c s)
  then show ?case by (cases "is_slug_char c") auto
qed simp

lemma no_double_Cons: "no_double_dash (c # s) = (no_double_dash s \<and> (s = [] \<or> c \<noteq> CHR ''-'' \<or> hd s \<noteq> CHR ''-''))"
  by (cases s) auto

lemma dash_runs_no_double: "no_double_dash (dash_runs b s)"
proof (induction b s rule: dash_runs.induct)
  case (2 inRun c cs)
  then show ?case using dash_runs_after [of cs] by (auto simp: no_double_Cons)
qed simp

lemma no_double_drop: "no_double_dash s \<Longrightarrow> no_double_dash (dropWhile P s)"
  by (induction s) (auto simp: no_double_Cons)

lemma no_double_append: "no_double_dash (s @ [c]) = (no_double_dash s \<and> (s = [] \<or> c \<noteq> CHR ''-'' \<or> last s \<noteq> CHR ''-''))"
  by (induction s) (auto simp: no_double_Cons neq_Nil_conv)

lemma no_double_rev: "no_double_dash (rev s) = no_double_dash s"
  by (induction s) (auto simp: no_double_append no_double_Cons last_rev)

lemma dropWhile_last: "dropWhile P s \<noteq> [] \<Longrightarrow> last (dropWhile P s) = last s"
  by (induction s) (auto split: if_splits)

lemma strip_dashes_ok:
  assumes "strip_dashes s \<noteq> []"
  shows "hd (strip_dashes s) \<noteq> CHR ''-''" "last (strip_dashes s) \<noteq> CHR ''-''"
    "set (strip_dashes s) \<subseteq> set s" "no_double_dash s \<Longrightarrow> no_double_dash (strip_dashes s)"
proof -
  obtain t where t: "t = dropWhile ((=) (CHR ''-'')) s" by simp
  obtain u where u: "u = dropWhile ((=) (CHR ''-'')) (rev t)" by simp
  have r: "strip_dashes s = rev u" by (simp add: strip_dashes_def t u)
  with assms have ne: "u \<noteq> []" "t \<noteq> []" by (auto simp: u)
  have "hd u \<noteq> CHR ''-''" using hd_dropWhile_not [of "(=) (CHR ''-'')" "rev t"] ne by (auto simp: u)
  then show "last (strip_dashes s) \<noteq> CHR ''-''" by (simp add: r last_rev)
  have "hd t \<noteq> CHR ''-''" using hd_dropWhile_not [of "(=) (CHR ''-'')" s] ne by (auto simp: t)
  moreover have "last u = hd t" using dropWhile_last [of "(=) (CHR ''-'')" "rev t"] ne by (simp add: u last_rev)
  ultimately show "hd (strip_dashes s) \<noteq> CHR ''-''" by (simp add: r hd_rev)
  show "set (strip_dashes s) \<subseteq> set s" 
    using set_dropWhileD [of _ "(=) (CHR ''-'')" "rev t"] set_dropWhileD [of _ "(=) (CHR ''-'')" s] by (auto simp: r u t)
  show "no_double_dash s \<Longrightarrow> no_double_dash (strip_dashes s)" by (simp add: r u t no_double_rev no_double_drop)
qed

lemma workspace_id_slug: "slug_ok (desktopWorkspaceIdFromName name)"
proof (cases "strip_dashes (dash_runs False (to_lower (trim name))) = []")
  case True
  then show ?thesis by (simp add: desktopWorkspaceIdFromName_def) code_simp
next
  case False
  with strip_dashes_ok [OF False] dash_runs_chars dash_runs_no_double show ?thesis
    by (simp add: desktopWorkspaceIdFromName_def slug_ok_def) blast
qed

lemma slug_lower: "is_slug_char c \<or> c = CHR ''-'' \<Longrightarrow> lower_char c = c \<and> \<not> is_space c"
  by (auto simp: is_slug_char_def lower_char_def is_space_def Let_def)

lemma dash_runs_id:
  "\<forall>c\<in>set s. is_slug_char c \<or> c = CHR ''-'' \<Longrightarrow> no_double_dash s \<Longrightarrow> dash_runs False s = s"
proof (induction s rule: no_double_dash.induct)
  case (1 c d s)
  then show ?case by (cases "is_slug_char c"; cases "is_slug_char d") auto
qed auto

lemma dropWhile_hd: "s = [] \<or> \<not> P (hd s) \<Longrightarrow> dropWhile P s = s"
  by (cases s) auto

lemma slug_fixed:
  assumes "slug_ok s"
  shows "desktopWorkspaceIdFromName s = s"
proof -
  have c: "\<forall>c\<in>set s. is_slug_char c \<or> c = CHR ''-''" "no_double_dash s" "s \<noteq> []" using assms by (simp_all add: slug_ok_def)
  have "trim s = s" using c(1) slug_lower by (intro trim_plain) auto
  moreover have "to_lower s = s" using c(1) slug_lower by (simp add: to_lower_def map_idI)
  moreover have "strip_dashes s = s"
  proof -
    have "dropWhile ((=) (CHR ''-'')) s = s" "dropWhile ((=) (CHR ''-'')) (rev s) = rev s"
      using assms by (intro dropWhile_hd; auto simp: slug_ok_def hd_rev)+
    then show ?thesis by (simp add: strip_dashes_def)
  qed
  ultimately show ?thesis using c by (simp add: desktopWorkspaceIdFromName_def dash_runs_id)
qed

text \<open>A desktop workspace always has an id that can stand in a path: letters a to z, digits and single
  dashes, none of them first or last, never empty; and an id names itself, so a workspace keeps its id
  when it is named after it.\<close>

theorem workspace_id_shape:
  "slug_ok (desktopWorkspaceIdFromName name)
   \<and> desktopWorkspaceIdFromName (desktopWorkspaceIdFromName name) = desktopWorkspaceIdFromName name"
  using workspace_id_slug slug_fixed [OF workspace_id_slug] by simp

lemma sample_workspace_ids:
  "desktopWorkspaceIdFromName '' Ted's Desk -- (2) '' = ''ted-s-desk-2''" "desktopWorkspaceIdFromName ''***'' = ''local-workspace''"
  by code_simp+

lemma jsub_pixels:
  assumes "\<bar>a\<bar> \<le> 9000000" "\<bar>b\<bar> \<le> 9000000"
  shows "jsub (num_of_int a) (num_of_int b) = num_of_int (a - b)"
  using rnd_int [of "a - b"] assms by (simp add: jsub_finite num_of_int_def)

lemma max_at_least: "is_finite (math_max (Fin q) s) \<Longrightarrow> q \<le> val (math_max (Fin q) s)"
  by (cases s) (auto simp: math_max_def jlt_def)

lemma packed_size:
  assumes "is_finite s" "lo \<le> S - p - m" "\<bar>S\<bar> \<le> 4000000" "\<bar>p\<bar> \<le> 4000000" "\<bar>m\<bar> \<le> 4000000"
  shows "val (math_max (num_of_int lo) (math_min s (jsub (jsub (num_of_int S) (num_of_int p)) (num_of_int m)))) =
      max (of_int lo) (min (val s) (of_int (S - p - m)))"
proof -
  have "\<bar>S - p\<bar> \<le> 9000000" using assms(3,4) by linarith
  then have "jsub (jsub (num_of_int S) (num_of_int p)) (num_of_int m) = num_of_int (S - p - m)"
    using jsub_pixels [of S p] jsub_pixels [of "S - p" m] assms(3-5) by simp
  then show ?thesis using assms(1) by (simp add: math_max_finite math_min_finite num_of_int_def)
qed

text \<open>Packing puts a window on the screen: on a screen of whole pixels (no more than a million each way)
  that is at least 900 wide and 734 high, a window with finite width and height lands with its left edge at 18 or more and its
  right edge at least 28 before the right end of the screen, its upper edge at 42 or more and its
  lower edge at least 42 above the bottom, and it is never smaller than 360 by 260 nor larger than
  it was.\<close>

theorem packed_windows_fit:
  assumes "900 \<le> W" "734 \<le> H" "W \<le> 1000000" "H \<le> 1000000"
    and "is_finite (bd_w (readDesktopBounds item))" "is_finite (bd_h (readDesktopBounds item))"
    and "b = packDesktopBounds item index (num_of_int W, num_of_int H)"
  shows "18 \<le> val (bd_x b) \<and> val (bd_x b) + val (bd_w b) \<le> of_int W - 28
    \<and> 42 \<le> val (bd_y b) \<and> val (bd_y b) + val (bd_h b) \<le> of_int H - 42
    \<and> 360 \<le> val (bd_w b) \<and> val (bd_w b) \<le> val (bd_w (readDesktopBounds item))
    \<and> 260 \<le> val (bd_h b) \<and> val (bd_h b) \<le> val (bd_h (readDesktopBounds item))"
proof -
  obtain x y where x: "x = 18 + int (index mod 6) * 42" and y: "y = 42 + int (index mod 14) * 30" by simp
  have r: "18 \<le> x" "x \<le> 228" "42 \<le> y" "y \<le> 432" by (auto simp: x y)
  have min: "360 \<le> val (bd_w (readDesktopBounds item))" "260 \<le> val (bd_h (readDesktopBounds item))"
    using assms(5,6) by (simp_all add: readDesktopBounds_def Let_def max_at_least)
  have w: "val (bd_w b) = max 360 (min (val (bd_w (readDesktopBounds item))) (of_int (W - x - 28)))"
    using packed_size [OF assms(5), of 360 W x 28] assms(1,3) r
    by (simp add: assms(7) packDesktopBounds_def x num_of_int_def Let_def)
  have h: "val (bd_h b) = max 260 (min (val (bd_h (readDesktopBounds item))) (of_int (H - y - 42)))"
    using packed_size [OF assms(6), of 260 H y 42] assms(2,4) r
    by (simp add: assms(7) packDesktopBounds_def y num_of_int_def Let_def)
  have xy: "val (bd_x b) = of_int x" "val (bd_y b) = of_int y"
    by (simp_all add: assms(7) packDesktopBounds_def x y num_of_int_def Let_def)
  have big: "(360 :: rat) \<le> of_int (W - x - 28)" "(260 :: rat) \<le> of_int (H - y - 42)"
    "(18 :: rat) \<le> of_int x" "(42 :: rat) \<le> of_int y"
    using assms(1,2) r by linarith+
  then show ?thesis using w h xy min by (simp add: max_def min_def)
qed

definition sample_window_item :: jobj where
  "sample_window_item = [(''x'', Num (Fin 40)), (''w'', Num (Fin 2000)), (''h'', Num (Fin 300))]"

lemma packed_windows_fit_witness:
  "18 \<le> val (bd_x (packDesktopBounds sample_window_item 13 (num_of_int 1000, num_of_int 800)))
   \<and> val (bd_x (packDesktopBounds sample_window_item 13 (num_of_int 1000, num_of_int 800)))
       + val (bd_w (packDesktopBounds sample_window_item 13 (num_of_int 1000, num_of_int 800))) \<le> 972"
proof -
  have "is_finite (bd_w (readDesktopBounds sample_window_item))" "is_finite (bd_h (readDesktopBounds sample_window_item))"
    by code_simp+
  from packed_windows_fit [OF _ _ _ _ this refl, of 1000 800 13] show ?thesis by simp
qed

text \<open>Combining the answers of the windows with the inventory of the runtime: one window per id, the
  last answer of a window counts, and a window that answered itself goes before what the runtime says
  of it; no window is lost and none is made up.\<close>

theorem combined_snapshots:
  "by_key (\<lambda>w. oget w ''id'') (combineDesktopSnapshots primary inventory) =
     by_key (\<lambda>w. oget w ''id'') (rev inventory) ++ by_key (\<lambda>w. oget w ''id'') (rev primary)
   \<and> distinct (map (\<lambda>w. oget w ''id'') (combineDesktopSnapshots primary inventory))
   \<and> set (combineDesktopSnapshots primary inventory) \<subseteq> set primary \<union> set inventory"
proof (intro conjI)
  show "set (combineDesktopSnapshots primary inventory) \<subseteq> set primary \<union> set inventory"
    using latest_by_subset [of "\<lambda>w. oget w ''id''" "inventory @ primary"] unfolding combineDesktopSnapshots_def by auto
  show "distinct (map (\<lambda>w. oget w ''id'') (combineDesktopSnapshots primary inventory))"
    unfolding combineDesktopSnapshots_def by (rule latest_by_distinct)
qed (simp add: combineDesktopSnapshots_def latest_by_map by_key_append)

lemma fallback_ok: "workspace_ok (fallbackDesktopWorkspace now)"
  by (simp add: workspace_ok_def fallbackDesktopWorkspace_def)

lemma with_id_ok: "workspace_ok (withDesktopWorkspaceId w) = workspace_ok w"
  by (simp add: workspace_ok_def withDesktopWorkspaceId_def)

lemma with_id: "\<exists>i. sw_workspaceId (withDesktopWorkspaceId w) = Some i \<and> i \<noteq> []"
  using workspace_id_slug [of "sw_name w"] by (auto simp: withDesktopWorkspaceId_def slug_ok_def split: option.splits)

lemma fetched_ok: "w \<in> set (fetchRecoveredWorkspaces lc now a) \<Longrightarrow> workspace_ok w"
proof (cases a)
  case (Some x)
  assume w: "w \<in> set (fetchRecoveredWorkspaces lc now a)"
  obtain ok payload where x: "x = Answer ok payload" by (cases x)
  show ?thesis using w Some x normalize_all_ok [of lc now "as_list (jget payload ''workspaces'')"]
    by (cases "normalize_all lc now (as_list (jget payload ''workspaces''))")
      (simp_all add: fetchRecoveredWorkspaces_def caught_def split: if_splits)
qed (simp add: fetchRecoveredWorkspaces_def)

lemma desktop_load_ok: "workspace_ok (loadDesktopWorkspaceWindowsAsync lc now a)
    \<and> (\<exists>i. sw_workspaceId (loadDesktopWorkspaceWindowsAsync lc now a) = Some i \<and> i \<noteq> [])"
proof -
  have f: "workspace_ok (fallbackDesktopWorkspace now) \<and> (\<exists>i. sw_workspaceId (fallbackDesktopWorkspace now) = Some i \<and> i \<noteq> [])"
    using fallback_ok by (simp add: fallbackDesktopWorkspace_def desktop_workspace_id_def)
  have n: "workspace_ok (withDesktopWorkspaceId w) \<and> (\<exists>i. sw_workspaceId (withDesktopWorkspaceId w) = Some i \<and> i \<noteq> [])"
    if "caught None (normalizeWorkspace lc now v) = Some w" for w v
    using that normalized_workspace_ok [of lc now v w] with_id [of w]
    by (auto simp: caught_def with_id_ok split: sum.splits)
  show ?thesis
  proof (cases "\<exists>payload. a = Some (Answer True payload)")
    case True
    then obtain payload where a: "a = Some (Answer True payload)" by blast
    show ?thesis
    proof (cases "caught None (normalizeWorkspace lc now (jget payload ''workspace''))")
      case None
      with f show ?thesis by (simp add: loadDesktopWorkspaceWindowsAsync_def a)
    next
      case (Some w)
      with f n [OF Some] show ?thesis by (simp add: loadDesktopWorkspaceWindowsAsync_def a)
    qed
  next
    case False
    then have "loadDesktopWorkspaceWindowsAsync lc now a = fallbackDesktopWorkspace now"
      by (auto simp: loadDesktopWorkspaceWindowsAsync_def split: option.splits answer.splits bool.splits)
    with f show ?thesis by simp
  qed
qed

text \<open>What the server sends is read safely: whatever the answer, the lists of workspaces hold only
  well-formed ones, a desktop list gives every one an id, and the desktop always starts with a
  well-formed workspace that has an id.\<close>

theorem server_answers_ok:
  "(\<forall>w\<in>set (fetchRecoveredWorkspaces lc now a). workspace_ok w)
   \<and> (\<forall>w\<in>set (fetchDesktopSavedWorkspaces lc now a). workspace_ok w \<and> (\<exists>i. sw_workspaceId w = Some i \<and> i \<noteq> []))
   \<and> workspace_ok (loadDesktopWorkspaceWindowsAsync lc now a)
   \<and> (\<exists>i. sw_workspaceId (loadDesktopWorkspaceWindowsAsync lc now a) = Some i \<and> i \<noteq> [])"
proof (intro conjI)
  show "\<forall>w\<in>set (fetchRecoveredWorkspaces lc now a). workspace_ok w" using fetched_ok by blast
  show "\<forall>w\<in>set (fetchDesktopSavedWorkspaces lc now a). workspace_ok w \<and> (\<exists>i. sw_workspaceId w = Some i \<and> i \<noteq> [])"
    using fetched_ok with_id by (auto simp: fetchDesktopSavedWorkspaces_def with_id_ok)
qed (use desktop_load_ok [of lc now a] in simp_all)

lemma server_answers_ok_witness:
  "(let xs = fetchDesktopSavedWorkspaces code_compare (Fin 5) (Some (Answer True (Obj [(''workspaces'',
          Arr [Obj [(''name'', Str ''Ted Desk''), (''windows'', Arr [])], Obj [(''name'', Str ''No windows'')]])])))
    in map sw_workspaceId xs = [Some ''ted-desk''] \<and> list_all workspace_ok xs)"
  (is "let xs = ?xs in ?ids xs \<and> list_all _ xs")
proof -
  have "?ids ?xs" by code_simp
  with server_answers_ok [of code_compare "Fin 5" "Some (Answer True (Obj [(''workspaces'',
          Arr [Obj [(''name'', Str ''Ted Desk''), (''windows'', Arr [])], Obj [(''name'', Str ''No windows'')]])]))"]
  show ?thesis by (simp add: Let_def list_all_iff)
qed

end
