(* ===== verification/PortalGate.thy ===== *)
theory PortalGate
  imports JsValue
begin

text \<open>
  The portal gate of \<open>apps/terminal/src/components/PortalGate.tsx\<close>: the stored session, the login
  form, the validation of a stored session with its retries, and the gate as a state that the end
  of the validation, a login, a lock and the unmounting of the page change. The answers of the
  server are arguments; waiting between two attempts is counted. Main results: the validation ends
  after at most three requests, the gate always decides and then agrees with what is stored, and a
  lock that comes while a session is still being checked is undone by the end of the check.
\<close>

subsection \<open>The stored session\<close>

record portal_session =
  ps_username :: string
  ps_sessionToken :: string
  ps_expiresAt :: "jsnum option"

definition session_key :: string where "session_key = ''cerious.portal.session.v1''"

text \<open>\<open>Number(v || 0) || undefined\<close>.\<close>

definition expiry_of :: "jsv \<Rightarrow> jsnum option" where
  "expiry_of v = (let n = to_num (js_or v (Num (Fin 0))) in if num_truthy n then Some n else None)"

definition getStoredPortalSession :: "cell \<Rightarrow> portal_session option" where
  "getStoredPortalSession stored = (case stored of
     Absent \<Rightarrow> None | Malformed \<Rightarrow> None
   | Json parsed \<Rightarrow>
       if \<not> truthy (jget parsed ''username'') \<or> \<not> truthy (jget parsed ''sessionToken'') then None
       else Some \<lparr>ps_username = to_str (jget parsed ''username''), ps_sessionToken = to_str (jget parsed ''sessionToken''),
              ps_expiresAt = expiry_of (jget parsed ''expiresAt'')\<rparr>)"

definition session_obj :: "portal_session \<Rightarrow> jsv" where
  "session_obj s = Obj [(''username'', Str (ps_username s)), (''sessionToken'', Str (ps_sessionToken s)),
     (''expiresAt'', opt_num (ps_expiresAt s))]"

text \<open>What the two storage keys hold after a change.\<close>

definition storePortalSession :: "portal_session option \<Rightarrow> cell" where
  "storePortalSession session = (case session of None \<Rightarrow> Absent | Some s \<Rightarrow> Json (json_norm (session_obj s)))"

definition setWorkspaceSessionToken :: "string option \<Rightarrow> string option" where
  "setWorkspaceSessionToken token = (case token of Some t \<Rightarrow> if t = [] then None else Some t | None \<Rightarrow> None)"

text \<open>A session as the server answers it; \<open>None\<close> also stands for a request that throws, which the
  caller treats the same way.\<close>

definition session_of :: "string \<Rightarrow> jsv \<Rightarrow> portal_session" where
  "session_of username payload =
     \<lparr>ps_username = to_str (js_or (jget payload ''username'') (Str username)),
      ps_sessionToken = to_str (jget payload ''sessionToken''), ps_expiresAt = expiry_of (jget payload ''expiresAt'')\<rparr>"

datatype auth_answer = NoAnswer | AuthAnswer bool jsv

definition requestAutoSession :: "auth_answer \<Rightarrow> portal_session option" where
  "requestAutoSession a = (case a of NoAnswer \<Rightarrow> None
     | AuthAnswer ok payload \<Rightarrow> if \<not> ok \<or> \<not> truthy (jget payload ''sessionToken'') then None
         else Some (session_of ''local'' payload))"

subsection \<open>The login form\<close>

datatype login_error = NetworkFailure | Failure string | Unknown

definition loginErrorMessage :: "login_error \<Rightarrow> string" where
  "loginErrorMessage e = (case e of
     NetworkFailure \<Rightarrow> ''Cerious gateway is starting. Retry in a moment.''
   | Failure m \<Rightarrow> m | Unknown \<Rightarrow> ''Login failed'')"

record login_form =
  lf_username :: string
  lf_password :: string
  lf_status :: string
  lf_submitting :: bool

definition initial_login :: "string \<Rightarrow> login_form" where
  "initial_login initialStatus =
     \<lparr>lf_username = ''tsturiale'', lf_password = [], lf_status = initialStatus, lf_submitting = False\<rparr>"

text \<open>Submitting gives the request, unless one is on its way.\<close>

definition submit_start :: "login_form \<Rightarrow> login_form \<times> (string \<times> string) option" where
  "submit_start f = (if lf_submitting f then (f, None)
     else (f\<lparr>lf_submitting := True, lf_status := ''Authenticating''\<rparr>, Some (lf_username f, lf_password f)))"

text \<open>A payload that is \<open>null\<close> makes the reading throw, which counts as a network failure.\<close>

definition login_result :: "string \<Rightarrow> login_error + (bool \<times> jsv) \<Rightarrow> login_error + portal_session" where
  "login_result username response = (case response of
     Inl e \<Rightarrow> Inl e
   | Inr (ok, payload) \<Rightarrow>
       if nullish payload then Inl NetworkFailure
       else if \<not> ok \<or> \<not> truthy (jget payload ''sessionToken'')
         then Inl (Failure (to_str (js_or (jget payload ''detail'') (Str ''Login failed''))))
       else Inr (session_of username payload))"

definition submit_finish :: "login_error + portal_session \<Rightarrow> login_form \<Rightarrow> login_form" where
  "submit_finish result f = (case result of
     Inl e \<Rightarrow> f\<lparr>lf_status := loginErrorMessage e, lf_submitting := False\<rparr>
   | Inr s \<Rightarrow> f\<lparr>lf_submitting := False\<rparr>)"

subsection \<open>Validation\<close>

datatype attempt_result = Accepted | Unauthorized | OtherStatus | NetworkError

definition max_attempts :: nat where "max_attempts = 3"

text \<open>The attempts from one on: whether the session was accepted, the requests made and the pauses.\<close>

function validate_from :: "(nat \<Rightarrow> attempt_result) \<Rightarrow> nat \<Rightarrow> bool \<times> nat \<times> nat" where
  "validate_from result attempt =
     (if max_attempts \<le> attempt then (False, 0, 0)
      else let again = (case validate_from result (Suc attempt) of (v, requests, pauses) \<Rightarrow> (v, Suc requests, Suc pauses)) in
        case result attempt of
          Accepted \<Rightarrow> (True, 1, 0)
        | Unauthorized \<Rightarrow> (False, 1, 0)
        | OtherStatus \<Rightarrow> again
        | NetworkError \<Rightarrow> if attempt < max_attempts - 1 then again else (False, 1, 0))"
  by pat_completeness auto
termination by (relation "measure (\<lambda>(result, attempt). max_attempts - attempt)") auto

declare validate_from.simps [simp del]

subsection \<open>The gate\<close>

record portal_gate =
  pg_stored :: cell
  pg_token :: "string option"
  pg_session :: "portal_session option"
  pg_checking :: bool
  pg_message :: string
  pg_cancelled :: bool

definition mount_gate :: "cell \<Rightarrow> string option \<Rightarrow> portal_gate" where
  "mount_gate stored token = \<lparr>pg_stored = stored, pg_token = token, pg_session = getStoredPortalSession stored,
     pg_checking = (getStoredPortalSession stored \<noteq> None), pg_message = [], pg_cancelled = False\<rparr>"

text \<open>The end of the validation of the session that was stored when the page was mounted.\<close>

definition validate_done :: "portal_session \<Rightarrow> (nat \<Rightarrow> attempt_result) \<Rightarrow> auth_answer \<Rightarrow> portal_gate \<Rightarrow> portal_gate" where
  "validate_done existing result auto g =
     (if pg_cancelled g then g
      else if fst (validate_from result 0)
      then g\<lparr>pg_token := setWorkspaceSessionToken (Some (ps_sessionToken existing)), pg_session := Some existing,
             pg_checking := False\<rparr>
      else let session = requestAutoSession auto in
        g\<lparr>pg_stored := storePortalSession session,
          pg_token := setWorkspaceSessionToken (map_option ps_sessionToken session),
          pg_session := session, pg_checking := False\<rparr>)"

definition handleLock :: "string option \<Rightarrow> portal_gate \<Rightarrow> portal_gate" where
  "handleLock reason g = g\<lparr>pg_stored := storePortalSession None, pg_token := setWorkspaceSessionToken None,
     pg_session := None, pg_checking := False,
     pg_message := (case reason of Some r \<Rightarrow> if r = [] then ''Workspace locked. Log in to unlock.'' else r
       | None \<Rightarrow> ''Workspace locked. Log in to unlock.'')\<rparr>"

definition onAuthenticated :: "portal_session \<Rightarrow> portal_gate \<Rightarrow> portal_gate" where
  "onAuthenticated s g = g\<lparr>pg_stored := storePortalSession (Some s),
     pg_token := setWorkspaceSessionToken (Some (ps_sessionToken s)), pg_message := [], pg_session := Some s\<rparr>"

definition unmount_gate :: "portal_gate \<Rightarrow> portal_gate" where
  "unmount_gate g = g\<lparr>pg_cancelled := True\<rparr>"

datatype gate_view = CheckingView | LoginView string | Application

definition gate_view_of :: "portal_gate \<Rightarrow> gate_view" where
  "gate_view_of g = (if pg_checking g then CheckingView
     else if pg_session g = None then LoginView (pg_message g) else Application)"

subsection \<open>Properties\<close>

lemma validate_from_shape:
  "case validate_from result attempt of (valid, requests, pauses) \<Rightarrow>
     requests \<le> max_attempts - attempt \<and> pauses \<le> requests
     \<and> (valid \<longleftrightarrow> (\<exists>i. attempt \<le> i \<and> i < max_attempts \<and> result i = Accepted
          \<and> (\<forall>j. attempt \<le> j \<and> j < i \<longrightarrow> result j \<in> {OtherStatus, NetworkError})))"
proof (induction result attempt rule: validate_from.induct)
  case (1 result attempt)
  show ?case
  proof (cases "max_attempts \<le> attempt")
    case True
    then show ?thesis by (simp add: validate_from.simps [of result attempt])
  next
    case False
    obtain v r p where rest: "validate_from result (Suc attempt) = (v, r, p)" by (cases "validate_from result (Suc attempt)")
    note ih = 1 [OF False, unfolded rest prod.case]
    have later: "(\<exists>i. attempt \<le> i \<and> i < max_attempts \<and> result i = Accepted
          \<and> (\<forall>j. attempt \<le> j \<and> j < i \<longrightarrow> result j \<in> {OtherStatus, NetworkError})) \<longleftrightarrow>
        (\<exists>i. Suc attempt \<le> i \<and> i < max_attempts \<and> result i = Accepted
          \<and> (\<forall>j. Suc attempt \<le> j \<and> j < i \<longrightarrow> result j \<in> {OtherStatus, NetworkError}))"
      if "result attempt \<in> {OtherStatus, NetworkError}"
    proof (intro iffI; elim exE conjE)
      fix i assume i: "attempt \<le> i" "i < max_attempts" "result i = Accepted"
        "\<forall>j. attempt \<le> j \<and> j < i \<longrightarrow> result j \<in> {OtherStatus, NetworkError}"
      with that have "i \<noteq> attempt" by auto
      with i show "\<exists>i. Suc attempt \<le> i \<and> i < max_attempts \<and> result i = Accepted
          \<and> (\<forall>j. Suc attempt \<le> j \<and> j < i \<longrightarrow> result j \<in> {OtherStatus, NetworkError})"
        by (intro exI [of _ i]) simp
    next
      fix i assume i: "Suc attempt \<le> i" "i < max_attempts" "result i = Accepted"
        "\<forall>j. Suc attempt \<le> j \<and> j < i \<longrightarrow> result j \<in> {OtherStatus, NetworkError}"
      have "result j \<in> {OtherStatus, NetworkError}" if "attempt \<le> j" "j < i" for j
        using i(4) that \<open>result attempt \<in> {OtherStatus, NetworkError}\<close> by (cases "j = attempt") auto
      with i show "\<exists>i. attempt \<le> i \<and> i < max_attempts \<and> result i = Accepted
          \<and> (\<forall>j. attempt \<le> j \<and> j < i \<longrightarrow> result j \<in> {OtherStatus, NetworkError})"
        by (intro exI [of _ i]) simp
    qed
    have stop: "\<not> (\<exists>i. attempt \<le> i \<and> i < max_attempts \<and> result i = Accepted
          \<and> (\<forall>j. attempt \<le> j \<and> j < i \<longrightarrow> result j \<in> {OtherStatus, NetworkError}))"
      if "result attempt = Unauthorized"
    proof
      assume "\<exists>i. attempt \<le> i \<and> i < max_attempts \<and> result i = Accepted
          \<and> (\<forall>j. attempt \<le> j \<and> j < i \<longrightarrow> result j \<in> {OtherStatus, NetworkError})"
      then obtain i where i: "attempt \<le> i" "result i = Accepted"
        "\<forall>j. attempt \<le> j \<and> j < i \<longrightarrow> result j \<in> {OtherStatus, NetworkError}" by blast
      with that have "attempt < i" by (cases "attempt = i") auto
      with i(3) that show False by auto
    qed
    show ?thesis
    proof (cases "result attempt")
      case Accepted
      with False show ?thesis by (auto simp: validate_from.simps [of result attempt] rest intro!: exI [of _ attempt])
    next
      case Unauthorized
      with False stop show ?thesis by (simp add: validate_from.simps [of result attempt] rest)
    next
      case OtherStatus
      with False ih later show ?thesis by (simp add: validate_from.simps [of result attempt] rest Let_def) linarith
    next
      case NetworkError
      with False ih later show ?thesis
        by (cases "attempt < max_attempts - 1") (auto simp: validate_from.simps [of result attempt] rest Let_def)
    qed
  qed
qed

text \<open>C33. Checking a stored session ends: whatever the server answers, at most three requests are made,
  with no more pauses than requests, and the session is accepted exactly when one of the three
  attempts is, and every attempt before it met a server that was not ready or not there.\<close>

theorem validation_ends:
  "case validate_from result 0 of (valid, requests, pauses) \<Rightarrow> requests \<le> 3 \<and> pauses \<le> requests
     \<and> valid = (\<exists>i<3. result i = Accepted \<and> (\<forall>j<i. result j = OtherStatus \<or> result j = NetworkError))"
  using validate_from_shape [where result = result and attempt = 0] by (simp add: max_attempts_def split: prod.splits)

lemma validation_ends_witness:
  "validate_from ((\<lambda>i. NetworkError)(2 := Accepted)) 0 = (True, 3, 2)
   \<and> (\<exists>i<3. ((\<lambda>i. NetworkError)(2 := Accepted)) (i :: nat) = Accepted)"
proof -
  have "validate_from ((\<lambda>i. NetworkError)(2 := Accepted)) 0 = (True, 3, 2)"
    by (simp add: validate_from.simps max_attempts_def)
  moreover have "\<exists>i<3. ((\<lambda>i. NetworkError)(2 := Accepted)) (i :: nat) = Accepted"
    using validation_ends [of "(\<lambda>i. NetworkError)(2 := Accepted)"] calculation by auto
  ultimately show ?thesis by blast
qed

text \<open>A session that survives being stored: with a name, a token, and an end that is a finite number.\<close>

definition session_ok :: "portal_session \<Rightarrow> bool" where
  "session_ok s \<longleftrightarrow> ps_username s \<noteq> [] \<and> ps_sessionToken s \<noteq> []
     \<and> (case ps_expiresAt s of None \<Rightarrow> True | Some n \<Rightarrow> is_finite n \<and> num_truthy n)"

lemma session_back:
  assumes "session_ok s"
  shows "getStoredPortalSession (storePortalSession (Some s)) = Some s"
proof (cases "ps_expiresAt s")
  case None
  with assms show ?thesis
    by (simp add: getStoredPortalSession_def storePortalSession_def session_obj_def session_ok_def jget_def truthy_def
        opt_num_def expiry_of_def js_or_def num_truthy_def jeq_def)
next
  case (Some n)
  with assms have "is_finite n" "drop_sign n = n" "num_truthy n"
    by (cases n; auto simp: session_ok_def drop_sign_def num_truthy_def jeq_def)+
  with assms Some show ?thesis
    by (simp add: getStoredPortalSession_def storePortalSession_def session_obj_def session_ok_def jget_def truthy_def
        opt_num_def expiry_of_def js_or_def)
qed

text \<open>The gate agrees with the storage: it is open exactly when a session is stored, for that session
  and its token.\<close>

definition gate_agrees :: "portal_gate \<Rightarrow> bool" where
  "gate_agrees g \<longleftrightarrow> pg_session g = getStoredPortalSession (pg_stored g)
     \<and> pg_token g = map_option ps_sessionToken (pg_session g) \<and> \<not> pg_checking g"

lemma token_of_session [simp]: "t \<noteq> [] \<Longrightarrow> setWorkspaceSessionToken (Some t) = Some t" "setWorkspaceSessionToken None = None"
  by (simp_all add: setWorkspaceSessionToken_def)

datatype gate_event = LockEvent "string option" | LoginEvent portal_session

fun gate_step :: "gate_event \<Rightarrow> portal_gate \<Rightarrow> portal_gate" where
  "gate_step (LockEvent reason) g = handleLock reason g"
| "gate_step (LoginEvent s) g = onAuthenticated s g"

fun event_session_ok :: "gate_event \<Rightarrow> bool" where
  "event_session_ok (LoginEvent s) = session_ok s"
| "event_session_ok (LockEvent reason) = True"

lemma gate_step_agrees: "gate_agrees g \<Longrightarrow> event_session_ok e \<Longrightarrow> gate_agrees (gate_step e g)"
  using session_back by (cases e)
    (auto simp: gate_agrees_def handleLock_def onAuthenticated_def storePortalSession_def getStoredPortalSession_def session_ok_def)

lemma gate_fold_agrees: "gate_agrees g \<Longrightarrow> \<forall>e\<in>set es. event_session_ok e \<Longrightarrow> gate_agrees (fold gate_step es g)"
  by (induction es arbitrary: g) (auto intro: gate_step_agrees)

text \<open>C29. The gate decides: when the check of a stored session ends on a page that is still there, with no
  lock and no other event since the page was opened, whatever the server answered, the page stops waiting,
  and from then on, through any number of locks and logins, the application is shown exactly when a session
  is stored, and the session and token in use are the stored ones. (What a lock during the check does is a
  property of its own below.)\<close>

theorem gate_decides:
  assumes "getStoredPortalSession stored = Some existing" and "ps_sessionToken existing \<noteq> []"
    and "\<forall>s. requestAutoSession auto = Some s \<longrightarrow> session_ok s" and "\<forall>e\<in>set es. event_session_ok e"
    and "g = fold gate_step es (validate_done existing result auto (mount_gate stored token))"
  shows "gate_view_of g \<noteq> CheckingView
    \<and> (gate_view_of g = Application \<longleftrightarrow> getStoredPortalSession (pg_stored g) \<noteq> None)
    \<and> pg_session g = getStoredPortalSession (pg_stored g)
    \<and> pg_token g = map_option ps_sessionToken (getStoredPortalSession (pg_stored g))"
proof -
  have "gate_agrees (validate_done existing result auto (mount_gate stored token))"
  proof (cases "requestAutoSession auto")
    case None
    with assms(1,2) show ?thesis
      by (simp add: gate_agrees_def validate_done_def mount_gate_def storePortalSession_def getStoredPortalSession_def [of Absent] Let_def)
  next
    case (Some s)
    with assms(1-3) session_back [of s] show ?thesis
      by (simp add: gate_agrees_def validate_done_def mount_gate_def session_ok_def Let_def)
  qed
  with gate_fold_agrees [OF _ assms(4)] have "gate_agrees g" by (simp add: assms(5))
  then show ?thesis by (simp add: gate_agrees_def gate_view_of_def)
qed

definition sample_session :: portal_session where
  "sample_session = \<lparr>ps_username = ''ted'', ps_sessionToken = ''t1'', ps_expiresAt = Some (Fin 9)\<rparr>"

lemma sample_session_ok: "session_ok sample_session"
  by (simp add: session_ok_def sample_session_def num_truthy_def jeq_def)

lemma gate_decides_witness:
  "(let g = fold gate_step [LockEvent None, LoginEvent sample_session]
        (validate_done sample_session (\<lambda>i. Unauthorized) NoAnswer (mount_gate (storePortalSession (Some sample_session)) None))
    in gate_view_of g = Application \<and> pg_token g = Some ''t1'')"
proof -
  obtain g where g: "g = fold gate_step [LockEvent None, LoginEvent sample_session]
        (validate_done sample_session (\<lambda>i. Unauthorized) NoAnswer (mount_gate (storePortalSession (Some sample_session)) None))" by simp
  have stored: "getStoredPortalSession (pg_stored g) = Some sample_session"
    unfolding g using session_back [OF sample_session_ok] by (simp add: onAuthenticated_def)
  have "gate_view_of g \<noteq> CheckingView \<and> (gate_view_of g = Application \<longleftrightarrow> getStoredPortalSession (pg_stored g) \<noteq> None)
      \<and> pg_session g = getStoredPortalSession (pg_stored g) \<and> pg_token g = map_option ps_sessionToken (getStoredPortalSession (pg_stored g))"
    by (rule gate_decides [OF session_back [OF sample_session_ok] _ _ _ g])
      (simp_all add: sample_session_ok requestAutoSession_def, simp add: sample_session_def)
  with stored have "gate_view_of g = Application \<and> pg_token g = Some (ps_sessionToken sample_session)" by simp
  then have "gate_view_of g = Application \<and> pg_token g = Some ''t1''" unfolding sample_session_def by simp
  then show ?thesis by (simp only: g Let_def)
qed

text \<open>C35. A lock does not hold while a session is being checked: if the page is locked before the server
  accepts the stored session, the end of the check opens the application again for that session,
  although nothing is stored any more.\<close>

theorem lock_undone_by_check:
  assumes "\<exists>i<3. result i = Accepted \<and> (\<forall>j<i. result j = OtherStatus \<or> result j = NetworkError)"
  shows "gate_view_of (handleLock reason (mount_gate stored token)) \<noteq> Application
    \<and> gate_view_of (validate_done existing result auto (handleLock reason (mount_gate stored token))) = Application
    \<and> pg_session (validate_done existing result auto (handleLock reason (mount_gate stored token))) = Some existing
    \<and> getStoredPortalSession (pg_stored (validate_done existing result auto (handleLock reason (mount_gate stored token)))) = None"
proof -
  have "fst (validate_from result 0)"
    using validate_from_shape [where result = result and attempt = 0] assms
    by (simp add: max_attempts_def split: prod.splits)
  then show ?thesis
    by (simp add: gate_view_of_def validate_done_def handleLock_def mount_gate_def storePortalSession_def getStoredPortalSession_def)
qed

lemma lock_undone_by_check_witness:
  "gate_view_of (validate_done sample_session (\<lambda>i. Accepted) NoAnswer
      (handleLock None (mount_gate (storePortalSession (Some sample_session)) None))) = Application"
  using lock_undone_by_check [of "\<lambda>i. Accepted" None "storePortalSession (Some sample_session)" None sample_session NoAnswer]
  by (simp add: exI [of _ 0])

end
