(* ===== verification/Gather.thy ===== *)
theory Gather
  imports WorkspaceSettings
begin

text \<open>
  Loops that gather rows in a \<open>Map\<close>, as an interface: what a row starts an entry with, what a row adds
  to an entry, and that entries keep their key. The roll-ups of fills and the bars of a chart are
  instances. Main results: the entry of a key is the fold of the rows of that key, in their order,
  and when entries count their rows, every row is counted once.
\<close>

definition gather :: "('r \<Rightarrow> 'k) \<Rightarrow> ('r \<Rightarrow> 'e) \<Rightarrow> ('r \<Rightarrow> 'e \<Rightarrow> 'e) \<Rightarrow> 'r \<Rightarrow> ('k \<times> 'e) list \<Rightarrow> ('k \<times> 'e) list" where
  "gather key start add row d =
     dict_set (key row) (case map_of d (key row) of None \<Rightarrow> start row | Some e \<Rightarrow> add row e) d"

lemma dict_set_mem: "e \<in> set (dict_set k v d) \<Longrightarrow> e = (k, v) \<or> e \<in> set d"
  by (induction k v d rule: dict_set.induct) (auto split: if_splits)

lemma dict_set_sum:
  "dict_wf d \<Longrightarrow> sum_list (map f (map snd (dict_set k v d))) + (case map_of d k of None \<Rightarrow> 0 | Some w \<Rightarrow> f w)
     = sum_list (map f (map snd d)) + (f v :: nat)"
proof (induction k v d rule: dict_set.induct)
  case (2 k v k' v' d)
  then show ?case by (cases "k = k'") (auto simp: dict_wf_def dest: map_of_SomeD split: option.splits)
qed simp

lemma by_key_same:
  assumes "distinct (map key xs)" "distinct (map key ys)" "set xs = set ys"
  shows "by_key key xs = by_key key ys"
proof
  fix k
  have sub: "by_key key bs k = Some x" if "by_key key as k = Some x" "distinct (map key bs)" "set as = set bs" for as bs x
    using by_key_in [OF that(1)] by_key_mem [OF that(2), of x] that(3) by simp
  show "by_key key xs k = by_key key ys k"
    using sub [of xs _ ys] sub [of ys _ xs] assms by (cases "by_key key xs k"; cases "by_key key ys k") simp_all
qed

lemma gather_get: "map_of (gather key start add row d) k =
    (if k = key row then Some (case map_of d k of None \<Rightarrow> start row | Some e \<Rightarrow> add row e) else map_of d k)"
  by (simp add: gather_def dict_get_set)

lemma gathered_get:
  "map_of (fold (gather key start add) rows d) k =
     (case filter (\<lambda>r. key r = k) rows of [] \<Rightarrow> map_of d k
      | r # rs \<Rightarrow> Some (case map_of d k of None \<Rightarrow> fold add rs (start r) | Some e \<Rightarrow> fold add (r # rs) e))"
proof (induction rows arbitrary: d)
  case (Cons row rows)
  show ?case
    using Cons.IH [of "gather key start add row d"]
    by (cases "filter (\<lambda>r. key r = k) rows") (auto simp: gather_get split: option.splits)
qed simp

lemma gathered_wf: "dict_wf d \<Longrightarrow> dict_wf (fold (gather key start add) rows d)"
  by (induction rows arbitrary: d) (simp_all add: gather_def dict_wf_set)

locale grouping =
  fixes key :: "'r \<Rightarrow> 'k" and start :: "'r \<Rightarrow> 'e" and add :: "'r \<Rightarrow> 'e \<Rightarrow> 'e" and name :: "'e \<Rightarrow> 'k"
  assumes name_start: "name (start r) = key r" and name_add: "name (add r e) = name e"
begin

lemma gathered_named: "\<forall>e\<in>set d. fst e = name (snd e) \<Longrightarrow>
    \<forall>e\<in>set (fold (gather key start add) rows d). fst e = name (snd e)"
proof (induction rows arbitrary: d)
  case (Cons row rows)
  have "name (case map_of d (key row) of None \<Rightarrow> start row | Some e \<Rightarrow> add row e) = key row"
    using Cons.prems map_of_SomeD [of d "key row"] by (cases "map_of d (key row)") (auto simp: name_start name_add)
  then have "\<forall>e\<in>set (gather key start add row d). fst e = name (snd e)"
    using Cons.prems by (auto simp: gather_def dest!: dict_set_mem)
  from Cons.IH [OF this] show ?case by simp
qed simp

text \<open>The list of the entries, arranged in any order.\<close>

lemma gathered_list:
  assumes "mset es = mset (map snd (fold (gather key start add) rows []))"
  shows "distinct (map name es)"
    and "by_key name es k = (case filter (\<lambda>r. key r = k) rows of [] \<Rightarrow> None | r # rs \<Rightarrow> Some (fold add rs (start r)))"
proof -
  obtain d where d: "d = fold (gather key start add) rows []" by simp
  have named: "map (\<lambda>e. (name e, e)) (map snd d) = d" "map name (map snd d) = map fst d"
    using gathered_named [of "[]" rows] unfolding d [symmetric] by (induction d) auto
  have dist: "distinct (map name (map snd d))"
    using gathered_wf [where key = key and start = start and add = add and d = "[]" and rows = rows] unfolding named(2) by (simp add: dict_wf_def flip: d)
  have same: "mset (map name es) = mset (map name (map snd d))" "set es = set (map snd d)"
    using assms mset_eq_setD [OF assms] by (simp_all add: d multiset.map_comp)
  show dist': "distinct (map name es)" using dist mset_eq_imp_distinct_iff [OF same(1)] by simp
  have "by_key name es k = by_key name (map snd d) k"
    using by_key_same [OF dist' dist same(2)] by simp
  also have "\<dots> = map_of d k" by (simp only: by_key_def named)
  finally show "by_key name es k = (case filter (\<lambda>r. key r = k) rows of [] \<Rightarrow> None | r # rs \<Rightarrow> Some (fold add rs (start r)))"
    using gathered_get [where key = key and start = start and add = add and rows = rows and d = "[]" and k = k] by (simp add: d split: list.splits)
qed

end

locale counted_grouping = grouping key start add name
  for key :: "'r \<Rightarrow> 'k" and start :: "'r \<Rightarrow> 'e" and add :: "'r \<Rightarrow> 'e \<Rightarrow> 'e" and name :: "'e \<Rightarrow> 'k" +
  fixes count :: "'e \<Rightarrow> nat"
  assumes count_start: "count (start r) = 1" and count_add: "count (add r e) = Suc (count e)"
begin

lemma gathered_counts: "dict_wf d \<Longrightarrow>
    sum_list (map count (map snd (fold (gather key start add) rows d))) = sum_list (map count (map snd d)) + length rows"
proof (induction rows arbitrary: d)
  case (Cons row rows)
  have "sum_list (map count (map snd (gather key start add row d))) = Suc (sum_list (map count (map snd d)))"
    using dict_set_sum [OF Cons.prems, of count "key row"
        "case map_of d (key row) of None \<Rightarrow> start row | Some e \<Rightarrow> add row e"]
    by (simp add: gather_def count_start count_add split: option.splits)
  moreover have "dict_wf (gather key start add row d)" using Cons.prems by (simp add: gather_def dict_wf_set)
  ultimately show ?case using Cons.IH by simp
qed simp

lemma gathered_total:
  assumes "mset es = mset (map snd (fold (gather key start add) rows []))"
  shows "sum_list (map count es) = length rows"
proof -
  have "mset (map count es) = mset (map count (map snd (fold (gather key start add) rows [])))"
    using assms by (simp add: multiset.map_comp)
  then have "sum_list (map count es) = sum_list (map count (map snd (fold (gather key start add) rows [])))"
    by (metis sum_mset_sum_list)
  then show ?thesis using gathered_counts [of "[]" rows] by (simp add: dict_wf_def)
qed

end

end
