(* ===== verification/JsDate.thy ===== *)
theory JsDate
  imports JsValue
begin

text \<open>
  Dates of the language: the calendar of the days since 1970, \<open>Date.UTC\<close> and \<open>toISOString\<close>. Main
  result: the day of a date is the day the date was made from.
\<close>

text \<open>Year, month and day of a day, by eras of 400 years that begin in March, and back.\<close>

definition civil_of_days :: "int \<Rightarrow> int \<times> int \<times> int" where
  "civil_of_days days =
     (let z = days + 719468; era = z div 146097; doe = z mod 146097;
          yoe = (doe - doe div 1460 + doe div 36524 - doe div 146096) div 365;
          doy = doe - (365 * yoe + yoe div 4 - yoe div 100);
          mp = (5 * doy + 2) div 153;
          m = (if mp < 10 then mp + 3 else mp - 9)
      in (yoe + era * 400 + (if m \<le> 2 then 1 else 0), m, doy - (153 * mp + 2) div 5 + 1))"

definition days_of_civil :: "int \<Rightarrow> int \<Rightarrow> int \<Rightarrow> int" where
  "days_of_civil y m d =
     (let y' = (if m \<le> 2 then y - 1 else y); era = y' div 400; yoe = y' mod 400;
          mp = (if m > 2 then m - 3 else m + 9);
          doy = (153 * mp + 2) div 5 + d - 1;
          doe = yoe * 365 + yoe div 4 - yoe div 100 + doy
      in era * 146097 + doe - 719468)"

lemma year_of_era:
  fixes doe :: int
  assumes "0 \<le> doe" "doe < 146097" and y: "y = (doe - doe div 1460 + doe div 36524 - doe div 146096) div 365"
  shows "0 \<le> y \<and> y < 400 \<and> 0 \<le> doe - (365 * y + y div 4 - y div 100) \<and> doe - (365 * y + y div 4 - y div 100) \<le> 365"
proof -
  obtain a b c p q where q: "a = doe div 1460" "b = doe div 36524" "c = doe div 146096" "p = y div 4" "q = y div 100" by simp
  have a: "1460 * a \<le> doe" "doe < 1460 * a + 1460" unfolding q by linarith+
  have b: "36524 * b \<le> doe" "doe < 36524 * b + 36524" unfolding q by linarith+
  have c: "146096 * c \<le> doe" "doe < 146096 * c + 146096" unfolding q by linarith+
  have yy: "365 * y \<le> doe - a + b - c" "doe - a + b - c < 365 * y + 365" unfolding y q by linarith+
  have p: "4 * p \<le> y" "y < 4 * p + 4" unfolding q by linarith+
  have q': "100 * q \<le> y" "y < 100 * q + 100" unfolding q by linarith+
  have c01: "0 \<le> c" "c \<le> 1" "0 \<le> b" "b \<le> 4" using assms(1,2) b c by linarith+
  obtain k where k: "k = b - c" by simp
  consider "c = 0" "b \<le> 3" | "c = 1" "b = 4" "doe = 146096"
    using c01 assms(1,2) b c by (cases "c = 0") linarith+
  then have k1: "0 \<le> k \<and> k \<le> 3 \<and> 36524 * k \<le> doe \<and> doe \<le> 36524 * k + 36524 \<and> (k < 3 \<longrightarrow> doe < 36524 * k + 36524)"
  proof cases
    case 1
    then have "k = b" by (simp add: k)
    with 1 c01 b show ?thesis by simp
  next
    case 2
    then show ?thesis by (simp add: k)
  qed
  then have k2: "0 \<le> k" "k \<le> 3" "36524 * k \<le> doe" "doe \<le> 36524 * k + 36524" "k < 3 \<Longrightarrow> doe < 36524 * k + 36524"
    by auto
  have yk: "365 * y \<le> doe - a + k" "doe - a + k < 365 * y + 365" using yy unfolding k by linarith+
  have lower: "36500 * k \<le> doe - a + k" using a k2(1-4) by linarith
  have upper: "doe - a + k < 36500 * k + 36500"
    using a k2(1-4) k2(5) assms(1,2) by (cases "k < 3") linarith+
  have y100: "100 * k \<le> y" "y < 100 * k + 100" using lower upper yk by linarith+
  then have qk: "q = k" using q' by linarith
  have "p \<le> a" using a p yk k2(1-4) by linarith
  moreover have "a \<le> p + 1" using a p yk k2(1-4) assms(1,2) by linarith
  ultimately have "0 \<le> doe - (365 * y + p - q)" "doe - (365 * y + p - q) \<le> 365"
    using yk qk by linarith+
  moreover have "0 \<le> y" "y < 400" using y100 k2(1,2) by linarith+
  ultimately show ?thesis by (simp add: q)
qed

lemma civil_facts: "case civil_of_days n of (y, m, d) \<Rightarrow>
    days_of_civil y m d = n \<and> 1 \<le> m \<and> m \<le> 12 \<and> (n + 719468) div 146097 * 400 \<le> y"
proof -
  obtain era doe where e: "era = (n + 719468) div 146097" "doe = (n + 719468) mod 146097" by simp
  have n: "n = era * 146097 + doe - 719468" and doe: "0 \<le> doe" "doe < 146097" by (simp_all add: e)
  obtain yoe where y1: "yoe = (doe - doe div 1460 + doe div 36524 - doe div 146096) div 365" by blast
  obtain doy where y2: "doy = doe - (365 * yoe + yoe div 4 - yoe div 100)" by blast
  obtain mp where y3: "mp = (5 * doy + 2) div 153" by blast
  note y = y1 y2 y3
  have "0 \<le> yoe \<and> yoe < 400 \<and> 0 \<le> doy \<and> doy \<le> 365" unfolding y(2) by (rule year_of_era [OF doe y(1)])
  then have r: "0 \<le> yoe" "yoe < 400" "0 \<le> doy" "doy \<le> 365" by blast+
  have mp: "0 \<le> mp" "mp \<le> 11" using r(3,4) unfolding y(3) by linarith+
  obtain m where m: "m = (if mp < 10 then mp + 3 else mp - 9)" by simp
  have c: "civil_of_days n = (yoe + era * 400 + (if m \<le> 2 then 1 else 0), m, doy - (153 * mp + 2) div 5 + 1)"
    unfolding civil_of_days_def Let_def e(1) e(2) y m by (rule refl)
  have "(yoe + era * 400) div 400 = era" "(yoe + era * 400) mod 400 = yoe" using r by simp_all
  moreover have "(if m > 2 then m - 3 else m + 9) = mp" using mp by (auto simp: m)
  moreover have "(if m \<le> 2 then yoe + era * 400 + (if m \<le> 2 then 1 else 0) - 1 else yoe + era * 400 + (if m \<le> 2 then 1 else 0))
      = yoe + era * 400" by simp
  ultimately have "days_of_civil (yoe + era * 400 + (if m \<le> 2 then 1 else 0)) m (doy - (153 * mp + 2) div 5 + 1) =
      era * 146097 + (yoe * 365 + yoe div 4 - yoe div 100 + doy) - 719468"
    unfolding days_of_civil_def Let_def by (simp only:)
  then have day: "days_of_civil (yoe + era * 400 + (if m \<le> 2 then 1 else 0)) m (doy - (153 * mp + 2) div 5 + 1) = n"
    using n by (simp add: y(2))
  have month: "1 \<le> m" "m \<le> 12" using mp by (auto simp: m)
  have year: "era * 400 \<le> yoe + era * 400 + (if m \<le> 2 then 1 else 0)" using r by simp
  show ?thesis unfolding c prod.case e(1) [symmetric] by (intro conjI) (rule day month year)+
qed

lemma days_of_civil_day: "days_of_civil y m d = days_of_civil y m 1 + d - 1"
  by (simp add: days_of_civil_def Let_def)

text \<open>\<open>Date.UTC\<close> of integers (the month counts from zero, and the years 0 to 99 stand for 1900 to 1999);
  a time outside the range of dates is NaN. \<open>new Date(t)\<close> cuts a number to such a time.\<close>

definition time_clip :: "jsnum \<Rightarrow> int option" where
  "time_clip t = (if \<not> is_finite t \<or> 8640000000000000 < \<bar>val (math_trunc t)\<bar> then None
     else Some \<lfloor>val (math_trunc t)\<rfloor>)"

definition date_utc :: "int \<Rightarrow> int \<Rightarrow> int \<Rightarrow> jsnum" where
  "date_utc year month day =
     (let y = (if 0 \<le> year \<and> year \<le> 99 then 1900 + year else year);
          t = (days_of_civil (y + month div 12) (month mod 12 + 1) 1 + day - 1) * 86400000
      in if 8640000000000000 < \<bar>t\<bar> then NaN else num_of_int t)"

text \<open>The start of a day from its date.\<close>

lemma date_utc_civil:
  assumes "0 \<le> n" "n \<le> 100000000" "civil_of_days n = (y, m, d)"
  shows "date_utc y (m - 1) d = num_of_int (n * 86400000)"
proof -
  have f: "days_of_civil y m d = n" "1 \<le> m" "m \<le> 12" "(n + 719468) div 146097 * 400 \<le> y"
    using civil_facts [of n] by (simp_all add: assms(3))
  have "4 \<le> (n + 719468) div 146097" using assms(1) by linarith
  then have "\<not> (0 \<le> y \<and> y \<le> 99)" using f(4) by linarith
  moreover have "(m - 1) div 12 = 0" "(m - 1) mod 12 = m - 1" using f(2,3) by simp_all
  then have "days_of_civil (y + (m - 1) div 12) ((m - 1) mod 12 + 1) 1 + d - 1 = n"
    using f(1) days_of_civil_day [of y m d] by simp
  ultimately have "date_utc y (m - 1) d = (if 8640000000000000 < \<bar>n * 86400000\<bar> then NaN else num_of_int (n * 86400000))"
    unfolding date_utc_def Let_def by (simp only: if_False)
  then show ?thesis using assms(1,2) by (simp add: abs_mult)
qed

text \<open>\<open>toISOString\<close>; a time outside the range of dates throws.\<close>

definition pad_start :: "nat \<Rightarrow> string \<Rightarrow> string" where
  "pad_start n s = replicate (n - length s) (CHR ''0'') @ s"

definition year_text :: "int \<Rightarrow> string" where
  "year_text y = (if 0 \<le> y \<and> y \<le> 9999 then pad_start 4 (int_text y)
     else (if y < 0 then ''-'' else ''+'') @ pad_start 6 (int_text \<bar>y\<bar>))"

definition toISOString :: "jsnum \<Rightarrow> string js_result" where
  "toISOString t =
     (case time_clip t of None \<Rightarrow> Inl RangeError
      | Some ms \<Rightarrow> (let r = ms mod 86400000 in
        case civil_of_days (ms div 86400000) of (y, m, d) \<Rightarrow>
        Inr (year_text y @ ''-'' @ pad_start 2 (int_text m) @ ''-'' @ pad_start 2 (int_text d) @ ''T''
          @ pad_start 2 (int_text (r div 3600000)) @ '':'' @ pad_start 2 (int_text (r div 60000 mod 60)) @ '':''
          @ pad_start 2 (int_text (r div 1000 mod 60)) @ ''.'' @ pad_start 3 (int_text (r mod 1000)) @ ''Z'')))"

lemma iso_examples:
  "toISOString (Fin 0) = Inr ''1970-01-01T00:00:00.000Z''"
  "toISOString (Fin 951782400123) = Inr ''2000-02-29T00:00:00.123Z''"
  "toISOString (Fin (- 1)) = Inr ''1969-12-31T23:59:59.999Z''"
  "toISOString (Fin 8640000000000000) = Inr ''+275760-09-13T00:00:00.000Z''"
  "toISOString NaN = Inl RangeError"
  by code_simp+

end
