(* ===== verification/Execution.thy ===== *)
theory Execution
  imports AlgoHook Gather JsDate
begin

text \<open>
  Fills, orders and positions as \<open>apps/terminal/src/components/WorkspaceCanvas.tsx\<close> shows them: product
  definitions and contract counts, the rows of the execution windows, the monitor rows of positions,
  the roll-up of fills by product, and the snapshots of the trading state. \<open>now\<close> is the reading of
  \<open>Date.now()\<close>. Main results: the roll-up of a product is the fold of its own rows and nothing is
  lost or counted twice; the rows are those of account fills and orders, latest first.
\<close>

subsection \<open>Product definitions\<close>

record product_leg =
  pg_symbol :: string
  pg_side :: jsnum
  pg_ratio :: jsnum

record product_definition =
  df_symbol :: string
  df_exchange :: string
  df_kind :: string
  df_label :: string
  df_tickSize :: jsnum
  df_tickValue :: jsnum
  df_displayPrecision :: jsnum
  df_synthetic :: bool
  df_formula :: "string option"
  df_ratio :: "string option"
  df_expression :: "(string option \<times> string option \<times> jsnum option) option"
  df_legs :: "product_leg list option"

text \<open>\<open>replace(/\s+/g, '_')\<close>; the flag says that the character before was a space.\<close>

fun space_runs :: "bool \<Rightarrow> string \<Rightarrow> string" where
  "space_runs spaced [] = []"
| "space_runs spaced (c # cs) =
     (if is_space c then (if spaced then space_runs True cs else CHR ''_'' # space_runs True cs)
      else c # space_runs False cs)"

definition normalizedProductDefinitionKey :: "jsv \<Rightarrow> string" where
  "normalizedProductDefinitionKey value =
     space_runs False (map (\<lambda>c. if c = CHR ''/'' then CHR ''_'' else c)
       (to_upper (trim (to_str (coalesce value (Str []))))))"

definition productDefinitionLookup :: "product_definition list option \<Rightarrow> product_definition dict" where
  "productDefinitionLookup products =
     fold (\<lambda>p d. dict_set (normalizedProductDefinitionKey (Str (df_label p))) p
         (dict_set (normalizedProductDefinitionKey (Str (df_symbol p))) p d))
       (get_or products []) []"

definition productDefinitionFor ::
    "string \<Rightarrow> string \<Rightarrow> product_definition list option \<Rightarrow> product_definition option" where
  "productDefinitionFor marketKey productLabel definitions =
     (let lookup = productDefinitionLookup definitions in
      or_else (dict_get lookup (normalizedProductDefinitionKey (Str marketKey)))
        (dict_get lookup (normalizedProductDefinitionKey (Str productLabel))))"

text \<open>\<open>Number(x) || 0\<close> and a sum over a list.\<close>

definition or_zero :: "jsnum \<Rightarrow> jsnum" where
  "or_zero n = (if num_truthy n then n else Fin 0)"

definition sum_of :: "('a \<Rightarrow> jsnum) \<Rightarrow> 'a list \<Rightarrow> jsnum" where
  "sum_of f xs = fold (\<lambda>x sum. jadd sum (f x)) xs (Fin 0)"

definition contractUnitsPerSyntheticUnit :: "string \<Rightarrow> string \<Rightarrow> product_definition list option \<Rightarrow> jsnum" where
  "contractUnitsPerSyntheticUnit marketKey productLabel definitions =
     (case productDefinitionFor marketKey productLabel definitions of
        None \<Rightarrow> Fin 1
      | Some d \<Rightarrow>
          if \<not> df_synthetic d \<or> get_or (df_legs d) [] = [] then Fin 1
          else let contracts = sum_of (\<lambda>leg. math_abs (or_zero (pg_ratio leg))) (get_or (df_legs d) []) in
            if jlt (Fin 0) contracts then contracts else Fin 1)"

definition executionContractCount ::
    "string \<Rightarrow> string \<Rightarrow> jsnum \<Rightarrow> jsnum option \<Rightarrow> product_definition list option \<Rightarrow> jsnum" where
  "executionContractCount marketKey productLabel sz legCount definitions =
     (let unitCount = math_abs (or_zero sz) in
      case legCount of
        Some n \<Rightarrow> if num_truthy n \<and> jlt (Fin 0) n then n
          else jmul unitCount (contractUnitsPerSyntheticUnit marketKey productLabel definitions)
      | None \<Rightarrow> jmul unitCount (contractUnitsPerSyntheticUnit marketKey productLabel definitions))"

definition isSyntheticProductKey :: "string \<Rightarrow> bool" where
  "isSyntheticProductKey v \<longleftrightarrow> str_includes ''_'' v \<or> str_includes ''/'' v \<or> str_includes '' spread'' (to_lower v)"

definition executionSyntheticUnits ::
    "string \<Rightarrow> string \<Rightarrow> jsnum \<Rightarrow> jsnum option \<Rightarrow> product_definition list option \<Rightarrow> jsnum" where
  "executionSyntheticUnits marketKey productLabel sz legCount definitions =
     (if (case productDefinitionFor marketKey productLabel definitions of None \<Rightarrow> False | Some d \<Rightarrow> df_synthetic d)
         \<or> (case legCount of None \<Rightarrow> False | Some n \<Rightarrow> num_truthy n)
         \<or> isSyntheticProductKey marketKey \<or> isSyntheticProductKey productLabel
      then math_abs (or_zero sz) else Fin 0)"

subsection \<open>Labels\<close>

text \<open>A role and a tag arrive as values; a tag that is truthy is taken as it is.\<close>

definition simOrderTag :: "string \<Rightarrow> jsv \<Rightarrow> jsv \<Rightarrow> jsv" where
  "simOrderTag source role fallback =
     (if truthy fallback then fallback
      else if source = ''algo'' \<and> is_lit role ''cover'' then Str ''ALGO COVER''
      else if source = ''algo'' then Str ''ALGO ENTRY'' else Str ''MANUAL'')"

definition executionRawPrice :: "jsnum \<Rightarrow> bool" where
  "executionRawPrice price \<longleftrightarrow> is_finite price \<and> (jlt price (Fin 0) \<or> jlt (Fin 100) price)"

definition executionSideLabel :: "poly_trade_tick \<Rightarrow> jobj \<Rightarrow> string" where
  "executionSideLabel fill raw =
     (if executionRawPrice (pt_price fill)
      then let normalized = to_lower (to_str (coalesce (oget_any raw [''displaySide'', ''marketSide'', ''orderSide'']) (Str []))) in
        if normalized \<in> {''sell'', ''offer'', ''ask''} then ''SELL''
        else if normalized \<in> {''buy'', ''bid''} then ''BUY''
        else if pt_side fill = ''no'' then ''SELL'' else ''BUY''
      else to_upper (pt_side fill))"

definition executionOrderSideLabel :: "sim_order \<Rightarrow> string" where
  "executionOrderSideLabel order =
     (if executionRawPrice (so_price order) then if so_side order = ''bid'' then ''BUY'' else ''SELL''
      else to_upper (so_outcome order) @ '' '' @ to_upper (so_side order))"

definition executionSideClassName :: "string \<Rightarrow> string" where
  "executionSideClassName side =
     (if side \<in> {''BUY'', ''BID'', ''YES'', ''UP''} then ''font-bold text-blue-300''
      else if side \<in> {''SELL'', ''ASK'', ''NO'', ''DOWN''} then ''font-bold text-red-300'' else ''text-muted'')"

definition inferSource :: "jobj \<Rightarrow> string option \<Rightarrow> string" where
  "inferSource raw model =
     (let source = to_lower (to_str (coalesce (oget_any raw [''source'', ''origin'', ''placement'']) (Str [])));
          modelText = to_lower (get_or model []) in
      if str_includes ''manual'' source \<or> str_includes ''depth-ladder'' source then ''manual''
      else if str_includes ''algo'' source \<or> str_includes ''bot'' source \<or> str_includes ''agent'' source then ''algo''
      else if modelText = [] \<or> modelText = ''manual'' \<or> str_includes ''depth-ladder'' modelText then ''manual''
      else ''algo'')"

definition executionPriceLabel :: "jsnum \<Rightarrow> string" where
  "executionPriceLabel price =
     (if \<not> is_finite price then ''-''
      else if executionRawPrice price then to_fixed (if jle (Fin 100) (math_abs price) then 2 else 3) price
      else to_fixed 1 price @ ''c'')"

definition executionNotional :: "jobj \<Rightarrow> jsnum" where
  "executionNotional raw =
     (let value = to_num (oget_any raw [''notional'', ''marketValue'', ''market_value''])
      in if is_finite value then value else Fin 0)"

definition isAccountFillTick :: "jobj \<Rightarrow> bool" where
  "isAccountFillTick raw \<longleftrightarrow>
     to_str (coalesce (oget raw ''exchange'') (Str [])) = ''Sim Exchange''
     \<or> list_ex (\<lambda>k. \<not> nullish (oget raw k))
         [''orderId'', ''order_id'', ''fillId'', ''fill_id'', ''account'', ''operator'', ''legId'', ''leg_id'',
          ''orderTag'', ''realizedPnl'']"

datatype fill_side = BuySide | SellSide | UnknownSide

definition fillSideBucket :: "string \<Rightarrow> fill_side" where
  "fillSideBucket side =
     (let normalized = to_upper side in
      if str_includes ''SELL'' normalized \<or> str_includes ''OFFER'' normalized \<or> str_includes ''ASK'' normalized
         \<or> normalized = ''NO'' \<or> normalized = ''DOWN'' then SellSide
      else if str_includes ''BUY'' normalized \<or> str_includes ''BID'' normalized
         \<or> normalized = ''YES'' \<or> normalized = ''UP'' then BuySide
      else UnknownSide)"

definition formatContractCount :: "jsnum \<Rightarrow> string" where
  "formatContractCount v = to_fixed (if is_integer v then 0 else 2) v"

subsection \<open>Legs of synthetic fills\<close>

record fill_leg =
  fl_symbol :: string
  fl_side :: fill_side
  fl_size :: jsnum
  fl_price :: "jsnum option"
  fl_pnl :: "jsnum option"
  fl_ratio :: "jsnum option"
  fl_legId :: string

definition finite_only :: "jsnum \<Rightarrow> jsnum option" where
  "finite_only n = (if is_finite n then Some n else None)"

text \<open>An item that is a primitive or \<open>null\<close> is skipped; an array counts as an object without
  properties of these names.\<close>

definition fill_leg_of :: "nat \<Rightarrow> jsv \<Rightarrow> fill_leg option" where
  "fill_leg_of index item =
     (if \<not> is_object item \<and> \<not> is_array item then None
      else let leg = as_obj item;
          symbol = to_str (coalesce (oget_any leg [''symbol'', ''asset'', ''marketKey'', ''market_key'', ''instrument''])
            (Str (''LEG-'' @ int_text (int (index + 1)))));
          side = fillSideBucket (to_str (coalesce (oget_any leg [''side'', ''action'', ''orderSide'', ''order_side'']) (Str [])));
          sz = to_num (coalesce (oget_any leg [''size'', ''qty'', ''quantity'', ''contracts'']) (Num (Fin 0))) in
        Some \<lparr>fl_symbol = symbol, fl_side = side, fl_size = (if is_finite sz then math_abs sz else Fin 0),
          fl_price = finite_only (to_num (oget_any leg [''price'', ''fillPrice'', ''fill_price''])),
          fl_pnl = finite_only (to_num (oget_any leg [''pnl'', ''realizedPnl'', ''realized_pnl''])),
          fl_ratio = finite_only (to_num (oget_any leg [''ratio'', ''weight'', ''hedgeRatio'', ''hedge_ratio''])),
          fl_legId = to_str (coalesce (oget_any leg [''legId'', ''leg_id'']) (Str (symbol @ ''-'' @ int_text (int (index + 1)))))\<rparr>)"

definition normalizeSyntheticFillLegs :: "jobj \<Rightarrow> fill_leg list" where
  "normalizeSyntheticFillLegs raw =
     (case find is_array (map (oget raw) [''syntheticLegs'', ''synthetic_legs'', ''legs'', ''fillLegs'', ''fill_legs'']) of
        None \<Rightarrow> []
      | Some payload \<Rightarrow> List.map_filter (\<lambda>(index, item). fill_leg_of index item) (enumerate 0 (as_list payload)))"

definition productLookup :: "product_option list \<Rightarrow> product_option dict" where
  "productLookup options =
     fold (\<lambda>option d.
         (let d1 = dict_set (po_symbol option) option d;
              d2 = (case truthy_text (po_marketKey option) of None \<Rightarrow> d1 | Some k \<Rightarrow> dict_set k option d1)
          in case truthy_text (po_asset option) of None \<Rightarrow> d2 | Some k \<Rightarrow> dict_set k option d2)) options []"

subsection \<open>Rows of the execution windows\<close>

definition executionNumber :: "jsv \<Rightarrow> jsnum \<Rightarrow> jsnum" where
  "executionNumber value fallback = (let parsed = to_num value in if is_finite parsed then parsed else fallback)"

record account_row =
  ax_id :: string
  ax_row_type :: string
  ax_timestamp :: jsnum
  ax_account :: string
  ax_exchange :: string
  ax_provider :: string
  ax_product :: string
  ax_market_key :: string
  ax_order_id :: string
  ax_source :: string
  ax_order_tag :: jsv
  ax_algo_role :: jsv
  ax_operator :: string
  ax_strategy :: string
  ax_leg_id :: string
  ax_side :: string
  ax_price :: jsv
  ax_size :: jsv
  ax_synthetic_units :: jsnum
  ax_contract_count :: jsnum
  ax_status :: string
  ax_pnl :: jsnum
  ax_notional :: jsnum
  ax_order_details :: string
  ax_synthetic_legs :: "fill_leg list"

definition str_only :: "jsv \<Rightarrow> jsv" where
  "str_only v = (if is_str v then v else Undefined)"

definition num_only :: "jsv \<Rightarrow> jsnum" where
  "num_only v = (case v of Num n \<Rightarrow> n | _ \<Rightarrow> Fin 0)"

text \<open>The row of one account fill: the market of the list it stands in, its place among the account
  fills of that list, and the product of the market.\<close>

definition fill_row ::
    "jsnum \<Rightarrow> string \<Rightarrow> product_definition list \<Rightarrow> market_info list \<Rightarrow> product_option option \<Rightarrow> string
       \<Rightarrow> nat \<Rightarrow> poly_trade_tick \<Rightarrow> account_row" where
  "fill_row now operatorName definitions markets option marketKey index fill =
     (let raw = pt_rest fill;
          stamp = executionNumber (Num (pt_timestamp fill)) now;
          price = executionNumber (Num (pt_price fill)) (Fin 0);
          sz = executionNumber (Num (pt_size fill)) (Fin 0);
          provider = get_or (map_option po_provider option) ''cme'';
          exchange = to_str (coalesce (oget raw ''exchange'') (Str (providerLabel provider)));
          source = inferSource raw (case oget raw ''model'' of Str m \<Rightarrow> Some m | _ \<Rightarrow> None);
          order_id = to_str (coalesce (oget_any raw [''order_id'', ''orderId'', ''trade_id'', ''tradeId''])
            (Str (provider @ ''-'' @ marketKey @ ''-'' @ num_text stamp @ ''-'' @ int_text (int index))));
          product = get_or (or_else (map_option po_label option) (map_option mk_key (find (\<lambda>m. mk_key m = marketKey) markets)))
            (pt_marketKey fill);
          priceLabel = executionPriceLabel price;
          sideLabel = executionSideLabel fill raw;
          legs = normalizeSyntheticFillLegs raw;
          legCount = sum_of (\<lambda>leg. math_abs (or_zero (fl_size leg))) legs;
          tag = simOrderTag source (Str (to_str (coalesce (oget raw ''algoRole'') (Str []))))
            (Str (to_str (coalesce (oget raw ''orderTag'') (Str []))))
      in \<lparr>ax_id = ''fill-'' @ marketKey @ ''-'' @ num_text stamp @ ''-'' @ num_text price @ ''-'' @ num_text sz @ ''-'' @ int_text (int index),
          ax_row_type = ''fill'', ax_timestamp = stamp, ax_account = ''Parent'', ax_exchange = exchange,
          ax_provider = (if exchange = ''Sim Exchange'' then ''sim'' else provider),
          ax_product = product, ax_market_key = marketKey, ax_order_id = order_id, ax_source = source,
          ax_order_tag = tag, ax_algo_role = str_only (oget raw ''algoRole''),
          ax_operator = to_str (coalesce (oget_any raw [''operator'', ''user'']) (Str operatorName)),
          ax_strategy = to_str (coalesce (oget_any raw [''model'', ''strategy''])
            (Str (if source = ''algo'' then ''algo-router'' else ''manual''))),
          ax_leg_id = to_str (coalesce (oget_any raw [''leg_id'', ''legId'']) (Str (order_id @ ''-L'' @ int_text (int (index + 1))))),
          ax_side = sideLabel, ax_price = Str priceLabel, ax_size = Str (to_fixed 0 sz),
          ax_synthetic_units = executionSyntheticUnits marketKey product sz (Some legCount) (Some definitions),
          ax_contract_count = executionContractCount marketKey product sz (Some legCount) (Some definitions),
          ax_status = ''FILLED'', ax_pnl = num_only (oget raw ''realizedPnl''), ax_notional = executionNotional raw,
          ax_order_details = to_str tag @ '' '' @ exchange @ '' '' @ product @ '' '' @ sideLabel @ '' '' @ to_fixed 0 sz
            @ '' @ '' @ priceLabel,
          ax_synthetic_legs = legs\<rparr>)"

definition detail_of :: "string \<Rightarrow> jsv \<Rightarrow> string" where
  "detail_of prefix v = (if truthy v then prefix @ to_str v else [])"

definition order_row ::
    "jsnum \<Rightarrow> sim_position list \<Rightarrow> product_option option \<Rightarrow> sim_order \<Rightarrow> account_row" where
  "order_row now positions option order =
     (let rest = so_rest order;
          position = find (\<lambda>p. sp_legId p = so_legId order \<and> sp_marketKey p = so_marketKey order) positions;
          tag = simOrderTag (so_source order) (oget rest ''algoRole'') (oget rest ''orderTag'');
          price = executionNumber (Num (so_price order)) (Fin 0);
          sz = executionNumber (Num (so_size order)) (Fin 0);
          filled = executionNumber (Num (so_filledSize order)) (Fin 0);
          updated = executionNumber (Num (so_updatedAt order)) now;
          created = executionNumber (Num (so_createdAt order)) updated;
          priceLabel = executionPriceLabel price;
          sideLabel = executionOrderSideLabel order
      in \<lparr>ax_id = ''sim-order-'' @ so_id order, ax_row_type = ''order'', ax_timestamp = created, ax_account = ''Parent'',
          ax_exchange = ''Sim Exchange'', ax_provider = ''sim'',
          ax_product = get_or (map_option po_label option) (so_marketKey order), ax_market_key = so_marketKey order,
          ax_order_id = so_id order, ax_source = so_source order, ax_order_tag = tag, ax_algo_role = oget rest ''algoRole'',
          ax_operator = so_operator order, ax_strategy = so_strategy order, ax_leg_id = so_legId order,
          ax_side = sideLabel, ax_price = Str priceLabel,
          ax_size = Str (to_fixed 0 filled @ '' / '' @ to_fixed 0 sz),
          ax_synthetic_units = Fin 0, ax_contract_count = Fin 0, ax_status = so_status order,
          ax_pnl = get_or (map_option sp_totalPnl position) (Fin 0), ax_notional = executionNotional rest,
          ax_order_details = to_str tag @ detail_of '' L'' (oget rest ''layer'') @ '' '' @ sideLabel @ '' ''
            @ to_upper (so_orderType order) @ '' '' @ so_status order @ '' '' @ to_fixed 0 filled @ ''/'' @ to_fixed 0 sz
            @ '' @ '' @ priceLabel @ detail_of '' trigger '' (oget rest ''trigger'')
            @ detail_of '' parent '' (oget rest ''parentOrderId''),
          ax_synthetic_legs = []\<rparr>)"

definition market_fill_rows ::
    "jsnum \<Rightarrow> string \<Rightarrow> product_definition list \<Rightarrow> market_info list \<Rightarrow> product_option dict
       \<Rightarrow> string \<times> poly_trade_tick list \<Rightarrow> account_row list" where
  "market_fill_rows now operatorName definitions markets byKey = (\<lambda>(marketKey, fills).
     map (\<lambda>(index, fill). fill_row now operatorName definitions markets (dict_get byKey marketKey) marketKey index fill)
       (enumerate 0 (filter (\<lambda>fill. isAccountFillTick (pt_rest fill)) fills)))"

definition buildExecutionRows ::
    "jsnum \<Rightarrow> product_option list \<Rightarrow> poly_trade_tick list dict \<Rightarrow> sim_order list \<Rightarrow> sim_position list
       \<Rightarrow> market_info list \<Rightarrow> string \<Rightarrow> product_definition list \<Rightarrow> account_row list" where
  "buildExecutionRows now options fillsByMarket simOrders simPositions markets operatorName definitions =
     (let byKey = productLookup options in
      sort_js (before_desc ax_timestamp)
        (concat (map (market_fill_rows now operatorName definitions markets byKey) (own_entries fillsByMarket))
         @ map (\<lambda>order. order_row now simPositions (dict_get byKey (so_marketKey order)) order) simOrders))"

subsection \<open>Positions\<close>

definition executionSizeValue :: "jsv \<Rightarrow> jsnum" where
  "executionSizeValue v = (case v of
     Num n \<Rightarrow> if is_finite n then n else Fin 0
   | _ \<Rightarrow> (let parsed = string_number (trim (hd (split_on (CHR ''/'') (to_str (coalesce v (Str ''0''))))))
         in if is_finite parsed then parsed else Fin 0))"

definition signedExecutionPositionSize :: "string \<Rightarrow> jsnum \<Rightarrow> jsnum" where
  "signedExecutionPositionSize direction sz =
     (let normalized = to_upper direction in
      if str_includes ''DOWN'' normalized \<or> str_includes ''SHORT'' normalized \<or> str_includes ''SELL'' normalized
      then jneg (math_abs sz) else math_abs sz)"

definition positionSideLabel :: "jsnum \<Rightarrow> string" where
  "positionSideLabel sz =
     (let qty = executionNumber (Num sz) (Fin 0) in
      if jlt (Fin 0) qty then ''LONG '' @ formatContractCount (math_abs qty)
      else if jlt qty (Fin 0) then ''SHORT '' @ formatContractCount (math_abs qty)
      else ''FLAT'')"

record monitor_row =
  mr_id :: string
  mr_provider :: string
  mr_exchange :: string
  mr_product :: string
  mr_symbol :: string
  mr_marketKey :: string
  mr_position :: jsnum
  mr_avgPrice :: jsnum
  mr_marketPrice :: jsnum
  mr_marketValue :: jsnum
  mr_openPnl :: jsnum
  mr_closedPnl :: jsnum
  mr_dayPnl :: jsnum
  mr_status :: string
  mr_source :: string
  mr_strategy :: jsv
  mr_updatedAt :: jsnum
  mr_details :: string

definition option_symbol :: "product_option option \<Rightarrow> string \<Rightarrow> string" where
  "option_symbol option fallback = (case option of None \<Rightarrow> fallback | Some x \<Rightarrow> get_or (po_asset x) (po_symbol x))"

definition simPositionToMonitorRow :: "jsnum \<Rightarrow> sim_position \<Rightarrow> product_option option \<Rightarrow> monitor_row" where
  "simPositionToMonitorRow now p option =
     (let num = (\<lambda>n. executionNumber (Num n) (Fin 0));
          sz = num (sp_size p); avg = num (sp_avgPrice p)
      in \<lparr>mr_id = ''sim-position-'' @ sp_id p, mr_provider = ''sim'', mr_exchange = ''Sim Exchange'',
          mr_product = get_or (map_option po_label option) (sp_marketKey p),
          mr_symbol = option_symbol option (sp_marketKey p), mr_marketKey = sp_marketKey p,
          mr_position = (if sp_status p = ''closed'' then Fin 0 else sz), mr_avgPrice = avg,
          mr_marketPrice = executionNumber (Num (sp_markPrice p)) avg,
          mr_marketValue = executionNumber (oget_any (sp_rest p) [''marketValue'', ''market_value'', ''notional'']) (Fin 0),
          mr_openPnl = num (sp_openPnl p), mr_closedPnl = num (sp_realizedPnl p), mr_dayPnl = num (sp_totalPnl p),
          mr_status = sp_status p, mr_source = sp_source p,
          mr_strategy = coalesce (oget (sp_rest p) ''algoName'') (Str (sp_strategy p)),
          mr_updatedAt = (case sp_closedAt p of None \<Rightarrow> executionNumber (Num (sp_openedAt p)) now | Some t \<Rightarrow> num t),
          mr_details = to_str (simOrderTag (sp_source p) (oget (sp_rest p) ''algoRole'') (oget (sp_rest p) ''orderTag''))
            @ '' '' @ to_upper (sp_status p) @ '' '' @ positionSideLabel sz @ '' @ '' @ executionPriceLabel avg\<rparr>)"

text \<open>\<open>extra\<close> holds the properties of the position that its type does not declare.\<close>

definition executionPositionToMonitorRow ::
    "jsnum \<Rightarrow> execution_position \<Rightarrow> jobj \<Rightarrow> product_option option \<Rightarrow> monitor_row" where
  "executionPositionToMonitorRow now p extra option =
     (let finite_or_zero = (\<lambda>n. if is_finite n then n else Fin 0);
          entry = finite_or_zero (ep_entry_price p);
          status = to_lower (ep_status p)
      in \<lparr>mr_id = ''execution-position-'' @ ep_position_id p,
          mr_provider = get_or (map_option po_provider option) ''execution'',
          mr_exchange = providerLabel (get_or (map_option po_provider option) ''cme''),
          mr_product = get_or (map_option po_label option) (ep_asset p),
          mr_symbol = option_symbol option (ep_asset p),
          mr_marketKey = get_or (case option of None \<Rightarrow> None | Some x \<Rightarrow> po_marketKey x) (ep_asset p),
          mr_position = (if str_includes ''closed'' status \<or> str_includes ''filled'' status \<or> str_includes ''cancel'' status
            then Fin 0 else signedExecutionPositionSize (ep_direction p) (or_zero (ep_size p))),
          mr_avgPrice = entry,
          mr_marketPrice = (if is_finite (ep_current_price p) then ep_current_price p else entry),
          mr_marketValue = finite_or_zero (to_num (oget_any extra [''market_value'', ''marketValue'', ''notional''])),
          mr_openPnl = finite_or_zero (ep_unrealized_pnl p),
          mr_closedPnl = finite_or_zero (to_num (oget_any extra [''realized_pnl'', ''closed_pnl'', ''closedPnl''])),
          mr_dayPnl = finite_or_zero (to_num (oget_any extra [''total_pnl'', ''totalPnl'', ''dayPnl''])),
          mr_status = ep_status p, mr_source = ''algo'',
          mr_strategy = Str (get_or (ep_model p) ''ExecutionAgent''), mr_updatedAt = now,
          mr_details = ''Execution position '' @ ep_position_id p @ '' '' @ ep_direction p @ '' '' @ num_text (ep_size p)
            @ '' '' @ ep_asset p\<rparr>)"

subsection \<open>The roll-up of fills by product\<close>

record rollup =
  ru_product :: string
  ru_buys :: jsnum
  ru_sells :: jsnum
  ru_buyContracts :: jsnum
  ru_sellContracts :: jsnum
  ru_syntheticUnits :: jsnum
  ru_contractCount :: jsnum
  ru_pnl :: jsnum
  ru_notional :: jsnum
  ru_fills :: nat
  ru_synthetic :: bool
  ru_syntheticLegs :: "fill_leg list"
  ru_legDetailReady :: bool

definition empty_rollup :: "string \<Rightarrow> rollup" where
  "empty_rollup product = \<lparr>ru_product = product, ru_buys = Fin 0, ru_sells = Fin 0, ru_buyContracts = Fin 0,
     ru_sellContracts = Fin 0, ru_syntheticUnits = Fin 0, ru_contractCount = Fin 0, ru_pnl = Fin 0, ru_notional = Fin 0,
     ru_fills = 0, ru_synthetic = False, ru_syntheticLegs = [], ru_legDetailReady = True\<rparr>"

definition add_row :: "account_row \<Rightarrow> rollup \<Rightarrow> rollup" where
  "add_row row c =
     (let sz = math_abs (executionSizeValue (ax_size row));
          contractCount = math_abs (ax_contract_count row);
          side = fillSideBucket (ax_side row);
          synthetic = (ru_synthetic c \<or> isSyntheticProductKey (ax_market_key row) \<or> isSyntheticProductKey (ax_product row));
          legs = ru_syntheticLegs c @ ax_synthetic_legs row
      in c\<lparr>ru_buys := (if side = BuySide then jadd (ru_buys c) sz else ru_buys c),
           ru_buyContracts := (if side = BuySide then jadd (ru_buyContracts c) contractCount else ru_buyContracts c),
           ru_sells := (if side = SellSide then jadd (ru_sells c) sz else ru_sells c),
           ru_sellContracts := (if side = SellSide then jadd (ru_sellContracts c) contractCount else ru_sellContracts c),
           ru_syntheticUnits := jadd (ru_syntheticUnits c) (math_abs (ax_synthetic_units row)),
           ru_contractCount := jadd (ru_contractCount c) contractCount,
           ru_pnl := jadd (ru_pnl c) (ax_pnl row), ru_notional := jadd (ru_notional c) (ax_notional row),
           ru_fills := ru_fills c + 1, ru_synthetic := synthetic, ru_syntheticLegs := legs,
           ru_legDetailReady := (\<not> synthetic \<or> legs \<noteq> [])\<rparr>)"

definition buildProductFillRollups :: "(string \<Rightarrow> string \<Rightarrow> int) \<Rightarrow> account_row list \<Rightarrow> rollup list" where
  "buildProductFillRollups lc rows =
     sort_js (\<lambda>a b. lc (ru_product a) (ru_product b) \<le> 0) (map snd (fold (gather ax_product (\<lambda>row. add_row row (empty_rollup (ax_product row))) add_row) rows []))"

subsection \<open>The trading state from the server\<close>

text \<open>A payload of the order state: the rows it may hold itself or under \<open>state\<close>.\<close>

record trading_payload =
  tp_rows :: order_payload
  tp_state :: "order_payload option"
  tp_summary :: "jobj option"
  tp_state_summary :: "jobj option"

definition ceriousTradingSnapshotUnavailable :: "order_payload option \<Rightarrow> bool" where
  "ceriousTradingSnapshotUnavailable payload = (case payload of
     None \<Rightarrow> True
   | Some p \<Rightarrow> list_ex (\<lambda>m. str_includes ''state unavailable'' (to_lower m)) (get_or (op_simMessages p) []))"

definition applyCeriousTradingSnapshot :: "jsnum \<Rightarrow> trading_payload option \<Rightarrow> terminal_state \<Rightarrow> terminal_state" where
  "applyCeriousTradingSnapshot now payload s = (case payload of
     None \<Rightarrow> s
   | Some p \<Rightarrow> (let snapshot = get_or (tp_state p) (tp_rows p) in
       if ceriousTradingSnapshotUnavailable (Some snapshot) then s
       else if op_simOrders snapshot \<noteq> None \<or> op_simPositions snapshot \<noteq> None \<or> op_fills snapshot \<noteq> None
            \<or> op_simMessages snapshot \<noteq> None
       then setSimTradingState now snapshot s else s))"

text \<open>An answer of the order service: a request that failed with a message, or a status and a payload
  (\<open>None\<close> is one that is \<open>null\<close>).\<close>

datatype 'a service_answer = RequestFailed "string option" | ServiceAnswer bool jsnum 'a

definition fetchServerOrderSummary :: "trading_payload service_answer \<Rightarrow> jobj option" where
  "fetchServerOrderSummary a = (case a of
     RequestFailed m \<Rightarrow> None
   | ServiceAnswer ok status p \<Rightarrow> if ok then or_else (tp_summary p) (tp_state_summary p) else None)"

record order_reply =
  or_body :: jobj
  or_state :: "order_payload option"
  or_order :: jsv

definition apply_reply_state :: "jsnum \<Rightarrow> order_payload option \<Rightarrow> terminal_state \<Rightarrow> terminal_state" where
  "apply_reply_state now state s = (case state of None \<Rightarrow> s | Some p \<Rightarrow> setSimTradingState now p s)"

definition reply_error :: "string \<Rightarrow> jsnum \<Rightarrow> jobj \<Rightarrow> string" where
  "reply_error what status body = to_str (js_or (oget body ''detail'') (js_or (oget body ''message'')
     (Str (what @ '' rejected HTTP '' @ num_text status))))"

text \<open>Submitting and cancelling: the error that is thrown, or the order; and the store.\<close>

definition submitSharedOrder ::
    "jsnum \<Rightarrow> order_reply service_answer \<Rightarrow> terminal_state \<Rightarrow> (string option + jsv) \<times> terminal_state" where
  "submitSharedOrder now a s = (case a of
     RequestFailed m \<Rightarrow> (Inl m, s)
   | ServiceAnswer ok status reply \<Rightarrow>
       if \<not> ok \<or> \<not> truthy (oget (or_body reply) ''ok'')
       then (Inl (Some (reply_error ''Order'' status (or_body reply))), s)
       else (Inr (or_order reply), apply_reply_state now (or_state reply) s))"

definition cancelSharedOrder ::
    "jsnum \<Rightarrow> order_reply service_answer \<Rightarrow> terminal_state \<Rightarrow> (string option + unit) \<times> terminal_state" where
  "cancelSharedOrder now a s = (case a of
     RequestFailed m \<Rightarrow> (Inl m, s)
   | ServiceAnswer ok status reply \<Rightarrow>
       if \<not> ok \<or> \<not> truthy (oget (or_body reply) ''ok'')
       then (Inl (Some (reply_error ''Cancel'' status (or_body reply))), s)
       else (Inr (), apply_reply_state now (or_state reply) s))"

text \<open>The panel that polls positions and orders, and the hydration of the store.\<close>

record orders_panel =
  pn_data :: "trading_payload option"
  pn_error :: string

definition pull_orders ::
    "jsnum \<Rightarrow> trading_payload option service_answer \<Rightarrow> orders_panel \<Rightarrow> terminal_state \<Rightarrow> orders_panel \<times> terminal_state" where
  "pull_orders now a panel s = (case a of
     RequestFailed m \<Rightarrow> (panel\<lparr>pn_error := get_or m ''Positions refresh failed''\<rparr>, s)
   | ServiceAnswer ok status payload \<Rightarrow>
       if \<not> ok then (panel\<lparr>pn_error := ''HTTP '' @ num_text status\<rparr>, s)
       else if ceriousTradingSnapshotUnavailable (map_option tp_rows payload) then (panel, s)
       else (\<lparr>pn_data = payload, pn_error = []\<rparr>, applyCeriousTradingSnapshot now payload s))"

definition hydrate_trading_state ::
    "jsnum \<Rightarrow> bool \<Rightarrow> trading_payload option service_answer \<Rightarrow> terminal_state \<Rightarrow> terminal_state" where
  "hydrate_trading_state now cancelled a s = (case a of
     RequestFailed m \<Rightarrow> s
   | ServiceAnswer ok status payload \<Rightarrow>
       if \<not> ok \<or> cancelled then s else applyCeriousTradingSnapshot now payload s)"

text \<open>The markets that the terminal starts with: an answer whose markets are a list.\<close>

definition market_bootstrap :: "bool \<Rightarrow> market_info list option service_answer \<Rightarrow> terminal_state \<Rightarrow> terminal_state" where
  "market_bootstrap cancelled a s = (case a of
     RequestFailed m \<Rightarrow> s
   | ServiceAnswer ok status markets \<Rightarrow>
       if cancelled \<or> \<not> ok then s else (case markets of None \<Rightarrow> s | Some ms \<Rightarrow> setMarkets ms True s))"

subsection \<open>Rows of the positions panel\<close>

record cerious_position =
  cp_instrumentId :: string
  cp_label :: "string option"
  cp_qty :: jsnum
  cp_avgPrice :: jsnum
  cp_markPrice :: jsnum
  cp_markLive :: bool
  cp_openPnl :: jsnum
  cp_realizedPnl :: "jsnum option"
  cp_account :: "string option"
  cp_lastFillAt :: "string option"
  cp_fillCount :: "jsnum option"

definition text_unless_null :: "jsv \<Rightarrow> string option" where
  "text_unless_null v = (if nullish v then None else Some (to_str v))"

definition number_unless_null :: "jsv \<Rightarrow> jsnum option" where
  "number_unless_null v = (if nullish v then None else Some (executionNumber v (Fin 0)))"

definition normalizeCeriousPositionRow :: "jobj \<Rightarrow> cerious_position" where
  "normalizeCeriousPositionRow row =
     (let avg = executionNumber (oget row ''avgPrice'') (Fin 0) in
      \<lparr>cp_instrumentId = to_str (coalesce (oget_any row [''instrumentId'', ''marketKey'', ''symbol'']) (Str ''UNKNOWN'')),
       cp_label = text_unless_null (oget row ''label''),
       cp_qty = executionNumber (oget_any row [''qty'', ''size'', ''netSize'', ''position'']) (Fin 0),
       cp_avgPrice = avg, cp_markPrice = executionNumber (oget row ''markPrice'') avg,
       cp_markLive = truthy (oget row ''markLive''), cp_openPnl = executionNumber (oget row ''openPnl'') (Fin 0),
       cp_realizedPnl = number_unless_null (oget row ''realizedPnl''),
       cp_account = text_unless_null (oget row ''account''),
       cp_lastFillAt = text_unless_null (oget row ''lastFillAt''),
       cp_fillCount = number_unless_null (oget row ''fillCount'')\<rparr>)"

definition simPositionToCeriousPositionRow ::
    "sim_position \<Rightarrow> product_option option \<Rightarrow> cerious_position js_result" where
  "simPositionToCeriousPositionRow p option =
     (let role = oget (sp_rest p) ''algoRole'' in
      map_sum id (\<lambda>stamp. \<lparr>cp_instrumentId = get_or (map_option po_label option) (sp_marketKey p),
       cp_label = Some ((if sp_source p = ''algo'' then to_str (coalesce (oget (sp_rest p) ''algoName'') (Str (sp_strategy p)))
           else ''Manual'') @ detail_of '' / '' role),
       cp_qty = sp_size p, cp_avgPrice = sp_avgPrice p, cp_markPrice = sp_markPrice p, cp_markLive = True,
       cp_openPnl = executionNumber (Num (sp_openPnl p)) (Fin 0), cp_realizedPnl = Some (sp_realizedPnl p),
       cp_account = Some (sp_operator p), cp_lastFillAt = Some stamp, cp_fillCount = Some (Fin 1)\<rparr>)
       (toISOString (get_or (sp_closedAt p) (sp_openedAt p))))"

record cerious_order =
  co_id :: string
  co_instrumentId :: string
  co_label :: "string option"
  co_side :: string
  co_qty :: jsnum
  co_price :: jsnum
  co_status :: string
  co_held :: bool
  co_source :: "string option"
  co_orderClass :: "string option"
  co_orderType :: "string option"
  co_algoName :: "string option"
  co_algoLegRole :: "string option"
  co_updatedAt :: "string option"

definition normalizeCeriousOrderRow :: "jobj \<Rightarrow> cerious_order js_result" where
  "normalizeCeriousOrderRow row =
     map_sum id (\<lambda>stamp. \<lparr>co_id = to_str (coalesce (oget_any row [''id'', ''order_id'', ''orderId'']) (Str ''unknown-order'')),
       co_instrumentId = to_str (coalesce (oget_any row [''instrumentId'', ''marketKey'', ''symbol'']) (Str ''UNKNOWN'')),
       co_label = text_unless_null (oget row ''label''), co_side = to_str (coalesce (oget row ''side'') (Str [])),
       co_qty = executionNumber (oget_any row [''qty'', ''remaining'', ''remainingQuantity'', ''leavesQty'', ''size'', ''originalQty'']) (Fin 0),
       co_price = executionNumber (oget_any row [''price'', ''limitPrice'', ''executionPrice'']) (Fin 0),
       co_status = to_str (coalesce (oget row ''status'') (Str ''unknown'')), co_held = truthy (oget row ''held''),
       co_source = text_unless_null (oget row ''source''), co_orderClass = text_unless_null (oget row ''orderClass''),
       co_orderType = text_unless_null (oget row ''orderType''), co_algoName = text_unless_null (oget row ''algoName''),
       co_algoLegRole = text_unless_null (oget row ''algoLegRole''), co_updatedAt = stamp\<rparr>)
     (case oget_any row [''updatedAt'', ''timestampMs'', ''ts''] of
        Undefined \<Rightarrow> Inr None | Null \<Rightarrow> Inr None
      | Num n \<Rightarrow> map_sum id Some (toISOString n)
      | v \<Rightarrow> Inr (Some (to_str v)))"

definition simOrderToCeriousOrderRow ::
    "jsnum \<Rightarrow> sim_order \<Rightarrow> product_option option \<Rightarrow> cerious_order js_result" where
  "simOrderToCeriousOrderRow now order option =
     (let rest = so_rest order; role = oget rest ''algoRole'';
          remaining = executionNumber (Num (so_remaining order)) (Fin 0) in
      map_sum id (\<lambda>stamp. \<lparr>co_id = so_id order, co_instrumentId = get_or (map_option po_label option) (so_marketKey order),
        co_label = Some (get_or (map_option po_subtitle option) (so_marketKey order)),
        co_side = executionOrderSideLabel order,
        co_qty = (if jlt (Fin 0) remaining then remaining else executionNumber (Num (so_size order)) (Fin 0)),
        co_price = executionNumber (Num (so_price order)) (Fin 0), co_status = so_status order, co_held = False,
        co_source = Some (so_source order),
        co_orderClass = Some (to_str (simOrderTag (so_source order) role (oget rest ''orderTag''))),
        co_orderType = Some (so_orderType order),
        co_algoName = (case oget rest ''algoName'' of
            Undefined \<Rightarrow> if so_source order = ''algo'' then Some (so_strategy order) else None
          | Null \<Rightarrow> if so_source order = ''algo'' then Some (so_strategy order) else None
          | v \<Rightarrow> Some (to_str v)),
        co_algoLegRole = (if truthy role then Some (if is_lit role ''cover'' then ''ALGO COVER'' else ''ALGO ENTRY'') else None),
        co_updatedAt = Some stamp\<rparr>)
      (toISOString (executionNumber (Num (so_updatedAt order)) now)))"

end
