(* ===== verification/FillsWindow.thy ===== *)
theory FillsWindow
  imports Execution
begin

text \<open>
  The fills and positions window of \<open>apps/terminal/src/components/WorkspaceCanvas.tsx\<close>: which rows it
  shows under its filters, and the totals of its summary. Main results: an
  entry is the fold of the rows of its key, in their order, every row is counted once, and the rows
  of the window are those of account fills and orders, latest first.
\<close>

subsection \<open>The window\<close>

record fills_view =
  fv_providerFilter :: string
  fv_productFilter :: string

definition all_fill_rows ::
    "jsnum \<Rightarrow> product_option list \<Rightarrow> poly_trade_tick list dict \<Rightarrow> sim_position list
       \<Rightarrow> market_info list \<Rightarrow> string \<Rightarrow> product_definition list \<Rightarrow> account_row list" where
  "all_fill_rows now options fillsByMarket simPositions markets operatorName definitions =
     filter (\<lambda>row. ax_row_type row = ''fill'')
       (buildExecutionRows now options fillsByMarket [] simPositions markets operatorName definitions)"

text \<open>A position of the execution service comes with its undeclared properties.\<close>

definition all_position_rows ::
    "jsnum \<Rightarrow> product_option list \<Rightarrow> sim_position list \<Rightarrow> (execution_position \<times> jobj) list \<Rightarrow> monitor_row list" where
  "all_position_rows now options simPositions executionPositions =
     (let byKey = productLookup options in
      sort_js (before_desc mr_updatedAt)
        (map (\<lambda>p. simPositionToMonitorRow now p (dict_get byKey (sp_marketKey p))) simPositions
         @ map (\<lambda>(p, extra). executionPositionToMonitorRow now p extra
             (find (\<lambda>x. po_asset x = Some (ep_asset p) \<or> po_symbol x = ep_asset p \<or> po_marketKey x = Some (ep_asset p)) options))
           executionPositions))"

definition row_visible :: "fills_view \<Rightarrow> string \<Rightarrow> string \<Rightarrow> bool" where
  "row_visible v provider product \<longleftrightarrow>
     (fv_providerFilter v = ''all'' \<or> provider = fv_providerFilter v)
     \<and> (fv_productFilter v = ''all'' \<or> product = fv_productFilter v)"

definition product_choices :: "fills_view \<Rightarrow> account_row list \<Rightarrow> monitor_row list \<Rightarrow> string list" where
  "product_choices v fills positions =
     (let shown = (\<lambda>provider. fv_providerFilter v = ''all'' \<or> provider = fv_providerFilter v) in
      sort_js text_le (dedup_by (=)
        (map ax_product (filter (\<lambda>row. shown (ax_provider row)) fills)
         @ map mr_product (filter (\<lambda>row. shown (mr_provider row)) positions))))"

definition visible_fills :: "fills_view \<Rightarrow> account_row list \<Rightarrow> account_row list" where
  "visible_fills v rows = filter (\<lambda>row. row_visible v (ax_provider row) (ax_product row)) rows"

definition visible_positions :: "fills_view \<Rightarrow> monitor_row list \<Rightarrow> monitor_row list" where
  "visible_positions v rows = filter (\<lambda>row. row_visible v (mr_provider row) (mr_product row)) rows"

definition open_positions :: "monitor_row list \<Rightarrow> monitor_row list" where
  "open_positions rows = filter (\<lambda>row. jlt (Fin 0) (math_abs (mr_position row))
     \<and> \<not> (str_includes ''closed'' (to_lower (mr_status row)) \<or> str_includes ''flat'' (to_lower (mr_status row)))) rows"

subsection \<open>The summary\<close>

record leg_total =
  lt_leg :: string
  lt_product :: string
  lt_pnl :: jsnum
  lt_notional :: jsnum
  lt_rows :: nat

definition new_leg :: "account_row \<Rightarrow> leg_total" where
  "new_leg row = \<lparr>lt_leg = ax_leg_id row, lt_product = ax_product row, lt_pnl = Fin 0, lt_notional = Fin 0, lt_rows = 0\<rparr>"

definition add_leg :: "account_row \<Rightarrow> leg_total \<Rightarrow> leg_total" where
  "add_leg row e = e\<lparr>lt_pnl := jadd (lt_pnl e) (ax_pnl row), lt_notional := jadd (lt_notional e) (ax_notional row),
     lt_rows := lt_rows e + 1\<rparr>"

record pnl_summary =
  sm_pnl :: jsnum
  sm_notional :: jsnum
  sm_fills :: nat
  sm_filledContracts :: jsnum
  sm_syntheticUnits :: jsnum
  sm_totalBuys :: jsnum
  sm_totalSells :: jsnum
  sm_buyContracts :: jsnum
  sm_sellContracts :: jsnum
  sm_netPosition :: jsnum
  sm_openPnl :: jsnum
  sm_closedPnl :: jsnum
  sm_dayPnl :: jsnum
  sm_maxDrawdown :: jsnum
  sm_sessionLowPnl :: jsnum
  sm_productCount :: nat
  sm_products :: "rollup list"
  sm_legs :: "leg_total list"
  sm_topProduct :: "rollup option"

definition pnlSummary ::
    "jobj option \<Rightarrow> account_row list \<Rightarrow> rollup list \<Rightarrow> monitor_row list \<Rightarrow> pnl_summary" where
  "pnlSummary serverSummary rows rollups open_rows =
     (let field = (\<lambda>ks fallback. to_num (coalesce (oget_any (get_or serverSummary []) ks) (Num fallback)));
          products = slice_first 5 (sort_js (before_desc (\<lambda>r. math_abs (ru_pnl r))) rollups);
          legs = slice_first 5 (sort_js (before_desc (\<lambda>l. math_abs (lt_pnl l)))
            (map snd (fold (gather ax_leg_id (\<lambda>row. add_leg row (new_leg row)) add_leg) rows [])))
      in \<lparr>sm_pnl = field [''totalPnl''] (sum_of ax_pnl rows), sm_notional = sum_of ax_notional rows,
          sm_fills = length rows, sm_filledContracts = sum_of (\<lambda>r. math_abs (ax_contract_count r)) rows,
          sm_syntheticUnits = sum_of (\<lambda>r. math_abs (ax_synthetic_units r)) rows,
          sm_totalBuys = sum_of ru_buys rollups, sm_totalSells = sum_of ru_sells rollups,
          sm_buyContracts = sum_of ru_buyContracts rollups, sm_sellContracts = sum_of ru_sellContracts rollups,
          sm_netPosition = sum_of mr_position open_rows,
          sm_openPnl = field [''openPnl''] (Fin 0), sm_closedPnl = field [''closedPnl''] (Fin 0),
          sm_dayPnl = field [''totalPnl'', ''currentPnl''] (Fin 0),
          sm_maxDrawdown = field [''maxDrawdown''] (Fin 0), sm_sessionLowPnl = field [''sessionLowPnl''] (Fin 0),
          sm_productCount = length products, sm_products = products, sm_legs = legs,
          sm_topProduct = array_first products\<rparr>)"

interpretation by_product: counted_grouping ax_product "\<lambda>row. add_row row (empty_rollup (ax_product row))" add_row ru_product ru_fills
  by unfold_locales (simp_all add: empty_rollup_def add_row_def Let_def)

interpretation by_leg: counted_grouping ax_leg_id "\<lambda>row. add_leg row (new_leg row)" add_leg lt_leg lt_rows
  by unfold_locales (simp_all add: new_leg_def add_leg_def)

interpretation rollup_order: sort_order "\<lambda>(a :: rollup) b. lc (ru_product a) (ru_product b) \<le> 0" "\<lambda>r. collation lc" for lc
proof
  fix x y z :: rollup
  assume "collation lc" "lc (ru_product x) (ru_product y) \<le> 0" "lc (ru_product y) (ru_product z) \<le> 0"
  then show "lc (ru_product x) (ru_product z) \<le> 0" by (rule collation_trans)
next
  fix x y :: rollup
  assume "collation lc"
  from collation_sym [OF this, of "ru_product x" "ru_product y"]
  show "lc (ru_product x) (ru_product y) \<le> 0 \<or> lc (ru_product y) (ru_product x) \<le> 0" by linarith
qed

subsection \<open>Properties\<close>

text \<open>C21. The roll-up of fills: there is one entry per product that has a row, in the order of the product
  names, and the entry of a product is what its own rows, taken one after the other in the order of
  the list, add up to; no row is lost and none is counted twice.\<close>

theorem rollups_by_product:
  assumes "collation lc"
  shows "by_key ru_product (buildProductFillRollups lc rows) p =
      (if filter (\<lambda>r. ax_product r = p) rows = [] then None
       else Some (fold add_row (filter (\<lambda>r. ax_product r = p) rows) (empty_rollup p)))
    \<and> distinct (map ru_product (buildProductFillRollups lc rows))
    \<and> sorted_wrt (\<lambda>a b. lc (ru_product a) (ru_product b) \<le> 0) (buildProductFillRollups lc rows)
    \<and> sum_list (map ru_fills (buildProductFillRollups lc rows)) = length rows"
proof -
  have m: "mset (buildProductFillRollups lc rows)
      = mset (map snd (fold (gather ax_product (\<lambda>row. add_row row (empty_rollup (ax_product row))) add_row) rows []))"
    by (simp add: buildProductFillRollups_def)
  have "ax_product r = p" if "filter (\<lambda>r. ax_product r = p) rows = r # rs" for r rs
    using that by (auto simp: filter_eq_Cons_iff)
  then have "by_key ru_product (buildProductFillRollups lc rows) p =
      (if filter (\<lambda>r. ax_product r = p) rows = [] then None
       else Some (fold add_row (filter (\<lambda>r. ax_product r = p) rows) (empty_rollup p)))"
    using by_product.gathered_list(2) [OF m, of p]
    by (cases "filter (\<lambda>r. ax_product r = p) rows") simp_all
  moreover have "sorted_wrt (\<lambda>a b. lc (ru_product a) (ru_product b) \<le> 0) (buildProductFillRollups lc rows)"
    unfolding buildProductFillRollups_def by (rule rollup_order.sorted_sort) (simp add: assms)
  ultimately show ?thesis using by_product.gathered_list(1) [OF m] by_product.gathered_total [OF m] by simp
qed

definition sample_fill :: "jsnum \<Rightarrow> jsnum \<Rightarrow> jobj \<Rightarrow> poly_trade_tick" where
  "sample_fill stamp price rest = \<lparr>pt_timestamp = stamp, pt_marketKey = ''ES_NQ'', pt_price = price, pt_size = Fin 2,
     pt_side = ''no'', pt_rest = rest\<rparr>"

definition sample_rows :: "account_row list" where
  "sample_rows = buildExecutionRows (Fin 9) []
     [(''ES_NQ'', [sample_fill (Fin 5) (Fin 4500) [(''orderId'', Str ''o1''), (''displaySide'', Str ''Buy''), (''realizedPnl'', Num (Fin 10)),
                    (''legs'', Arr [Obj [(''symbol'', Str ''ES''), (''side'', Str ''buy''), (''qty'', Str ''2'')], Null])],
                  sample_fill (Fin 6) (Fin 40) [],
                  sample_fill (Fin 7) (Fin 4501) [(''fillId'', Num (Fin 3))]])] [] [] [] ''Ted'' []"

lemma sample_rows_shown:
  "map (\<lambda>r. (ax_timestamp r, ax_side r, ax_price r, ax_size r, ax_leg_id r)) sample_rows =
     [(Fin 7, ''SELL'', Str ''4501.00'', Str ''2'', ''cme-ES_NQ-7-1-L2''), (Fin 5, ''BUY'', Str ''4500.00'', Str ''2'', ''o1-L1'')]"
  "map (\<lambda>r. (ax_product r, ax_contract_count r, ax_synthetic_units r, ax_pnl r, length (ax_synthetic_legs r))) sample_rows =
     [(''ES_NQ'', Fin 2, Fin 2, Fin 0, 0), (''ES_NQ'', Fin 2, Fin 2, Fin 10, 1)]"
  by code_simp+

lemma rollups_by_product_witness:
  "map_option ru_fills (by_key ru_product (buildProductFillRollups code_compare sample_rows) ''ES_NQ'') = Some 2
   \<and> sum_list (map ru_fills (buildProductFillRollups code_compare sample_rows)) = 2"
proof -
  have n: "length sample_rows = 2"
    using arg_cong [OF sample_rows_shown(1), of length] by simp
  have "map ax_product sample_rows = [''ES_NQ'', ''ES_NQ'']"
    using arg_cong [OF sample_rows_shown(2), of "map fst"] by (simp add: comp_def case_prod_beta)
  then obtain a b where r: "sample_rows = [a, b]" "ax_product a = ''ES_NQ''" "ax_product b = ''ES_NQ''"
    by (auto simp: Cons_eq_map_conv map_eq_Cons_conv)
  have "ru_fills (fold add_row sample_rows (empty_rollup ''ES_NQ'')) = 2"
    by (simp add: r(1) add_row_def empty_rollup_def Let_def)
  moreover have "filter (\<lambda>r. ax_product r = ''ES_NQ'') sample_rows = sample_rows" "sample_rows \<noteq> []"
    by (simp_all add: r)
  ultimately show ?thesis
    using rollups_by_product [OF code_compare_collation, of sample_rows "''ES_NQ''"] n by simp
qed

text \<open>What a row says of its fill or order: the kind, the market, the name of the row, the time, the side, the
  price, the size, the state and the profit.\<close>

type_synonym row_facts = "string \<times> string \<times> string \<times> jsnum \<times> string \<times> string \<times> string \<times> string \<times> jsnum"

definition facts_of_row :: "account_row \<Rightarrow> row_facts" where
  "facts_of_row r = (ax_row_type r, ax_market_key r, ax_id r, ax_timestamp r, ax_side r, to_str (ax_price r),
     to_str (ax_size r), ax_status r, ax_pnl r)"

definition facts_of_fill :: "jsnum \<Rightarrow> string \<Rightarrow> nat \<Rightarrow> poly_trade_tick \<Rightarrow> row_facts" where
  "facts_of_fill now k i fill =
     (let time = executionNumber (Num (pt_timestamp fill)) now; price = executionNumber (Num (pt_price fill)) (Fin 0);
          amount = executionNumber (Num (pt_size fill)) (Fin 0)
      in (''fill'', k, ''fill-'' @ k @ ''-'' @ num_text time @ ''-'' @ num_text price @ ''-'' @ num_text amount @ ''-'' @ int_text (int i),
          time, executionSideLabel fill (pt_rest fill), executionPriceLabel price, to_fixed 0 amount, ''FILLED'',
          num_only (oget (pt_rest fill) ''realizedPnl'')))"

definition facts_of_order :: "jsnum \<Rightarrow> sim_position list \<Rightarrow> sim_order \<Rightarrow> row_facts" where
  "facts_of_order now positions order =
     (''order'', so_marketKey order, ''sim-order-'' @ so_id order,
      executionNumber (Num (so_createdAt order)) (executionNumber (Num (so_updatedAt order)) now),
      executionOrderSideLabel order, executionPriceLabel (executionNumber (Num (so_price order)) (Fin 0)),
      to_fixed 0 (executionNumber (Num (so_filledSize order)) (Fin 0)) @ '' / ''
        @ to_fixed 0 (executionNumber (Num (so_size order)) (Fin 0)),
      so_status order,
      get_or (map_option sp_totalPnl (find (\<lambda>p. sp_legId p = so_legId order \<and> sp_marketKey p = so_marketKey order) positions)) (Fin 0))"

text \<open>One entry for each account fill of each market, numbered within its market, and one for each order.\<close>

definition expected_rows ::
    "jsnum \<Rightarrow> sim_position list \<Rightarrow> poly_trade_tick list dict \<Rightarrow> sim_order list \<Rightarrow> row_facts list" where
  "expected_rows now positions fillsByMarket orders =
     concat (map (\<lambda>(k, fills). let mine = filter (\<lambda>f. isAccountFillTick (pt_rest f)) fills in
         map (\<lambda>i. facts_of_fill now k i (mine ! i)) [0..<length mine])
       (own_entries fillsByMarket))
     @ map (facts_of_order now positions) orders"

lemma facts_fill: "facts_of_row (fill_row now u ds ms opt k i fill) = facts_of_fill now k i fill"
  by (simp add: facts_of_row_def fill_row_def facts_of_fill_def Let_def)

lemma facts_order: "facts_of_row (order_row now positions opt order) = facts_of_order now positions order"
  by (simp add: facts_of_row_def order_row_def facts_of_order_def Let_def)

lemma market_rows_facts: "map facts_of_row (market_fill_rows now operatorName definitions markets byKey (k, fills)) =
   (let mine = filter (\<lambda>f. isAccountFillTick (pt_rest f)) fills in map (\<lambda>i. facts_of_fill now k i (mine ! i)) [0..<length mine])"
  unfolding Let_def
  by (rule nth_equalityI) (simp_all add: market_fill_rows_def nth_enumerate_eq facts_fill)

lemma time_float: "is_number t \<Longrightarrow> is_float fallback \<Longrightarrow> is_float (executionNumber (Num t) fallback)"
  by (cases t) (simp_all add: executionNumber_def is_float_def)

lemma fill_time: "ax_timestamp (fill_row now u ds ms opt k i fill) = executionNumber (Num (pt_timestamp fill)) now"
  by (simp add: fill_row_def Let_def)

lemma order_time: "ax_timestamp (order_row now ps opt order) =
    executionNumber (Num (so_createdAt order)) (executionNumber (Num (so_updatedAt order)) now)"
  by (simp add: order_row_def Let_def)

text \<open>C25. The execution rows: every account fill of every market and every order gives one row, and nothing
  else does (prints of the public tape do not). The row of a fill says the market, time, side, price, size and
  profit of that very fill, and is named after its place among the account fills of the market; the row of an
  order says those of that order. Whatever the time stamps are (even absent ones, which count as now), the rows
  stand latest first.\<close>

theorem execution_rows_complete:
  assumes "is_float now" and "\<forall>(k, fills)\<in>set fillsByMarket. \<forall>f\<in>set fills. is_number (pt_timestamp f)"
    and "\<forall>order\<in>set orders. is_number (so_createdAt order) \<and> is_number (so_updatedAt order)"
    and "rows = buildExecutionRows now options fillsByMarket orders positions markets operatorName definitions"
  shows "mset (map facts_of_row rows) = mset (expected_rows now positions fillsByMarket orders)
    \<and> sorted_wrt (before_desc ax_timestamp) rows \<and> (\<forall>r\<in>set rows. is_float (ax_timestamp r))"
proof -
  obtain byKey where byKey: "byKey = productLookup options" by simp
  obtain rs where rs: "rs = concat (map (market_fill_rows now operatorName definitions markets byKey) (own_entries fillsByMarket))
      @ map (\<lambda>order. order_row now positions (dict_get byKey (so_marketKey order)) order) orders" by simp
  have rows: "rows = sort_js (before_desc ax_timestamp) rs"
    by (simp add: assms(4) buildExecutionRows_def rs byKey Let_def)
  have facts: "map facts_of_row rs = expected_rows now positions fillsByMarket orders"
    by (simp add: rs expected_rows_def map_concat comp_def facts_order split_def market_rows_facts [of _ _ _ _ _ "fst e" "snd e" for e, simplified])
  have fills: "is_float (ax_timestamp r)"
    if "(k, fs) \<in> set fillsByMarket" "r \<in> set (market_fill_rows now operatorName definitions markets byKey (k, fs))" for k fs r
  proof -
    from that(2) obtain i f where f: "f \<in> set fs" "ax_timestamp r = executionNumber (Num (pt_timestamp f)) now"
      by (auto simp: market_fill_rows_def fill_time in_set_enumerate_eq dest!: nth_mem)
    with that(1) assms(1,2) show ?thesis by (auto intro!: time_float)
  qed
  have float: "\<forall>r\<in>set rs. is_float (ax_timestamp r)"
    using fills assms(1,3) by (auto simp: rs order_time intro!: time_float)
  have "sorted_wrt (before_desc ax_timestamp) rows" unfolding rows by (rule desc.sorted_sort) (use float in blast)
  moreover have "mset (map facts_of_row rows) = mset (map facts_of_row rs)" by (simp add: rows)
  ultimately show ?thesis using facts float by (simp add: rows)
qed

lemma execution_rows_complete_witness:
  "mset (map (\<lambda>(kind, k, i, time, side, price, amount, status, pnl). (k, i, time, side, price, amount, pnl)) (map facts_of_row sample_rows)) =
     {#(''ES_NQ'', ''fill-ES_NQ-5-4500-2-0'', Fin 5, ''BUY'', ''4500.00'', ''2'', Fin 10),
       (''ES_NQ'', ''fill-ES_NQ-7-4501-2-1'', Fin 7, ''SELL'', ''4501.00'', ''2'', Fin 0)#}"
proof -
  have e: "map (\<lambda>(kind, k, i, time, side, price, amount, status, pnl). (k, i, time, side, price, amount, pnl)) (expected_rows (Fin 9) []
     [(''ES_NQ'', [sample_fill (Fin 5) (Fin 4500) [(''orderId'', Str ''o1''), (''displaySide'', Str ''Buy''), (''realizedPnl'', Num (Fin 10)),
                    (''legs'', Arr [Obj [(''symbol'', Str ''ES''), (''side'', Str ''buy''), (''qty'', Str ''2'')], Null])],
                  sample_fill (Fin 6) (Fin 40) [],
                  sample_fill (Fin 7) (Fin 4501) [(''fillId'', Num (Fin 3))]])] []) =
     [(''ES_NQ'', ''fill-ES_NQ-5-4500-2-0'', Fin 5, ''BUY'', ''4500.00'', ''2'', Fin 10),
      (''ES_NQ'', ''fill-ES_NQ-7-4501-2-1'', Fin 7, ''SELL'', ''4501.00'', ''2'', Fin 0)]"
    by code_simp
  have "is_float (Fin 9)" by (simp add: is_float_def)
  from conjunct1 [OF execution_rows_complete [OF this _ _ sample_rows_def]]
  have "mset (map facts_of_row sample_rows) = mset (expected_rows (Fin 9) []
     [(''ES_NQ'', [sample_fill (Fin 5) (Fin 4500) [(''orderId'', Str ''o1''), (''displaySide'', Str ''Buy''), (''realizedPnl'', Num (Fin 10)),
                    (''legs'', Arr [Obj [(''symbol'', Str ''ES''), (''side'', Str ''buy''), (''qty'', Str ''2'')], Null])],
                  sample_fill (Fin 6) (Fin 40) [],
                  sample_fill (Fin 7) (Fin 4501) [(''fillId'', Num (Fin 3))]])] [])"
    by (simp add: sample_fill_def)
  from arg_cong [OF this, of "image_mset (\<lambda>(kind, k, i, time, side, price, amount, status, pnl). (k, i, time, side, price, amount, pnl))"]
  show ?thesis unfolding mset_map [symmetric] e by simp
qed

end
