(* ===== verification/ChartSeries.thy ===== *)
theory ChartSeries
  imports AlgoManager Gather JsDate
begin

text \<open>
  What the chart of \<open>apps/terminal/src/components/WorkspaceCanvas.tsx\<close> computes before it draws: bars of
  a time frame from bars of the service, the bar that follows the live price, the points of a
  series, and the studies (regression channel, average true range, volume at price). \<open>now\<close> is the
  reading of \<open>Date.now()\<close>, \<open>dp\<close> is \<open>Date.parse\<close>. Main results: the bars of a time frame stand one per
  bucket in the order of time, each made from the rows of its bucket, and are candles when the rows
  are; a bucket holds its time; a series has one finite point per time.
\<close>

subsection \<open>Studies\<close>

record chart_study =
  sd_id :: string
  sd_type :: string
  sd_lookback :: "jsnum option"
  sd_upperDeviation :: "jsnum option"
  sd_lowerDeviation :: "jsnum option"
  sd_atrMultiplier :: "jsnum option"
  sd_bins :: "jsnum option"

definition initialCeriousChartStudies :: "chart_study list option \<Rightarrow> chart_study list" where
  "initialCeriousChartStudies studies = filter (\<lambda>s. sd_type s \<noteq> []) (get_or studies [])"

definition ceriousChartStudyLabel :: "chart_study \<Rightarrow> string" where
  "ceriousChartStudyLabel s =
     (let lookback = (case sd_lookback s of None \<Rightarrow> ''X'' | Some n \<Rightarrow> num_text n) in
      if sd_type s = ''atr'' then ''ATR '' @ lookback @ '' x'' @ to_fixed 2 (get_or (sd_atrMultiplier s) (Fin 2))
      else if sd_type s = ''volume-at-price'' then ''Volume at Price '' @ num_text (get_or (sd_bins s) (Fin 28))
      else ''Linear Regression lookback '' @ lookback @ '' +'' @ to_fixed 2 (get_or (sd_upperDeviation s) (Fin 2))
        @ ''/-'' @ to_fixed 2 (get_or (sd_lowerDeviation s) (Fin 2)))"

definition ceriousAverage :: "jsnum list \<Rightarrow> jsnum" where
  "ceriousAverage xs = (if xs = [] then Fin 0
     else jdiv (fold (\<lambda>v total. jadd total v) xs (Fin 0)) (num_of_int (int (length xs))))"

record regression_request =
  rq_key :: string
  rq_symbol :: string
  rq_interval :: string
  rq_lookback :: jsnum
  rq_standardDeviations :: jsnum

definition chartRegressionStudyRequest :: "string \<Rightarrow> string \<Rightarrow> chart_study \<Rightarrow> regression_request option" where
  "chartRegressionStudyRequest symbol timeframe s =
     (if sd_type s \<noteq> ''regression-channel'' then None
      else case normalizedLookback (opt_num (sd_lookback s)) (Fin 2) (Fin 2000) of
        None \<Rightarrow> None
      | Some lookback \<Rightarrow>
          (let finite_or = (\<lambda>n. if is_finite n then n else Fin 2);
               upper = finite_or (get_or (sd_upperDeviation s) (Fin 2));
               lower = finite_or (get_or (sd_lowerDeviation s) (Fin 2));
               deviations = math_max (math_max (Fin 0) upper) lower;
               interval = to_lower (if timeframe = [] then ''30m'' else timeframe)
           in map_option (\<lambda>k. \<lparr>rq_key = k, rq_symbol = symbol, rq_interval = interval, rq_lookback = lookback,
                rq_standardDeviations = deviations\<rparr>) (regressionStudyKey symbol interval lookback deviations)))"

subsection \<open>Buckets\<close>

definition ceriousChartBucketMs :: "string \<Rightarrow> int" where
  "ceriousChartBucketMs timeframe =
     (if timeframe = ''1m'' then 60000 else if timeframe = ''5m'' then 300000
      else if timeframe = ''30m'' then 1800000 else if timeframe = ''1h'' then 3600000 else 86400000)"

definition ceriousChartBucketStart :: "jsnum \<Rightarrow> string \<Rightarrow> jsnum" where
  "ceriousChartBucketStart timestamp timeframe =
     (if timeframe \<noteq> ''1d''
      then jmul (math_floor (jdiv timestamp (num_of_int (ceriousChartBucketMs timeframe))))
             (num_of_int (ceriousChartBucketMs timeframe))
      else case time_clip timestamp of None \<Rightarrow> NaN
        | Some ms \<Rightarrow> (case civil_of_days (ms div 86400000) of (y, m, d) \<Rightarrow> date_utc y (m - 1) d))"

definition finite_row :: "bar \<Rightarrow> bool" where
  "finite_row row \<longleftrightarrow> is_finite (br_open row) \<and> is_finite (br_high row) \<and> is_finite (br_low row)
     \<and> is_finite (br_close row) \<and> is_finite (br_timestamp row)"

text \<open>A row opens a bar at the start of its bucket, or is merged into the bar of the bucket. Keys of a
  \<open>Map\<close> are compared without the sign of zero.\<close>

definition bucket_key :: "string \<Rightarrow> bar \<Rightarrow> jsnum" where
  "bucket_key timeframe row = drop_sign (ceriousChartBucketStart (br_timestamp row) timeframe)"

definition open_bar :: "string \<Rightarrow> bar \<Rightarrow> bar" where
  "open_bar timeframe row = row\<lparr>br_timestamp := ceriousChartBucketStart (br_timestamp row) timeframe\<rparr>"

definition merge_bar :: "bar \<Rightarrow> bar \<Rightarrow> bar" where
  "merge_bar row b = b\<lparr>br_high := math_max (br_high b) (br_high row), br_low := math_min (br_low b) (br_low row),
     br_close := br_close row, br_volume := jadd (br_volume b) (br_volume row)\<rparr>"

definition ceriousChartSeriesBars :: "bar list \<Rightarrow> string \<Rightarrow> bar list" where
  "ceriousChartSeriesBars rows timeframe =
     sort_js (before_asc br_timestamp)
       (map snd (fold (gather (bucket_key timeframe) (open_bar timeframe) merge_bar) (filter finite_row rows) []))"

definition ceriousCompletedStudyRows :: "jsnum \<Rightarrow> bar list \<Rightarrow> string \<Rightarrow> bar list" where
  "ceriousCompletedStudyRows now rows timeframe =
     filter (\<lambda>row. is_finite (br_timestamp row)
       \<and> jle (jadd (br_timestamp row) (num_of_int (ceriousChartBucketMs timeframe))) now) rows"

subsection \<open>The live bar\<close>

definition finite_opt :: "jsnum option \<Rightarrow> jsnum option" where
  "finite_opt x = finiteOptional (opt_num x)"

record live_quote =
  lq_price :: jsnum
  lq_timestamp :: jsnum
  lq_size :: jsnum

text \<open>The price, time and size that the last print and the book give.\<close>

definition live_quote_of :: "jsnum \<Rightarrow> poly_book option \<Rightarrow> poly_trade_tick list \<Rightarrow> live_quote option" where
  "live_quote_of now book ticks =
     (let latestTick = array_last ticks;
          tickPrice = finite_opt (map_option pt_price latestTick);
          bookPrice = or_else (finite_opt (case book of None \<Rightarrow> None | Some b \<Rightarrow> pb_ltp b)) (finite_opt (map_option pb_up_pct book));
          tickTime = get_or (finite_opt (map_option pt_timestamp latestTick)) (Fin 0);
          bookTime = get_or (or_else (finite_opt (map_option pb_timestamp_ms book))
              (finite_opt (case book of None \<Rightarrow> None | Some b \<Rightarrow> pb_seen_ms b))) (Fin 0);
          fromTick = (tickPrice \<noteq> None \<and> jle bookTime tickTime);
          price = (if fromTick then tickPrice else or_else bookPrice tickPrice);
          stamp = math_max tickTime bookTime;
          tickSize = map_option pt_size latestTick
      in map_option (\<lambda>p. \<lparr>lq_price = p, lq_timestamp = (if num_truthy stamp then stamp else now),
           lq_size = math_max (Fin 0) (if fromTick then get_or tickSize (Fin 0)
             else get_or (or_else (case book of None \<Rightarrow> None | Some b \<Rightarrow> pb_ltp_size b) tickSize) (Fin 0))\<rparr>) price)"

definition ceriousChartWithLiveLast ::
    "jsnum \<Rightarrow> bar list \<Rightarrow> string \<Rightarrow> poly_book option \<Rightarrow> poly_trade_tick list \<Rightarrow> bar list" where
  "ceriousChartWithLiveLast now rows timeframe book ticks =
     (let prepared = ceriousChartSeriesBars rows timeframe in
      case live_quote_of now book ticks of
        None \<Rightarrow> prepared
      | Some q \<Rightarrow>
          (let p = lq_price q; bucket = ceriousChartBucketStart (lq_timestamp q) timeframe;
               fresh = (\<lambda>before. \<lparr>br_timestamp = bucket, br_open = before, br_high = math_max before p,
                 br_low = math_min before p, br_close = p, br_volume = lq_size q\<rparr>) in
           case array_last prepared of
             None \<Rightarrow> [fresh p]
           | Some latest \<Rightarrow>
               if jeq (br_timestamp latest) bucket
               then butlast prepared @ [latest\<lparr>br_high := math_max (br_high latest) p, br_low := math_min (br_low latest) p,
                      br_close := p, br_volume := jadd (br_volume latest) (lq_size q)\<rparr>]
               else prepared @ [fresh (br_close latest)]))"

subsection \<open>Points of a series\<close>

definition ceriousChartTime :: "bar \<Rightarrow> jsnum" where
  "ceriousChartTime row = math_floor (jdiv (br_timestamp row) (Fin 1000))"

definition number_seconds :: "jsnum \<Rightarrow> jsnum option" where
  "number_seconds n = (if \<not> is_finite n then None
     else Some (math_floor (if jlt (Fin 10000000000) n then jdiv n (Fin 1000) else n)))"

lemma map_of_size: "map_of d k = Some v \<Longrightarrow> size v < Suc (size_list (size_prod (\<lambda>x. 0) size) d)"
  by (induction d) (auto split: if_splits)

function ceriousChartTimeSeconds :: "(string \<Rightarrow> jsnum) \<Rightarrow> jsv \<Rightarrow> jsnum option" where
  "ceriousChartTimeSeconds dp v = (case v of
     Num n \<Rightarrow> number_seconds n
   | Str s \<Rightarrow> (case number_seconds (string_number s) of Some t \<Rightarrow> Some t
       | None \<Rightarrow> if is_finite (dp s) then Some (math_floor (jdiv (dp s) (Fin 1000))) else None)
   | Obj d \<Rightarrow>
       (let year = to_num (oget d ''year''); month = to_num (oget d ''month''); day = to_num (oget d ''day'');
            nested = (case map_of d ''timestamp'' of
                Some Undefined \<Rightarrow> (case map_of d ''time'' of Some Undefined \<Rightarrow> None | Some t \<Rightarrow> ceriousChartTimeSeconds dp t | None \<Rightarrow> None)
              | Some t \<Rightarrow> ceriousChartTimeSeconds dp t
              | None \<Rightarrow> (case map_of d ''time'' of Some Undefined \<Rightarrow> None | Some t \<Rightarrow> ceriousChartTimeSeconds dp t | None \<Rightarrow> None))
        in if nested \<noteq> None then nested
           else if is_integer year \<and> is_integer month \<and> is_integer day
           then Some (math_floor (jdiv (date_utc \<lfloor>val year\<rfloor> (\<lfloor>val month\<rfloor> - 1) \<lfloor>val day\<rfloor>) (Fin 1000)))
           else None)
   | _ \<Rightarrow> None)"
  by pat_completeness auto
termination
  by (relation "measure (\<lambda>(dp, v). size v)") (auto dest: map_of_size)

declare ceriousChartTimeSeconds.simps [simp del]

definition ceriousChartPointIsFinite :: "jobj \<Rightarrow> bool" where
  "ceriousChartPointIsFinite point \<longleftrightarrow>
     list_all (\<lambda>(k, v). k = ''time'' \<or> k = ''color''
       \<or> (case v of Num n \<Rightarrow> is_finite n | Null \<Rightarrow> False | Undefined \<Rightarrow> False | _ \<Rightarrow> True)) point"

text \<open>The points whose time is known and whose values are finite, with their time in seconds.\<close>

definition timed_point :: "(string \<Rightarrow> jsnum) \<Rightarrow> jobj \<Rightarrow> (jsnum \<times> jobj) option" where
  "timed_point dp point = (case ceriousChartTimeSeconds dp (oget point ''time'') of None \<Rightarrow> None
     | Some t \<Rightarrow> if ceriousChartPointIsFinite point then Some (t, dict_set ''time'' (Num t) point) else None)"

definition ceriousNormalizeChartSeries :: "(string \<Rightarrow> jsnum) \<Rightarrow> jobj list \<Rightarrow> jobj list" where
  "ceriousNormalizeChartSeries dp points =
     sort_js (before_asc (\<lambda>p. to_num (oget p ''time'')))
       (map snd (latest_by (\<lambda>e. drop_sign (fst e)) (List.map_filter (timed_point dp) points)))"

subsection \<open>The regression channel of the service\<close>

record chart_point =
  ch_time :: jsnum
  ch_value :: jsnum

record regression_channel =
  rc_mean :: "chart_point list"
  rc_upper :: "chart_point list"
  rc_lower :: "chart_point list"
  rc_label :: jsv

definition serverRegressionChannel :: "bar list \<Rightarrow> chart_study \<Rightarrow> jobj option \<Rightarrow> regression_channel option" where
  "serverRegressionChannel rows study snapshot =
     (case snapshot of None \<Rightarrow> None
      | Some d \<Rightarrow>
        if sd_type study \<noteq> ''regression-channel'' \<or> \<not> truthy (oget d ''ok'') \<or> rows = [] then None
        else (case (finiteOptional (oget d ''mean''), finiteOptional (oget d ''upper''), finiteOptional (oget d ''lower'')) of
          (Some mean, Some upper, Some lower) \<Rightarrow>
            (case normalizedLookback (coalesce (oget d ''lookback'') (opt_num (sd_lookback study))) (Fin 2) (Fin 2000) of
               None \<Rightarrow> None
             | Some lookback \<Rightarrow>
               (let slope = get_or (finiteOptional (oget d ''slope'')) (Fin 0);
                    eligible = (case finiteOptional (oget d ''updatedAt'') of
                        Some t \<Rightarrow> if jlt (Fin 0) t then filter (\<lambda>row. jle (br_timestamp row) t) rows else rows
                      | None \<Rightarrow> rows);
                    studyRows = slice_last (nat \<lfloor>val lookback\<rfloor>) eligible;
                    n = length studyRows;
                    points = (\<lambda>base. map (\<lambda>(i, row). \<lparr>ch_time = ceriousChartTime row,
                      ch_value = jsub base (jmul slope (num_of_int (int (n - 1 - i))))\<rparr>) (enumerate 0 studyRows))
                in if n < 2 then None
                   else Some \<lparr>rc_mean = points mean, rc_upper = points upper, rc_lower = points lower,
                     rc_label = js_or (oget d ''label'') (Str (trim (''Linear Regression lookback '' @ num_text lookback @ '' ''
                       @ to_str (js_or (oget d ''interval'') (Str [])))))\<rparr>))
        | _ \<Rightarrow> None))"

subsection \<open>Average true range\<close>

definition true_range :: "bar \<Rightarrow> bar \<Rightarrow> jsnum" where
  "true_range prior row = math_max (math_max (jsub (br_high row) (br_low row))
     (math_abs (jsub (br_high row) (br_close prior)))) (math_abs (jsub (br_low row) (br_close prior)))"

record atr_band =
  ab_time :: jsnum
  ab_upper :: jsnum
  ab_lower :: jsnum

definition ceriousAtrBands :: "bar list \<Rightarrow> chart_study \<Rightarrow> atr_band list" where
  "ceriousAtrBands rows study =
     (case normalizedLookback (opt_num (sd_lookback study)) (Fin 2) (Fin 500) of
        None \<Rightarrow> []
      | Some n \<Rightarrow>
          (let lookback = nat \<lfloor>val n\<rfloor>;
               multiplier = math_max (Fin 0) (get_or (sd_atrMultiplier study) (Fin 2));
               ranges = map2 true_range rows (tl rows);
               band = (\<lambda>index. let row = rows ! index; atr = ceriousAverage (take lookback (drop (index - lookback) ranges)) in
                 \<lparr>ab_time = ceriousChartTime row, ab_upper = jadd (br_close row) (jmul atr multiplier),
                  ab_lower = jsub (br_close row) (jmul atr multiplier)\<rparr>)
           in if length rows < lookback + 1 then [] else map band [lookback..<length rows]))"

subsection \<open>Volume at price\<close>

record price_bucket =
  vb_low :: jsnum
  vb_high :: jsnum
  vb_volume :: jsnum

record volume_bucket = price_bucket +
  vb_pct :: jsnum
  vb_y :: jsnum
  vb_h :: jsnum

definition bin_count :: "chart_study \<Rightarrow> jsnum" where
  "bin_count study = math_max (Fin 8) (math_min (Fin 80) (math_floor (get_or (sd_bins study) (Fin 28))))"

definition typical_price :: "bar \<Rightarrow> jsnum" where
  "typical_price row = jdiv (jadd (jadd (br_high row) (br_low row)) (br_close row)) (Fin 3)"

text \<open>Adding the volume of a row; an index that is no index of the list throws.\<close>

definition add_volume :: "jsnum \<Rightarrow> jsnum \<Rightarrow> jsnum \<Rightarrow> bar \<Rightarrow> price_bucket list \<Rightarrow> price_bucket list js_result" where
  "add_volume low step bins row buckets =
     (let index = clamp (math_floor (jdiv (jsub (typical_price row) low) step)) (Fin 0) (jsub bins (Fin 1)) in
      if is_finite index \<and> nat \<lfloor>val index\<rfloor> < length buckets
      then (let i = nat \<lfloor>val index\<rfloor>; b = buckets ! i in
        Inr (buckets[i := b\<lparr>vb_volume := jadd (vb_volume b) (math_max (Fin 0) (br_volume row))\<rparr>]))
      else Inl TypeError)"

definition ceriousVolumeAtPriceBuckets :: "bar list \<Rightarrow> chart_study list \<Rightarrow> volume_bucket list js_result" where
  "ceriousVolumeAtPriceBuckets rows studies =
     (case find (\<lambda>s. sd_type s = ''volume-at-price'') studies of
        None \<Rightarrow> Inr []
      | Some study \<Rightarrow>
          (let prices = filter is_finite (concat (map (\<lambda>row. [br_low row, br_high row, br_close row]) rows));
               low = math_min_list prices; high = math_max_list prices;
               bins = bin_count study; step = jdiv (jsub high low) bins;
               empty = map (\<lambda>i. \<lparr>vb_low = jadd low (jmul (num_of_int (int i)) step),
                   vb_high = jadd low (jmul (num_of_int (int i + 1)) step), vb_volume = Fin 0\<rparr>)
                 [0..<(if bins = NaN then 0 else nat \<lfloor>val bins\<rfloor>)]
           in if length rows < 2 \<or> \<not> is_finite low \<or> \<not> is_finite high \<or> jle high low then Inr []
              else map_sum id (\<lambda>buckets.
                let maxVolume = fold (\<lambda>b m. math_max m (vb_volume b)) buckets (Fin 1) in
                map (\<lambda>b. \<lparr>vb_low = vb_low b, vb_high = vb_high b, vb_volume = vb_volume b,
                    vb_pct = jdiv (vb_volume b) maxVolume,
                    vb_y = jmul (jdiv (jsub high (jdiv (jadd (vb_low b) (vb_high b)) (Fin 2))) (jsub high low)) (Fin 100),
                    vb_h = math_max (rnd False (6 / 5)) (jmul (jdiv step (jsub high low)) (Fin 100))\<rparr>)
                  (filter (\<lambda>b. jlt (Fin 0) (vb_volume b)) buckets))
                (fold_result (add_volume low step bins) rows empty)))"

end
