(* ===== verification/ChartProps.thy ===== *)
theory ChartProps
  imports ChartSeries
begin

text \<open>
  Properties of the chart's series: where rounding cannot reach over the bounds of a bucket, that the
  bars of a time frame stand one per bucket in the order of time and are candles, what the live price
  changes, and that a series has one finite point per time.
\<close>

subsection \<open>Buckets\<close>

lemma rnd_floor:
  assumes n: "0 \<le> n" "n \<le> 10 ^ 13" and m: "60000 \<le> m" "m \<le> 3600000"
  shows "\<exists>x. rnd False (of_int n / of_int m) = Fin x \<and> \<lfloor>x\<rfloor> = n div m"
proof (cases "n = 0")
  case False
  let ?q = "of_int n / of_int m :: rat"
  have m0: "0 < (of_int m :: rat)" using m by simp
  have q: "0 < ?q" using n m False by simp
  have "(of_int n :: rat) \<le> 10 ^ 13" using n(2) by (metis of_int_le_iff of_int_numeral of_int_power)
  also have "(10 :: rat) ^ 13 < 2 ^ 28 * 60000" by simp
  also have "\<dots> \<le> 2 ^ 28 * of_int m" using m(1) by simp
  finally have q28: "?q < 2 ^ 28" using m0 by (simp add: pos_divide_less_eq)
  obtain k r where k: "k = n div m" and r: "r = n mod m" by simp
  have nk: "n = k * m + r" "0 \<le> r" "r < m" "0 \<le> k" using n m by (simp_all add: k r pos_imp_zdiv_nonneg_iff)
  have qk: "?q = of_int k + of_int r / of_int m" using m0 by (simp add: nk(1) add_divide_distrib)
  have close: "\<bar>rnd_mag ?q - ?q\<bar> \<le> 1 / 2 ^ 26" by (rule rnd_mag_close [OF q q28])
  have gap: "1 / 2 ^ 26 < (1 :: rat) / of_int m"
  proof -
    have "(of_int m :: rat) \<le> 3600000" using m(2) by simp
    then show ?thesis using m0 by (simp add: divide_simps)
  qed
  have mag: "of_int k \<le> rnd_mag ?q \<and> rnd_mag ?q < of_int k + 1 \<and> 0 < rnd_mag ?q"
  proof (cases "r = 0")
    case True
    have "k \<le> n" using nk(1) True m nk(4) mult_left_mono [of 1 m k] by simp
    then have "representable (of_int k)" using n nk(4) by (intro representable_int) simp
    then have "rnd_mag ?q = of_int k" using True q nk(4) qk by (auto simp: representable_def)
    with q qk True show ?thesis by simp
  next
    case False
    have "of_int 1 \<le> (of_int r :: rat)" "(of_int r :: rat) \<le> of_int (m - 1)" using False nk by (simp_all only: of_int_le_iff)
    then have "1 / of_int m \<le> (of_int r / of_int m :: rat)" "of_int r / of_int m \<le> 1 - (1 :: rat) / of_int m"
      using m0 by (simp_all add: divide_right_mono diff_divide_eq_iff pos_divide_le_eq)
    moreover have "rnd_mag ?q - ?q \<le> 1 / 2 ^ 26" "?q - rnd_mag ?q \<le> 1 / 2 ^ 26" using close by linarith+
    moreover have "0 \<le> (of_int k :: rat)" using nk(4) by simp
    ultimately show ?thesis using gap qk by (intro conjI) linarith+
  qed
  have "rnd_mag ?q - ?q \<le> 1 / 2 ^ 26" using close by linarith
  moreover have "(1 :: rat) / 2 ^ 26 \<le> 1" by simp
  ultimately have "rnd_mag ?q < 2 ^ 28 + 1" using q28 by linarith
  also have "(2 :: rat) ^ 28 + 1 < 2 ^ 1024" by simp
  finally have "rnd_mag ?q < 2 ^ 1024" .
  with mag q have "rnd False ?q = Fin (rnd_mag ?q)" by (intro rnd_pos) simp_all
  moreover have "\<lfloor>rnd_mag ?q\<rfloor> = k" using mag by (intro floor_unique) auto
  ultimately show ?thesis by (auto simp: k)
qed (simp add: zero_of_def)

text \<open>A time of the clock: whole milliseconds between 1970 and 2286.\<close>

definition epoch_ms :: "jsnum \<Rightarrow> bool" where
  "epoch_ms t \<longleftrightarrow> is_integer t \<and> t \<noteq> NegZero \<and> 0 \<le> val t \<and> val t \<le> 10 ^ 13"

lemma epoch_cases: "epoch_ms t \<Longrightarrow> \<exists>n. t = num_of_int n \<and> 0 \<le> n \<and> n \<le> 10 ^ 13"
proof -
  assume t: "epoch_ms t"
  then obtain q where q: "t = Fin q" "\<exists>n. q = of_int n" "0 \<le> q" "q \<le> 10 ^ 13" by (cases t) (auto simp: epoch_ms_def)
  then obtain n where n: "q = of_int n" by blast
  then have "0 \<le> n" "n \<le> 10 ^ 13" using q(3,4) by simp_all
  with q n show ?thesis by (intro exI [of _ n]) (simp add: num_of_int_def)
qed

lemma bucket_ms: "timeframe \<noteq> ''1d'' \<Longrightarrow> timeframe \<in> {''1m'', ''5m'', ''30m'', ''1h'', ''1d''} \<Longrightarrow>
    60000 \<le> ceriousChartBucketMs timeframe \<and> ceriousChartBucketMs timeframe \<le> 3600000"
  by (auto simp: ceriousChartBucketMs_def)

lemma day_start:
  assumes "0 \<le> n" "n \<le> 10 ^ 13"
  shows "ceriousChartBucketStart (num_of_int n) ''1d'' = num_of_int (n div 86400000 * 86400000)"
proof -
  obtain y m d where c: "civil_of_days (n div 86400000) = (y, m, d)" by (cases "civil_of_days (n div 86400000)")
  have "time_clip (num_of_int n) = Some n" using assms by (simp add: time_clip_def num_of_int_def)
  moreover have "date_utc y (m - 1) d = num_of_int (n div 86400000 * 86400000)"
    using date_utc_civil [OF _ _ c] assms by simp
  ultimately show ?thesis by (simp add: ceriousChartBucketStart_def c)
qed

lemma intraday_start:
  assumes "0 \<le> n" "n \<le> 10 ^ 13" "60000 \<le> m" "m \<le> 3600000"
  shows "jmul (math_floor (jdiv (num_of_int n) (num_of_int m))) (num_of_int m) = num_of_int (n div m * m)"
proof -
  obtain x where x: "rnd False (of_int n / of_int m) = Fin x" "\<lfloor>x\<rfloor> = n div m" using rnd_floor [OF assms] by blast
  have d: "jdiv (num_of_int n) (num_of_int m) = Fin x" using assms x(1) by (simp add: jdiv_def num_of_int_def Let_def)
  have "n div m * m \<le> n" using assms by (simp add: minus_mod_eq_div_mult [symmetric])
  moreover have "0 \<le> n div m * m" using assms by (simp add: pos_imp_zdiv_nonneg_iff)
  ultimately have "rnd False (of_int (n div m * m)) = Fin (of_int (n div m * m))" using assms(2) by (intro rnd_int) simp
  then show ?thesis using assms unfolding d by (simp add: jmul_def num_of_int_def x(2) Let_def pos_imp_zdiv_nonneg_iff not_less)
qed

lemma bucket_start:
  assumes "0 \<le> n" "n \<le> 10 ^ 13" "timeframe \<in> {''1m'', ''5m'', ''30m'', ''1h'', ''1d''}"
  shows "ceriousChartBucketStart (num_of_int n) timeframe =
    num_of_int (n div ceriousChartBucketMs timeframe * ceriousChartBucketMs timeframe)"
proof (cases "timeframe = ''1d''")
  case True
  with day_start [OF assms(1,2)] show ?thesis by (simp add: ceriousChartBucketMs_def)
next
  case False
  with intraday_start [OF assms(1,2)] bucket_ms [OF False assms(3)] show ?thesis by (simp add: ceriousChartBucketStart_def)
qed

lemma epoch_start:
  assumes "0 \<le> n" "n \<le> 10 ^ 13" "timeframe \<in> {''1m'', ''5m'', ''30m'', ''1h'', ''1d''}"
  shows "epoch_ms (ceriousChartBucketStart (num_of_int n) timeframe)"
proof -
  let ?m = "ceriousChartBucketMs timeframe" let ?b = "n div ?m * ?m"
  have m: "0 < ?m" by (simp add: ceriousChartBucketMs_def)
  have "?b \<le> n" "0 \<le> ?b"
    using m assms(1) by (simp_all add: minus_mod_eq_div_mult [symmetric] pos_imp_zdiv_nonneg_iff zmod_le_nonneg_dividend)
  then have "?b \<le> 10 ^ 13" "0 \<le> ?b" using assms(2) by linarith+
  then have "(of_int ?b :: rat) \<le> of_int (10 ^ 13)" "0 \<le> (of_int ?b :: rat)" by (simp_all only: of_int_le_iff of_int_0_le_iff)
  then show ?thesis unfolding bucket_start [OF assms] by (simp add: num_of_int_def epoch_ms_def)
qed

lemma epoch_no_sign: "epoch_ms t \<Longrightarrow> drop_sign t = t"
  by (cases t) (auto simp: epoch_ms_def drop_sign_def)

lemma epoch_float: "epoch_ms t \<Longrightarrow> is_float t"
  using epoch_cases [of t] by (auto simp: is_float_def is_number_def num_of_int_def representable_int)

text \<open>A bucket holds the time it is made from: for every time of the clock until the year 2286 and
  every time frame, the bucket starts at that time or before and ends after it, rounding
  notwithstanding, and the start of a bucket is in the bucket.\<close>

theorem bucket_holds_time:
  assumes "epoch_ms t" and "timeframe \<in> {''1m'', ''5m'', ''30m'', ''1h'', ''1d''}"
  shows "val (ceriousChartBucketStart t timeframe) \<le> val t
    \<and> val t < val (ceriousChartBucketStart t timeframe) + of_int (ceriousChartBucketMs timeframe)
    \<and> epoch_ms (ceriousChartBucketStart t timeframe)
    \<and> ceriousChartBucketStart (ceriousChartBucketStart t timeframe) timeframe = ceriousChartBucketStart t timeframe"
proof -
  obtain n where n: "t = num_of_int n" "0 \<le> n" "n \<le> 10 ^ 13" using epoch_cases [OF assms(1)] by blast
  let ?m = "ceriousChartBucketMs timeframe" let ?b = "n div ?m * ?m"
  have m: "0 < ?m" by (simp add: ceriousChartBucketMs_def)
  have b: "?b \<le> n" "n < ?b + ?m" "0 \<le> ?b" "?b div ?m * ?m = ?b"
    using m n(2) by (simp_all add: minus_mod_eq_div_mult [symmetric] pos_imp_zdiv_nonneg_iff zmod_le_nonneg_dividend)
  have s: "ceriousChartBucketStart t timeframe = num_of_int ?b" using bucket_start [OF n(2,3) assms(2)] by (simp add: n(1))
  have "(of_int n :: rat) < of_int (?b + ?m)" using b(2) by (simp only: of_int_less_iff)
  moreover have "ceriousChartBucketStart (num_of_int ?b) timeframe = num_of_int ?b"
    using bucket_start [of ?b timeframe] b n(3) assms(2) by simp
  moreover have "(of_int ?b :: rat) \<le> of_int n" using b(1) by (simp only: of_int_le_iff)
  moreover have "epoch_ms (num_of_int ?b)" using epoch_start [OF n(2,3) assms(2)] by (simp add: s flip: n(1))
  ultimately show ?thesis unfolding s by (simp add: n(1) num_of_int_def)
qed

lemma bucket_holds_time_witness:
  "ceriousChartBucketStart (Fin 1700000123456) ''5m'' = Fin 1700000100000
   \<and> (1700000123456 :: rat) < 1700000100000 + of_int (ceriousChartBucketMs ''5m'')"
proof -
  have "epoch_ms (Fin 1700000123456)" by code_simp
  moreover have "ceriousChartBucketStart (Fin 1700000123456) ''5m'' = Fin 1700000100000" by code_simp
  ultimately show ?thesis using bucket_holds_time [of "Fin 1700000123456" "''5m''"] by simp
qed

subsection \<open>The bars of a time frame\<close>

interpretation bucketed: grouping "bucket_key timeframe" "open_bar timeframe" merge_bar "\<lambda>b :: bar. drop_sign (br_timestamp b)"
  for timeframe
  by unfold_locales (simp_all add: bucket_key_def open_bar_def merge_bar_def)

text \<open>A candle: finite prices, the open and the close between the low and the high.\<close>

definition candle :: "bar \<Rightarrow> bool" where
  "candle b \<longleftrightarrow> is_finite (br_open b) \<and> is_finite (br_high b) \<and> is_finite (br_low b) \<and> is_finite (br_close b)
     \<and> val (br_low b) \<le> val (br_open b) \<and> val (br_open b) \<le> val (br_high b)
     \<and> val (br_low b) \<le> val (br_close b) \<and> val (br_close b) \<le> val (br_high b)"

lemma candle_merge: "candle b \<Longrightarrow> candle row \<Longrightarrow> candle (merge_bar row b)"
  by (auto simp: candle_def merge_bar_def math_max_finite math_min_finite)

lemma candle_fold: "candle b \<Longrightarrow> \<forall>r\<in>set rs. candle r \<Longrightarrow> candle (fold merge_bar rs b)"
  by (induction rs arbitrary: b) (auto intro: candle_merge)

lemma merged_time: "br_timestamp (fold merge_bar rs b) = br_timestamp b"
  by (induction rs arbitrary: b) (simp_all add: merge_bar_def)

lemma distinct_sorted_strict:
  fixes bars :: "bar list"
  assumes "sorted_wrt (before_asc br_timestamp) bars" "distinct (map br_timestamp bars)"
    and "\<forall>b\<in>set bars. epoch_ms (br_timestamp b)"
  shows "sorted_wrt (\<lambda>a b. val (br_timestamp a) < val (br_timestamp b)) bars"
  using assms
proof (induction bars)
  case (Cons b bars)
  have "val (br_timestamp b) < val (br_timestamp c)" if c: "c \<in> set bars" for c
  proof -
    obtain n m where nm: "br_timestamp b = num_of_int n" "br_timestamp c = num_of_int m" "0 \<le> n" "n \<le> 10 ^ 13" "0 \<le> m" "m \<le> 10 ^ 13"
      using Cons.prems(3) c epoch_cases [of "br_timestamp b"] epoch_cases [of "br_timestamp c"] by auto
    have "is_double (num_of_int n)" "is_double (num_of_int m)"
      using nm by (simp_all add: is_double_def num_of_int_def representable_int)
    moreover have "before_asc br_timestamp b c" using Cons.prems(1) c by simp
    ultimately have "val (br_timestamp b) \<le> val (br_timestamp c)"
      using before_asc_double [of br_timestamp b c] nm by simp
    moreover have "br_timestamp b \<noteq> br_timestamp c" using Cons.prems(2) c by auto
    ultimately show ?thesis using nm by (simp add: num_of_int_def)
  qed
  with Cons show ?case by simp
qed simp

lemma bars_of_buckets_all:
  assumes "timeframe \<in> {''1m'', ''5m'', ''30m'', ''1h'', ''1d''}"
    and "\<forall>r\<in>set rows. finite_row r \<longrightarrow> epoch_ms (br_timestamp r) \<and> candle r"
    and "bars = ceriousChartSeriesBars rows timeframe"
  shows "sorted_wrt (\<lambda>a b. val (br_timestamp a) < val (br_timestamp b)) bars
    \<and> (\<forall>b\<in>set bars. candle b \<and> epoch_ms (br_timestamp b))
    \<and> by_key br_timestamp bars k =
        (case filter (\<lambda>r. finite_row r \<and> ceriousChartBucketStart (br_timestamp r) timeframe = k) rows of
           [] \<Rightarrow> None | r # rs \<Rightarrow> Some (fold merge_bar rs (open_bar timeframe r)))"
proof -
  obtain fs where fs: "fs = filter finite_row rows" by simp
  have m: "mset bars = mset (map snd (fold (gather (bucket_key timeframe) (open_bar timeframe) merge_bar) fs []))"
    by (simp add: assms(3) ceriousChartSeriesBars_def fs)
  have start: "epoch_ms (ceriousChartBucketStart (br_timestamp r) timeframe)" if "r \<in> set fs" for r
  proof -
    from that assms(2) obtain n where n: "br_timestamp r = num_of_int n" "0 \<le> n" "n \<le> 10 ^ 13"
      using epoch_cases [of "br_timestamp r"] by (auto simp: fs)
    from epoch_start [OF n(2,3) assms(1)] show ?thesis by (simp add: n(1))
  qed
  have keys: "bucket_key timeframe r = ceriousChartBucketStart (br_timestamp r) timeframe" if "r \<in> set fs" for r
    using epoch_no_sign [OF start [OF that]] by (simp add: bucket_key_def)
  have entry: "\<exists>r rs. r \<in> set fs \<and> set rs \<subseteq> set fs \<and> b = fold merge_bar rs (open_bar timeframe r)" if b: "b \<in> set bars" for b
  proof -
    have "by_key (\<lambda>b. drop_sign (br_timestamp b)) bars (drop_sign (br_timestamp b)) = Some b"
      using by_key_mem [OF bucketed.gathered_list(1) [OF m] b] by simp
    then obtain r rs where r: "filter (\<lambda>r. bucket_key timeframe r = drop_sign (br_timestamp b)) fs = r # rs"
      "b = fold merge_bar rs (open_bar timeframe r)"
      unfolding bucketed.gathered_list(2) [OF m] by (auto split: list.splits)
    have "set (r # rs) \<subseteq> set fs" unfolding r(1) [symmetric] by auto
    with r(2) show ?thesis by auto
  qed
  have ok: "candle b \<and> epoch_ms (br_timestamp b)" if b: "b \<in> set bars" for b
  proof -
    obtain r rs where r: "r \<in> set fs" "set rs \<subseteq> set fs" "b = fold merge_bar rs (open_bar timeframe r)" using entry [OF b] by blast
    have "\<forall>x\<in>set fs. candle x" using assms(2) by (simp add: fs)
    then have "candle (open_bar timeframe r)" "\<forall>x\<in>set rs. candle x" using r(1,2) by (auto simp: candle_def open_bar_def)
    moreover have "br_timestamp b = ceriousChartBucketStart (br_timestamp r) timeframe"
      by (simp add: r(3) merged_time open_bar_def)
    ultimately show ?thesis using start [OF r(1)] candle_fold by (simp add: r(3))
  qed
  have names: "map (\<lambda>b. drop_sign (br_timestamp b)) bars = map br_timestamp bars"
    "map (\<lambda>b. (drop_sign (br_timestamp b), b)) bars = map (\<lambda>b. (br_timestamp b, b)) bars"
    using ok epoch_no_sign by simp_all
  have "\<forall>b\<in>set bars. is_float (br_timestamp b)" using ok epoch_float by blast
  then have "\<forall>b\<in>set (map snd (fold (gather (bucket_key timeframe) (open_bar timeframe) merge_bar) (filter finite_row rows) [])).
      is_float (br_timestamp b)" unfolding mset_eq_setD [OF m] fs .
  then have "sorted_wrt (before_asc br_timestamp) bars"
    unfolding assms(3) ceriousChartSeriesBars_def by (rule asc.sorted_sort)
  moreover have "distinct (map br_timestamp bars)" using bucketed.gathered_list(1) [OF m] by (simp only: names)
  ultimately have "sorted_wrt (\<lambda>a b. val (br_timestamp a) < val (br_timestamp b)) bars"
    using ok by (intro distinct_sorted_strict) auto
  moreover have "filter (\<lambda>r. bucket_key timeframe r = k) fs =
      filter (\<lambda>r. finite_row r \<and> ceriousChartBucketStart (br_timestamp r) timeframe = k) rows"
    unfolding fs filter_filter by (rule filter_cong) (use keys in \<open>auto simp: fs\<close>)
  then have "by_key br_timestamp bars k =
        (case filter (\<lambda>r. finite_row r \<and> ceriousChartBucketStart (br_timestamp r) timeframe = k) rows of
           [] \<Rightarrow> None | r # rs \<Rightarrow> Some (fold merge_bar rs (open_bar timeframe r)))"
    using bucketed.gathered_list(2) [OF m, of k] by (simp only: by_key_def names)
  ultimately show ?thesis using ok by blast
qed

lemmas bars_of_buckets_lemma = bars_of_buckets_all [THEN conjunct1] bars_of_buckets_all [THEN conjunct2, THEN conjunct1]

text \<open>C26. The bars of a time frame: they stand in strictly increasing order of time, at most one per
  bucket; the bar of a bucket opens with the first finite row of the bucket and takes in every later
  one (high, low, close and volume), and there is one exactly when the bucket has a finite row; and
  when the rows are candles, so are the bars.\<close>

theorem bars_of_buckets:
  assumes "timeframe \<in> {''1m'', ''5m'', ''30m'', ''1h'', ''1d''}"
    and "\<forall>r\<in>set rows. finite_row r \<longrightarrow> epoch_ms (br_timestamp r) \<and> candle r"
    and "bars = ceriousChartSeriesBars rows timeframe"
  shows "sorted_wrt (\<lambda>a b. val (br_timestamp a) < val (br_timestamp b)) bars
    \<and> (\<forall>b\<in>set bars. candle b \<and> epoch_ms (br_timestamp b))
    \<and> by_key br_timestamp bars k =
        (case filter (\<lambda>r. finite_row r \<and> ceriousChartBucketStart (br_timestamp r) timeframe = k) rows of
           [] \<Rightarrow> None | r # rs \<Rightarrow> Some (fold merge_bar rs (open_bar timeframe r)))"
  by (rule bars_of_buckets_all [OF assms])

definition sample_minute :: "rat \<Rightarrow> rat \<Rightarrow> rat \<Rightarrow> bar" where
  "sample_minute t low high = \<lparr>br_timestamp = Fin t, br_open = Fin low, br_high = Fin high, br_low = Fin low,
     br_close = Fin high, br_volume = Fin 2\<rparr>"

lemma bars_of_buckets_witness:
  "ceriousChartSeriesBars [sample_minute 360000 7 9, sample_minute 60000 5 6, sample_minute 420000 4 8] ''5m'' =
     [sample_minute 0 5 6, (sample_minute 300000 7 9)\<lparr>br_low := Fin 4, br_close := Fin 8, br_volume := Fin 4\<rparr>]
   \<and> by_key br_timestamp (ceriousChartSeriesBars [sample_minute 360000 7 9, sample_minute 60000 5 6, sample_minute 420000 4 8] ''5m'')
       (Fin 300000) \<noteq> None"
proof -
  let ?rows = "[sample_minute 360000 7 9, sample_minute 60000 5 6, sample_minute 420000 4 8]"
  have rows: "\<forall>r\<in>set ?rows. finite_row r \<longrightarrow> epoch_ms (br_timestamp r) \<and> candle r" by code_simp
  have group: "filter (\<lambda>r. finite_row r \<and> ceriousChartBucketStart (br_timestamp r) ''5m'' = Fin 300000) ?rows
      = [sample_minute 360000 7 9, sample_minute 420000 4 8]" by code_simp
  have frame: "''5m'' \<in> {''1m'', ''5m'', ''30m'', ''1h'', ''1d''}" by simp
  have "by_key br_timestamp (ceriousChartSeriesBars ?rows ''5m'') (Fin 300000) \<noteq> None"
    unfolding conjunct2 [OF conjunct2 [OF bars_of_buckets [OF frame rows refl]]] group by simp
  moreover have "ceriousChartSeriesBars ?rows ''5m'' =
     [sample_minute 0 5 6, (sample_minute 300000 7 9)\<lparr>br_low := Fin 4, br_close := Fin 8, br_volume := Fin 4\<rparr>]" by code_simp
  ultimately show ?thesis by blast
qed

subsection \<open>The live bar\<close>

lemma finite_opt_finite: "finite_opt x = Some n \<Longrightarrow> is_finite n"
  by (auto simp: finite_opt_def finiteOptional_def Let_def split: if_splits)

lemma live_price_finite: "live_quote_of now book ticks = Some q \<Longrightarrow> is_finite (lq_price q)"
  by (auto simp: live_quote_of_def Let_def or_else_def dest!: finite_opt_finite split: if_splits option.splits)

lemma epoch_eq: "epoch_ms s \<Longrightarrow> epoch_ms t \<Longrightarrow> jeq s t = (val s = val t) \<and> (val s = val t) = (s = t)"
  by (cases s; cases t) (auto simp: epoch_ms_def jeq_def)

lemma live_candle:
  "is_finite p \<Longrightarrow> is_finite c \<Longrightarrow> candle \<lparr>br_timestamp = t, br_open = c, br_high = math_max c p, br_low = math_min c p,
     br_close = p, br_volume = v\<rparr>"
  "is_finite p \<Longrightarrow> candle b \<Longrightarrow> candle (b\<lparr>br_high := math_max (br_high b) p, br_low := math_min (br_low b) p,
     br_close := p, br_volume := v\<rparr>)"
  by (auto simp: candle_def math_max_finite math_min_finite)

text \<open>The live bar: with a live price the chart ends in a candle of the bucket of the live time that
  closes at that price, every bar but the last of the history is as it was, and a bar of that bucket
  keeps its open and only widens; the bars stay in order exactly when the live time is not before the
  last bar of the history (a late print puts its bar behind newer ones).\<close>

theorem live_bar_follows:
  assumes "timeframe \<in> {''1m'', ''5m'', ''30m'', ''1h'', ''1d''}"
    and "\<forall>r\<in>set rows. finite_row r \<longrightarrow> epoch_ms (br_timestamp r) \<and> candle r"
    and "live_quote_of now book ticks = Some q" and "epoch_ms (lq_timestamp q)"
    and "history = ceriousChartSeriesBars rows timeframe" and "history \<noteq> []"
    and "bars = ceriousChartWithLiveLast now rows timeframe book ticks"
  shows "bars \<noteq> [] \<and> br_close (last bars) = lq_price q \<and> candle (last bars)
    \<and> br_timestamp (last bars) = ceriousChartBucketStart (lq_timestamp q) timeframe
    \<and> take (length history - 1) bars = butlast history
    \<and> (sorted_wrt (\<lambda>a b. val (br_timestamp a) < val (br_timestamp b)) bars \<longleftrightarrow>
        val (br_timestamp (last history)) \<le> val (ceriousChartBucketStart (lq_timestamp q) timeframe))"
proof -
  obtain b where b: "b = ceriousChartBucketStart (lq_timestamp q) timeframe" by simp
  obtain n where n: "lq_timestamp q = num_of_int n" "0 \<le> n" "n \<le> 10 ^ 13" using epoch_cases [OF assms(4)] by blast
  have eb: "epoch_ms b" using epoch_start [OF n(2,3) assms(1)] by (simp add: b n(1))
  have p: "is_finite (lq_price q)" by (rule live_price_finite [OF assms(3)])
  obtain h l where hl: "history = h @ [l]" using assms(6) by (cases history rule: rev_cases) auto
  have sorted: "sorted_wrt (\<lambda>a b. val (br_timestamp a) < val (br_timestamp b)) (h @ [l])"
    and ok: "\<forall>x\<in>set (h @ [l]). candle x \<and> epoch_ms (br_timestamp x)"
    using bars_of_buckets_lemma [OF assms(1,2,5)] by (simp_all only: hl)
  then have el: "epoch_ms (br_timestamp l)" and cl: "candle l" by simp_all
  show ?thesis
  proof (cases "br_timestamp l = b")
    case True
    have bars: "bars = h @ [l\<lparr>br_high := math_max (br_high l) (lq_price q), br_low := math_min (br_low l) (lq_price q),
        br_close := lq_price q, br_volume := jadd (br_volume l) (lq_size q)\<rparr>]"
      using True epoch_eq [OF el eb] by (simp add: assms(3,7) ceriousChartWithLiveLast_def Let_def hl array_last_def
          flip: assms(5) b)
    have "sorted_wrt (\<lambda>a b. val (br_timestamp a) < val (br_timestamp b)) bars" using sorted by (simp add: bars sorted_wrt_append)
    with live_candle(2) [OF p cl] True show ?thesis by (simp add: bars hl b)
  next
    case False
    then have ne: "val (br_timestamp l) \<noteq> val b" "\<not> jeq (br_timestamp l) b" using epoch_eq [OF el eb] by simp_all
    have bars: "bars = h @ [l, \<lparr>br_timestamp = b, br_open = br_close l, br_high = math_max (br_close l) (lq_price q),
        br_low = math_min (br_close l) (lq_price q), br_close = lq_price q, br_volume = lq_size q\<rparr>]"
      using ne by (simp add: assms(3,7) ceriousChartWithLiveLast_def Let_def hl array_last_def flip: assms(5) b)
    have "sorted_wrt (\<lambda>a b. val (br_timestamp a) < val (br_timestamp b)) bars \<longleftrightarrow> val (br_timestamp l) < val b"
      using sorted by (auto simp: bars sorted_wrt_append)
    moreover have "is_finite (br_close l)" using cl by (simp add: candle_def)
    ultimately show ?thesis using live_candle(1) [OF p] ne(1) by (simp add: bars hl b less_le)
  qed
qed

definition late_print :: poly_trade_tick where
  "late_print = \<lparr>pt_timestamp = Fin 120500, pt_marketKey = ''ES'', pt_price = Fin 8, pt_size = Fin 1, pt_side = ''yes'', pt_rest = []\<rparr>"

lemma live_bar_follows_witness:
  "(let bars = ceriousChartWithLiveLast (Fin 400000) [sample_minute 60000 5 6, sample_minute 360000 7 9] ''1m'' None [late_print]
    in br_close (last bars) = Fin 8 \<and> \<not> sorted_wrt (\<lambda>a b. val (br_timestamp a) < val (br_timestamp b)) bars)"
proof -
  let ?rows = "[sample_minute 60000 5 6, sample_minute 360000 7 9]"
  have frame: "''1m'' \<in> {''1m'', ''5m'', ''30m'', ''1h'', ''1d''}" by simp
  have rows: "\<forall>r\<in>set ?rows. finite_row r \<longrightarrow> epoch_ms (br_timestamp r) \<and> candle r" by code_simp
  have quote: "live_quote_of (Fin 400000) None [late_print] = Some \<lparr>lq_price = Fin 8, lq_timestamp = Fin 120500, lq_size = Fin 1\<rparr>"
    by code_simp
  have hist: "[sample_minute 60000 5 6, sample_minute 360000 7 9] = ceriousChartSeriesBars ?rows ''1m''" by code_simp
  have time: "epoch_ms (lq_timestamp \<lparr>lq_price = Fin 8, lq_timestamp = Fin 120500, lq_size = Fin 1\<rparr>)" by code_simp
  have late: "\<not> val (br_timestamp (last ?rows)) \<le> val (ceriousChartBucketStart (lq_timestamp
      \<lparr>lq_price = Fin 8, lq_timestamp = Fin 120500, lq_size = Fin 1\<rparr>) ''1m'')" by code_simp
  from live_bar_follows [OF frame rows quote time hist _ refl] late show ?thesis unfolding Let_def by simp
qed

subsection \<open>Points of a series\<close>

text \<open>A point as the charts make them: its time is a whole number of seconds.\<close>

definition plotted :: "jobj \<Rightarrow> bool" where
  "plotted p \<longleftrightarrow> (case oget p ''time'' of Num n \<Rightarrow> epoch_ms n \<and> val n \<le> 10 ^ 10 | _ \<Rightarrow> False)"

definition time_of :: "jobj \<Rightarrow> jsnum" where
  "time_of p = to_num (oget p ''time'')"

interpretation series_list: keyed_list time_of "sort_js (before_asc time_of)"
  by unfold_locales simp

lemma dict_set_same: "map_of d k = Some v \<Longrightarrow> dict_set k v d = d"
  by (induction k v d rule: dict_set.induct) (auto split: if_splits)

lemma plotted_time: "plotted p \<Longrightarrow> \<exists>n. map_of p ''time'' = Some (Num (num_of_int n)) \<and> time_of p = num_of_int n \<and> 0 \<le> n \<and> n \<le> 10 ^ 10"
proof -
  assume p: "plotted p"
  then obtain t where t: "oget p ''time'' = Num t" "epoch_ms t" "val t \<le> 10 ^ 10" by (auto simp: plotted_def split: jsv.splits)
  obtain n where n: "t = num_of_int n" "0 \<le> n" using epoch_cases [OF t(2)] by blast
  have "map_of p ''time'' = Some (Num t)" using t(1) by (auto simp: oget_def split: option.splits)
  moreover have "n \<le> 10 ^ 10" using t(3) by (simp add: n(1) num_of_int_def)
  ultimately show ?thesis using t(1) n by (auto simp: time_of_def)
qed

lemma plotted_point: "plotted p \<Longrightarrow> timed_point dp p = (if ceriousChartPointIsFinite p then Some (time_of p, p) else None)"
proof -
  assume "plotted p"
  then obtain n where n: "map_of p ''time'' = Some (Num (num_of_int n))" "time_of p = num_of_int n" "0 \<le> n" "n \<le> 10 ^ 10"
    using plotted_time by blast
  have "(of_int n :: rat) \<le> of_int (10 ^ 10)" using n(4) by (simp only: of_int_le_iff)
  then have "number_seconds (num_of_int n) = Some (num_of_int n)" by (simp add: number_seconds_def num_of_int_def jlt_def)
  then show ?thesis
    using n(1,2) dict_set_same [OF n(1)] by (simp add: timed_point_def ceriousChartTimeSeconds.simps oget_def)
qed

lemma plotted_key: "plotted p \<Longrightarrow> drop_sign (time_of p) = time_of p \<and> is_float (time_of p) \<and> is_double (time_of p)"
  using plotted_time [of p]
  by (auto simp: num_of_int_def drop_sign_def is_float_def is_number_def is_double_def representable_int)

lemma dict_set_map: "dict_set k (f v) (map (apsnd f) d) = map (apsnd f) (dict_set k v d)"
  by (induction k v d rule: dict_set.induct) auto

lemma latest_by_pairs: "map snd (latest_by (\<lambda>e. key (fst e)) (map (\<lambda>p. (t p, p)) xs)) = latest_by (\<lambda>p. key (t p)) xs"
proof -
  have "fold (\<lambda>x. dict_set (key (fst x)) x) (map (\<lambda>p. (t p, p)) xs) (map (apsnd (\<lambda>p. (t p, p))) d) =
      map (apsnd (\<lambda>p. (t p, p))) (fold (\<lambda>p. dict_set (key (t p)) p) xs d)" for d
    by (induction xs arbitrary: d) (simp_all add: dict_set_map [where f = "\<lambda>p. (t p, p)"])
  from this [of "[]"] show ?thesis by (simp add: latest_by_def comp_def)
qed

lemma latest_by_cong: "(\<And>x. x \<in> set xs \<Longrightarrow> f x = g x) \<Longrightarrow> latest_by f xs = latest_by g xs"
  unfolding latest_by_def by (rule arg_cong [of _ _ "map snd"], rule fold_cong) auto

lemma normalized_series:
  assumes "\<forall>p\<in>set points. plotted p"
  shows "ceriousNormalizeChartSeries dp points =
    sort_js (before_asc time_of) (latest_by time_of (filter ceriousChartPointIsFinite points))"
proof -
  have "List.map_filter (timed_point dp) points = map (\<lambda>p. (time_of p, p)) (filter ceriousChartPointIsFinite points)"
    using assms plotted_point by (induction points) (auto simp: List.map_filter_simps)
  moreover have "latest_by (\<lambda>p. drop_sign (time_of p)) (filter ceriousChartPointIsFinite points) =
      latest_by time_of (filter ceriousChartPointIsFinite points)"
    using assms plotted_key by (intro latest_by_cong) auto
  moreover have "ceriousNormalizeChartSeries dp points = sort_js (before_asc time_of)
      (map snd (latest_by (\<lambda>e. drop_sign (fst e)) (List.map_filter (timed_point dp) points)))"
    by (simp only: ceriousNormalizeChartSeries_def time_of_def [abs_def])
  ultimately show ?thesis by (simp add: latest_by_pairs)
qed

lemma series_members: "set (sort_js (before_asc time_of) (latest_by time_of (filter ceriousChartPointIsFinite points)))
    \<subseteq> {p \<in> set points. ceriousChartPointIsFinite p}"
  using latest_by_subset [of time_of "filter ceriousChartPointIsFinite points"] by auto

text \<open>A series as it is plotted: its points are finite points that were given, their times strictly
  increase, the point of a time is the last finite one given for it, and plotting what was plotted
  changes nothing.\<close>

theorem series_plotted_once:
  assumes "\<forall>p\<in>set points. plotted p" and "series = ceriousNormalizeChartSeries dp points"
  shows "sorted_wrt (\<lambda>p q. val (time_of p) < val (time_of q)) series
    \<and> (\<forall>p\<in>set series. p \<in> set points \<and> ceriousChartPointIsFinite p)
    \<and> by_key time_of series = by_key time_of (rev (filter ceriousChartPointIsFinite points))
    \<and> ceriousNormalizeChartSeries dp series = series"
proof -
  let ?K = "latest_by time_of (filter ceriousChartPointIsFinite points)"
  have series: "series = sort_js (before_asc time_of) ?K" using normalized_series [OF assms(1)] assms(2) by simp
  have mem: "\<forall>p\<in>set series. p \<in> set points \<and> ceriousChartPointIsFinite p"
    using series_members [of points] by (auto simp: series)
  have dist: "distinct (map time_of series)" by (simp add: series)
  have "\<forall>p\<in>set series. is_float (time_of p)" using mem assms(1) plotted_key by blast
  then have "\<forall>p\<in>set ?K. is_float (time_of p)" unfolding series by simp
  then have sorted: "sorted_wrt (before_asc time_of) series" unfolding series by (rule asc.sorted_sort)
  have strict: "sorted_wrt (\<lambda>p q. val (time_of p) < val (time_of q)) series"
    using sorted dist mem
  proof (induction series)
    case (Cons p ps)
    have "val (time_of p) < val (time_of q)" if q: "q \<in> set ps" for q
    proof -
      have pl: "plotted p" "plotted q" using Cons.prems(3) assms(1) q by auto
      have "val (time_of p) \<le> val (time_of q)"
        using before_asc_double [of time_of p q] plotted_key [OF pl(1)] plotted_key [OF pl(2)] Cons.prems(1) q by simp
      moreover have "time_of p \<noteq> time_of q" using Cons.prems(2) q by auto
      then have "val (time_of p) \<noteq> val (time_of q)" using plotted_time [OF pl(1)] plotted_time [OF pl(2)] by (auto simp: num_of_int_def)
      ultimately show ?thesis by simp
    qed
    with Cons show ?case by simp
  qed simp
  have "by_key time_of series = by_key time_of ?K" unfolding series by (rule series_list.arrange_map) simp
  then have keys: "by_key time_of series = by_key time_of (rev (filter ceriousChartPointIsFinite points))"
    by (simp only: latest_by_map)
  have "\<forall>p\<in>set series. plotted p" using mem assms(1) by blast
  moreover have "filter ceriousChartPointIsFinite series = series" using mem by (simp add: filter_id_conv)
  ultimately have "ceriousNormalizeChartSeries dp series = series"
    using normalized_series [of series dp] latest_by_id [OF dist] sort_js_id [OF sorted] by simp
  with strict mem keys show ?thesis by blast
qed

definition sample_points :: "jobj list" where
  "sample_points = [[(''time'', Num (Fin 120)), (''value'', Num (Fin 7))], [(''time'', Num (Fin 60)), (''value'', Num (Fin 5))],
     [(''time'', Num (Fin 180)), (''value'', Num NaN)], [(''value'', Num (Fin 8)), (''time'', Num (Fin 120))]]"

lemma series_plotted_once_witness:
  "ceriousNormalizeChartSeries (\<lambda>s. NaN) sample_points =
     [[(''time'', Num (Fin 60)), (''value'', Num (Fin 5))], [(''value'', Num (Fin 8)), (''time'', Num (Fin 120))]]
   \<and> ceriousNormalizeChartSeries (\<lambda>s. NaN) (ceriousNormalizeChartSeries (\<lambda>s. NaN) sample_points)
       = ceriousNormalizeChartSeries (\<lambda>s. NaN) sample_points"
proof -
  have p: "\<forall>p\<in>set sample_points. plotted p" by code_simp
  have "ceriousNormalizeChartSeries (\<lambda>s. NaN) sample_points =
     [[(''time'', Num (Fin 60)), (''value'', Num (Fin 5))], [(''value'', Num (Fin 8)), (''time'', Num (Fin 120))]]"
    unfolding normalized_series [OF p] by code_simp
  moreover have "ceriousNormalizeChartSeries (\<lambda>s. NaN) (ceriousNormalizeChartSeries (\<lambda>s. NaN) sample_points)
       = ceriousNormalizeChartSeries (\<lambda>s. NaN) sample_points"
    using series_plotted_once [OF p refl, of "\<lambda>s. NaN"] by blast
  ultimately show ?thesis by blast
qed

end
