(* ===== verification/MarketFeed.thy ===== *)
theory MarketFeed
  imports Execution MarketDisplay
begin

text \<open>
  Market data in \<open>apps/terminal/src/components/WorkspaceCanvas.tsx\<close>: the texts of quotes, statistics of
  bars and probabilities, books and prints of the exchange in the form the store keeps, the export of
  rows as comma-separated text, the subscriptions of a list of symbols, and the stream behind a depth
  ladder. Answers of the network, frames and timers are events. Main results: exported text reads back;
  each symbol is subscribed once; the stream of a ladder keeps its bounds, holds only its own symbol,
  and stays as it is once its window is closed.
\<close>

subsection \<open>Texts\<close>

datatype quote_mode = MoneyQuote | CentsQuote | PriceQuote

text \<open>A number that is there and is not \<open>NaN\<close>, or the text of none.\<close>

definition shown_number :: "(jsnum \<Rightarrow> string) \<Rightarrow> jsnum option \<Rightarrow> string" where
  "shown_number text n = (case n of None \<Rightarrow> ''-'' | Some x \<Rightarrow> if x = NaN then ''-'' else text x)"

definition plus_sign :: "jsnum \<Rightarrow> string \<Rightarrow> string" where
  "plus_sign n otherwise = (if jge n (Fin 0) then ''+'' else otherwise)"

definition fmtSignedPct :: "jsnum option \<Rightarrow> string" where
  "fmtSignedPct = shown_number (\<lambda>n. plus_sign n [] @ to_fixed 2 n @ ''%'')"

definition fmtCents :: "jsnum option \<Rightarrow> string" where
  "fmtCents = shown_number (\<lambda>n. to_fixed (if jge n (Fin 10) then 1 else 2) n @ ''c'')"

definition fmtCompact :: "jsnum option \<Rightarrow> string" where
  "fmtCompact = shown_number (\<lambda>n.
     if jge (math_abs n) (Fin 1000000) then to_fixed 1 (jdiv n (Fin 1000000)) @ ''M''
     else if jge (math_abs n) (Fin 1000) then to_fixed 1 (jdiv n (Fin 1000)) @ ''K''
     else to_fixed 0 n)"

text \<open>The currency text of a number is a parameter.\<close>

definition fmtQuote :: "(jsnum \<Rightarrow> string) \<Rightarrow> jsnum option \<Rightarrow> quote_mode \<Rightarrow> string" where
  "fmtQuote currency n mode = shown_number (\<lambda>x. case mode of
     PriceQuote \<Rightarrow> formatMarketPrice x None
   | MoneyQuote \<Rightarrow> fmtMoney currency (Num x)
   | CentsQuote \<Rightarrow> fmtCents (Some x)) n"

definition fmtSignedQuote :: "(jsnum \<Rightarrow> string) \<Rightarrow> jsnum option \<Rightarrow> quote_mode \<Rightarrow> string" where
  "fmtSignedQuote currency n mode = shown_number (\<lambda>x. case mode of
     PriceQuote \<Rightarrow> plus_sign x [] @ formatMarketPrice x None
   | MoneyQuote \<Rightarrow> plus_sign x ''-'' @ fmtMoney currency (Num (math_abs x))
   | CentsQuote \<Rightarrow> plus_sign x ''-'' @ fmtCents (Some (math_abs x))) n"

text \<open>The remainder \<open>a % b\<close> has the sign of \<open>a\<close>. The minutes left until an expiry.\<close>

definition jrem :: "jsnum \<Rightarrow> jsnum \<Rightarrow> jsnum" where
  "jrem a b =
     (if \<not> is_finite a \<or> b = NaN \<or> jeq b (Fin 0) then NaN
      else if \<not> is_finite b then a
      else let q = val a / val b; r = val a - val b * of_int (if 0 \<le> q then \<lfloor>q\<rfloor> else \<lceil>q\<rceil>) in
        if r = 0 then zero_of (neg_sign a) else Fin r)"

definition fmtTimeLeft :: "jsnum \<Rightarrow> jsnum option \<Rightarrow> string" where
  "fmtTimeLeft now expiry = (case expiry of None \<Rightarrow> ''-''
     | Some e \<Rightarrow> if \<not> num_truthy e then ''-''
       else (let ms = jsub e now; mins = math_floor (jdiv ms (Fin 60000)) in
         if jle ms (Fin 0) then ''expired''
         else if jlt mins (Fin 60) then num_text mins @ ''m''
         else num_text (math_floor (jdiv mins (Fin 60))) @ ''h '' @ num_text (jrem mins (Fin 60)) @ ''m''))"

subsection \<open>Statistics\<close>

record series_stats =
  sx_open :: jsnum
  sx_high :: jsnum
  sx_low :: jsnum
  sx_previousClose :: "jsnum option"
  sx_last :: jsnum
  sx_volume :: jsnum
  sx_timestamp :: jsnum

definition barStats :: "bar list \<Rightarrow> series_stats option" where
  "barStats bars = (if bars = [] then None else Some
     \<lparr>sx_open = br_open (hd bars), sx_high = math_max_list (map br_high bars), sx_low = math_min_list (map br_low bars),
      sx_previousClose = map_option br_close (array_last (butlast bars)), sx_last = br_close (last bars),
      sx_volume = sum_of br_volume bars, sx_timestamp = br_timestamp (last bars)\<rparr>)"

definition probabilityStats :: "prob_point list \<Rightarrow> series_stats option" where
  "probabilityStats points = (if points = [] then None else Some
     \<lparr>sx_open = pp_up_pct (hd points), sx_high = math_max_list (map pp_up_pct points),
      sx_low = math_min_list (map pp_up_pct points),
      sx_previousClose = map_option pp_up_pct (array_last (butlast points)), sx_last = pp_up_pct (last points),
      sx_volume = num_of_int (int (length points)), sx_timestamp = pp_ts (last points)\<rparr>)"

definition latestTradeForMarket :: "poly_trade_tick list \<Rightarrow> poly_trade_tick list \<Rightarrow> poly_trade_tick option" where
  "latestTradeForMarket ticks fills = array_last (sort_js (before_asc pt_timestamp) (ticks @ fills))"

definition yesPriceFromTrade :: "poly_trade_tick option \<Rightarrow> jsnum option" where
  "yesPriceFromTrade = map_option (\<lambda>t. if pt_side t = ''yes'' then pt_price t else jsub (Fin 100) (pt_price t))"

definition sumTradeNotional :: "poly_trade_tick list \<Rightarrow> jsnum" where
  "sumTradeNotional ticks = sum_of (\<lambda>t. jmul (jdiv (pt_price t) (Fin 100)) (pt_size t)) ticks"

definition sumTradeContracts :: "poly_trade_tick list \<Rightarrow> jsnum" where
  "sumTradeContracts ticks = sum_of pt_size ticks"

subsection \<open>Comma-separated text\<close>

definition quote_doubled :: "string \<Rightarrow> string" where
  "quote_doubled text = concat (map (\<lambda>c. if c = CHR 34 then [CHR 34, CHR 34] else [c]) text)"

definition csv_special :: "char \<Rightarrow> bool" where
  "csv_special c \<longleftrightarrow> c \<in> {CHR 34, CHR '','', CHR 10, CHR 13}"

definition csv_text :: "jsv \<Rightarrow> string" where
  "csv_text value = (if nullish value then [] else to_str value)"

definition csvEscape :: "jsv \<Rightarrow> string" where
  "csvEscape value =
     (let text = csv_text value in
      if list_ex csv_special text then CHR 34 # quote_doubled text @ [CHR 34] else text)"

text \<open>The text of the file: its lines are the headers and the rows.\<close>

definition exportCsv :: "string list \<Rightarrow> jobj list \<Rightarrow> string" where
  "exportCsv headers rows =
     join_with [CHR 10] (join_with '','' (map (csvEscape \<circ> Str) headers)
       # map (\<lambda>row. join_with '','' (map (\<lambda>header. csvEscape (oget row header)) headers)) rows)"

subsection \<open>Books and prints of the exchange\<close>

definition compat_level :: "order_book_level \<Rightarrow> poly_book_level" where
  "compat_level l = \<lparr>pl_price = ol_price l, pl_size = ol_size l, pl_count = or_else (ol_count l) (ol_ct l), pl_ct = None\<rparr>"

definition cmeBookToPolyCompat :: "jsnum \<Rightarrow> cme_book \<Rightarrow> poly_book" where
  "cmeBookToPolyCompat now b =
     (let mark = or_else (cb_ltp b) (cb_mid b); stamp = get_or (cb_tsMs b) now;
          first = (\<lambda>levels. map_option ol_price (find (\<lambda>l. True) levels)) in
      \<lparr>pb_market_key = cb_symbol b, pb_question = cb_symbol b @ '' CME depth'', pb_up_token_id = cb_symbol b,
       pb_bids = map compat_level (cb_bids b), pb_asks = map compat_level (cb_asks b),
       pb_best_bid = or_else (cb_bestBid b) (first (cb_bids b)), pb_best_ask = or_else (cb_bestAsk b) (first (cb_asks b)),
       pb_mid = get_or (cb_mid b) (Fin 0), pb_spread_pct = cb_spread b,
       pb_up_pct = get_or mark (Fin 0), pb_down_pct = get_or mark (Fin 0), pb_ltp = mark, pb_ltp_size = cb_ltpSize b,
       pb_sessionOpen = cb_sessionOpen b, pb_sessionHigh = cb_sessionHigh b, pb_sessionLow = cb_sessionLow b,
       pb_sessionReference = cb_sessionReference b, pb_sessionLast = cb_sessionLast b, pb_netChange = cb_netChange b,
       pb_netChangePct = cb_netChangePct b, pb_sessionStartMs = cb_sessionStartMs b, pb_sessionStatsMs = cb_sessionStatsMs b,
       pb_marketStatus = cb_marketStatus b, pb_marketStatusDetail = cb_marketStatusDetail b,
       pb_expiry_ts = jadd stamp (Fin 86400000), pb_live = True, pb_timestamp_ms = stamp, pb_seen_ms = Some stamp,
       pb_final_minute_mode = None, pb_final_minute_hold = None, pb_book_has_real_two_sided = None\<rparr>)"

definition cmeTradeToPolyCompat :: "cme_trade_tick \<Rightarrow> poly_trade_tick" where
  "cmeTradeToPolyCompat t =
     \<lparr>pt_timestamp = ct_timestamp t, pt_marketKey = ct_symbol t, pt_price = ct_price t, pt_size = ct_size t,
      pt_side = ''yes'', pt_rest = [(''displaySide'', opt_str (map_option to_upper (ct_side t))),
        (''marketSide'', opt_str (ct_side t))]\<rparr>"

subsection \<open>Subscriptions of a list of symbols\<close>

text \<open>Of neighbours that are alike in a sorted list the first is kept.\<close>

definition runs_once :: "string list \<Rightarrow> string list" where
  "runs_once xs = map ((!) xs) (filter (\<lambda>i. i = 0 \<or> xs ! i \<noteq> xs ! (i - 1)) [0..<length xs])"

text \<open>The symbols as given may be absent; the key joins them sorted, each once.\<close>

definition feed_key :: "jsv list \<Rightarrow> string" where
  "feed_key symbols = join_with ''|'' (runs_once (sort_js text_le (filter (\<lambda>s. s \<noteq> [])
     (map (\<lambda>symbol. to_upper (trim (to_str (js_or symbol (Str []))))) symbols))))"

definition feed_targets :: "string \<Rightarrow> string list" where
  "feed_targets symbolKey = (if symbolKey = [] then [] else split_on (CHR ''|'') symbolKey)"

definition feed_book :: "jsnum \<Rightarrow> bool \<Rightarrow> string \<Rightarrow> cme_book \<Rightarrow> terminal_state \<Rightarrow> terminal_state" where
  "feed_book now alive target b s =
     (if \<not> alive \<or> to_upper (cb_symbol b) \<noteq> target then s else setPolyBook target (cmeBookToPolyCompat now b) s)"

definition feed_trade :: "bool \<Rightarrow> string \<Rightarrow> cme_trade_tick \<Rightarrow> terminal_state \<Rightarrow> terminal_state" where
  "feed_trade alive target t s =
     (if \<not> alive \<or> to_upper (ct_symbol t) \<noteq> target then s else pushPolyTick target (cmeTradeToPolyCompat t) s)"

text \<open>The answers of the two requests of a target; \<open>None\<close> is a payload without a book or a list.\<close>

definition feed_book_answer ::
    "jsnum \<Rightarrow> bool \<Rightarrow> string \<Rightarrow> cme_book option service_answer \<Rightarrow> terminal_state \<Rightarrow> terminal_state" where
  "feed_book_answer now alive target a s = (case a of
     ServiceAnswer True status (Some b) \<Rightarrow> feed_book now alive target b s | _ \<Rightarrow> s)"

definition feed_trades_answer ::
    "bool \<Rightarrow> string \<Rightarrow> cme_trade_tick list option service_answer \<Rightarrow> terminal_state \<Rightarrow> terminal_state" where
  "feed_trades_answer alive target a s = (case a of
     ServiceAnswer True status (Some ts) \<Rightarrow> if \<not> alive then s else fold (feed_trade alive target) (slice_last 20 ts) s
   | _ \<Rightarrow> s)"

text \<open>A frame of the socket: a snapshot with its books and prints of the exchange, or a message.\<close>

record feed_snapshot =
  fs_cme_books :: "cme_book dict"
  fs_cme_trades :: "cme_trade_tick list dict"
  fs_store :: snapshot

datatype feed_frame = FeedSnapshot feed_snapshot | FeedMessage ws_msg

definition feed_frame_step ::
    "jsnum \<Rightarrow> bool \<Rightarrow> string \<Rightarrow> feed_frame option \<Rightarrow> terminal_state \<Rightarrow> terminal_state" where
  "feed_frame_step now alive target frame s = (case frame of
     None \<Rightarrow> s
   | Some (FeedSnapshot d) \<Rightarrow>
       fold (feed_trade alive target) (get_or (dict_get (fs_cme_trades d) target) [])
         (case dict_get (fs_cme_books d) target of None \<Rightarrow> s | Some b \<Rightarrow> feed_book now alive target b s)
   | Some (FeedMessage m) \<Rightarrow> (case m of
       CmeBookMsg symbol b \<Rightarrow> if symbol = target then feed_book now alive target b s else s
     | CmeTradeMsg symbol t \<Rightarrow> if symbol = target then feed_trade alive target t s else s
     | MarketsMsg ms \<Rightarrow> setMarkets ms True s
     | _ \<Rightarrow> s))"

subsection \<open>Exported text reads back\<close>

text \<open>What a reader of comma-separated text does: a field starts, goes on plain or between quotes, and a
  quote in quotes is doubled.\<close>

datatype csv_mode = FieldStart | PlainField | QuotedField | QuoteSeen

fun csv_read :: "csv_mode \<Rightarrow> string \<Rightarrow> string list \<Rightarrow> string \<Rightarrow> string list list" where
  "csv_read m f row [] = [row @ [f]]"
| "csv_read m f row (c # cs) =
     (if m = QuotedField then
        (if c = CHR 34 then csv_read QuoteSeen f row cs else csv_read QuotedField (f @ [c]) row cs)
      else if c = CHR 34 \<and> m = FieldStart then csv_read QuotedField f row cs
      else if c = CHR 34 \<and> m = QuoteSeen then csv_read QuotedField (f @ [c]) row cs
      else if c = CHR '','' then csv_read FieldStart [] (row @ [f]) cs
      else if c = CHR 10 then (row @ [f]) # csv_read FieldStart [] [] cs
      else csv_read PlainField (f @ [c]) row cs)"

lemma csv_read_quoted:
  "csv_read QuotedField f row (quote_doubled cs @ CHR 34 # rest) = csv_read QuoteSeen (f @ cs) row rest"
  by (induction cs arbitrary: f) (auto simp: quote_doubled_def)

lemma csv_read_plain:
  "\<not> list_ex csv_special cs \<Longrightarrow> m \<in> {FieldStart, PlainField} \<Longrightarrow>
     csv_read m f row (cs @ rest) = csv_read (if cs = [] then m else PlainField) (f @ cs) row rest"
  by (induction cs arbitrary: f m) (auto simp: csv_special_def)

definition field_end :: "string \<Rightarrow> bool" where
  "field_end rest \<longleftrightarrow> rest = [] \<or> hd rest \<in> {CHR '','', CHR 10}"

lemma csv_read_end: "field_end rest \<Longrightarrow> m \<noteq> QuotedField \<Longrightarrow> csv_read m f row rest = csv_read PlainField f row rest"
  by (cases rest) (auto simp: field_end_def)

lemma csv_read_field:
  "field_end rest \<Longrightarrow> csv_read FieldStart [] row (csvEscape v @ rest) = csv_read PlainField (csv_text v) row rest"
  using csv_read_quoted [of "[]" row "csv_text v" rest] csv_read_plain [of "csv_text v" FieldStart "[]" row rest]
    csv_read_end [of rest QuoteSeen "csv_text v" row] csv_read_end [of rest FieldStart "[]" row]
  by (simp add: csvEscape_def Let_def)

lemma csv_read_row:
  assumes "vs \<noteq> []" and "rest = [] \<or> hd rest = CHR 10"
  shows "csv_read FieldStart [] row (join_with '','' (map csvEscape vs) @ rest) =
    csv_read PlainField (csv_text (last vs)) (row @ map csv_text (butlast vs)) rest"
  using assms
proof (induction vs arbitrary: row rule: list_nonempty_induct)
  case (single v)
  then show ?case using csv_read_field [of rest row v] by (auto simp: field_end_def)
next
  case (cons v vs)
  obtain w ws where vs: "vs = w # ws" using cons.hyps by (cases vs) auto
  have "csv_read FieldStart [] row (join_with '','' (map csvEscape (v # vs)) @ rest) =
      csv_read FieldStart [] (row @ [csv_text v]) (join_with '','' (map csvEscape vs) @ rest)"
    using csv_read_field [of "'','' @ join_with '','' (map csvEscape vs) @ rest" row v]
    by (simp add: vs field_end_def)
  then show ?case using cons.IH [of "row @ [csv_text v]"] cons.prems cons.hyps by simp
qed

lemma map_split_last: "vs \<noteq> [] \<Longrightarrow> map f (butlast vs) @ [f (last vs)] = map f vs"
  by (metis append_butlast_last_id list.simps(8,9) map_append)

lemma csv_read_lines:
  assumes "\<forall>vs\<in>set lines. vs \<noteq> []" and "lines \<noteq> []"
  shows "csv_read FieldStart [] [] (join_with [CHR 10] (map (\<lambda>vs. join_with '','' (map csvEscape vs)) lines)) =
    map (map csv_text) lines"
  using assms(2,1)
proof (induction lines rule: list_nonempty_induct)
  case (single vs)
  then show ?case using csv_read_row [of vs "[]" "[]"] map_split_last [of vs csv_text] by simp
next
  case (cons vs lines)
  obtain w ws where lines: "lines = w # ws" using cons.hyps by (cases lines) auto
  have "map csv_text (butlast vs) @ [csv_text (last vs)] = map csv_text vs"
    using cons.prems by (intro map_split_last) simp
  then show ?case
    using cons csv_read_row [of vs "CHR 10 # join_with [CHR 10] (map (\<lambda>vs. join_with '','' (map csvEscape vs)) lines)" "[]"]
    by (simp add: lines)
qed

text \<open>C24. Exported rows read back: a reader of comma-separated text gets the headers and, row by row, the
  text of every exported value, whatever commas, quotes and line ends the values hold.\<close>

theorem export_reads_back:
  assumes "headers \<noteq> []"
  shows "csv_read FieldStart [] [] (exportCsv headers rows) =
    headers # map (\<lambda>row. map (\<lambda>header. csv_text (oget row header)) headers) rows"
proof -
  have "exportCsv headers rows = join_with [CHR 10] (map (\<lambda>vs. join_with '','' (map csvEscape vs))
      (map Str headers # map (\<lambda>row. map (oget row) headers) rows))"
    by (simp add: exportCsv_def comp_def)
  moreover have "map csv_text (map Str headers) = headers" by (simp add: csv_text_def comp_def)
  ultimately show ?thesis
    using csv_read_lines [of "map Str headers # map (\<lambda>row. map (oget row) headers) rows"] assms
    by (auto simp: comp_def)
qed

lemma export_reads_back_witness:
  "exportCsv [''side'', ''note''] [[(''note'', Str [CHR ''a'', CHR 34, CHR '','', CHR 10]), (''side'', Str ''BUY'')], []] =
     ''side,note'' @ [CHR 10] @ ''BUY,'' @ [CHR 34, CHR ''a'', CHR 34, CHR 34, CHR '','', CHR 10, CHR 34, CHR 10] @ '',''
   \<and> csv_read FieldStart [] [] (exportCsv [''side'', ''note'']
       [[(''note'', Str [CHR ''a'', CHR 34, CHR '','', CHR 10]), (''side'', Str ''BUY'')], []]) =
     [[''side'', ''note''], [''BUY'', [CHR ''a'', CHR 34, CHR '','', CHR 10]], [[], []]]"
  using export_reads_back [of "[''side'', ''note'']"
      "[[(''note'', Str [CHR ''a'', CHR 34, CHR '','', CHR 10]), (''side'', Str ''BUY'')], []]"]
  by (simp add: exportCsv_def csvEscape_def csv_text_def csv_special_def quote_doubled_def nullish_def oget_def)

subsection \<open>The subscriptions\<close>

lemma sorted_texts_nth: "sorted_wrt text_le xs \<Longrightarrow> i \<le> j \<Longrightarrow> j < length xs \<Longrightarrow> text_le (xs ! i) (xs ! j)"
  using text_le_total [of "xs ! j" "xs ! j"] by (cases "i = j") (auto simp: sorted_wrt_iff_nth_less)

lemma runs_once_set: "set (runs_once xs) = set xs"
proof
  show "set xs \<subseteq> set (runs_once xs)"
  proof
    fix x assume "x \<in> set xs"
    then obtain i where i: "i < length xs" "xs ! i = x" by (auto simp: in_set_conv_nth)
    obtain k where k: "xs ! k = x" "k < length xs" "\<forall>j<k. xs ! j \<noteq> x"
      using i exists_least_iff [of "\<lambda>k. k < length xs \<and> xs ! k = x"] by (metis (lifting) order.strict_trans)
    then have "k = 0 \<or> xs ! k \<noteq> xs ! (k - 1)" by (cases k) auto
    with k show "x \<in> set (runs_once xs)" by (auto simp: runs_once_def)
  qed
qed (auto simp: runs_once_def)

lemma runs_once_distinct:
  assumes "sorted_wrt text_le xs"
  shows "distinct (runs_once xs)"
proof -
  have "i = j" if "xs ! i = xs ! j" "j < length xs" "i \<le> j" "j = 0 \<or> xs ! j \<noteq> xs ! (j - 1)" for i j
  proof (rule ccontr)
    assume "i \<noteq> j"
    with that have j: "i \<le> j - 1" "j - 1 \<le> j" "j \<noteq> 0" by auto
    then have "text_le (xs ! i) (xs ! (j - 1))" using sorted_texts_nth [OF assms, of i "j - 1"] that(2) by linarith
    moreover have "text_le (xs ! (j - 1)) (xs ! j)" using sorted_texts_nth [OF assms j(2) that(2)] .
    ultimately have "xs ! j = xs ! (j - 1)" using that text_le_antisym by metis
    with that j show False by blast
  qed
  note once = this
  have "inj_on ((!) xs) {i. i < length xs \<and> (i = 0 \<or> xs ! i \<noteq> xs ! (i - 1))}"
  proof (rule inj_onI, elim CollectE conjE)
    fix i j
    assume "xs ! i = xs ! j" "i < length xs" "j < length xs"
      "i = 0 \<or> xs ! i \<noteq> xs ! (i - 1)" "j = 0 \<or> xs ! j \<noteq> xs ! (j - 1)"
    then show "i = j" using once [of i j] once [OF sym, of i j] nat_le_linear [of i j] by blast
  qed
  then show ?thesis by (simp add: runs_once_def distinct_map)
qed

lemma sorted_runs_once: "sorted_wrt text_le xs \<Longrightarrow> sorted_wrt text_le (runs_once xs)"
  unfolding runs_once_def sorted_wrt_map
  by (rule sorted_wrt_mono_rel [OF _ sorted_wrt_filter [OF sorted_wrt_upt]])
    (auto intro: sorted_texts_nth)

lemma split_on_fresh: "d \<notin> set x \<Longrightarrow> split_on d x = [x]"
  by (induction x) auto

lemma split_on_first: "d \<notin> set x \<Longrightarrow> split_on d (x @ d # rest) = x # split_on d rest"
  by (induction x) auto

lemma split_join: "xs \<noteq> [] \<Longrightarrow> \<forall>x\<in>set xs. d \<notin> set x \<Longrightarrow> split_on d (join_with [d] xs) = xs"
proof (induction xs rule: list_nonempty_induct)
  case (single x)
  then show ?case by (simp add: split_on_fresh)
next
  case (cons x xs)
  then show ?case by (cases xs) (simp_all add: split_on_first)
qed

text \<open>The subscriptions of a list of symbols: every symbol that is there, trimmed and in capitals, is
  subscribed once, in the order of the texts, whatever repetitions the list holds.\<close>

theorem feed_targets_once:
  assumes "\<forall>symbol\<in>set symbols. CHR ''|'' \<notin> set (to_upper (trim (to_str (js_or symbol (Str [])))))"
    and "targets = feed_targets (feed_key symbols)"
  shows "distinct targets \<and> sorted_wrt text_le targets
    \<and> set targets = {t. t \<noteq> [] \<and> (\<exists>symbol\<in>set symbols. t = to_upper (trim (to_str (js_or symbol (Str [])))))}"
proof -
  obtain list where list: "list = sort_js text_le (filter (\<lambda>s. s \<noteq> [])
      (map (\<lambda>symbol. to_upper (trim (to_str (js_or symbol (Str []))))) symbols))" by blast
  have key: "feed_key symbols = join_with ''|'' (runs_once list)"
    by (simp add: feed_key_def list)
  have srt: "sorted_wrt text_le list" by (simp add: list sorted_texts)
  have members: "set (runs_once list) = {t. t \<noteq> [] \<and> (\<exists>symbol\<in>set symbols. t = to_upper (trim (to_str (js_or symbol (Str [])))))}"
    by (auto simp: runs_once_set list)
  have "targets = runs_once list"
  proof (cases "runs_once list")
    case (Cons x xs)
    then have "join_with ''|'' (runs_once list) \<noteq> []" using members by (cases xs) auto
    then show ?thesis
      using assms members Cons split_join [of "runs_once list" "CHR ''|''"] by (auto simp: feed_targets_def key)
  qed (simp add: assms feed_targets_def key)
  then show ?thesis using runs_once_distinct [OF srt] members sorted_runs_once [OF srt] by simp
qed

lemma feed_targets_once_witness:
  "feed_targets (feed_key [Str ''nq '', Undefined, Str ''ES'', Str ''NQ'']) = [''ES'', ''NQ'']
   \<and> distinct (feed_targets (feed_key [Str ''nq '', Undefined, Str ''ES'', Str ''NQ'']))"
proof -
  have "feed_targets (feed_key [Str ''nq '', Undefined, Str ''ES'', Str ''NQ'']) = [''ES'', ''NQ'']" by code_simp
  moreover have "\<forall>symbol\<in>set [Str ''nq '', Undefined, Str ''ES'', Str ''NQ''].
      CHR ''|'' \<notin> set (to_upper (trim (to_str (js_or symbol (Str [])))))" by code_simp
  ultimately show ?thesis using feed_targets_once by blast
qed

subsection \<open>Prints that arrive twice\<close>

lemma same_print_sym: "same_print a b \<longleftrightarrow> same_print b a"
  by (auto simp: same_print_def jeq_sym)

text \<open>A list of prints without the same print twice in a row, and a tape that ends in another one.\<close>

lemma tape_takes_all:
  assumes "list_all (\<lambda>t. to_upper (ct_symbol t) = target) ts"
    and "list_all (\<lambda>(a, b). \<not> same_print (cmeTradeToPolyCompat a) (cmeTradeToPolyCompat b)) (zip ts (tl ts))"
    and "tape = [] \<or> ts = [] \<or> \<not> same_print (last tape) (cmeTradeToPolyCompat (hd ts))"
    and "length tape + length ts \<le> 200" and "get_or (dict_get (ts_polyTicks s) target) [] = tape"
  shows "get_or (dict_get (ts_polyTicks (fold (feed_trade True target) ts s)) target) [] = tape @ map cmeTradeToPolyCompat ts"
  using assms
proof (induction ts arbitrary: tape s)
  case (Cons t ts)
  have step: "get_or (dict_get (ts_polyTicks (feed_trade True target t s)) target) [] = tape @ [cmeTradeToPolyCompat t]"
    using Cons.prems by (auto simp: feed_trade_def pushPolyTick_def Let_def dict_get_set get_or_def array_last_def slice_last_def
        split: option.splits)
  have "get_or (dict_get (ts_polyTicks (fold (feed_trade True target) ts (feed_trade True target t s))) target) [] =
      (tape @ [cmeTradeToPolyCompat t]) @ map cmeTradeToPolyCompat ts"
    by (rule Cons.IH) (use Cons.prems step in \<open>cases ts; simp\<close>)+
  then show ?case by simp
qed simp

text \<open>The same answer of the exchange taken in twice, as two windows on one symbol do, leaves every print
  of it twice on the tape: a print is only compared with the last one of the tape.\<close>

theorem answer_twice_on_tape:
  assumes "list_all (\<lambda>t. to_upper (ct_symbol t) = target) ts"
    and "list_all (\<lambda>(a, b). \<not> same_print (cmeTradeToPolyCompat a) (cmeTradeToPolyCompat b)) (zip ts (tl ts))"
    and "ts \<noteq> [] \<and> \<not> same_print (cmeTradeToPolyCompat (last ts)) (cmeTradeToPolyCompat (hd ts))" and "length ts \<le> 20"
    and "dict_get (ts_polyTicks s) target = None"
  shows "dict_get (ts_polyTicks (feed_trades_answer True target (ServiceAnswer True status (Some ts))
      (feed_trades_answer True target (ServiceAnswer True status (Some ts)) s))) target =
    Some (map cmeTradeToPolyCompat ts @ map cmeTradeToPolyCompat ts)"
proof -
  have answer: "feed_trades_answer True target (ServiceAnswer True status (Some ts)) = fold (feed_trade True target) ts"
    using assms(4) by (simp add: feed_trades_answer_def fun_eq_iff slice_last_id)
  have once: "get_or (dict_get (ts_polyTicks (fold (feed_trade True target) ts s)) target) [] = map cmeTradeToPolyCompat ts"
    using tape_takes_all [OF assms(1,2), of "[]" s] assms(4,5) by (simp add: get_or_def)
  have "get_or (dict_get (ts_polyTicks (fold (feed_trade True target) ts (fold (feed_trade True target) ts s))) target) [] =
      map cmeTradeToPolyCompat ts @ map cmeTradeToPolyCompat ts"
    by (rule tape_takes_all [OF assms(1,2)]) (use assms once in \<open>auto simp: last_map\<close>)
  then show ?thesis using assms(3) by (auto simp: answer get_or_def split: option.splits)
qed

definition sample_print :: "rat \<Rightarrow> cme_trade_tick" where
  "sample_print t = \<lparr>ct_symbol = ''ES'', ct_venue = ''cme'', ct_source = None, ct_timestamp = Fin t, ct_price = Fin 5000,
     ct_size = Fin 1, ct_volume = None, ct_side = Some ''buy'', ct_bestBid = None, ct_bestAsk = None, ct_tickSize = None,
     ct_tickValue = None\<rparr>"

lemma answer_twice_on_tape_witness:
  "map pt_timestamp (get_or (dict_get (ts_polyTicks (feed_trades_answer True ''ES'' (ServiceAnswer True (Fin 200) (Some [sample_print 1, sample_print 2]))
      (feed_trades_answer True ''ES'' (ServiceAnswer True (Fin 200) (Some [sample_print 1, sample_print 2])) initial_state))) ''ES'') []) =
    [Fin 1, Fin 2, Fin 1, Fin 2]"
  using answer_twice_on_tape [of "''ES''" "[sample_print 1, sample_print 2]" initial_state "Fin 200"]
  by (simp add: sample_print_def to_upper_def upper_char_def same_print_def cmeTradeToPolyCompat_def jeq_def
      initial_state_def get_or_def)

end
