(* ===== verification/DepthStream.thy ===== *)
theory DepthStream
  imports MarketFeed
begin

text \<open>
  The stream behind a depth ladder (\<open>useDepthMarketStream\<close> in
  \<open>apps/terminal/src/components/WorkspaceCanvas.tsx\<close>): a socket with its retries and requests that are
  repeated, whose answers and frames come in any order. A step takes the window's stream and the store
  and gives both back. There is one endpoint, so the index of the endpoint stays zero. The effect runs
  again whenever the asset or the provider changes; what the window holds stays, and what earlier runs
  had asked for may still arrive. Main results: every run keeps the bounds, takes in only what belongs to
  the symbol that is shown, and after the window is closed the stream stays as it is; a new symbol is
  shown with the book of the old one until its own arrives; an answer that comes late replaces a newer
  book in the window.
\<close>

subsection \<open>State\<close>

datatype stream_status = StreamIdle | StreamConnecting | StreamLive | StreamRetrying

record depth_stream =
  dm_alive :: bool
  dm_status :: stream_status
  dm_lastEventAt :: jsnum
  dm_source :: string
  dm_book :: "cme_book option"
  dm_trades :: "cme_trade_tick list"
  dm_retry :: bool
  dm_opened :: "string list"

definition idle_stream :: depth_stream where
  "idle_stream = \<lparr>dm_alive = False, dm_status = StreamIdle, dm_lastEventAt = Fin 0, dm_source = [], dm_book = None,
     dm_trades = [], dm_retry = False, dm_opened = []\<rparr>"

definition depth_target :: "string \<Rightarrow> string" where
  "depth_target asset = to_upper asset"

subsection \<open>Steps\<close>

definition depth_ingest_book ::
    "jsnum \<Rightarrow> string \<Rightarrow> string \<Rightarrow> cme_book \<Rightarrow> depth_stream \<times> terminal_state \<Rightarrow> depth_stream \<times> terminal_state" where
  "depth_ingest_book now target source b = (\<lambda>(d, s).
     if \<not> dm_alive d \<or> to_upper (cb_symbol b) \<noteq> target then (d, s)
     else (d\<lparr>dm_book := Some b, dm_status := StreamLive, dm_lastEventAt := now, dm_source := source\<rparr>,
           setPolyBook target (cmeBookToPolyCompat now b) s))"

definition depth_accept_trade ::
    "jsnum \<Rightarrow> string \<Rightarrow> string \<Rightarrow> cme_trade_tick \<Rightarrow> depth_stream \<times> terminal_state \<Rightarrow> depth_stream \<times> terminal_state" where
  "depth_accept_trade now target source t = (\<lambda>(d, s).
     if \<not> dm_alive d \<or> to_upper (ct_symbol t) \<noteq> target then (d, s)
     else (d\<lparr>dm_trades := slice_last 199 (dm_trades d) @ [t], dm_status := StreamLive, dm_lastEventAt := now,
             dm_source := source\<rparr>,
           pushPolyTick target (cmeTradeToPolyCompat t) s))"

text \<open>The answers of the two requests; the request of the book is repeated every second.\<close>

definition depth_book_answer ::
    "jsnum \<Rightarrow> string \<Rightarrow> cme_book option service_answer \<Rightarrow> depth_stream \<times> terminal_state \<Rightarrow> depth_stream \<times> terminal_state" where
  "depth_book_answer now target a ds = (case a of
     ServiceAnswer True status (Some b) \<Rightarrow> depth_ingest_book now target ''rest'' b ds | _ \<Rightarrow> ds)"

definition depth_trades_answer ::
    "jsnum \<Rightarrow> string \<Rightarrow> cme_trade_tick list option service_answer \<Rightarrow> depth_stream \<times> terminal_state \<Rightarrow> depth_stream \<times> terminal_state" where
  "depth_trades_answer now target a ds = (case a of
     ServiceAnswer True status (Some ts) \<Rightarrow>
       if \<not> dm_alive (fst ds) then ds else fold (depth_accept_trade now target ''rest'') (slice_last 50 ts) ds
   | _ \<Rightarrow> ds)"

definition depth_snapshot ::
    "jsnum \<Rightarrow> string \<Rightarrow> feed_snapshot \<Rightarrow> depth_stream \<times> terminal_state \<Rightarrow> depth_stream \<times> terminal_state" where
  "depth_snapshot now target data = (\<lambda>(d, s).
     fold (depth_accept_trade now target ''snapshot'') (get_or (dict_get (fs_cme_trades data) target) [])
       (let ds = (d, loadSnapshot target (fs_store data) s) in
        case dict_get (fs_cme_books data) target of None \<Rightarrow> ds | Some b \<Rightarrow> depth_ingest_book now target ''snapshot'' b ds))"

text \<open>A message of the stream; one that makes an action of the store throw is dropped.\<close>

definition depth_message ::
    "jsnum \<Rightarrow> string \<Rightarrow> ws_msg \<Rightarrow> depth_stream \<times> terminal_state \<Rightarrow> depth_stream \<times> terminal_state" where
  "depth_message now target m = (\<lambda>(d, s). case m of
     BookMsg asset b \<Rightarrow> (d, if asset = target then setBook asset b s else s)
   | TickMsg asset t \<Rightarrow> (d, if asset = target then (case pushTick asset t s of Inl e \<Rightarrow> s | Inr s' \<Rightarrow> s') else s)
   | CmeBookMsg symbol b \<Rightarrow> if symbol = target then depth_ingest_book now target ''ws'' b (d, s) else (d, s)
   | CmeTradeMsg symbol t \<Rightarrow> if symbol = target then depth_accept_trade now target ''ws'' t (d, s) else (d, s)
   | MarketsMsg ms \<Rightarrow> (d, setMarkets ms True s)
   | _ \<Rightarrow> (d, s))"

definition depth_frame ::
    "jsnum \<Rightarrow> string \<Rightarrow> feed_frame option \<Rightarrow> depth_stream \<times> terminal_state \<Rightarrow> depth_stream \<times> terminal_state" where
  "depth_frame now target frame ds = (case frame of
     None \<Rightarrow> ds
   | Some (FeedSnapshot data) \<Rightarrow> depth_snapshot now target data ds
   | Some (FeedMessage m) \<Rightarrow> depth_message now target m ds)"

text \<open>The socket: opening it, its events, and the timer of a retry.\<close>

definition depth_url :: "(string \<Rightarrow> string) \<Rightarrow> string \<Rightarrow> string \<Rightarrow> string \<Rightarrow> string \<Rightarrow> string" where
  "depth_url encode base target provider token =
     base @ ''/'' @ encode target @ ''?provider='' @ encode provider
       @ (if token = [] then [] else ''&token='' @ encode token)"

definition depth_connect :: "string \<Rightarrow> depth_stream \<Rightarrow> depth_stream" where
  "depth_connect url d = (if \<not> dm_alive d then d
     else d\<lparr>dm_status := (if num_truthy (dm_lastEventAt d) then StreamRetrying else StreamConnecting),
            dm_opened := url # dm_opened d\<rparr>)"

definition depth_open :: "depth_stream \<Rightarrow> depth_stream" where
  "depth_open d = (if \<not> dm_alive d then d else d\<lparr>dm_status := StreamLive\<rparr>)"

definition depth_close :: "depth_stream \<Rightarrow> depth_stream" where
  "depth_close d = (if \<not> dm_alive d then d else d\<lparr>dm_status := StreamRetrying, dm_retry := True\<rparr>)"

definition depth_retry :: "string \<Rightarrow> depth_stream \<Rightarrow> depth_stream" where
  "depth_retry url d = (if dm_retry d then depth_connect url (d\<lparr>dm_retry := False\<rparr>) else d)"

text \<open>The effect ends: its timers are cleared and it is not alive any more.\<close>

definition depth_cleanup :: "depth_stream \<Rightarrow> depth_stream" where
  "depth_cleanup d = d\<lparr>dm_alive := False, dm_retry := False\<rparr>"

text \<open>What can happen to the requests and the socket of one effect.\<close>

datatype depth_event =
    BookAnswer jsnum "cme_book option service_answer"
  | TradesAnswer jsnum "cme_trade_tick list option service_answer"
  | StreamFrame jsnum "feed_frame option"
  | StreamOpens
  | StreamCloses
  | RetryFires

fun depth_step :: "string \<Rightarrow> string \<Rightarrow> depth_event \<Rightarrow> depth_stream \<times> terminal_state \<Rightarrow> depth_stream \<times> terminal_state" where
  "depth_step url target (BookAnswer now a) ds = depth_book_answer now target a ds"
| "depth_step url target (TradesAnswer now a) ds = depth_trades_answer now target a ds"
| "depth_step url target (StreamFrame now f) ds = depth_frame now target f ds"
| "depth_step url target StreamOpens (d, s) = (depth_open d, s)"
| "depth_step url target StreamCloses (d, s) = (depth_close d, s)"
| "depth_step url target RetryFires (d, s) = (depth_retry url d, s)"

text \<open>The start of an effect: what the window holds stays, and with the socket enabled it is opened at once.\<close>

definition depth_start :: "bool \<Rightarrow> string \<Rightarrow> depth_stream \<Rightarrow> depth_stream" where
  "depth_start enabled url d = (let d1 = d\<lparr>dm_alive := True, dm_retry := False\<rparr> in
     if enabled then depth_connect url d1 else d1)"

text \<open>
  The window: its state, and the effects that ran in it, the newest first. Whenever the asset or the
  provider changes the effect is cleaned up and run again; without an asset the run only sets the timer
  that clears the state. What an earlier effect had asked for still arrives, finds it not alive, and
  reaches only the store.
\<close>

record depth_window =
  dw_stream :: depth_stream
  dw_effects :: "(string \<times> string) option list"
  dw_clearing :: bool
  dw_mounted :: bool

definition idle_window :: depth_window where
  "idle_window = \<lparr>dw_stream = idle_stream, dw_effects = [], dw_clearing = False, dw_mounted = True\<rparr>"

definition depth_shows :: "bool \<Rightarrow> string \<Rightarrow> string \<Rightarrow> depth_window \<Rightarrow> depth_window" where
  "depth_shows enabled asset url w = (let d = depth_cleanup (dw_stream w) in
     if \<not> dw_mounted w then w
     else if asset = [] then w\<lparr>dw_stream := d, dw_effects := None # dw_effects w, dw_clearing := True\<rparr>
     else w\<lparr>dw_stream := depth_start enabled url d, dw_effects := Some (depth_target asset, url) # dw_effects w,
            dw_clearing := False\<rparr>)"

definition depth_cleared :: "depth_stream \<Rightarrow> depth_stream" where
  "depth_cleared d = d\<lparr>dm_status := StreamIdle, dm_lastEventAt := Fin 0, dm_source := [], dm_book := None, dm_trades := []\<rparr>"

definition effect_of :: "depth_window \<Rightarrow> nat \<Rightarrow> (string \<times> string) option" where
  "effect_of w k = (if k < length (dw_effects w) then dw_effects w ! k else None)"

definition depth_arrives ::
    "nat \<Rightarrow> depth_event \<Rightarrow> depth_window \<times> terminal_state \<Rightarrow> depth_window \<times> terminal_state" where
  "depth_arrives k e = (\<lambda>(w, s). case effect_of w k of
     Some (target, url) \<Rightarrow>
       if k = 0 then (let (d, s') = depth_step url target e (dw_stream w, s) in (w\<lparr>dw_stream := d\<rparr>, s'))
       else (w, snd (depth_step url target e (depth_cleanup (dw_stream w), s)))
   | None \<Rightarrow> (w, s))"

datatype depth_window_event =
    ShowsAsset string string
  | Arrives nat depth_event
  | ClearFires
  | WindowCloses

fun depth_window_step ::
    "bool \<Rightarrow> depth_window_event \<Rightarrow> depth_window \<times> terminal_state \<Rightarrow> depth_window \<times> terminal_state" where
  "depth_window_step enabled (ShowsAsset asset url) (w, s) = (depth_shows enabled asset url w, s)"
| "depth_window_step enabled (Arrives k e) ws = depth_arrives k e ws"
| "depth_window_step enabled ClearFires (w, s) =
     (if dw_clearing w then w\<lparr>dw_stream := depth_cleared (dw_stream w), dw_clearing := False\<rparr> else w, s)"
| "depth_window_step enabled WindowCloses (w, s) =
     (w\<lparr>dw_stream := depth_cleanup (dw_stream w), dw_clearing := False, dw_mounted := False\<rparr>, s)"

definition depth_run :: "string \<Rightarrow> string \<Rightarrow> depth_event list \<Rightarrow> depth_stream \<times> terminal_state \<Rightarrow> depth_stream \<times> terminal_state" where
  "depth_run url target events = fold (depth_step url target) events"

definition depth_window_run ::
    "bool \<Rightarrow> depth_window_event list \<Rightarrow> depth_window \<times> terminal_state \<Rightarrow> depth_window \<times> terminal_state" where
  "depth_window_run enabled events = fold (depth_window_step enabled) events"

lemma depth_window_run_append:
  "depth_window_run enabled (xs @ ys) ws = depth_window_run enabled ys (depth_window_run enabled xs ws)"
  by (simp add: depth_window_run_def)

subsection \<open>What every run keeps\<close>

definition stream_bounds :: "depth_stream \<Rightarrow> bool" where
  "stream_bounds d \<longleftrightarrow> length (dm_trades d) \<le> 200
     \<and> (dm_source d \<noteq> [] \<longrightarrow> dm_source d \<in> {''ws'', ''snapshot'', ''rest''})
     \<and> ((dm_book d \<noteq> None \<or> dm_trades d \<noteq> []) \<longrightarrow> dm_source d \<noteq> [])
     \<and> (dm_retry d \<longrightarrow> dm_alive d)"

text \<open>The stream holds what it held before, less its oldest prints, and else only what is of the symbol.\<close>

definition grown_by :: "string \<Rightarrow> depth_stream \<Rightarrow> depth_stream \<Rightarrow> bool" where
  "grown_by target d0 d \<longleftrightarrow>
     (dm_book d = dm_book d0 \<or> (\<exists>b. dm_book d = Some b \<and> to_upper (cb_symbol b) = target))
     \<and> (\<exists>n new. dm_trades d = drop n (dm_trades d0) @ new \<and> (\<forall>t\<in>set new. to_upper (ct_symbol t) = target))"

lemma grown_by_same: "dm_book d = dm_book d0 \<Longrightarrow> dm_trades d = dm_trades d0 \<Longrightarrow> grown_by target d0 d"
  unfolding grown_by_def by (metis append_Nil2 drop0 empty_iff empty_set)

lemma grown_by_trans:
  assumes "grown_by target d0 d1" and "grown_by target d1 d2"
  shows "grown_by target d0 d2"
proof -
  obtain n new where one: "dm_trades d1 = drop n (dm_trades d0) @ new" "\<forall>t\<in>set new. to_upper (ct_symbol t) = target"
    using assms(1) unfolding grown_by_def by blast
  obtain m newer where two: "dm_trades d2 = drop m (dm_trades d1) @ newer" "\<forall>t\<in>set newer. to_upper (ct_symbol t) = target"
    using assms(2) unfolding grown_by_def by blast
  define kept where "kept = drop (m - length (drop n (dm_trades d0))) new"
  have "dm_trades d2 = drop (m + n) (dm_trades d0) @ (kept @ newer)"
    by (simp add: one two kept_def)
  moreover have "\<forall>t\<in>set (kept @ newer). to_upper (ct_symbol t) = target"
    using one(2) two(2) set_drop_subset [of "m - length (drop n (dm_trades d0))" new] by (auto simp: kept_def)
  ultimately show ?thesis using assms unfolding grown_by_def by metis
qed

definition stream_steps :: "string \<Rightarrow> depth_stream \<Rightarrow> depth_stream \<Rightarrow> bool" where
  "stream_steps target d0 d \<longleftrightarrow> (stream_bounds d0 \<longrightarrow> stream_bounds d) \<and> grown_by target d0 d
     \<and> (\<not> dm_alive d0 \<and> \<not> dm_retry d0 \<longrightarrow> d = d0)"

lemma stream_steps_refl [simp]: "stream_steps target d d"
  by (simp add: stream_steps_def grown_by_same)

lemma stream_steps_trans: "stream_steps target d0 d1 \<Longrightarrow> stream_steps target d1 d2 \<Longrightarrow> stream_steps target d0 d2"
  unfolding stream_steps_def using grown_by_trans by blast

lemma ingest_book_steps:
  "source \<in> {''ws'', ''snapshot'', ''rest''} \<Longrightarrow>
     stream_steps target (fst ds) (fst (depth_ingest_book now target source b ds))"
  by (cases ds) (auto simp: depth_ingest_book_def stream_steps_def stream_bounds_def grown_by_def
      intro: exI [of _ 0])

lemma accept_trade_steps:
  assumes "source \<in> {''ws'', ''snapshot'', ''rest''}"
  shows "stream_steps target (fst ds) (fst (depth_accept_trade now target source t ds))"
proof -
  obtain d s where ds: "ds = (d, s)" by (cases ds)
  show ?thesis
  proof (cases "\<not> dm_alive d \<or> to_upper (ct_symbol t) \<noteq> target")
    case False
    have "grown_by target d (fst (depth_accept_trade now target source t ds))"
      using False unfolding grown_by_def ds
      by (auto simp: depth_accept_trade_def slice_last_def intro!: exI [of _ "length (dm_trades d) - 199"] exI [of _ "[t]"])
    then show ?thesis using False assms
      by (auto simp: ds depth_accept_trade_def stream_steps_def stream_bounds_def length_slice_last)
  qed (simp add: ds depth_accept_trade_def)
qed

lemma accept_trades_steps:
  assumes "source \<in> {''ws'', ''snapshot'', ''rest''}"
  shows "stream_steps target (fst ds) (fst (fold (depth_accept_trade now target source) ts ds))"
proof (induction ts arbitrary: ds)
  case (Cons t ts)
  show ?case using stream_steps_trans [OF accept_trade_steps [OF assms] Cons.IH] by simp
qed simp

lemma snapshot_steps: "stream_steps target (fst ds) (fst (depth_snapshot now target data ds))"
proof -
  obtain d s where ds: "ds = (d, s)" by (cases ds)
  define ds1 where "ds1 = (let ds = (d, loadSnapshot target (fs_store data) s) in
     case dict_get (fs_cme_books data) target of None \<Rightarrow> ds | Some b \<Rightarrow> depth_ingest_book now target ''snapshot'' b ds)"
  have "stream_steps target d (fst ds1)"
    using ingest_book_steps [of "''snapshot''" target "(d, loadSnapshot target (fs_store data) s)" now]
    by (simp add: ds1_def Let_def split: option.splits)
  then show ?thesis
    using stream_steps_trans accept_trades_steps [of "''snapshot''" target ds1 now]
    by (simp add: depth_snapshot_def ds flip: ds1_def)
qed

lemma depth_step_steps: "stream_steps target (fst ds) (fst (depth_step url target e ds))"
proof -
  obtain d s where ds: "ds = (d, s)" by (cases ds)
  note other = stream_steps_def stream_bounds_def grown_by_same
  show ?thesis
  proof (cases e)
    case (BookAnswer now a)
    then show ?thesis
      by (auto simp: depth_book_answer_def ingest_book_steps split: service_answer.splits bool.splits option.splits)
  next
    case (TradesAnswer now a)
    then show ?thesis
      by (auto simp: depth_trades_answer_def accept_trades_steps split: service_answer.splits bool.splits option.splits)
  next
    case (StreamFrame now f)
    then show ?thesis
      using snapshot_steps [of target "(d, s)" now]
        ingest_book_steps [of "''ws''" target "(d, s)" now] accept_trade_steps [of "''ws''" target "(d, s)" now]
      by (simp add: ds depth_frame_def depth_message_def split: option.splits feed_frame.splits ws_msg.splits)
  qed (auto simp: ds other depth_open_def depth_close_def depth_retry_def depth_connect_def)
qed

subsection \<open>The window\<close>

definition window_ok :: "depth_window \<Rightarrow> bool" where
  "window_ok w \<longleftrightarrow> stream_bounds (dw_stream w)
     \<and> (effect_of w 0 = None \<or> \<not> dw_mounted w \<longrightarrow> \<not> dm_alive (dw_stream w) \<and> \<not> dm_retry (dw_stream w))
     \<and> (dw_clearing w \<longrightarrow> dw_mounted w \<and> effect_of w 0 = None)"

lemma arrives_keeps [simp]:
  "dw_effects (fst (depth_arrives k e (w, s))) = dw_effects w"
  "dw_clearing (fst (depth_arrives k e (w, s))) = dw_clearing w"
  "dw_mounted (fst (depth_arrives k e (w, s))) = dw_mounted w"
  "effect_of (fst (depth_arrives k e (w, s))) j = effect_of w j"
  by (auto simp: depth_arrives_def effect_of_def split: prod.splits option.splits)

lemma arrives_own:
  "stream_steps (fst (the (effect_of w 0))) (dw_stream w) (dw_stream (fst (depth_arrives k e (w, s))))"
  using depth_step_steps [of "fst (the (effect_of w 0))" "(dw_stream w, s)" "snd (the (effect_of w 0))" e]
  by (cases "k = 0") (auto simp: depth_arrives_def split: prod.splits option.splits)

lemma window_step_ok:
  assumes "window_ok w"
  shows "window_ok (fst (depth_window_step enabled e (w, s)))"
proof (cases e)
  case (Arrives k a)
  then show ?thesis using assms arrives_own [of w k a s]
    by (auto simp: window_ok_def stream_steps_def)
qed (use assms in \<open>auto simp: window_ok_def depth_shows_def effect_of_def depth_start_def depth_connect_def
       depth_cleanup_def depth_cleared_def stream_bounds_def Let_def\<close>)

lemma window_run_ok: "window_ok (fst ws) \<Longrightarrow> window_ok (fst (depth_window_run enabled events ws))"
proof (induction events arbitrary: ws)
  case (Cons e events)
  have "window_ok (fst (depth_window_step enabled e ws))"
    using window_step_ok [OF Cons.prems, of enabled e "snd ws"] by simp
  then show ?case using Cons.IH by (simp add: depth_window_run_def)
qed (simp add: depth_window_run_def)

lemma idle_window_ok [simp]: "window_ok idle_window"
  by (simp add: window_ok_def idle_window_def idle_stream_def stream_bounds_def effect_of_def)

lemma arrivals_own:
  "stream_steps (fst (the (effect_of w 0))) (dw_stream w)
     (dw_stream (fst (depth_window_run enabled (map (\<lambda>(k, e). Arrives k e) arrivals) (w, s))))"
proof (induction arrivals arbitrary: w s)
  case (Cons a arrivals)
  obtain k e where a: "a = (k, e)" by (cases a)
  obtain w1 s1 where one: "depth_arrives k e (w, s) = (w1, s1)" by (cases "depth_arrives k e (w, s)")
  show ?case
    using stream_steps_trans [OF arrives_own [of w k e s]] Cons.IH [of w1 s1] arrives_keeps [of k e w s]
    by (simp add: a one depth_window_run_def)
qed (simp add: depth_window_run_def)

lemma closed_window_stays:
  "window_ok w \<Longrightarrow> \<not> dw_mounted w \<Longrightarrow> dw_stream (fst (depth_window_run enabled later (w, s))) = dw_stream w"
proof (induction later arbitrary: w s)
  case (Cons e later)
  obtain w1 s1 where one: "depth_window_step enabled e (w, s) = (w1, s1)" by (cases "depth_window_step enabled e (w, s)")
  have "dw_stream w1 = dw_stream w \<and> \<not> dw_mounted w1"
  proof (cases e)
    case (Arrives k a)
    then have "dw_mounted w1 = dw_mounted w"
      using arrives_keeps(3) [of k a w s] one by (simp del: arrives_keeps)
    with Arrives show ?thesis using Cons.prems arrives_own [of w k a s] one Arrives
      by (auto simp: window_ok_def stream_steps_def)
  qed (use Cons.prems one in \<open>auto simp: window_ok_def depth_shows_def depth_cleanup_def\<close>)
  moreover have "window_ok w1" using window_step_ok [OF Cons.prems(1), of enabled e s] one by simp
  ultimately show ?case using Cons.IH [of w1 s1] one by (simp add: depth_window_run_def)
qed (simp add: depth_window_run_def)

lemma shows_keeps:
  "dm_book (dw_stream (depth_shows enabled asset url w)) = dm_book (dw_stream w)"
  "dm_trades (dw_stream (depth_shows enabled asset url w)) = dm_trades (dw_stream w)"
  by (simp_all add: depth_shows_def depth_start_def depth_connect_def depth_cleanup_def Let_def)

lemma shown_then_arrivals:
  assumes "window_ok w"
  shows "grown_by (depth_target asset) (dw_stream w)
    (dw_stream (fst (depth_window_run enabled (map (\<lambda>(k, e). Arrives k e) arrivals) (depth_shows enabled asset url w, s))))"
proof -
  define w1 where "w1 = depth_shows enabled asset url w"
  define w2 where "w2 = fst (depth_window_run enabled (map (\<lambda>(k, e). Arrives k e) arrivals) (w1, s))"
  have ok: "window_ok w1" using window_step_ok [OF assms, of enabled "ShowsAsset asset url" s] by (simp add: w1_def)
  have steps: "stream_steps (fst (the (effect_of w1 0))) (dw_stream w1) (dw_stream w2)"
    unfolding w2_def by (rule arrivals_own)
  have "grown_by (depth_target asset) (dw_stream w1) (dw_stream w2)"
  proof (cases "dw_mounted w \<and> asset \<noteq> []")
    case True
    then have "fst (the (effect_of w1 0)) = depth_target asset"
      by (simp add: w1_def depth_shows_def effect_of_def)
    then show ?thesis using steps by (simp add: stream_steps_def)
  next
    case False
    then have "\<not> dw_mounted w1 \<or> effect_of w1 0 = None"
      by (auto simp: w1_def depth_shows_def effect_of_def Let_def)
    then have "dw_stream w2 = dw_stream w1" using ok steps by (auto simp: window_ok_def stream_steps_def)
    then show ?thesis by (simp add: grown_by_same)
  qed
  moreover have "grown_by (depth_target asset) (dw_stream w) (dw_stream w1)"
    by (rule grown_by_same) (simp_all add: w1_def shows_keeps)
  ultimately show ?thesis using grown_by_trans unfolding w1_def w2_def by blast
qed

text \<open>C17. The stream of a depth ladder. Take any run of the window in which the asset and the provider change,
  the window may close, and the answers, frames and socket events of this and of earlier assets arrive in any
  order. Then it holds at most 200 prints and says where they came from. A change of the asset keeps the book
  and the prints; of what arrives afterwards, until the next change, only a book and prints of the new symbol
  are taken in, the prints behind those that were there. Without an asset the timer clears the state. Once the
  window is closed nothing that still comes changes it, nor is a retry pending.\<close>

theorem depth_stream_invariant:
  "let run = (\<lambda>es. dw_stream (fst (depth_window_run enabled es (idle_window, s))));
       mounted = dw_mounted (fst (depth_window_run enabled events (idle_window, s)))
   in stream_bounds (run events)
    \<and> dm_book (run (events @ [ShowsAsset asset url])) = dm_book (run events)
    \<and> dm_trades (run (events @ [ShowsAsset asset url])) = dm_trades (run events)
    \<and> grown_by (depth_target asset) (run events)
        (run (events @ ShowsAsset asset url # map (\<lambda>(k, e). Arrives k e) arrivals))
    \<and> run (events @ [ShowsAsset [] url, ClearFires]) =
        (if mounted then depth_cleared (depth_cleanup (run events)) else run events)
    \<and> run (events @ WindowCloses # later) = depth_cleanup (run events)"
proof -
  obtain w s1 where run: "depth_window_run enabled events (idle_window, s) = (w, s1)"
    by (cases "depth_window_run enabled events (idle_window, s)")
  have ok: "window_ok w" using window_run_ok [of "(idle_window, s)" enabled events] by (simp add: run)
  have after: "depth_window_run enabled (events @ e # es) (idle_window, s)
      = depth_window_run enabled es (depth_window_step enabled e (w, s1))" for e es
    by (simp add: depth_window_run_append run) (simp add: depth_window_run_def)
  have kept: "dm_book (dw_stream (fst (depth_window_run enabled [] (depth_shows enabled asset url w, s1)))) = dm_book (dw_stream w)"
    "dm_trades (dw_stream (fst (depth_window_run enabled [] (depth_shows enabled asset url w, s1)))) = dm_trades (dw_stream w)"
    by (simp_all add: depth_window_run_def shows_keeps)
  define closed where "closed = w\<lparr>dw_stream := depth_cleanup (dw_stream w), dw_clearing := False, dw_mounted := False\<rparr>"
  have "dw_stream (fst (depth_window_run enabled later (closed, s1))) = dw_stream closed"
  proof (rule closed_window_stays)
    show "window_ok closed"
      using window_step_ok [OF ok, of enabled WindowCloses s1] by (simp add: closed_def)
    show "\<not> dw_mounted closed" by (simp add: closed_def)
  qed
  moreover have "dw_stream (fst (depth_window_run enabled [ClearFires] (depth_shows enabled [] url w, s1)))
      = (if dw_mounted w then depth_cleared (depth_cleanup (dw_stream w)) else dw_stream w)"
    using ok by (auto simp: depth_window_run_def depth_shows_def Let_def window_ok_def)
  ultimately show ?thesis
    using ok shown_then_arrivals [OF ok, of asset enabled arrivals url s1]
    by (simp add: Let_def run after kept window_ok_def closed_def)
qed

text \<open>So a new symbol is shown with the book of the old one until the first book of its own arrives, and with
  the prints of the old one until 200 of its own have followed them.\<close>

lemma old_book_under_new_symbol:
  "dm_book (dw_stream (fst (depth_window_run enabled (events @ [ShowsAsset asset url]) (idle_window, s))))
     = dm_book (dw_stream (fst (depth_window_run enabled events (idle_window, s))))"
  by (cases "depth_window_run enabled events (idle_window, s)")
    (simp add: depth_window_run_append, simp add: depth_window_run_def shows_keeps)

lemma compat_seen: "cb_tsMs b = Some t \<Longrightarrow> seen_time (cmeBookToPolyCompat now b) = t"
  by (simp add: seen_time_def cmeBookToPolyCompat_def Let_def get_or_def)

text \<open>A book that comes late: the store keeps the newer book it has, but the window takes the older one,
  so the ladder and the rest of the terminal show different books of the same symbol.\<close>

theorem late_book_shown:
  assumes "dm_alive d" and "to_upper (cb_symbol b) = target" and "cb_tsMs b = Some t"
    and "dict_get (ts_polyBooks s) target = Some newer" and "jlt t (seen_time newer)"
    and "depth_step url target (BookAnswer now (ServiceAnswer True status (Some b))) (d, s) = (d', s')"
  shows "dm_book d' = Some b \<and> dm_status d' = StreamLive \<and> dict_get (ts_polyBooks s') target = Some newer
    \<and> seen_time (cmeBookToPolyCompat now b) = t"
  using assms compat_seen [OF assms(3), of now]
  by (auto simp: depth_book_answer_def depth_ingest_book_def setPolyBook_def)

definition sample_cme_book :: "rat \<Rightarrow> cme_book" where
  "sample_cme_book t = \<lparr>cb_symbol = ''ES'', cb_venue = ''cme'', cb_source = None, cb_live = None, cb_bids = [], cb_asks = [],
     cb_bestBid = Some (Fin 5000), cb_bestAsk = Some (Fin 5001), cb_bidSize = None, cb_askSize = None, cb_bidCount = None,
     cb_askCount = None, cb_mid = None, cb_ltp = None, cb_ltpSize = None, cb_sessionOpen = None, cb_sessionHigh = None,
     cb_sessionLow = None, cb_sessionReference = None, cb_sessionLast = None, cb_netChange = None, cb_netChangePct = None,
     cb_sessionStartMs = None, cb_sessionStatsMs = None, cb_marketStatus = None, cb_marketStatusDetail = None,
     cb_volume = None, cb_spread = None, cb_tsMs = Some (Fin t), cb_tickSize = Some (Fin (1 / 4)), cb_tickValue = None,
     cb_synthetic = None, cb_ltpSource = None\<rparr>"

lemma late_book_shown_witness:
  "dm_book (fst (depth_run ''u'' ''ES'' [BookAnswer (Fin 9) (ServiceAnswer True (Fin 200) (Some (sample_cme_book 5))),
       BookAnswer (Fin 9) (ServiceAnswer True (Fin 200) (Some (sample_cme_book 4)))] (depth_start False ''u'' idle_stream, initial_state))) = Some (sample_cme_book 4)
   \<and> map_option seen_time (dict_get (ts_polyBooks (snd (depth_run ''u'' ''ES''
       [BookAnswer (Fin 9) (ServiceAnswer True (Fin 200) (Some (sample_cme_book 5))),
        BookAnswer (Fin 9) (ServiceAnswer True (Fin 200) (Some (sample_cme_book 4)))] (depth_start False ''u'' idle_stream, initial_state)))) ''ES'') = Some (Fin 5)"
proof -
  obtain d s where first: "depth_step ''u'' ''ES'' (BookAnswer (Fin 9) (ServiceAnswer True (Fin 200) (Some (sample_cme_book 5))))
      (depth_start False ''u'' idle_stream, initial_state) = (d, s)" by (cases "depth_step ''u'' ''ES'' (BookAnswer (Fin 9) (ServiceAnswer True (Fin 200) (Some (sample_cme_book 5)))) (depth_start False ''u'' idle_stream, initial_state)")
  then have alive: "dm_alive d"
    and stored: "dict_get (ts_polyBooks s) ''ES'' = Some (cmeBookToPolyCompat (Fin 9) (sample_cme_book 5))"
    by (auto simp: depth_book_answer_def depth_ingest_book_def sample_cme_book_def depth_start_def idle_stream_def initial_state_def setPolyBook_def
        to_upper_def upper_char_def dict_get_set)
  have seen: "seen_time (cmeBookToPolyCompat (Fin 9) (sample_cme_book 5)) = Fin 5"
    by (rule compat_seen) (simp add: sample_cme_book_def)
  obtain d' s' where second: "depth_step ''u'' ''ES'' (BookAnswer (Fin 9) (ServiceAnswer True (Fin 200) (Some (sample_cme_book 4)))) (d, s) = (d', s')"
    by (cases "depth_step ''u'' ''ES'' (BookAnswer (Fin 9) (ServiceAnswer True (Fin 200) (Some (sample_cme_book 4)))) (d, s)")
  have "dm_book d' = Some (sample_cme_book 4) \<and> dm_status d' = StreamLive
      \<and> dict_get (ts_polyBooks s') ''ES'' = Some (cmeBookToPolyCompat (Fin 9) (sample_cme_book 5))
      \<and> seen_time (cmeBookToPolyCompat (Fin 9) (sample_cme_book 4)) = Fin 4"
  proof (rule late_book_shown [OF alive _ _ stored _ second])
    show "to_upper (cb_symbol (sample_cme_book 4)) = ''ES''" "cb_tsMs (sample_cme_book 4) = Some (Fin 4)"
      by (simp_all add: sample_cme_book_def to_upper_def upper_char_def)
    show "jlt (Fin 4) (seen_time (cmeBookToPolyCompat (Fin 9) (sample_cme_book 5)))"
      unfolding seen by (simp add: jlt_def)
  qed
  then show ?thesis using first second seen by (simp add: depth_run_def)
qed

end
