(* ===== verification/DepthLadder.thy ===== *)
theory DepthLadder
  imports MarketFeed
begin

text \<open>
  The depth ladder of \<open>apps/terminal/src/components/WorkspaceCanvas.tsx\<close> without its orders: the matrix of
  sizes per row, the model of prices that a book and prints give, the rows around an anchor, scrolling,
  and the columns that are moved and resized. Main results: the cell of a row adds up exactly the levels
  that round to it; the rows are an odd number, between bounds, around the anchor; moving and resizing
  columns keeps the four columns within their bounds.
\<close>

subsection \<open>Sizes per row\<close>

definition isRawDepthPrice :: "jsnum \<Rightarrow> bool" where
  "isRawDepthPrice price \<longleftrightarrow> is_finite price \<and> (jlt price (Fin 0) \<or> jlt (Fin 1) price)"

definition bookUsesRawPrices :: "poly_book option \<Rightarrow> poly_trade_tick list \<Rightarrow> bool" where
  "bookUsesRawPrices book ticks \<longleftrightarrow>
     (case book of None \<Rightarrow> False | Some b \<Rightarrow>
        list_ex (\<lambda>x. case x of None \<Rightarrow> False | Some p \<Rightarrow> isRawDepthPrice p) [pb_best_bid b, pb_best_ask b, Some (pb_mid b)]
        \<or> list_ex (isRawDepthPrice \<circ> pl_price) (pb_bids b @ pb_asks b))
     \<or> list_ex (isRawDepthPrice \<circ> pt_price) ticks"

record depth_cell =
  dx_size :: jsnum
  dx_count :: jsnum

text \<open>The text of the row that a price belongs to.\<close>

definition row_key :: "jsnum \<Rightarrow> jsnum \<Rightarrow> string" where
  "row_key rowStep price = formatMarketPrice (roundToPriceIncrement price rowStep) (Some rowStep)"

definition level_counts :: "order_book_level \<Rightarrow> bool" where
  "level_counts l \<longleftrightarrow> is_finite (ol_price l) \<and> is_finite (ol_size l) \<and> jlt (Fin 0) (ol_size l)"

definition level_count :: "order_book_level \<Rightarrow> jsnum" where
  "level_count l = or_zero (math_max (Fin 0) (math_trunc (get_or (or_else (ol_count l) (ol_ct l)) (Fin 0))))"

definition add_level :: "order_book_level \<Rightarrow> depth_cell \<Rightarrow> depth_cell" where
  "add_level l c = \<lparr>dx_size = jadd (dx_size c) (ol_size l), dx_count = jadd (dx_count c) (level_count l)\<rparr>"

definition no_depth :: depth_cell where "no_depth = \<lparr>dx_size = Fin 0, dx_count = Fin 0\<rparr>"

definition aggregateDepthLevels :: "order_book_level list option \<Rightarrow> jsnum \<Rightarrow> depth_cell dict" where
  "aggregateDepthLevels levels rowStep =
     (if \<not> is_finite rowStep \<or> jle rowStep (Fin 0) then []
      else fold (gather (\<lambda>l. row_key rowStep (ol_price l)) (\<lambda>l. add_level l no_depth) add_level)
        (filter level_counts (get_or levels [])) [])"

text \<open>C22. The sizes of a ladder: the cell of a row adds up exactly the levels of finite price and positive
  size that round to the row, in their order; there is a cell exactly where there is such a level, and
  only one.\<close>

theorem depth_cells_add_up:
  assumes "is_finite rowStep" and "0 < val rowStep"
    and "here = filter (\<lambda>l. level_counts l \<and> row_key rowStep (ol_price l) = k) levels"
  shows "dict_get (aggregateDepthLevels (Some levels) rowStep) k = (if here = [] then None else Some (fold add_level here no_depth))
    \<and> dict_wf (aggregateDepthLevels (Some levels) rowStep)"
proof -
  have step: "\<not> jle rowStep (Fin 0)" using assms by (simp add: jle_finite)
  have here: "filter (\<lambda>l. row_key rowStep (ol_price l) = k) (filter level_counts levels) = here"
    by (simp add: assms(3) conj_commute)
  obtain cells where cells: "cells = fold (gather (\<lambda>l. row_key rowStep (ol_price l)) (\<lambda>l. add_level l no_depth) add_level)
      (filter level_counts levels) []" by blast
  have "map_of cells k = (case here of [] \<Rightarrow> None | r # rs \<Rightarrow> Some (fold add_level rs (add_level r no_depth)))"
    unfolding cells gathered_get here by (simp split: list.splits)
  moreover have "dict_wf cells" unfolding cells by (rule gathered_wf) (simp add: dict_wf_def)
  moreover have "aggregateDepthLevels (Some levels) rowStep = cells"
    using step assms(1) by (simp add: aggregateDepthLevels_def get_or_def cells)
  ultimately show ?thesis by (cases here) simp_all
qed

definition sample_level :: "rat \<Rightarrow> rat \<Rightarrow> order_book_level" where
  "sample_level p q = \<lparr>ol_price = Fin p, ol_size = Fin q, ol_count = Some (Fin 2), ol_ct = None\<rparr>"

lemma depth_cells_add_up_witness:
  "dict_get (aggregateDepthLevels (Some [sample_level 100 5, sample_level (401 / 4) 7, sample_level (399 / 4) 1]) (Fin 1)) ''100'' =
     Some \<lparr>dx_size = Fin 13, dx_count = Fin 6\<rparr>"
proof -
  have "filter (\<lambda>l. level_counts l \<and> row_key (Fin 1) (ol_price l) = ''100'') [sample_level 100 5, sample_level (401 / 4) 7, sample_level (399 / 4) 1]
      = [sample_level 100 5, sample_level (401 / 4) 7, sample_level (399 / 4) 1]"
    by code_simp
  moreover have "fold add_level [sample_level 100 5, sample_level (401 / 4) 7, sample_level (399 / 4) 1] no_depth = \<lparr>dx_size = Fin 13, dx_count = Fin 6\<rparr>"
    by code_simp
  ultimately show ?thesis
    using depth_cells_add_up [of "Fin 1" _ "''100''" "[sample_level 100 5, sample_level (401 / 4) 7, sample_level (399 / 4) 1]"] by simp
qed

subsection \<open>The model of prices\<close>

record ladder_model =
  lm_fallbackLast :: jsnum
  lm_bid :: jsnum
  lm_ask :: jsnum
  lm_mid :: jsnum
  lm_tick :: jsnum
  lm_rowStep :: jsnum
  lm_bidMap :: "depth_cell dict"
  lm_askMap :: "depth_cell dict"
  lm_bidKey :: string
  lm_askKey :: string
  lm_lastTradeKey :: "string option"
  lm_lastTradeSize :: jsnum
  lm_sessionOpen :: "jsnum option"
  lm_sessionHigh :: "jsnum option"
  lm_sessionLow :: "jsnum option"
  lm_sessionReference :: "jsnum option"
  lm_sessionLast :: "jsnum option"
  lm_netChange :: "jsnum option"
  lm_netChangePct :: "jsnum option"

definition price_of :: "jsnum option \<Rightarrow> jsnum option" where
  "price_of x = finiteMarketPrice (opt_num x)"

definition normal_level :: "order_book_level \<Rightarrow> order_book_level option" where
  "normal_level l = (case price_of (Some (ol_price l)) of
     Some p \<Rightarrow> if is_finite (ol_size l)
       then Some (l\<lparr>ol_price := p, ol_count := Some (get_or (or_else (ol_count l) (ol_ct l)) (Fin 0)), ol_ct := None\<rparr>) else None
   | None \<Rightarrow> None)"

definition market_levels :: "order_book_level list \<Rightarrow> market_depth_level list" where
  "market_levels = map (\<lambda>l. \<lparr>md_price = ol_price l, md_size = Some (ol_size l)\<rparr>)"

definition book_part :: "cme_book option \<Rightarrow> (cme_book \<Rightarrow> 'a option) \<Rightarrow> 'a option" where
  "book_part book f = Option.bind book f"

text \<open>The last price: the book's when it is as late as the last print's, else the print's. The flag says
  that it is the book's.\<close>

definition last_price :: "cme_book option \<Rightarrow> cme_trade_tick list \<Rightarrow> bool \<times> jsnum option" where
  "last_price book ticks =
     (let latestTick = array_last ticks;
          tickLast = price_of (map_option ct_price latestTick);
          bookLast = price_of (book_part book cb_ltp);
          prefer = (bookLast \<noteq> None \<and> jge (get_or (book_part book cb_tsMs) (Fin 0)) (get_or (map_option ct_timestamp latestTick) (Fin 0)))
      in (prefer, if prefer then bookLast else or_else tickLast bookLast))"

definition ladderModel ::
    "cme_book option \<Rightarrow> cme_trade_tick list \<Rightarrow> product_option option \<Rightarrow> jsnum \<Rightarrow> ladder_model" where
  "ladderModel book ticks option priceMultiplier =
     (let (preferBook, lastTrade) = last_price book ticks;
          latestSize = map_option ct_size (array_last ticks);
          bids = sort_js (before_desc ol_price) (List.map_filter normal_level (get_or (map_option cb_bids book) []));
          asks = sort_js (before_asc ol_price) (List.map_filter normal_level (get_or (map_option cb_asks book) []));
          bestBid = or_else (price_of (book_part book cb_bestBid)) (map_option ol_price (find (\<lambda>l. True) bids));
          bestAsk = or_else (price_of (book_part book cb_bestAsk)) (map_option ol_price (find (\<lambda>l. True) asks));
          bookMid = price_of (book_part book cb_mid);
          middle = (\<lambda>a b. jdiv (jadd a b) (Fin 2));
          bookCenter = or_else bookMid (case (bestBid, bestAsk) of (Some b, Some a) \<Rightarrow> Some (middle b a) | _ \<Rightarrow> None);
          fallbackLast = get_or (or_else lastTrade (or_else bookCenter (or_else
            (price_of (Option.bind option po_spot)) (price_of (Option.bind option po_priceToBeat))))) (Fin 0);
          contract = resolveDepthDisplayContract (opt_num (book_part book cb_tickSize)) (opt_num (Option.bind option po_tickSize))
            (market_levels bids) (market_levels asks);
          tick = get_or (dc_increment contract) (Fin 0);
          hasTick = jlt (Fin 0) tick;
          rowStep = (if hasTick then math_max tick (jmul tick priceMultiplier) else Fin 0);
          bid = (case bestBid of Some b \<Rightarrow> b
            | None \<Rightarrow> (case bestAsk of Some a \<Rightarrow> if hasTick then jsub a tick else fallbackLast | None \<Rightarrow> fallbackLast));
          ask = (case bestAsk of Some a \<Rightarrow> a
            | None \<Rightarrow> (case bestBid of Some b \<Rightarrow> if hasTick then jadd b tick else fallbackLast | None \<Rightarrow> fallbackLast));
          mid = (case bookMid of Some m \<Rightarrow> m
            | None \<Rightarrow> if is_finite bid \<and> is_finite ask then middle bid ask else fallbackLast);
          priceKey = (\<lambda>price. if jlt (Fin 0) rowStep then row_key rowStep price else formatMarketPrice price (truthy_num (Some tick)))
      in \<lparr>lm_fallbackLast = fallbackLast, lm_bid = bid, lm_ask = ask, lm_mid = mid, lm_tick = tick, lm_rowStep = rowStep,
          lm_bidMap = aggregateDepthLevels (Some bids) rowStep, lm_askMap = aggregateDepthLevels (Some asks) rowStep,
          lm_bidKey = priceKey bid, lm_askKey = priceKey ask, lm_lastTradeKey = map_option priceKey lastTrade,
          lm_lastTradeSize = (if preferBook then get_or (or_else (book_part book cb_ltpSize) latestSize) (Fin 0)
             else get_or (or_else latestSize (book_part book cb_ltpSize)) (Fin 0)),
          lm_sessionOpen = price_of (book_part book cb_sessionOpen), lm_sessionHigh = price_of (book_part book cb_sessionHigh),
          lm_sessionLow = price_of (book_part book cb_sessionLow), lm_sessionReference = price_of (book_part book cb_sessionReference),
          lm_sessionLast = or_else (price_of (book_part book cb_sessionLast)) lastTrade,
          lm_netChange = price_of (book_part book cb_netChange), lm_netChangePct = price_of (book_part book cb_netChangePct)\<rparr>)"

text \<open>Whether the increment is known, and whether there is any price to show.\<close>

definition depthDefinitionReady :: "cme_book option \<Rightarrow> product_option option \<Rightarrow> ladder_model \<Rightarrow> bool" where
  "depthDefinitionReady book option m \<longleftrightarrow>
     dc_ready (resolveDepthDisplayContract (opt_num (book_part book cb_tickSize)) (opt_num (Option.bind option po_tickSize))
       (market_levels (get_or (map_option cb_bids book) [])) (market_levels (get_or (map_option cb_asks book) [])))
     \<and> is_finite (lm_rowStep m) \<and> jlt (Fin 0) (lm_rowStep m)"

definition depthPriceReady :: "cme_book option \<Rightarrow> cme_trade_tick list \<Rightarrow> product_option option \<Rightarrow> bool" where
  "depthPriceReady book ticks option \<longleftrightarrow> snd (last_price book ticks) \<noteq> None
     \<or> list_ex (\<lambda>x. price_of x \<noteq> None) [book_part book cb_bestBid, book_part book cb_bestAsk, book_part book cb_mid,
         Option.bind option po_spot, Option.bind option po_priceToBeat]"

subsection \<open>The anchor and the rows\<close>

record ladder_anchor =
  an_marketKey :: string
  an_center :: jsnum
  an_tick :: jsnum

text \<open>The anchor, and the market that was centred last.\<close>

type_synonym anchoring = "ladder_anchor option \<times> string option"

definition recenterLadder :: "string option \<Rightarrow> ladder_model \<Rightarrow> anchoring \<Rightarrow> anchoring" where
  "recenterLadder marketKey m a = (case truthy_text marketKey of
     None \<Rightarrow> a
   | Some key \<Rightarrow> if \<not> is_finite (lm_mid m) \<or> \<not> is_finite (lm_tick m) \<or> jle (lm_tick m) (Fin 0) then a
       else (Some \<lparr>an_marketKey = key, an_center = roundToPriceIncrement (lm_mid m) (lm_rowStep m), an_tick = lm_tick m\<rparr>, Some key))"

definition center_first :: "string option \<Rightarrow> bool \<Rightarrow> ladder_model \<Rightarrow> anchoring \<Rightarrow> anchoring" where
  "center_first marketKey hasBook m a = (if snd a = marketKey \<or> \<not> hasBook then a else recenterLadder marketKey m a)"

definition current_anchor :: "string option \<Rightarrow> ladder_anchor option \<Rightarrow> ladder_anchor option" where
  "current_anchor marketKey anchor = (case anchor of None \<Rightarrow> None
     | Some x \<Rightarrow> if Some (an_marketKey x) = marketKey then Some x else None)"

definition shiftLadderRows :: "string option \<Rightarrow> ladder_model \<Rightarrow> int \<Rightarrow> ladder_anchor option \<Rightarrow> ladder_anchor option" where
  "shiftLadderRows marketKey m rows anchor = (case truthy_text marketKey of
     None \<Rightarrow> anchor
   | Some key \<Rightarrow> if \<not> is_finite (lm_rowStep m) \<or> jle (lm_rowStep m) (Fin 0) then anchor
       else (let current = (case current_anchor (Some key) anchor of Some x \<Rightarrow> an_center x
               | None \<Rightarrow> roundToPriceIncrement (if num_truthy (lm_mid m) then lm_mid m else or_zero (lm_fallbackLast m)) (lm_rowStep m))
             in Some \<lparr>an_marketKey = key,
                  an_center = roundToPriceIncrement (jadd current (jmul (num_of_int rows) (lm_rowStep m))) (lm_rowStep m),
                  an_tick = lm_tick m\<rparr>))"

definition wheelScrollLadder ::
    "string option \<Rightarrow> ladder_model \<Rightarrow> jsnum \<Rightarrow> bool \<Rightarrow> bool \<Rightarrow> ladder_anchor option \<Rightarrow> ladder_anchor option" where
  "wheelScrollLadder marketKey m deltaY shiftKey altKey =
     (let rows = (if shiftKey then 10 else if altKey then 1 else 3) in
      shiftLadderRows marketKey m (if jlt (Fin 0) deltaY then - rows else rows))"

definition math_ceil :: "jsnum \<Rightarrow> jsnum" where
  "math_ceil x = jneg (math_floor (jneg x))"

definition row_count :: "jsnum \<Rightarrow> jsnum \<Rightarrow> jsnum" where
  "row_count bodyHeight rowHeight =
     (let measuredBodyHeight = (if num_truthy bodyHeight then bodyHeight else Fin 504);
          measured = math_max (Fin 9) (math_min (Fin 241) (jadd (math_ceil (jdiv measuredBodyHeight rowHeight)) (Fin 2)))
      in if jeq (jrem measured (Fin 2)) (Fin 0) then math_min (Fin 241) (jadd measured (Fin 1)) else measured)"

record ladder_row =
  lr_price :: jsnum
  lr_key :: string
  lr_bidSize :: jsnum
  lr_bidCount :: jsnum
  lr_askSize :: jsnum
  lr_askCount :: jsnum
  lr_myBidSize :: jsnum
  lr_myAskSize :: jsnum
  lr_inside :: bool
  lr_bestBid :: bool
  lr_bestAsk :: bool
  lr_lastTrade :: bool
  lr_lastTradeSize :: jsnum

text \<open>The sizes of the trader's own orders at a row are functions of the row's key.\<close>

definition ladder_row_of :: "ladder_model \<Rightarrow> (string \<Rightarrow> jsnum) \<Rightarrow> (string \<Rightarrow> jsnum) \<Rightarrow> jsnum \<Rightarrow> ladder_row" where
  "ladder_row_of m myBid myAsk price =
     (let rowStep = lm_rowStep m; key = row_key rowStep price;
          bidCell = get_or (dict_get (lm_bidMap m) key) no_depth; askCell = get_or (dict_get (lm_askMap m) key) no_depth;
          half = jdiv rowStep (Fin 2); quoted = (is_finite (lm_bid m) \<and> is_finite (lm_ask m))
      in \<lparr>lr_price = price, lr_key = key, lr_bidSize = dx_size bidCell, lr_bidCount = dx_count bidCell,
          lr_askSize = dx_size askCell, lr_askCount = dx_count askCell, lr_myBidSize = myBid key, lr_myAskSize = myAsk key,
          lr_inside = (quoted \<and> jge price (jsub (lm_bid m) half) \<and> jle price (jadd (lm_ask m) half)),
          lr_bestBid = (is_finite (lm_bid m) \<and> key = lm_bidKey m), lr_bestAsk = (is_finite (lm_ask m) \<and> key = lm_askKey m),
          lr_lastTrade = (lm_lastTradeKey m = Some key), lr_lastTradeSize = lm_lastTradeSize m\<rparr>)"

definition ladder_rows ::
    "string option \<Rightarrow> ladder_model \<Rightarrow> (string \<Rightarrow> jsnum) \<Rightarrow> (string \<Rightarrow> jsnum) \<Rightarrow> ladder_anchor option \<Rightarrow> jsnum \<Rightarrow> jsnum \<Rightarrow> ladder_row list" where
  "ladder_rows marketKey m myBid myAsk anchor bodyHeight rowHeight = (case current_anchor marketKey anchor of
     None \<Rightarrow> []
   | Some a \<Rightarrow>
       (let rowCount = nat \<lfloor>val (row_count bodyHeight rowHeight)\<rfloor>; centerIndex = rowCount div 2 in
        map (\<lambda>index. ladder_row_of m myBid myAsk
            (jadd (an_center a) (jmul (num_of_int (int centerIndex - int index)) (lm_rowStep m)))) [0..<rowCount]))"

subsection \<open>Columns\<close>

text \<open>The columns in order, and the column that is dragged. \<open>indexOf\<close> gives \<open>-1\<close> for a column that is
  not there, which \<open>slice\<close> counts from the end.\<close>

definition moveDepthColumn ::
    "depth_column \<Rightarrow> depth_column list \<times> depth_column option \<Rightarrow> depth_column list \<times> depth_column option" where
  "moveDepthColumn target = (\<lambda>(order, dragging). case dragging of
     None \<Rightarrow> (order, None)
   | Some dragged \<Rightarrow> if dragged = target then (order, None)
       else (let rest = filter (\<lambda>c. c \<noteq> dragged) order;
                 i = get_or (find_index (\<lambda>c. c = target) rest) (length rest - 1)
             in (take i rest @ [dragged] @ drop i rest, None)))"

definition columnResizeBounds :: "depth_column \<Rightarrow> jsnum \<times> jsnum" where
  "columnResizeBounds c = (case c of OrdersColumn \<Rightarrow> (Fin 48, Fin 150) | PriceColumn \<Rightarrow> (Fin 68, Fin 180) | _ \<Rightarrow> (Fin 64, Fin 260))"

definition width_of :: "(depth_column \<times> jsnum) list \<Rightarrow> depth_column \<Rightarrow> jsnum" where
  "width_of widths c = get_or (map_of widths c) NaN"

text \<open>The column that gives or takes the width, and the direction.\<close>

definition resize_partner :: "depth_column list \<Rightarrow> depth_column \<Rightarrow> (depth_column \<times> jsnum) option" where
  "resize_partner order c = (case find_index (\<lambda>x. x = c) order of
     None \<Rightarrow> (case order of [] \<Rightarrow> None | p # ps \<Rightarrow> Some (p, Fin 1))
   | Some i \<Rightarrow> if i + 1 < length order then Some (order ! (i + 1), Fin 1)
       else if 0 < i then Some (order ! (i - 1), Fin (- 1)) else None)"

text \<open>A move of the pointer while a column is resized: the widths at the start, where the pointer was and is.\<close>

definition resize_columns ::
    "depth_column list \<Rightarrow> depth_column \<Rightarrow> (depth_column \<times> jsnum) list \<Rightarrow> jsnum \<Rightarrow> jsnum \<Rightarrow> jsnum \<Rightarrow> (depth_column \<times> jsnum) list \<Rightarrow> (depth_column \<times> jsnum) list" where
  "resize_columns order c startWidths gridWidth startX clientX widths = (case resize_partner order c of
     None \<Rightarrow> widths
   | Some (partner, direction) \<Rightarrow>
       (let (lo, hi) = columnResizeBounds c; (plo, phi) = columnResizeBounds partner;
            pairTotal = jadd (width_of startWidths c) (width_of startWidths partner);
            delta = jmul (jmul (jdiv (jsub clientX startX) gridWidth) pairTotal) direction;
            nextWidth = clamp (jadd (width_of startWidths c) delta) lo (math_min hi (jsub pairTotal plo));
            nextPartnerWidth = clamp (jsub pairTotal nextWidth) plo phi
        in dict_set partner nextPartnerWidth (dict_set c nextWidth widths)))"

subsection \<open>How many rows\<close>

lemma rnd_mag_nonneg: "0 \<le> q \<Longrightarrow> 0 \<le> rnd_mag q"
  unfolding rnd_mag_def by (intro mult_nonneg_nonneg) (use round_half_even_ge [of 0] in auto)

lemma rnd_between:
  assumes "0 \<le> q" "q \<le> of_int M" "0 \<le> M" "M \<le> 2 ^ 53"
  shows "\<exists>x. rnd False q = Fin x \<and> 0 \<le> x \<and> x \<le> of_int M"
proof (cases "q = 0")
  case True
  then show ?thesis using assms by (simp add: zero_of_def)
next
  case False
  have "representable (of_int M)" using assms by (intro representable_int) simp
  then have M: "rnd_mag (of_int M) = of_int M \<or> M = 0" "(of_int M :: rat) < 2 ^ 1024" using assms by (auto simp: representable_def)
  then have "rnd_mag q \<le> of_int M" using rnd_mag_le [of q "of_int M"] assms False by (cases "M = 0") auto
  then show ?thesis using False assms M(2) rnd_mag_nonneg [of q] by (auto simp: rnd_def Let_def zero_of_def)
qed

lemma math_ceil_fin: "0 \<le> x \<Longrightarrow> math_ceil (Fin x) = Fin (of_int \<lceil>x\<rceil>)"
proof (cases "x = 0")
  case False
  assume "0 \<le> x"
  with False have "\<lfloor>- x\<rfloor> < 0" unfolding floor_less_iff by simp
  then have "\<lfloor>- x\<rfloor> \<noteq> 0" by linarith
  then show ?thesis using False by (simp add: math_ceil_def ceiling_def)
qed (simp add: math_ceil_def)

lemma rem_two: "0 \<le> m \<Longrightarrow> jeq (jrem (Fin (of_int m)) (Fin 2)) (Fin 0) \<longleftrightarrow> even m"
proof -
  assume "0 \<le> m"
  have "\<lfloor>of_int m / (2 :: rat)\<rfloor> = m div 2" using floor_divide_of_int_eq [of m 2] by simp
  moreover have "(of_int m :: rat) - 2 * of_int (m div 2) = of_int (m mod 2)"
    by (simp add: minus_mult_div_eq_mod [symmetric])
  ultimately show ?thesis using \<open>0 \<le> m\<close>
    by (auto simp: jrem_def Let_def jeq_def zero_of_def even_iff_mod_2_eq_zero)
qed

lemma row_count_odd:
  assumes "is_finite bodyHeight" "0 \<le> val bodyHeight" "val bodyHeight \<le> 100000" "rowHeight \<in> {Fin 18, Fin 24, Fin 34}"
  shows "\<exists>n. row_count bodyHeight rowHeight = Fin (of_int n) \<and> 9 \<le> n \<and> n \<le> 241 \<and> odd n"
proof -
  obtain b where b: "(if num_truthy bodyHeight then bodyHeight else Fin 504) = Fin b" "0 < b" "b \<le> 100000"
    using assms(1-3) that [of "val (if num_truthy bodyHeight then bodyHeight else Fin 504)"]
    by (cases bodyHeight) (auto simp: num_truthy_def jeq_def)
  obtain h where h: "rowHeight = Fin h" "1 \<le> h" using assms(4) by auto
  have q: "0 \<le> b / h" "b / h \<le> of_int 100000"
    using b h order_trans [OF divide_left_mono [of 1 h b] ] by (auto simp: divide_simps)
  obtain x where x: "rnd False (b / h) = Fin x" "0 \<le> x" "x \<le> of_int 100000" using rnd_between [OF q] by auto
  have div: "jdiv (Fin b) rowHeight = Fin x" using b h x(1) by (simp add: jdiv_def Let_def)
  have c: "0 \<le> \<lceil>x\<rceil>" "\<lceil>x\<rceil> \<le> 100000" using x by (simp_all add: ceiling_le_iff less_ceiling_iff)
  have add: "jadd (math_ceil (Fin x)) (Fin 2) = Fin (of_int (\<lceil>x\<rceil> + 2))"
    using jadd_int [of "\<lceil>x\<rceil>" 2] c by (simp add: math_ceil_fin x(2))
  obtain m where m: "m = max 9 (min 241 (\<lceil>x\<rceil> + 2))" by blast
  have measured: "math_max (Fin 9) (math_min (Fin 241) (jadd (math_ceil (jdiv (Fin b) rowHeight)) (Fin 2))) = Fin (of_int m)"
    unfolding div add using min_int [of 241 "\<lceil>x\<rceil> + 2"] max_int [of 9 "min 241 (\<lceil>x\<rceil> + 2)"] by (simp add: m)
  have bounds: "9 \<le> m" "m \<le> 241" by (auto simp: m)
  have next_row: "jadd (Fin (of_int m)) (Fin 1) = Fin (of_int (m + 1))" using jadd_int [of m 1] bounds by simp
  have count: "row_count bodyHeight rowHeight = (if even m then Fin (of_int (min 241 (m + 1))) else Fin (of_int m))"
    using bounds rem_two [of m] min_int [of 241 "m + 1"]
    by (simp add: row_count_def Let_def b(1) measured next_row)
  show ?thesis
  proof (cases "even m")
    case True
    then have "m \<noteq> 241" by auto
    with True bounds show ?thesis by (intro exI [of _ "m + 1"]) (auto simp: count min_def)
  qed (use bounds in \<open>auto simp: count\<close>)
qed

text \<open>The rows of a ladder with an anchor, for every height of its body on a screen and every density: they
  are an odd number from 9 to 241, the middle one stands at the anchor, each other row as many steps from it
  as it is rows away, and a row shows the cell and the orders of its own key.\<close>

theorem rows_around_anchor:
  assumes "is_finite bodyHeight" and "0 \<le> val bodyHeight \<and> val bodyHeight \<le> 100000" and "rowHeight \<in> {Fin 18, Fin 24, Fin 34}"
    and "current_anchor marketKey anchor = Some a"
    and "rows = ladder_rows marketKey m myBid myAsk anchor bodyHeight rowHeight" and "i < length rows"
  shows "odd (length rows) \<and> 9 \<le> length rows \<and> length rows \<le> 241
    \<and> lr_price (rows ! i) = jadd (an_center a) (jmul (num_of_int (int (length rows div 2) - int i)) (lm_rowStep m))
    \<and> lr_bidSize (rows ! i) = dx_size (get_or (dict_get (lm_bidMap m) (row_key (lm_rowStep m) (lr_price (rows ! i)))) no_depth)
    \<and> lr_myBidSize (rows ! i) = myBid (row_key (lm_rowStep m) (lr_price (rows ! i)))"
proof -
  obtain n where n: "row_count bodyHeight rowHeight = Fin (of_int n)" "9 \<le> n" "n \<le> 241" "odd n"
    using row_count_odd [OF assms(1) _ _ assms(3)] assms(2) by blast
  have len: "length rows = nat n" using n by (simp add: assms(5) ladder_rows_def assms(4) Let_def)
  have row: "rows ! i = ladder_row_of m myBid myAsk (jadd (an_center a) (jmul (num_of_int (int (nat n div 2) - int i)) (lm_rowStep m)))"
    using n assms(6) by (simp add: assms(5) ladder_rows_def assms(4) Let_def)
  have "odd (nat n)" "9 \<le> nat n" "nat n \<le> 241" using n by (simp_all add: even_nat_iff)
  then show ?thesis unfolding row len by (simp add: ladder_row_of_def Let_def)
qed

definition sample_model :: ladder_model where
  "sample_model = \<lparr>lm_fallbackLast = Fin 0, lm_bid = Fin 100, lm_ask = Fin 101, lm_mid = Fin (201 / 2), lm_tick = Fin 1,
     lm_rowStep = Fin 1, lm_bidMap = [(''100'', \<lparr>dx_size = Fin 5, dx_count = Fin 2\<rparr>)],
     lm_askMap = [(''101'', \<lparr>dx_size = Fin 4, dx_count = Fin 2\<rparr>)], lm_bidKey = ''100'', lm_askKey = ''101'',
     lm_lastTradeKey = None, lm_lastTradeSize = Fin 0, lm_sessionOpen = None, lm_sessionHigh = None, lm_sessionLow = None,
     lm_sessionReference = None, lm_sessionLast = None, lm_netChange = None, lm_netChangePct = None\<rparr>"

lemma rows_around_anchor_witness:
  "length (ladder_rows (Some ''ES'') sample_model (\<lambda>k. Fin 0) (\<lambda>k. Fin 0)
       (fst (recenterLadder (Some ''ES'') sample_model (None, None))) (Fin 504) (Fin 24)) = 23
   \<and> lr_price (ladder_rows (Some ''ES'') sample_model (\<lambda>k. Fin 0) (\<lambda>k. Fin 0)
       (fst (recenterLadder (Some ''ES'') sample_model (None, None))) (Fin 504) (Fin 24) ! 11) = Fin 101"
proof -
  obtain anchor where a: "anchor = \<lparr>an_marketKey = ''ES'', an_center = Fin 101, an_tick = Fin 1\<rparr>" by blast
  have anchored: "fst (recenterLadder (Some ''ES'') sample_model (None, None)) = Some anchor" unfolding a by code_simp
  have here: "current_anchor (Some ''ES'') (Some anchor) = Some anchor" by (simp add: current_anchor_def a)
  have "row_count (Fin 504) (Fin 24) = Fin 23" by code_simp
  then have len: "length (ladder_rows (Some ''ES'') sample_model (\<lambda>k. Fin 0) (\<lambda>k. Fin 0) (Some anchor) (Fin 504) (Fin 24)) = 23"
    by (simp add: ladder_rows_def here)
  have step: "lm_rowStep sample_model = Fin 1" by code_simp
  have "lr_price (ladder_rows (Some ''ES'') sample_model (\<lambda>k. Fin 0) (\<lambda>k. Fin 0) (Some anchor) (Fin 504) (Fin 24) ! 11) =
     jadd (an_center anchor) (jmul (num_of_int (int (23 div 2) - int 11)) (Fin 1))"
    using rows_around_anchor [OF _ _ _ here refl, of "Fin 504" "Fin 24" 11 sample_model "\<lambda>k. Fin 0" "\<lambda>k. Fin 0"]
    unfolding len step by simp
  also have "\<dots> = Fin 101" unfolding a by code_simp
  finally show ?thesis unfolding anchored using len by blast
qed

subsection \<open>The columns stay\<close>

lemma jadd_not_NaN: "is_finite a \<Longrightarrow> b \<noteq> NaN \<Longrightarrow> jadd a b \<noteq> NaN"
  by (cases a; cases b) (simp_all add: jadd_def)

lemma jsub_not_NaN: "a \<noteq> NaN \<Longrightarrow> is_finite b \<Longrightarrow> jsub a b \<noteq> NaN"
  by (cases a; cases b) (auto simp: jsub_def jadd_def)

lemma jmul_scale_not_NaN: "a \<noteq> NaN \<Longrightarrow> is_finite b \<Longrightarrow> val b \<noteq> 0 \<Longrightarrow> jmul a b \<noteq> NaN"
  by (cases a; cases b) (auto simp: jmul_def Let_def)

lemma jdiv_not_NaN: "a \<noteq> NaN \<Longrightarrow> is_finite b \<Longrightarrow> val b \<noteq> 0 \<Longrightarrow> jdiv a b \<noteq> NaN"
  by (cases a; cases b) (auto simp: jdiv_def Let_def)

lemma finite_not_NaN: "is_finite x \<Longrightarrow> x \<noteq> NaN"
  by auto

lemma min_below: "a \<noteq> NaN \<Longrightarrow> b \<noteq> NaN \<Longrightarrow> math_min a b \<noteq> NaN \<and> jle (math_min a b) a"
  by (cases a; cases b) (auto simp: math_min_def jle_def jlt_def jeq_def)

lemma max_above: "a \<noteq> NaN \<Longrightarrow> b \<noteq> NaN \<Longrightarrow> jle a (math_max a b) \<and> (math_max a b = a \<or> math_max a b = b)"
  by (cases a; cases b) (auto simp: math_max_def jle_def jlt_def jeq_def)

lemma clamp_between:
  assumes "n \<noteq> NaN" "hi \<noteq> NaN" "is_finite lo" "jle lo cap" "jle hi cap"
  shows "jle lo (clamp n lo hi) \<and> jle (clamp n lo hi) cap"
proof -
  have m: "math_min hi n \<noteq> NaN" "jle (math_min hi n) cap"
    using min_below [OF assms(2,1)] jle_trans [of "math_min hi n" hi cap] assms(5) by auto
  then show ?thesis using max_above [OF finite_not_NaN [OF assms(3)] m(1)] assms(4) by (auto simp: clamp_def)
qed

lemma bounds_of_columns:
  "is_finite (fst (columnResizeBounds c))" "is_finite (snd (columnResizeBounds c))"
  "jle (fst (columnResizeBounds c)) (snd (columnResizeBounds c))" "0 < val (fst (columnResizeBounds c))"
  by (cases c; simp add: columnResizeBounds_def jle_finite)+

definition widths_ok :: "(depth_column \<times> jsnum) list \<Rightarrow> bool" where
  "widths_ok widths \<longleftrightarrow> list_all (\<lambda>c. is_finite (width_of widths c)
     \<and> jle (fst (columnResizeBounds c)) (width_of widths c) \<and> jle (width_of widths c) (snd (columnResizeBounds c))) valid_columns"

lemma valid_columns_all: "c \<in> set valid_columns"
  by (cases c) (simp_all add: valid_columns_def)

lemma widths_okD:
  assumes "widths_ok widths"
  shows "is_finite (width_of widths c)" "jle (fst (columnResizeBounds c)) (width_of widths c)"
    "jle (width_of widths c) (snd (columnResizeBounds c))" "48 \<le> val (width_of widths c)" "val (width_of widths c) \<le> 260"
proof -
  show *: "is_finite (width_of widths c)" "jle (fst (columnResizeBounds c)) (width_of widths c)"
      "jle (width_of widths c) (snd (columnResizeBounds c))"
    using assms valid_columns_all [of c] by (auto simp: widths_ok_def list_all_iff)
  then show "48 \<le> val (width_of widths c)" "val (width_of widths c) \<le> 260"
    by (cases c; simp add: jle_finite columnResizeBounds_def)+
qed

lemma finite_between: "is_finite lo \<Longrightarrow> is_finite hi \<Longrightarrow> jle lo x \<Longrightarrow> jle x hi \<Longrightarrow> is_finite x"
  by (cases x; cases lo; cases hi) (auto simp: jle_def jlt_def jeq_def split: if_splits)

lemma pair_total:
  assumes "widths_ok ws"
  shows "is_finite (jadd (width_of ws c) (width_of ws d)) \<and> val (jadd (width_of ws c) (width_of ws d)) \<noteq> 0"
proof -
  let ?q = "val (width_of ws c) + val (width_of ws d)"
  have w: "is_finite (width_of ws c)" "is_finite (width_of ws d)" using widths_okD(1) [OF assms] by auto
  have q: "96 \<le> ?q" "?q \<le> of_int 520" using widths_okD(4,5) [OF assms, of c] widths_okD(4,5) [OF assms, of d] by simp_all
  obtain x where x: "rnd False ?q = Fin x" "0 \<le> x" using rnd_between [of ?q 520] q by auto
  have "rnd s ?q = rnd False ?q" for s using q by (simp add: rnd_def)
  then have "jadd (width_of ws c) (width_of ws d) = Fin x" using x(1) w by (simp add: jadd_finite)
  moreover have "x \<noteq> 0" using x(1) q rnd_mag_pos [of ?q] by (auto simp: rnd_def Let_def zero_of_def split: if_splits)
  ultimately show ?thesis by simp
qed

lemma resized_in_bounds:
  assumes "n \<noteq> NaN" "hi \<noteq> NaN" "jle hi (snd (columnResizeBounds c))" "w = clamp n (fst (columnResizeBounds c)) hi"
  shows "is_finite w \<and> jle (fst (columnResizeBounds c)) w \<and> jle w (snd (columnResizeBounds c))"
  using clamp_between [OF assms(1,2) bounds_of_columns(1,3) [of c] assms(3)]
    finite_between [OF bounds_of_columns(1,2) [of c], of w] by (simp add: assms(4))

lemma width_of_set: "width_of (dict_set k v ws) c = (if c = k then v else width_of ws c)"
  by (simp add: width_of_def dict_get_set get_or_def)

lemma resize_keeps_bounds:
  assumes ws: "widths_ok startWidths" "widths_ok widths" and p: "is_finite gridWidth" "1 \<le> val gridWidth" "is_finite startX" "clientX \<noteq> NaN"
  shows "widths_ok (resize_columns order c startWidths gridWidth startX clientX widths)"
proof (cases "resize_partner order c")
  case (Some pd)
  obtain q dir where pd: "pd = (q, dir)" by (cases pd)
  have dir: "is_finite dir" "val dir \<noteq> 0" using Some by (auto simp: pd resize_partner_def split: option.splits list.splits if_splits)
  obtain t where t: "t = jadd (width_of startWidths c) (width_of startWidths q)" by blast
  have tot: "is_finite t" "val t \<noteq> 0" using pair_total [OF ws(1)] unfolding t by blast+
  obtain n where n: "n = jadd (width_of startWidths c) (jmul (jmul (jdiv (jsub clientX startX) gridWidth) t) dir)" by blast
  have "n \<noteq> NaN" unfolding n
    using p dir tot widths_okD(1) [OF ws(1), of c]
    by (intro jadd_not_NaN jmul_scale_not_NaN jdiv_not_NaN jsub_not_NaN) auto
  obtain hi where hi: "hi = math_min (snd (columnResizeBounds c)) (jsub t (fst (columnResizeBounds q)))" by blast
  have "hi \<noteq> NaN \<and> jle hi (snd (columnResizeBounds c))" unfolding hi
    by (intro min_below jsub_not_NaN) (use tot bounds_of_columns finite_not_NaN in blast)+
  obtain w where w: "w = clamp n (fst (columnResizeBounds c)) hi" by blast
  have wb: "is_finite w \<and> jle (fst (columnResizeBounds c)) w \<and> jle w (snd (columnResizeBounds c))"
    by (rule resized_in_bounds [OF _ _ _ w]) (use \<open>n \<noteq> NaN\<close> \<open>hi \<noteq> NaN \<and> jle hi (snd (columnResizeBounds c))\<close> in blast)+
  obtain v where v: "v = clamp (jsub t w) (fst (columnResizeBounds q)) (snd (columnResizeBounds q))" by blast
  have vb: "is_finite v \<and> jle (fst (columnResizeBounds q)) v \<and> jle v (snd (columnResizeBounds q))"
    by (rule resized_in_bounds [OF _ _ _ v]) (use tot wb bounds_of_columns finite_not_NaN jsub_not_NaN jle_refl_iff in blast)+
  have "resize_columns order c startWidths gridWidth startX clientX widths = dict_set q v (dict_set c w widths)"
    by (simp add: resize_columns_def Some pd case_prod_unfold Let_def v w hi n t)
  then show ?thesis using wb vb widths_okD [OF ws(2)]
    by (auto simp: widths_ok_def list_all_iff width_of_set)
qed (simp add: resize_columns_def ws)

text \<open>The columns of a ladder: dragging one onto another keeps every column once, and resizing a column, at
  whatever pointer position, keeps the widths of all columns within the bounds of each.\<close>

theorem columns_stay:
  assumes "distinct order \<and> set order = set valid_columns" and "widths_ok startWidths \<and> widths_ok widths"
    and "is_finite gridWidth \<and> 1 \<le> val gridWidth" and "is_finite startX \<and> clientX \<noteq> NaN"
    and "moveDepthColumn target (order, dragging) = (order', dragging')"
  shows "distinct order' \<and> set order' = set valid_columns \<and> dragging' = None
    \<and> widths_ok (resize_columns order' c startWidths gridWidth startX clientX widths)"
proof -
  have "distinct order' \<and> set order' = set valid_columns \<and> dragging' = None"
  proof (cases dragging)
    case (Some dragged)
    show ?thesis
    proof (cases "dragged = target")
      case False
      obtain rest i where rest: "rest = filter (\<lambda>c. c \<noteq> dragged) order" "order' = take i rest @ [dragged] @ drop i rest" "dragging' = None"
        using assms(5) False Some by (auto simp: moveDepthColumn_def Let_def)
      have "mset (take i rest) + mset (drop i rest) = mset rest" by (simp flip: mset_append)
      then have perm: "mset order' = mset (dragged # rest)" by (simp add: rest(2))
      have "distinct (dragged # rest) \<and> set (dragged # rest) = set valid_columns"
        using assms(1) valid_columns_all by (auto simp: rest(1))
      then show ?thesis using mset_eq_setD [OF perm] mset_eq_imp_distinct_iff [OF perm] rest(3) by simp
    qed (use assms Some in \<open>auto simp: moveDepthColumn_def\<close>)
  qed (use assms in \<open>auto simp: moveDepthColumn_def\<close>)
  then show ?thesis using resize_keeps_bounds assms(2,3,4) by blast
qed

lemma columns_stay_witness:
  "distinct [BidColumn, OrdersColumn, PriceColumn, AskColumn]
   \<and> widths_ok (resize_columns [BidColumn, OrdersColumn, PriceColumn, AskColumn] BidColumn (dl_columnWidths default_depth_settings)
       (Fin 400) (Fin 10) (Fin 300) (dl_columnWidths default_depth_settings))"
proof -
  have "moveDepthColumn PriceColumn (valid_columns, Some OrdersColumn) = ([BidColumn, OrdersColumn, PriceColumn, AskColumn], None)"
    by code_simp
  moreover have "distinct valid_columns \<and> set valid_columns = set valid_columns" by (simp add: valid_columns_def)
  moreover have "widths_ok (dl_columnWidths default_depth_settings) \<and> widths_ok (dl_columnWidths default_depth_settings)" by code_simp
  moreover have "is_finite (Fin 400) \<and> 1 \<le> val (Fin 400)" "is_finite (Fin 10) \<and> Fin 300 \<noteq> NaN" by simp_all
  ultimately show ?thesis using columns_stay by blast
qed

end
