(* ===== verification/DepthOrders.thy ===== *)
theory DepthOrders
  imports DepthLadder
begin

text \<open>
  The orders of the depth ladder in \<open>apps/terminal/src/components/WorkspaceCanvas.tsx\<close>: the orders it keeps
  itself, those of the shared exchange that it shows, and its handlers: submit, submit what is pending,
  cancel a group or a side, and move an order. A handler gives the new state and the requests it sends;
  the answers are steps of their own. Main results: the invariant of the orders over every run, what is
  sent by each handler, and four ways in which what is shown and what was sent part.
\<close>

subsection \<open>State\<close>

datatype depth_side = BidSide | AskSide

definition side_text :: "depth_side \<Rightarrow> string" where
  "side_text side = (case side of BidSide \<Rightarrow> ''BID'' | AskSide \<Rightarrow> ''ASK'')"

definition wire_side :: "depth_side \<Rightarrow> string" where
  "wire_side side = (case side of BidSide \<Rightarrow> ''bid'' | AskSide \<Rightarrow> ''offer'')"

datatype depth_status = OrderPending | OrderWorking | OrderFilled | OrderRejected

text \<open>The optional properties of an order, those of algos among them, are a dictionary.\<close>

record depth_order =
  lo_id :: string
  lo_side :: depth_side
  lo_priceKey :: string
  lo_size :: jsnum
  lo_orderType :: string
  lo_status :: depth_status
  lo_createdAt :: jsnum
  lo_rest :: jobj

record order_panel =
  ox_orders :: "depth_order list"
  ox_dragging :: "depth_order option"
  ox_dragTarget :: "string option"
  ox_defaultSize :: jsnum
  ox_status :: string
  ox_sequence :: nat
  ox_actionMode :: string
  ox_fastTrade :: bool

text \<open>What the window reads when a handler runs.\<close>

record ladder_env =
  le_marketKey :: "string option"
  le_simulation :: bool
  le_ready :: bool
  le_operator :: string
  le_tickSize :: "jsnum option"
  le_tickValue :: "jsnum option"

text \<open>A request: an order of the shared exchange or of the gateway, with its body, or a cancel.\<close>

datatype depth_request = SubmitShared jobj | PostOrder jobj | CancelShared string

subsection \<open>Orders of the shared exchange\<close>

definition order_fields :: "string list" where
  "order_fields = [''algoRole'', ''algoId'', ''algoName'', ''parentOrderId'', ''layer'', ''trigger'', ''coverTicksFromFill'',
     ''coverTickSize'', ''tickSize'', ''tickValue'']"

definition shared_order :: "jsnum \<Rightarrow> sim_order \<Rightarrow> depth_order" where
  "shared_order rowStep o1 =
     \<lparr>lo_id = so_id o1, lo_side = (if so_side o1 = ''bid'' then BidSide else AskSide), lo_priceKey = row_key rowStep (so_price o1),
      lo_size = so_remaining o1, lo_orderType = so_orderType o1, lo_status = OrderWorking, lo_createdAt = so_createdAt o1,
      lo_rest = [(''source'', Str (so_source o1)), (''strategy'', Str (so_strategy o1)), (''legId'', Str (so_legId o1)),
          (''orderTag'', coalesce (oget (so_rest o1) ''orderTag'') (Str (if so_source o1 = ''algo'' then ''ALGO ENTRY'' else ''MANUAL'')))]
        @ map (\<lambda>k. (k, oget (so_rest o1) k)) order_fields\<rparr>"

definition simDepthOrders :: "string option \<Rightarrow> string list \<Rightarrow> jsnum \<Rightarrow> sim_order list \<Rightarrow> depth_order list" where
  "simDepthOrders marketKey aliases rowStep simOrders =
     (if truthy_text marketKey = None \<or> \<not> is_finite rowStep \<or> jle rowStep (Fin 0) then []
      else map (shared_order rowStep) (filter (\<lambda>o1. normalizeProductKey (Str (so_marketKey o1)) \<in> set aliases
          \<and> so_status o1 \<in> {''working'', ''partially_filled''} \<and> jlt (Fin 0) (so_remaining o1)) simOrders))"

definition displayActiveOrders :: "bool \<Rightarrow> sim_order list \<Rightarrow> depth_order list \<Rightarrow> depth_order list" where
  "displayActiveOrders simulation simOrders orders =
     (if simulation then [] else filter (\<lambda>o1. lo_id o1 \<notin> so_id ` set simOrders) orders)"

definition open_order :: "depth_order \<Rightarrow> bool" where
  "open_order o1 \<longleftrightarrow> lo_status o1 = OrderPending \<or> lo_status o1 = OrderWorking"

definition in_group :: "depth_side \<Rightarrow> string \<Rightarrow> depth_order \<Rightarrow> bool" where
  "in_group side priceKey o1 \<longleftrightarrow> lo_side o1 = side \<and> lo_priceKey o1 = priceKey"

text \<open>The trader's own size at a row.\<close>

definition my_size :: "depth_side \<Rightarrow> depth_order list \<Rightarrow> depth_order list \<Rightarrow> string \<Rightarrow> jsnum" where
  "my_size side shown shared key = jadd (sum_of lo_size (filter (\<lambda>o1. in_group side key o1 \<and> open_order o1) shown))
     (sum_of lo_size (filter (in_group side key) shared))"

record working_totals =
  wt_bidOrders :: nat
  wt_askOrders :: nat
  wt_bidContracts :: jsnum
  wt_askContracts :: jsnum
  wt_totalOrders :: nat
  wt_totalContracts :: jsnum

definition workingTotals :: "depth_order list \<Rightarrow> depth_order list \<Rightarrow> working_totals" where
  "workingTotals shown shared =
     (let working = filter open_order shown @ shared;
          of_side = (\<lambda>side. filter (\<lambda>o1. lo_side o1 = side) working);
          contracts = (\<lambda>side. sum_of (\<lambda>o1. or_zero (lo_size o1)) (of_side side))
      in \<lparr>wt_bidOrders = length (of_side BidSide), wt_askOrders = length (of_side AskSide),
          wt_bidContracts = contracts BidSide, wt_askContracts = contracts AskSide,
          wt_totalOrders = length (of_side BidSide) + length (of_side AskSide),
          wt_totalContracts = jadd (contracts BidSide) (contracts AskSide)\<rparr>)"

definition activeForSide :: "depth_side \<Rightarrow> depth_order list \<Rightarrow> depth_order list \<Rightarrow> bool" where
  "activeForSide side shown shared \<longleftrightarrow> list_ex (\<lambda>o1. lo_side o1 = side \<and> open_order o1) shown
     \<or> list_ex (\<lambda>o1. lo_side o1 = side) shared"

record depth_position =
  dq_net :: jsnum
  dq_avg :: "jsnum option"
  dq_openPnl :: jsnum

definition localDepthPosition :: "string option \<Rightarrow> string list \<Rightarrow> sim_position list \<Rightarrow> depth_position" where
  "localDepthPosition marketKey aliases simPositions =
     (let live = (if truthy_text marketKey = None then []
            else filter (\<lambda>p. normalizeProductKey (Str (sp_marketKey p)) \<in> set aliases \<and> sp_status p = ''open'') simPositions);
          gross = sum_of (\<lambda>p. math_abs (or_zero (sp_size p))) live;
          notional = sum_of (\<lambda>p. jmul (or_zero (sp_avgPrice p)) (math_abs (or_zero (sp_size p)))) live
      in if live = [] then \<lparr>dq_net = Fin 0, dq_avg = None, dq_openPnl = Fin 0\<rparr>
         else \<lparr>dq_net = sum_of (\<lambda>p. or_zero (sp_size p)) live,
               dq_avg = (if jlt (Fin 0) gross then Some (jdiv notional gross) else None),
               dq_openPnl = sum_of (\<lambda>p. or_zero (sp_openPnl p)) live\<rparr>)"

subsection \<open>Handlers\<close>

definition applyDepthOrderState :: "ladder_env \<Rightarrow> order_panel \<Rightarrow> depth_order \<Rightarrow> depth_order" where
  "applyDepthOrderState env w o1 =
     o1\<lparr>lo_status := (if le_simulation env then (if lo_orderType o1 = ''market'' then OrderPending else OrderWorking)
        else if ox_fastTrade w then OrderWorking else OrderPending)\<rparr>"

definition post_body :: "string option \<Rightarrow> depth_order \<Rightarrow> jobj" where
  "post_body marketKey o1 =
     [(''orderId'', Str (lo_id o1)), (''clientOrderId'', Str (lo_id o1)), (''product'', opt_str marketKey), (''marketKey'', opt_str marketKey),
      (''symbol'', opt_str marketKey), (''side'', Str (side_text (lo_side o1))), (''price'', Num (string_number (lo_priceKey o1))),
      (''size'', Num (lo_size o1)), (''qty'', Num (lo_size o1)), (''orderType'', Str (lo_orderType o1)), (''source'', Str ''depth-ladder'')]"

definition shared_body :: "ladder_env \<Rightarrow> string \<Rightarrow> depth_order \<Rightarrow> jobj" where
  "shared_body env key o1 =
     [(''orderId'', Str (lo_id o1)), (''marketKey'', Str key), (''outcome'', Str ''yes''), (''side'', Str (wire_side (lo_side o1))),
      (''orderType'', Str (lo_orderType o1)), (''price'', Num (string_number (lo_priceKey o1))), (''size'', Num (lo_size o1)),
      (''operator'', Str (le_operator env)), (''source'', Str ''manual''), (''strategy'', Str ''depth-ladder''),
      (''legId'', Str (''depth-'' @ key @ ''-'' @ lo_priceKey o1 @ ''-'' @ side_text (lo_side o1))),
      (''tickSize'', opt_num (le_tickSize env)), (''tickValue'', opt_num (le_tickValue env))]"

definition order_id :: "jsnum \<Rightarrow> string \<Rightarrow> depth_side \<Rightarrow> string \<Rightarrow> nat \<Rightarrow> string" where
  "order_id now key side priceKey n =
     ''fut-'' @ key @ ''-'' @ side_text side @ ''-'' @ priceKey @ ''-'' @ num_text now @ ''-'' @ int_text (int n)"

definition submitDepthOrder ::
    "jsnum \<Rightarrow> ladder_env \<Rightarrow> depth_side \<Rightarrow> string \<Rightarrow> order_panel \<Rightarrow> order_panel \<times> depth_request list" where
  "submitDepthOrder now env side priceKey w = (case truthy_text (le_marketKey env) of
     None \<Rightarrow> (w, [])
   | Some key \<Rightarrow> if \<not> le_ready env then (w\<lparr>ox_status := ''Definition pending''\<rparr>, [])
       else (let n = ox_sequence w + 1; w' = w\<lparr>ox_sequence := n\<rparr>;
                 o1 = applyDepthOrderState env w
                   \<lparr>lo_id = order_id now key side priceKey n, lo_side = side, lo_priceKey = priceKey, lo_size = ox_defaultSize w,
                    lo_orderType = (if le_simulation env then ''limit'' else ox_actionMode w), lo_status = OrderPending,
                    lo_createdAt = now, lo_rest = []\<rparr>
             in if le_simulation env
                then (w'\<lparr>ox_status := ''Sending '' @ side_text side @ '' '' @ priceKey\<rparr>, [SubmitShared (shared_body env key o1)])
                else (w'\<lparr>ox_orders := slice_first 80 (o1 # ox_orders w)\<rparr>,
                      if ox_fastTrade w then [PostOrder (post_body (Some key) o1)] else [])))"

text \<open>An order that the gateway answers is left as it is, whatever the status of the answer; a request that
  fails marks its order rejected.\<close>

definition post_answered :: "string \<Rightarrow> jobj service_answer \<Rightarrow> order_panel \<Rightarrow> order_panel" where
  "post_answered i a w = (case a of
     RequestFailed m \<Rightarrow> w\<lparr>ox_orders := map (\<lambda>o1. if lo_id o1 = i then o1\<lparr>lo_status := OrderRejected\<rparr> else o1) (ox_orders w)\<rparr>
   | ServiceAnswer ok status body \<Rightarrow> w)"

definition submitPendingOrders :: "ladder_env \<Rightarrow> depth_side \<Rightarrow> string \<Rightarrow> order_panel \<Rightarrow> order_panel \<times> depth_request list" where
  "submitPendingOrders env side priceKey w =
     (let waits = (\<lambda>o1. in_group side priceKey o1 \<and> lo_status o1 = OrderPending);
          pending = filter waits (ox_orders w)
      in (w\<lparr>ox_orders := map (\<lambda>o1. if waits o1 then applyDepthOrderState env w (o1\<lparr>lo_status := OrderWorking\<rparr>) else o1) (ox_orders w)\<rparr>,
          if le_simulation env then [] else map (\<lambda>o1. PostOrder (post_body (le_marketKey env) o1)) pending))"

definition cancelOrderGroup :: "depth_side \<Rightarrow> string \<Rightarrow> depth_order list \<Rightarrow> order_panel \<Rightarrow> order_panel \<times> depth_request list" where
  "cancelOrderGroup side priceKey shared w =
     (w\<lparr>ox_orders := filter (\<lambda>o1. \<not> in_group side priceKey o1) (ox_orders w),
        ox_status := ''Cancel requested '' @ side_text side @ '' '' @ priceKey\<rparr>,
      map (CancelShared \<circ> lo_id) (filter (in_group side priceKey) shared))"

definition clearSide :: "depth_side option \<Rightarrow> depth_order list \<Rightarrow> order_panel \<Rightarrow> order_panel \<times> depth_request list" where
  "clearSide side shared w =
     (let hit = (\<lambda>o1. side = None \<or> side = Some (lo_side o1)) in
      (w\<lparr>ox_orders := filter (\<lambda>o1. \<not> hit o1) (ox_orders w),
         ox_status := (case side of None \<Rightarrow> ''Cancel requested all'' | Some d \<Rightarrow> ''Cancel requested '' @ side_text d)\<rparr>,
       map (CancelShared \<circ> lo_id) (filter hit shared)))"

definition failure_text :: "string \<Rightarrow> string option \<Rightarrow> string" where
  "failure_text what m = what @ '': '' @ get_or m ''gateway unavailable''"

definition cancel_answered ::
    "jsnum \<Rightarrow> depth_side \<Rightarrow> string \<Rightarrow> order_reply service_answer \<Rightarrow> order_panel \<Rightarrow> terminal_state \<Rightarrow> order_panel \<times> terminal_state" where
  "cancel_answered now side priceKey a w s = (case cancelSharedOrder now a s of (r, s') \<Rightarrow>
     (w\<lparr>ox_status := (case r of Inr u \<Rightarrow> ''Cancelled '' @ side_text side @ '' '' @ priceKey
        | Inl m \<Rightarrow> failure_text (''Cancel failed '' @ side_text side @ '' '' @ priceKey) m)\<rparr>, s'))"

definition clear_answered ::
    "jsnum \<Rightarrow> depth_side option \<Rightarrow> order_reply service_answer \<Rightarrow> order_panel \<Rightarrow> terminal_state \<Rightarrow> order_panel \<times> terminal_state" where
  "clear_answered now side a w s = (case cancelSharedOrder now a s of (r, s') \<Rightarrow>
     (w\<lparr>ox_status := (case r of Inr u \<Rightarrow> (case side of Some d \<Rightarrow> ''Cancelled '' @ side_text d | None \<Rightarrow> ''Cancelled all working orders'')
        | Inl m \<Rightarrow> failure_text ''Cancel failed'' m)\<rparr>, s'))"

text \<open>Moving the dragged order: its new body keeps what the order came with.\<close>

definition moved_body :: "ladder_env \<Rightarrow> string \<Rightarrow> string \<Rightarrow> depth_order \<Rightarrow> jobj" where
  "moved_body env key target o1 =
     (let rest = lo_rest o1; own = (\<lambda>k d. coalesce (oget rest k) d) in
      [(''orderId'', Str (lo_id o1)), (''marketKey'', Str key), (''outcome'', Str ''yes''), (''side'', Str (wire_side (lo_side o1))),
       (''orderType'', Str ''limit''), (''price'', Num (string_number target)), (''size'', Num (lo_size o1)),
       (''operator'', Str (le_operator env)), (''source'', own ''source'' (Str ''manual'')), (''strategy'', own ''strategy'' (Str ''depth-ladder'')),
       (''legId'', own ''legId'' (Str (''depth-'' @ key @ ''-'' @ target @ ''-'' @ side_text (lo_side o1))))]
      @ map (\<lambda>k. (k, oget rest k)) [''orderTag'', ''algoRole'', ''algoId'', ''algoName'', ''parentOrderId'', ''layer'', ''trigger'',
          ''coverTicksFromFill'', ''coverTickSize'']
      @ [(''tickSize'', own ''tickSize'' (opt_num (le_tickSize env))), (''tickValue'', own ''tickValue'' (opt_num (le_tickValue env)))])"

definition moveOrder :: "ladder_env \<Rightarrow> string \<Rightarrow> order_panel \<Rightarrow> order_panel \<times> (string \<times> jobj) option" where
  "moveOrder env target w = (case (ox_dragging w, truthy_text (le_marketKey env)) of
     (Some o1, Some key) \<Rightarrow>
       (let w' = w\<lparr>ox_dragging := None, ox_dragTarget := None\<rparr> in
        if target = lo_priceKey o1 then (w', None)
        else (let orders = map (\<lambda>o2. if lo_id o2 = lo_id o1 then applyDepthOrderState env w (o2\<lparr>lo_priceKey := target, lo_status := OrderPending\<rparr>) else o2)
                    (ox_orders w)
          in if le_simulation env
             then (w'\<lparr>ox_orders := orders, ox_status := ''Modify requested '' @ lo_id o1\<rparr>, Some (lo_id o1, moved_body env key target o1))
             else (w'\<lparr>ox_orders := orders\<rparr>, None)))
   | _ \<Rightarrow> (w, None))"

text \<open>The modification itself: a cancel and, when it is accepted, a new order of the same id.\<close>

definition modify_answered ::
    "jsnum \<Rightarrow> string \<Rightarrow> order_reply service_answer \<Rightarrow> order_reply service_answer \<Rightarrow> order_panel \<Rightarrow> terminal_state \<Rightarrow> order_panel \<times> terminal_state" where
  "modify_answered now i cancelled submitted w s =
     (let failed = (\<lambda>m. failure_text (''Modify failed '' @ i) m) in
      case cancelSharedOrder now cancelled s of
        (Inl m, s1) \<Rightarrow> (w\<lparr>ox_status := failed m\<rparr>, s1)
      | (Inr u, s1) \<Rightarrow> (case submitSharedOrder now submitted s1 of
            (Inl m, s2) \<Rightarrow> (w\<lparr>ox_status := failed m\<rparr>, s2)
          | (Inr r, s2) \<Rightarrow> (w\<lparr>ox_status := ''Modified '' @ i\<rparr>, s2)))"

definition press_order :: "depth_order \<Rightarrow> string \<Rightarrow> order_panel \<Rightarrow> order_panel" where
  "press_order o1 priceKey w = (if lo_status o1 = OrderFilled then w else w\<lparr>ox_dragging := Some o1, ox_dragTarget := Some priceKey\<rparr>)"

definition drag_over :: "string \<Rightarrow> order_panel \<Rightarrow> order_panel" where
  "drag_over priceKey w = (if ox_dragging w = None then w else w\<lparr>ox_dragTarget := Some priceKey\<rparr>)"

definition release_order :: "ladder_env \<Rightarrow> order_panel \<Rightarrow> order_panel \<times> (string \<times> jobj) option" where
  "release_order env w = (if ox_dragging w = None then (w, None)
     else case truthy_text (ox_dragTarget w) of Some target \<Rightarrow> moveOrder env target w | None \<Rightarrow> (w\<lparr>ox_dragging := None\<rparr>, None))"

definition set_default_size :: "jsv \<Rightarrow> order_panel \<Rightarrow> order_panel" where
  "set_default_size v w = w\<lparr>ox_defaultSize := math_max (Fin 1) (let n = to_num v in if num_truthy n then n else Fin 1)\<rparr>"

definition reset_orders :: "order_panel \<Rightarrow> order_panel" where
  "reset_orders w = w\<lparr>ox_orders := [], ox_dragging := None, ox_dragTarget := None\<rparr>"

subsection \<open>Runs\<close>

datatype order_event =
    SubmitAt jsnum ladder_env depth_side string
  | SubmitPendingAt ladder_env depth_side string
  | PostAnswered string "jobj service_answer"
  | CancelAt depth_side string "depth_order list"
  | ClearOrders "depth_side option" "depth_order list"
  | PressOrder depth_order string
  | DragOver string
  | DropOn ladder_env string
  | ReleaseOrder ladder_env
  | SetSize jsv
  | ChooseAction string
  | ToggleFast
  | StatusText string
  | MarketChanges

fun order_step :: "order_event \<Rightarrow> order_panel \<Rightarrow> order_panel" where
  "order_step (SubmitAt now env side key) w = fst (submitDepthOrder now env side key w)"
| "order_step (SubmitPendingAt env side key) w = fst (submitPendingOrders env side key w)"
| "order_step (PostAnswered i a) w = post_answered i a w"
| "order_step (CancelAt side key shared) w = fst (cancelOrderGroup side key shared w)"
| "order_step (ClearOrders side shared) w = fst (clearSide side shared w)"
| "order_step (PressOrder o1 key) w = press_order o1 key w"
| "order_step (DragOver key) w = drag_over key w"
| "order_step (DropOn env key) w = (if ox_dragging w = None then w else fst (moveOrder env key w))"
| "order_step (ReleaseOrder env) w = fst (release_order env w)"
| "order_step (SetSize v) w = set_default_size v w"
| "order_step (ChooseAction m) w = w\<lparr>ox_actionMode := m\<rparr>"
| "order_step ToggleFast w = w\<lparr>ox_fastTrade := \<not> ox_fastTrade w\<rparr>"
| "order_step (StatusText t) w = w\<lparr>ox_status := t\<rparr>"
| "order_step MarketChanges w = reset_orders w"

definition first_panel :: "depth_ladder_settings \<Rightarrow> order_panel" where
  "first_panel d = \<lparr>ox_orders = [], ox_dragging = None, ox_dragTarget = None, ox_defaultSize = Fin 1, ox_status = [],
     ox_sequence = 0, ox_actionMode = dl_actionMode d, ox_fastTrade = dl_fastTrade d\<rparr>"

text \<open>The orders stay within their number, are told apart by their ids, and have a size of one at least.\<close>

definition numbered :: "nat \<Rightarrow> string \<Rightarrow> bool" where
  "numbered n i \<longleftrightarrow> (\<exists>before k. i = before @ ''-'' @ int_text (int k) \<and> k \<le> n)"

definition sized :: "jsnum \<Rightarrow> bool" where "sized q \<longleftrightarrow> q \<noteq> NaN \<and> jle (Fin 1) q"

definition orders_ok :: "order_panel \<Rightarrow> bool" where
  "orders_ok w \<longleftrightarrow> length (ox_orders w) \<le> 80 \<and> distinct (map lo_id (ox_orders w))
     \<and> (\<forall>o1\<in>set (ox_orders w). numbered (ox_sequence w) (lo_id o1) \<and> sized (lo_size o1)) \<and> sized (ox_defaultSize w)"

lemma last_part:
  assumes "CHR ''-'' \<notin> set t" "CHR ''-'' \<notin> set u" "a @ CHR ''-'' # t = b @ CHR ''-'' # u"
  shows "t = u"
proof -
  have "takeWhile (\<lambda>c. c \<noteq> CHR ''-'') (rev (a @ CHR ''-'' # t)) = rev t"
    "takeWhile (\<lambda>c. c \<noteq> CHR ''-'') (rev (b @ CHR ''-'' # u)) = rev u"
    using assms(1,2) by (auto simp: takeWhile_append)
  then show ?thesis using assms(3) by simp
qed

lemma dash_not_digit: "CHR ''-'' \<notin> set (int_text (int n))"
  using int_text_list_all [of "int n"] by (auto simp: list_all_iff is_digit_def)

lemma numbered_new: "numbered n i \<Longrightarrow> i \<noteq> before @ ''-'' @ int_text (int (Suc n))"
proof
  assume "numbered n i" "i = before @ ''-'' @ int_text (int (Suc n))"
  then obtain p k where "p @ CHR ''-'' # int_text (int k) = before @ CHR ''-'' # int_text (int (Suc n))" "k \<le> n"
    by (auto simp: numbered_def)
  with last_part [OF dash_not_digit dash_not_digit this(1)] show False by (metis Suc_n_not_le_n of_nat_eq_iff text_int_text of_nat_0_le_iff)
qed

lemma numbered_mono: "numbered n i \<Longrightarrow> n \<le> m \<Longrightarrow> numbered m i"
  unfolding numbered_def using le_trans by blast

lemma order_id_numbered: "numbered n (order_id now key side priceKey n)" "\<exists>before. order_id now key side priceKey n = before @ ''-'' @ int_text (int n)"
  unfolding numbered_def order_id_def by (metis append.assoc order_refl)+

lemma kept_orders_ok:
  assumes "orders_ok w" "ox_orders w' = map f (filter P (ox_orders w))" "ox_sequence w' = ox_sequence w" "ox_defaultSize w' = ox_defaultSize w"
    "\<And>o1. lo_id (f o1) = lo_id o1 \<and> lo_size (f o1) = lo_size o1"
  shows "orders_ok w'"
  using assms le_trans [OF length_filter_le [of P "ox_orders w"], of 80]
  by (auto simp: orders_ok_def comp_def distinct_map_filter)

lemma state_keeps [simp]: "lo_id (applyDepthOrderState env w o1) = lo_id o1" "lo_size (applyDepthOrderState env w o1) = lo_size o1"
  by (simp_all add: applyDepthOrderState_def)

lemma submit_ok:
  assumes "orders_ok w"
  shows "orders_ok (fst (submitDepthOrder now env side key w))"
proof (cases "truthy_text (le_marketKey env)")
  case (Some k)
  show ?thesis
  proof (cases "le_ready env \<and> \<not> le_simulation env")
    case True
    obtain o1 where o1: "lo_id o1 = order_id now k side key (Suc (ox_sequence w))" "lo_size o1 = ox_defaultSize w"
      "ox_orders (fst (submitDepthOrder now env side key w)) = slice_first 80 (o1 # ox_orders w)"
      using that [of "applyDepthOrderState env w \<lparr>lo_id = order_id now k side key (Suc (ox_sequence w)), lo_side = side, lo_priceKey = key,
          lo_size = ox_defaultSize w, lo_orderType = ox_actionMode w, lo_status = OrderPending, lo_createdAt = now, lo_rest = []\<rparr>"] True
      by (simp add: submitDepthOrder_def Some Let_def)
    have fresh: "lo_id o1 \<notin> lo_id ` set (ox_orders w)"
      using assms numbered_new order_id_numbered(2) [of now k side key "Suc (ox_sequence w)"] unfolding o1(1) orders_ok_def by fastforce
    have sub: "set (slice_first 80 (o1 # ox_orders w)) \<subseteq> set (o1 # ox_orders w)" by (auto simp: slice_first_def dest: in_set_takeD)
    have "distinct (map lo_id (slice_first 80 (o1 # ox_orders w)))"
      unfolding slice_first_def take_map [symmetric]
      by (rule distinct_take) (use assms fresh in \<open>simp add: orders_ok_def\<close>)
    moreover have "ox_sequence (fst (submitDepthOrder now env side key w)) = Suc (ox_sequence w)"
      "ox_defaultSize (fst (submitDepthOrder now env side key w)) = ox_defaultSize w"
      using True by (simp_all add: submitDepthOrder_def Some Let_def)
    ultimately show ?thesis
      using assms sub numbered_mono [of "ox_sequence w" _ "Suc (ox_sequence w)"] order_id_numbered(1) [of "Suc (ox_sequence w)" now k side key]
      by (auto simp: orders_ok_def o1(3) o1(1,2) length_slice_first dest!: subsetD [OF sub])
  qed (use assms numbered_mono [of "ox_sequence w" _ "Suc (ox_sequence w)"] in \<open>auto simp: submitDepthOrder_def Some Let_def orders_ok_def\<close>)
qed (use assms in \<open>auto simp: submitDepthOrder_def\<close>)

lemma mapped_orders_ok:
  assumes "orders_ok w" "\<And>o1. lo_id (f o1) = lo_id o1 \<and> lo_size (f o1) = lo_size o1"
    "ox_orders w' = map f (ox_orders w)" "ox_sequence w' = ox_sequence w" "ox_defaultSize w' = ox_defaultSize w"
  shows "orders_ok w'"
  by (rule kept_orders_ok [OF assms(1) _ assms(4,5,2), of "\<lambda>o1. True"]) (simp add: assms(3))

lemma filtered_orders_ok:
  assumes "orders_ok w" "ox_orders w' = filter P (ox_orders w)" "ox_sequence w' = ox_sequence w" "ox_defaultSize w' = ox_defaultSize w"
  shows "orders_ok w'"
  by (rule kept_orders_ok [OF assms(1) _ assms(3,4), of id]) (simp_all add: assms(2))

lemma move_ok:
  assumes "orders_ok w"
  shows "orders_ok (fst (moveOrder env key w))"
proof (cases "ox_dragging w")
  case (Some o1)
  show ?thesis
    by (rule mapped_orders_ok [OF assms, of "if truthy_text (le_marketKey env) = None \<or> key = lo_priceKey o1 then id
        else (\<lambda>o2. if lo_id o2 = lo_id o1 then applyDepthOrderState env w (o2\<lparr>lo_priceKey := key, lo_status := OrderPending\<rparr>) else o2)"])
      (auto simp: moveOrder_def Some Let_def split: option.splits)
qed (simp add: moveOrder_def assms)

lemma sized_default: "sized (math_max (Fin 1) (if num_truthy n then n else Fin 1))"
  using max_above [of "Fin 1" "if num_truthy n then n else Fin 1"] by (auto simp: sized_def num_truthy_def)

lemma order_step_ok: "orders_ok w \<Longrightarrow> orders_ok (order_step e w)"
proof (cases e)
  case (SubmitPendingAt env side key)
  assume ok: "orders_ok w"
  show ?thesis
    by (rule mapped_orders_ok [OF ok, of "\<lambda>o1. if in_group side key o1 \<and> lo_status o1 = OrderPending
        then applyDepthOrderState env w (o1\<lparr>lo_status := OrderWorking\<rparr>) else o1"])
      (auto simp: SubmitPendingAt submitPendingOrders_def Let_def)
next
  case (PostAnswered i a)
  assume ok: "orders_ok w"
  show ?thesis
    by (rule mapped_orders_ok [OF ok, of "case a of RequestFailed m \<Rightarrow> (\<lambda>o1. if lo_id o1 = i then o1\<lparr>lo_status := OrderRejected\<rparr> else o1)
        | ServiceAnswer ok2 status body \<Rightarrow> id"])
      (auto simp: PostAnswered post_answered_def split: service_answer.splits)
next
  case (CancelAt side key shared)
  assume ok: "orders_ok w"
  show ?thesis by (rule filtered_orders_ok [OF ok]) (auto simp: CancelAt cancelOrderGroup_def)
next
  case (ClearOrders side shared)
  assume ok: "orders_ok w"
  show ?thesis by (rule filtered_orders_ok [OF ok]) (auto simp: ClearOrders clearSide_def Let_def)
next
  case (ReleaseOrder env)
  assume "orders_ok w"
  then show ?thesis
    using move_ok by (auto simp: ReleaseOrder release_order_def orders_ok_def split: option.splits)
next
  case (DropOn env key)
  assume "orders_ok w"
  then show ?thesis using move_ok by (simp add: DropOn)
next
  case (SubmitAt now env side key)
  assume "orders_ok w"
  then show ?thesis using submit_ok by (simp add: SubmitAt)
next
  case (SetSize v)
  assume "orders_ok w"
  then show ?thesis using sized_default by (simp add: SetSize set_default_size_def Let_def orders_ok_def)
qed (auto simp: orders_ok_def press_order_def drag_over_def reset_orders_def)

text \<open>C16. The orders of a ladder: whatever the trader and the gateway do in whatever order, the ladder holds at
  most 80 orders, no two of the same id (ids made at the same moment included), and the size of each and
  the size of the next are numbers of one at least.\<close>

theorem ladder_orders_invariant:
  "orders_ok (fold order_step events (first_panel d))"
proof -
  have "orders_ok w \<Longrightarrow> orders_ok (fold order_step events w)" for w
    by (induction events arbitrary: w) (simp_all add: order_step_ok)
  moreover have "orders_ok (first_panel d)" by (simp add: orders_ok_def first_panel_def sized_def jle_refl_iff)
  ultimately show ?thesis by blast
qed

subsection \<open>Where the ladder and what was sent part\<close>

lemma group_after_cancel: "filter (in_group side key) (ox_orders (fst (cancelOrderGroup side key shared w))) = []"
  by (simp add: cancelOrderGroup_def filter_empty_conv)

text \<open>A pending order that a double click is to send: submitting alone sends it, but the first click of the
  double click has cancelled its group, so that nothing is left to send and the order is gone.\<close>

theorem double_click_sends_nothing:
  assumes "\<not> le_simulation env" and "o1 \<in> set (ox_orders w) \<and> in_group side key o1 \<and> lo_status o1 = OrderPending"
  shows "PostOrder (post_body (le_marketKey env) o1) \<in> set (snd (submitPendingOrders env side key w))
    \<and> submitPendingOrders env side key (fst (cancelOrderGroup side key shared w)) = (fst (cancelOrderGroup side key shared w), [])
    \<and> o1 \<notin> set (ox_orders (fst (cancelOrderGroup side key shared w)))"
proof -
  obtain v where v: "v = fst (cancelOrderGroup side key shared w)" by blast
  have none: "\<forall>o2\<in>set (ox_orders v). \<not> in_group side key o2"
    using group_after_cancel [of side key shared w] by (simp add: v filter_empty_conv)
  then have "map (\<lambda>o2. if in_group side key o2 \<and> lo_status o2 = OrderPending
      then applyDepthOrderState env v (o2\<lparr>lo_status := OrderWorking\<rparr>) else o2) (ox_orders v) = ox_orders v"
    by (intro map_idI) auto
  moreover have "filter (\<lambda>o2. in_group side key o2 \<and> lo_status o2 = OrderPending) (ox_orders v) = []"
    using none by (simp add: filter_empty_conv)
  ultimately have "submitPendingOrders env side key v = (v, [])" by (simp add: submitPendingOrders_def Let_def)
  then show ?thesis using assms none unfolding v by (auto simp: submitPendingOrders_def Let_def)
qed

text \<open>Without fast trading an order that is sent stays pending: submitting leaves the ladder as it was, and
  submitting again sends every order again.\<close>

theorem pending_sent_again:
  assumes "\<not> le_simulation env" and "\<not> ox_fastTrade w"
    and "o1 \<in> set (ox_orders w) \<and> in_group side key o1 \<and> lo_status o1 = OrderPending"
  shows "fst (submitPendingOrders env side key w) = w
    \<and> PostOrder (post_body (le_marketKey env) o1) \<in> set (snd (submitPendingOrders env side key w))
    \<and> snd (submitPendingOrders env side key (fst (submitPendingOrders env side key w))) = snd (submitPendingOrders env side key w)"
proof -
  have "map (\<lambda>o2. if in_group side key o2 \<and> lo_status o2 = OrderPending
      then applyDepthOrderState env w (o2\<lparr>lo_status := OrderWorking\<rparr>) else o2) (ox_orders w) = ox_orders w"
    using assms(1,2) by (intro map_idI) (auto simp: applyDepthOrderState_def)
  then have "fst (submitPendingOrders env side key w) = w" by (simp add: submitPendingOrders_def Let_def)
  then show ?thesis using assms by (auto simp: submitPendingOrders_def Let_def)
qed

text \<open>A fast order that the gateway refuses: it is sent and shown as working, and an answer that refuses it
  leaves it so; only a request that does not get through marks it rejected. A working order that is moved
  is shown at its new price although nothing is sent.\<close>

theorem refused_order_works:
  assumes "\<not> le_simulation env \<and> le_ready env \<and> ox_fastTrade w" and "truthy_text (le_marketKey env) = Some market"
    and "submitDepthOrder now env side key w = (w', requests)" and "o1 = hd (ox_orders w')"
    and "target \<noteq> key"
  shows "requests = [PostOrder (post_body (Some market) o1)] \<and> lo_status o1 = OrderWorking
    \<and> o1 \<in> set (ox_orders (post_answered (lo_id o1) (ServiceAnswer False status body) w'))
    \<and> lo_status (hd (ox_orders (post_answered (lo_id o1) (RequestFailed m) w'))) = OrderRejected
    \<and> snd (moveOrder env target (press_order o1 key w')) = None
    \<and> o1\<lparr>lo_priceKey := target\<rparr> \<in> set (ox_orders (fst (moveOrder env target (press_order o1 key w'))))"
proof -
  obtain o2 where o2: "o2 = applyDepthOrderState env w \<lparr>lo_id = order_id now market side key (Suc (ox_sequence w)), lo_side = side,
      lo_priceKey = key, lo_size = ox_defaultSize w, lo_orderType = ox_actionMode w, lo_status = OrderPending, lo_createdAt = now, lo_rest = []\<rparr>" by blast
  have w': "w' = w\<lparr>ox_sequence := Suc (ox_sequence w), ox_orders := slice_first 80 (o2 # ox_orders w)\<rparr>"
      and requests: "requests = [PostOrder (post_body (Some market) o2)]"
    using assms(1-3) by (auto simp: submitDepthOrder_def Let_def o2)
  have orders: "ox_orders w' = o2 # take 79 (ox_orders w)" by (simp add: w' slice_first_def)
  then have o1: "o1 = o2" by (simp add: assms(4))
  have st: "lo_status o1 = OrderWorking" "lo_priceKey o1 = key" "ox_fastTrade w'"
    using assms(1) by (simp_all add: o1 o2 applyDepthOrderState_def w')
  show ?thesis
    using assms(1,2,5) st unfolding requests
    by (simp add: o1 post_answered_def orders press_order_def moveOrder_def applyDepthOrderState_def Let_def)
qed

text \<open>Modifying an order is not one step: when the cancel is accepted and the new order refused, the order is
  gone from the exchange, the store has the state after the cancel, and the ladder says that the
  modification failed.\<close>

theorem failed_modify_cancels:
  assumes "truthy (oget (or_body reply) ''ok'')" and "\<not> truthy (oget (or_body refusal) ''ok'')"
    and "modify_answered now i (ServiceAnswer True st1 reply) (ServiceAnswer ok2 st2 refusal) w s = (w', s')"
  shows "s' = apply_reply_state now (or_state reply) s
    \<and> ox_status w' = ''Modify failed '' @ i @ '': '' @ reply_error ''Order'' st2 (or_body refusal)
    \<and> ox_orders w' = ox_orders w"
  using assms by (auto simp: modify_answered_def cancelSharedOrder_def submitSharedOrder_def Let_def failure_text_def get_or_def)

subsection \<open>Samples\<close>

definition sample_env :: ladder_env where
  "sample_env = \<lparr>le_marketKey = Some ''ES'', le_simulation = False, le_ready = True, le_operator = ''desk'', le_tickSize = None,
     le_tickValue = None\<rparr>"

definition sample_panel :: order_panel where
  "sample_panel = fst (submitDepthOrder (Fin 7) sample_env BidSide ''100'' (first_panel default_depth_settings))"

definition sample_order :: depth_order where
  "sample_order = \<lparr>lo_id = order_id (Fin 7) ''ES'' BidSide ''100'' 1, lo_side = BidSide, lo_priceKey = ''100'', lo_size = Fin 1,
     lo_orderType = ''limit'', lo_status = OrderPending, lo_createdAt = Fin 7, lo_rest = []\<rparr>"

lemma sample_pending: "ox_orders sample_panel = [sample_order]" "\<not> ox_fastTrade sample_panel" "\<not> le_simulation sample_env"
  by (simp_all add: sample_panel_def sample_order_def submitDepthOrder_def first_panel_def sample_env_def default_depth_settings_def
      truthy_text_def applyDepthOrderState_def slice_first_def)

lemma double_click_sends_nothing_witness:
  "snd (submitPendingOrders sample_env BidSide ''100'' (fst (cancelOrderGroup BidSide ''100'' [] sample_panel))) = []
   \<and> PostOrder (post_body (Some ''ES'') sample_order) \<in> set (snd (submitPendingOrders sample_env BidSide ''100'' sample_panel))"
  using double_click_sends_nothing [of sample_env sample_order sample_panel BidSide "''100''" "[]"] sample_pending
  by (simp add: sample_order_def in_group_def sample_env_def)

lemma pending_sent_again_witness:
  "snd (submitPendingOrders sample_env BidSide ''100'' (fst (submitPendingOrders sample_env BidSide ''100'' sample_panel))) =
     [PostOrder (post_body (Some ''ES'') sample_order)]"
proof -
  have "snd (submitPendingOrders sample_env BidSide ''100'' sample_panel) = [PostOrder (post_body (Some ''ES'') sample_order)]"
    using sample_pending by (simp add: submitPendingOrders_def Let_def in_group_def) (simp add: sample_order_def sample_env_def)
  then show ?thesis
    using pending_sent_again [of sample_env sample_panel sample_order BidSide "''100''"] sample_pending
    by (simp add: in_group_def) (simp add: sample_order_def)
qed

lemma refused_order_works_witness:
  "lo_status (hd (ox_orders (post_answered (order_id (Fin 7) ''ES'' BidSide ''100'' 1) (ServiceAnswer False (Fin 400) [])
      (fst (submitDepthOrder (Fin 7) sample_env BidSide ''100'' ((first_panel default_depth_settings)\<lparr>ox_fastTrade := True\<rparr>)))))) = OrderWorking"
proof -
  obtain w where w: "w = (first_panel default_depth_settings)\<lparr>ox_fastTrade := True\<rparr>" by blast
  obtain w' requests where sent: "submitDepthOrder (Fin 7) sample_env BidSide ''100'' w = (w', requests)"
    by (cases "submitDepthOrder (Fin 7) sample_env BidSide ''100'' w")
  have env: "\<not> le_simulation sample_env \<and> le_ready sample_env \<and> ox_fastTrade w" "truthy_text (le_marketKey sample_env) = Some ''ES''"
    by (simp_all add: sample_env_def w truthy_text_def)
  have "lo_status (hd (ox_orders w')) = OrderWorking"
    using refused_order_works [OF env sent refl, of "''101''"] by simp
  then show ?thesis using sent by (simp add: w post_answered_def)
qed

lemma failed_modify_cancels_witness:
  "ox_status (fst (modify_answered (Fin 9) ''x1'' (ServiceAnswer True (Fin 200) \<lparr>or_body = [(''ok'', Bool True)], or_state = None, or_order = Null\<rparr>)
     (ServiceAnswer False (Fin 409) \<lparr>or_body = [(''detail'', Str ''closed'')], or_state = None, or_order = Null\<rparr>) sample_panel initial_state)) =
   ''Modify failed x1: closed''"
proof -
  obtain w' s' where step: "modify_answered (Fin 9) ''x1'' (ServiceAnswer True (Fin 200) \<lparr>or_body = [(''ok'', Bool True)], or_state = None, or_order = Null\<rparr>)
     (ServiceAnswer False (Fin 409) \<lparr>or_body = [(''detail'', Str ''closed'')], or_state = None, or_order = Null\<rparr>) sample_panel initial_state = (w', s')"
    by (metis prod.collapse)
  have "truthy (oget (or_body \<lparr>or_body = [(''ok'', Bool True)], or_state = None, or_order = Null\<rparr>) ''ok'')"
    "\<not> truthy (oget (or_body \<lparr>or_body = [(''detail'', Str ''closed'')], or_state = None, or_order = Null\<rparr>) ''ok'')"
    by (simp_all add: oget_def truthy_def)
  from failed_modify_cancels [OF this step] show ?thesis
    unfolding step by (simp add: reply_error_def js_or_def oget_def truthy_def)
qed

end
