(* ===== verification/Products.thy ===== *)
theory Products
  imports Execution AlgoHook
begin

text \<open>
  The product catalogue of \<open>apps/terminal/src/components/WorkspaceCanvas.tsx\<close>: the options made from the
  markets of the store and their order, the lists of the liquidity map and of the product picker, the
  option of a saved row, the handlers of the product selector, and the readiness poll of the services.
  Main results: the catalogue holds one option per market in the order of the server's assets, and the
  line of the readiness says that everything is ready exactly when it is.
\<close>

subsection \<open>Options and their order\<close>

definition product_of_market :: "market_info \<Rightarrow> product_option" where
  "product_of_market market =
     \<lparr>po_provider = ''cme'', po_symbol = mk_key market, po_label = mk_key market, po_subtitle = mk_question market,
      po_marketKey = Some (mk_key market), po_asset = Some (mk_asset market), po_timeframe = Some (mk_timeframe market),
      po_yes = Some (mk_up_pct market), po_no = Some (mk_down_pct market),
      po_truthYes = mk_truth_up_pct market, po_truthNo = mk_truth_down_pct market,
      po_spot = first_some [mk_price_to_beat market, mk_resolution_price market, mk_start_price market],
      po_priceToBeat = first_some [mk_price_to_beat market, mk_start_price market, mk_resolution_price market],
      po_expiryTs = Some (mk_expiry_ts market), po_volume = Some (mk_volume market), po_openInterest = None,
      po_lastUpdate = mk_last_update_ms market, po_live = Some (mk_live market),
      po_marketStatus = mk_marketStatus market, po_marketStatusDetail = mk_marketStatusDetail market,
      po_tickSize = mk_tickSize market, po_tickValue = mk_tickValue market\<rparr>"

text \<open>The assets that the server names, in the order of their first mention. An asset that it does not
  name comes after them in the fixed order, any other one last.\<close>

definition server_assets :: "string option list \<Rightarrow> string list" where
  "server_assets xs = dedup_by (=) (List.map_filter (\<lambda>a. truthy_text a) xs)"

definition asset_rank :: "string list \<Rightarrow> string option \<Rightarrow> int" where
  "asset_rank server asset =
     (case find_index (\<lambda>a. Some a = asset) server of
        Some i \<Rightarrow> int i
      | None \<Rightarrow> (case find_index (\<lambda>a. a = get_or asset ''EVENT'') product_assets of
            Some i \<Rightarrow> int (length server + i)
          | None \<Rightarrow> 9007199254740991))"

text \<open>A comparison by rank, and by the texts where the ranks are the same.\<close>

definition ranked :: "('a \<Rightarrow> int) \<Rightarrow> (string \<Rightarrow> string \<Rightarrow> int) \<Rightarrow> ('a \<Rightarrow> string) \<Rightarrow> 'a \<Rightarrow> 'a \<Rightarrow> bool" where
  "ranked rank lc name a b \<longleftrightarrow> rank a < rank b \<or> rank a = rank b \<and> lc (name a) (name b) \<le> 0"

definition useProductOptions :: "(string \<Rightarrow> string \<Rightarrow> int) \<Rightarrow> market_info list \<Rightarrow> product_option list" where
  "useProductOptions lc markets =
     (let server = server_assets (map (\<lambda>m. Some (mk_asset m)) markets) in
      sort_js (ranked (asset_rank server \<circ> po_asset) lc po_symbol) (map product_of_market markets))"

definition provider_rank :: "string \<Rightarrow> int" where
  "provider_rank key = (case find_index (\<lambda>p. pd_key p = key) providers of Some i \<Rightarrow> int i | None \<Rightarrow> - 1)"

definition mappedLiquidityProducts :: "(string \<Rightarrow> string \<Rightarrow> int) \<Rightarrow> product_option list \<Rightarrow> product_option list" where
  "mappedLiquidityProducts lc options =
     (let server = server_assets (map po_asset options) in
      sort_js (\<lambda>a b. provider_rank (po_provider a) < provider_rank (po_provider b)
         \<or> provider_rank (po_provider a) = provider_rank (po_provider b)
           \<and> ranked (asset_rank server \<circ> po_asset) lc po_symbol a b) options)"

text \<open>The list of a provider in the picker, for what is typed there.\<close>

definition picker_matches :: "string \<Rightarrow> product_option \<Rightarrow> bool" where
  "picker_matches query option =
     (let q = to_lower (trim query) in
      q = [] \<or> str_includes q (to_lower (po_label option @ '' '' @ po_symbol option @ '' '' @ po_subtitle option)))"

definition visibleForProvider ::
    "(string \<Rightarrow> string \<Rightarrow> int) \<Rightarrow> product_option list \<Rightarrow> string \<Rightarrow> string \<Rightarrow> product_option list" where
  "visibleForProvider lc options query provider =
     (let mapped = filter (\<lambda>o1. truthy_text (po_asset o1) \<noteq> None) options;
          server = server_assets (map po_asset mapped)
      in sort_js (ranked (asset_rank server \<circ> po_asset) lc po_label)
           (filter (picker_matches query) (filter (\<lambda>o1. po_provider o1 = provider) mapped)))"

text \<open>The option of a row that was saved; until the catalogue holds it, one made from its symbol.\<close>

record market_row =
  rw_id :: string
  rw_provider :: string
  rw_symbol :: string

definition productOptionForSavedRow :: "product_option list \<Rightarrow> market_row \<Rightarrow> product_option" where
  "productOptionForSavedRow options row =
     (case find (\<lambda>item. po_provider item = rw_provider row \<and> po_symbol item = rw_symbol row) options of
        Some existing \<Rightarrow> existing
      | None \<Rightarrow>
          (let symbol = (let k = normalizeProductKey (Str (rw_symbol row)) in
                if k \<noteq> [] then k else to_upper (trim (rw_symbol row)))
           in \<lparr>po_provider = normalizeProviderKey (Str (rw_provider row)), po_symbol = symbol, po_label = symbol,
               po_subtitle = symbol @ '' mapped product'', po_marketKey = Some symbol,
               po_asset = (if symbol \<in> set product_assets then Some symbol else None), po_timeframe = None,
               po_yes = None, po_no = None, po_truthYes = None, po_truthNo = None, po_spot = None,
               po_priceToBeat = None, po_expiryTs = None, po_volume = None, po_openInterest = None,
               po_lastUpdate = None, po_live = Some True, po_marketStatus = Some ''WAITING'',
               po_marketStatusDetail = Some ''waiting for product catalog refresh'', po_tickSize = None,
               po_tickValue = None\<rparr>))"

text \<open>Whether an option is there and is one of the exchange.\<close>

definition is_cme :: "product_option option \<Rightarrow> bool" where
  "is_cme option \<longleftrightarrow> map_option po_provider option = Some ''cme''"

text \<open>The rows of a product, under its market key.\<close>

definition rows_of :: "product_option option \<Rightarrow> 'a list dict \<Rightarrow> 'a list" where
  "rows_of option d = (case truthy_text (Option.bind option po_marketKey) of
     None \<Rightarrow> [] | Some k \<Rightarrow> get_or (dict_get d k) [])"

subsection \<open>The product selector\<close>

text \<open>Each handler answers the new store and what it hands to \<open>onSelect\<close>.\<close>

definition pick_option :: "product_option option \<Rightarrow> terminal_state \<Rightarrow> terminal_state" where
  "pick_option choice s =
     (let s1 = (case Option.bind choice (\<lambda>o1. truthy_text (po_marketKey o1)) of
            None \<Rightarrow> s | Some k \<Rightarrow> setActiveMarketKey (Some k) s)
      in case Option.bind choice (\<lambda>o1. truthy_text (po_asset o1)) of None \<Rightarrow> s1 | Some a \<Rightarrow> setActiveAsset a s1)"

definition selectProvider :: "product_option list \<Rightarrow> string \<Rightarrow> terminal_state \<Rightarrow> terminal_state \<times> string \<times> string" where
  "selectProvider options nextProvider s =
     (let p = normalizeProviderKey (Str nextProvider);
          first = find (\<lambda>o1. po_provider o1 = p) options
      in (pick_option first (setMarketProvider p s), p, get_or (map_option po_symbol first) (hd product_assets)))"

definition selectSymbol ::
    "product_option list \<Rightarrow> string \<Rightarrow> string \<Rightarrow> terminal_state \<Rightarrow> terminal_state \<times> string \<times> string" where
  "selectSymbol options activeProvider nextSymbol s =
     (let choice = find (\<lambda>o1. po_provider o1 = activeProvider \<and> po_symbol o1 = nextSymbol) options
      in (pick_option choice (setMarketProvider activeProvider s), activeProvider, nextSymbol))"

subsection \<open>Readiness of the services\<close>

record readiness =
  rd_gatewayOk :: bool
  rd_marketData :: jsv
  rd_execution :: jsv
  rd_connected :: bool
  rd_priceReady :: bool
  rd_executionReady :: bool
  rd_detail :: jsv
  rd_checkedAt :: jsnum

definition empty_readiness :: readiness where
  "empty_readiness = \<lparr>rd_gatewayOk = False, rd_marketData = Null, rd_execution = Null, rd_connected = False,
     rd_priceReady = False, rd_executionReady = False, rd_detail = Str ''Checking services'', rd_checkedAt = Fin 0\<rparr>"

text \<open>A request that throws, or whose body does not parse, is rejected; an answer that is not ok reads as
  \<open>null\<close>.\<close>

definition read_json :: "jsv service_answer \<Rightarrow> jsv option" where
  "read_json a = (case a of
     RequestFailed m \<Rightarrow> None
   | ServiceAnswer ok status payload \<Rightarrow> Some (if ok then payload else Null))"

definition readiness_of :: "jsnum \<Rightarrow> jsv service_answer \<Rightarrow> jsv service_answer \<Rightarrow> jsv service_answer \<Rightarrow> readiness" where
  "readiness_of now health market execution =
     (let gatewayOk = (case read_json health of None \<Rightarrow> False | Some v \<Rightarrow> truthy (jget v ''ok''));
          marketData = get_or (read_json market) Null;
          executionData = get_or (read_json execution) Null;
          mdConnected = truthy (jget marketData ''connected'');
          executionReady = truthy (jget executionData ''healthy'');
          priceReady = truthy (jget marketData ''priceReady'');
          detail = (if \<not> gatewayOk then Str ''Gateway down''
            else if \<not> mdConnected
              then js_or (js_or (jget marketData ''error'') (jget marketData ''detail'')) (Str ''Market data connecting'')
            else if \<not> priceReady then Str ''Market data connected; waiting for first book''
            else if \<not> executionReady then Str ''Execution service connecting''
            else Str ''Services ready'')
      in \<lparr>rd_gatewayOk = gatewayOk, rd_marketData = marketData, rd_execution = executionData,
          rd_connected = (gatewayOk \<and> mdConnected \<and> executionReady), rd_priceReady = priceReady,
          rd_executionReady = executionReady, rd_detail = detail, rd_checkedAt = now\<rparr>)"

definition readiness_pull ::
    "jsnum \<Rightarrow> bool \<Rightarrow> jsv service_answer \<Rightarrow> jsv service_answer \<Rightarrow> jsv service_answer
       \<Rightarrow> readiness \<times> terminal_state \<Rightarrow> readiness \<times> terminal_state" where
  "readiness_pull now cancelled health market execution rs =
     (if cancelled then rs
      else let r = readiness_of now health market execution in (r, setConnected (rd_connected r) (snd rs)))"

subsection \<open>Properties\<close>

interpretation ranks: sort_order "ranked rank lc name" "\<lambda>a. collation lc" for rank lc name
proof
  fix x y z :: 'a
  assume "collation lc" "ranked rank lc name x y" "ranked rank lc name y z"
  then show "ranked rank lc name x z"
    using collation_trans [of lc "name x" "name y" "name z"] by (auto simp: ranked_def)
next
  fix x y :: 'a
  assume "collation lc"
  then show "ranked rank lc name x y \<or> ranked rank lc name y x"
    using collation_sym [of lc "name x" "name y"] by (auto simp: ranked_def)
qed

lemma useProductOptions_mset:
  "mset (useProductOptions lc markets) = mset (map product_of_market markets)"
  by (simp add: useProductOptions_def Let_def)

lemma product_of_market_simps [simp]:
  "po_symbol (product_of_market m) = mk_key m" "po_asset (product_of_market m) = Some (mk_asset m)"
  "po_provider (product_of_market m) = ''cme''" "po_marketKey (product_of_market m) = Some (mk_key m)"
  by (simp_all add: product_of_market_def)

lemma ranked_sorted: "collation lc \<Longrightarrow> sorted_wrt (ranked rank lc name) (sort_js (ranked rank lc name) xs)"
  by (rule ranks.sorted_sort) simp

text \<open>The catalogue holds one option per market; an option of an asset that the server names earlier comes
  first, and options of one asset are in the order of their symbols.\<close>

theorem catalogue_in_order:
  assumes "collation lc" and "i < j" "j < length markets"
  shows "mset (map po_symbol (useProductOptions lc markets)) = mset (map mk_key markets)
    \<and> (let server = server_assets (map (\<lambda>m. Some (mk_asset m)) markets);
           a = useProductOptions lc markets ! i; b = useProductOptions lc markets ! j
       in asset_rank server (po_asset a) \<le> asset_rank server (po_asset b)
          \<and> (asset_rank server (po_asset a) = asset_rank server (po_asset b) \<longrightarrow> lc (po_symbol a) (po_symbol b) \<le> 0))"
proof -
  obtain server where s: "server = server_assets (map (\<lambda>m. Some (mk_asset m)) markets)" by blast
  have "mset (map po_symbol (useProductOptions lc markets)) = mset (map po_symbol (map product_of_market markets))"
    using useProductOptions_mset [of lc markets] by (metis mset_map)
  moreover have "sorted_wrt (ranked (asset_rank server \<circ> po_asset) lc po_symbol) (useProductOptions lc markets)"
    by (simp add: useProductOptions_def Let_def s ranked_sorted [OF assms(1)])
  then have "ranked (asset_rank server \<circ> po_asset) lc po_symbol (useProductOptions lc markets ! i) (useProductOptions lc markets ! j)"
    using assms(2,3) mset_eq_length [OF useProductOptions_mset [of lc markets]]
    by (simp add: sorted_wrt_iff_nth_less)
  ultimately show ?thesis by (auto simp: ranked_def s [symmetric] comp_def)
qed

end
