(* ===== verification/Alerts.thy ===== *)
theory Alerts
  imports Products MarketFeed
begin

text \<open>
  The alert window of \<open>apps/terminal/src/components/WorkspaceCanvas.tsx\<close>: the product and the reading of a
  rule, the pass over the rules after each change of the store with what it remembers between passes
  (the rule keys, which rules are armed, the last fill reported), the delivery of an alert through its
  channels, and the edits of the list of rules. Sound, notifications and the text service are answers.
  Main results: a price rule is delivered exactly when its condition becomes true, a fill rule exactly
  when the last fill is another one, and edits keep every rule well formed.
\<close>

subsection \<open>Reading a rule\<close>

definition isMoneyProduct :: "product_option option \<Rightarrow> bool" where
  "isMoneyProduct option \<longleftrightarrow> \<not> is_cme option \<and> Option.bind option po_spot \<noteq> None"

definition default_option :: "product_option list \<Rightarrow> product_option option" where
  "default_option options =
     or_else (find (\<lambda>o1. po_provider o1 = ''cme'' \<and> po_symbol o1 = ''ES'') options)
       (case options of [] \<Rightarrow> None | o1 # os \<Rightarrow> Some o1)"

definition findOption :: "product_option list \<Rightarrow> alert_rule \<Rightarrow> product_option option" where
  "findOption options alert =
     (let provider = normalizeProviderKey (Str (ar_provider alert));
          same_asset = (\<lambda>o1. opt_str (po_asset o1) = ar_symbol alert);
          symbol = or_else (ar_productSymbol alert)
            (map_option po_symbol (find (\<lambda>o1. po_provider o1 = provider \<and> same_asset o1) options))
      in first_some [find (\<lambda>o1. po_provider o1 = provider \<and> Some (po_symbol o1) = symbol) options,
           find (\<lambda>o1. same_asset o1 \<and> po_provider o1 = provider) options, default_option options])"

definition normalizeThreshold :: "alert_rule \<Rightarrow> bool \<Rightarrow> jsnum" where
  "normalizeThreshold alert moneyProduct =
     (if \<not> moneyProduct \<and> ar_valueMode alert = Some ''cents'' \<and> jle (ar_value alert) (Fin 1)
      then jmul (ar_value alert) (Fin 100) else ar_value alert)"

definition formatThreshold :: "(jsnum \<Rightarrow> string) \<Rightarrow> alert_rule \<Rightarrow> bool \<Rightarrow> string" where
  "formatThreshold currency alert moneyProduct =
     (if moneyProduct then fmtMoney currency (Num (ar_value alert))
      else if ar_valueMode alert = Some ''price'' then formatMarketPrice (ar_value alert) None
      else if ar_valueMode alert = Some ''cents''
        then (if jle (ar_value alert) (Fin 1) then ''$'' @ to_fixed 2 (ar_value alert) else to_fixed 1 (ar_value alert) @ ''c'')
      else to_fixed 1 (ar_value alert) @ ''%'')"

definition compare_alert :: "jsnum option \<Rightarrow> alert_rule \<Rightarrow> jsnum \<Rightarrow> bool" where
  "compare_alert actual alert threshold = (case actual of
     None \<Rightarrow> False
   | Some x \<Rightarrow> if x = NaN then False
       else if ar_op alert = ''>'' then jlt threshold x
       else if ar_op alert = ''>='' then jle threshold x
       else if ar_op alert = ''<'' then jlt x threshold
       else jle x threshold)"

definition alertRuleKey :: "alert_rule \<Rightarrow> jsnum \<Rightarrow> string" where
  "alertRuleKey alert threshold = join_with ''|''
     [normalizeProviderKey (Str (ar_provider alert)),
      (case ar_productSymbol alert of Some p \<Rightarrow> p
       | None \<Rightarrow> if nullish (ar_symbol alert) then [] else to_str (ar_symbol alert)),
      ar_field alert, ar_op alert, get_or (ar_valueMode alert) [],
      (if is_finite threshold then to_fixed 8 threshold else [])]"

record alert_reading =
  rg_option :: "product_option option"
  rg_actual :: "jsnum option"
  rg_message :: string
  rg_moneyProduct :: bool
  rg_fillKey :: "string option"

definition fill_text :: "product_option option \<Rightarrow> poly_trade_tick \<Rightarrow> string" where
  "fill_text option fill =
     (let price = executionNumber (Num (pt_price fill)) (Fin 0);
          sz = executionNumber (Num (pt_size fill)) (Fin 0)
      in providerLabel (get_or (map_option po_provider option) ''cme'') @ '' ''
         @ get_or (map_option po_label option) ''product'' @ '' '' @ executionSideLabel fill (pt_rest fill)
         @ '' fill '' @ to_fixed 0 sz @ '' @ ''
         @ (if is_cme option then formatMarketPrice price None else to_fixed 1 price @ ''c''))"

definition fill_key :: "product_option option \<Rightarrow> poly_trade_tick \<Rightarrow> string" where
  "fill_key option fill = join_with ''-''
     [(case first_some [Option.bind option po_marketKey, map_option po_symbol option] of None \<Rightarrow> ''product'' | Some k \<Rightarrow> k),
      num_text (pt_timestamp fill), num_text (pt_price fill), num_text (pt_size fill), pt_side fill,
      to_str (coalesce (oget_any (pt_rest fill) [''orderId'', ''order_id'']) (Str []))]"

definition market_of :: "product_option option \<Rightarrow> market_info list \<Rightarrow> market_info option" where
  "market_of option markets = (case truthy_text (Option.bind option po_marketKey) of
     Some k \<Rightarrow> find (\<lambda>m. mk_key m = k) markets
   | None \<Rightarrow> find (\<lambda>m. Some (mk_asset m) = Option.bind option po_asset \<and> mk_live m) markets)"

definition last_traded :: "product_option option \<Rightarrow> market_info option \<Rightarrow> jsnum option \<Rightarrow> jsnum option" where
  "last_traded option market tick =
     (if is_cme option
      then first_some [tick, Option.bind option po_priceToBeat, Option.bind option po_spot, Option.bind market mk_price_to_beat]
      else if isMoneyProduct option then Option.bind option po_spot
      else first_some [tick, map_option mk_up_pct market, Option.bind option po_yes])"

definition readAlert ::
    "(string \<Rightarrow> string \<Rightarrow> int) \<Rightarrow> (jsnum \<Rightarrow> string) \<Rightarrow> terminal_state \<Rightarrow> alert_rule \<Rightarrow> alert_reading" where
  "readAlert lc currency s alert =
     (let option = findOption (useProductOptions lc (ts_markets s)) alert;
          moneyProduct = isMoneyProduct option;
          market = market_of option (ts_markets s);
          lastFill = array_last (rows_of option (ts_fills s));
          lastTick = array_last (rows_of option (ts_polyTicks s));
          lastPrice = last_traded option market (map_option pt_price lastTick)
      in if ar_field alert = ''fill''
         then \<lparr>rg_option = option, rg_actual = map_option pt_timestamp lastFill,
                rg_message = (case lastFill of None \<Rightarrow> ''No fills yet'' | Some f \<Rightarrow> fill_text option f),
                rg_moneyProduct = False, rg_fillKey = map_option (fill_key option) lastFill\<rparr>
         else \<lparr>rg_option = option, rg_actual = lastPrice,
                rg_message = ''Last traded '' @ (if is_cme option then formatMarketPrice (get_or lastPrice NaN) None
                  else if moneyProduct then fmtMoney currency (opt_num lastPrice) else fmtCents lastPrice),
                rg_moneyProduct = moneyProduct, rg_fillKey = None\<rparr>)"

subsection \<open>The pass over the rules\<close>

text \<open>What is remembered between passes, per rule id, and what a pass delivers: the rule, the title and
  the message.\<close>

record alert_memory =
  am_fired :: "string dict"
  am_armed :: "bool dict"
  am_config :: "string dict"

type_synonym delivery = "alert_rule \<times> string \<times> string"

definition fresh_memory :: alert_memory where
  "fresh_memory = \<lparr>am_fired = [], am_armed = [], am_config = []\<rparr>"

definition check_alert ::
    "(jsnum \<Rightarrow> string) \<Rightarrow> (alert_rule \<Rightarrow> alert_reading) \<Rightarrow> alert_rule \<Rightarrow> alert_memory \<times> delivery list
       \<Rightarrow> alert_memory \<times> delivery list" where
  "check_alert currency read alert md =
     (let m = fst md;
          reading = read alert; i = ar_id alert;
          threshold = normalizeThreshold alert (rg_moneyProduct reading);
          ruleKey = alertRuleKey alert threshold;
          m1 = (if dict_get (am_config m) i \<noteq> Some ruleKey
            then m\<lparr>am_config := dict_set i ruleKey (am_config m), am_armed := dict_set i True (am_armed m)\<rparr> else m);
          label = (case rg_option reading of Some o1 \<Rightarrow> po_label o1 | None \<Rightarrow> get_or (ar_productSymbol alert) ''product'')
      in if \<not> ar_enabled alert then (m1\<lparr>am_armed := dict_set i True (am_armed m1)\<rparr>, snd md)
         else if ar_field alert = ''fill'' then
           (case truthy_text (rg_fillKey reading) of
              None \<Rightarrow> (m1, snd md)
            | Some k \<Rightarrow> if dict_get (am_fired m1) i = Some k then (m1, snd md)
                else (m1\<lparr>am_fired := dict_set i k (am_fired m1)\<rparr>,
                      snd md @ [(alert, ''Fill alert: '' @ label, rg_message reading)]))
         else if \<not> compare_alert (rg_actual reading) alert threshold
           then (m1\<lparr>am_armed := dict_set i True (am_armed m1)\<rparr>, snd md)
         else if dict_get (am_armed m1) i = Some False then (m1, snd md)
         else (m1\<lparr>am_armed := dict_set i False (am_armed m1)\<rparr>,
               snd md @ [(alert, ''Alert: '' @ label, rg_message reading @ '' '' @ ar_op alert @ '' ''
                  @ formatThreshold currency alert (rg_moneyProduct reading))]))"

definition alerts_pass ::
    "(string \<Rightarrow> string \<Rightarrow> int) \<Rightarrow> (jsnum \<Rightarrow> string) \<Rightarrow> terminal_state \<Rightarrow> alert_rule list \<Rightarrow> alert_memory
       \<Rightarrow> alert_memory \<times> delivery list" where
  "alerts_pass lc currency s alerts m = fold (check_alert currency (readAlert lc currency s)) alerts (m, [])"

subsection \<open>Rules have a cell of their own\<close>

text \<open>A pass over items, each of which reads and writes only the cell of its own key and puts out values
  that bear its key.\<close>

definition pass_over :: "('r \<Rightarrow> 'm \<Rightarrow> 'm \<times> 'd list) \<Rightarrow> 'r list \<Rightarrow> 'm \<Rightarrow> 'm \<times> 'd list" where
  "pass_over step rs m = fold (\<lambda>r md. (fst (step r (fst md)), snd md @ snd (step r (fst md)))) rs (m, [])"

locale own_cells =
  fixes key :: "'r \<Rightarrow> 'k" and step :: "'r \<Rightarrow> 'm \<Rightarrow> 'm \<times> 'd list"
    and cell :: "'k \<Rightarrow> 'm \<Rightarrow> 'c" and out_key :: "'d \<Rightarrow> 'k"
  assumes frame: "k \<noteq> key r \<Longrightarrow> cell k (fst (step r m)) = cell k m"
    and local_cell: "cell (key r) m = cell (key r) m' \<Longrightarrow> cell (key r) (fst (step r m)) = cell (key r) (fst (step r m'))"
    and local_out: "cell (key r) m = cell (key r) m' \<Longrightarrow> snd (step r m) = snd (step r m')"
    and bears: "d \<in> set (snd (step r m)) \<Longrightarrow> out_key d = key r"
begin

lemma pass_snoc: "pass_over step (rs @ [r]) m =
    (fst (step r (fst (pass_over step rs m))), snd (pass_over step rs m) @ snd (step r (fst (pass_over step rs m))))"
  by (simp add: pass_over_def)

lemma outside: "k \<notin> key ` set rs \<Longrightarrow>
    cell k (fst (pass_over step rs m)) = cell k m \<and> filter (\<lambda>d. out_key d = k) (snd (pass_over step rs m)) = []"
proof (induction rs rule: rev_induct)
  case Nil
  then show ?case by (simp add: pass_over_def)
next
  case (snoc r rs)
  then show ?case
    using bears [of _ r "fst (pass_over step rs m)"] by (auto simp: pass_snoc frame filter_empty_conv)
qed

lemma inside:
  assumes "distinct (map key rs)" and "r \<in> set rs"
  shows "cell (key r) (fst (pass_over step rs m)) = cell (key r) (fst (step r m))
    \<and> filter (\<lambda>d. out_key d = key r) (snd (pass_over step rs m)) = snd (step r m)"
  using assms
proof (induction rs rule: rev_induct)
  case (snoc r' rs)
  let ?m = "fst (pass_over step rs m)"
  show ?case
  proof (cases "r' = r")
    case True
    then have out: "key r \<notin> key ` set rs" using snoc.prems by auto
    then have "cell (key r) ?m = cell (key r) m" using outside by blast
    from local_cell [OF this] local_out [OF this] outside [OF out, of m] bears [of _ r m] show ?thesis
      by (simp add: pass_snoc True)
  next
    case False
    then have "r \<in> set rs" and ne: "key r \<noteq> key r'" using snoc.prems by (auto simp: image_iff)
    then show ?thesis
      using snoc bears [of _ r' ?m] by (auto simp: pass_snoc frame filter_empty_conv)
  qed
qed simp

end

definition alert_cell :: "string \<Rightarrow> alert_memory \<Rightarrow> string option \<times> bool option \<times> string option" where
  "alert_cell i m = (dict_get (am_fired m) i, dict_get (am_armed m) i, dict_get (am_config m) i)"

abbreviation check_one :: "(jsnum \<Rightarrow> string) \<Rightarrow> (alert_rule \<Rightarrow> alert_reading) \<Rightarrow> alert_rule \<Rightarrow> alert_memory
    \<Rightarrow> alert_memory \<times> delivery list" where
  "check_one currency read r m \<equiv> check_alert currency read r (m, [])"

lemma check_alert_appends:
  "check_alert currency read r md = (fst (check_one currency read r (fst md)), snd md @ snd (check_one currency read r (fst md)))"
  by (simp add: check_alert_def Let_def split: option.split)

interpretation rules: own_cells ar_id "check_one currency read" alert_cell "\<lambda>d. ar_id (fst d)" for currency read
proof
  fix k and r :: alert_rule and m
  assume "k \<noteq> ar_id r"
  then show "alert_cell k (fst (check_one currency read r m)) = alert_cell k m"
    by (simp add: check_alert_def Let_def alert_cell_def dict_get_set split: option.split)
next
  fix r :: alert_rule and m m'
  assume same: "alert_cell (ar_id r) m = alert_cell (ar_id r) m'"
  then show "alert_cell (ar_id r) (fst (check_one currency read r m)) = alert_cell (ar_id r) (fst (check_one currency read r m'))"
    by (simp add: check_alert_def Let_def alert_cell_def dict_get_set split: option.split)
  from same show "snd (check_one currency read r m) = snd (check_one currency read r m')"
    by (simp add: check_alert_def Let_def alert_cell_def dict_get_set split: option.split)
next
  fix d and r :: alert_rule and m
  assume "d \<in> set (snd (check_one currency read r m))"
  then show "ar_id (fst d) = ar_id r"
    by (auto simp: check_alert_def Let_def split: option.splits if_splits)
qed

lemma alerts_pass_over: "alerts_pass lc currency s alerts m = pass_over (check_one currency (readAlert lc currency s)) alerts m"
  unfolding alerts_pass_def pass_over_def
  by (rule arg_cong [where f = "\<lambda>f. fold f alerts (m, [])"]) (intro ext check_alert_appends)

subsection \<open>When a rule is delivered\<close>

definition rule_threshold :: "alert_reading \<Rightarrow> alert_rule \<Rightarrow> jsnum" where
  "rule_threshold reading r = normalizeThreshold r (rg_moneyProduct reading)"

definition rule_key :: "alert_reading \<Rightarrow> alert_rule \<Rightarrow> string" where
  "rule_key reading r = alertRuleKey r (rule_threshold reading r)"

definition rule_holds :: "alert_reading \<Rightarrow> alert_rule \<Rightarrow> bool" where
  "rule_holds reading r \<longleftrightarrow> ar_enabled r \<and> compare_alert (rg_actual reading) r (rule_threshold reading r)"

lemma price_check:
  assumes "ar_field r \<noteq> ''fill''"
  shows "length (snd (check_one currency read r m))
      = (if rule_holds (read r) r \<and> \<not> (dict_get (am_config m) (ar_id r) = Some (rule_key (read r) r)
            \<and> dict_get (am_armed m) (ar_id r) = Some False) then 1 else 0)"
    and "dict_get (am_armed (fst (check_one currency read r m))) (ar_id r) = Some (\<not> rule_holds (read r) r)"
    and "dict_get (am_config (fst (check_one currency read r m))) (ar_id r) = Some (rule_key (read r) r)"
  using assms by (simp_all add: check_alert_def Let_def rule_holds_def rule_key_def rule_threshold_def dict_get_set)

lemma fill_check:
  assumes "ar_field r = ''fill''" and "ar_enabled r" and "rg_fillKey (read r) \<noteq> Some []"
  shows "length (snd (check_one currency read r m))
      = (if rg_fillKey (read r) \<noteq> None \<and> rg_fillKey (read r) \<noteq> dict_get (am_fired m) (ar_id r) then 1 else 0)"
    and "dict_get (am_fired (fst (check_one currency read r m))) (ar_id r)
      = or_else (rg_fillKey (read r)) (dict_get (am_fired m) (ar_id r))"
  using assms
  by (cases "rg_fillKey (read r)"; auto simp: check_alert_def Let_def dict_get_set truthy_text_def or_else_def)+

lemma join_not_empty: "join_with sep (x # y # xs) = [] \<Longrightarrow> sep = []"
  by simp

lemma fill_key_text: "rg_fillKey (readAlert lc currency s r) \<noteq> Some []"
  by (auto simp: readAlert_def Let_def fill_key_def)

lemma cell_parts:
  assumes "alert_cell i m = alert_cell i m'"
  shows "dict_get (am_fired m) i = dict_get (am_fired m') i" and "dict_get (am_armed m) i = dict_get (am_armed m') i"
    and "dict_get (am_config m) i = dict_get (am_config m') i"
  using assms by (simp_all add: alert_cell_def)

text \<open>The deliveries of a rule in a pass.\<close>

definition deliveries_of :: "string \<Rightarrow> delivery list \<Rightarrow> delivery list" where
  "deliveries_of i ds = filter (\<lambda>d. ar_id (fst d) = i) ds"

lemma pass_inside:
  assumes "distinct (map ar_id rs)" and "r \<in> set rs"
  shows "deliveries_of (ar_id r) (snd (alerts_pass lc currency s rs m)) = snd (check_one currency (readAlert lc currency s) r m)"
    and "alert_cell (ar_id r) (fst (alerts_pass lc currency s rs m))
      = alert_cell (ar_id r) (fst (check_one currency (readAlert lc currency s) r m))"
  using rules.inside [OF assms, of currency "readAlert lc currency s" m]
  by (simp_all add: alerts_pass_over deliveries_of_def)

text \<open>C12. A price rule is delivered in a pass when it is enabled and its condition holds, unless the pass
  before already found the same rule enabled with its condition true: once per time the condition
  becomes true, whatever the other rules do.\<close>

theorem price_alert_on_rise:
  assumes "distinct (map ar_id rules)" "r \<in> set rules" "ar_field r \<noteq> ''fill''"
    and "distinct (map ar_id rules')" "r' \<in> set rules'" "ar_field r' \<noteq> ''fill''" "ar_id r' = ar_id r"
  shows "length (deliveries_of (ar_id r')
      (snd (alerts_pass lc currency s' rules' (fst (alerts_pass lc currency s rules m)))))
    = (if rule_holds (readAlert lc currency s' r') r'
         \<and> \<not> (rule_holds (readAlert lc currency s r) r
              \<and> rule_key (readAlert lc currency s r) r = rule_key (readAlert lc currency s' r') r') then 1 else 0)"
proof -
  let ?m = "fst (alerts_pass lc currency s rules m)"
  note cell = cell_parts [OF pass_inside(2) [OF assms(1,2), of lc currency s m]]
  have "dict_get (am_armed ?m) (ar_id r') = Some (\<not> rule_holds (readAlert lc currency s r) r)"
    "dict_get (am_config ?m) (ar_id r') = Some (rule_key (readAlert lc currency s r) r)"
    by (simp_all only: assms(7) cell price_check(2,3) [OF assms(3)])
  then show ?thesis
    by (simp only: pass_inside(1) [OF assms(4,5)] price_check(1) [OF assms(6)] option.inject) auto
qed

text \<open>What a fill rule looks at: the product of the rule and the last fill of the product; and what the
  window has seen of it after a number of passes, each with the store and the rules of that moment.\<close>

definition product_of_rule :: "(string \<Rightarrow> string \<Rightarrow> int) \<Rightarrow> terminal_state \<Rightarrow> alert_rule \<Rightarrow> product_option option" where
  "product_of_rule lc s r = findOption (useProductOptions lc (ts_markets s)) r"

definition last_fill_of :: "(string \<Rightarrow> string \<Rightarrow> int) \<Rightarrow> terminal_state \<Rightarrow> alert_rule \<Rightarrow> poly_trade_tick option" where
  "last_fill_of lc s r = array_last (rows_of (product_of_rule lc s r) (ts_fills s))"

definition seen_in_pass ::
    "(string \<Rightarrow> string \<Rightarrow> int) \<Rightarrow> string \<Rightarrow> terminal_state \<times> alert_rule list \<Rightarrow> string option \<Rightarrow> string option" where
  "seen_in_pass lc i pass seen =
     (case find (\<lambda>r. ar_id r = i \<and> ar_field r = ''fill'' \<and> ar_enabled r) (snd pass) of
        None \<Rightarrow> seen
      | Some r \<Rightarrow> (case last_fill_of lc (fst pass) r of
            None \<Rightarrow> seen | Some f \<Rightarrow> Some (fill_key (product_of_rule lc (fst pass) r) f)))"

definition seen_fill :: "(string \<Rightarrow> string \<Rightarrow> int) \<Rightarrow> string \<Rightarrow> (terminal_state \<times> alert_rule list) list \<Rightarrow> string option" where
  "seen_fill lc i passes = fold (seen_in_pass lc i) passes None"

definition alert_passes ::
    "(string \<Rightarrow> string \<Rightarrow> int) \<Rightarrow> (jsnum \<Rightarrow> string) \<Rightarrow> (terminal_state \<times> alert_rule list) list \<Rightarrow> alert_memory" where
  "alert_passes lc currency passes =
     fold (\<lambda>(s, rules) m. fst (alerts_pass lc currency s rules m)) passes fresh_memory"

text \<open>What tells a fill from another one.\<close>

definition fill_marks :: "product_option option \<Rightarrow> poly_trade_tick \<Rightarrow> string list" where
  "fill_marks option fill =
     [get_or (first_some [Option.bind option po_marketKey, map_option po_symbol option]) ''product'',
      num_text (pt_timestamp fill), num_text (pt_price fill), num_text (pt_size fill), pt_side fill,
      to_str (coalesce (oget_any (pt_rest fill) [''orderId'', ''order_id'']) (Str []))]"

definition one_apart :: "'a list \<Rightarrow> 'a list \<Rightarrow> bool" where
  "one_apart xs ys \<longleftrightarrow> length (filter (\<lambda>(x, y). x \<noteq> y) (zip xs ys)) = 1"

lemma one_mark_apart: "one_apart (fill_marks o1 f) (fill_marks o2 g) \<Longrightarrow> fill_key o1 f \<noteq> fill_key o2 g"
  by (auto simp: one_apart_def fill_marks_def fill_key_def get_or_def split: if_splits option.splits)

lemma fill_reading:
  assumes "ar_field r = ''fill''"
  shows "rg_fillKey (readAlert lc currency s r) = map_option (fill_key (product_of_rule lc s r)) (last_fill_of lc s r)"
    and "rg_option (readAlert lc currency s r) = product_of_rule lc s r"
    and "last_fill_of lc s r = Some f \<Longrightarrow> rg_message (readAlert lc currency s r) = fill_text (product_of_rule lc s r) f"
  using assms by (simp_all add: readAlert_def Let_def last_fill_of_def product_of_rule_def)

lemma keeps_seen:
  assumes "\<not> (ar_field r = ''fill'' \<and> ar_enabled r)"
  shows "dict_get (am_fired (fst (check_one currency read r m))) i = dict_get (am_fired m) i"
  using assms by (auto simp: check_alert_def Let_def)

lemma outside_keeps:
  assumes "i \<notin> ar_id ` set rs"
  shows "dict_get (am_fired (fst (alerts_pass lc currency s rs m))) i = dict_get (am_fired m) i"
  using rules.outside [OF assms, of currency "readAlert lc currency s" m] by (simp add: alerts_pass_over alert_cell_def)

lemma find_only:
  assumes "x \<in> set xs" "P x" and "\<And>y. y \<in> set xs \<Longrightarrow> P y \<Longrightarrow> y = x"
  shows "find P xs = Some x"
proof -
  obtain y where y: "find P xs = Some y" using assms(1,2) by (cases "find P xs") (auto simp: find_None_iff)
  then have "P y" "y \<in> set xs" by (auto simp: find_Some_iff)
  with assms(3) y show ?thesis by simp
qed

lemma pass_sees:
  assumes "distinct (map ar_id rs)"
  shows "dict_get (am_fired (fst (alerts_pass lc currency s rs m))) i = seen_in_pass lc i (s, rs) (dict_get (am_fired m) i)"
proof (cases "\<exists>r\<in>set rs. ar_id r = i")
  case False
  then have "find (\<lambda>r. ar_id r = i \<and> ar_field r = ''fill'' \<and> ar_enabled r) rs = None"
    by (auto simp: find_None_iff)
  moreover have "i \<notin> ar_id ` set rs" using False by blast
  ultimately show ?thesis using outside_keeps [of i rs lc currency s m] by (simp add: seen_in_pass_def)
next
  case True
  then obtain r where r: "r \<in> set rs" "ar_id r = i" by blast
  have only: "r' = r" if "r' \<in> set rs" "ar_id r' = i" for r'
    using assms that r by (auto simp: distinct_map inj_on_def)
  have fired: "dict_get (am_fired (fst (alerts_pass lc currency s rs m))) i
      = dict_get (am_fired (fst (check_one currency (readAlert lc currency s) r m))) i"
    using pass_inside(2) [OF assms r(1), of lc currency s m] by (simp add: alert_cell_def r(2))
  show ?thesis
  proof (cases "ar_field r = ''fill'' \<and> ar_enabled r")
    case True
    then have "find (\<lambda>r. ar_id r = i \<and> ar_field r = ''fill'' \<and> ar_enabled r) rs = Some r"
      using True r only find_only [of r rs "\<lambda>r. ar_id r = i \<and> ar_field r = ''fill'' \<and> ar_enabled r"] by blast
    then show ?thesis
      using True fill_check(2) [of r "readAlert lc currency s" currency m] fill_key_text [of lc currency s r]
      by (simp add: fired seen_in_pass_def r(2) fill_reading(1) or_else_def split: option.split)
  next
    case False
    then have "find (\<lambda>r. ar_id r = i \<and> ar_field r = ''fill'' \<and> ar_enabled r) rs = None"
      using only by (auto simp: find_None_iff)
    then show ?thesis using False by (simp add: fired seen_in_pass_def keeps_seen)
  qed
qed

lemma passes_seen:
  "\<forall>(s, rs)\<in>set passes. distinct (map ar_id rs) \<Longrightarrow>
     dict_get (am_fired (alert_passes lc currency passes)) i = seen_fill lc i passes"
proof (induction passes rule: rev_induct)
  case (snoc p passes)
  then show ?case by (cases p) (auto simp: alert_passes_def seen_fill_def pass_sees)
qed (simp add: alert_passes_def seen_fill_def fresh_memory_def)

text \<open>C13. A fill rule, with rules of distinct ids and from the opening of the window on. In a pass an enabled
  one is delivered exactly when its product has a fill and the last one is not the last that an earlier pass
  found for the rule; then once, with the text of that fill (so the first pass reports a fill that was there
  before). Fills are told apart by market, time, price, size, side and order id: two that differ in exactly
  one of them are different.\<close>

theorem fill_alert_once:
  assumes "\<forall>(s, rs)\<in>set passes. distinct (map ar_id rs)" and "distinct (map ar_id rules)"
    and "r \<in> set rules" "ar_field r = ''fill''" "ar_enabled r"
  shows "deliveries_of (ar_id r) (snd (alerts_pass lc currency s rules (alert_passes lc currency passes))) =
      (case last_fill_of lc s r of
         None \<Rightarrow> []
       | Some f \<Rightarrow> (let o1 = product_of_rule lc s r in
           if seen_fill lc (ar_id r) passes = Some (fill_key o1 f) then []
           else [(r, ''Fill alert: '' @ (case o1 of Some p \<Rightarrow> po_label p | None \<Rightarrow> get_or (ar_productSymbol r) ''product''),
                  fill_text o1 f)]))
    \<and> (one_apart (fill_marks p f) (fill_marks q g) \<longrightarrow> fill_key p f \<noteq> fill_key q g)"
proof -
  have key: "fill_key o1 f \<noteq> []" for o1 f by (simp add: fill_key_def)
  have "deliveries_of (ar_id r) (snd (alerts_pass lc currency s rules (alert_passes lc currency passes)))
      = snd (check_one currency (readAlert lc currency s) r (alert_passes lc currency passes))"
    by (rule pass_inside(1) [OF assms(2,3)])
  also have "\<dots> = (case last_fill_of lc s r of
         None \<Rightarrow> []
       | Some f \<Rightarrow> (let o1 = product_of_rule lc s r in
           if seen_fill lc (ar_id r) passes = Some (fill_key o1 f) then []
           else [(r, ''Fill alert: '' @ (case o1 of Some p \<Rightarrow> po_label p | None \<Rightarrow> get_or (ar_productSymbol r) ''product''),
                  fill_text o1 f)]))"
    using passes_seen [OF assms(1), of lc currency "ar_id r"] key
    by (cases "last_fill_of lc s r")
      (simp_all add: check_alert_def Let_def assms(4,5) fill_reading truthy_text_def)
  finally show ?thesis using one_mark_apart by blast
qed

text \<open>A rule on a future, quiet at first and true once its price is higher.\<close>

definition sample_rule :: "string \<Rightarrow> alert_rule" where
  "sample_rule field = \<lparr>ar_id = ''a'', ar_symbol = Str ''ES'', ar_provider = ''cme'', ar_productSymbol = Some ''ES'',
     ar_field = field, ar_op = ''>='', ar_value = Fin 100, ar_valueMode = Some ''price'', ar_enabled = True, ar_audio = True,
     ar_desktop = False, ar_sms = False, ar_sound = ''system-bell'', ar_phone = None\<rparr>"

definition sample_market_state :: "jsnum option \<Rightarrow> poly_trade_tick list \<Rightarrow> terminal_state" where
  "sample_market_state price fills = initial_state
     \<lparr>ts_markets := [sample_market ''ES'' ''ES'' ''1d'' ''c'' True\<lparr>mk_price_to_beat := price\<rparr>], ts_fills := [(''ES'', fills)]\<rparr>"

lemma sample_product: "findOption (useProductOptions lc (ts_markets (sample_market_state price fills))) (sample_rule field)
    = Some (product_of_market (sample_market ''ES'' ''ES'' ''1d'' ''c'' True\<lparr>mk_price_to_beat := price\<rparr>))"
  by (simp add: findOption_def useProductOptions_def sample_market_state_def sample_rule_def sample_market_def
      product_of_market_def Let_def first_some.simps or_else_def provider_always)

lemma sample_rule_simps [simp]:
  "ar_id (sample_rule f) = ''a''" "ar_field (sample_rule f) = f" "ar_enabled (sample_rule f)"
  "ar_valueMode (sample_rule f) = Some ''price''" "ar_value (sample_rule f) = Fin 100" "ar_op (sample_rule f) = ''>=''"
  by (simp_all add: sample_rule_def)

lemma sample_rows: "rows_of (Some (product_of_market (sample_market ''ES'' ''ES'' ''1d'' ''c'' True\<lparr>mk_price_to_beat := price\<rparr>)))
    (ts_polyTicks (sample_market_state price' fills)) = []"
  "rows_of (Some (product_of_market (sample_market ''ES'' ''ES'' ''1d'' ''c'' True\<lparr>mk_price_to_beat := price\<rparr>)))
    (ts_fills (sample_market_state price' fills)) = fills"
  by (simp_all add: rows_of_def sample_market_state_def initial_state_def sample_market_def truthy_text_def)

lemma sample_reading:
  "rg_actual (readAlert lc currency (sample_market_state price []) (sample_rule ''last'')) = price"
  "rg_moneyProduct (readAlert lc currency (sample_market_state price []) (sample_rule ''last'')) = False"
  "rg_fillKey (readAlert lc currency (sample_market_state price fills) (sample_rule ''fill''))
     = map_option (fill_key (Some (product_of_market (sample_market ''ES'' ''ES'' ''1d'' ''c'' True\<lparr>mk_price_to_beat := price\<rparr>))))
         (array_last fills)"
  by (cases price; simp add: readAlert_def Let_def sample_product sample_rows;
      simp add: last_traded_def is_cme_def isMoneyProduct_def market_of_def product_of_market_def sample_market_def
      array_last_def sample_market_state_def truthy_text_def split: option.split)+

lemma price_alert_on_rise_witness:
  "length (deliveries_of ''a'' (snd (alerts_pass (\<lambda>s t. 0) num_text (sample_market_state (Some (Fin 100)) []) [sample_rule ''last'']
     (fst (alerts_pass (\<lambda>s t. 0) num_text (sample_market_state (Some (Fin 99)) []) [sample_rule ''last''] fresh_memory))))) = 1"
  using price_alert_on_rise [of "[sample_rule ''last'']" "sample_rule ''last''" "[sample_rule ''last'']" "sample_rule ''last''"
      "\<lambda>s t. 0" num_text "sample_market_state (Some (Fin 100)) []" "sample_market_state (Some (Fin 99)) []" fresh_memory]
  by (simp add: rule_holds_def rule_threshold_def normalizeThreshold_def sample_reading compare_alert_def jle_def jeq_def jlt_def)

lemma sample_fill_seen:
  "product_of_rule lc (sample_market_state price fills) (sample_rule ''fill'')
     = Some (product_of_market (sample_market ''ES'' ''ES'' ''1d'' ''c'' True\<lparr>mk_price_to_beat := price\<rparr>))"
  "last_fill_of lc (sample_market_state price fills) (sample_rule ''fill'') = array_last fills"
  by (simp_all add: product_of_rule_def last_fill_of_def sample_product sample_rows)

lemma fill_alert_once_witness:
  "length (deliveries_of ''a'' (snd (alerts_pass (\<lambda>s t. 0) num_text
     (sample_market_state None [sample_tick 4, sample_tick 5, sample_tick 6]) [sample_rule ''fill'']
     (alert_passes (\<lambda>s t. 0) num_text [(sample_market_state None [sample_tick 4], [sample_rule ''fill''])])))) = 1"
proof -
  have "fill_key None (sample_tick 6) \<noteq> fill_key None (sample_tick 4)" by code_simp
  then have "fill_key o1 (sample_tick 6) \<noteq> fill_key o1 (sample_tick 4)" for o1
    by (simp add: fill_key_def)
  then have "seen_fill (\<lambda>s t. 0) ''a'' [(sample_market_state None [sample_tick 4], [sample_rule ''fill''])]
      \<noteq> Some (fill_key o1 (sample_tick 6))"
    if "o1 = Some (product_of_market (sample_market ''ES'' ''ES'' ''1d'' ''c'' True\<lparr>mk_price_to_beat := None\<rparr>))" for o1
    using that by (simp add: seen_fill_def seen_in_pass_def sample_fill_seen array_last_def) metis
  then show ?thesis
    using conjunct1 [OF fill_alert_once [of "[(sample_market_state None [sample_tick 4], [sample_rule ''fill''])]"
        "[sample_rule ''fill'']" "sample_rule ''fill''" "\<lambda>s t. 0" num_text
        "sample_market_state None [sample_tick 4, sample_tick 5, sample_tick 6]"]]
    by (simp add: sample_fill_seen array_last_def Let_def)
qed

text \<open>With nothing remembered, as when the window was just opened, the last fill is reported however old it is.\<close>

lemma old_fill_reported:
  assumes "distinct (map ar_id rules)" "r \<in> set rules" "ar_field r = ''fill''" "ar_enabled r"
    and "rg_fillKey (readAlert lc currency s r) \<noteq> None"
  shows "length (deliveries_of (ar_id r) (snd (alerts_pass lc currency s rules fresh_memory))) = 1"
  using assms(5) by (simp add: pass_inside(1) [OF assms(1,2)] fill_check(1) [OF assms(3,4) fill_key_text] fresh_memory_def)

subsection \<open>Delivery through the channels\<close>

record delivery_result =
  al_channel :: string
  al_ok :: bool
  al_message :: string

text \<open>What the sound interface does: it is not there, it plays, or a call throws, with the message of an
  \<open>Error\<close>.\<close>

datatype sound_answer = SoundMissing | SoundPlays | SoundThrows "string option"

definition playAlertSound :: "sound_answer \<Rightarrow> delivery_result" where
  "playAlertSound a = (case a of
     SoundMissing \<Rightarrow> \<lparr>al_channel = ''audio'', al_ok = False, al_message = ''Audio unavailable''\<rparr>
   | SoundPlays \<Rightarrow> \<lparr>al_channel = ''audio'', al_ok = True, al_message = ''Audio sent''\<rparr>
   | SoundThrows m \<Rightarrow> \<lparr>al_channel = ''audio'', al_ok = False, al_message = get_or m ''Audio blocked''\<rparr>)"

text \<open>The permission after it was asked for; \<open>None\<close> where there are no notifications.\<close>

definition notifyDesktop :: "string option \<Rightarrow> delivery_result" where
  "notifyDesktop permission = (case permission of
     None \<Rightarrow> \<lparr>al_channel = ''desktop'', al_ok = False, al_message = ''Desktop notifications unavailable''\<rparr>
   | Some p \<Rightarrow> if p = ''granted'' then \<lparr>al_channel = ''desktop'', al_ok = True, al_message = ''Desktop sent''\<rparr>
       else \<lparr>al_channel = ''desktop'', al_ok = False, al_message = ''Desktop '' @ p\<rparr>)"

text \<open>The body sent, if any, and the result for an answer whose payload is an object (an unreadable one
  counts as empty).\<close>

definition sms_body :: "string option \<Rightarrow> string \<Rightarrow> jobj option" where
  "sms_body phone message = (let to = trim (get_or phone []) in
     if to = [] then None else Some [(''to'', Str to), (''message'', Str message)])"

definition truthy_part :: "string \<Rightarrow> jsv \<Rightarrow> string" where
  "truthy_part lead v = (if truthy v then lead @ to_str v else [])"

definition sendSmsAlert :: "string option \<Rightarrow> string \<Rightarrow> jobj service_answer \<Rightarrow> delivery_result" where
  "sendSmsAlert phone message a =
     (if sms_body phone message = None then \<lparr>al_channel = ''sms'', al_ok = False, al_message = ''Text phone missing''\<rparr>
      else case a of
        RequestFailed m \<Rightarrow> \<lparr>al_channel = ''sms'', al_ok = False, al_message = get_or m ''Text transport failed''\<rparr>
      | ServiceAnswer ok status payload \<Rightarrow>
          if ok \<and> oget payload ''ok'' \<noteq> Bool False
          then \<lparr>al_channel = ''sms'', al_ok = True, al_message = ''Text ''
             @ (if truthy (oget payload ''dryRun'') then ''dry-run accepted'' else ''accepted'')
             @ truthy_part '' via '' (oget payload ''provider'') @ truthy_part '' / '' (oget payload ''carrierStatus'')\<rparr>
          else \<lparr>al_channel = ''sms'', al_ok = False, al_message =
             to_str (coalesce (oget payload ''error'') (Str (''Text failed ('' @ num_text status @ '')'')))\<rparr>)"

definition fetchSmsAlertStatus :: "jobj service_answer \<Rightarrow> jobj" where
  "fetchSmsAlertStatus a = (case a of
     RequestFailed m \<Rightarrow> [(''ok'', Bool False), (''ready'', Bool False), (''error'', Str (get_or m ''SMS status unavailable''))]
   | ServiceAnswer ok status payload \<Rightarrow> if ok then payload
       else [(''ok'', Bool False), (''ready'', Bool False),
          (''error'', coalesce (oget payload ''error'') (Str (''SMS status failed ('' @ num_text status @ '')'')))])"

definition smsStatusLabel :: "jobj option \<Rightarrow> string" where
  "smsStatusLabel status = (case status of
     None \<Rightarrow> ''SMS checking''
   | Some st \<Rightarrow> if \<not> truthy (oget st ''ready'') then ''SMS not configured''
       else if truthy (oget st ''dryRun'') then ''SMS dry-run ready''
       else ''SMS '' @ to_str (coalesce (oget st ''provider'') (Str ''transport'')) @ '' ready'')"

record delivery_status =
  dy_ok :: bool
  dy_message :: string
  dy_at :: jsnum

definition delivery_results ::
    "sound_answer \<Rightarrow> string option \<Rightarrow> jobj service_answer \<Rightarrow> alert_rule \<Rightarrow> string \<Rightarrow> delivery_result list" where
  "delivery_results sound permission sms alert message =
     (if ar_audio alert then [playAlertSound sound] else [])
     @ (if ar_desktop alert then [notifyDesktop permission] else [])
     @ (if ar_sms alert then [sendSmsAlert (ar_phone alert) message sms] else [])"

definition deliverAlert ::
    "jsnum \<Rightarrow> sound_answer \<Rightarrow> string option \<Rightarrow> jobj service_answer \<Rightarrow> delivery
       \<Rightarrow> delivery_status dict \<Rightarrow> delivery_status dict" where
  "deliverAlert now sound permission sms d current =
     (let alert = fst d; results = delivery_results sound permission sms alert (snd (snd d)) in
      dict_set (ar_id alert)
        (if results = [] then \<lparr>dy_ok = False, dy_message = ''No delivery channel selected'', dy_at = now\<rparr>
         else \<lparr>dy_ok = list_all al_ok results,
            dy_message = join_with '' | '' (map (\<lambda>r. al_channel r @ '': '' @ al_message r) results), dy_at = now\<rparr>)
        current)"

subsection \<open>Edits of the rules\<close>

datatype alert_edit =
    AlertAdd | AlertRemove | AlertProvider string | AlertProduct string | AlertField string | AlertOp string
  | AlertMode string | AlertValue jsnum | AlertAudio bool | AlertSound string | AlertDesktop bool
  | AlertSms bool | AlertPhone string

definition option_mode :: "product_option option \<Rightarrow> string" where
  "option_mode option = (if is_cme option then ''price'' else if isMoneyProduct option then ''money'' else ''percent'')"

definition added_alert :: "jsnum \<Rightarrow> product_option list \<Rightarrow> alert_rule" where
  "added_alert now options =
     (let option = default_option options in
      \<lparr>ar_id = ''alert-'' @ num_text now, ar_symbol = Str (get_or (Option.bind option po_asset) ''ES''),
       ar_provider = get_or (map_option po_provider option) ''cme'',
       ar_productSymbol = Some (get_or (map_option po_symbol option) ''ES''), ar_field = ''last'', ar_op = ''>='',
       ar_value = get_or (first_some [Option.bind option po_priceToBeat, Option.bind option po_spot]) (Fin 0),
       ar_valueMode = Some (option_mode option), ar_enabled = True, ar_audio = True, ar_desktop = False, ar_sms = False,
       ar_sound = ''system-chime'', ar_phone = None\<rparr>)"

text \<open>The row of a rule offers the products of the provider of the option it reads.\<close>

definition edit_rule :: "product_option list \<Rightarrow> alert_edit \<Rightarrow> alert_rule \<Rightarrow> alert_rule" where
  "edit_rule options e r =
     (let option = findOption options r;
          provider = normalizeProviderKey (Str (get_or (map_option po_provider option) (ar_provider r)))
      in case e of
        AlertProvider p \<Rightarrow>
          (let nextOption = or_else (find (\<lambda>o1. po_provider o1 = p) options) option in
           r\<lparr>ar_provider := p, ar_productSymbol := map_option po_symbol nextOption,
             ar_symbol := opt_str (Option.bind nextOption po_asset), ar_valueMode := Some (option_mode nextOption)\<rparr>)
      | AlertProduct symbol \<Rightarrow>
          (let nextOption = find (\<lambda>o1. po_provider o1 = provider \<and> po_symbol o1 = symbol) options in
           r\<lparr>ar_productSymbol := Some symbol, ar_symbol := opt_str (Option.bind nextOption po_asset),
             ar_valueMode := Some (option_mode nextOption)\<rparr>)
      | AlertField field \<Rightarrow>
          (let r1 = r\<lparr>ar_field := field\<rparr> in if field = ''fill'' then r1\<lparr>ar_audio := True\<rparr> else r1)
      | AlertOp op1 \<Rightarrow> r\<lparr>ar_op := op1\<rparr>
      | AlertMode mode \<Rightarrow> r\<lparr>ar_valueMode := Some mode\<rparr>
      | AlertValue v \<Rightarrow> r\<lparr>ar_value := v\<rparr>
      | AlertAudio b \<Rightarrow> r\<lparr>ar_audio := b\<rparr>
      | AlertSound sound \<Rightarrow> r\<lparr>ar_sound := sound\<rparr>
      | AlertDesktop b \<Rightarrow> r\<lparr>ar_desktop := b\<rparr>
      | AlertSms b \<Rightarrow> r\<lparr>ar_sms := b\<rparr>
      | AlertPhone phone \<Rightarrow> r\<lparr>ar_phone := Some phone\<rparr>
      | _ \<Rightarrow> r)"

definition edit_alerts :: "jsnum \<Rightarrow> product_option list \<Rightarrow> string \<times> alert_edit \<Rightarrow> alert_rule list \<Rightarrow> alert_rule list" where
  "edit_alerts now options ie alerts = (case snd ie of
     AlertAdd \<Rightarrow> alerts @ [added_alert now options]
   | AlertRemove \<Rightarrow> filter (\<lambda>r. ar_id r \<noteq> fst ie) alerts
   | e \<Rightarrow> map (\<lambda>r. if ar_id r = fst ie then edit_rule options e r else r) alerts)"

subsection \<open>Edited rules stay well formed\<close>

text \<open>A rule that is stored and read back is the same: its fields are from the lists of the window, its
  value is a finite number other than negative zero, its symbol a text or absent.\<close>

definition alert_fit :: "alert_rule \<Rightarrow> bool" where
  "alert_fit r \<longleftrightarrow> alert_rule_ok r \<and> ar_id r \<noteq> [] \<and> ar_value r \<noteq> NegZero
     \<and> (case ar_symbol r of Undefined \<Rightarrow> True | Str a \<Rightarrow> True | _ \<Rightarrow> False)"

definition plain_price :: "jsnum option \<Rightarrow> bool" where
  "plain_price p \<longleftrightarrow> (case p of None \<Rightarrow> True | Some x \<Rightarrow> is_finite x \<and> x \<noteq> NegZero)"

text \<open>What the controls of a row offer.\<close>

definition offered :: "alert_edit \<Rightarrow> bool" where
  "offered e = (case e of
     AlertProvider p \<Rightarrow> p \<in> set (map pd_key providers)
   | AlertField f \<Rightarrow> f \<in> set alert_fields
   | AlertOp op1 \<Rightarrow> op1 \<in> set alert_ops
   | AlertMode m \<Rightarrow> m \<in> {''price'', ''percent'', ''cents''}
   | AlertSound sound \<Rightarrow> sound \<in> set alert_sounds
   | AlertValue v \<Rightarrow> plain_price (Some v)
   | _ \<Rightarrow> True)"

definition market_prices_plain :: "market_info \<Rightarrow> bool" where
  "market_prices_plain m \<longleftrightarrow> plain_price (mk_price_to_beat m) \<and> plain_price (mk_start_price m) \<and> plain_price (mk_resolution_price m)"

text \<open>Edits with the time and the markets they meet.\<close>

definition edits_run ::
    "(string \<Rightarrow> string \<Rightarrow> int) \<Rightarrow> (jsnum \<times> market_info list \<times> string \<times> alert_edit) list \<Rightarrow> alert_rule list \<Rightarrow> alert_rule list" where
  "edits_run lc edits = fold (\<lambda>(now, markets, ie). edit_alerts now (useProductOptions lc markets) ie) edits"

lemma symbol_fit: "case opt_str a of Undefined \<Rightarrow> True | Str a \<Rightarrow> True | _ \<Rightarrow> False"
  by (cases a) simp_all

lemma option_mode_in: "option_mode o1 \<in> set alert_value_modes"
  by (simp add: option_mode_def alert_value_modes_def)

lemma edit_rule_fit:
  assumes "alert_fit r" and "offered e"
  shows "alert_fit (edit_rule options e r)"
  using assms symbol_fit option_mode_in
  by (cases e) (auto simp: alert_fit_def alert_rule_ok_def edit_rule_def Let_def offered_def plain_price_def
      alert_value_modes_def providers_def)

lemma catalogue_members: "o1 \<in> set (useProductOptions lc markets) \<longleftrightarrow> (\<exists>m\<in>set markets. o1 = product_of_market m)"
  by (auto simp: useProductOptions_def Let_def)

lemma first_plain: "(\<forall>p\<in>set ps. plain_price p) \<Longrightarrow> plain_price (first_some ps)"
  by (induction ps) (auto simp: plain_price_def split: option.splits)

lemma default_from: "default_option options = Some o1 \<Longrightarrow> o1 \<in> set options"
  by (auto simp: default_option_def or_else_def find_Some_iff split: option.splits list.splits)

lemma added_fit:
  assumes "\<forall>m\<in>set markets. market_prices_plain m"
  shows "alert_fit (added_alert now (useProductOptions lc markets))"
proof (cases "default_option (useProductOptions lc markets)")
  case None
  then show ?thesis
    by (simp add: added_alert_def alert_fit_def alert_rule_ok_def option_mode_in Let_def alert_fields_def alert_ops_def alert_sounds_def)
next
  case (Some o1)
  then obtain m where m: "m \<in> set markets" "o1 = product_of_market m"
    using default_from catalogue_members by blast
  then have "plain_price (first_some [po_priceToBeat o1, po_spot o1])"
    using assms by (intro first_plain) (auto simp: product_of_market_def market_prices_plain_def intro!: first_plain)
  then have "is_finite (ar_value (added_alert now (useProductOptions lc markets))) \<and> ar_value (added_alert now (useProductOptions lc markets)) \<noteq> NegZero"
    by (auto simp: added_alert_def Let_def Some plain_price_def split: option.splits)
  then show ?thesis
    by (simp add: added_alert_def alert_fit_def alert_rule_ok_def option_mode_in Let_def Some m(2))
qed

lemma edit_alerts_fit:
  assumes "\<forall>r\<in>set rules. alert_fit r" and "offered (snd ie)" and "\<forall>m\<in>set markets. market_prices_plain m"
  shows "\<forall>r\<in>set (edit_alerts now (useProductOptions lc markets) ie rules). alert_fit r"
  using assms edit_rule_fit [of _ "snd ie" "useProductOptions lc markets"] added_fit [OF assms(3)]
  by (cases "snd ie") (auto simp: edit_alerts_def)

lemma edits_run_fit:
  "\<lbrakk>\<forall>r\<in>set rules. alert_fit r; \<forall>(now, markets, ie)\<in>set edits. offered (snd ie) \<and> (\<forall>m\<in>set markets. market_prices_plain m)\<rbrakk>
     \<Longrightarrow> \<forall>r\<in>set (edits_run lc edits rules). alert_fit r"
proof (induction edits arbitrary: rules)
  case Nil
  then show ?case by (simp add: edits_run_def)
next
  case (Cons e edits)
  obtain now markets ie where e: "e = (now, markets, ie)" by (cases e) auto
  have "\<forall>r\<in>set (edit_alerts now (useProductOptions lc markets) ie rules). alert_fit r"
    using Cons.prems e by (intro edit_alerts_fit) auto
  from Cons.IH [OF this] Cons.prems(2) show ?case by (simp add: e edits_run_def)
qed

text \<open>C32. Whatever the operator does in the window, every rule it leaves in the list is stored and read back
  as it is when a workspace is saved.\<close>

theorem edited_rules_read_back:
  assumes "\<forall>r\<in>set rules. alert_fit r"
    and "\<forall>(now, markets, ie)\<in>set edits. offered (snd ie) \<and> (\<forall>m\<in>set markets. market_prices_plain m)"
    and "r \<in> set (edits_run lc edits rules)"
  shows "normalizeAlertRule t (json_norm (alert_rule_obj r)) index = Some r"
proof -
  from edits_run_fit [OF assms(1,2)] assms(3) have fit: "alert_fit r" by blast
  then have "json_norm (ar_symbol r) = ar_symbol r \<or> ar_symbol r = Undefined"
    by (cases "ar_symbol r") (auto simp: alert_fit_def)
  with fit show ?thesis by (intro alert_rule_back) (auto simp: alert_fit_def)
qed

lemma edited_rules_read_back_witness:
  "normalizeAlertRule (Fin 0) (json_norm (alert_rule_obj
     (edits_run (\<lambda>s t. 0) [(Fin 5, [], ''a'', AlertField ''fill''), (Fin 6, [], ''a'', AlertPhone ''+1'')] [sample_rule ''last''] ! 0))) 0
   = Some (edits_run (\<lambda>s t. 0) [(Fin 5, [], ''a'', AlertField ''fill''), (Fin 6, [], ''a'', AlertPhone ''+1'')] [sample_rule ''last''] ! 0)"
  by (rule edited_rules_read_back [of "[sample_rule ''last'']"
      "[(Fin 5, [], ''a'', AlertField ''fill''), (Fin 6, [], ''a'', AlertPhone ''+1'')]" _ "\<lambda>s t. 0"])
    (simp_all add: alert_fit_def alert_rule_ok_def sample_rule_def offered_def alert_fields_def alert_ops_def
      alert_sounds_def alert_value_modes_def edits_run_def edit_alerts_def)

end
