(* ===== verification/MarketRows.thy ===== *)
theory MarketRows
  imports DepthLadder Products
begin

text \<open>
  The market data window and the liquidity map of \<open>apps/terminal/src/components/WorkspaceCanvas.tsx\<close>: the
  cells of a row from its book, prints, bars and option, the rows and columns that the operator changes,
  and the rows of the map with their score and their counts by state of the feed. Main results: rows and
  columns keep their invariant, and the map shows each product that passes its filters once, every row
  counted under one state.
\<close>

subsection \<open>The cells of a row\<close>

text \<open>What the store holds for the product of a row.\<close>

record row_sources =
  ws_book :: "poly_book option"
  ws_ticks :: "poly_trade_tick list"
  ws_fills :: "poly_trade_tick list"
  ws_bars :: "bar list"
  ws_history :: "prob_point list"

definition row_sources_of :: "terminal_state \<Rightarrow> product_option \<Rightarrow> row_sources" where
  "row_sources_of s option =
     \<lparr>ws_book = (case truthy_text (po_marketKey option) of None \<Rightarrow> None | Some k \<Rightarrow> dict_get (ts_polyBooks s) k),
      ws_ticks = rows_of (Some option) (ts_polyTicks s), ws_fills = rows_of (Some option) (ts_fills s),
      ws_bars = (case truthy_text (po_asset option) of None \<Rightarrow> [] | Some a \<Rightarrow> get_or (dict_get (ts_bars s) a) []),
      ws_history = rows_of (Some option) (ts_probHistory s)\<rparr>"

definition row_mode :: "product_option \<Rightarrow> row_sources \<Rightarrow> quote_mode" where
  "row_mode option w =
     (if bookUsesRawPrices (ws_book w) (ws_ticks w) \<or> po_provider option = ''cme'' then PriceQuote
      else if po_spot option \<noteq> None \<and> ws_book w = None then MoneyQuote else CentsQuote)"

definition finite_number :: "jsnum option \<Rightarrow> jsnum option" where
  "finite_number x = (case x of Some n \<Rightarrow> if is_finite n then Some n else None | None \<Rightarrow> None)"

definition row_last :: "quote_mode \<Rightarrow> product_option \<Rightarrow> row_sources \<Rightarrow> series_stats option \<Rightarrow> series_stats option \<Rightarrow> jsnum option" where
  "row_last mode option w stats futures =
     (let trade = latestTradeForMarket (ws_ticks w) (ws_fills w); b = ws_book w;
          bookLtp = or_else (finite_number (Option.bind b pb_ltp))
            (if mode = PriceQuote then finite_number (map_option pb_up_pct b) else None)
      in case mode of
        PriceQuote \<Rightarrow> first_some [bookLtp, map_option pt_price trade, map_option pb_mid b, po_priceToBeat option,
            map_option sx_last futures, po_yes option]
      | MoneyQuote \<Rightarrow> first_some [po_spot option, map_option sx_last stats]
      | CentsQuote \<Rightarrow> first_some [yesPriceFromTrade trade, map_option (\<lambda>b. jmul (pb_mid b) (Fin 100)) b,
            map_option sx_last stats, po_yes option])"

text \<open>The price of a side: the best of the book, or else one made from the last price or the middle.\<close>

definition row_quote ::
    "quote_mode \<Rightarrow> jsnum option \<Rightarrow> jsnum option \<Rightarrow> jsnum option \<Rightarrow> jsnum \<Rightarrow> (jsnum \<Rightarrow> jsnum) \<Rightarrow> jsnum option" where
  "row_quote mode best lastPrice mid factor around = (case best of
     Some p \<Rightarrow> Some (if mode = CentsQuote then jmul p (Fin 100) else p)
   | None \<Rightarrow> if mode = MoneyQuote \<and> lastPrice \<noteq> None then map_option (\<lambda>p. jmul p factor) lastPrice
       else if mode = PriceQuote \<and> lastPrice \<noteq> None then lastPrice
       else map_option around mid)"

record market_cells =
  mc_mode :: quote_mode
  mc_last :: "jsnum option"
  mc_bid :: "jsnum option"
  mc_ask :: "jsnum option"
  mc_bidSize :: "jsnum option"
  mc_askSize :: "jsnum option"
  mc_spread :: "jsnum option"
  mc_status :: string
  mc_statusDetail :: "string option"
  mc_change24h :: "jsnum option"
  mc_edge :: "jsnum option"
  mc_volume :: jsnum
  mc_open :: "jsnum option"
  mc_high :: "jsnum option"
  mc_low :: "jsnum option"
  mc_previousClose :: "jsnum option"
  mc_change :: "jsnum option"
  mc_timestamp :: "jsnum option"

definition both_of :: "(jsnum \<Rightarrow> jsnum \<Rightarrow> jsnum) \<Rightarrow> jsnum option \<Rightarrow> jsnum option \<Rightarrow> jsnum option" where
  "both_of f a b = (case (a, b) of (Some x, Some y) \<Rightarrow> Some (f x y) | _ \<Rightarrow> None)"

definition market_cells_of :: "product_option \<Rightarrow> row_sources \<Rightarrow> market_cells" where
  "market_cells_of option w =
     (let mode = row_mode option w; b = ws_book w;
          stats = (if mode = MoneyQuote then barStats (ws_bars w) else probabilityStats (ws_history w));
          futures = (if mode = PriceQuote then barStats (ws_bars w) else None);
          mid = (if mode = PriceQuote then po_priceToBeat option else po_yes option);
          lastPrice = row_last mode option w stats futures;
          bid = row_quote mode (Option.bind b pb_best_bid) lastPrice mid (rnd False (9999 / 10000))
            (\<lambda>m. math_max (Fin 0) (jsub m (Fin (1/2))));
          ask = row_quote mode (Option.bind b pb_best_ask) lastPrice mid (rnd False (10001 / 10000))
            (\<lambda>m. math_min (Fin 100) (jadd m (Fin (1/2))));
          derived = (case (mode, map_option sx_volume stats, lastPrice) of
            (MoneyQuote, Some v, Some p) \<Rightarrow> if num_truthy v \<and> num_truthy p then Some (jdiv v (Fin 2)) else None
          | _ \<Rightarrow> None);
          first_size = (\<lambda>levels. case levels of [] \<Rightarrow> None | l # ls \<Rightarrow> Some (pl_size l));
          printed = (\<lambda>ts. if mode = CentsQuote then Some (sumTradeContracts (slice_last 20 ts)) else None);
          previousClose = (if mode = PriceQuote
            then first_some [Option.bind futures sx_previousClose, po_priceToBeat option]
            else first_some [Option.bind stats sx_previousClose, if mode = MoneyQuote then po_spot option else None]);
          change = both_of jsub lastPrice previousClose;
          tapeVolume = jadd (sumTradeNotional (ws_ticks w)) (sumTradeNotional (ws_fills w))
      in \<lparr>mc_mode = mode, mc_last = lastPrice, mc_bid = bid, mc_ask = ask,
          mc_bidSize = first_some [Option.bind b (first_size \<circ> pb_bids), derived, printed (ws_ticks w)],
          mc_askSize = first_some [Option.bind b (first_size \<circ> pb_asks), derived, printed (ws_fills w)],
          mc_spread = or_else (Option.bind b pb_spread_pct) (both_of (\<lambda>x y. jsub y x) bid ask),
          mc_status = to_upper (case truthy_text (po_marketStatus option) of Some t \<Rightarrow> t | None \<Rightarrow> ''WAITING''),
          mc_statusDetail = po_marketStatusDetail option,
          mc_change24h = both_of (\<lambda>c p. jmul (jdiv c p) (Fin 100)) change
            (case previousClose of Some p \<Rightarrow> if num_truthy p then Some p else None | None \<Rightarrow> None),
          mc_edge = both_of jsub (po_truthYes option) (po_yes option),
          mc_volume = get_or (first_some [po_volume option, map_option sx_volume futures, map_option sx_volume stats]) tapeVolume,
          mc_open = first_some [map_option sx_open futures, map_option sx_open stats, lastPrice],
          mc_high = first_some [map_option sx_high futures, map_option sx_high stats, lastPrice],
          mc_low = first_some [map_option sx_low futures, map_option sx_low stats, lastPrice],
          mc_previousClose = previousClose, mc_change = change,
          mc_timestamp = first_some [map_option (\<lambda>b. get_or (pb_seen_ms b) (pb_timestamp_ms b)) b,
            map_option pt_timestamp (latestTradeForMarket (ws_ticks w) (ws_fills w)),
            map_option sx_timestamp futures, map_option sx_timestamp stats, po_lastUpdate option]\<rparr>)"

text \<open>The symbols that the window subscribes to.\<close>

definition row_subscriptions :: "product_option list \<Rightarrow> market_row list \<Rightarrow> string list" where
  "row_subscriptions options rows = concat (map (\<lambda>row.
     let option = productOptionForSavedRow options row in
     if po_provider option \<noteq> ''cme'' then []
     else [to_upper (get_or (first_some [po_marketKey option, po_asset option]) (po_symbol option))]) rows)"

subsection \<open>Rows and columns\<close>

record column_spec =
  cs_key :: string
  cs_width :: jsnum
  cs_min :: jsnum
  cs_max :: jsnum
  cs_resizable :: bool

definition column :: "string \<Rightarrow> rat \<Rightarrow> rat \<Rightarrow> rat \<Rightarrow> bool \<Rightarrow> column_spec" where
  "column key width lo hi resizable =
     \<lparr>cs_key = key, cs_width = Fin width, cs_min = Fin lo, cs_max = Fin hi, cs_resizable = resizable\<rparr>"

definition market_data_columns :: "column_spec list" where
  "market_data_columns =
     [column ''exchange'' 48 38 90 True, column ''symbol'' 58 42 128 True, column ''last'' 66 50 130 True,
      column ''bid'' 66 50 130 True, column ''ask'' 66 50 130 True, column ''bidSize'' 50 42 96 True,
      column ''askSize'' 50 42 96 True, column ''volume'' 54 42 110 True, column ''open'' 62 48 120 True,
      column ''high'' 62 48 120 True, column ''low'' 62 48 120 True, column ''previous'' 62 48 120 True,
      column ''change'' 58 46 112 True, column ''changePct'' 58 46 112 True, column ''time'' 88 60 132 True,
      column ''expiry'' 60 44 96 True, column ''status'' 58 48 92 True, column ''action'' 28 28 38 False]"

definition default_widths :: "jsnum dict" where
  "default_widths = fold (\<lambda>c acc. dict_set (cs_key c) (cs_width c) acc) market_data_columns []"

record market_window =
  mv_rows :: "market_row list"
  mv_widths :: "jsnum dict"
  mv_fontSize :: jsnum
  mv_showPicker :: bool

definition open_market_window :: "market_row list \<Rightarrow> market_window" where
  "open_market_window rows = \<lparr>mv_rows = rows, mv_widths = default_widths, mv_fontSize = Fin 10, mv_showPicker = False\<rparr>"

definition addProduct :: "jsnum \<Rightarrow> product_option \<Rightarrow> market_window \<Rightarrow> market_window" where
  "addProduct now option w =
     w\<lparr>mv_rows := (if list_ex (\<lambda>row. rw_provider row = po_provider option \<and> rw_symbol row = po_symbol option) (mv_rows w)
         then mv_rows w
         else mv_rows w @ [\<lparr>rw_id = ''row-'' @ num_text now @ ''-'' @ po_provider option @ ''-'' @ po_symbol option,
            rw_provider = po_provider option, rw_symbol = po_symbol option\<rparr>]),
       mv_showPicker := False\<rparr>"

definition selectRow :: "product_option option \<Rightarrow> terminal_state \<Rightarrow> terminal_state" where
  "selectRow option s = (case option of
     None \<Rightarrow> s
   | Some o1 \<Rightarrow>
       (let s1 = setMarketProvider (po_provider o1) s;
            s2 = (case truthy_text (po_asset o1) of None \<Rightarrow> s1 | Some a \<Rightarrow> setActiveAsset a s1)
        in case truthy_text (po_marketKey o1) of None \<Rightarrow> s2 | Some k \<Rightarrow> setActiveMarketKey (Some k) s2))"

text \<open>Moves of the pointer after it went down on the edge of a column.\<close>

definition column_move :: "column_spec \<Rightarrow> jsnum \<Rightarrow> jsnum \<Rightarrow> jsnum \<Rightarrow> market_window \<Rightarrow> market_window" where
  "column_move c startX startWidth clientX w =
     w\<lparr>mv_widths := dict_set (cs_key c) (clamp (jsub (jadd startWidth clientX) startX) (cs_min c) (cs_max c)) (mv_widths w)\<rparr>"

definition column_drag :: "column_spec \<Rightarrow> jsnum \<Rightarrow> jsnum list \<Rightarrow> market_window \<Rightarrow> market_window" where
  "column_drag c startX moves w =
     (if \<not> cs_resizable c then w
      else let startWidth = get_or (dict_get (mv_widths w) (cs_key c)) NaN in
        fold (column_move c startX startWidth) moves w)"

datatype market_event =
    RowAdded jsnum product_option | RowRemoved string | ColumnDragged column_spec jsnum "jsnum list"
  | FontStep bool | PickerOpened | PickerClosed

fun market_step :: "market_event \<Rightarrow> market_window \<Rightarrow> market_window" where
  "market_step (RowAdded now option) w = addProduct now option w"
| "market_step (RowRemoved i) w = w\<lparr>mv_rows := filter (\<lambda>row. rw_id row \<noteq> i) (mv_rows w)\<rparr>"
| "market_step (ColumnDragged c startX moves) w = column_drag c startX moves w"
| "market_step (FontStep up) w =
     w\<lparr>mv_fontSize := clamp (if up then jadd (mv_fontSize w) (Fin 1) else jsub (mv_fontSize w) (Fin 1)) (Fin 8) (Fin 14)\<rparr>"
| "market_step PickerOpened w = w\<lparr>mv_showPicker := True\<rparr>"
| "market_step PickerClosed w = w\<lparr>mv_showPicker := False\<rparr>"

text \<open>The width that the columns need.\<close>

definition market_data_min_width :: "jsnum dict \<Rightarrow> jsnum" where
  "market_data_min_width widths =
     jadd (jadd (fold (\<lambda>c sum. jadd sum (get_or (dict_get widths (cs_key c)) NaN)) market_data_columns (Fin 0))
       (num_of_int (4 * (int (length market_data_columns) - 1)))) (Fin 12)"

subsection \<open>What the window keeps\<close>

definition width_fit :: "jsnum dict \<Rightarrow> column_spec \<Rightarrow> bool" where
  "width_fit widths c \<longleftrightarrow> (case dict_get widths (cs_key c) of None \<Rightarrow> False | Some x \<Rightarrow> jle (cs_min c) x \<and> jle x (cs_max c))"

text \<open>How many rows a product has. The rows that a window is opened with come from storage and may
  already hold a product twice; nothing done in the window gives a product a second row.\<close>

definition rows_of_product :: "string \<Rightarrow> string \<Rightarrow> market_row list \<Rightarrow> nat" where
  "rows_of_product p s rows = length (filter (\<lambda>r. rw_provider r = p \<and> rw_symbol r = s) rows)"

definition market_window_ok :: "market_row list \<Rightarrow> market_window \<Rightarrow> bool" where
  "market_window_ok rows w \<longleftrightarrow>
     (\<forall>p s. rows_of_product p s (mv_rows w) \<le> max 1 (rows_of_product p s rows))
     \<and> (\<forall>c\<in>set market_data_columns. width_fit (mv_widths w) c)
     \<and> jle (Fin 8) (mv_fontSize w) \<and> jle (mv_fontSize w) (Fin 14)"

text \<open>Drags are on the columns of the window, at finite positions of the pointer.\<close>

definition market_event_ok :: "market_event \<Rightarrow> bool" where
  "market_event_ok e = (case e of
     ColumnDragged c startX moves \<Rightarrow> c \<in> set market_data_columns \<and> is_finite startX \<and> list_all is_finite moves
   | _ \<Rightarrow> True)"

lemma columns_have_bounds:
  "c \<in> set market_data_columns \<Longrightarrow> is_finite (cs_min c) \<and> is_finite (cs_max c) \<and> jle (cs_min c) (cs_max c)"
  by (auto simp: market_data_columns_def column_def jle_finite)

lemma columns_by_key:
  "c \<in> set market_data_columns \<Longrightarrow> d \<in> set market_data_columns \<Longrightarrow> cs_key c = cs_key d \<Longrightarrow> c = d"
proof -
  have "distinct (map cs_key market_data_columns)" by (simp add: market_data_columns_def column_def)
  then have "inj_on cs_key (set market_data_columns)" by (simp add: distinct_map)
  then show "c \<in> set market_data_columns \<Longrightarrow> d \<in> set market_data_columns \<Longrightarrow> cs_key c = cs_key d \<Longrightarrow> c = d"
    by (rule inj_onD)
qed

lemma column_move_fit:
  assumes "c \<in> set market_data_columns" "is_finite startX" "is_finite startWidth" "is_finite clientX"
    and "\<forall>d\<in>set market_data_columns. width_fit (mv_widths w) d"
  shows "\<forall>d\<in>set market_data_columns. width_fit (mv_widths (column_move c startX startWidth clientX w)) d"
proof
  fix d
  assume d: "d \<in> set market_data_columns"
  obtain n where n: "n = jsub (jadd startWidth clientX) startX" by blast
  have "n \<noteq> NaN" unfolding n using assms(2-4) by (intro jsub_not_NaN jadd_not_NaN) auto
  then have "jle (cs_min c) (clamp n (cs_min c) (cs_max c)) \<and> jle (clamp n (cs_min c) (cs_max c)) (cs_max c)"
    using columns_have_bounds [OF assms(1)] by (intro clamp_between) (auto simp: jle_finite)
  then show "width_fit (mv_widths (column_move c startX startWidth clientX w)) d"
    using assms(5) d columns_by_key [OF d assms(1)]
    by (auto simp: width_fit_def column_move_def dict_get_set n [symmetric])
qed

lemma column_moves_fit:
  assumes "c \<in> set market_data_columns" "is_finite startX" "is_finite startWidth" "list_all is_finite moves"
    and "\<forall>d\<in>set market_data_columns. width_fit (mv_widths w) d"
  shows "\<forall>d\<in>set market_data_columns. width_fit (mv_widths (fold (column_move c startX startWidth) moves w)) d"
  using assms(4,5)
proof (induction moves arbitrary: w)
  case (Cons x moves)
  show ?case
    using Cons.IH [OF _ column_move_fit [OF assms(1-3) _ Cons.prems(2)]] Cons.prems(1) by simp
qed simp

lemma column_moves_rest:
  "mv_rows (fold (column_move c startX startWidth) moves w) = mv_rows w
     \<and> mv_fontSize (fold (column_move c startX startWidth) moves w) = mv_fontSize w"
  by (induction moves arbitrary: w) (simp_all add: column_move_def)

lemma column_drag_ok:
  assumes "market_window_ok rows w" "c \<in> set market_data_columns" "is_finite startX" "list_all is_finite moves"
  shows "market_window_ok rows (column_drag c startX moves w)"
proof -
  have "is_finite (get_or (dict_get (mv_widths w) (cs_key c)) NaN)"
    using assms(1,2) columns_have_bounds [OF assms(2)] finite_between [of "cs_min c" "cs_max c"]
    by (auto simp: market_window_ok_def width_fit_def split: option.splits)
  from column_moves_fit [OF assms(2,3) this assms(4), of w] assms(1) show ?thesis
    by (simp add: column_drag_def market_window_ok_def column_moves_rest Let_def)
qed

lemma font_step_ok:
  assumes "jle (Fin 8) x" "jle x (Fin 14)" and "n = jadd x (Fin 1) \<or> n = jsub x (Fin 1)"
  shows "jle (Fin 8) (clamp n (Fin 8) (Fin 14)) \<and> jle (clamp n (Fin 8) (Fin 14)) (Fin 14)"
proof -
  have "is_finite x" by (rule finite_between [OF _ _ assms(1,2)]) simp_all
  then have "n \<noteq> NaN" using assms(3) jadd_not_NaN [of x "Fin 1"] jsub_not_NaN [of x "Fin 1"] finite_not_NaN [of x] by auto
  then show ?thesis by (intro clamp_between) (simp_all add: jle_finite)
qed

lemma rows_after_add:
  "rows_of_product p s (mv_rows (addProduct now option w)) \<le> max 1 (rows_of_product p s (mv_rows w))"
  by (auto simp: rows_of_product_def addProduct_def list_ex_iff filter_empty_conv)

lemma rows_after_remove: "rows_of_product p s (filter f rows) \<le> rows_of_product p s rows"
proof -
  have "filter (\<lambda>r. rw_provider r = p \<and> rw_symbol r = s) (filter f rows) = filter f (filter (\<lambda>r. rw_provider r = p \<and> rw_symbol r = s) rows)"
    by (simp add: conj_commute)
  then show ?thesis by (simp add: rows_of_product_def del: filter_filter)
qed

lemma market_step_ok:
  assumes "market_window_ok rows w" and "market_event_ok e"
  shows "market_window_ok rows (market_step e w)"
proof (cases e)
  case (FontStep up)
  with assms(1) font_step_ok [of "mv_fontSize w"] show ?thesis by (auto simp: market_window_ok_def)
next
  case (ColumnDragged c startX moves)
  with assms column_drag_ok show ?thesis by (simp add: market_event_ok_def)
next
  case (RowAdded now option)
  have "rows_of_product p s (mv_rows (addProduct now option w)) \<le> max 1 (rows_of_product p s rows)" for p s
  proof -
    have "rows_of_product p s (mv_rows w) \<le> max 1 (rows_of_product p s rows)"
      using assms(1) by (simp add: market_window_ok_def)
    with rows_after_add [of p s now option w] show ?thesis by linarith
  qed
  with assms(1) show ?thesis by (simp add: RowAdded market_window_ok_def) (simp add: addProduct_def)
next
  case (RowRemoved i)
  with assms(1) show ?thesis
    by (auto simp: market_window_ok_def intro: order_trans [OF rows_after_remove])
qed (use assms(1) in \<open>simp_all add: market_window_ok_def\<close>)

lemma open_window_ok: "market_window_ok rows (open_market_window rows)"
  by (simp add: market_window_ok_def open_market_window_def default_widths_def market_data_columns_def column_def
      width_fit_def jle_finite)

text \<open>C18. However products are added and removed, columns dragged at finite positions of the pointer and the
  font changed: no product has more than one row, unless it had them in the saved rows that the window was
  opened with, and then no more than it had; every column stays within its bounds, and the font within eight
  and fourteen.\<close>

theorem market_window_invariant:
  assumes "list_all market_event_ok events"
  shows "market_window_ok rows (fold market_step events (open_market_window rows))"
proof -
  have "market_window_ok rows (fold market_step events w)" if "market_window_ok rows w" for w
    using that assms by (induction events arbitrary: w) (simp_all add: market_step_ok)
  then show ?thesis using open_window_ok .
qed

lemma market_window_invariant_witness:
  "market_window_ok [] (fold market_step [ColumnDragged (column ''bid'' 66 50 130 True) (Fin 10) [Fin 500], FontStep False]
     (open_market_window []))"
  by (rule market_window_invariant) (simp_all add: market_event_ok_def market_data_columns_def)

subsection \<open>The liquidity map\<close>

datatype feed_state = FeedLive | FeedPartial | FeedAwaiting

record liquidity_row =
  lq_option :: product_option
  lq_activity :: jsnum
  lq_providerVolume :: jsnum
  lq_oiProxy :: jsnum
  lq_spread :: "jsnum option"
  lq_bookDepth :: jsnum
  lq_bidDepth :: jsnum
  lq_askDepth :: jsnum
  lq_tapeContracts :: jsnum
  lq_fillContracts :: jsnum
  lq_fillVolume :: jsnum
  lq_dataFields :: nat
  lq_feedState :: feed_state
  lq_last :: "jsnum option"
  lq_score :: jsnum

text \<open>The logarithm is a parameter: its digits are left to the platform.\<close>

definition liquidity_score ::
    "(jsnum \<Rightarrow> jsnum) \<Rightarrow> jsnum \<Rightarrow> jsnum \<Rightarrow> jsnum \<Rightarrow> jsnum \<Rightarrow> nat \<Rightarrow> feed_state \<Rightarrow> jsnum option \<Rightarrow> jsnum" where
  "liquidity_score log10 activity oiProxy bookDepth tapeContracts dataFields state spread =
     (let part = (\<lambda>x weight. jmul (log10 (jadd x (Fin 1))) (Fin weight));
          total = jadd (jadd (jadd (part activity 16) (part oiProxy 10)) (part bookDepth 8)) (part tapeContracts 5)
      in clamp (jsub (jadd (jadd total (jmul (num_of_int (int dataFields)) (Fin 3)))
              (case state of FeedLive \<Rightarrow> Fin 10 | FeedPartial \<Rightarrow> Fin 3 | FeedAwaiting \<Rightarrow> Fin 0))
            (jmul (get_or spread (Fin 10)) (Fin (5/4)))) (Fin 0) (Fin 100))"

definition feed_state_of :: "bool \<Rightarrow> bool \<Rightarrow> bool \<Rightarrow> feed_state" where
  "feed_state_of hasVenueData hasQuote live =
     (if hasVenueData then FeedLive else if hasQuote \<or> live then FeedPartial else FeedAwaiting)"

definition liquidity_row_of :: "(jsnum \<Rightarrow> jsnum) \<Rightarrow> terminal_state \<Rightarrow> product_option \<Rightarrow> liquidity_row" where
  "liquidity_row_of log10 s option =
     (let w = row_sources_of s option; b = ws_book w; ticks = ws_ticks w; fillRows = ws_fills w;
          live = (po_live option = Some True);
          bids = (case b of None \<Rightarrow> [] | Some b1 \<Rightarrow> pb_bids b1); asks = (case b of None \<Rightarrow> [] | Some b1 \<Rightarrow> pb_asks b1);
          bidDepth = sum_of pl_size bids; askDepth = sum_of pl_size asks; bookDepth = jadd bidDepth askDepth;
          bookNotional = sum_of (\<lambda>l. jmul (pl_size l) (pl_price l)) (bids @ asks);
          tapeVolume = sumTradeNotional ticks; tapeContracts = sumTradeContracts ticks;
          fillVolume = sumTradeNotional fillRows; fillContracts = sumTradeContracts fillRows;
          providerVolume = get_or (po_volume option) (Fin 0);
          activity = jadd (jadd providerVolume tapeVolume) fillVolume;
          oiProxy = get_or (po_openInterest option)
            (jadd (jadd bookNotional fillVolume) (math_max (jmul activity (rnd False (18 / 100))) (Fin 0)));
          spread = or_else (Option.bind b pb_spread_pct)
            (if \<not> live then None
             else if po_provider option = ''hyperliquid'' then Some (rnd False (2 / 100))
             else Some (math_max (Fin (1/2)) (jsub (Fin 8) (log10 (math_max activity (Fin 1))))));
          hasVenueData = (jlt (Fin 0) providerVolume \<or> b \<noteq> None \<or> ticks \<noteq> [] \<or> fillRows \<noteq> []);
          hasQuote = (po_spot option \<noteq> None \<or> po_yes option \<noteq> None \<or> b \<noteq> None);
          state = feed_state_of hasVenueData hasQuote live;
          lastPrice = first_some [po_spot option, po_yes option, map_option (\<lambda>b1. jmul (pb_mid b1) (Fin 100)) b];
          dataFields = length (filter id [jlt (Fin 0) providerVolume, jlt (Fin 0) oiProxy, jlt (Fin 0) bookDepth,
            jlt (Fin 0) tapeContracts, jlt (Fin 0) fillContracts, spread \<noteq> None, lastPrice \<noteq> None])
      in \<lparr>lq_option = option, lq_activity = activity, lq_providerVolume = providerVolume, lq_oiProxy = oiProxy,
          lq_spread = spread, lq_bookDepth = bookDepth, lq_bidDepth = bidDepth, lq_askDepth = askDepth,
          lq_tapeContracts = tapeContracts, lq_fillContracts = fillContracts, lq_fillVolume = fillVolume,
          lq_dataFields = dataFields, lq_feedState = state, lq_last = lastPrice,
          lq_score = liquidity_score log10 activity oiProxy bookDepth tapeContracts dataFields state spread\<rparr>)"

text \<open>The rows for a venue (\<open>None\<close> for all) and a least activity.\<close>

definition liquidity_shown :: "string option \<Rightarrow> jsnum \<Rightarrow> liquidity_row \<Rightarrow> bool" where
  "liquidity_shown provider minVolume row \<longleftrightarrow>
     (case provider of None \<Rightarrow> True | Some p \<Rightarrow> po_provider (lq_option row) = p) \<and> jle minVolume (lq_activity row)"

definition liquidity_rows ::
    "(jsnum \<Rightarrow> jsnum) \<Rightarrow> (string \<Rightarrow> string \<Rightarrow> int) \<Rightarrow> terminal_state \<Rightarrow> string option \<Rightarrow> jsnum \<Rightarrow> liquidity_row list" where
  "liquidity_rows log10 lc s provider minVolume =
     sort_js (before_desc lq_score) (filter (liquidity_shown provider minVolume)
       (map (liquidity_row_of log10 s) (mappedLiquidityProducts lc (useProductOptions lc (ts_markets s)))))"

record provider_stat =
  ps_provider :: string
  ps_rows :: nat
  ps_live :: nat
  ps_partial :: nat
  ps_awaiting :: nat
  ps_activity :: jsnum

definition provider_stats :: "liquidity_row list \<Rightarrow> provider_stat list" where
  "provider_stats rows = map (\<lambda>p.
     let mine = filter (\<lambda>row. po_provider (lq_option row) = pd_key p) rows;
         in_state = (\<lambda>st. length (filter (\<lambda>row. lq_feedState row = st) mine))
     in \<lparr>ps_provider = pd_key p, ps_rows = length mine, ps_live = in_state FeedLive, ps_partial = in_state FeedPartial,
         ps_awaiting = in_state FeedAwaiting, ps_activity = sum_of lq_activity mine\<rparr>) providers"

text \<open>The number typed as least activity.\<close>

definition typed_minimum :: "string \<Rightarrow> jsnum" where
  "typed_minimum v = math_max (Fin 0) (or_zero (to_num (Str v)))"

lemma liquidity_row_option [simp]: "lq_option (liquidity_row_of log10 s option) = option"
  by (simp add: liquidity_row_of_def Let_def)

lemma score_range: "clamp n (Fin 0) (Fin 100) = NaN \<or> jle (Fin 0) (clamp n (Fin 0) (Fin 100)) \<and> jle (clamp n (Fin 0) (Fin 100)) (Fin 100)"
proof (cases "n = NaN")
  case True
  then show ?thesis by (simp add: clamp_def math_min_def math_max_def)
next
  case False
  then show ?thesis using clamp_between [of n "Fin 100" "Fin 0" "Fin 100"] by (simp add: jle_finite)
qed

lemma score_in_range: "lq_score (liquidity_row_of log10 s option) = NaN
    \<or> jle (Fin 0) (lq_score (liquidity_row_of log10 s option)) \<and> jle (lq_score (liquidity_row_of log10 s option)) (Fin 100)"
proof -
  have "\<exists>a oi d t n st sp. lq_score (liquidity_row_of log10 s option) = liquidity_score log10 a oi d t n st sp"
    by (simp only: liquidity_row_of_def Let_def liquidity_row.simps) blast
  moreover have "\<exists>n. liquidity_score log10 a oi d t k st sp = clamp n (Fin 0) (Fin 100)" for a oi d t k st sp
    unfolding liquidity_score_def Let_def by blast
  ultimately show ?thesis using score_range by metis
qed

lemma states_partition:
  "length rows = length (filter (\<lambda>r. lq_feedState r = FeedLive) rows) + length (filter (\<lambda>r. lq_feedState r = FeedPartial) rows)
     + length (filter (\<lambda>r. lq_feedState r = FeedAwaiting) rows)"
  by (induction rows) (auto, metis feed_state.exhaust)

text \<open>The map shows every market of the store whose row passes the filters once and no other, and counts
  every row of a venue under exactly one state of the feed; a score that is a number is between 0 and 100.\<close>

theorem liquidity_map_complete:
  "mset (map (po_symbol \<circ> lq_option) (liquidity_rows log10 lc s provider minVolume))
     = mset (map mk_key (filter (\<lambda>m. liquidity_shown provider minVolume (liquidity_row_of log10 s (product_of_market m))) (ts_markets s)))
   \<and> list_all (\<lambda>st. ps_rows st = ps_live st + ps_partial st + ps_awaiting st)
       (provider_stats (liquidity_rows log10 lc s provider minVolume))
   \<and> list_all (\<lambda>row. lq_score row = NaN \<or> jle (Fin 0) (lq_score row) \<and> jle (lq_score row) (Fin 100))
       (liquidity_rows log10 lc s provider minVolume)"
proof (intro conjI)
  have "mset (mappedLiquidityProducts lc (useProductOptions lc (ts_markets s))) = mset (map product_of_market (ts_markets s))"
    by (simp add: mappedLiquidityProducts_def Let_def useProductOptions_mset)
  then have "mset (liquidity_rows log10 lc s provider minVolume)
      = filter_mset (liquidity_shown provider minVolume) (image_mset (liquidity_row_of log10 s) (mset (map product_of_market (ts_markets s))))"
    by (simp add: liquidity_rows_def)
  then have "mset (map (po_symbol \<circ> lq_option) (liquidity_rows log10 lc s provider minVolume))
      = image_mset (po_symbol \<circ> lq_option) (filter_mset (liquidity_shown provider minVolume)
          (mset (map (liquidity_row_of log10 s \<circ> product_of_market) (ts_markets s))))"
    by (simp add: multiset.map_comp)
  also have "\<dots> = mset (map mk_key (filter (\<lambda>m. liquidity_shown provider minVolume (liquidity_row_of log10 s (product_of_market m))) (ts_markets s)))"
    by (simp add: filter_map comp_def flip: mset_filter mset_map)
  finally show "mset (map (po_symbol \<circ> lq_option) (liquidity_rows log10 lc s provider minVolume))
     = mset (map mk_key (filter (\<lambda>m. liquidity_shown provider minVolume (liquidity_row_of log10 s (product_of_market m))) (ts_markets s)))" .
  show "list_all (\<lambda>st. ps_rows st = ps_live st + ps_partial st + ps_awaiting st)
       (provider_stats (liquidity_rows log10 lc s provider minVolume))"
    by (simp add: provider_stats_def list_all_iff Let_def del: filter_filter) (intro ballI states_partition)
  show "list_all (\<lambda>row. lq_score row = NaN \<or> jle (Fin 0) (lq_score row) \<and> jle (lq_score row) (Fin 100))
      (liquidity_rows log10 lc s provider minVolume)"
    using score_in_range by (auto simp: liquidity_rows_def list_all_iff)
qed

end
