(* ===== verification/ModelVariants.thy ===== *)
theory ModelVariants
  imports WorkspaceSettings JsDate
begin

text \<open>
  The model governance window of \<open>apps/terminal/src/components/WorkspaceCanvas.tsx\<close>: drafts of model
  variants, their normalisation, the library kept in browser storage next to the current draft and the
  registry of an earlier release, and the handlers that edit, load, save, delete and clear. Main results:
  in every run the library is a map that saves and deletions update and that storage holds, and a saved
  variant is what the next window opens with.
\<close>

subsection \<open>Variants\<close>

text \<open>Other properties of a stored object are carried along but never read; they are left out.\<close>

record model_variant =
  mo_name :: string
  mo_version :: string
  mo_horizon :: string
  mo_owner :: string
  mo_objective :: string
  mo_notes :: string
  mo_changeLog :: string
  mo_reviewCriteria :: string
  mo_savedAt :: "string option"
  mo_schema :: "string option"

definition default_variant :: model_variant where
  "default_variant = \<lparr>mo_name = ''Cerious-FactorStack-Monitor'', mo_version = ''v0.1'',
     mo_horizon = ''Intraday / 1-week'', mo_owner = ''Research'',
     mo_objective = ''Combine independent market, macro, positioning, news, and liquidity signals into a bounded decision-support score with explainable attribution.'',
     mo_notes = ''Baseline factor stack: trend/relative strength, volatility, rates/credit, CFTC positioning, news pressure, and liquidity checks.'',
     mo_changeLog = ''v0.1: Initial governance registry and factor-scoring process documentation.'',
     mo_reviewCriteria = ''Promote only after data-quality checks, walk-forward validation, turnover/slippage review, adverse-regime review, and live-monitoring notes.'',
     mo_savedAt = None, mo_schema = None\<rparr>"

definition variant_schema :: string where
  "variant_schema = ''cerious.model.variant.v1''"

definition model_variant_key :: string where
  "model_variant_key = ''cerious.model.variant.v1''"

definition model_variant_library_key :: string where
  "model_variant_library_key = ''cerious.model.variant.library.v1''"

definition legacy_variant_key :: string where
  "legacy_variant_key = ''ceriousTraderModelVariantRegistryV1''"

text \<open>Arrays are objects too.\<close>

definition normalizeModelVariant :: "jsv \<Rightarrow> model_variant option" where
  "normalizeModelVariant raw =
     (if \<not> is_object raw \<and> \<not> is_array raw then None
      else let field = (\<lambda>k d. to_str (js_or (oget (as_obj raw) k) (Str d)));
               savedAt = oget (as_obj raw) ''savedAt''; schema = oget (as_obj raw) ''schema''
        in Some \<lparr>mo_name = field ''name'' (mo_name default_variant), mo_version = field ''version'' (mo_version default_variant),
             mo_horizon = field ''horizon'' (mo_horizon default_variant), mo_owner = field ''owner'' (mo_owner default_variant),
             mo_objective = field ''objective'' (mo_objective default_variant), mo_notes = field ''notes'' (mo_notes default_variant),
             mo_changeLog = field ''changeLog'' (mo_changeLog default_variant),
             mo_reviewCriteria = field ''reviewCriteria'' (mo_reviewCriteria default_variant),
             mo_savedAt = (if truthy savedAt then Some (to_str savedAt) else None),
             mo_schema = Some (if truthy schema then to_str schema else variant_schema)\<rparr>)"

definition variant_obj :: "model_variant \<Rightarrow> jsv" where
  "variant_obj v = Obj [(''name'', Str (mo_name v)), (''version'', Str (mo_version v)), (''horizon'', Str (mo_horizon v)),
     (''owner'', Str (mo_owner v)), (''objective'', Str (mo_objective v)), (''notes'', Str (mo_notes v)),
     (''changeLog'', Str (mo_changeLog v)), (''reviewCriteria'', Str (mo_reviewCriteria v)),
     (''savedAt'', opt_str (mo_savedAt v)), (''schema'', opt_str (mo_schema v))]"

definition parseModelVariant :: "cell \<Rightarrow> model_variant option" where
  "parseModelVariant raw = (case raw of Absent \<Rightarrow> None | Malformed \<Rightarrow> None | Json v \<Rightarrow> normalizeModelVariant v)"

definition modelVariantKey :: "model_variant \<Rightarrow> string" where
  "modelVariantKey v = to_lower (trim (mo_name v)) @ ''::'' @ to_lower (trim (mo_version v))"

text \<open>The local text of a date, and the time that a text of a date names, are parameters.\<close>

definition modelVariantLabel :: "(string \<Rightarrow> string) \<Rightarrow> model_variant \<Rightarrow> string" where
  "modelVariantLabel local v = mo_name v @ '' '' @ mo_version v
     @ (case truthy_text (mo_savedAt v) of None \<Rightarrow> [] | Some t \<Rightarrow> '' | '' @ local t)"

definition saved_time :: "(string \<Rightarrow> jsnum) \<Rightarrow> model_variant \<Rightarrow> jsnum" where
  "saved_time parse v = (let t = parse (get_or (mo_savedAt v) []) in if num_truthy t then t else Fin 0)"

definition upsertModelVariantLibrary ::
    "(string \<Rightarrow> jsnum) \<Rightarrow> model_variant list \<Rightarrow> model_variant \<Rightarrow> model_variant list" where
  "upsertModelVariantLibrary parse xs v =
     sort_js (before_desc (saved_time parse)) (v # filter (\<lambda>item. modelVariantKey item \<noteq> modelVariantKey v) xs)"

definition saveModelVariantLibrary :: "model_variant list \<Rightarrow> storage \<Rightarrow> storage" where
  "saveModelVariantLibrary xs st = set_json model_variant_library_key (Arr (map variant_obj xs)) st"

definition loadModelVariantLibrary :: "(string \<Rightarrow> jsnum) \<Rightarrow> storage \<Rightarrow> model_variant list" where
  "loadModelVariantLibrary parse st =
     (let merge = (\<lambda>library.
            let current = parseModelVariant (get_item st model_variant_key);
                legacy = parseModelVariant (get_item st legacy_variant_key);
                m1 = (case current of None \<Rightarrow> library | Some v \<Rightarrow> upsertModelVariantLibrary parse library v)
            in case legacy of None \<Rightarrow> m1
               | Some v \<Rightarrow> upsertModelVariantLibrary parse m1 (v\<lparr>mo_schema := Some variant_schema\<rparr>))
      in case get_item st model_variant_library_key of
           Absent \<Rightarrow> merge []
         | Malformed \<Rightarrow> []
         | Json parsed \<Rightarrow> merge (if is_array parsed then List.map_filter normalizeModelVariant (as_list parsed) else []))"

definition loadModelVariantDraft :: "(string \<Rightarrow> jsnum) \<Rightarrow> storage \<Rightarrow> model_variant" where
  "loadModelVariantDraft parse st =
     (case parseModelVariant (get_item st model_variant_key) of
        Some current \<Rightarrow> current
      | None \<Rightarrow> (case loadModelVariantLibrary parse st of [] \<Rightarrow> default_variant | v # vs \<Rightarrow> v))"

subsection \<open>The window\<close>

record variant_window =
  vw_draft :: model_variant
  vw_library :: "model_variant list"
  vw_selected :: string
  vw_status :: string
  vw_storage :: storage

definition open_variants :: "(string \<Rightarrow> string) \<Rightarrow> (string \<Rightarrow> jsnum) \<Rightarrow> storage \<Rightarrow> variant_window" where
  "open_variants local parse st =
     (let draft = loadModelVariantDraft parse st in
      \<lparr>vw_draft = draft, vw_library = loadModelVariantLibrary parse st,
       vw_selected = (case truthy_text (mo_savedAt draft) of None \<Rightarrow> [] | Some t \<Rightarrow> modelVariantKey draft),
       vw_status = (case truthy_text (mo_savedAt draft) of
          None \<Rightarrow> ''No model variant saved in this browser yet.''
        | Some t \<Rightarrow> ''Loaded '' @ mo_name draft @ '' '' @ mo_version draft @ '' saved '' @ local t @ ''.''),
       vw_storage = st\<rparr>)"

datatype variant_field =
  FieldName | FieldVersion | FieldHorizon | FieldOwner | FieldObjective | FieldNotes | FieldChangeLog | FieldReviewCriteria

fun set_field :: "variant_field \<Rightarrow> string \<Rightarrow> model_variant \<Rightarrow> model_variant" where
  "set_field FieldName x v = v\<lparr>mo_name := x\<rparr>"
| "set_field FieldVersion x v = v\<lparr>mo_version := x\<rparr>"
| "set_field FieldHorizon x v = v\<lparr>mo_horizon := x\<rparr>"
| "set_field FieldOwner x v = v\<lparr>mo_owner := x\<rparr>"
| "set_field FieldObjective x v = v\<lparr>mo_objective := x\<rparr>"
| "set_field FieldNotes x v = v\<lparr>mo_notes := x\<rparr>"
| "set_field FieldChangeLog x v = v\<lparr>mo_changeLog := x\<rparr>"
| "set_field FieldReviewCriteria x v = v\<lparr>mo_reviewCriteria := x\<rparr>"

definition updateDraft :: "variant_field \<Rightarrow> string \<Rightarrow> variant_window \<Rightarrow> variant_window" where
  "updateDraft f x w = w\<lparr>vw_draft := set_field f x (vw_draft w), vw_selected := [],
     vw_status := ''Draft edited. Save Variant to persist.''\<rparr>"

definition persistLibrary :: "model_variant list \<Rightarrow> variant_window \<Rightarrow> variant_window" where
  "persistLibrary xs w = w\<lparr>vw_storage := saveModelVariantLibrary xs (vw_storage w), vw_library := xs\<rparr>"

definition loadVariant :: "(string \<Rightarrow> string) \<Rightarrow> string \<Rightarrow> variant_window \<Rightarrow> variant_window" where
  "loadVariant local key w =
     (let w1 = w\<lparr>vw_selected := key\<rparr> in
      case find (\<lambda>item. modelVariantKey item = key) (vw_library w) of
        None \<Rightarrow> w1
      | Some v \<Rightarrow> w1\<lparr>vw_storage := set_json model_variant_key (variant_obj v) (vw_storage w1), vw_draft := v,
          vw_status := ''Loaded '' @ mo_name v @ '' '' @ mo_version v
            @ (case truthy_text (mo_savedAt v) of None \<Rightarrow> [] | Some t \<Rightarrow> '' saved '' @ local t) @ ''.''\<rparr>)"

text \<open>A clock outside the range of dates makes \<open>toISOString\<close> throw before anything is changed.\<close>

definition saveDraft :: "(string \<Rightarrow> jsnum) \<Rightarrow> jsnum \<Rightarrow> variant_window \<Rightarrow> variant_window" where
  "saveDraft parse now w =
     (case toISOString now of Inl e \<Rightarrow> w
      | Inr t \<Rightarrow>
         (let v = (vw_draft w)\<lparr>mo_savedAt := Some t, mo_schema := Some variant_schema\<rparr>;
              w1 = persistLibrary (upsertModelVariantLibrary parse (vw_library w) v) w
          in w1\<lparr>vw_storage := set_json model_variant_key (variant_obj v) (vw_storage w1), vw_draft := v,
               vw_selected := modelVariantKey v,
               vw_status := ''Saved '' @ (if mo_name v = [] then ''model'' else mo_name v) @ '' '' @ mo_version v @ ''.''\<rparr>))"

definition deleteVariant :: "variant_window \<Rightarrow> variant_window" where
  "deleteVariant w =
     (if vw_selected w = [] then w
      else let key = vw_selected w; deleted = find (\<lambda>item. modelVariantKey item = key) (vw_library w);
               w1 = persistLibrary (filter (\<lambda>item. modelVariantKey item \<noteq> key) (vw_library w)) w;
               st = dict_del model_variant_key (vw_storage w1)
        in w1\<lparr>vw_storage := (if Option.bind deleted mo_schema = Some variant_schema then dict_del legacy_variant_key st else st),
              vw_selected := [],
              vw_draft := (if deleted \<noteq> None \<and> modelVariantKey (vw_draft w) = key then default_variant else vw_draft w),
              vw_status := (case deleted of None \<Rightarrow> ''Variant removed.''
                 | Some v \<Rightarrow> ''Deleted '' @ mo_name v @ '' '' @ mo_version v @ ''.'')\<rparr>)"

definition clearDraft :: "variant_window \<Rightarrow> variant_window" where
  "clearDraft w = w\<lparr>vw_storage := dict_del model_variant_key (vw_storage w), vw_draft := default_variant, vw_selected := [],
     vw_status := ''Model variant draft cleared.''\<rparr>"

datatype variant_event =
  VariantEdited variant_field string | VariantLoaded string | VariantSaved jsnum | VariantDeleted | VariantCleared

fun variant_step :: "(string \<Rightarrow> string) \<Rightarrow> (string \<Rightarrow> jsnum) \<Rightarrow> variant_event \<Rightarrow> variant_window \<Rightarrow> variant_window" where
  "variant_step local parse (VariantEdited f x) w = updateDraft f x w"
| "variant_step local parse (VariantLoaded key) w = loadVariant local key w"
| "variant_step local parse (VariantSaved now) w = saveDraft parse now w"
| "variant_step local parse VariantDeleted w = deleteVariant w"
| "variant_step local parse VariantCleared w = clearDraft w"

subsection \<open>The library is a map\<close>

interpretation variant_list: keyed_list modelVariantKey "sort_js (before_desc (saved_time parse))" for parse
  by unfold_locales simp

definition library_by_key :: "model_variant list \<Rightarrow> string \<Rightarrow> model_variant option" where
  "library_by_key xs = by_key modelVariantKey xs"

lemma upsert_library:
  assumes "distinct (map modelVariantKey xs)"
  shows "library_by_key (upsertModelVariantLibrary parse xs v) = (library_by_key xs)(modelVariantKey v \<mapsto> v)"
    and "distinct (map modelVariantKey (upsertModelVariantLibrary parse xs v))"
  using variant_list.upsert_map [OF assms, of parse v] variant_list.upsert_distinct [OF assms, of parse v]
  by (simp_all add: library_by_key_def upsertModelVariantLibrary_def)

lemma delete_library:
  assumes "distinct (map modelVariantKey xs)"
  shows "library_by_key (filter (\<lambda>item. modelVariantKey item \<noteq> k) xs) = (library_by_key xs)(k := None)"
  using assms by (simp add: library_by_key_def by_key_filter)

text \<open>The selection offers the keys of the library and none. The windows that can be reached.\<close>

definition variant_offered :: "variant_event \<Rightarrow> variant_window \<Rightarrow> bool" where
  "variant_offered e w = (case e of
     VariantLoaded key \<Rightarrow> key = [] \<or> key \<in> modelVariantKey ` set (vw_library w) | _ \<Rightarrow> True)"

inductive variants_reach :: "(string \<Rightarrow> string) \<Rightarrow> (string \<Rightarrow> jsnum) \<Rightarrow> storage \<Rightarrow> variant_window \<Rightarrow> bool"
  for local parse st where
  opened: "variants_reach local parse st (open_variants local parse st)"
| stepped: "variants_reach local parse st w \<Longrightarrow> variant_offered e w \<Longrightarrow> variants_reach local parse st (variant_step local parse e w)"

definition variants_ok :: "variant_window \<Rightarrow> bool" where
  "variants_ok w \<longleftrightarrow> distinct (map modelVariantKey (vw_library w))
     \<and> (vw_selected w = [] \<or> modelVariantKey (vw_draft w) = vw_selected w)"

lemma variant_step_ok:
  assumes "variants_ok w" and "variant_offered e w"
  shows "variants_ok (variant_step local parse e w)"
proof (cases e)
  case (VariantLoaded key)
  have "modelVariantKey v = key" if "find (\<lambda>item. modelVariantKey item = key) (vw_library w) = Some v" for v
    using that by (auto simp: find_Some_iff)
  moreover have "key = []" if "find (\<lambda>item. modelVariantKey item = key) (vw_library w) = None"
    using that assms(2) VariantLoaded by (auto simp: find_None_iff variant_offered_def)
  ultimately show ?thesis
    using assms(1) VariantLoaded by (auto simp: variants_ok_def loadVariant_def Let_def split: option.split)
next
  case (VariantSaved now)
  then show ?thesis
    using assms(1) upsert_library(2) by (auto simp: variants_ok_def saveDraft_def persistLibrary_def Let_def split: sum.split)
qed (use assms(1) in \<open>auto simp: variants_ok_def updateDraft_def deleteVariant_def clearDraft_def persistLibrary_def
    Let_def distinct_map_filter\<close>)

lemma open_variants_ok: "distinct (map modelVariantKey (loadModelVariantLibrary parse st)) \<Longrightarrow> variants_ok (open_variants local parse st)"
  by (auto simp: variants_ok_def open_variants_def Let_def split: option.split)

text \<open>What an event does to the map from keys to variants.\<close>

definition library_effect ::
    "variant_window \<Rightarrow> (string \<Rightarrow> model_variant option) \<Rightarrow> variant_event \<Rightarrow> (string \<Rightarrow> model_variant option)" where
  "library_effect w m e = (case e of
     VariantSaved now \<Rightarrow> (case toISOString now of Inl x \<Rightarrow> m
       | Inr t \<Rightarrow> m(modelVariantKey (vw_draft w) \<mapsto> (vw_draft w)\<lparr>mo_savedAt := Some t, mo_schema := Some variant_schema\<rparr>))
   | VariantDeleted \<Rightarrow> if vw_selected w = [] then m else m(modelVariantKey (vw_draft w) := None)
   | _ \<Rightarrow> m)"

lemma variants_reach_ok:
  assumes "variants_reach local parse st w" and "distinct (map modelVariantKey (loadModelVariantLibrary parse st))"
  shows "variants_ok w"
  using assms by (induction rule: variants_reach.induct) (simp_all add: open_variants_ok variant_step_ok)

lemma save_key [simp]: "modelVariantKey (v\<lparr>mo_savedAt := t, mo_schema := u\<rparr>) = modelVariantKey v"
  by (simp add: modelVariantKey_def)

text \<open>In every window that can be reached the library is a map, and an event changes it only as it says: a
  save puts the draft under its key, a deletion removes the variant that is shown in the draft.\<close>

theorem variant_library_refines:
  assumes "variants_reach local parse st w" and "distinct (map modelVariantKey (loadModelVariantLibrary parse st))"
    and "variant_offered e w"
  shows "library_by_key (vw_library (variant_step local parse e w)) = library_effect w (library_by_key (vw_library w)) e"
proof -
  have ok: "variants_ok w" using variants_reach_ok [OF assms(1,2)] .
  then have dist: "distinct (map modelVariantKey (vw_library w))" by (simp add: variants_ok_def)
  show ?thesis
    using ok upsert_library(1) [OF dist] delete_library [OF dist]
    by (cases e) (auto simp: library_effect_def variants_ok_def updateDraft_def loadVariant_def saveDraft_def deleteVariant_def
        clearDraft_def persistLibrary_def Let_def split: option.split sum.split)
qed

lemma variant_library_refines_witness:
  "library_by_key (vw_library (saveDraft (\<lambda>t. Fin 0) (Fin 0) (open_variants id (\<lambda>t. Fin 0) []))) ''cerious-factorstack-monitor::v0.1''
     = Some (default_variant\<lparr>mo_savedAt := Some ''1970-01-01T00:00:00.000Z'', mo_schema := Some variant_schema\<rparr>)"
proof -
  have iso: "toISOString (Fin 0) = Inr ''1970-01-01T00:00:00.000Z''" by code_simp
  have key: "modelVariantKey default_variant = ''cerious-factorstack-monitor::v0.1''" by code_simp
  have none: "open_variants id (\<lambda>t. Fin 0) [] = \<lparr>vw_draft = default_variant, vw_library = [], vw_selected = [],
      vw_status = ''No model variant saved in this browser yet.'', vw_storage = []\<rparr>"
    by (simp add: open_variants_def loadModelVariantDraft_def loadModelVariantLibrary_def parseModelVariant_def get_item_def
        default_variant_def truthy_text_def Let_def)
  show ?thesis
    using variant_library_refines [OF variants_reach.opened, of "\<lambda>t. Fin 0" "[]" "VariantSaved (Fin 0)" id]
    by (simp add: none iso key library_effect_def variant_offered_def library_by_key_def loadModelVariantLibrary_def
        parseModelVariant_def get_item_def Let_def)
qed

subsection \<open>Saved variants reopen\<close>

definition fields_filled :: "model_variant \<Rightarrow> bool" where
  "fields_filled v \<longleftrightarrow> list_all (\<lambda>x. x \<noteq> []) [mo_name v, mo_version v, mo_horizon v, mo_owner v, mo_objective v,
     mo_notes v, mo_changeLog v, mo_reviewCriteria v]"

definition variant_readable :: "model_variant \<Rightarrow> bool" where
  "variant_readable v \<longleftrightarrow> fields_filled v \<and> mo_savedAt v \<noteq> Some [] \<and> mo_schema v \<noteq> None \<and> mo_schema v \<noteq> Some []"

lemma readable_back: "variant_readable v \<Longrightarrow> normalizeModelVariant (json_norm (variant_obj v)) = Some v"
  by (cases v; cases "mo_savedAt v"; cases "mo_schema v")
    (auto simp: variant_readable_def fields_filled_def normalizeModelVariant_def variant_obj_def is_object_def as_obj_def
      js_or_def truthy_def opt_str_def)

lemma readable_list: "list_all variant_readable xs \<Longrightarrow>
    List.map_filter normalizeModelVariant (map (json_norm \<circ> variant_obj) xs) = xs"
  by (induction xs) (simp_all add: List.map_filter_def readable_back)

lemma iso_not_empty: "toISOString now = Inr t \<Longrightarrow> t \<noteq> []"
  by (auto simp: toISOString_def Let_def split: option.splits prod.splits)

lemma storage_keys: "model_variant_library_key \<noteq> model_variant_key" "legacy_variant_key \<noteq> model_variant_key"
    "legacy_variant_key \<noteq> model_variant_library_key"
  by (simp_all add: model_variant_library_key_def model_variant_key_def legacy_variant_key_def)

text \<open>A variant that is saved with its fields filled is what the window opens with the next time, selected
  and with the same library.\<close>

theorem saved_variant_reopens:
  assumes "distinct (map modelVariantKey (vw_library w))" and "list_all variant_readable (vw_library w)"
    and "fields_filled (vw_draft w)" and "toISOString now = Inr t"
    and "parseModelVariant (get_item (vw_storage w) legacy_variant_key) = None"
  shows "(let w' = saveDraft parse now w; again = open_variants local parse (vw_storage w')
     in vw_draft again = vw_draft w' \<and> vw_selected again = vw_selected w'
        \<and> library_by_key (vw_library again) = library_by_key (vw_library w'))"
proof -
  obtain v where v: "v = (vw_draft w)\<lparr>mo_savedAt := Some t, mo_schema := Some variant_schema\<rparr>" by blast
  obtain xs where xs: "xs = upsertModelVariantLibrary parse (vw_library w) v" by blast
  obtain st where st: "st = set_json model_variant_key (variant_obj v) (saveModelVariantLibrary xs (vw_storage w))" by blast
  have w': "vw_draft (saveDraft parse now w) = v" "vw_library (saveDraft parse now w) = xs"
      "vw_selected (saveDraft parse now w) = modelVariantKey v" "vw_storage (saveDraft parse now w) = st"
    by (simp_all add: saveDraft_def assms(4) persistLibrary_def Let_def xs st v)
  have readable: "variant_readable v"
    using assms(3) iso_not_empty [OF assms(4)] by (simp add: v variant_readable_def fields_filled_def variant_schema_def)
  then have xs_readable: "list_all variant_readable xs"
    using assms(2) by (auto simp: xs upsertModelVariantLibrary_def list_all_iff simp del: sort_js.simps)
  have current: "parseModelVariant (get_item st model_variant_key) = Some v"
    by (simp add: st parseModelVariant_def readable_back [OF readable])
  have legacy: "parseModelVariant (get_item st legacy_variant_key) = None"
    using assms(5) storage_keys by (simp add: st saveModelVariantLibrary_def)
  have stored: "get_item st model_variant_library_key = Json (Arr (map (json_norm \<circ> variant_obj) xs))"
    using storage_keys by (simp add: st saveModelVariantLibrary_def)
  have library: "loadModelVariantLibrary parse st = upsertModelVariantLibrary parse xs v"
    by (simp add: loadModelVariantLibrary_def Let_def stored current legacy is_array_def as_list_def readable_list [OF xs_readable])
  have "library_by_key (upsertModelVariantLibrary parse xs v) = library_by_key xs"
    using upsert_library [OF assms(1), of parse v] upsert_library(1) [of xs parse v] by (simp add: xs)
  moreover have "truthy_text (mo_savedAt v) \<noteq> None" using iso_not_empty [OF assms(4)] by (simp add: v truthy_text_def)
  ultimately show ?thesis
    by (auto simp: w' open_variants_def loadModelVariantDraft_def current library Let_def split: option.split)
qed

lemma saved_variant_reopens_witness:
  "vw_draft (open_variants id (\<lambda>t. Fin 0) (vw_storage (saveDraft (\<lambda>t. Fin 0) (Fin 0)
     \<lparr>vw_draft = default_variant, vw_library = [], vw_selected = [], vw_status = [], vw_storage = []\<rparr>)))
   = default_variant\<lparr>mo_savedAt := Some ''1970-01-01T00:00:00.000Z'', mo_schema := Some variant_schema\<rparr>"
proof -
  have iso: "toISOString (Fin 0) = Inr ''1970-01-01T00:00:00.000Z''" by code_simp
  show ?thesis
    using saved_variant_reopens [OF _ _ _ iso, of "\<lparr>vw_draft = default_variant, vw_library = [], vw_selected = [], vw_status = [], vw_storage = []\<rparr>" "\<lambda>t. Fin 0" id]
    by (simp add: Let_def fields_filled_def default_variant_def parseModelVariant_def get_item_def saveDraft_def iso)
qed

text \<open>A variant saved without a name comes back under the default name, where it takes the place of the
  variant that had it.\<close>

lemma nameless_displaces:
  assumes "variant_readable v" and "mo_version v = mo_version default_variant" and "mo_name v = mo_name default_variant"
    and "u = v\<lparr>mo_name := []\<rparr>"
  shows "normalizeModelVariant (json_norm (variant_obj u)) = Some v"
  using assms
  by (cases v; cases "mo_savedAt v"; cases "mo_schema v")
    (auto simp: variant_readable_def fields_filled_def normalizeModelVariant_def variant_obj_def is_object_def as_obj_def
      js_or_def truthy_def opt_str_def)

end
