(* ===== verification/RoundMono.thy ===== *)
theory RoundMono
  imports JsNumber
begin

text \<open>Rounding to a double is monotone: what lies between two doubles is rounded to something between them.\<close>

lemma round_half_even_mono: "x \<le> y \<Longrightarrow> round_half_even x \<le> round_half_even y"
proof (rule ccontr)
  assume xy: "x \<le> y" and "\<not> round_half_even x \<le> round_half_even y"
  then have "of_int (round_half_even y) + 1 \<le> (of_int (round_half_even x) :: rat)" by linarith
  with xy have "x = y" using round_half_even_close [of x] round_half_even_close [of y] by linarith
  with \<open>\<not> round_half_even x \<le> round_half_even y\<close> show False by simp
qed

lemma rnd_mag_mono:
  assumes "0 < x" "x \<le> y"
  shows "rnd_mag x \<le> rnd_mag y"
proof (cases "ulp_exp x = ulp_exp y")
  case True
  have "x / 2 powi ulp_exp y \<le> y / 2 powi ulp_exp y" using assms(2) powi2_pos [of "ulp_exp y"] by (intro divide_right_mono) auto
  then show ?thesis
    using round_half_even_mono powi2_pos [of "ulp_exp y"] by (simp add: rnd_mag_def True mult_right_mono)
next
  case False
  let ?u = "ulp_exp y" let ?P = "2 powi (log2_rat y) :: rat"
  have less: "log2_rat x < log2_rat y" "?u = log2_rat y - 52"
    using log2_rat_mono [OF assms] False by (auto simp: ulp_exp_def max_def split: if_splits)
  have P: "?P = of_int (2 ^ 52) * 2 powi ?u" by (simp only: less(2) powi2_diff) (simp add: powi2_nat)
  have y: "?P \<le> y" "0 < y" using log2_rat_bounds [of y] assms by auto
  have "of_int (2 ^ 52) \<le> y / 2 powi ?u" using y(1) powi2_pos [of ?u] by (simp only: P pos_le_divide_eq)
  then have "of_int (2 ^ 52) * 2 powi ?u \<le> rnd_mag y"
    unfolding rnd_mag_def by (intro mult_right_mono) (auto intro: round_half_even_ge simp del: of_int_power simp add: of_int_le_iff)
  moreover have "x \<le> ?P"
  proof -
    have "x < 2 powi (log2_rat x + 1)" using log2_rat_bounds [OF assms(1)] by simp
    moreover have "(2 :: rat) powi (log2_rat x + 1) \<le> ?P" using less(1) by (simp only: powi2_le)
    ultimately show ?thesis by linarith
  qed
  moreover have "rnd_mag ?P = ?P" unfolding P by (rule rnd_mag_exact [OF _ _ ulp_exp_ge]) simp_all
  ultimately show ?thesis using rnd_mag_le [OF assms(1), of ?P] P by linarith
qed

lemma rnd_mag_ge_zero: "0 < q \<Longrightarrow> 0 \<le> rnd_mag q"
proof -
  assume "0 < q"
  then have "0 \<le> round_half_even (q / 2 powi ulp_exp q)" by (intro round_half_even_ge) simp
  then show ?thesis by (simp add: rnd_mag_def)
qed

lemma rnd_val_nonneg: "0 \<le> q \<Longrightarrow> is_finite (rnd s q) \<Longrightarrow> val (rnd s q) = (if q = 0 then 0 else rnd_mag q)"
  by (auto simp: rnd_def Let_def zero_of_def split: if_splits)

text \<open>A larger quotient or product is not rounded to a smaller one; a double bounds what it bounds before.\<close>

lemma rnd_mono:
  assumes "0 \<le> p" "p \<le> q" "is_finite (rnd t q)"
  shows "is_finite (rnd s p)" "0 \<le> val (rnd s p)" "val (rnd s p) \<le> val (rnd t q)"
proof -
  have *: "is_finite (rnd s p) \<and> 0 \<le> val (rnd s p) \<and> val (rnd s p) \<le> val (rnd t q)"
  proof (cases "p = 0")
    case True
    with assms rnd_mag_ge_zero [of q] show ?thesis by (auto simp: rnd_val_nonneg zero_of_def)
  next
    case False
    with assms have pos: "0 < p" "0 < q" by auto
    have le: "rnd_mag p \<le> rnd_mag q" by (rule rnd_mag_mono [OF pos(1) assms(2)])
    have "rnd_mag q < 2 ^ 1024 \<or> rnd_mag q = 0" using assms(3) pos by (auto simp: rnd_def Let_def split: if_splits)
    then have "is_finite (rnd s p)" using le pos by (auto simp: rnd_def Let_def zero_of_def)
    with assms le pos rnd_mag_ge_zero [OF pos(1)] show ?thesis by (simp add: rnd_val_nonneg)
  qed
  then show "is_finite (rnd s p)" "0 \<le> val (rnd s p)" "val (rnd s p) \<le> val (rnd t q)" by auto
qed

lemma rnd_representable_val: "representable q \<Longrightarrow> is_finite (rnd s q) \<and> val (rnd s q) = q"
  by (cases "q = 0") (auto simp: rnd_representable zero_of_def)

lemma rnd_keeps_bounds:
  assumes "0 \<le> L" "L \<le> q" "q \<le> M" "representable L" "representable M"
  shows "is_finite (rnd s q)" "L \<le> val (rnd s q)" "val (rnd s q) \<le> M"
proof -
  note M = rnd_representable_val [OF assms(5), of s] and L = rnd_representable_val [OF assms(4), of s]
  have q: "0 \<le> q" using assms by linarith
  show fin: "is_finite (rnd s q)" and "val (rnd s q) \<le> M" using rnd_mono [OF q assms(3), of s s] M by auto
  show "L \<le> val (rnd s q)" using rnd_mono(3) [OF assms(1,2) fin, of s] L by auto
qed

lemma rnd_abs_le:
  assumes "\<bar>q\<bar> \<le> M" "representable M"
  shows "is_finite (rnd s q)" "\<bar>val (rnd s q)\<bar> \<le> M"
proof -
  show fin: "is_finite (rnd s q)" using rnd_finite [OF assms(2), of q s] assms(1) by simp
  show "\<bar>val (rnd s q)\<bar> \<le> M"
  proof (cases "q = 0")
    case False
    have "rnd_mag M = M" using assms False by (auto simp: representable_def)
    then have "rnd_mag \<bar>q\<bar> \<le> M" using rnd_mag_le [of "\<bar>q\<bar>" M] assms(1) False by simp
    then show ?thesis using rnd_mag_ge_zero [of "\<bar>q\<bar>"] False assms(1) by (auto simp: rnd_def Let_def zero_of_def)
  qed (use assms in \<open>simp add: zero_of_def\<close>)
qed

subsection \<open>Sums of bounded doubles\<close>

text \<open>A double of at most a given magnitude, and what sums and differences of such are.\<close>

definition bounded_by :: "int \<Rightarrow> jsnum \<Rightarrow> bool" where
  "bounded_by b v \<longleftrightarrow> is_double v \<and> \<bar>val v\<bar> \<le> of_int b"

lemma bounded_finite: "bounded_by b v \<Longrightarrow> is_finite v"
  by (simp add: bounded_by_def is_double_def)

lemma bounded_mono: "bounded_by a v \<Longrightarrow> a \<le> b \<Longrightarrow> bounded_by b v"
  by (auto simp: bounded_by_def intro: order_trans)

lemma bounded_rnd: "\<bar>q\<bar> \<le> of_int b \<Longrightarrow> b \<le> 2 ^ 53 \<Longrightarrow> bounded_by b (rnd s q)"
proof -
  assume q: "\<bar>q\<bar> \<le> of_int b" and b: "b \<le> 2 ^ 53"
  have "0 \<le> (of_int b :: rat)" using q by linarith
  then have "\<bar>b\<bar> \<le> 2 ^ 53" using b by simp
  then have "representable (of_int b)" by (rule representable_int)
  from rnd_abs_le [OF q this, of s] rnd_number [of s q] show ?thesis by (simp add: bounded_by_def is_double_def is_number_def)
qed

lemma bounded_add: "bounded_by a v \<Longrightarrow> bounded_by b w \<Longrightarrow> a + b \<le> 2 ^ 53 \<Longrightarrow> bounded_by (a + b) (jadd v w)"
  using bounded_finite [of a v] bounded_finite [of b w]
  by (auto simp: jadd_finite bounded_by_def [of a] bounded_by_def [of b] intro!: bounded_rnd)

lemma bounded_sub: "bounded_by a v \<Longrightarrow> bounded_by b w \<Longrightarrow> a + b \<le> 2 ^ 53 \<Longrightarrow> bounded_by (a + b) (jsub v w)"
  using bounded_finite [of a v] bounded_finite [of b w]
  by (auto simp: jsub_finite bounded_by_def [of a] bounded_by_def [of b] intro!: bounded_rnd)

lemma bounded_max: "bounded_by b v \<Longrightarrow> bounded_by b w \<Longrightarrow> bounded_by b (math_max v w)"
  using math_max_cases [of v w] bounded_finite [of b v] bounded_finite [of b w] math_max_finite [of v w] by (auto simp: bounded_by_def)

lemma bounded_min: "bounded_by b v \<Longrightarrow> bounded_by b w \<Longrightarrow> bounded_by b (math_min v w)"
  using math_min_cases [of v w] bounded_finite [of b v] bounded_finite [of b w] math_min_finite [of v w] by (auto simp: bounded_by_def)

text \<open>The distance of a double from a smaller whole number is a double.\<close>

lemma distance_exact:
  assumes "representable q" "0 \<le> n" "of_int n \<le> q" "q < 2 ^ 53"
  shows "representable (q - of_int n)"
proof (cases "q = 0")
  case True
  with assms show ?thesis by (simp add: representable_def)
next
  case False
  with assms have q: "0 < q" "rnd_mag q = q" "q < 2 ^ 1024" by (auto simp: representable_def)
  let ?u = "ulp_exp q" let ?m = "round_half_even (q / 2 powi ?u)"
  have m: "q = of_int ?m * 2 powi ?u" using q(2) by (simp add: rnd_mag_def)
  have "(2::rat) powi (log2_rat q) < 2 powi 53"
    using log2_rat_bounds [OF q(1)] assms(4) by (subst powi2_nat) simp_all
  then have "log2_rat q < 53" by (simp only: powi2_less)
  then have u: "?u \<le> 0" "- 1074 \<le> ?u" by (auto simp: ulp_exp_def)
  have n: "(of_int n :: rat) = of_int (n * 2 ^ nat (- ?u)) * 2 powi ?u"
    using u(1) powi2_add [of "- ?u" ?u] powi2_nat [of "- ?u"] by simp
  have diff: "q - of_int n = of_int (?m - n * 2 ^ nat (- ?u)) * 2 powi ?u"
    by (subst (1) m, subst (1) n) (simp only: of_int_diff left_diff_distrib)
  have "log2_rat q - 52 \<le> ?u" by (simp add: ulp_exp_def)
  then have "(2::rat) powi (log2_rat q + 1) \<le> 2 powi (53 + ?u)" by (simp only: powi2_le)
  then have "q < 2 powi (53 + ?u)" using log2_rat_bounds [OF q(1)] by linarith
  also have "\<dots> = of_int (2 ^ 53) * 2 powi ?u" by (simp only: powi2_add) (simp add: powi2_nat)
  finally have "of_int ?m * 2 powi ?u < of_int (2 ^ 53) * (2 powi ?u :: rat)" using m by simp
  then have "?m < 2 ^ 53" using powi2_pos [of ?u] by (simp only: mult_less_cancel_right_pos of_int_less_iff)
  moreover have "0 \<le> ?m - n * 2 ^ nat (- ?u)"
  proof -
    have "0 \<le> (of_int (?m - n * 2 ^ nat (- ?u)) :: rat) * 2 powi ?u" using diff assms(3) by simp
    then show ?thesis using powi2_pos [of ?u] by (simp add: zero_le_mult_iff del: of_int_diff)
  qed
  moreover have "0 \<le> n * 2 ^ nat (- ?u)" using assms(2) by simp
  ultimately have "\<bar>?m - n * 2 ^ nat (- ?u)\<bar> \<le> 2 ^ 53" by linarith
  moreover have "\<bar>q - of_int n\<bar> < 2 ^ 1024" using assms(2,3) q(3) by simp
  ultimately show ?thesis using representableI [of "?m - n * 2 ^ nat (- ?u)" ?u] u(2) by (simp only: diff)
qed

end
