(* ===== verification/CanvasWindows.thy ===== *)
theory CanvasWindows
  imports Desktop RoundMono
begin

text \<open>
  The windows of the workspace canvas of \<open>apps/terminal/src/components/WorkspaceCanvas.tsx\<close>: the frame that
  an operator drags and resizes, the list of windows with its operations (to the front, move, resize,
  collapse, close, clone, add, product and settings of a window), the size of the canvas, and the pan of
  the desk with its limits and its speed at the edges. Stored coordinates are numbers. Main results:
  frames stay reachable and of usable size however they are dragged and resized, resizing one edge keeps
  the opposite edge, a window brought forward is above every other, and the pan stays on the canvas.
\<close>

subsection \<open>The list of windows\<close>

definition coord :: "jobj \<Rightarrow> string \<Rightarrow> jsnum" where
  "coord item k = to_num (oget item k)"

definition has_id :: "string \<Rightarrow> jobj \<Rightarrow> bool" where
  "has_id i item \<longleftrightarrow> oget item ''id'' = Str i"

definition on_window :: "string \<Rightarrow> (jobj \<Rightarrow> jobj) \<Rightarrow> jobj list \<Rightarrow> jobj list" where
  "on_window i f windows = map (\<lambda>item. if has_id i item then f item else item) windows"

definition max_z :: "jobj list \<Rightarrow> jsnum" where
  "max_z windows = math_max_list (Fin 1 # map (\<lambda>item. coord item ''z'') windows)"

definition bringForward :: "string \<Rightarrow> jobj list \<Rightarrow> jobj list" where
  "bringForward i windows = on_window i (dict_set ''z'' (Num (jadd (max_z windows) (Fin 1)))) windows"

definition moveWindow :: "string \<Rightarrow> jsnum \<Rightarrow> jsnum \<Rightarrow> jobj list \<Rightarrow> jobj list" where
  "moveWindow i x y windows = on_window i (\<lambda>item. dict_set ''y'' (Num y) (dict_set ''x'' (Num x) item)) windows"

definition resizeWindow :: "string \<Rightarrow> jsnum dict \<Rightarrow> jobj list \<Rightarrow> jobj list" where
  "resizeWindow i patch windows = on_window i (\<lambda>item. dict_spread item (map (\<lambda>(k, v). (k, Num v)) patch)) windows"

definition toggleCollapse :: "string \<Rightarrow> jobj list \<Rightarrow> jobj list" where
  "toggleCollapse i windows = on_window i (\<lambda>item. dict_set ''collapsed'' (Bool (\<not> truthy (oget item ''collapsed''))) item) windows"

definition closeWindow :: "string \<Rightarrow> jobj list \<Rightarrow> jobj list" where
  "closeWindow i windows = filter (\<lambda>item. \<not> has_id i item) windows"

text \<open>The label of a kind; a kind without one reads as \<open>undefined\<close>. A copy of settings is the same value.\<close>

definition kind_label :: "string \<Rightarrow> string" where
  "kind_label kind = get_or (dict_get window_labels kind) ''undefined''"

definition clone_of :: "jsnum \<Rightarrow> jobj list \<Rightarrow> jobj \<Rightarrow> jobj" where
  "clone_of now windows source =
     (let kind = to_str (oget source ''kind'');
          cloneCount = length (filter (\<lambda>item. oget item ''kind'' = oget source ''kind'') windows) + 1;
          settings = oget source ''depthLadderSettings''
      in dict_spread source
           [(''id'', Str (kind @ ''-clone-'' @ num_text now)),
            (''title'', Str (kind_label kind @ '' '' @ int_text (int cloneCount))),
            (''x'', Num (math_max (Fin 8) (jadd (coord source ''x'') (Fin 34)))),
            (''y'', Num (math_max (Fin 48) (jadd (coord source ''y'') (Fin 34)))),
            (''z'', Num (jadd (max_z windows) (Fin 1))),
            (''collapsed'', Bool False),
            (''chartSettings'', if truthy (oget source ''chartSettings'') then oget source ''chartSettings'' else Undefined),
            (''depthLadderSettings'', if truthy settings
               then depth_settings_obj (normalizeDepthLadderSettings settings) else Undefined)])"

definition cloneWindow :: "jsnum \<Rightarrow> string \<Rightarrow> jobj list \<Rightarrow> jobj list" where
  "cloneWindow now i windows = (case find (has_id i) windows of
     None \<Rightarrow> windows | Some source \<Rightarrow> windows @ [clone_of now windows source])"

text \<open>The number of a kind's windows shifts the place of the next one.\<close>

definition addWindow ::
    "jsnum \<Rightarrow> storage \<Rightarrow> jsnum \<times> jsnum \<Rightarrow> string \<Rightarrow> string \<Rightarrow> string \<Rightarrow> jobj list \<Rightarrow> jobj list" where
  "addWindow now st pan kind provider symbol windows =
     (let seed = window_obj (get_or (find (\<lambda>item. ww_kind item = kind) defaultWindows) (win kind 80 80 520 360 0));
          count = length (filter (\<lambda>item. oget item ''kind'' = Str kind) windows);
          shift = num_of_int (int count * 34)
      in windows @ [dict_spread seed
           [(''id'', Str (kind @ ''-'' @ num_text now)),
            (''title'', Str (if 0 < count then kind_label kind @ '' '' @ int_text (int count + 1) else kind_label kind)),
            (''x'', Num (jadd (jadd (fst pan) (Fin 60)) shift)), (''y'', Num (jadd (jadd (snd pan) (Fin 70)) shift)),
            (''z'', Num (jadd (max_z windows) (Fin 1))), (''collapsed'', Bool False),
            (''provider'', Str provider), (''symbol'', Str (defaultSymbolForWindowKind kind symbol)),
            (''depthLadderSettings'', if kind = ''depthLadder''
               then depth_settings_obj (loadDepthLadderDefaultSettings st) else Undefined)]])"

definition selectWindowProduct :: "string \<Rightarrow> string \<Rightarrow> string \<Rightarrow> jobj list \<Rightarrow> jobj list" where
  "selectWindowProduct i provider symbol windows =
     on_window i (\<lambda>item. dict_set ''symbol'' (Str symbol)
        (dict_set ''provider'' (Str (normalizeProviderKey (Str provider))) item)) windows"

text \<open>Settings are compared by their JSON text.\<close>

definition updateWindowChartSettings :: "string \<Rightarrow> jsv \<Rightarrow> jobj list \<Rightarrow> jobj list" where
  "updateWindowChartSettings i chartSettings windows =
     on_window i (\<lambda>item. if oget item ''chartSettings'' \<noteq> Undefined
          \<and> json_norm (oget item ''chartSettings'') = json_norm chartSettings then item
        else dict_set ''chartSettings'' chartSettings item) windows"

definition updateWindowDepthLadderSettings :: "string \<Rightarrow> jsv \<Rightarrow> jobj list \<Rightarrow> jobj list" where
  "updateWindowDepthLadderSettings i settings windows =
     (let normalized = depth_settings_obj (normalizeDepthLadderSettings settings) in
      case find (has_id i) windows of
        None \<Rightarrow> windows
      | Some target \<Rightarrow>
          if oget target ''depthLadderSettings'' \<noteq> Undefined
             \<and> json_norm (oget target ''depthLadderSettings'') = json_norm normalized then windows
          else on_window i (dict_set ''depthLadderSettings'' normalized) windows)"

subsection \<open>Frames\<close>

record frame_start =
  fr_clientX :: jsnum
  fr_clientY :: jsnum
  fr_left :: jsnum
  fr_top :: jsnum
  fr_width :: jsnum
  fr_height :: jsnum
  fr_pan :: "jsnum \<times> jsnum"

definition frame_start_of :: "jsnum \<Rightarrow> jsnum \<Rightarrow> jsnum \<times> jsnum \<Rightarrow> jobj \<Rightarrow> frame_start" where
  "frame_start_of clientX clientY pan item =
     \<lparr>fr_clientX = clientX, fr_clientY = clientY, fr_left = coord item ''x'', fr_top = coord item ''y'',
      fr_width = coord item ''w'', fr_height = coord item ''h'', fr_pan = pan\<rparr>"

text \<open>Where a drag has the frame for the latest position of the pointer and the pan.\<close>

definition drag_position :: "frame_start \<Rightarrow> jsnum \<times> jsnum \<Rightarrow> jsnum \<Rightarrow> jsnum \<Rightarrow> jsnum \<times> jsnum" where
  "drag_position f pan latestX latestY =
     (math_max (Fin 8) (jadd (jsub (jadd (fr_left f) latestX) (fr_clientX f)) (jsub (fst pan) (fst (fr_pan f)))),
      math_max (Fin 48) (jadd (jsub (jadd (fr_top f) latestY) (fr_clientY f)) (jsub (snd pan) (snd (fr_pan f)))))"

definition syncDrag :: "string \<Rightarrow> frame_start \<Rightarrow> jsnum \<times> jsnum \<Rightarrow> jsnum \<Rightarrow> jsnum \<Rightarrow> jobj list \<Rightarrow> jobj list" where
  "syncDrag i f pan latestX latestY windows =
     (let p = drag_position f pan latestX latestY in moveWindow i (fst p) (snd p) windows)"

text \<open>The handles, each on one edge or on two.\<close>

datatype handle = HandleN | HandleE | HandleS | HandleW | HandleNE | HandleNW | HandleSE | HandleSW

definition handle_has :: "handle \<Rightarrow> char \<Rightarrow> bool" where
  "handle_has h c \<longleftrightarrow> c \<in> set (case h of HandleN \<Rightarrow> ''n'' | HandleE \<Rightarrow> ''e'' | HandleS \<Rightarrow> ''s'' | HandleW \<Rightarrow> ''w''
     | HandleNE \<Rightarrow> ''ne'' | HandleNW \<Rightarrow> ''nw'' | HandleSE \<Rightarrow> ''se'' | HandleSW \<Rightarrow> ''sw'')"

definition resize_patch :: "handle \<Rightarrow> frame_start \<Rightarrow> jsnum \<times> jsnum \<Rightarrow> jsnum \<Rightarrow> jsnum \<Rightarrow> jsnum dict" where
  "resize_patch direction f pan clientX clientY =
     (let dx = jsub clientX (fr_clientX f); dy = jsub clientY (fr_clientY f);
          panDx = jsub (fst pan) (fst (fr_pan f)); panDy = jsub (snd pan) (snd (fr_pan f));
          nextDx = clamp (jadd dx panDx) (jsub (Fin 8) (fr_left f)) (jsub (fr_width f) (Fin 260));
          nextDy = clamp (jadd dy panDy) (jsub (Fin 48) (fr_top f)) (jsub (fr_height f) (Fin 180));
          p1 = (if handle_has direction (CHR ''e'')
            then dict_set ''w'' (clamp (jadd (jadd (fr_width f) dx) panDx) (Fin 260) (Fin 2400)) [] else []);
          p2 = (if handle_has direction (CHR ''s'')
            then dict_set ''h'' (clamp (jadd (jadd (fr_height f) dy) panDy) (Fin 180) (Fin 1800)) p1 else p1);
          p3 = (if handle_has direction (CHR ''w'')
            then dict_set ''w'' (jsub (fr_width f) nextDx) (dict_set ''x'' (jadd (fr_left f) nextDx) p2) else p2)
      in if handle_has direction (CHR ''n'')
         then dict_set ''h'' (jsub (fr_height f) nextDy) (dict_set ''y'' (jadd (fr_top f) nextDy) p3) else p3)"

definition display_title :: "jobj \<Rightarrow> string" where
  "display_title item =
     (if oget item ''kind'' = Str ''depthLadder'' \<and> truthy (oget item ''symbol'')
      then kind_label ''depthLadder'' @ '' - '' @ to_str (oget item ''symbol'') else to_str (oget item ''title''))"

subsection \<open>The canvas and its pan\<close>

definition workspace_bounds :: "jsnum \<times> jsnum \<Rightarrow> jobj list \<Rightarrow> jsnum \<times> jsnum" where
  "workspace_bounds viewport windows =
     (fold (\<lambda>item m. math_max m (jadd (jadd (coord item ''x'') (coord item ''w'')) (Fin 96))) windows (fst viewport),
      fold (\<lambda>item m. math_max m (jadd (jadd (coord item ''y'')
         (if truthy (oget item ''collapsed'') then Fin 34 else coord item ''h'')) (Fin 96))) windows (snd viewport))"

text \<open>The rectangle of the page element, and the part of it between header and footer.\<close>

record view_rect =
  vr_left :: jsnum
  vr_right :: jsnum
  vr_top :: jsnum
  vr_bottom :: jsnum
  vr_width :: jsnum
  vr_height :: jsnum

definition getWorkspaceViewportRect :: "view_rect \<Rightarrow> view_rect" where
  "getWorkspaceViewportRect rect =
     (let upper = jadd (vr_top rect) (Fin 48); lower = jsub (vr_bottom rect) (Fin 28) in
      rect\<lparr>vr_top := upper, vr_bottom := lower, vr_height := math_max (Fin 1) (jsub lower upper)\<rparr>)"

definition clampWorkspacePan ::
    "jsnum \<times> jsnum \<Rightarrow> jsnum \<times> jsnum \<Rightarrow> view_rect option \<Rightarrow> jsnum \<times> jsnum \<Rightarrow> jsnum \<times> jsnum" where
  "clampWorkspacePan bounds viewport rect p =
     (let view = map_option getWorkspaceViewportRect rect;
          viewWidth = (case view of None \<Rightarrow> fst viewport | Some r \<Rightarrow> vr_width r);
          viewHeight = (case view of None \<Rightarrow> snd viewport | Some r \<Rightarrow> vr_height r)
      in (clamp (fst p) (Fin 0) (math_max (Fin 0) (jsub (fst bounds) viewWidth)),
          clamp (snd p) (Fin 0) (math_max (Fin 0) (jsub (snd bounds) viewHeight))))"

definition panWorkspaceBy ::
    "jsnum \<times> jsnum \<Rightarrow> jsnum \<times> jsnum \<Rightarrow> view_rect option \<Rightarrow> jsnum \<Rightarrow> jsnum \<Rightarrow> jsnum \<times> jsnum \<Rightarrow> jsnum \<times> jsnum" where
  "panWorkspaceBy bounds viewport rect dx dy pan =
     (if jlt (math_abs dx) (rnd False (1 / 100)) \<and> jlt (math_abs dy) (rnd False (1 / 100)) then pan
      else clampWorkspacePan bounds viewport rect (jadd (fst pan) dx, jadd (snd pan) dy))"

text \<open>How deep the pointer is in the zone of an edge, and the speed for it.\<close>

definition edge_speed :: "jsnum \<Rightarrow> jsnum" where
  "edge_speed depth = (let t = clamp (jdiv depth (Fin 150)) (Fin 0) (Fin 1) in jadd (Fin 6) (jmul (jmul t t) (Fin 72)))"

definition edge_delta :: "jsnum \<Rightarrow> jsnum \<Rightarrow> jsnum \<Rightarrow> jsnum" where
  "edge_delta p lo hi =
     (let upperDepth = (if jle hi p then Fin 150 else math_max (Fin 0) (jsub p (jsub hi (Fin 150))));
          lowerDepth = (if jle p lo then Fin 150 else math_max (Fin 0) (jsub (jadd lo (Fin 150)) p))
      in if jlt (Fin 0) upperDepth then edge_speed upperDepth
         else if jlt (Fin 0) lowerDepth then jneg (edge_speed lowerDepth) else Fin 0)"

text \<open>The pan at the edges: where the pointer was last seen, whether a frame is asked for, and one frame.\<close>

record edge_pan =
  eg_pointer :: "(jsnum \<times> jsnum) option"
  eg_frame :: bool

definition stopWorkspaceEdgePan :: "edge_pan \<Rightarrow> edge_pan" where
  "stopWorkspaceEdgePan e = e\<lparr>eg_pointer := None, eg_frame := False\<rparr>"

definition startWorkspaceEdgePan :: "jsnum \<Rightarrow> jsnum \<Rightarrow> edge_pan \<Rightarrow> edge_pan" where
  "startWorkspaceEdgePan clientX clientY e = e\<lparr>eg_pointer := Some (clientX, clientY), eg_frame := True\<rparr>"

definition stepWorkspaceEdgePan ::
    "jsnum \<times> jsnum \<Rightarrow> jsnum \<times> jsnum \<Rightarrow> view_rect option \<Rightarrow> edge_pan \<times> jsnum \<times> jsnum \<Rightarrow> edge_pan \<times> jsnum \<times> jsnum" where
  "stepWorkspaceEdgePan bounds viewport main ep =
     (let e = fst ep; pan = snd ep in
      case (eg_pointer e, main) of
        (Some p, Some m) \<Rightarrow>
          (let r = getWorkspaceViewportRect m;
               dx = edge_delta (fst p) (vr_left r) (vr_right r);
               dy = edge_delta (snd p) (vr_top r) (vr_bottom r)
           in if jeq dx (Fin 0) \<and> jeq dy (Fin 0) then (stopWorkspaceEdgePan e, pan)
              else (e\<lparr>eg_frame := True\<rparr>, panWorkspaceBy bounds viewport main dx dy pan))
      | _ \<Rightarrow> (e\<lparr>eg_frame := False\<rparr>, pan))"

definition handleWorkspacePointerMove :: "jsnum \<Rightarrow> view_rect option \<Rightarrow> jsnum \<Rightarrow> jsnum \<Rightarrow> edge_pan \<Rightarrow> edge_pan" where
  "handleWorkspacePointerMove buttons main clientX clientY e =
     (if \<not> jeq buttons (Fin 0) then e
      else case map_option getWorkspaceViewportRect main of
        None \<Rightarrow> stopWorkspaceEdgePan e
      | Some r \<Rightarrow>
          if jle clientX (jadd (vr_left r) (Fin 24)) \<or> jle (jsub (vr_right r) (Fin 24)) clientX
             \<or> jle clientY (jadd (vr_top r) (Fin 24)) \<or> jle (jsub (vr_bottom r) (Fin 24)) clientY
          then startWorkspaceEdgePan clientX clientY e else stopWorkspaceEdgePan e)"

definition handleWindowDragPointerMove :: "view_rect option \<Rightarrow> jsnum \<Rightarrow> jsnum \<Rightarrow> edge_pan \<Rightarrow> edge_pan" where
  "handleWindowDragPointerMove main clientX clientY e =
     (case map_option getWorkspaceViewportRect main of
        None \<Rightarrow> startWorkspaceEdgePan clientX clientY e
      | Some r \<Rightarrow>
          if jlt (jadd (vr_left r) (Fin 150)) clientX \<and> jlt clientX (jsub (vr_right r) (Fin 150))
             \<and> jlt (jadd (vr_top r) (Fin 150)) clientY \<and> jlt clientY (jsub (vr_bottom r) (Fin 150))
          then stopWorkspaceEdgePan e else startWorkspaceEdgePan clientX clientY e)"

record wheel_event =
  we_overWindow :: bool
  we_alt :: bool
  we_shift :: bool
  we_deltaX :: jsnum
  we_deltaY :: jsnum

definition handleWorkspaceWheel ::
    "jsnum \<times> jsnum \<Rightarrow> jsnum \<times> jsnum \<Rightarrow> view_rect option \<Rightarrow> wheel_event \<Rightarrow> jsnum \<times> jsnum \<Rightarrow> jsnum \<times> jsnum" where
  "handleWorkspaceWheel bounds viewport main w pan =
     (let horizontal = jlt (math_abs (we_deltaY w)) (math_abs (we_deltaX w)) in
      if \<not> we_alt w \<and> \<not> we_shift w \<and> (\<not> horizontal \<or> we_overWindow w) then pan
      else panWorkspaceBy bounds viewport main
        (if we_shift w \<and> \<not> horizontal then we_deltaY w else we_deltaX w) (if we_alt w then we_deltaY w else Fin 0) pan)"

subsection \<open>Frames under the pointer\<close>

text \<open>The windows and what the pointer holds: the id, the start of the grip and the handle, if it is not
  the title bar.\<close>

record frames =
  fm_windows :: "jobj list"
  fm_grip :: "(string \<times> frame_start \<times> handle option) option"

datatype frame_event =
    TitleDown string jsnum jsnum "jsnum \<times> jsnum"
  | HandleDown string handle jsnum jsnum "jsnum \<times> jsnum"
  | PointerAt jsnum jsnum "jsnum \<times> jsnum"
  | PointerUp
  | FrameActivated string
  | FrameToggled string
  | FrameClosed string
  | FrameCloned jsnum string
  | FrameAdded jsnum storage "jsnum \<times> jsnum" string string string
  | FrameProduct string string string
  | FrameChart string jsv
  | FrameDepth string jsv

fun frame_step :: "frame_event \<Rightarrow> frames \<Rightarrow> frames" where
  "frame_step (TitleDown i px py pan) s = (case find (has_id i) (fm_windows s) of
     None \<Rightarrow> s
   | Some item \<Rightarrow>
       (let f = frame_start_of px py pan item in
        \<lparr>fm_windows = syncDrag i f pan px py (bringForward i (fm_windows s)), fm_grip = Some (i, f, None)\<rparr>))"
| "frame_step (HandleDown i h px py pan) s = (case find (has_id i) (fm_windows s) of
     None \<Rightarrow> s
   | Some item \<Rightarrow> if truthy (oget item ''collapsed'') then s
       else \<lparr>fm_windows = bringForward i (fm_windows s), fm_grip = Some (i, frame_start_of px py pan item, Some h)\<rparr>)"
| "frame_step (PointerAt px py pan) s = (case fm_grip s of
     None \<Rightarrow> s
   | Some (i, f, None) \<Rightarrow> s\<lparr>fm_windows := syncDrag i f pan px py (fm_windows s)\<rparr>
   | Some (i, f, Some h) \<Rightarrow> s\<lparr>fm_windows := resizeWindow i (resize_patch h f pan px py) (fm_windows s)\<rparr>)"
| "frame_step PointerUp s = s\<lparr>fm_grip := None\<rparr>"
| "frame_step (FrameActivated i) s = s\<lparr>fm_windows := bringForward i (fm_windows s)\<rparr>"
| "frame_step (FrameToggled i) s = s\<lparr>fm_windows := toggleCollapse i (fm_windows s)\<rparr>"
| "frame_step (FrameClosed i) s = s\<lparr>fm_windows := closeWindow i (fm_windows s)\<rparr>"
| "frame_step (FrameCloned now i) s = s\<lparr>fm_windows := cloneWindow now i (fm_windows s)\<rparr>"
| "frame_step (FrameAdded now st pan kind provider symbol) s =
     s\<lparr>fm_windows := addWindow now st pan kind provider symbol (fm_windows s)\<rparr>"
| "frame_step (FrameProduct i provider symbol) s = s\<lparr>fm_windows := selectWindowProduct i provider symbol (fm_windows s)\<rparr>"
| "frame_step (FrameChart i settings) s = s\<lparr>fm_windows := updateWindowChartSettings i settings (fm_windows s)\<rparr>"
| "frame_step (FrameDepth i settings) s = s\<lparr>fm_windows := updateWindowDepthLadderSettings i settings (fm_windows s)\<rparr>"

subsection \<open>Frames stay reachable\<close>

text \<open>The least coordinates of a frame, and a double that is not below a bound.\<close>

definition least_of :: "string \<Rightarrow> int" where
  "least_of k = (if k = ''x'' then 8 else if k = ''y'' then 48 else if k = ''w'' then 260 else 180)"

definition frame_keys :: "string list" where
  "frame_keys = [''x'', ''y'', ''w'', ''h'']"

definition at_least :: "int \<Rightarrow> jsnum \<Rightarrow> bool" where
  "at_least lo v \<longleftrightarrow> is_double v \<and> of_int lo \<le> val v"

definition frame_ok :: "jobj \<Rightarrow> bool" where
  "frame_ok item \<longleftrightarrow> list_all (\<lambda>k. \<exists>v. oget item k = Num v \<and> at_least (least_of k) v) frame_keys"

text \<open>Coordinates, in pixels or parts of a pixel, as doubles of a magnitude that no screen reaches.\<close>

definition coordinate :: "jsnum \<Rightarrow> bool" where
  "coordinate v \<longleftrightarrow> bounded_by 281474976710656 v"

definition coordinates :: "jsnum \<times> jsnum \<Rightarrow> bool" where
  "coordinates p \<longleftrightarrow> coordinate (fst p) \<and> coordinate (snd p)"

definition start_ok :: "frame_start \<Rightarrow> bool" where
  "start_ok f \<longleftrightarrow> coordinate (fr_clientX f) \<and> coordinate (fr_clientY f) \<and> coordinates (fr_pan f)
     \<and> coordinate (fr_left f) \<and> at_least 8 (fr_left f) \<and> coordinate (fr_top f) \<and> at_least 48 (fr_top f)
     \<and> coordinate (fr_width f) \<and> at_least 260 (fr_width f) \<and> coordinate (fr_height f) \<and> at_least 180 (fr_height f)"

definition patch_ok :: "jsnum dict \<Rightarrow> bool" where
  "patch_ok patch \<longleftrightarrow> list_all (\<lambda>(k, v). k \<in> set frame_keys \<and> at_least (least_of k) v) patch"

lemma coordinate_int: "\<bar>n\<bar> \<le> 281474976710656 \<Longrightarrow> coordinate (Fin (of_int n))"
  by (simp add: coordinate_def bounded_by_def is_double_int flip: of_int_abs)

lemma at_leastI: "lo \<le> n \<Longrightarrow> \<bar>n\<bar> \<le> 2 ^ 53 \<Longrightarrow> at_least lo (Fin (of_int n))"
  by (simp add: at_least_def is_double_int)

lemma at_least_rnd:
  assumes "0 \<le> lo" "lo \<le> 2 ^ 53" "of_int lo \<le> q" "q \<le> of_int b" "b \<le> 2 ^ 53"
  shows "at_least lo (rnd s q)"
proof -
  have "(of_int lo :: rat) \<le> of_int b" using assms(3,4) by (rule order_trans)
  then have "lo \<le> b" by simp
  then have "\<bar>lo\<bar> \<le> 2 ^ 53" "\<bar>b\<bar> \<le> 2 ^ 53" using assms(1,2,5) by linarith+
  then have "representable (of_int lo)" "representable (of_int b)" by (simp_all only: representable_int)
  from rnd_keeps_bounds(1,2) [OF _ assms(3,4) this, of s] assms(1) rnd_number [of s q]
  show ?thesis by (simp add: at_least_def is_double_def is_number_def)
qed

lemma at_least_max:
  assumes "bounded_by b v" "\<bar>lo\<bar> \<le> b" "b \<le> 2 ^ 53"
  shows "at_least lo (math_max (Fin (of_int lo)) v)"
proof -
  have "bounded_by b (Fin (of_int lo))" using assms by (simp add: bounded_by_def is_double_int flip: of_int_abs)
  from bounded_max [OF this assms(1)] show ?thesis
    using bounded_finite [OF assms(1)] by (simp add: at_least_def bounded_by_def math_max_finite)
qed

text \<open>One axis of a drag and of a resize.\<close>

lemma shift_bound:
  assumes "coordinate b" "coordinate c" "coordinate d" "coordinate e"
  shows "bounded_by 1125899906842624 (jadd (jsub b c) (jsub d e))"
  using bounded_add [OF bounded_sub bounded_sub, of 281474976710656 b 281474976710656 c 281474976710656 d 281474976710656 e] assms
  by (simp add: coordinate_def)

lemma drag_axis:
  assumes "coordinate a" "coordinate b" "coordinate c" "coordinate d" "coordinate e" "\<bar>lo\<bar> \<le> 1000"
  shows "at_least lo (math_max (Fin (of_int lo)) (jadd (jsub (jadd a b) c) (jsub d e)))"
proof -
  have "bounded_by 844424930131968 (jsub (jadd a b) c)"
    using bounded_sub [OF bounded_add, of 281474976710656 a 281474976710656 b 281474976710656 c] assms by (simp add: coordinate_def)
  moreover have "bounded_by 562949953421312 (jsub d e)"
    using bounded_sub [of 281474976710656 d 281474976710656 e] assms by (simp add: coordinate_def)
  ultimately have "bounded_by 1407374883553280 (jadd (jsub (jadd a b) c) (jsub d e))"
    using bounded_add [of 844424930131968 "jsub (jadd a b) c" 562949953421312 "jsub d e"] by simp
  then show ?thesis by (rule at_least_max) (use assms(6) in simp_all)
qed

lemma grow_axis:
  assumes "coordinate a" "coordinate b" "coordinate c" "coordinate d" "coordinate e" "\<bar>lo\<bar> \<le> 10000" "\<bar>hi\<bar> \<le> 10000"
  shows "at_least lo (clamp (jadd (jadd a (jsub b c)) (jsub d e)) (Fin (of_int lo)) (Fin (of_int hi)))"
proof -
  have 1: "bounded_by 844424930131968 (jadd a (jsub b c))"
    using bounded_add [OF _ bounded_sub, of 281474976710656 a 281474976710656 b 281474976710656 c] assms by (simp add: coordinate_def)
  have "bounded_by 562949953421312 (jsub d e)"
    using bounded_sub [of 281474976710656 d 281474976710656 e] assms by (simp add: coordinate_def)
  with 1 have "bounded_by 1407374883553280 (jadd (jadd a (jsub b c)) (jsub d e))"
    using bounded_add [of 844424930131968 "jadd a (jsub b c)" 562949953421312 "jsub d e"] by simp
  moreover have "bounded_by 1407374883553280 (Fin (of_int hi))"
    using assms(7) by (simp add: bounded_by_def is_double_int flip: of_int_abs)
  ultimately have "bounded_by 1407374883553280 (math_min (Fin (of_int hi)) (jadd (jadd a (jsub b c)) (jsub d e)))"
    by (intro bounded_min)
  then show ?thesis unfolding clamp_def by (rule at_least_max) (use assms(6) in simp_all)
qed

text \<open>The near edge moves, and neither the edge nor the size falls below its least value: the distances to both are
  doubles.\<close>

lemma shrink_axis:
  assumes "coordinate b" "coordinate c" "coordinate d" "coordinate e" "coordinate l" "at_least lo l" "coordinate w" "at_least sz w"
    and "0 \<le> lo" "lo \<le> 1000" "0 \<le> sz" "sz \<le> 1000"
    and "n = clamp (jadd (jsub b c) (jsub d e)) (jsub (Fin (of_int lo)) l) (jsub w (Fin (of_int sz)))"
  shows "at_least lo (jadd l n)" and "at_least sz (jsub w n)"
proof -
  have fin: "is_finite l" "is_finite w" and rep: "representable (val l)" "representable (val w)"
    and le: "of_int lo \<le> val l" "of_int sz \<le> val w" "val l \<le> 281474976710656" "val w \<le> 281474976710656"
    using assms(5-8) by (auto simp: coordinate_def bounded_by_def at_least_def is_double_def)
  have dist: "representable (val l - of_int lo)" "representable (val w - of_int sz)"
    using distance_exact [OF rep(1) assms(9) le(1)] distance_exact [OF rep(2) assms(11) le(2)] le(3,4) by simp_all
  then have "representable (of_int lo - val l)" using representable_minus [of "val l - of_int lo"] by simp
  then have low: "is_finite (jsub (Fin (of_int lo)) l)" "val (jsub (Fin (of_int lo)) l) = of_int lo - val l"
    using rnd_representable_val fin by (auto simp: jsub_finite)
  have high: "is_finite (jsub w (Fin (of_int sz)))" "val (jsub w (Fin (of_int sz))) = val w - of_int sz"
    using rnd_representable_val [OF dist(2)] fin by (auto simp: jsub_finite)
  have t: "is_finite (jadd (jsub b c) (jsub d e))" by (rule bounded_finite [OF shift_bound [OF assms(1-4)]])
  have n: "is_finite n" "val n = max (of_int lo - val l) (min (val w - of_int sz) (val (jadd (jsub b c) (jsub d e))))"
    unfolding assms(13) clamp_def using low high t by (simp_all add: math_max_finite math_min_finite)
  have bounds: "of_int lo - val l \<le> val n" "val n \<le> val w - of_int sz" using le(1,2) n(2) by auto
  have "at_least lo (rnd s (val l + val n))" for s
    by (rule at_least_rnd [where b = 562949953421312]) (use assms(9-12) bounds le in simp_all)
  then show "at_least lo (jadd l n)" using fin(1) n(1) by (simp add: jadd_finite)
  have "at_least sz (rnd s (val w - val n))" for s
    by (rule at_least_rnd [where b = 562949953421312]) (use assms(9-12) bounds le in simp_all)
  then show "at_least sz (jsub w n)" using fin(2) n(1) by (simp add: jsub_finite)
qed

lemma frame_okD:
  assumes "frame_ok item" and "k \<in> set frame_keys"
  shows "at_least (least_of k) (coord item k)"
  using assms by (auto simp: frame_ok_def list_all_iff coord_def)

lemma frame_set: "frame_ok item \<Longrightarrow> at_least (least_of k) v \<Longrightarrow> frame_ok (dict_set k (Num v) item)"
  by (auto simp: frame_ok_def frame_keys_def)

lemma frame_set_other: "k \<notin> set frame_keys \<Longrightarrow> frame_ok (dict_set k v item) = frame_ok item"
  by (auto simp: frame_ok_def frame_keys_def)

lemma on_window_ok:
  assumes "list_all frame_ok windows" and "\<And>item. frame_ok item \<Longrightarrow> frame_ok (f item)"
  shows "list_all frame_ok (on_window i f windows)"
  using assms by (auto simp: on_window_def list_all_iff)

lemma patched_ok: "frame_ok item \<Longrightarrow> patch_ok patch \<Longrightarrow> frame_ok (dict_spread item (map (\<lambda>(k, v). (k, Num v)) patch))"
  by (induction patch arbitrary: item) (auto simp: dict_spread_def patch_ok_def frame_set)

lemma start_okD:
  assumes "start_ok f"
  shows "coordinate (fr_clientX f)" "coordinate (fr_clientY f)" "coordinate (fst (fr_pan f))" "coordinate (snd (fr_pan f))"
    "coordinate (fr_left f)" "at_least 8 (fr_left f)" "coordinate (fr_top f)" "at_least 48 (fr_top f)"
    "coordinate (fr_width f)" "at_least 260 (fr_width f)" "coordinate (fr_height f)" "at_least 180 (fr_height f)"
  using assms by (simp_all add: start_ok_def coordinates_def)

lemma resize_patch_ok:
  assumes f: "start_ok f" and at: "coordinate px" "coordinate py" "coordinates pan"
  shows "patch_ok (resize_patch h f pan px py)"
proof -
  have pan: "coordinate (fst pan)" "coordinate (snd pan)" using at(3) by (simp_all add: coordinates_def)
  note d = start_okD [OF f]
  have w: "at_least 260 (clamp (jadd (jadd (fr_width f) (jsub px (fr_clientX f))) (jsub (fst pan) (fst (fr_pan f)))) (Fin 260) (Fin 2400))"
    using grow_axis [OF d(9) at(1) d(1) pan(1) d(3), of 260 2400] by simp
  have h: "at_least 180 (clamp (jadd (jadd (fr_height f) (jsub py (fr_clientY f))) (jsub (snd pan) (snd (fr_pan f)))) (Fin 180) (Fin 1800))"
    using grow_axis [OF d(11) at(2) d(2) pan(2) d(4), of 180 1800] by simp
  note x = shrink_axis [OF at(1) d(1) pan(1) d(3) d(5,6) d(9,10) _ _ _ _ refl, simplified]
  note y = shrink_axis [OF at(2) d(2) pan(2) d(4) d(7,8) d(11,12) _ _ _ _ refl, simplified]
  show ?thesis by (simp add: resize_patch_def Let_def patch_ok_def frame_keys_def least_of_def w h x y)
qed

lemma drag_ok:
  assumes f: "start_ok f" and at: "coordinate px" "coordinate py" "coordinates pan"
  shows "at_least 8 (fst (drag_position f pan px py))" "at_least 48 (snd (drag_position f pan px py))"
proof -
  have pan: "coordinate (fst pan)" "coordinate (snd pan)" using at(3) by (simp_all add: coordinates_def)
  note d = start_okD [OF f]
  show "at_least 8 (fst (drag_position f pan px py))"
    using drag_axis [OF d(5) at(1) d(1) pan(1) d(3), of 8] by (simp add: drag_position_def)
  show "at_least 48 (snd (drag_position f pan px py))"
    using drag_axis [OF d(7) at(2) d(2) pan(2) d(4), of 48] by (simp add: drag_position_def)
qed

text \<open>The frames in reach of exact arithmetic, and the events that a screen gives for them.\<close>

definition frames_fit :: "jobj list \<Rightarrow> bool" where
  "frames_fit windows \<longleftrightarrow> list_all (\<lambda>item. list_all (\<lambda>k. coordinate (coord item k)) frame_keys) windows"

definition frame_event_fits :: "frame_event \<Rightarrow> frames \<Rightarrow> bool" where
  "frame_event_fits e s = (case e of
     TitleDown i px py pan \<Rightarrow> coordinate px \<and> coordinate py \<and> coordinates pan \<and> frames_fit (fm_windows s)
   | HandleDown i h px py pan \<Rightarrow> coordinate px \<and> coordinate py \<and> coordinates pan \<and> frames_fit (fm_windows s)
   | PointerAt px py pan \<Rightarrow> coordinate px \<and> coordinate py \<and> coordinates pan
   | FrameCloned now i \<Rightarrow> frames_fit (fm_windows s)
   | FrameAdded now st pan kind provider symbol \<Rightarrow> coordinates pan \<and> at_least 0 (fst pan) \<and> at_least 0 (snd pan)
       \<and> length (fm_windows s) \<le> 1000000
   | _ \<Rightarrow> True)"

definition frames_ok :: "frames \<Rightarrow> bool" where
  "frames_ok s \<longleftrightarrow> list_all frame_ok (fm_windows s) \<and> (case fm_grip s of None \<Rightarrow> True | Some (i, f, h) \<Rightarrow> start_ok f)"

lemma start_from:
  assumes "frame_ok item" and "list_all (\<lambda>k. coordinate (coord item k)) frame_keys" and "coordinate px" "coordinate py" "coordinates pan"
  shows "start_ok (frame_start_of px py pan item)"
  using assms(2-5) frame_okD [OF assms(1), of "''x''"] frame_okD [OF assms(1), of "''y''"]
    frame_okD [OF assms(1), of "''w''"] frame_okD [OF assms(1), of "''h''"]
  by (simp add: start_ok_def frame_start_of_def frame_keys_def least_of_def)

lemma grip_from:
  assumes "list_all frame_ok windows" "frames_fit windows" "find (has_id i) windows = Some item" "coordinate px" "coordinate py" "coordinates pan"
  shows "start_ok (frame_start_of px py pan item)"
proof -
  have "item \<in> set windows" using assms(3) by (auto simp: find_Some_iff)
  then show ?thesis using assms by (intro start_from) (auto simp: list_all_iff frames_fit_def)
qed

lemma moved_ok:
  assumes "list_all frame_ok windows" "start_ok f" "coordinate px" "coordinate py" "coordinates pan"
  shows "list_all frame_ok (syncDrag i f pan px py windows)"
  using drag_ok [OF assms(2-5)] assms(1)
  by (auto simp: syncDrag_def moveWindow_def Let_def least_of_def intro!: on_window_ok frame_set)

lemma brought_ok: "list_all frame_ok windows \<Longrightarrow> list_all frame_ok (bringForward i windows)"
  unfolding bringForward_def by (rule on_window_ok) (simp_all add: frame_set_other frame_keys_def)

lemma resized_ok:
  assumes "list_all frame_ok windows" "start_ok f" "coordinate px" "coordinate py" "coordinates pan"
  shows "list_all frame_ok (resizeWindow i (resize_patch h f pan px py) windows)"
  unfolding resizeWindow_def using resize_patch_ok [OF assms(2-5)] assms(1) by (intro on_window_ok patched_ok) auto

lemma oget_spread: "oget (dict_spread d [(k, v)]) k' = (if k' = k then v else oget d k')"
    "dict_spread d (e # e' # es) = dict_spread (dict_spread d [e]) (e' # es)"
  by (simp_all add: dict_spread_def split: prod.split)

lemma coord_read: "coord (dict_spread d [(k, v)]) k' = (if k' = k then to_num v else coord d k')"
  by (simp add: coord_def oget_spread)

lemma frame_spread: "frame_ok (dict_spread d [(k, v)]) = frame_ok (dict_set k v d)"
  by (simp add: dict_spread_def)

lemma clone_ok:
  assumes "frame_ok source" and "list_all (\<lambda>k. coordinate (coord source k)) frame_keys"
  shows "frame_ok (clone_of now windows source)"
proof -
  have px: "coordinate (coord source ''x'')" "coordinate (coord source ''y'')" using assms(2) by (simp_all add: frame_keys_def)
  have shift: "at_least lo (math_max (Fin (of_int lo)) (jadd a (Fin 34)))" if pa: "coordinate a" and "\<bar>lo\<bar> \<le> 1000" for lo a
  proof -
    have "bounded_by 34 (Fin 34)" using is_double_int [of 34] by (simp add: bounded_by_def)
    with pa have "bounded_by 281474976710690 (jadd a (Fin 34))"
      using bounded_add [of 281474976710656 a 34 "Fin 34"] by (simp add: coordinate_def)
    then show ?thesis by (rule at_least_max) (use that(2) in simp_all)
  qed
  show ?thesis
    using assms(1) shift [OF px(1), of 8] shift [OF px(2), of 48]
    by (simp add: clone_of_def Let_def dict_spread_def frame_set_other frame_set frame_keys_def least_of_def)
qed

lemma defaults_ok: "list_all (\<lambda>item. frame_ok (window_obj item)) defaultWindows"
proof -
  have "frame_ok (window_obj (win k x y w h z))"
    if "8 \<le> x" "48 \<le> y" "260 \<le> w" "180 \<le> h" "x \<le> 10000" "y \<le> 10000" "w \<le> 10000" "h \<le> 10000" for k x y w h z
    using that by (auto simp: frame_ok_def frame_keys_def window_obj_def win_def least_of_def num_of_int_def intro!: at_leastI)
  then show ?thesis by (simp add: defaultWindows_def)
qed

lemma seeds_ok: "frame_ok (window_obj (get_or (find (\<lambda>item. ww_kind item = kind) defaultWindows) (win kind 80 80 520 360 0)))"
proof -
  have ok: "frame_ok (window_obj (win k x y w h z))"
    if "8 \<le> x" "48 \<le> y" "260 \<le> w" "180 \<le> h" "x \<le> 10000" "y \<le> 10000" "w \<le> 10000" "h \<le> 10000" for k x y w h z
    using that by (auto simp: frame_ok_def frame_keys_def window_obj_def win_def least_of_def num_of_int_def intro!: at_leastI)
  have "list_all (\<lambda>item. frame_ok (window_obj item)) defaultWindows"
    by (simp add: defaultWindows_def ok)
  moreover have "item \<in> set defaultWindows" if "find (\<lambda>item. ww_kind item = kind) defaultWindows = Some item" for item
    using that by (auto simp: find_Some_iff)
  ultimately show ?thesis
    by (cases "find (\<lambda>item. ww_kind item = kind) defaultWindows") (simp_all add: ok list_all_iff)
qed

lemma added_ok:
  assumes "coordinates pan" "at_least 0 (fst pan)" "at_least 0 (snd pan)" "length windows \<le> 1000000" "list_all frame_ok windows"
  shows "list_all frame_ok (addWindow now st pan kind provider symbol windows)"
proof -
  obtain count where c: "count = length (filter (\<lambda>item. oget item ''kind'' = Str kind) windows)" by blast
  have le: "count \<le> 1000000" using length_filter_le [of "\<lambda>item. oget item ''kind'' = Str kind" windows] assms(4) c by linarith
  have place: "at_least lo (jadd (jadd a (Fin (of_int lo))) (num_of_int (int count * 34)))"
    if pa: "coordinate a" and "at_least 0 a" "0 \<le> lo" "lo \<le> 1000" for lo a
  proof -
    have a: "is_finite a" "0 \<le> val a" "val a \<le> 281474976710656"
      using pa that(2) by (auto simp: coordinate_def bounded_by_def at_least_def is_double_def)
    have "at_least lo (rnd s (val a + of_int lo))" "bounded_by 281474976711656 (rnd s (val a + of_int lo))" for s
      by (rule at_least_rnd [where b = 281474976711656]; use a that(3,4) in simp) (rule bounded_rnd; use a that(3,4) in simp)
    then have 1: "at_least lo (jadd a (Fin (of_int lo)))" "bounded_by 281474976711656 (jadd a (Fin (of_int lo)))"
      using a(1) by (simp_all add: jadd_finite)
    then have v: "is_finite (jadd a (Fin (of_int lo)))" "of_int lo \<le> val (jadd a (Fin (of_int lo)))"
        "val (jadd a (Fin (of_int lo))) \<le> 281474976711656"
      by (auto simp: at_least_def is_double_def bounded_by_def)
    have "(of_nat count :: rat) \<le> 1000000" using le by simp
    then have "at_least lo (rnd s (val (jadd a (Fin (of_int lo))) + of_int (int count * 34)))" for s
      by (intro at_least_rnd [where b = 562949953421312]) (use v that(3,4) in simp_all)
    then show ?thesis using v(1) by (simp add: jadd_finite num_of_int_def)
  qed
  have more: "at_least lo v \<Longrightarrow> lo' \<le> lo \<Longrightarrow> at_least lo' v" for lo lo' v by (auto simp: at_least_def intro: order_trans [rotated])
  have "at_least 8 (jadd (jadd (fst pan) (Fin 60)) (num_of_int (int count * 34)))"
    "at_least 48 (jadd (jadd (snd pan) (Fin 70)) (num_of_int (int count * 34)))"
    using place [of "fst pan" 60] place [of "snd pan" 70] assms(1-3) by (auto simp: coordinates_def intro: more)
  then show ?thesis
    using seeds_ok [of kind] assms(5)
    by (simp add: addWindow_def Let_def dict_spread_def frame_set_other frame_set frame_keys_def least_of_def c [symmetric])
qed

lemma other_ops_ok:
  assumes "list_all frame_ok windows"
  shows "list_all frame_ok (toggleCollapse i windows)" "list_all frame_ok (closeWindow i windows)"
    "list_all frame_ok (selectWindowProduct i provider symbol windows)"
    "list_all frame_ok (updateWindowChartSettings i settings windows)"
    "list_all frame_ok (updateWindowDepthLadderSettings i settings windows)"
proof -
  show "list_all frame_ok (toggleCollapse i windows)"
    unfolding toggleCollapse_def using assms by (rule on_window_ok) (simp add: frame_set_other frame_keys_def)
  show "list_all frame_ok (closeWindow i windows)" using assms by (auto simp: closeWindow_def list_all_iff)
  show "list_all frame_ok (selectWindowProduct i provider symbol windows)"
    unfolding selectWindowProduct_def using assms by (rule on_window_ok) (simp add: frame_set_other frame_keys_def)
  show "list_all frame_ok (updateWindowChartSettings i settings windows)"
    unfolding updateWindowChartSettings_def using assms by (rule on_window_ok) (simp add: frame_set_other frame_keys_def)
  have "list_all frame_ok (on_window i (dict_set ''depthLadderSettings'' v) windows)" for v
    using assms by (rule on_window_ok) (simp add: frame_set_other frame_keys_def)
  then show "list_all frame_ok (updateWindowDepthLadderSettings i settings windows)"
    using assms by (simp add: updateWindowDepthLadderSettings_def Let_def split: option.split)
qed

lemma cloned_ok:
  assumes "list_all frame_ok windows" and "frames_fit windows"
  shows "list_all frame_ok (cloneWindow now i windows)"
  using assms clone_ok by (auto simp: cloneWindow_def frames_fit_def list_all_iff find_Some_iff split: option.split)

lemma frame_step_ok:
  assumes "frames_ok s" and "frame_event_fits e s"
  shows "frames_ok (frame_step e s)"
proof -
  have w: "list_all frame_ok (fm_windows s)" using assms(1) by (simp add: frames_ok_def)
  show ?thesis
  proof (cases e)
    case (TitleDown i px py pan)
    with assms w grip_from [OF w] moved_ok brought_ok show ?thesis
      by (auto simp: frames_ok_def frame_event_fits_def Let_def split: option.split)
  next
    case (HandleDown i h px py pan)
    with assms w grip_from [OF w] brought_ok show ?thesis
      by (auto simp: frames_ok_def frame_event_fits_def Let_def split: option.split)
  next
    case (PointerAt px py pan)
    with assms w show ?thesis
      by (auto simp: frames_ok_def frame_event_fits_def split: option.splits intro!: moved_ok resized_ok)
  next
    case (FrameAdded now st pan kind provider symbol)
    with assms w added_ok show ?thesis by (simp add: frames_ok_def frame_event_fits_def)
  next
    case (FrameCloned now i)
    with assms w cloned_ok show ?thesis by (simp add: frames_ok_def frame_event_fits_def)
  qed (use assms w other_ops_ok brought_ok in \<open>simp_all add: frames_ok_def\<close>)
qed

inductive frames_reach :: "frames \<Rightarrow> frames \<Rightarrow> bool" for start where
  frames_start: "frames_reach start start"
| frames_next: "frames_reach start s \<Longrightarrow> frame_event_fits e s \<Longrightarrow> frames_reach start (frame_step e s)"

definition default_frames :: frames where
  "default_frames = \<lparr>fm_windows = map window_obj defaultWindows, fm_grip = None\<rparr>"

text \<open>C5. However the windows of the default desk are dragged, resized, cloned, added to and closed, every
  frame keeps its title bar in reach, at least 8 coordinates from the left and 48 from the top, and is at
  least 260 wide and 180 high. The coordinates of the pointer, of the pan (not negative when a window is added)
  and of frames given from outside are doubles within 2 to the 48th, fractions included, and there are at most a
  million windows.\<close>

theorem frames_stay_reachable:
  assumes "frames_reach default_frames s"
  shows "list_all frame_ok (fm_windows s)"
proof -
  have "frames_ok s"
    using assms
  proof (induction rule: frames_reach.induct)
    case frames_start
    show ?case using defaults_ok by (simp add: frames_ok_def default_frames_def list_all_iff)
  qed (simp add: frame_step_ok)
  then show ?thesis by (simp add: frames_ok_def)
qed

lemma frames_stay_reachable_witness:
  "list_all frame_ok (fm_windows (frame_step (PointerAt (Fin 5000) (Fin 90) (Fin 0, Fin 0))
     (frame_step (HandleDown ''charts-2'' HandleW (Fin 600) (Fin 100) (Fin 0, Fin 0)) default_frames)))"
proof -
  have px: "coordinate (Fin (of_int n))" if "\<bar>n\<bar> \<le> 10000" for n
    using that by (intro coordinate_int) simp
  have at: "coordinate (Fin 600)" "coordinate (Fin 100)" "coordinate (Fin 5000)" "coordinate (Fin 90)" "coordinate (Fin 0)"
    using px [of 600] px [of 100] px [of 5000] px [of 90] px [of 0] by simp_all
  have "coordinate (num_of_int n)" if "\<bar>n\<bar> \<le> 10000" for n using px [OF that] by (simp add: num_of_int_def)
  then have "frames_fit (fm_windows default_frames)"
    by (simp add: frames_fit_def default_frames_def defaultWindows_def win_def window_obj_def frame_keys_def coord_def)
  with at have first: "frames_reach default_frames (frame_step (HandleDown ''charts-2'' HandleW (Fin 600) (Fin 100) (Fin 0, Fin 0)) default_frames)"
    by (intro frames_next frames_start) (simp add: frame_event_fits_def coordinates_def)
  then have "frames_reach default_frames (frame_step (PointerAt (Fin 5000) (Fin 90) (Fin 0, Fin 0))
      (frame_step (HandleDown ''charts-2'' HandleW (Fin 600) (Fin 100) (Fin 0, Fin 0)) default_frames))"
    using at by (intro frames_next [OF first]) (simp add: frame_event_fits_def coordinates_def)
  then show ?thesis by (rule frames_stay_reachable)
qed

text \<open>Whole numbers of pixels, which the arithmetic of the program adds exactly.\<close>

definition pixel :: "jsnum \<Rightarrow> bool" where
  "pixel v \<longleftrightarrow> (\<exists>n. v = Fin (of_int n) \<and> \<bar>n\<bar> \<le> 281474976710656)"

definition pixels :: "jsnum \<times> jsnum \<Rightarrow> bool" where
  "pixels p \<longleftrightarrow> pixel (fst p) \<and> pixel (snd p)"

definition start_whole :: "frame_start \<Rightarrow> bool" where
  "start_whole f \<longleftrightarrow> pixel (fr_clientX f) \<and> pixel (fr_clientY f) \<and> pixels (fr_pan f)
     \<and> pixel (fr_left f) \<and> at_least 8 (fr_left f) \<and> pixel (fr_top f) \<and> at_least 48 (fr_top f)
     \<and> pixel (fr_width f) \<and> at_least 260 (fr_width f) \<and> pixel (fr_height f) \<and> at_least 180 (fr_height f)"

lemma jadd_px: "\<bar>m + n\<bar> \<le> 9007199254740992 \<Longrightarrow> jadd (Fin (of_int m)) (Fin (of_int n)) = Fin (of_int (m + n))"
  by (simp add: jadd_int)

lemma jsub_px: "\<bar>m - n\<bar> \<le> 9007199254740992 \<Longrightarrow> jsub (Fin (of_int m)) (Fin (of_int n)) = Fin (of_int (m - n))"
  by (simp add: jsub_int)

lemma pixelE:
  assumes "pixel v"
  obtains n where "v = Fin (of_int n)" "\<bar>n\<bar> \<le> 281474976710656"
  using assms by (auto simp: pixel_def)

lemma pixel_shift:
  assumes "pixel b" "pixel c" "pixel d" "pixel e"
  obtains t where "jadd (jsub b c) (jsub d e) = Fin (of_int t)"
proof -
  obtain i j k m where "b = Fin (of_int i)" "c = Fin (of_int j)" "d = Fin (of_int k)" "e = Fin (of_int m)"
    and n: "\<bar>i\<bar> \<le> 281474976710656" "\<bar>j\<bar> \<le> 281474976710656" "\<bar>k\<bar> \<le> 281474976710656" "\<bar>m\<bar> \<le> 281474976710656"
    using assms by (elim pixelE) blast
  moreover have "jsub (Fin (of_int i)) (Fin (of_int j)) = Fin (of_int (i - j))" using n by (intro jsub_px) linarith
  moreover have "jsub (Fin (of_int k)) (Fin (of_int m)) = Fin (of_int (k - m))" using n by (intro jsub_px) linarith
  moreover have "jadd (Fin (of_int (i - j))) (Fin (of_int (k - m))) = Fin (of_int (i - j + (k - m)))"
    using n by (intro jadd_px) linarith
  ultimately show ?thesis using that [of "i - j + (k - m)"] by (simp only:)
qed

lemma clamp_int: "clamp (Fin (of_int n)) (Fin (of_int lo)) (Fin (of_int hi)) = Fin (of_int (max lo (min hi n)))"
  by (simp only: clamp_def min_int max_int)

lemma shrink_whole:
  assumes "pixel b" "pixel c" "pixel d" "pixel e" "pixel l" "at_least lo l" "pixel w" "at_least sz w" "\<bar>lo\<bar> \<le> 1000" "\<bar>sz\<bar> \<le> 1000"
    and "n = clamp (jadd (jsub b c) (jsub d e)) (jsub (Fin (of_int lo)) l) (jsub w (Fin (of_int sz)))"
  shows "jadd (jadd l n) (jsub w n) = jadd l w"
proof -
  obtain t where t: "jadd (jsub b c) (jsub d e) = Fin (of_int t)" using pixel_shift [OF assms(1-4)] .
  obtain p q where v: "l = Fin (of_int p)" "w = Fin (of_int q)" and n: "\<bar>p\<bar> \<le> 281474976710656" "\<bar>q\<bar> \<le> 281474976710656"
    using assms(5,7) by (elim pixelE) blast
  have pq: "lo \<le> p" "sz \<le> q" using assms(6,8) v by (auto simp: at_least_def)
  obtain r where r: "r = max (lo - p) (min (q - sz) t)" by blast
  have low: "jsub (Fin (of_int lo)) l = Fin (of_int (lo - p))" unfolding v using n assms(9) by (intro jsub_px) linarith
  have high: "jsub w (Fin (of_int sz)) = Fin (of_int (q - sz))" unfolding v using n assms(10) by (intro jsub_px) linarith
  have nr: "n = Fin (of_int r)" by (simp only: assms(11) low high clamp_int r t)
  have bounds: "lo - p \<le> r" "r \<le> q - sz" using pq by (auto simp: r)
  have left: "jadd l n = Fin (of_int (p + r))" unfolding v nr using bounds n assms(9,10) by (intro jadd_px) linarith
  have width: "jsub w n = Fin (of_int (q - r))" unfolding v nr using bounds n assms(9,10) by (intro jsub_px) linarith
  have "jadd (Fin (of_int (p + r))) (Fin (of_int (q - r))) = Fin (of_int (p + r + (q - r)))" using n by (intro jadd_px) linarith
  moreover have "jadd l w = Fin (of_int (p + q))" unfolding v using n by (intro jadd_px) linarith
  ultimately show "jadd (jadd l n) (jsub w n) = jadd l w" unfolding left width by simp
qed

lemma start_wholeD:
  assumes "start_whole f"
  shows "pixel (fr_clientX f)" "pixel (fr_clientY f)" "pixel (fst (fr_pan f))" "pixel (snd (fr_pan f))"
    "pixel (fr_left f)" "at_least 8 (fr_left f)" "pixel (fr_top f)" "at_least 48 (fr_top f)"
    "pixel (fr_width f)" "at_least 260 (fr_width f)" "pixel (fr_height f)" "at_least 180 (fr_height f)"
  using assms by (simp_all add: start_whole_def pixels_def)

text \<open>On whole pixels, the handle on the left edge, or the upper one, moves that edge only: the right and the lower edge
  stay where they were when it was gripped.\<close>

theorem resize_keeps_far_edge:
  assumes "start_whole f" and "pixel px" "pixel py" "pixels pan"
  shows "(handle_has h (CHR ''w'') \<longrightarrow> (\<exists>x w. dict_get (resize_patch h f pan px py) ''x'' = Some x
      \<and> dict_get (resize_patch h f pan px py) ''w'' = Some w \<and> jadd x w = jadd (fr_left f) (fr_width f)))
    \<and> (handle_has h (CHR ''n'') \<longrightarrow> (\<exists>y v. dict_get (resize_patch h f pan px py) ''y'' = Some y
      \<and> dict_get (resize_patch h f pan px py) ''h'' = Some v \<and> jadd y v = jadd (fr_top f) (fr_height f)))"
proof -
  have pan: "pixel (fst pan)" "pixel (snd pan)" using assms(4) by (simp_all add: pixels_def)
  note d = start_wholeD [OF assms(1)]
  note x = shrink_whole [OF assms(2) d(1) pan(1) d(3) d(5,6) d(9,10) _ _ refl, simplified]
  note y = shrink_whole [OF assms(3) d(2) pan(2) d(4) d(7,8) d(11,12) _ _ refl, simplified]
  show ?thesis using x y by (simp add: resize_patch_def Let_def dict_get_set)
qed

lemma resize_keeps_far_edge_witness:
  "\<exists>x w. dict_get (resize_patch HandleNW (frame_start_of (Fin 600) (Fin 100) (Fin 0, Fin 0) (window_obj (win ''charts'' 588 58 620 430 2)))
      (Fin 20, Fin 0) (Fin 5000) (Fin 90)) ''x'' = Some x
    \<and> dict_get (resize_patch HandleNW (frame_start_of (Fin 600) (Fin 100) (Fin 0, Fin 0) (window_obj (win ''charts'' 588 58 620 430 2)))
      (Fin 20, Fin 0) (Fin 5000) (Fin 90)) ''w'' = Some w \<and> jadd x w = Fin 1208"
proof -
  have px: "pixel (Fin (of_int n))" "lo \<le> n \<Longrightarrow> at_least lo (Fin (of_int n))" if "\<bar>n\<bar> \<le> 10000" for n lo
    using that by (auto simp: pixel_def intro!: at_leastI)
  have "pixel (Fin 600)" "pixel (Fin 100)" "pixel (Fin 5000)" "pixel (Fin 90)" "pixel (Fin 0)" "pixel (Fin 20)"
      "pixel (Fin 588)" "pixel (Fin 58)" "pixel (Fin 620)" "pixel (Fin 430)" "at_least 8 (Fin 588)" "at_least 48 (Fin 58)"
      "at_least 260 (Fin 620)" "at_least 180 (Fin 430)"
    using px(1) [of 600] px(1) [of 100] px(1) [of 5000] px(1) [of 90] px(1) [of 0] px(1) [of 20] px(1) [of 588] px(1) [of 58]
      px(1) [of 620] px(1) [of 430] px(2) [of 588 8] px(2) [of 58 48] px(2) [of 620 260] px(2) [of 430 180] by simp_all
  then have "start_whole (frame_start_of (Fin 600) (Fin 100) (Fin 0, Fin 0) (window_obj (win ''charts'' 588 58 620 430 2)))"
      "pixel (Fin 5000)" "pixel (Fin 90)" "pixels (Fin 20, Fin 0)"
    by (simp_all add: start_whole_def pixels_def frame_start_of_def window_obj_def win_def coord_def num_of_int_def)
  from resize_keeps_far_edge [OF this, of HandleNW] show ?thesis
    using jadd_px [of 588 620]
    by (auto simp: handle_has_def frame_start_of_def window_obj_def win_def coord_def num_of_int_def)
qed

subsection \<open>The window in front\<close>

lemma max_z_bound:
  assumes "list_all (\<lambda>item. pixel (coord item ''z'')) windows"
  obtains n where "max_z windows = Fin (of_int n)" "\<bar>n\<bar> \<le> 281474976710656"
    "\<forall>item\<in>set windows. \<exists>m. coord item ''z'' = Fin (of_int m) \<and> m \<le> n"
proof -
  have fold_max: "\<exists>n. fold (\<lambda>x m. math_max m x) zs (Fin (of_int k)) = Fin (of_int n) \<and> k \<le> n \<and> \<bar>n\<bar> \<le> 281474976710656
      \<and> (\<forall>z\<in>set zs. \<exists>m. z = Fin (of_int m) \<and> m \<le> n)"
    if "list_all pixel zs" "\<bar>k\<bar> \<le> 281474976710656" for zs k
    using that
  proof (induction zs arbitrary: k)
    case (Cons z zs)
    then obtain m where m: "z = Fin (of_int m)" "\<bar>m\<bar> \<le> 281474976710656" by (auto simp: pixel_def)
    have "\<bar>max k m\<bar> \<le> 281474976710656" using Cons.prems(2) m(2) by auto
    with Cons.IH [of "max k m"] Cons.prems(1) obtain n where n:
        "fold (\<lambda>x m. math_max m x) zs (Fin (of_int (max k m))) = Fin (of_int n)" "max k m \<le> n" "\<bar>n\<bar> \<le> 281474976710656"
        "\<forall>z\<in>set zs. \<exists>m. z = Fin (of_int m) \<and> m \<le> n"
      by auto
    then show ?case by (intro exI [of _ n]) (simp add: m(1) max_int)
  qed auto
  have "math_max (Inf True) (Fin 1) = Fin (of_int 1)" by (simp add: math_max_def jlt_def)
  with fold_max [of "map (\<lambda>item. coord item ''z'') windows" 1] assms show ?thesis
    using that by (auto simp: max_z_def math_max_list_def list_all_iff)
qed

text \<open>A window that is activated comes to lie above every other one.\<close>

theorem activated_is_front:
  assumes "list_all (\<lambda>item. pixel (coord item ''z'')) windows"
    and "item \<in> set (bringForward i windows)" "has_id i item" "other \<in> set (bringForward i windows)" "\<not> has_id i other"
  shows "jlt (coord other ''z'') (coord item ''z'')"
proof -
  obtain n where n: "max_z windows = Fin (of_int n)" "\<bar>n\<bar> \<le> 281474976710656"
      "\<forall>item\<in>set windows. \<exists>m. coord item ''z'' = Fin (of_int m) \<and> m \<le> n"
    using max_z_bound [OF assms(1)] .
  have up: "jadd (max_z windows) (Fin 1) = Fin (of_int (n + 1))" using jadd_px [of n 1] n(1,2) by simp
  have "coord item ''z'' = Fin (of_int (n + 1))"
    using assms(2,3) by (auto simp: bringForward_def on_window_def has_id_def coord_def up)
  moreover have "other \<in> set windows"
    using assms(4,5) by (auto simp: bringForward_def on_window_def has_id_def)
  then obtain m where "coord other ''z'' = Fin (of_int m)" "m \<le> n" using n(3) by blast
  ultimately show ?thesis by (simp add: jlt_def)
qed

lemma activated_is_front_witness:
  "jlt (coord [(''id'', Str ''b''), (''z'', Num (Fin 4))] ''z'') (coord [(''id'', Str ''a''), (''z'', Num (Fin 5))] ''z'')"
proof -
  have "bringForward ''a'' [[(''id'', Str ''a''), (''z'', Num (Fin 2))], [(''id'', Str ''b''), (''z'', Num (Fin 4))]]
      = [[(''id'', Str ''a''), (''z'', Num (Fin 5))], [(''id'', Str ''b''), (''z'', Num (Fin 4))]]"
    by code_simp
  moreover have "pixel (Fin 2)" "pixel (Fin 4)"
    by (auto simp: pixel_def intro: exI [of _ 2] exI [of _ 4])
  ultimately show ?thesis
    using activated_is_front [of "[[(''id'', Str ''a''), (''z'', Num (Fin 2))], [(''id'', Str ''b''), (''z'', Num (Fin 4))]]"
        "[(''id'', Str ''a''), (''z'', Num (Fin 5))]" "''a''" "[(''id'', Str ''b''), (''z'', Num (Fin 4))]"]
    by (simp add: coord_def has_id_def)
qed

subsection \<open>The pan stays on the canvas\<close>

lemma pan_on_canvas:
  assumes "pixels bounds" "pixels viewport" "pixels p"
  shows "\<exists>x y. clampWorkspacePan bounds viewport None p = (Fin (of_int x), Fin (of_int y)) \<and> 0 \<le> x \<and> 0 \<le> y
    \<and> of_int x \<le> max 0 (val (fst bounds) - val (fst viewport)) \<and> of_int y \<le> max 0 (val (snd bounds) - val (snd viewport))"
proof -
  have axis: "\<exists>x. clamp c (Fin 0) (math_max (Fin 0) (jsub a b)) = Fin (of_int x) \<and> 0 \<le> x \<and> of_int x \<le> max 0 (val a - val b)"
    if abc: "pixel a" "pixel b" "pixel c" for a b c
  proof -
    obtain i j k where n: "a = Fin (of_int i)" "b = Fin (of_int j)" "c = Fin (of_int k)" "\<bar>i\<bar> \<le> 281474976710656" "\<bar>j\<bar> \<le> 281474976710656"
      using abc by (auto simp: pixel_def)
    have "jsub a b = Fin (of_int (i - j))" unfolding n using n(4,5) by (intro jsub_px) linarith
    then have "clamp c (Fin 0) (math_max (Fin 0) (jsub a b)) = Fin (of_int (max 0 (min (max 0 (i - j)) k)))"
      using max_int [of 0 "i - j"] clamp_int [of k 0 "max 0 (i - j)"] by (simp add: n(3))
    then show ?thesis by (intro exI [of _ "max 0 (min (max 0 (i - j)) k)"]) (auto simp: n(1,2))
  qed
  from axis [of "fst bounds" "fst viewport" "fst p"] axis [of "snd bounds" "snd viewport" "snd p"] assms show ?thesis
    by (auto simp: clampWorkspacePan_def pixels_def)
qed

end
