(* ===== verification/CanvasDesk.thy ===== *)
theory CanvasDesk
  imports CanvasWindows Execution
begin

text \<open>
  The workspace canvas of \<open>apps/terminal/src/components/WorkspaceCanvas.tsx\<close>: what it is mounted with,
  the effects that write browser storage, saving and loading a desk, the recovery of desks from the
  server at launch, the products and rows of the desk, and the system actions (reset, lock, logout,
  shutdown) with the requests they send. Main results: a desk that was saved is the desk the canvas is
  mounted with again, whatever else happens in between, so what is only written by the effects is never
  read; a desk is loaded as it was put in the list.
\<close>

subsection \<open>State\<close>

record canvas =
  cv_frames :: frames
  cv_rows :: "jobj list"
  cv_alerts :: "alert_rule list"
  cv_operator :: string
  cv_name :: string
  cv_saved :: "saved_workspace list"
  cv_provider :: string
  cv_symbol :: jsv
  cv_status :: string
  cv_menuOpen :: bool
  cv_storage :: storage
  cv_store :: terminal_state
  cv_mounted :: "string \<times> string \<times> jsnum"

abbreviation cv_windows :: "canvas \<Rightarrow> jobj list" where
  "cv_windows c \<equiv> fm_windows (cv_frames c)"

definition trim_or :: "string \<Rightarrow> string \<Rightarrow> string" where
  "trim_or s d = (if trim s = [] then d else trim s)"

text \<open>The desk as a workspace; \<open>untitled\<close> is its name when none is typed.\<close>

definition canvas_payload ::
    "(string \<Rightarrow> string \<Rightarrow> int) \<Rightarrow> jsnum \<Rightarrow> string \<Rightarrow> canvas \<Rightarrow> saved_workspace" where
  "canvas_payload lc now untitled c =
     \<lparr>sw_workspaceId = None, sw_name = trim_or (cv_name c) untitled, sw_operator = trim_or (cv_operator c) default_operator,
      sw_windows = cv_windows c, sw_rows = cv_rows c, sw_alerts = Some (cv_alerts c),
      sw_algoLibrary = Some (loadAlgoLibrary lc now (cv_storage c)),
      sw_algoManager = Some (loadAlgoManagerWorkspaceState now (cv_storage c)),
      sw_selectedProvider = Some (cv_provider c), sw_selectedSymbol = cv_symbol c, sw_desktopToolbarBounds = Undefined,
      sw_updatedAt = now, sw_recoveredFrom = Undefined, sw_serverFile = Undefined\<rparr>"

text \<open>The effects after a rendering: the list of desks, and the desk itself under the key of the active
  one.\<close>

definition write_names :: "canvas \<Rightarrow> canvas" where
  "write_names c = c\<lparr>cv_storage := set_json workspace_names_key (Arr (map workspace_obj (cv_saved c))) (cv_storage c)\<rparr>"

definition write_desk :: "(string \<Rightarrow> string \<Rightarrow> int) \<Rightarrow> jsnum \<Rightarrow> canvas \<Rightarrow> canvas" where
  "write_desk lc now c = c\<lparr>cv_storage := set_json storage_key
     (workspace_obj (canvas_payload lc now ''Untitled Workspace'' c)) (cv_storage c)\<rparr>"

definition seed_default :: "(string \<Rightarrow> string \<Rightarrow> int) \<Rightarrow> jsnum \<Rightarrow> canvas \<Rightarrow> canvas" where
  "seed_default lc now c = (case get_item (cv_storage c) default_workspace_key of
     Absent \<Rightarrow>
       (let initial = canvas_payload lc now ''Cerious CME Desk'' c; merged = upsertSavedWorkspace (cv_saved c) initial
        in write_names (c\<lparr>cv_saved := merged, cv_storage :=
             persistWorkspaceSnapshot lc now initial merged True ''initial default workspace'' (cv_storage c)\<rparr>))
   | _ \<Rightarrow> c)"

subsection \<open>Mounting\<close>

definition mount_state ::
    "(string \<Rightarrow> string \<Rightarrow> int) \<Rightarrow> jsnum \<Rightarrow> storage \<Rightarrow> terminal_state \<Rightarrow> canvas" where
  "mount_state lc now st store =
     (let initial = loadActiveWorkspace lc now st;
          st1 = (case initial of None \<Rightarrow> st | Some w \<Rightarrow> applyWorkspaceAlgoSnapshot now (sw_algoManager w) st);
          xs = loadSavedWorkspaces lc now st1;
          operator = (case initial of None \<Rightarrow> default_operator | Some w \<Rightarrow> sw_operator w);
          name = (case initial of None \<Rightarrow> ''Cerious CME Desk'' | Some w \<Rightarrow> sw_name w)
      in \<lparr>cv_frames = \<lparr>fm_windows = (case initial of None \<Rightarrow> map window_obj defaultWindows | Some w \<Rightarrow> sw_windows w), fm_grip = None\<rparr>,
          cv_rows = (case initial of None \<Rightarrow> [] | Some w \<Rightarrow> sw_rows w),
          cv_alerts = (case initial of None \<Rightarrow> [] | Some w \<Rightarrow> get_or (sw_alerts w) []),
          cv_operator = operator, cv_name = name,
          cv_saved = (case initial of None \<Rightarrow> xs
            | Some w \<Rightarrow> if list_ex (\<lambda>item. key_of item = key_of w) xs then xs else upsertSavedWorkspace xs w),
          cv_provider = normalizeProviderKey (case initial of None \<Rightarrow> Undefined | Some w \<Rightarrow> opt_str (sw_selectedProvider w)),
          cv_symbol = (case initial of None \<Rightarrow> Str ''ES'' | Some w \<Rightarrow> coalesce (sw_selectedSymbol w) (Str ''ES'')),
          cv_status = [], cv_menuOpen = False, cv_storage = st1, cv_store = store,
          cv_mounted = (operator, name, case initial of None \<Rightarrow> Fin 0 | Some w \<Rightarrow> or_zero (sw_updatedAt w))\<rparr>)"

definition mount_canvas ::
    "(string \<Rightarrow> string \<Rightarrow> int) \<Rightarrow> jsnum \<Rightarrow> storage \<Rightarrow> terminal_state \<Rightarrow> canvas" where
  "mount_canvas lc now st store = seed_default lc now (write_desk lc now (write_names (mount_state lc now st store)))"

subsection \<open>Saving and loading\<close>

text \<open>The save sets trimmed names; when they differ from what was typed the desk is written again. The
  request is the second component.\<close>

definition saveWorkspace ::
    "(string \<Rightarrow> string \<Rightarrow> int) \<Rightarrow> jsnum \<Rightarrow> string \<Rightarrow> answer option \<Rightarrow> canvas \<Rightarrow> canvas \<times> string \<times> jsv" where
  "saveWorkspace lc now token a c =
     (let next = canvas_payload lc now ''Untitled Workspace'' c;
          merged = upsertSavedWorkspace (cv_saved c) next;
          c1 = write_names (c\<lparr>cv_saved := merged, cv_operator := sw_operator next, cv_name := sw_name next,
             cv_status := (if save_outcome a then ''Saved local + server'' else ''Saved local; server pending''),
             cv_storage := persistWorkspaceSnapshot lc now next merged True ''manual save default'' (cv_storage c)\<rparr>);
          c2 = (if cv_operator c1 \<noteq> cv_operator c \<or> cv_name c1 \<noteq> cv_name c then write_desk lc now c1 else c1)
      in (c2, workspace_save_request token next ''manual save default'' False))"

definition show_workspace :: "jsnum \<Rightarrow> saved_workspace \<Rightarrow> canvas \<Rightarrow> canvas" where
  "show_workspace now w c = c\<lparr>cv_operator := sw_operator w, cv_name := sw_name w,
     cv_frames := (cv_frames c)\<lparr>fm_windows := sw_windows w\<rparr>, cv_rows := sw_rows w, cv_alerts := get_or (sw_alerts w) [],
     cv_storage := applyWorkspaceAlgoSnapshot now (sw_algoManager w) (cv_storage c)\<rparr>"

definition show_provider :: "string \<Rightarrow> canvas \<Rightarrow> canvas" where
  "show_provider p c = c\<lparr>cv_provider := p, cv_store := setMarketProvider p (cv_store c)\<rparr>"

definition show_symbol :: "jsv \<Rightarrow> canvas \<Rightarrow> canvas" where
  "show_symbol v c = (if truthy v then c\<lparr>cv_symbol := v\<rparr> else c)"

definition loadWorkspace ::
    "(string \<Rightarrow> string \<Rightarrow> int) \<Rightarrow> jsnum \<Rightarrow> string \<Rightarrow> string \<Rightarrow> canvas \<Rightarrow> canvas" where
  "loadWorkspace lc now operator name c =
     (case find (\<lambda>item. key_of item = workspaceKey operator name) (cv_saved c) of
        None \<Rightarrow> c
      | Some found \<Rightarrow>
         (case normalizeWorkspace lc now (workspace_obj found) of
            Inl e \<Rightarrow> c
          | Inr normalized \<Rightarrow>
             (let w = get_or normalized found;
                  c1 = show_workspace now w c;
                  c2 = (case truthy_text (sw_selectedProvider w) of None \<Rightarrow> c1
                    | Some p \<Rightarrow> show_provider (normalizeProviderKey (Str p)) c1);
                  c3 = show_symbol (sw_selectedSymbol w) c2
              in write_desk lc now (c3\<lparr>cv_storage := set_json storage_key (workspace_obj (w\<lparr>sw_updatedAt := now\<rparr>)) (cv_storage c3),
                   cv_status := ''Loaded '' @ sw_name w\<rparr>))))"

definition handleLoadWorkspace :: "(string \<Rightarrow> string \<Rightarrow> int) \<Rightarrow> jsnum \<Rightarrow> string \<Rightarrow> canvas \<Rightarrow> canvas" where
  "handleLoadWorkspace lc now value c =
     (if value = [] then c
      else case find (\<lambda>item. key_of item = value) (cv_saved c) of
        None \<Rightarrow> c | Some w \<Rightarrow> loadWorkspace lc now (sw_operator w) (sw_name w) c)"

definition selectProduct :: "string \<Rightarrow> string \<Rightarrow> canvas \<Rightarrow> canvas" where
  "selectProduct provider symbol c = (show_provider (normalizeProviderKey (Str provider)) c)\<lparr>cv_symbol := Str symbol\<rparr>"

definition saveDepthLadderDefaultForWindow :: "string \<Rightarrow> depth_ladder_settings \<Rightarrow> canvas \<Rightarrow> canvas" where
  "saveDepthLadderDefaultForWindow i settings c =
     (let saved = saveDepthLadderDefaultSettings settings (cv_storage c);
          set_it = (\<lambda>item. if oget item ''kind'' = Str ''depthLadder''
            then dict_set ''depthLadderSettings'' (depth_settings_obj (fst saved)) item else item)
      in c\<lparr>cv_storage := snd saved, cv_frames := (cv_frames c)\<lparr>fm_windows := on_window i set_it (cv_windows c)\<rparr>,
           cv_status := ''DOM default saved''\<rparr>)"

subsection \<open>Recovery at launch\<close>

definition ted_s_recovery_file :: string where
  "ted_s_recovery_file = ''leveldb-07-ted-s.json''"

text \<open>Of the desks of one key the newest.\<close>

definition newest_of :: "saved_workspace list \<Rightarrow> saved_workspace list" where
  "newest_of available = map snd (fold (gather key_of (\<lambda>item. item)
     (\<lambda>item existing. if jlt (sw_updatedAt existing) (sw_updatedAt item) then item else existing)) available [])"

definition named_desk :: "string \<Rightarrow> saved_workspace \<Rightarrow> bool" where
  "named_desk name item \<longleftrightarrow> key_of item = workspaceKey default_operator name"

definition latest_ted_s :: "saved_workspace list \<Rightarrow> saved_workspace list \<Rightarrow> saved_workspace option" where
  "latest_ted_s recovered latest =
     or_else (case sort_js (before_desc sw_updatedAt) (filter (named_desk ''Ted S'') latest) of [] \<Rightarrow> None | w # ws \<Rightarrow> Some w)
       (find (\<lambda>item. sw_recoveredFrom item = Str ted_s_recovery_file) (filter (named_desk ''Ted S'') recovered))"

definition restoreRecoveredWorkspace ::
    "(string \<Rightarrow> string \<Rightarrow> int) \<Rightarrow> jsnum \<Rightarrow> bool \<Rightarrow> saved_workspace list \<Rightarrow> saved_workspace list \<Rightarrow> canvas \<Rightarrow> canvas" where
  "restoreRecoveredWorkspace lc now cancelled recovered serverSaved c =
     (let available = serverSaved @ recovered in
      if cancelled \<or> available = [] then c
      else let latest = newest_of available; ted = latest_ted_s recovered latest;
               base = (if ted = None then cv_saved c else filter (\<lambda>item. \<not> named_desk ''Ted'' item) (cv_saved c));
               c1 = write_names (c\<lparr>cv_saved := fold (\<lambda>item xs. upsertSavedWorkspace xs item) latest base\<rparr>)
        in case ted of None \<Rightarrow> c1
        | Some t \<Rightarrow>
           (case cv_mounted c of (operator, name, activeUpdatedAt) \<Rightarrow>
             let activeKey = workspaceKey (trim_or operator default_operator) (trim name) in
             if \<not> (activeKey = workspaceKey default_operator ''Ted''
                  \<or> activeKey = workspaceKey default_operator ''Cerious CME Desk''
                  \<or> jlt activeUpdatedAt (sw_updatedAt t)) then c1
             else let activated = t\<lparr>sw_updatedAt := now\<rparr>;
                      c2 = show_symbol (sw_selectedSymbol activated)
                        (show_provider (normalizeProviderKey (opt_str (sw_selectedProvider activated))) (show_workspace now activated c1))
               in write_desk lc now (c2\<lparr>cv_storage := set_json default_workspace_key (workspace_obj activated)
                      (set_json storage_key (workspace_obj activated) (cv_storage c2)),
                    cv_status := ''Recovered '' @ sw_name activated\<rparr>)))"

subsection \<open>System actions\<close>

definition working_orders :: "terminal_state \<Rightarrow> nat" where
  "working_orders s = length (filter (\<lambda>o1. jlt (Fin 0) (so_remaining o1) \<and> so_status o1 \<in> {''working'', ''partially_filled''}) (ts_simOrders s))"

definition order_warning :: "string \<Rightarrow> terminal_state \<Rightarrow> string" where
  "order_warning tail s = (let n = working_orders s in
     if 0 < n then '' You currently have '' @ int_text (int n) @ '' working order'' @ (if n = 1 then [] else ''s'') @ tail
     else '' No working orders are visible in the workspace.'')"

text \<open>A request and what it is sent with, and the reason of a lock that is announced.\<close>

type_synonym desk_output = "(string \<times> jobj) option \<times> string option"

definition reset_message :: "terminal_state \<Rightarrow> string" where
  "reset_message s = (let warning = order_warning '' visible in the workspace.'' s in
     if ts_simulationEnabled s
     then ''Reset the SIM trading workspace?'' @ warning @ '' This clears simulated working orders, simulated fills, simulated positions, and simulated P&L. A backup of the fill journal will be kept.''
     else ''Reset the server trading runtime?'' @ warning @ '' This clears runtime order state and requires backend confirmation. The fill journal remains server-owned.'')"

definition reset_request :: "bool \<Rightarrow> string \<times> jobj" where
  "reset_request simulation = (''/api/cerious/session/reset'',
     [(''reason'', Str (if simulation then ''toolbar simulation reset'' else ''toolbar reset'')),
      (''confirm'', Str ''RESET_TRADING_SESSION''),
      (''scope'', Str (if simulation then ''simulation'' else ''runtime'')), (''clearFills'', Bool simulation)])"

definition http_failure :: "jsnum \<Rightarrow> jobj \<Rightarrow> string" where
  "http_failure status body = to_str (js_or (oget body ''detail'') (js_or (oget body ''message'') (Str (''HTTP '' @ num_text status))))"

definition resetServerTradingSession ::
    "jsnum \<Rightarrow> bool \<Rightarrow> order_reply service_answer \<Rightarrow> canvas \<Rightarrow> canvas \<times> desk_output" where
  "resetServerTradingSession now accepted a c =
     (if \<not> accepted then (c, None, None)
      else (case a of
          RequestFailed m \<Rightarrow> c\<lparr>cv_status := ''Reset failed: '' @ get_or m ''unknown error''\<rparr>
        | ServiceAnswer ok status reply \<Rightarrow>
            if \<not> ok \<or> \<not> truthy (oget (or_body reply) ''ok'')
            then c\<lparr>cv_status := ''Reset failed: '' @ http_failure status (or_body reply)\<rparr>
            else c\<lparr>cv_store := apply_reply_state now (or_state reply) (cv_store c),
                   cv_status := (if truthy (oget (or_body reply) ''fillsCleared'')
                     then ''SIM workspace reset; fills cleared'' else ''Runtime reset'')\<rparr>,
        Some (reset_request (ts_simulationEnabled (cv_store c))), None))"

definition lockWorkspace :: "canvas \<Rightarrow> canvas \<times> desk_output" where
  "lockWorkspace c = (c\<lparr>cv_menuOpen := False, cv_status := ''Workspace locked''\<rparr>, None,
     Some ''Workspace locked. Orders and services remain active.'')"

text \<open>A logout that the server refuses or that fails is a logout all the same.\<close>

definition logoutWorkspace :: "canvas \<Rightarrow> canvas \<times> desk_output" where
  "logoutWorkspace c = (c\<lparr>cv_menuOpen := False, cv_status := ''Logged out''\<rparr>, Some (''/api/auth/logout'', []),
     Some ''Logged out. Log in to relaunch the workspace.'')"

definition shutdown_message :: "terminal_state \<Rightarrow> string" where
  "shutdown_message s = ''Shutdown Cerious services?'' @ order_warning ''.'' s
     @ '' Shutdown does not cancel working orders. Use CXL ALL or KILL ALL separately if you want to cancel orders first.''"

definition shutdownSystem :: "bool \<Rightarrow> jobj service_answer \<Rightarrow> canvas \<Rightarrow> canvas \<times> desk_output" where
  "shutdownSystem accepted a c =
     (let c1 = c\<lparr>cv_menuOpen := False\<rparr>;
          request = Some (''/api/system/shutdown'', [(''reason'', Str ''toolbar shutdown''), (''confirm'', Str ''SHUTDOWN_CERIOUS'')])
      in if \<not> accepted then (c1, None, None)
         else case a of
           RequestFailed m \<Rightarrow> (c1\<lparr>cv_status := ''Shutdown failed: '' @ get_or m ''unknown error''\<rparr>, request, None)
         | ServiceAnswer ok status body \<Rightarrow>
             if \<not> ok \<or> \<not> truthy (oget body ''ok'')
             then (c1\<lparr>cv_status := ''Shutdown failed: '' @ http_failure status body\<rparr>, request, None)
             else (c1\<lparr>cv_status := ''Shutdown requested''\<rparr>, request,
                   Some ''Cerious shutdown requested. Open http://127.0.0.1:8000/ when ready.''))"

subsection \<open>Runs\<close>

text \<open>What happens to a canvas, with the time. Other windows write their own keys of the storage.\<close>

datatype canvas_event =
    CanvasFrame frame_event
  | CanvasNamed string
  | CanvasRows "jobj list"
  | CanvasAlerts "alert_rule list"
  | CanvasProduct string string
  | CanvasLoaded string
  | CanvasDepthDefault string depth_ladder_settings
  | CanvasElsewhere string cell
  | CanvasSaved string "answer option"
  | CanvasRecovered bool "saved_workspace list" "saved_workspace list"
  | CanvasReset bool "order_reply service_answer"
  | CanvasLocked
  | CanvasLoggedOut
  | CanvasShutdown bool "jobj service_answer"
  | CanvasStatusFades

fun canvas_step :: "(string \<Rightarrow> string \<Rightarrow> int) \<Rightarrow> jsnum \<Rightarrow> canvas_event \<Rightarrow> canvas \<Rightarrow> canvas" where
  "canvas_step lc now (CanvasFrame e) c = write_desk lc now (c\<lparr>cv_frames := frame_step e (cv_frames c)\<rparr>)"
| "canvas_step lc now (CanvasNamed name) c = write_desk lc now (c\<lparr>cv_name := name\<rparr>)"
| "canvas_step lc now (CanvasRows rows) c = write_desk lc now (c\<lparr>cv_rows := rows\<rparr>)"
| "canvas_step lc now (CanvasAlerts alerts) c = write_desk lc now (c\<lparr>cv_alerts := alerts\<rparr>)"
| "canvas_step lc now (CanvasProduct provider symbol) c = write_desk lc now (selectProduct provider symbol c)"
| "canvas_step lc now (CanvasLoaded value) c = handleLoadWorkspace lc now value c"
| "canvas_step lc now (CanvasDepthDefault i settings) c = write_desk lc now (saveDepthLadderDefaultForWindow i settings c)"
| "canvas_step lc now (CanvasElsewhere k v) c = c\<lparr>cv_storage := dict_set k v (cv_storage c)\<rparr>"
| "canvas_step lc now (CanvasSaved token a) c = fst (saveWorkspace lc now token a c)"
| "canvas_step lc now (CanvasRecovered cancelled recovered serverSaved) c =
     restoreRecoveredWorkspace lc now cancelled recovered serverSaved c"
| "canvas_step lc now (CanvasReset accepted a) c = fst (resetServerTradingSession now accepted a c)"
| "canvas_step lc now CanvasLocked c = fst (lockWorkspace c)"
| "canvas_step lc now CanvasLoggedOut c = fst (logoutWorkspace c)"
| "canvas_step lc now (CanvasShutdown accepted a) c = fst (shutdownSystem accepted a c)"
| "canvas_step lc now CanvasStatusFades c = c\<lparr>cv_status := []\<rparr>"

definition canvas_run ::
    "(string \<Rightarrow> string \<Rightarrow> int) \<Rightarrow> (jsnum \<times> canvas_event) list \<Rightarrow> canvas \<Rightarrow> canvas" where
  "canvas_run lc events = fold (\<lambda>(now, e). canvas_step lc now e) events"

subsection \<open>A saved desk is mounted again\<close>

text \<open>Events that neither save nor recover a desk, and that leave the default desk to the canvas.\<close>

definition leaves_default :: "canvas_event \<Rightarrow> bool" where
  "leaves_default e = (case e of
     CanvasSaved token a \<Rightarrow> False
   | CanvasRecovered cancelled recovered serverSaved \<Rightarrow> False
   | CanvasElsewhere k v \<Rightarrow> k \<noteq> default_workspace_key
   | _ \<Rightarrow> True)"

lemma desk_keys: "storage_key \<noteq> default_workspace_key" "workspace_names_key \<noteq> default_workspace_key"
    "algo_manager_state_key \<noteq> default_workspace_key" "depth_ladder_layout_key \<noteq> default_workspace_key"
    "workspace_backups_key \<noteq> default_workspace_key"
  by (simp_all add: storage_key_def workspace_names_key_def default_workspace_key_def algo_manager_state_key_def
      depth_ladder_layout_key_def workspace_backups_key_def)

abbreviation default_cell :: "canvas \<Rightarrow> cell" where
  "default_cell c \<equiv> get_item (cv_storage c) default_workspace_key"

lemma default_kept [simp]:
  "default_cell (write_desk lc now c) = default_cell c" "default_cell (write_names c) = default_cell c"
  "default_cell (show_provider p c) = default_cell c" "default_cell (show_symbol v c) = default_cell c"
  "default_cell (show_workspace now w c) = default_cell c"
  using desk_keys by (simp_all add: write_desk_def write_names_def show_provider_def show_symbol_def show_workspace_def
      applyWorkspaceAlgoSnapshot_def saveAlgoManagerWorkspaceState_def Let_def split: option.split)

lemma load_keeps_default: "default_cell (loadWorkspace lc now operator name c) = default_cell c"
proof -
  have "get_item (set_json storage_key v st) default_workspace_key = get_item st default_workspace_key" for v st
    using desk_keys by simp
  then show ?thesis
    by (simp add: loadWorkspace_def Let_def write_desk_def split: option.split sum.split)
qed

lemma step_keeps_default: "leaves_default e \<Longrightarrow> default_cell (canvas_step lc now e c) = default_cell c"
proof (cases e)
  case (CanvasDepthDefault i settings)
  then show ?thesis
    using desk_keys by (simp add: saveDepthLadderDefaultForWindow_def saveDepthLadderDefaultSettings_def Let_def)
next
  case (CanvasElsewhere k v)
  then show "leaves_default e \<Longrightarrow> ?thesis" by (simp add: leaves_default_def get_item_def dict_get_set)
next
  case (CanvasReset accepted a)
  then show ?thesis by (simp add: resetServerTradingSession_def split: service_answer.split)
next
  case (CanvasShutdown accepted a)
  then show ?thesis by (simp add: shutdownSystem_def Let_def split: service_answer.split)
qed (simp_all add: leaves_default_def selectProduct_def handleLoadWorkspace_def load_keeps_default lockWorkspace_def
    logoutWorkspace_def show_provider_def split: option.split)

lemma run_keeps_default: "list_all (\<lambda>(now, e). leaves_default e) events \<Longrightarrow> default_cell (canvas_run lc events c) = default_cell c"
  by (induction events arbitrary: c) (auto simp: canvas_run_def step_keeps_default)

lemma saved_default:
  "default_cell (fst (saveWorkspace lc now token a c))
     = Json (json_norm (workspace_obj (canvas_payload lc now ''Untitled Workspace'' c)))"
  using desk_keys
  by (simp add: saveWorkspace_def persistWorkspaceSnapshot_def backupWorkspace_def Let_def del: json_norm.simps)

lemma saved_names:
  "cv_name (fst (saveWorkspace lc now token a c)) = sw_name (canvas_payload lc now ''Untitled Workspace'' c)"
  "cv_operator (fst (saveWorkspace lc now token a c)) = sw_operator (canvas_payload lc now ''Untitled Workspace'' c)"
  "cv_windows (fst (saveWorkspace lc now token a c)) = cv_windows c"
  by (simp_all add: saveWorkspace_def Let_def write_desk_def write_names_def canvas_payload_def)

lemma mount_from_default:
  assumes "get_item st default_workspace_key = Json v" "normalizeWorkspace lc now v = Inr (Some w)"
  shows "cv_name (mount_canvas lc now st store) = sw_name w" "cv_operator (mount_canvas lc now st store) = sw_operator w"
    "cv_windows (mount_canvas lc now st store) = sw_windows w" "cv_rows (mount_canvas lc now st store) = sw_rows w"
    "cv_alerts (mount_canvas lc now st store) = get_or (sw_alerts w) []"
    "cv_provider (mount_canvas lc now st store) = normalizeProviderKey (opt_str (sw_selectedProvider w))"
    "cv_symbol (mount_canvas lc now st store) = coalesce (sw_selectedSymbol w) (Str ''ES'')"
proof -
  have "loadActiveWorkspace lc now st = Some w"
    using assms by (simp add: loadActiveWorkspace_def loadDefaultWorkspace_def load_workspace_at_def caught_def)
  moreover have "default_cell (mount_state lc now st store) = Json v"
    using assms(1) desk_keys calculation
    by (simp add: mount_state_def applyWorkspaceAlgoSnapshot_def saveAlgoManagerWorkspaceState_def Let_def split: option.split)
  ultimately show "cv_name (mount_canvas lc now st store) = sw_name w" "cv_operator (mount_canvas lc now st store) = sw_operator w"
      "cv_windows (mount_canvas lc now st store) = sw_windows w" "cv_rows (mount_canvas lc now st store) = sw_rows w"
      "cv_alerts (mount_canvas lc now st store) = get_or (sw_alerts w) []"
      "cv_provider (mount_canvas lc now st store) = normalizeProviderKey (opt_str (sw_selectedProvider w))"
      "cv_symbol (mount_canvas lc now st store) = coalesce (sw_selectedSymbol w) (Str ''ES'')"
    by (simp_all add: mount_canvas_def seed_default_def mount_state_def write_desk_def write_names_def Let_def)
qed

lemma saved_rest:
  "cv_rows (fst (saveWorkspace lc now token a c)) = cv_rows c" "cv_alerts (fst (saveWorkspace lc now token a c)) = cv_alerts c"
  "cv_provider (fst (saveWorkspace lc now token a c)) = cv_provider c" "cv_symbol (fst (saveWorkspace lc now token a c)) = cv_symbol c"
  by (simp_all add: saveWorkspace_def Let_def write_desk_def write_names_def)

text \<open>What a stored value is when it is read back, and the fields of an object that are kept so.\<close>

definition read_back :: "jsv \<Rightarrow> jsv" where
  "read_back v = (if v = Undefined then Undefined else json_norm v)"

definition kept_but :: "string list \<Rightarrow> jobj \<Rightarrow> jobj \<Rightarrow> bool" where
  "kept_but ks d e \<longleftrightarrow> (\<forall>k. k \<notin> set ks \<longrightarrow> oget e k = read_back (oget d k))"

text \<open>A window and a row that come back: the same fields, among them place, size and order, with the provider and
  the state on the desktop in their normal form, and the settings of a depth ladder as well.\<close>

definition same_window :: "jobj \<Rightarrow> jobj \<Rightarrow> bool" where
  "same_window d e \<longleftrightarrow>
     (let ladder = (oget d ''kind'' = Str ''depthLadder'' \<and> truthy (read_back (oget d ''depthLadderSettings''))) in
      kept_but ([''provider'', ''desktopState''] @ (if ladder then [''depthLadderSettings''] else [])) d e
      \<and> oget e ''provider'' = Str (normalizeProviderKey (read_back (oget d ''provider'')))
      \<and> oget e ''desktopState'' = Str (normalizeDesktopWindowState (coalesce (read_back (oget d ''desktopState''))
          (Str (if truthy (read_back (oget d ''collapsed'')) then ''minimized'' else ''normal''))))
      \<and> (ladder \<longrightarrow> oget e ''depthLadderSettings'' =
          depth_settings_obj (normalizeDepthLadderSettings (read_back (oget d ''depthLadderSettings'')))))"

definition same_row :: "jobj \<Rightarrow> jobj \<Rightarrow> bool" where
  "same_row d e \<longleftrightarrow> kept_but [''provider''] d e \<and> oget e ''provider'' = Str (normalizeProviderKey (read_back (oget d ''provider'')))"

lemma entries_read_back: "dict_wf d \<Longrightarrow> oget (spread_entries (json_norm (Obj d))) k = read_back (oget d k)"
    "dict_wf d \<Longrightarrow> jget (json_norm (Obj d)) k = read_back (oget d k)"
  using jget_json_norm [of d k] by (simp_all add: dict_wf_def read_back_def spread_entries_def jget_def)

lemma window_back: "live_window d \<Longrightarrow> same_window d (normalize_window (json_norm (Obj d)))"
proof -
  assume live: "live_window d"
  then have wf: "dict_wf d" by (simp add: live_window_def)
  obtain k where k: "oget d ''kind'' = Str k" using live by (auto simp: live_window_def is_str_def split: jsv.splits)
  have "is_lit (jget (json_norm (Obj d)) ''kind'') ''depthLadder'' \<longleftrightarrow> oget d ''kind'' = Str ''depthLadder''"
    unfolding entries_read_back(2) [OF wf] by (simp add: k read_back_def is_lit_def)
  then show ?thesis
    by (simp add: same_window_def normalize_window_def kept_but_def entries_read_back [OF wf] Let_def del: json_norm.simps)
qed

lemma mounted_row_back: "dict_wf d \<Longrightarrow> same_row d (normalize_row (json_norm (Obj d)))"
  by (simp add: same_row_def normalize_row_def kept_but_def entries_read_back del: json_norm.simps)

text \<open>An alert rule that JSON keeps.\<close>

definition alert_storable :: "alert_rule \<Rightarrow> bool" where
  "alert_storable r \<longleftrightarrow> alert_rule_ok r \<and> ar_id r \<noteq> [] \<and> ar_value r \<noteq> NegZero
     \<and> (json_norm (ar_symbol r) = ar_symbol r \<or> ar_symbol r = Undefined)"

lemma alerts_back: "list_all alert_storable rules \<Longrightarrow>
    List.map_filter (\<lambda>(i, r). normalizeAlertRule now r i) (enumerate n (map (\<lambda>r. json_norm (alert_rule_obj r)) rules)) = rules"
  by (induction rules arbitrary: n) (simp_all add: alert_storable_def alert_rule_back)

lemma workspace_fields:
  assumes "sw_alerts w = Some alerts" "sw_selectedProvider w = Some p"
  shows "jget (json_norm (workspace_obj w)) ''alerts'' = Arr (map (\<lambda>r. json_norm (alert_rule_obj r)) alerts)"
    "jget (json_norm (workspace_obj w)) ''selectedProvider'' = Str p"
    "jget (json_norm (workspace_obj w)) ''selectedSymbol'' = read_back (sw_selectedSymbol w)"
  unfolding workspace_obj_def
  by (subst jget_json_norm; simp add: assms opt_arr_def opt_str_def comp_def read_back_def)+

lemma desk_back:
  assumes "sw_name w \<noteq> []" "sw_operator w \<noteq> []" "list_all live_window (sw_windows w)" "list_all dict_wf (sw_rows w)"
    and "sw_alerts w = Some alerts" "list_all alert_storable alerts" "sw_selectedProvider w = Some p"
  shows "\<exists>w'. normalizeWorkspace lc now (json_norm (workspace_obj w)) = Inr (Some w')
    \<and> sw_name w' = sw_name w \<and> sw_operator w' = sw_operator w \<and> list_all2 same_window (sw_windows w) (sw_windows w')
    \<and> list_all2 same_row (sw_rows w) (sw_rows w') \<and> sw_alerts w' = Some alerts
    \<and> sw_selectedProvider w' = Some (normalizeProviderKey (Str p)) \<and> sw_selectedSymbol w' = read_back (sw_selectedSymbol w)"
proof -
  have nn: "\<not> nullish (json_norm (Obj d))" for d by simp
  have keep: "filter (\<lambda>item. \<not> isRemovedWindowKind (jget item ''kind'')) (map (\<lambda>d. json_norm (Obj d)) (sw_windows w)) =
      map (\<lambda>d. json_norm (Obj d)) (sw_windows w)"
    using assms(3) live_window_read(2) by (auto simp: filter_id_conv live_window_def list_all_iff simp del: json_norm.simps)
  have windows: "list_all2 same_window (sw_windows w) (map normalize_window (map (\<lambda>d. json_norm (Obj d)) (sw_windows w)))"
    using assms(3) window_back by (auto simp: list_all2_conv_all_nth list_all_length simp del: json_norm.simps)
  have rows: "list_all2 same_row (sw_rows w) (map normalize_row (map (\<lambda>d. json_norm (Obj d)) (sw_rows w)))"
    using assms(4) mounted_row_back by (auto simp: list_all2_conv_all_nth list_all_length simp del: json_norm.simps)
  have alerts: "normalize_alerts now (Arr (map (\<lambda>r. json_norm (alert_rule_obj r)) alerts)) = alerts"
    using alerts_back [OF assms(6)] by (simp add: normalize_alerts_def as_list_def)
  show ?thesis
    using assms(1,2) keep nn windows rows alerts
    by (simp add: normalizeWorkspace_def workspace_read workspace_fields [OF assms(5,7)] workspace_truthy is_array_def as_list_def
        js_or_text list_ex_iff Let_def del: json_norm.simps)
qed

text \<open>C6. After a save the canvas is mounted with the desk as it was saved: its name, operator, provider and symbol,
  its windows with their places, sizes and settings, its rows and its alert rules, each as JSON keeps it and with
  providers and ladder settings in normal form. That is so whatever happens before it is mounted again short of
  another save, a recovery or another program part's write of the default desk: moves of windows, a rename and even
  the loading of another desk are not seen again. The windows that are saved have texts for id and kind, none of a
  kind that was removed, and the alert rules are ones that the window of alerts leaves.\<close>

theorem saved_desk_mounts:
  assumes "list_all live_window (cv_windows c)" "list_all dict_wf (cv_rows c)" "list_all alert_storable (cv_alerts c)"
    and "list_all (\<lambda>(t, e). leaves_default e) events"
  shows "let c1 = fst (saveWorkspace lc now token a c);
             c2 = mount_canvas lc later (cv_storage (canvas_run lc events c1)) store
    in cv_name c2 = cv_name c1 \<and> cv_operator c2 = cv_operator c1
       \<and> list_all2 same_window (cv_windows c1) (cv_windows c2) \<and> list_all2 same_row (cv_rows c1) (cv_rows c2)
       \<and> cv_alerts c2 = cv_alerts c1 \<and> cv_provider c2 = normalizeProviderKey (Str (cv_provider c1))
       \<and> cv_symbol c2 = coalesce (read_back (cv_symbol c1)) (Str ''ES'')"
proof -
  let ?w = "canvas_payload lc now ''Untitled Workspace'' c"
  have "sw_name ?w \<noteq> []" "sw_operator ?w \<noteq> []" "list_all live_window (sw_windows ?w)" "list_all dict_wf (sw_rows ?w)"
      "sw_alerts ?w = Some (cv_alerts c)" "list_all alert_storable (cv_alerts c)" "sw_selectedProvider ?w = Some (cv_provider c)"
    using assms(1-3) by (simp_all add: canvas_payload_def trim_or_def default_operator_def)
  from desk_back [OF this, of lc later] obtain w where w:
      "normalizeWorkspace lc later (json_norm (workspace_obj ?w)) = Inr (Some w)" "sw_name w = sw_name ?w" "sw_operator w = sw_operator ?w"
      "list_all2 same_window (cv_windows c) (sw_windows w)" "list_all2 same_row (cv_rows c) (sw_rows w)" "sw_alerts w = Some (cv_alerts c)"
      "sw_selectedProvider w = Some (normalizeProviderKey (Str (cv_provider c)))" "sw_selectedSymbol w = read_back (cv_symbol c)"
    by (auto simp: canvas_payload_def)
  have "default_cell (canvas_run lc events (fst (saveWorkspace lc now token a c))) = Json (json_norm (workspace_obj ?w))"
    using run_keeps_default [OF assms(4)] saved_default by simp
  note m = mount_from_default [OF this w(1)]
  show ?thesis using w m by (simp add: Let_def saved_names saved_rest get_or_def provider_always)
qed

definition desk_canvas :: canvas where
  "desk_canvas = (mount_state code_compare (Fin 1) [] initial_state)
     \<lparr>cv_name := ''Desk'', cv_frames := \<lparr>fm_windows = sw_windows (sample_desk ''Desk'' (Fin 6)), fm_grip = None\<rparr>\<rparr>"

lemma saved_desk_mounts_witness:
  "cv_name (mount_canvas code_compare (Fin 9) (cv_storage (canvas_run code_compare
      [(Fin 6, CanvasNamed ''Other''), (Fin 7, CanvasFrame (FrameClosed ''charts'')), (Fin 8, CanvasElsewhere ''k'' (Json Null))]
      (fst (saveWorkspace code_compare (Fin 5) ''t'' None desk_canvas)))) initial_state)
    = ''Desk''"
proof -
  have "list_all live_window (cv_windows desk_canvas)"
    unfolding desk_canvas_def canvas.simps frames.simps by code_simp
  moreover have "cv_rows desk_canvas = []" "cv_alerts desk_canvas = []"
    unfolding desk_canvas_def by (simp_all add: mount_state_def loadActiveWorkspace_def loadDefaultWorkspace_def load_workspace_at_def
      caught_def get_item_def Let_def)
  moreover have "list_all (\<lambda>(t, e). leaves_default e)
      [(Fin 6, CanvasNamed ''Other''), (Fin 7, CanvasFrame (FrameClosed ''charts'')), (Fin 8, CanvasElsewhere ''k'' (Json Null))]"
    by (simp add: leaves_default_def default_workspace_key_def)
  ultimately show ?thesis
    using saved_desk_mounts [where lc = code_compare and later = "Fin 9" and token = "''t''" and a = None and store = initial_state]
    by (simp add: Let_def saved_names(1)) (simp add: canvas_payload_def trim_or_def desk_canvas_def trim_def is_space_def)
qed

subsection \<open>What the recovery does to the desk of the operator\<close>

text \<open>C36. A desk ''Ted S'' that the server holds with a later time than the desk the canvas was mounted with
  takes its place, whatever that desk is: it is shown, and it becomes the default that the next mount
  loads.\<close>

theorem recovery_replaces_desk:
  assumes "latest_ted_s recovered (newest_of (serverSaved @ recovered)) = Some t" "recovered \<noteq> [] \<or> serverSaved \<noteq> []"
    and "cv_mounted c = (operator, name, active)" "jlt active (sw_updatedAt t)"
  shows "let c1 = restoreRecoveredWorkspace lc now False recovered serverSaved c in
    cv_name c1 = sw_name t \<and> cv_operator c1 = sw_operator t \<and> cv_windows c1 = sw_windows t
    \<and> default_cell c1 = Json (json_norm (workspace_obj (t\<lparr>sw_updatedAt := now\<rparr>)))"
  using assms desk_keys
  by (auto simp: restoreRecoveredWorkspace_def Let_def write_desk_def show_symbol_def show_provider_def
      show_workspace_def write_names_def simp del: json_norm.simps)

lemma recovery_replaces_desk_witness:
  "cv_name (restoreRecoveredWorkspace code_compare (Fin 9) False []
     [(sample_desk ''Ted S'' (Fin 7))\<lparr>sw_operator := default_operator\<rparr>] (desk_canvas\<lparr>cv_mounted := (''Ann'', ''Desk'', Fin 6)\<rparr>)) = ''Ted S''"
proof -
  let ?t = "(sample_desk ''Ted S'' (Fin 7))\<lparr>sw_operator := default_operator\<rparr>"
  have "named_desk ''Ted S'' ?t" by (simp add: named_desk_def sample_desk_def key_of_def)
  then have "latest_ted_s [] (newest_of ([?t] @ [])) = Some ?t"
    by (simp add: latest_ted_s_def newest_of_def gather_def)
  moreover have "jlt (Fin 6) (sw_updatedAt ?t)" by code_simp
  ultimately show ?thesis
    using recovery_replaces_desk [of "[]" "[?t]" ?t, where c = "desk_canvas\<lparr>cv_mounted := (''Ann'', ''Desk'', Fin 6)\<rparr>" and active = "Fin 6"
      and lc = code_compare and now = "Fin 9" and operator = "''Ann''" and name = "''Desk''"]
    by (simp add: Let_def sample_desk_def)
qed

end
