(* ===== verification/DomBook.thy ===== *)
theory DomBook
  imports Execution
begin

text \<open>
  The ladder for yes and no prices of \<open>apps/terminal/src/components/OrderBook2.tsx\<close>: its settings, the sizes
  and rows of a book, the orders it shows and its handlers (click, submit, cancel, replace), with the
  entry requests they send and the limits they check before. A handler gives the new window, the store
  and what it puts out; the answers are steps of their own. Main results: what a row shows, when an entry
  is sent and within which limits, that those limits are never the configured ones, and that nothing is
  ever ordered while the simulation is on.
\<close>

subsection \<open>Settings\<close>

definition dom_settings_key :: string where
  "dom_settings_key = ''book2.dom.settings.v1''"

definition contract_sizes :: "jsnum list" where
  "contract_sizes = [Fin 1, Fin 5, Fin 10, Fin 25, Fin 50, Fin 100]"

definition account_views :: "string list" where
  "account_views = [''account'', ''position'', ''fills'']"

definition dom_defaults :: jobj where
  "dom_defaults =
     [(''scaleMode'', Str ''static''), (''sideView'', Str ''both''), (''stickMid'', Bool True), (''softGrid'', Bool True),
      (''actionMode'', Str ''limit''), (''look'', Str ''standard''), (''probabilityLook'', Str ''blue''),
      (''contractSize'', Num (Fin 10)), (''rowHeight'', Num (Fin 18)), (''fontSize'', Num (Fin 9)), (''fastTrade'', Bool False)]"

text \<open>Fields other than the three below are taken as they were stored.\<close>

definition read_dom_settings :: "jobj \<Rightarrow> jobj" where
  "read_dom_settings parsed =
     (let mode = oget parsed ''actionMode'';
          number = (\<lambda>k. to_num (coalesce (oget parsed k) (oget dom_defaults k)))
      in dict_set ''fontSize'' (Num (clamp (number ''fontSize'') (Fin 6) (Fin 18)))
        (dict_set ''rowHeight'' (Num (clamp (number ''rowHeight'') (Fin 10) (Fin 36)))
        (dict_set ''actionMode'' (Str (if mode = Str ''market'' \<or> mode = Str ''stop'' then ''market'' else ''limit''))
        (dict_set ''scaleMode'' (Str ''static'') (dict_spread dom_defaults parsed)))))"

definition loadDomSettings :: "storage \<Rightarrow> jobj" where
  "loadDomSettings st = (case get_item st dom_settings_key of
     Json v \<Rightarrow> if nullish v then dom_defaults else read_dom_settings (as_obj v)
   | _ \<Rightarrow> dom_defaults)"

text \<open>The effect that stores the settings: these fields and no other.\<close>

definition dom_setting_names :: "string list" where
  "dom_setting_names = [''scaleMode'', ''sideView'', ''stickMid'', ''softGrid'', ''actionMode'', ''look'', ''probabilityLook'',
     ''contractSize'', ''rowHeight'', ''fontSize'', ''fastTrade'']"

definition store_dom_settings :: "jobj \<Rightarrow> storage \<Rightarrow> storage" where
  "store_dom_settings settings = set_json dom_settings_key (Obj (map (\<lambda>k. (k, oget settings k)) dom_setting_names))"

text \<open>The token of the session is the text in its own cell, or empty.\<close>

definition dom_session_headers :: "string \<Rightarrow> string dict \<Rightarrow> string dict" where
  "dom_session_headers token init = (if token = [] then init
     else dict_set ''X-Cerious-Session'' token (dict_set ''Authorization'' (''Bearer '' @ token) init))"

subsection \<open>Sizes and rows\<close>

definition fmt :: "jsnum \<Rightarrow> string" where
  "fmt n = (if \<not> num_truthy n then []
     else if jle (Fin 1000) n then to_fixed 1 (jdiv n (Fin 1000)) @ ''k'' else to_fixed 0 n)"

definition price_cents :: "jsnum \<Rightarrow> jsnum" where
  "price_cents price = drop_sign (math_round (jmul price (Fin 100)))"

abbreviation cents_of :: "poly_book_level \<Rightarrow> jsnum" where
  "cents_of l \<equiv> price_cents (pl_price l)"

definition mapLevels :: "poly_book_level list \<Rightarrow> (jsnum \<times> jsnum) list" where
  "mapLevels levels = fold (gather cents_of (\<lambda>l. jadd (Fin 0) (pl_size l)) (\<lambda>l sz. jadd sz (pl_size l))) levels []"

definition depthWidth :: "jsnum \<Rightarrow> jsnum \<Rightarrow> string" where
  "depthWidth sz largest = (if jle sz (Fin 0) then ''0%''
     else num_text (math_max (Fin 10) (math_min (Fin 100) (jmul (jdiv sz largest) (Fin 100)))) @ ''%'')"

text \<open>The other outcome costs what is left to one.\<close>

definition other_side :: "poly_book_level \<Rightarrow> poly_book_level" where
  "other_side l = l\<lparr>pl_price := jsub (Fin 1) (pl_price l)\<rparr>"

record dom_row =
  dr_p :: jsnum
  dr_nP :: jsnum
  dr_yBid :: jsnum
  dr_yAsk :: jsnum
  dr_nBid :: jsnum
  dr_nAsk :: jsnum
  dr_mid :: bool

definition price_range :: "jsnum list" where
  "price_range = map (\<lambda>i. num_of_int (99 - int i)) [0..<99]"

definition dom_row_of :: "poly_book \<Rightarrow> jsnum \<Rightarrow> dom_row" where
  "dom_row_of book p =
     (let sz = (\<lambda>levels. get_or (map_of (mapLevels levels) p) (Fin 0));
          yesMid = math_round (jmul (pb_mid book) (Fin 100)); noMid = jsub (Fin 100) yesMid
      in \<lparr>dr_p = p, dr_nP = p, dr_yBid = sz (pb_bids book), dr_yAsk = sz (pb_asks book),
          dr_nBid = sz (map other_side (pb_asks book)), dr_nAsk = sz (map other_side (pb_bids book)),
          dr_mid = (jeq p yesMid \<or> jeq p noMid)\<rparr>)"

definition dom_rows :: "poly_book option \<Rightarrow> dom_row list" where
  "dom_rows book = (case book of None \<Rightarrow> [] | Some b \<Rightarrow> map (dom_row_of b) price_range)"

definition empty_row :: "jsnum \<Rightarrow> dom_row" where
  "empty_row p = \<lparr>dr_p = p, dr_nP = p, dr_yBid = Fin 0, dr_yAsk = Fin 0, dr_nBid = Fin 0, dr_nAsk = Fin 0,
     dr_mid = jeq p (Fin 50)\<rparr>"

definition displayRows :: "poly_book option \<Rightarrow> dom_row list" where
  "displayRows book = (if dom_rows book \<noteq> [] then dom_rows book else map empty_row price_range)"

definition largest_size :: "(dom_row \<Rightarrow> jsnum) \<Rightarrow> (dom_row \<Rightarrow> jsnum) \<Rightarrow> dom_row list \<Rightarrow> jsnum" where
  "largest_size bid ask rows = math_max_list (Fin 1 # map (\<lambda>r. math_max (bid r) (ask r)) rows)"

definition yes_center :: "poly_book option \<Rightarrow> jsnum" where
  "yes_center book = (case book of None \<Rightarrow> Fin 50 | Some b \<Rightarrow> math_round (jmul (pb_mid b) (Fin 100)))"

text \<open>Where the list of an outcome is scrolled to, for the height in view, if it has one.\<close>

definition recenterDom :: "bool \<Rightarrow> poly_book option \<Rightarrow> jsnum \<Rightarrow> jsnum option \<Rightarrow> jsnum option" where
  "recenterDom yes book rowHeight height =
     (let target = (if yes then yes_center book else jsub (Fin 100) (yes_center book));
          viewport = get_or height (jmul rowHeight (Fin 25))
      in map_option (\<lambda>i. math_max (Fin 0) (jadd (jsub (jmul (num_of_int (int i)) rowHeight) (jdiv viewport (Fin 2))) (jdiv rowHeight (Fin 2))))
           (find_index (\<lambda>r. jeq (if yes then dr_p r else dr_nP r) target) (displayRows book)))"

text \<open>The cells that changed since the last rows, and the sizes remembered for the next.\<close>

definition row_cells :: "dom_row \<Rightarrow> (string \<times> jsnum) list" where
  "row_cells r = (let p = num_text (dr_p r) in
     [(p @ '':yb'', dr_yBid r), (p @ '':ya'', dr_yAsk r), (p @ '':nb'', dr_nBid r), (p @ '':na'', dr_nAsk r)])"

definition flash_cell :: "string \<times> jsnum \<Rightarrow> jsnum dict \<times> bool dict \<Rightarrow> jsnum dict \<times> bool dict" where
  "flash_cell kv pn =
     (let prev = get_or (dict_get (fst pn) (fst kv)) (Fin 0) in
      (dict_set (fst kv) (snd kv) (fst pn),
       if jeq (snd kv) prev then snd pn else dict_set (fst kv) (jlt prev (snd kv)) (snd pn)))"

definition flash_changes :: "dom_row list \<Rightarrow> jsnum dict \<Rightarrow> jsnum dict \<times> bool dict" where
  "flash_changes rows prev = fold flash_cell (concat (map row_cells rows)) (prev, [])"

subsection \<open>The market and its book\<close>

record rest_market =
  rk_key :: string
  rk_live :: bool
  rk_timeframe :: string

definition read_rest_markets :: "jobj \<Rightarrow> rest_market list" where
  "read_rest_markets d = map (\<lambda>m.
     \<lparr>rk_key = to_str (coalesce (jget m ''key'') (Str [])), rk_live = (jget m ''live'' = Bool True),
      rk_timeframe = to_str (coalesce (jget m ''timeframe'') (Str []))\<rparr>) (as_list (oget d ''markets''))"

definition fallbackKey :: "market_info list \<Rightarrow> rest_market list \<Rightarrow> string option" where
  "fallbackKey markets rest =
     or_else (Option.bind (find (\<lambda>m. mk_live m \<and> mk_timeframe m \<noteq> ''event'') markets) (\<lambda>m. truthy_text (Some (mk_key m))))
       (map_option rk_key (find (\<lambda>m. rk_live m \<and> rk_timeframe m \<noteq> ''event'') rest))"

definition dom_key :: "string option \<Rightarrow> terminal_state \<Rightarrow> rest_market list \<Rightarrow> string option" where
  "dom_key forced s rest = first_some [forced, ts_activeMarketKey s, fallbackKey (ts_markets s) rest]"

text \<open>The effects: the provider is set to the one of the ladder, and a key is chosen when there is none.\<close>

definition dom_provider :: "terminal_state \<Rightarrow> terminal_state" where
  "dom_provider s = (if ts_marketProvider s \<noteq> ''polymarket'' then setMarketProvider ''polymarket'' s else s)"

definition choose_fallback :: "string option \<Rightarrow> rest_market list \<Rightarrow> terminal_state \<Rightarrow> terminal_state" where
  "choose_fallback forced rest s =
     (if truthy_text forced \<noteq> None \<or> truthy_text (first_some [forced, ts_activeMarketKey s]) \<noteq> None then s
      else case truthy_text (fallbackKey (ts_markets s) rest) of None \<Rightarrow> s | Some k \<Rightarrow> setActiveMarketKey (Some k) s)"

definition shown_book :: "poly_book option \<Rightarrow> poly_book option \<Rightarrow> poly_book option" where
  "shown_book ws rest = (case (ws, rest) of
     (None, r) \<Rightarrow> r | (w, None) \<Rightarrow> w
   | (Some w, Some r) \<Rightarrow> if jle (get_or (pb_seen_ms r) (pb_timestamp_ms r)) (get_or (pb_seen_ms w) (pb_timestamp_ms w)) then Some w else Some r)"

definition book_pulled ::
    "string \<Rightarrow> bool \<Rightarrow> poly_book service_answer \<Rightarrow> poly_book option \<times> terminal_state \<Rightarrow> poly_book option \<times> terminal_state" where
  "book_pulled key dead a rs = (case a of
     ServiceAnswer ok status d \<Rightarrow> if \<not> ok \<or> dead then rs else (Some d, setPolyBook key d (snd rs))
   | RequestFailed m \<Rightarrow> rs)"

definition fresh_label :: "jsnum \<Rightarrow> string option \<Rightarrow> poly_book option \<Rightarrow> string" where
  "fresh_label now key book = (case (truthy_text key, book) of
     (None, _) \<Rightarrow> ''NO FEED'' | (_, None) \<Rightarrow> ''LOADING''
   | (_, Some b) \<Rightarrow> (let age = jsub now (get_or (pb_seen_ms b) (pb_timestamp_ms b)) in
       if jlt age (Fin 12000) then ''FRESH'' else if jlt age (Fin 25000) then ''AGING'' else ''STALE''))"

subsection \<open>What the rows show\<close>

lemma map_levels_sum: "get_or (map_of (mapLevels levels) k) (Fin 0) = sum_of pl_size (filter (\<lambda>l. cents_of l = k) levels)"
  by (simp add: mapLevels_def gathered_get get_or_def sum_of_def split: list.splits)

text \<open>The prices of the ladder, and the price of a level of whole cents as a number of the language.\<close>

definition cents_price :: "int \<Rightarrow> jsnum" where
  "cents_price k = rnd False (rat_of_int k / 100)"

lemma within: "\<bar>a - b\<bar> \<le> (e :: rat) \<longleftrightarrow> a \<le> b + e \<and> b - e \<le> a"
  by (auto simp: abs_le_iff)

lemma cents_price_close:
  assumes "1 \<le> k" "k \<le> 99"
  shows "\<exists>x. cents_price k = Fin x \<and> \<bar>x - of_int k / 100\<bar> \<le> 1 / 2 ^ 26"
proof -
  have "(1 :: rat) \<le> of_int k" "(of_int k :: rat) \<le> 99" using assms by (simp_all only: of_int_1_le_iff of_int_le_numeral_iff)
  then show ?thesis unfolding cents_price_def by (intro rnd_close) auto
qed

lemma price_cents_close:
  assumes "1 \<le> k" "k \<le> 99" and "\<bar>x - of_int k / 100\<bar> \<le> 1 / 2 ^ 25"
  shows "price_cents (Fin x) = num_of_int k"
proof -
  have k: "(1 :: rat) \<le> of_int k" "(of_int k :: rat) \<le> 99" using assms by (simp_all only: of_int_1_le_iff of_int_le_numeral_iff)
  have x: "x \<le> of_int k / 100 + 1 / 2 ^ 25" "of_int k / 100 - 1 / 2 ^ 25 \<le> x" using assms(3) by (simp_all only: within)
  have "1 / 1000 \<le> x * 100" "x * 100 < 2 ^ 28" using x k by simp_all
  from rnd_close [OF this, of False] obtain y where y: "rnd False (x * 100) = Fin y" "\<bar>y - x * 100\<bar> \<le> 1 / 2 ^ 26" by blast
  have "\<lfloor>y + 1 / 2\<rfloor> = k"
    using x y(2) unfolding within by (intro floor_unique) simp_all
  moreover have "\<not> neg_sign (Fin x)" using x k by simp
  ultimately show ?thesis
    using y(1) assms(1) by (simp add: price_cents_def jmul_def num_of_int_def drop_sign_def)
qed

lemma whole_cents:
  assumes "1 \<le> k" "k \<le> 99"
  shows "price_cents (cents_price k) = num_of_int k" "price_cents (jsub (Fin 1) (cents_price k)) = num_of_int (100 - k)"
proof -
  obtain x where x: "cents_price k = Fin x" "\<bar>x - of_int k / 100\<bar> \<le> 1 / 2 ^ 26" using cents_price_close [OF assms] by blast
  then show "price_cents (cents_price k) = num_of_int k" using price_cents_close [OF assms, of x] by simp
  have k: "(1 :: rat) \<le> of_int k" "(of_int k :: rat) \<le> 99" using assms by (simp_all only: of_int_1_le_iff of_int_le_numeral_iff)
  have x': "x \<le> of_int k / 100 + 1 / 2 ^ 26" "of_int k / 100 - 1 / 2 ^ 26 \<le> x" using x(2) by (simp_all only: within)
  have "1 / 1000 \<le> 1 - x" "1 - x < 2 ^ 28" using x' k by simp_all
  from rnd_close [OF this, of False] obtain y where y: "rnd False (1 - x) = Fin y" "\<bar>y - (1 - x)\<bar> \<le> 1 / 2 ^ 26" by blast
  have "jsub (Fin 1) (Fin x) = Fin y" using y(1) by (simp add: jsub_finite)
  moreover have "\<bar>y - of_int (100 - k) / 100\<bar> \<le> 1 / 2 ^ 25" using x' y(2) unfolding within by (auto simp: field_simps)
  ultimately show "price_cents (jsub (Fin 1) (cents_price k)) = num_of_int (100 - k)"
    using price_cents_close [of "100 - k" y] assms x(1) by simp
qed

definition whole_price :: "poly_book_level \<Rightarrow> bool" where
  "whole_price l \<longleftrightarrow> list_ex (\<lambda>k. pl_price l = cents_price k) [1..99]"

lemma whole_price_cents:
  assumes "whole_price l" "1 \<le> n" "n \<le> 99"
  shows "price_cents (pl_price l) = num_of_int n \<longleftrightarrow> pl_price l = cents_price n"
    and "price_cents (pl_price (other_side l)) = num_of_int n \<longleftrightarrow> pl_price l = cents_price (100 - n)"
proof -
  have "\<exists>k\<in>{1..99}. pl_price l = cents_price k" using assms(1) by (simp only: whole_price_def list_ex_iff set_upto)
  then obtain k where "k \<in> {1..99}" "pl_price l = cents_price k" by (elim bexE)
  then have k: "1 \<le> k" "k \<le> 99" "pl_price l = cents_price k" by (simp_all only: atLeastAtMost_iff)
  have same: "cents_price k = cents_price m \<longleftrightarrow> k = m" if "1 \<le> m" "m \<le> 99" for m
  proof
    assume "cents_price k = cents_price m"
    then have "num_of_int k = num_of_int m" by (simp only: whole_cents(1) [OF k(1,2), symmetric] whole_cents(1) [OF that, symmetric])
    then show "k = m" by (simp add: num_of_int_def)
  qed simp
  show "price_cents (pl_price l) = num_of_int n \<longleftrightarrow> pl_price l = cents_price n"
    using whole_cents(1) [OF k(1,2)] same [OF assms(2,3)] k(3) by (simp add: num_of_int_def)
  have "cents_price k = cents_price (100 - n) \<longleftrightarrow> k = 100 - n" using same [of "100 - n"] assms(2,3) by simp
  then show "price_cents (pl_price (other_side l)) = num_of_int n \<longleftrightarrow> pl_price l = cents_price (100 - n)"
    using whole_cents(2) [OF k(1,2)] k(3) by (auto simp: other_side_def num_of_int_def)
qed

lemma sum_other_side: "sum_of pl_size (filter P (map other_side levels)) = sum_of pl_size (filter (P \<circ> other_side) levels)"
  by (simp add: sum_of_def filter_map fold_map comp_def other_side_def)

definition size_at :: "int \<Rightarrow> poly_book_level list \<Rightarrow> jsnum" where
  "size_at k levels = sum_of pl_size (filter (\<lambda>l. pl_price l = cents_price k) levels)"

text \<open>C23. The ladder has one row for each price from 99 to 1. For a book of whole cents a row adds up exactly
  the levels at its price, and for the other outcome exactly those at the price that is left to 100.\<close>

theorem dom_rows_add_up:
  assumes "list_all whole_price (pb_bids b)" "list_all whole_price (pb_asks b)" and "1 \<le> n" "n \<le> 99"
  shows "length (dom_rows (Some b)) = 99
    \<and> (let r = dom_rows (Some b) ! nat (99 - n) in
        dr_p r = num_of_int n \<and> dr_yBid r = size_at n (pb_bids b) \<and> dr_yAsk r = size_at n (pb_asks b)
        \<and> dr_nBid r = size_at (100 - n) (pb_asks b) \<and> dr_nAsk r = size_at (100 - n) (pb_bids b))"
proof -
  have "dom_rows (Some b) ! nat (99 - n) = dom_row_of b (num_of_int n)"
    using assms(3,4) by (simp add: dom_rows_def price_range_def del: upt_rec_numeral)
  moreover have "filter (\<lambda>l. cents_of l = num_of_int n) levels = filter (\<lambda>l. pl_price l = cents_price n) levels"
      "filter ((\<lambda>l. cents_of l = num_of_int n) \<circ> other_side) levels = filter (\<lambda>l. pl_price l = cents_price (100 - n)) levels"
    if "list_all whole_price levels" for levels
    using that whole_price_cents [OF _ assms(3,4)] by (auto simp: list_all_iff intro: filter_cong)
  ultimately show ?thesis
    using assms(1,2) by (simp add: dom_rows_def price_range_def dom_row_of_def map_levels_sum sum_other_side size_at_def Let_def
        del: upt_rec_numeral)
qed

definition sample_poly_level :: "int \<Rightarrow> rat \<Rightarrow> poly_book_level" where
  "sample_poly_level k q = \<lparr>pl_price = cents_price k, pl_size = Fin q, pl_count = None, pl_ct = None\<rparr>"

lemma whole_sample: "1 \<le> k \<Longrightarrow> k \<le> 99 \<Longrightarrow> whole_price (sample_poly_level k q)"
  by (simp only: whole_price_def list_ex_iff set_upto sample_poly_level_def poly_book_level.simps) (rule bexI [of _ k]; simp)

lemma dom_rows_add_up_witness:
  "let r = dom_rows (Some (sample_book\<lparr>pb_bids := [sample_poly_level 57 5], pb_asks := [sample_poly_level 57 3]\<rparr>)) ! 42 in
     dr_p r = Fin 57 \<and> dr_yBid r = Fin 5 \<and> dr_yAsk r = Fin 3"
proof -
  have "size_at 57 [sample_poly_level 57 q] = jadd (Fin 0) (Fin q)" for q
    by (simp add: size_at_def sum_of_def sample_poly_level_def)
  moreover have "jadd (Fin 0) (Fin 5) = Fin 5" "jadd (Fin 0) (Fin 3) = Fin 3" by code_simp+
  ultimately show ?thesis
    using dom_rows_add_up [of "sample_book\<lparr>pb_bids := [sample_poly_level 57 5], pb_asks := [sample_poly_level 57 3]\<rparr>" 57] whole_sample
    by (simp add: Let_def num_of_int_def)
qed

end
