(* ===== verification/DomOrders.thy ===== *)
theory DomOrders
  imports DomBook Workspaces
begin

text \<open>
  The orders of the ladder for yes and no prices in \<open>apps/terminal/src/components/OrderBook2.tsx\<close>: the
  ticket, the orders it shows, the limits, and its handlers. A handler gives the new window, the store and
  what it puts out, an alert or an entry request; answers are steps of their own. Main results: an entry
  is only sent within the limits and outside the simulation; the limits are always the built-in ones,
  whatever is configured; and in the simulation the ladder orders nothing and shows nothing of its own.
\<close>

subsection \<open>State\<close>

record order_intent =
  oi_outcome :: string
  oi_side :: string
  oi_orderType :: string
  oi_cents :: jsnum
  oi_contracts :: jsv

datatype dom_status = DomPending | DomWorking | DomRejected

record dom_order = order_intent +
  wo_id :: string
  wo_marketKey :: string
  wo_status :: dom_status
  wo_createdAt :: jsnum

record dom_window =
  db_settings :: jobj
  db_intent :: "order_intent option"
  db_orders :: "dom_order list"
  db_drag :: "dom_order option"
  db_accountView :: string
  db_showSettings :: bool

datatype dom_output = DomAlert string | DomEntry jobj

definition new_order :: "order_intent \<Rightarrow> string \<Rightarrow> string \<Rightarrow> dom_status \<Rightarrow> jsnum \<Rightarrow> dom_order" where
  "new_order intent i key status now = order_intent.extend intent
     (dom_order.fields i key status now)"

definition intent_of :: "dom_order \<Rightarrow> order_intent" where
  "intent_of o1 = order_intent.truncate o1"

definition working_id :: "string \<Rightarrow> string \<Rightarrow> string \<Rightarrow> string \<Rightarrow> jsnum \<Rightarrow> jsnum \<Rightarrow> string" where
  "working_id lead key outcome side cents now =
     join_with ''-'' [lead, key, outcome, side, num_text cents, num_text now]"

definition set_status :: "string \<Rightarrow> dom_status \<Rightarrow> dom_order list \<Rightarrow> dom_order list" where
  "set_status i status = map (\<lambda>o1. if wo_id o1 = i then o1\<lparr>wo_status := status\<rparr> else o1)"

definition sim_works :: "sim_order list \<Rightarrow> string \<Rightarrow> bool" where
  "sim_works simOrders i \<longleftrightarrow> (case find (\<lambda>o1. so_id o1 = i) simOrders of
     None \<Rightarrow> False | Some o1 \<Rightarrow> so_status o1 \<in> {''working'', ''partially_filled''})"

definition reconcileLocalSimOrder :: "string \<Rightarrow> terminal_state \<Rightarrow> dom_window \<Rightarrow> dom_window" where
  "reconcileLocalSimOrder i s w = w\<lparr>db_orders :=
     (if sim_works (ts_simOrders s) i then set_status i DomWorking (db_orders w)
      else filter (\<lambda>o1. wo_id o1 \<noteq> i) (db_orders w))\<rparr>"

subsection \<open>Limits\<close>

text \<open>\<open>+\<close> concatenates when one of its operands is not a number after conversion to a primitive.\<close>

definition js_plus :: "jsv \<Rightarrow> jsv \<Rightarrow> jsv" where
  "js_plus a b = (if is_str a \<or> is_array a \<or> is_object a \<or> is_str b \<or> is_array b \<or> is_object b
     then Str (to_str a @ to_str b) else Num (jadd (to_num a) (to_num b)))"

record dom_limits =
  dl_maxOrders :: jsv
  dl_maxYes :: jsv
  dl_maxNo :: jsv
  dl_forceDryRun :: jsv

definition dom_limits_of :: "cell \<Rightarrow> dom_limits js_result" where
  "dom_limits_of c =
     (let settings = (case c of Json v \<Rightarrow> v | _ \<Rightarrow> Obj []) in
      if nullish settings then Inl TypeError
      else Inr \<lparr>dl_maxOrders = coalesce (jget settings ''manualMaxOrders'') (Num (Fin 7)),
             dl_maxYes = coalesce (jget settings ''manualMaxYesDollar'') (Num (Fin 500)),
             dl_maxNo = coalesce (jget settings ''manualMaxNoDollar'') (Num (Fin 500)),
             dl_forceDryRun = jget settings ''forceDryRun''\<rparr>)"

definition exposure :: "string \<Rightarrow> position list \<Rightarrow> jsnum" where
  "exposure direction positions = sum_of ps_size (filter (\<lambda>p. ps_direction p = direction) positions)"

definition too_many_positions :: "dom_limits \<Rightarrow> position list \<Rightarrow> bool" where
  "too_many_positions l positions \<longleftrightarrow> jle (to_num (dl_maxOrders l)) (num_of_int (int (length positions)))"

definition over_exposed :: "dom_limits \<Rightarrow> position list \<Rightarrow> bool" where
  "over_exposed l positions \<longleftrightarrow>
     jlt (to_num (js_plus (dl_maxYes l) (dl_maxNo l))) (jadd (exposure ''UP'' positions) (exposure ''DOWN'' positions))"

definition entry_body :: "string \<Rightarrow> order_intent \<Rightarrow> jsnum \<Rightarrow> jobj" where
  "entry_body key intent now =
     (let asset = hd (split_on (CHR ''_'') key) in
      [(''market_id'', Str key), (''order_type'', Str (to_upper (oi_orderType intent))),
       (''size_usd'', Num (jmul (jmul (to_num (oi_contracts intent)) (jdiv (oi_cents intent) (Fin 100))) (Fin 100))),
       (''stop_loss_pct'', Num (rnd False (1/10))), (''take_profit_pct'', Num (rnd False (1/5))),
       (''trailing_stop_pct'', Num (Fin 0)), (''entry_timeout_secs'', Num (Fin 300)),
       (''signal_dict'', Obj [(''timestamp'', Num now), (''asset'', Str (if asset = [] then ''BTC'' else asset)),
          (''model'', Str ''kc_reversion''), (''direction'', Str (if oi_outcome intent = ''yes'' then ''UP'' else ''DOWN'')),
          (''strength'', Num (Fin 1)), (''regime'', Str ''medium'')])])"

subsection \<open>Submitting\<close>

definition place_local :: "jsnum \<Rightarrow> order_intent \<Rightarrow> string \<Rightarrow> string \<Rightarrow> terminal_state \<Rightarrow> terminal_state" where
  "place_local now intent i key s = snd (placeSimOrder now
     \<lparr>place_order.po_id = Some i, place_order.po_marketKey = key, place_order.po_outcome = oi_outcome intent,
      place_order.po_side = oi_side intent, place_order.po_price = oi_cents intent\<rparr> s)"

text \<open>What the window reads: the key, whether it is a production build, and whether the operator confirms.\<close>

record dom_env =
  de_key :: "string option"
  de_prod :: bool
  de_confirms :: bool

definition submitManualOrder ::
    "dom_env \<Rightarrow> jsnum \<Rightarrow> cell \<Rightarrow> dom_window \<times> terminal_state \<Rightarrow> (dom_window \<times> terminal_state) \<times> dom_output list" where
  "submitManualOrder env now c ws =
     (let w = fst ws; s = snd ws in
      case (db_intent w, truthy_text (de_key env)) of
        (Some intent, Some key) \<Rightarrow>
          if ts_simulationEnabled s then
            (let i = working_id ''sim'' key (oi_outcome intent) (oi_side intent) (oi_cents intent) now;
                 w1 = w\<lparr>db_orders := slice_first 30 (new_order intent i key DomWorking now # db_orders w)\<rparr>;
                 s1 = place_local now intent i key s
             in (((reconcileLocalSimOrder i s1 w1)\<lparr>db_intent := None\<rparr>, s1), []))
          else (case dom_limits_of c of Inl e \<Rightarrow> (ws, [])
            | Inr l \<Rightarrow>
                if too_many_positions l (ts_positions s) then (ws, [DomAlert ''Max manual positions limit reached''])
                else if over_exposed l (ts_positions s) then (ws, [DomAlert ''Manual exposure limit exceeded''])
                else if de_prod env \<and> \<not> truthy (dl_forceDryRun l) \<and> \<not> de_confirms env then (ws, [])
                else (ws, [DomEntry (entry_body key intent now)]))
      | _ \<Rightarrow> (ws, [DomAlert ''No order ticket or active market'']))"

text \<open>The answer: the parsed body, and the text of the body, of which the code reads one.\<close>

definition manual_answered :: "(jobj \<times> string) service_answer \<Rightarrow> dom_window \<Rightarrow> dom_window \<times> dom_output list" where
  "manual_answered a w = (case a of
     RequestFailed m \<Rightarrow> (w, [DomAlert (''Network error on manual entry: '' @ get_or m [])])
   | ServiceAnswer ok status body \<Rightarrow>
       if ok then (w\<lparr>db_intent := None\<rparr>,
          [DomAlert (''Entry submitted: '' @ to_str (coalesce (oget (fst body) ''position_id'') (Str ''dry-run'')))])
       else (w, [DomAlert (''Entry failed: '' @ snd body)]))"

definition submitFastOrder ::
    "dom_env \<Rightarrow> jsnum \<Rightarrow> cell \<Rightarrow> order_intent \<Rightarrow> string \<Rightarrow> dom_window \<times> terminal_state
       \<Rightarrow> (dom_window \<times> terminal_state) \<times> dom_output list" where
  "submitFastOrder env now c intent i ws =
     (let w = fst ws; s = snd ws; rejected = w\<lparr>db_orders := set_status i DomRejected (db_orders w)\<rparr> in
      case truthy_text (de_key env) of
        None \<Rightarrow> ((rejected, s), [])
      | Some key \<Rightarrow>
          if ts_simulationEnabled s
          then (let s1 = place_local now intent i key s in ((reconcileLocalSimOrder i s1 w, s1), []))
          else (case dom_limits_of c of Inl e \<Rightarrow> (ws, [])
            | Inr l \<Rightarrow>
                if too_many_positions l (ts_positions s) \<or> over_exposed l (ts_positions s) then ((rejected, s), [])
                else (ws, [DomEntry (entry_body key intent now)])))"

text \<open>The answer to the entry of an order; a request that fails is a refusal.\<close>

definition fast_answered :: "string \<Rightarrow> bool option \<Rightarrow> dom_window \<Rightarrow> dom_window" where
  "fast_answered i ok w = w\<lparr>db_orders := set_status i (if ok = Some True then DomWorking else DomRejected) (db_orders w)\<rparr>"

definition queueOrder ::
    "dom_env \<Rightarrow> jsnum \<Rightarrow> cell \<Rightarrow> string \<Rightarrow> string \<Rightarrow> jsnum \<Rightarrow> dom_window \<times> terminal_state
       \<Rightarrow> (dom_window \<times> terminal_state) \<times> dom_output list" where
  "queueOrder env now c outcome side cents ws =
     (let w = fst ws; s1 = setBookClickPrice (Some (outcome, cents)) (snd ws);
          intent = \<lparr>oi_outcome = outcome, oi_side = side, oi_orderType = to_str (oget (db_settings w) ''actionMode''),
            oi_cents = cents, oi_contracts = oget (db_settings w) ''contractSize''\<rparr>
      in case truthy_text (de_key env) of
           Some key \<Rightarrow>
             if truthy (oget (db_settings w) ''fastTrade'') then
               (let i = working_id ''fast'' key outcome side cents now
                in submitFastOrder env now c intent i (w\<lparr>db_intent := None,
                     db_orders := slice_first 30 (new_order intent i key DomPending now # db_orders w)\<rparr>, s1))
             else ((w\<lparr>db_intent := Some intent\<rparr>, s1), [])
         | None \<Rightarrow> ((w\<lparr>db_intent := Some intent\<rparr>, s1), []))"

subsection \<open>Cancelling and replacing\<close>

definition cancelWorkingOrder :: "string \<Rightarrow> dom_window \<times> terminal_state \<Rightarrow> dom_window \<times> terminal_state" where
  "cancelWorkingOrder i ws =
     (let w = fst ws in
      (w\<lparr>db_orders := filter (\<lambda>o1. wo_id o1 \<noteq> i) (db_orders w),
         db_drag := (if map_option wo_id (db_drag w) = Some i then None else db_drag w)\<rparr>,
       cancelSimOrder i (snd ws)))"

definition of_side :: "string option \<Rightarrow> string \<Rightarrow> string \<Rightarrow> dom_order \<Rightarrow> bool" where
  "of_side key outcome side o1 \<longleftrightarrow> Some (wo_marketKey o1) = key \<and> oi_outcome o1 = outcome \<and> oi_side o1 = side"

definition cancelWorkingOrders ::
    "string option \<Rightarrow> string \<Rightarrow> string \<Rightarrow> dom_window \<times> terminal_state \<Rightarrow> dom_window \<times> terminal_state" where
  "cancelWorkingOrders key outcome side ws =
     (let w = fst ws in
      (w\<lparr>db_orders := filter (\<lambda>o1. \<not> of_side key outcome side o1) (db_orders w),
         db_drag := (case db_drag w of Some o1 \<Rightarrow> if of_side key outcome side o1 then None else Some o1 | None \<Rightarrow> None)\<rparr>,
       if truthy_text key \<noteq> None then cancelSimOrders (snd ws) else snd ws))"

definition replaceWorkingOrder ::
    "dom_env \<Rightarrow> jsnum \<Rightarrow> cell \<Rightarrow> dom_order \<Rightarrow> jsnum \<Rightarrow> dom_window \<times> terminal_state
       \<Rightarrow> (dom_window \<times> terminal_state) \<times> dom_output list" where
  "replaceWorkingOrder env now c order cents ws =
     (case truthy_text (de_key env) of
        None \<Rightarrow> (ws, [])
      | Some key \<Rightarrow>
          (let w = fst ws; intent = (intent_of order)\<lparr>oi_cents := cents\<rparr>;
               i = working_id ''replace'' key (oi_outcome order) (oi_side order) cents now;
               w1 = w\<lparr>db_drag := None, db_orders := slice_first 30 (new_order intent i key DomPending now
                  # filter (\<lambda>o1. wo_id o1 \<noteq> wo_id order) (db_orders w))\<rparr>
           in submitFastOrder env now c intent i (w1, cancelSimOrder (wo_id order) (snd ws))))"

definition handleReplaceDrop ::
    "dom_env \<Rightarrow> jsnum \<Rightarrow> cell \<Rightarrow> jsnum \<Rightarrow> dom_window \<times> terminal_state
       \<Rightarrow> (dom_window \<times> terminal_state) \<times> dom_output list" where
  "handleReplaceDrop env now c cents ws = (case db_drag (fst ws) of
     None \<Rightarrow> (ws, []) | Some order \<Rightarrow> replaceWorkingOrder env now c order cents ws)"

text \<open>A drop counts on a row of the same outcome.\<close>

definition drop_on :: "dom_env \<Rightarrow> jsnum \<Rightarrow> cell \<Rightarrow> string \<Rightarrow> jsnum \<Rightarrow> dom_window \<times> terminal_state
       \<Rightarrow> (dom_window \<times> terminal_state) \<times> dom_output list" where
  "drop_on env now c outcome cents ws =
     (if map_option oi_outcome (db_drag (fst ws)) = Some outcome then handleReplaceDrop env now c cents ws else (ws, []))"

text \<open>With the simulation on, the orders are those that the exchange has at work.\<close>

definition sync_orders :: "terminal_state \<Rightarrow> dom_window \<Rightarrow> dom_window" where
  "sync_orders s w = (if ts_simulationEnabled s
     then w\<lparr>db_orders := filter (\<lambda>o1. sim_works (ts_simOrders s) (wo_id o1)) (db_orders w)\<rparr> else w)"

subsection \<open>What is shown of the orders\<close>

definition tiny_mode :: "jobj \<Rightarrow> bool" where
  "tiny_mode settings \<longleftrightarrow> jle (to_num (oget settings ''fontSize'')) (Fin 7) \<or> jle (to_num (oget settings ''rowHeight'')) (Fin 12)"

definition activeWorkingCount :: "string option \<Rightarrow> dom_order list \<Rightarrow> nat" where
  "activeWorkingCount key orders = length (filter (\<lambda>o1. Some (wo_marketKey o1) = key \<and> wo_status o1 \<noteq> DomRejected) orders)"

definition dom_active_side :: "string option \<Rightarrow> string \<Rightarrow> string \<Rightarrow> dom_order list \<Rightarrow> bool" where
  "dom_active_side key outcome side orders = list_ex (\<lambda>o1. of_side key outcome side o1 \<and> wo_status o1 \<noteq> DomRejected) orders"

definition working_marker :: "bool \<Rightarrow> string option \<Rightarrow> string \<Rightarrow> string \<Rightarrow> jsnum \<Rightarrow> dom_order list \<Rightarrow> (string \<times> string) option" where
  "working_marker tiny key outcome side cents orders =
     map_option (\<lambda>o1. (wo_id o1, case wo_status o1 of
         DomWorking \<Rightarrow> if tiny then ''W'' else ''W '' @ to_str (oi_contracts o1)
       | DomPending \<Rightarrow> if tiny then ''P'' else ''P '' @ to_str (oi_contracts o1)
       | DomRejected \<Rightarrow> if tiny then ''R'' else ''REJ''))
       (find (\<lambda>o1. of_side key outcome side o1 \<and> jeq (oi_cents o1) cents) orders)"

definition cycleAccountView :: "jsnum \<Rightarrow> string \<Rightarrow> string" where
  "cycleAccountView delta current =
     (let idx = (case find_index (\<lambda>v. v = current) account_views of Some i \<Rightarrow> int i | None \<Rightarrow> - 1)
      in account_views ! nat ((idx + (if jlt (Fin 0) delta then 1 else - 1) + 3) mod 3))"

definition setDensity :: "jsnum \<Rightarrow> jsnum \<Rightarrow> jobj \<Rightarrow> jobj" where
  "setDensity fontSize rowHeight settings =
     dict_set ''rowHeight'' (Num (clamp rowHeight (Fin 10) (Fin 36)))
       (dict_set ''fontSize'' (Num (clamp fontSize (Fin 6) (Fin 18))) settings)"

subsection \<open>Runs\<close>

datatype dom_event =
    DomClicked string string jsnum
  | DomSubmitted
  | DomManualAnswered "(jobj \<times> string) service_answer"
  | DomFastAnswered string "bool option"
  | DomCancelled string
  | DomSideCancelled string string
  | DomGripped dom_order
  | DomDropped string jsnum
  | DomSet string jsv
  | DomDensity jsnum jsnum
  | DomTicketCleared
  | DomView string
  | DomWheeled jsnum
  | DomSettingsShown bool
  | DomSynced
  | DomStoreBecame terminal_state

fun dom_act :: "dom_env \<Rightarrow> jsnum \<Rightarrow> cell \<Rightarrow> dom_event \<Rightarrow> dom_window \<times> terminal_state
    \<Rightarrow> (dom_window \<times> terminal_state) \<times> dom_output list" where
  "dom_act env now c (DomClicked outcome side cents) ws = queueOrder env now c outcome side cents ws"
| "dom_act env now c DomSubmitted ws = submitManualOrder env now c ws"
| "dom_act env now c (DomManualAnswered a) ws = (let r = manual_answered a (fst ws) in ((fst r, snd ws), snd r))"
| "dom_act env now c (DomFastAnswered i ok) ws = ((fast_answered i ok (fst ws), snd ws), [])"
| "dom_act env now c (DomCancelled i) ws = (cancelWorkingOrder i ws, [])"
| "dom_act env now c (DomSideCancelled outcome side) ws = (cancelWorkingOrders (de_key env) outcome side ws, [])"
| "dom_act env now c (DomGripped o1) ws = (((fst ws)\<lparr>db_drag := Some o1\<rparr>, snd ws), [])"
| "dom_act env now c (DomDropped outcome cents) ws = drop_on env now c outcome cents ws"
| "dom_act env now c (DomSet k v) ws = (((fst ws)\<lparr>db_settings := dict_set k v (db_settings (fst ws))\<rparr>, snd ws), [])"
| "dom_act env now c (DomDensity fontSize rowHeight) ws =
     (((fst ws)\<lparr>db_settings := setDensity fontSize rowHeight (db_settings (fst ws))\<rparr>, snd ws), [])"
| "dom_act env now c DomTicketCleared ws = (((fst ws)\<lparr>db_intent := None\<rparr>, snd ws), [])"
| "dom_act env now c (DomView v) ws = (((fst ws)\<lparr>db_accountView := v\<rparr>, snd ws), [])"
| "dom_act env now c (DomWheeled delta) ws =
     (((fst ws)\<lparr>db_accountView := cycleAccountView delta (db_accountView (fst ws))\<rparr>, snd ws), [])"
| "dom_act env now c (DomSettingsShown b) ws = (((fst ws)\<lparr>db_showSettings := b\<rparr>, snd ws), [])"
| "dom_act env now c DomSynced ws = ((sync_orders (snd ws) (fst ws), snd ws), [])"
| "dom_act env now c (DomStoreBecame s) ws = ((fst ws, s), [])"

text \<open>A handler reads the settings cell; the effect writes it after a change of the settings.\<close>

definition dom_step :: "dom_env \<Rightarrow> jsnum \<Rightarrow> dom_event \<Rightarrow> (dom_window \<times> terminal_state) \<times> storage
    \<Rightarrow> ((dom_window \<times> terminal_state) \<times> storage) \<times> dom_output list" where
  "dom_step env now e wst =
     (let r = dom_act env now (get_item (snd wst) dom_settings_key) e (fst wst); settings = db_settings (fst (fst r))
      in ((fst r, if settings = db_settings (fst (fst wst)) then snd wst else store_dom_settings settings (snd wst)), snd r))"

definition dom_mount :: "storage \<Rightarrow> terminal_state \<Rightarrow> (dom_window \<times> terminal_state) \<times> storage" where
  "dom_mount st s =
     ((\<lparr>db_settings = loadDomSettings st, db_intent = None, db_orders = [], db_drag = None, db_accountView = ''account'',
        db_showSettings = False\<rparr>, dom_provider s), store_dom_settings (loadDomSettings st) st)"

inductive dom_reach :: "storage \<Rightarrow> terminal_state \<Rightarrow> (dom_window \<times> terminal_state) \<times> storage \<Rightarrow> bool" for st s where
  dom_mounted: "dom_reach st s (dom_mount st s)"
| dom_stepped: "dom_reach st s wst \<Longrightarrow> dom_reach st s (fst (dom_step env now e wst))"

subsection \<open>The limits\<close>

definition built_in_limits :: dom_limits where
  "built_in_limits = \<lparr>dl_maxOrders = Num (Fin 7), dl_maxYes = Num (Fin 500), dl_maxNo = Num (Fin 500), dl_forceDryRun = Undefined\<rparr>"

lemma stored_setting:
  "jget (json_norm (Obj (map (\<lambda>k. (k, oget settings k)) dom_setting_names))) k
     = (if k \<in> set dom_setting_names \<and> oget settings k \<noteq> Undefined then json_norm (oget settings k) else Undefined)"
proof -
  have "oget (map (\<lambda>k. (k, oget settings k)) names) k = (if k \<in> set names then oget settings k else Undefined)" for names
    by (simp add: oget_def map_of_map_restrict restrict_map_def)
  moreover have "distinct (map fst (map (\<lambda>k. (k, oget settings k)) dom_setting_names))" by (simp add: dom_setting_names_def)
  ultimately show ?thesis by (simp only: jget_json_norm) simp
qed

lemma stored_limits: "dom_limits_of (get_item (store_dom_settings settings st) dom_settings_key) = Inr built_in_limits"
proof -
  have item: "get_item (store_dom_settings settings st) dom_settings_key
      = Json (json_norm (Obj (map (\<lambda>k. (k, oget settings k)) dom_setting_names)))"
    by (simp only: store_dom_settings_def get_item_set_json) simp
  have obj: "\<not> nullish (json_norm (Obj d))" for d by (simp add: nullish_def)
  have other: "''manualMaxOrders'' \<notin> set dom_setting_names" "''manualMaxYesDollar'' \<notin> set dom_setting_names"
      "''manualMaxNoDollar'' \<notin> set dom_setting_names" "''forceDryRun'' \<notin> set dom_setting_names"
    by (simp_all add: dom_setting_names_def)
  show ?thesis
    by (simp only: dom_limits_of_def item obj stored_setting other Let_def cell.case if_False simp_thms built_in_limits_def coalesce_simps)
qed

lemma reach_limits: "dom_reach st s wst \<Longrightarrow> dom_limits_of (get_item (snd wst) dom_settings_key) = Inr built_in_limits"
  by (induction rule: dom_reach.induct) (simp_all add: dom_mount_def dom_step_def stored_limits Let_def)

definition within_limits :: "position list \<Rightarrow> bool" where
  "within_limits positions \<longleftrightarrow> length positions < 7
     \<and> \<not> jlt (Fin 1000) (jadd (exposure ''UP'' positions) (exposure ''DOWN'' positions))"

lemma built_in_within: "within_limits positions \<longleftrightarrow> \<not> too_many_positions built_in_limits positions \<and> \<not> over_exposed built_in_limits positions"
proof -
  have "too_many_positions built_in_limits positions \<longleftrightarrow> 7 \<le> length positions"
    by (simp add: too_many_positions_def built_in_limits_def num_of_int_def jle_finite)
  moreover have "to_num (js_plus (Num (Fin 500)) (Num (Fin 500))) = Fin 1000"
    using jadd_int [of 500 500] by (simp add: js_plus_def is_str_def is_array_def is_object_def)
  then have "over_exposed built_in_limits positions
      \<longleftrightarrow> jlt (Fin 1000) (jadd (exposure ''UP'' positions) (exposure ''DOWN'' positions))"
    by (simp only: over_exposed_def built_in_limits_def dom_limits.simps)
  ultimately show ?thesis by (simp only: within_limits_def not_le)
qed

lemma store_kept [simp]:
  "ts_positions (setBookClickPrice v s) = ts_positions s" "ts_simulationEnabled (setBookClickPrice v s) = ts_simulationEnabled s"
  "ts_simOrders (setBookClickPrice v s) = ts_simOrders s" "ts_positions (cancelSimOrder i s) = ts_positions s"
  "ts_simulationEnabled (cancelSimOrder i s) = ts_simulationEnabled s" "ts_simOrders (cancelSimOrder i s) = ts_simOrders s"
  "ts_simulationEnabled (cancelSimOrders s) = ts_simulationEnabled s" "ts_simOrders (cancelSimOrders s) = ts_simOrders s"
  "ts_simulationEnabled (place_local now intent i key s) = ts_simulationEnabled s"
  "ts_simOrders (place_local now intent i key s) = ts_simOrders s"
  by (simp_all add: setBookClickPrice_def cancelSimOrder_def cancelSimOrders_def place_local_def placeSimOrder_def)

lemma fast_entry:
  assumes "DomEntry b \<in> set (snd (submitFastOrder env now c intent i ws))" "dom_limits_of c = Inr l"
  shows "\<not> ts_simulationEnabled (snd ws) \<and> \<not> too_many_positions l (ts_positions (snd ws)) \<and> \<not> over_exposed l (ts_positions (snd ws))"
  using assms by (auto simp: submitFastOrder_def Let_def split: option.splits if_splits)

lemma act_entry:
  assumes "DomEntry b \<in> set (snd (dom_act env now c e ws))" "dom_limits_of c = Inr l"
  shows "\<not> ts_simulationEnabled (snd ws) \<and> \<not> too_many_positions l (ts_positions (snd ws)) \<and> \<not> over_exposed l (ts_positions (snd ws))"
proof (cases e)
  case (DomClicked outcome side cents)
  with assms show ?thesis
    by (auto simp: queueOrder_def Let_def split: option.splits if_splits dest!: fast_entry)
next
  case DomSubmitted
  with assms show ?thesis by (auto simp: submitManualOrder_def Let_def split: option.splits if_splits)
next
  case (DomManualAnswered a)
  with assms show ?thesis by (auto simp: manual_answered_def Let_def split: service_answer.splits if_splits)
next
  case (DomDropped outcome cents)
  with assms show ?thesis
    by (auto simp: drop_on_def handleReplaceDrop_def replaceWorkingOrder_def Let_def split: option.splits if_splits dest!: fast_entry)
qed (use assms in simp_all)

text \<open>C9. Whatever happens in the window and in the store, and whatever limits were stored before it was opened:
  an entry is sent only while the simulation is off, with fewer than seven positions and an exposure of at
  most a thousand.\<close>

theorem entries_within_limits:
  assumes "dom_reach st0 s0 ((w, s), st)" and "DomEntry b \<in> set (snd (dom_step env now e ((w, s), st)))"
  shows "\<not> ts_simulationEnabled s \<and> within_limits (ts_positions s)"
  using act_entry [OF _ reach_limits [OF assms(1)], of b env now e "(w, s)"] assms(2)
  by (simp add: dom_step_def Let_def built_in_within)

text \<open>C37. A click on a fast ladder, with the simulation off, sends its entry and shows the order as pending
  exactly within the built-in limits; otherwise it is shown as rejected. Limits that were stored, lower or
  higher, make no difference: the settings are written back without them when the window is opened.\<close>

theorem configured_limits_ignored:
  assumes "dom_reach st0 s0 ((w, s), st)" "\<not> ts_simulationEnabled s" "truthy (oget (db_settings w) ''fastTrade'')"
    and "de_key env = Some key" "key \<noteq> []"
  shows "let r = dom_step env now (DomClicked outcome side cents) ((w, s), st);
             i = working_id ''fast'' key outcome side cents now; w' = fst (fst (fst r))
    in if within_limits (ts_positions s)
       then (\<exists>b. snd r = [DomEntry b] \<and> oget b ''market_id'' = Str key) \<and> wo_id (hd (db_orders w')) = i \<and> wo_status (hd (db_orders w')) = DomPending
       else snd r = [] \<and> wo_id (hd (db_orders w')) = i \<and> wo_status (hd (db_orders w')) = DomRejected"
proof -
  have "dom_limits_of (get_item st dom_settings_key) = Inr built_in_limits" using reach_limits [OF assms(1)] by simp
  moreover have "truthy_text (Some key) = Some key" using assms(5) by (simp add: truthy_text_def)
  ultimately show ?thesis
    using assms(2-4) built_in_within [of "ts_positions s"]
    by (simp add: dom_step_def queueOrder_def submitFastOrder_def Let_def slice_first_def set_status_def new_order_def
        order_intent.extend_def dom_order.fields_def entry_body_def oget_def)
qed

subsection \<open>With the simulation on\<close>

fun dom_run :: "(dom_env \<times> jsnum \<times> dom_event) list \<Rightarrow> (dom_window \<times> terminal_state) \<times> storage
    \<Rightarrow> ((dom_window \<times> terminal_state) \<times> storage) \<times> dom_output list" where
  "dom_run [] wst = (wst, [])"
| "dom_run ((env, now, e) # events) wst =
     (let r = dom_step env now e wst; r' = dom_run events (fst r) in (fst r', snd r @ snd r'))"

definition leaves_store :: "dom_event \<Rightarrow> bool" where
  "leaves_store e = (case e of DomStoreBecame s \<Rightarrow> False | _ \<Rightarrow> True)"

definition is_entry :: "dom_output \<Rightarrow> bool" where
  "is_entry out = (case out of DomEntry b \<Rightarrow> True | _ \<Rightarrow> False)"

definition backed :: "sim_order list \<Rightarrow> dom_order list \<Rightarrow> bool" where
  "backed simOrders = list_all (\<lambda>o1. sim_works simOrders (wo_id o1))"

lemma backed_simps [simp]: "backed os []" "backed os (o1 # xs) \<longleftrightarrow> sim_works os (wo_id o1) \<and> backed os xs"
  by (simp_all add: backed_def)

lemma backed_kept [intro, simp]:
  "backed os xs \<Longrightarrow> backed os (filter P xs)" "backed os xs \<Longrightarrow> backed os (set_status i st xs)"
  "backed os xs \<Longrightarrow> backed os (slice_first n xs)"
  by (auto simp: backed_def list_all_iff set_status_def slice_first_def dest: in_set_takeD)

lemma backed_sync: "backed os (filter (\<lambda>o1. sim_works os (wo_id o1)) xs)"
  by (simp add: backed_def list_all_iff)

lemma new_order_id [simp]: "wo_id (new_order intent i key status now) = i"
  by (simp add: new_order_def order_intent.extend_def dom_order.fields_def)

lemma reconciled:
  assumes "db_orders w = slice_first 30 (o1 # xs)" "wo_id o1 = i" "ts_simOrders s = os" "backed os xs"
  shows "backed os (db_orders (reconcileLocalSimOrder i s w))"
proof (cases "sim_works os i")
  case True
  with assms show ?thesis by (simp add: reconcileLocalSimOrder_def)
next
  case False
  have "filter (\<lambda>o1. wo_id o1 \<noteq> i) (slice_first 30 (o1 # xs)) = filter (\<lambda>o1. wo_id o1 \<noteq> i) (slice_first 29 xs)"
    using assms(2) by (simp add: slice_first_def)
  with False assms show ?thesis by (simp add: reconcileLocalSimOrder_def)
qed

definition sim_quiet :: "terminal_state \<Rightarrow> (dom_window \<times> terminal_state) \<times> dom_output list \<Rightarrow> bool" where
  "sim_quiet s r \<longleftrightarrow> ts_simulationEnabled (snd (fst r)) \<and> ts_simOrders (snd (fst r)) = ts_simOrders s
     \<and> backed (ts_simOrders s) (db_orders (fst (fst r))) \<and> \<not> list_ex is_entry (snd r)"

lemma fast_quiet:
  assumes "db_orders w = slice_first 30 (o1 # xs)" "wo_id o1 = i" "backed (ts_simOrders s) xs"
    and "ts_simulationEnabled s" "ts_simOrders s = ts_simOrders t" "truthy_text (de_key env) = Some key"
  shows "sim_quiet t (submitFastOrder env now c intent i (w, s))"
  using assms reconciled [of w o1 xs i "place_local now intent i key s"]
  by (simp add: submitFastOrder_def sim_quiet_def Let_def)

lemma act_quiet:
  assumes "ts_simulationEnabled (snd ws)" "backed (ts_simOrders (snd ws)) (db_orders (fst ws))" "leaves_store e"
  shows "sim_quiet (snd ws) (dom_act env now c e ws)"
proof (cases e)
  case (DomClicked outcome side cents)
  with assms show ?thesis
    by (auto simp: queueOrder_def Let_def sim_quiet_def [of _ "((_, _), [])"] split: option.split intro!: fast_quiet)
next
  case DomSubmitted
  with assms show ?thesis
    by (auto simp: submitManualOrder_def Let_def sim_quiet_def is_entry_def split: option.split intro!: reconciled)
next
  case (DomManualAnswered a)
  with assms show ?thesis
    by (auto simp: manual_answered_def Let_def sim_quiet_def is_entry_def split: service_answer.split)
next
  case (DomDropped outcome cents)
  with assms show ?thesis
    by (cases ws) (auto simp: drop_on_def handleReplaceDrop_def replaceWorkingOrder_def Let_def sim_quiet_def [of _ "((_, _), [])"]
        split: option.split intro!: fast_quiet)
qed (use assms in \<open>auto simp: sim_quiet_def fast_answered_def cancelWorkingOrder_def cancelWorkingOrders_def sync_orders_def
    leaves_store_def backed_sync Let_def\<close>)

text \<open>C10. While the simulation is on, no click, submit, cancel or replacement sends an entry or changes an order
  of the exchange, and the window shows only orders that the exchange already has at work: an order that
  is submitted disappears from the ladder, and one that is cancelled or replaced in it works on.\<close>

theorem simulation_orders_nothing:
  assumes "ts_simulationEnabled s" "list_all (\<lambda>(env, now, e). leaves_store e) events"
  shows "let r = dom_run events (dom_mount st s); w' = fst (fst (fst r)); s' = snd (fst (fst r)) in
    \<not> list_ex is_entry (snd r) \<and> ts_simOrders s' = ts_simOrders s
    \<and> list_all (\<lambda>o1. sim_works (ts_simOrders s) (wo_id o1)) (db_orders w')"
proof -
  have "sim_quiet t (fst (fst (dom_run events wst)), snd (dom_run events wst))"
    if "ts_simulationEnabled (snd (fst wst))" "ts_simOrders (snd (fst wst)) = ts_simOrders t"
      "backed (ts_simOrders t) (db_orders (fst (fst wst)))" for wst t
    using assms(2) that
  proof (induction events arbitrary: wst)
    case (Cons ev events)
    obtain env now e where ev: "ev = (env, now, e)" by (cases ev) auto
    have "sim_quiet (snd (fst wst)) (fst (fst (dom_step env now e wst)), snd (dom_step env now e wst))"
      using act_quiet [of "fst wst" e env now "get_item (snd wst) dom_settings_key"] Cons.prems ev by (simp add: dom_step_def Let_def)
    with Cons.IH [of "fst (dom_step env now e wst)"] Cons.prems ev show ?case by (simp add: sim_quiet_def Let_def)
  qed (simp add: sim_quiet_def)
  from this [of "dom_mount st s" s] assms(1) show ?thesis
    by (simp add: dom_mount_def dom_provider_def setMarketProvider_def sim_quiet_def backed_def Let_def)
qed

subsection \<open>At a concrete input\<close>

definition dom_sample_env :: dom_env where
  "dom_sample_env = \<lparr>de_key = Some ''BTC_5min'', de_prod = True, de_confirms = False\<rparr>"

definition live_start :: terminal_state where
  "live_start = initial_state\<lparr>ts_simulationEnabled := False\<rparr>"

definition fast_dom :: "(dom_window \<times> terminal_state) \<times> storage" where
  "fast_dom = fst (dom_step dom_sample_env (Fin 0) (DomSet ''fastTrade'' (Bool True)) (dom_mount [] live_start))"

lemma fast_dom_reached: "dom_reach [] live_start fast_dom"
  unfolding fast_dom_def by (rule dom_stepped [OF dom_mounted])

lemma fast_dom_facts:
  "ts_positions (snd (fst fast_dom)) = []" "\<not> ts_simulationEnabled (snd (fst fast_dom))"
  "truthy (oget (db_settings (fst (fst fast_dom))) ''fastTrade'')"
  by (simp_all add: fast_dom_def dom_step_def dom_mount_def dom_provider_def setMarketProvider_def live_start_def
      initial_state_def truthy_def Let_def)

lemma fast_dom_within: "within_limits []"
  by (simp add: within_limits_def exposure_def sum_of_def jadd_int [of 0 0, simplified] jlt_finite)

lemma fast_dom_sends:
  "snd (dom_step dom_sample_env (Fin 1) (DomClicked ''yes'' ''BUY'' (Fin 50)) fast_dom)
     = [DomEntry (entry_body ''BTC_5min'' \<lparr>oi_outcome = ''yes'', oi_side = ''BUY'',
         oi_orderType = to_str (oget (db_settings (fst (fst fast_dom))) ''actionMode''), oi_cents = Fin 50,
         oi_contracts = oget (db_settings (fst (fst fast_dom))) ''contractSize''\<rparr> (Fin 1))]"
  using reach_limits [OF fast_dom_reached] fast_dom_facts fast_dom_within built_in_within [of "[]"]
  by (simp add: dom_step_def queueOrder_def submitFastOrder_def dom_sample_env_def truthy_text_def Let_def)

lemma entries_within_limits_witness:
  "\<not> ts_simulationEnabled (snd (fst fast_dom)) \<and> within_limits (ts_positions (snd (fst fast_dom)))"
  using entries_within_limits [of "[]" live_start "fst (fst fast_dom)" "snd (fst fast_dom)" "snd fast_dom" _ dom_sample_env
      "Fin 1" "DomClicked ''yes'' ''BUY'' (Fin 50)"] fast_dom_reached fast_dom_sends
  by simp

lemma configured_limits_ignored_witness:
  "\<exists>b. snd (dom_step dom_sample_env (Fin 1) (DomClicked ''yes'' ''BUY'' (Fin 50)) fast_dom) = [DomEntry b]
     \<and> oget b ''market_id'' = Str ''BTC_5min''"
  using configured_limits_ignored [of "[]" live_start "fst (fst fast_dom)" "snd (fst fast_dom)" "snd fast_dom" dom_sample_env
      "''BTC_5min''" "Fin 1" "''yes''" "''BUY''" "Fin 50"] fast_dom_reached fast_dom_facts fast_dom_within
  by (simp add: dom_sample_env_def Let_def)

lemma simulation_orders_nothing_witness:
  "let r = dom_run [(dom_sample_env, Fin 0, DomClicked ''yes'' ''BUY'' (Fin 50)), (dom_sample_env, Fin 1, DomSubmitted)]
        (dom_mount [] initial_state)
   in \<not> list_ex is_entry (snd r) \<and> ts_simOrders (snd (fst (fst r))) = []"
  using simulation_orders_nothing [of initial_state
      "[(dom_sample_env, Fin 0, DomClicked ''yes'' ''BUY'' (Fin 50)), (dom_sample_env, Fin 1, DomSubmitted)]" "[]"]
  by (simp add: initial_state_def leaves_store_def Let_def del: dom_run.simps)

end
