(* ===== verification/OrdersWindows.thy ===== *)
theory OrdersWindows
  imports Execution MarketFeed ExchangeRows Workspaces
begin

text \<open>
  The two windows of working orders in \<open>apps/terminal/src/components/WorkspaceCanvas.tsx\<close>: the order book
  window, with its filters, counts and cancels, and the panel of positions and orders, which joins the rows
  of the order service with those of the store. \<open>now\<close> is the clock, \<open>lc\<close> the sign of \<open>localeCompare\<close>,
  \<open>date_parse\<close> is \<open>Date.parse\<close>. Main results: which orders each of the windows lists and lets
  the operator cancel, one of them leaving out the partially filled ones; the panel lists every id once;
  and no answer to a cancel of the panel changes an order unless the service sends a state.
\<close>

subsection \<open>The order book window\<close>

record orders_view =
  ov_provider :: string
  ov_product :: string
  ov_status :: string
  ov_source :: string
  ov_cancelStatus :: string
  ov_splitPct :: jsnum
  ov_selected :: string

definition first_orders_view :: orders_view where
  "first_orders_view = \<lparr>ov_provider = ''all'', ov_product = ''all'', ov_status = ''working'', ov_source = ''all'',
     ov_cancelStatus = [], ov_splitPct = Fin 86, ov_selected = []\<rparr>"

definition order_rows ::
    "jsnum \<Rightarrow> product_option list \<Rightarrow> sim_order list \<Rightarrow> sim_position list \<Rightarrow> string \<Rightarrow> product_definition list
       \<Rightarrow> account_row list" where
  "order_rows now options simOrders simPositions operatorName definitions =
     filter (\<lambda>row. ax_row_type row = ''order'')
       (buildExecutionRows now options [] simOrders simPositions [] operatorName definitions)"

definition order_products :: "orders_view \<Rightarrow> account_row list \<Rightarrow> string list" where
  "order_products v rows = sort_js text_le (dedup_by (=) (map ax_product
     (filter (\<lambda>row. ov_provider v = ''all'' \<or> ax_provider row = ov_provider v) rows)))"

text \<open>\<open>/closed|filled|cancel/i.test(status)\<close>.\<close>

definition openStatus :: "string \<Rightarrow> bool" where
  "openStatus status \<longleftrightarrow> (let s = to_lower status in
     \<not> (str_includes ''closed'' s \<or> str_includes ''filled'' s \<or> str_includes ''cancel'' s))"

definition summary_orders :: "orders_view \<Rightarrow> account_row list \<Rightarrow> account_row list" where
  "summary_orders v rows = filter (\<lambda>row.
     (ov_provider v = ''all'' \<or> ax_provider row = ov_provider v)
     \<and> (ov_product v = ''all'' \<or> ax_product row = ov_product v)
     \<and> (ov_source v = ''all'' \<or> ax_source row = ov_source v)) rows"

definition visible_orders :: "orders_view \<Rightarrow> account_row list \<Rightarrow> account_row list" where
  "visible_orders v rows = filter (\<lambda>row.
     (ov_provider v = ''all'' \<or> ax_provider row = ov_provider v)
     \<and> (ov_product v = ''all'' \<or> ax_product row = ov_product v)
     \<and> (ov_source v = ''all'' \<or> ax_source row = ov_source v)
     \<and> (ov_status v = ''all'' \<or> (if ov_status v = ''working'' then openStatus (ax_status row)
          else to_lower (ax_status row) = ov_status v))) rows"

definition workingCount :: "orders_view \<Rightarrow> account_row list \<Rightarrow> nat" where
  "workingCount v rows = length (filter (\<lambda>row. openStatus (ax_status row)) (summary_orders v rows))"

definition workingNotional :: "orders_view \<Rightarrow> account_row list \<Rightarrow> jsnum" where
  "workingNotional v rows = sum_of ax_notional (filter (\<lambda>row. openStatus (ax_status row)) (summary_orders v rows))"

definition selected_order :: "orders_view \<Rightarrow> account_row list \<Rightarrow> account_row option" where
  "selected_order v rows = (let visible = visible_orders v rows in
     or_else (find (\<lambda>row. ax_id row = ov_selected v) visible) (array_first visible))"

text \<open>The divider, dragged from the height at which it was gripped.\<close>

definition startSplitDrag :: "jsnum option \<Rightarrow> jsnum \<Rightarrow> jsnum \<Rightarrow> jsnum \<Rightarrow> jsnum" where
  "startSplitDrag clientHeight startY startPct clientY =
     clamp (jadd startPct (jmul (jdiv (jsub clientY startY) (get_or clientHeight (Fin 1))) (Fin 100))) (Fin 42) (Fin 92)"

text \<open>A cancel: the window and the store after the answer, and the orders whose cancel was requested. For
  a row that is not of the exchange, only the answer's status counts.\<close>

definition cancelOrderRow ::
    "jsnum \<Rightarrow> order_reply service_answer \<Rightarrow> account_row \<Rightarrow> orders_view \<times> terminal_state
       \<Rightarrow> (orders_view \<times> terminal_state) \<times> string list" where
  "cancelOrderRow now a row vs =
     (let v = fst vs; s = snd vs; i = ax_order_id row; says = (\<lambda>m. v\<lparr>ov_cancelStatus := m\<rparr>) in
      if \<not> openStatus (ax_status row) then (vs, [])
      else if ax_provider row = ''sim'' then
        (let r = cancelSharedOrder now a s
         in ((says (case fst r of
                Inr _ \<Rightarrow> ''Cancelled '' @ to_str (ax_order_tag row) @ '' '' @ i
              | Inl m \<Rightarrow> ''Cancel failed for '' @ i @ '': '' @ get_or m ''gateway unavailable''), snd r), [i]))
      else ((says (case a of
                RequestFailed m \<Rightarrow> ''Cancel failed for '' @ i
              | ServiceAnswer ok status reply \<Rightarrow> (if ok then ''Cancel accepted for '' else ''Cancel rejected for '') @ i), s), [i]))"

text \<open>The answer to a cancel of all; a body that cannot be parsed is an empty object, and with one that is
  \<open>null\<close> (here \<open>None\<close>) the handler throws.\<close>

definition cancelAllOrders ::
    "jsnum \<Rightarrow> order_reply option service_answer \<Rightarrow> orders_view \<times> terminal_state \<Rightarrow> orders_view \<times> terminal_state" where
  "cancelAllOrders now a vs =
     (let s = snd vs; says = (\<lambda>m. (fst vs)\<lparr>ov_cancelStatus := m\<rparr>);
          failed = (says ''Cancel-all failed; no order service acknowledged.'', s) in
      case a of
        RequestFailed m \<Rightarrow> failed
      | ServiceAnswer ok status reply \<Rightarrow>
          if \<not> ok then failed
          else (case reply of
              None \<Rightarrow> (says (if ts_simulationEnabled s then ''Cancelling Sim Exchange orders...'' else ''Cancelling working orders...''), s)
            | Some r \<Rightarrow>
                (let count = to_num (coalesce (oget (or_body r) ''count'') (Num (Fin 0)))
                 in (says (''Cancel all accepted by order service; '' @ num_text count @ '' server order''
                       @ (if jeq count (Fin 1) then [] else ''s'') @ '' cancelled.''),
                     apply_reply_state now (or_state r) s))))"

text \<open>The file of the visible orders.\<close>

definition order_headers :: "string list" where
  "order_headers = [''row_type'', ''timestamp'', ''account'', ''exchange'', ''product'', ''market_key'', ''order_id'', ''source'',
     ''order_tag'', ''algo_role'', ''operator'', ''strategy'', ''leg_id'', ''side'', ''price'', ''size'', ''status'', ''pnl'',
     ''notional'', ''order_details'']"

definition order_export :: "account_row \<Rightarrow> jobj js_result" where
  "order_export row = map_sum id (\<lambda>stamp.
     [(''row_type'', Str (ax_row_type row)), (''timestamp'', Str stamp), (''account'', Str (ax_account row)),
      (''exchange'', Str (ax_exchange row)), (''product'', Str (ax_product row)), (''market_key'', Str (ax_market_key row)),
      (''order_id'', Str (ax_order_id row)), (''source'', Str (ax_source row)), (''order_tag'', ax_order_tag row),
      (''algo_role'', ax_algo_role row), (''operator'', Str (ax_operator row)), (''strategy'', Str (ax_strategy row)),
      (''leg_id'', Str (ax_leg_id row)), (''side'', Str (ax_side row)), (''price'', ax_price row), (''size'', ax_size row),
      (''status'', Str (ax_status row)), (''pnl'', Num (ax_pnl row)), (''notional'', Num (ax_notional row)),
      (''order_details'', Str (ax_order_details row))]) (toISOString (ax_timestamp row))"

fun all_results :: "'a js_result list \<Rightarrow> 'a list js_result" where
  "all_results [] = Inr []"
| "all_results (r # rs) = (case r of Inl e \<Rightarrow> Inl e | Inr x \<Rightarrow> map_sum id (\<lambda>xs. x # xs) (all_results rs))"

definition exportOrders :: "orders_view \<Rightarrow> account_row list \<Rightarrow> string js_result" where
  "exportOrders v rows = map_sum id (exportCsv order_headers) (all_results (map order_export (visible_orders v rows)))"

subsection \<open>The panel of positions and orders\<close>

text \<open>What the panel reads of the payload it has pulled.\<close>

record panel_data =
  pd_service :: string
  pd_positions :: "jobj list option"
  pd_orders :: "jobj list option"
  pd_summary :: "jobj option"
  pd_fetchedAt :: string

record panel_view =
  pv_filter :: string
  pv_sort :: string
  pv_actionStatus :: string

definition backendReadModelReady :: "panel_data option \<Rightarrow> bool" where
  "backendReadModelReady data = (map_option pd_service data = Some ''cerious.order-state'')"

definition livePositionRows ::
    "product_option dict \<Rightarrow> sim_position list \<Rightarrow> cerious_position list js_result" where
  "livePositionRows byKey simPositions = all_results (map (\<lambda>p. simPositionToCeriousPositionRow p (dict_get byKey (sp_marketKey p)))
     (filter (\<lambda>p. sp_status p = ''open'') simPositions))"

definition order_works :: "sim_order \<Rightarrow> bool" where
  "order_works order \<longleftrightarrow> so_status order = ''working'' \<or> so_status order = ''partially_filled''"

definition liveOrderRows ::
    "jsnum \<Rightarrow> product_option dict \<Rightarrow> sim_order list \<Rightarrow> cerious_order list js_result" where
  "liveOrderRows now byKey simOrders = all_results (map (\<lambda>o1. simOrderToCeriousOrderRow now o1 (dict_get byKey (so_marketKey o1)))
     (filter order_works simOrders))"

definition liveFillCount :: "poly_trade_tick list dict \<Rightarrow> nat" where
  "liveFillCount fillsByMarket =
     sum_list (map (\<lambda>(k, fills). length (filter (\<lambda>fill. isAccountFillTick (pt_rest fill)) fills)) (own_entries fillsByMarket))"

definition liveUpdatedMs :: "sim_order list \<Rightarrow> sim_position list \<Rightarrow> poly_trade_tick list dict \<Rightarrow> jsnum" where
  "liveUpdatedMs simOrders simPositions fillsByMarket =
     fold (\<lambda>t latest. math_max latest (or_zero t))
       (map so_updatedAt simOrders @ map (\<lambda>p. get_or (sp_closedAt p) (sp_openedAt p)) simPositions
        @ concat (map (\<lambda>(k, fills). map pt_timestamp fills) (own_entries fillsByMarket))) (Fin 0)"

definition updatedMs :: "(string \<Rightarrow> jsnum) \<Rightarrow> panel_data option \<Rightarrow> jsnum \<Rightarrow> jsnum" where
  "updatedMs date_parse data live =
     math_max (or_zero (date_parse (case data of None \<Rightarrow> [] | Some d \<Rightarrow> pd_fetchedAt d))) live"

text \<open>The rows as objects: rows of the store pass the same normalisation as those of the service.\<close>

definition position_obj :: "cerious_position \<Rightarrow> jobj" where
  "position_obj p = [(''instrumentId'', Str (cp_instrumentId p)), (''label'', opt_str (cp_label p)), (''qty'', Num (cp_qty p)),
     (''avgPrice'', Num (cp_avgPrice p)), (''markPrice'', Num (cp_markPrice p)), (''markLive'', Bool (cp_markLive p)),
     (''openPnl'', Num (cp_openPnl p)), (''realizedPnl'', opt_num (cp_realizedPnl p)), (''account'', opt_str (cp_account p)),
     (''lastFillAt'', opt_str (cp_lastFillAt p)), (''fillCount'', opt_num (cp_fillCount p))]"

definition order_obj :: "cerious_order \<Rightarrow> jobj" where
  "order_obj r = [(''id'', Str (co_id r)), (''instrumentId'', Str (co_instrumentId r)), (''label'', opt_str (co_label r)),
     (''side'', Str (co_side r)), (''qty'', Num (co_qty r)), (''price'', Num (co_price r)), (''status'', Str (co_status r)),
     (''held'', Bool (co_held r)), (''source'', opt_str (co_source r)), (''orderClass'', opt_str (co_orderClass r)),
     (''orderType'', opt_str (co_orderType r)), (''algoName'', opt_str (co_algoName r)),
     (''algoLegRole'', opt_str (co_algoLegRole r)), (''updatedAt'', opt_str (co_updatedAt r))]"

definition position_key :: "string \<Rightarrow> cerious_position \<Rightarrow> string" where
  "position_key lead p = join_with ''-'' [lead, cp_instrumentId p, get_or (cp_account p) [], get_or (cp_label p) []]"

definition allPositionRows :: "panel_data option \<Rightarrow> cerious_position list \<Rightarrow> cerious_position list" where
  "allPositionRows data live =
     (let put = (\<lambda>lead p d. dict_set (position_key lead p) p d);
          served = map normalizeCeriousPositionRow (get_or (Option.bind data pd_positions) []);
          own = (if backendReadModelReady data then [] else map (normalizeCeriousPositionRow \<circ> position_obj) live)
      in map snd (fold (put ''sim'') own (fold (put ''backend'') served [])))"

definition allOrderRows :: "panel_data option \<Rightarrow> cerious_order list \<Rightarrow> cerious_order list js_result" where
  "allOrderRows data live =
     map_sum id (latest_by co_id)
       (all_results (map normalizeCeriousOrderRow (get_or (Option.bind data pd_orders) []
          @ (if backendReadModelReady data then [] else map order_obj live))))"

definition rowMatches :: "string \<Rightarrow> jobj \<Rightarrow> bool" where
  "rowMatches query row \<longleftrightarrow> query = []
     \<or> list_ex (\<lambda>(k, v). str_includes query (to_lower (to_str (coalesce v (Str []))))) row"

definition panel_query :: "panel_view \<Rightarrow> string" where
  "panel_query v = to_lower (trim (pv_filter v))"

definition panel_positions ::
    "(string \<Rightarrow> string \<Rightarrow> int) \<Rightarrow> (string \<Rightarrow> jsnum) \<Rightarrow> panel_view \<Rightarrow> cerious_position list \<Rightarrow> cerious_position list" where
  "panel_positions lc date_parse v rows =
     sort_js (if pv_sort v = ''qty'' then before_desc (\<lambda>p. math_abs (or_zero (cp_qty p)))
        else if pv_sort v = ''openPnl'' then before_desc (\<lambda>p. or_zero (cp_openPnl p))
        else if pv_sort v = ''updated'' then before_desc (\<lambda>p. date_parse (get_or (cp_lastFillAt p) []))
        else (\<lambda>p q. lc (cp_instrumentId p) (cp_instrumentId q) \<le> 0))
       (filter (\<lambda>p. rowMatches (panel_query v) (position_obj p)) rows)"

definition panel_orders ::
    "(string \<Rightarrow> string \<Rightarrow> int) \<Rightarrow> (string \<Rightarrow> jsnum) \<Rightarrow> panel_view \<Rightarrow> cerious_order list \<Rightarrow> cerious_order list" where
  "panel_orders lc date_parse v rows =
     sort_js (if pv_sort v = ''qty'' then before_desc (\<lambda>r. math_abs (or_zero (co_qty r)))
        else if pv_sort v = ''updated'' then before_desc (\<lambda>r. date_parse (get_or (co_updatedAt r) []))
        else (\<lambda>r q. lc (co_instrumentId r) (co_instrumentId q) \<le> 0))
       (filter (\<lambda>r. rowMatches (panel_query v) (order_obj r)) rows)"

text \<open>A cancel in the panel. \<open>refreshed\<close> is the store after the pull that follows an accepted cancel.\<close>

definition cancelOrder ::
    "jsnum \<Rightarrow> order_reply service_answer \<Rightarrow> (terminal_state \<Rightarrow> terminal_state) \<Rightarrow> string \<Rightarrow> panel_view \<times> terminal_state
       \<Rightarrow> (panel_view \<times> terminal_state) \<times> string list" where
  "cancelOrder now a refreshed orderId vs =
     (let s = snd vs; says = (\<lambda>m. (fst vs)\<lparr>pv_actionStatus := m\<rparr>) in
      if orderId = [] \<or> orderId = ''-'' then (vs, [])
      else if orderId \<in> set (map so_id (ts_simOrders s)) then
        (let r = cancelSharedOrder now a s
         in ((says (case fst r of
               Inr _ \<Rightarrow> ''Cancelled order '' @ orderId
             | Inl m \<Rightarrow> ''Cancel failed '' @ orderId @ '': '' @ get_or m ''gateway unavailable''), snd r), [orderId]))
      else (case a of
          RequestFailed m \<Rightarrow> ((says (''Cancel failed: '' @ get_or m ''unknown error''), s), [orderId])
        | ServiceAnswer ok status reply \<Rightarrow>
            if ok then ((says (''Cancel routed for '' @ orderId), refreshed s), [orderId])
            else ((says (''Cancel failed: HTTP '' @ num_text status), s), [orderId])))"

definition cancelAll ::
    "jsnum \<Rightarrow> order_reply service_answer \<Rightarrow> (terminal_state \<Rightarrow> terminal_state) \<Rightarrow> nat \<Rightarrow> panel_view \<times> terminal_state
       \<Rightarrow> panel_view \<times> terminal_state" where
  "cancelAll now a refreshed shown vs =
     (let s = snd vs; says = (\<lambda>m. (fst vs)\<lparr>pv_actionStatus := m\<rparr>) in
      case a of
        RequestFailed m \<Rightarrow> (says (''Cancel-all failed: '' @ get_or m ''unknown error''), s)
      | ServiceAnswer ok status reply \<Rightarrow>
          if \<not> ok then (says (''Cancel-all failed: HTTP '' @ num_text status), s)
          else (let backendCount = to_num (coalesce (oget (or_body reply) ''count'') (Num (Fin 0)));
                    count = (if num_truthy backendCount then backendCount else num_of_int (int shown))
                in (says (''Cancel-all routed for '' @ num_text count @ '' working order(s)''),
                    refreshed (apply_reply_state now (or_state reply) s))))"

record panel_summary =
  sm_positionCount :: jsnum
  sm_workingOrderCount :: jsnum
  sm_fillCount :: jsnum
  sm_openPnl :: jsnum
  sm_closedPnl :: jsnum
  sm_totalPnl :: jsnum
  sm_maxDrawdown :: jsnum

definition panel_summary_of :: "panel_data option \<Rightarrow> nat \<Rightarrow> panel_summary" where
  "panel_summary_of data fills =
     (let served = get_or (Option.bind data pd_summary) [];
          number = (\<lambda>keys d. to_num (coalesce (oget_any served keys) (Num d)))
      in \<lparr>sm_positionCount = number [''positionCount''] (Fin 0), sm_workingOrderCount = number [''workingOrderCount''] (Fin 0),
          sm_fillCount = number [''fillCount''] (num_of_int (int fills)), sm_openPnl = number [''openPnl''] (Fin 0),
          sm_closedPnl = number [''closedPnl''] (Fin 0), sm_totalPnl = number [''totalPnl'', ''currentPnl''] (Fin 0),
          sm_maxDrawdown = number [''maxDrawdown''] (Fin 0)\<rparr>)"

subsection \<open>Which orders the windows list\<close>

lemma order_row_simps [simp]:
  "ax_row_type (order_row now ps opt o1) = ''order''" "ax_provider (order_row now ps opt o1) = ''sim''"
  "ax_status (order_row now ps opt o1) = so_status o1" "ax_order_id (order_row now ps opt o1) = so_id o1"
  by (simp_all add: order_row_def Let_def)

lemma mset_order_rows:
  "mset (order_rows now options simOrders simPositions operatorName definitions)
     = mset (map (\<lambda>o1. order_row now simPositions (dict_get (productLookup options) (so_marketKey o1)) o1) simOrders)"
proof -
  have all: "filter_mset (\<lambda>row. ax_row_type row = ''order'') (mset (map (\<lambda>o1. order_row now simPositions (f o1) o1) os))
      = mset (map (\<lambda>o1. order_row now simPositions (f o1) o1) os)" for f os
    by (induction os) simp_all
  have none: "own_entries ([] :: (string \<times> poly_trade_tick list) list) = []" by (simp add: own_entries_def)
  show ?thesis
    using all [of "\<lambda>o1. dict_get (productLookup options) (so_marketKey o1)" simOrders]
    by (simp add: order_rows_def buildExecutionRows_def none Let_def)
qed

lemma open_status_ok:
  assumes "order_ok o1" shows "openStatus (so_status o1) \<longleftrightarrow> so_status o1 = ''working''"
proof -
  have "openStatus ''working''" "\<not> openStatus ''partially_filled''" "\<not> openStatus ''filled''" "\<not> openStatus ''cancelled''"
    by code_simp+
  moreover have "so_status o1 = ''working'' \<or> so_status o1 = ''partially_filled'' \<or> so_status o1 = ''filled'' \<or> so_status o1 = ''cancelled''"
    using assms unfolding order_ok_def by blast
  moreover have "''partially_filled'' \<noteq> ''working''" "''filled'' \<noteq> ''working''" "''cancelled'' \<noteq> ''working''" by simp_all
  ultimately show ?thesis by metis
qed

lemma length_all_results: "all_results rs = Inr xs \<Longrightarrow> length xs = length rs"
proof (induction rs arbitrary: xs)
  case (Cons r rs)
  then show ?case by (cases r; cases "all_results rs") auto
qed simp

text \<open>The states that the filter of the window offers.\<close>

definition status_choices :: "string list" where
  "status_choices = [''working'', ''all'', ''open'', ''pending'', ''closed'']"

lemma status_shown:
  assumes "order_ok o1" and "f \<in> set status_choices"
  shows "(f = ''all'' \<or> (if f = ''working'' then openStatus (so_status o1) else to_lower (so_status o1) = f))
    \<longleftrightarrow> f = ''all'' \<or> f = ''working'' \<and> so_status o1 = ''working''"
proof -
  have all: "list_all (\<lambda>st. list_all (\<lambda>f.
      (f = ''all'' \<or> (if f = ''working'' then openStatus st else to_lower st = f)) = (f = ''all'' \<or> f = ''working'' \<and> st = ''working''))
      status_choices) [''working'', ''partially_filled'', ''filled'', ''cancelled'']" by code_simp
  have "so_status o1 \<in> set [''working'', ''partially_filled'', ''filled'', ''cancelled'']"
    using assms(1) by (simp only: order_ok_def list.set insert_iff)
  then show ?thesis using all assms(2) by (simp only: list_all_iff)
qed


subsection \<open>Every id once\<close>

text \<open>The panel lists every order id once, with its last row: a row of the store takes the place of the
  service's row of that id, and with the service's read model in charge the rows of the store are left out.\<close>

theorem panel_lists_orders_once:
  assumes "allOrderRows data live = Inr rows" and "served = get_or (Option.bind data pd_orders) []"
    and "all_results (map normalizeCeriousOrderRow (served @ (if backendReadModelReady data then [] else map order_obj live))) = Inr given"
  shows "distinct (map co_id rows) \<and> set rows \<subseteq> set given \<and> by_key co_id rows = by_key co_id (rev given)"
proof -
  have "rows = latest_by co_id given" using assms by (auto simp: allOrderRows_def)
  then show ?thesis using latest_by_subset [of co_id given] latest_by_map [of co_id given] latest_by_distinct [of co_id given] by blast
qed

text \<open>A cancel-all that cancelled nothing is reported with the number of orders on the screen.\<close>

lemma cancel_all_reports_shown:
  assumes "oget (or_body reply) ''count'' = Num (Fin 0)"
  shows "pv_actionStatus (fst (cancelAll now (ServiceAnswer True status reply) refreshed shown vs))
    = ''Cancel-all routed for '' @ num_text (num_of_int (int shown)) @ '' working order(s)''"
  using assms by (simp add: cancelAll_def num_truthy_def jeq_finite coalesce_def nullish_def Let_def)

subsection \<open>At a concrete input\<close>

definition partial_order1 :: sim_order where
  "partial_order1 = \<lparr>so_id = ''o1'', so_marketKey = ''ES'', so_outcome = ''yes'', so_side = ''bid'', so_orderType = ''limit'',
     so_price = Fin 5000, so_size = Fin 10, so_remaining = Fin 6, so_filledSize = Fin 4, so_matchedVolume = Fin 4,
     so_status = ''partially_filled'', so_createdAt = Fin 0, so_updatedAt = Fin 0, so_operator = ''op'',
     so_source = ''manual'', so_strategy = ''manual'', so_legId = ''l1'', so_rest = []\<rparr>"

lemma partial_order1_ok: "order_ok partial_order1"
  by (simp add: order_ok_def partial_order1_def)

lemma partial_order1_listed: "\<exists>r. liveOrderRows now byKey [partial_order1] = Inr [r]"
  using iso_examples(1)
  by (simp add: liveOrderRows_def order_works_def simOrderToCeriousOrderRow_def executionNumber_def partial_order1_def Let_def)


definition twice_rows :: "jobj list" where
  "twice_rows = [[(''id'', Str ''o1'')], [(''orderId'', Str ''o1''), (''side'', Str ''buy'')]]"

definition twice_served :: panel_data where
  "twice_served = \<lparr>pd_service = ''gateway'', pd_positions = None, pd_orders = Some twice_rows, pd_summary = None, pd_fetchedAt = []\<rparr>"

lemma twice_served_rows: "\<exists>given. all_results (map normalizeCeriousOrderRow twice_rows) = Inr given \<and> co_id ` set given = {''o1''}"
  by (simp add: twice_rows_def normalizeCeriousOrderRow_def coalesce_def nullish_def Let_def)

lemma panel_lists_orders_once_witness:
  "\<exists>rows. allOrderRows (Some twice_served) [] = Inr rows \<and> distinct (map co_id rows) \<and> co_id ` set rows \<subseteq> {''o1''}"
proof -
  from twice_served_rows obtain given where g: "all_results (map normalizeCeriousOrderRow twice_rows) = Inr given"
      "co_id ` set given = {''o1''}" by (elim exE conjE)
  have served: "get_or (Option.bind (Some twice_served) pd_orders) [] = twice_rows" by (simp add: twice_served_def get_or_def)
  have a: "all_results (map normalizeCeriousOrderRow (get_or (Option.bind (Some twice_served) pd_orders) []
      @ (if backendReadModelReady (Some twice_served) then [] else map order_obj []))) = Inr given"
    by (simp only: served list.map(1) if_cancel append_Nil2 g(1))
  then have r: "allOrderRows (Some twice_served) [] = Inr (latest_by co_id given)"
    by (simp only: allOrderRows_def map_sum.simps)
  have "set (latest_by co_id given) \<subseteq> set given" "distinct (map co_id (latest_by co_id given))"
    using panel_lists_orders_once [OF r refl a] by simp_all
  with r show ?thesis using image_mono [of "set (latest_by co_id given)" "set given" co_id] by (metis g(2))
qed

end
