(* ===== verification/AlgoBuilder.thy ===== *)
theory AlgoBuilder
  imports AlgoHook
begin

text \<open>
  The algo builder of \<open>apps/terminal/src/components/WorkspaceCanvas.tsx\<close>: its draft, the edits of the
  draft, and saving it to the library. A patch of a nested object is a dictionary that is spread over it;
  the draft on the screen is the current one. Main results: what every saved definition satisfies and that
  the library holds it once and everything else as before; that an edit of the price reference has no
  effect on what is saved.
\<close>

subsection \<open>The draft\<close>

definition draft_obj :: "algo_definition \<Rightarrow> jobj" where
  "draft_obj draft = as_obj (algo_obj draft)"

definition ceriousDraft :: "algo_definition \<Rightarrow> cerious_fields" where
  "ceriousDraft draft = normalizeCeriousFields (draft_obj draft) (get_or (ad_marketKey draft) (ad_symbol draft))"

definition sync_draft ::
    "string \<Rightarrow> string \<Rightarrow> product_option option \<Rightarrow> string \<Rightarrow> algo_definition \<Rightarrow> algo_definition" where
  "sync_draft provider symbol selectedOption operatorName current = current\<lparr>
     ad_provider := provider, ad_symbol := symbol, ad_marketKey := Option.bind selectedOption po_marketKey,
     ad_name := (if ad_name current \<noteq> [] then ad_name current
       else get_or (Option.bind selectedOption po_asset) symbol @ '' Mean Reversion''),
     ad_operator := operatorName\<rparr>"

definition sniperMode :: "algo_definition \<Rightarrow> bool" where
  "sniperMode draft =
     (let f = ceriousDraft draft;
          policy = get_or (ad_orderPolicy draft) (cf_orderPolicy f);
          manager = get_or (ad_syntheticOrderManager draft) (cf_syntheticOrderManager f)
      in str_includes ''sniper'' (to_lower (to_str (js_or (js_or (oget policy ''mode'') (oget manager ''entryTechnique'')) (Str [])))))"

subsection \<open>Edits\<close>

definition set_name :: "string \<Rightarrow> algo_definition \<Rightarrow> algo_definition" where
  "set_name name current = current\<lparr>ad_name := name\<rparr>"

definition set_clip_size :: "jsnum \<Rightarrow> algo_definition \<Rightarrow> algo_definition" where
  "set_clip_size n current = current\<lparr>ad_clipSize := n\<rparr>"

definition set_max_position :: "jsnum \<Rightarrow> algo_definition \<Rightarrow> algo_definition" where
  "set_max_position n current = current\<lparr>ad_maxPosition := n,
     ad_risk := Some (dict_set ''maxPosition'' (Num n) (get_or (ad_risk current) (cf_risk (ceriousDraft current))))\<rparr>"

definition setTemplate :: "product_option option \<Rightarrow> string \<Rightarrow> algo_definition \<Rightarrow> algo_definition" where
  "setTemplate selectedOption template current =
     (let symbolKey = get_or (Option.bind selectedOption po_marketKey) (ad_symbol current);
          filled = (if template = ''mean-reversion-v2''
            then with_fields (normalizeCeriousFields (draft_obj current) symbolKey) current else current)
      in filled\<lparr>ad_template := template, ad_templateId := Some template\<rparr>)"

definition updateRule :: "nat \<Rightarrow> (algo_signal_rule \<Rightarrow> algo_signal_rule) \<Rightarrow> algo_definition \<Rightarrow> algo_definition" where
  "updateRule index patch current =
     (let rules = get_or (ad_signalRules current) (cf_signalRules (ceriousDraft current))
      in current\<lparr>ad_signalRules := Some (rules[index := patch (rules ! index)])\<rparr>)"

definition updateRisk :: "jobj \<Rightarrow> algo_definition \<Rightarrow> algo_definition" where
  "updateRisk patch current = current\<lparr>ad_risk := Some (dict_spread (get_or (ad_risk current) (cf_risk (ceriousDraft current))) patch)\<rparr>"

definition updateEntryPeg :: "jobj \<Rightarrow> algo_definition \<Rightarrow> algo_definition" where
  "updateEntryPeg patch current =
     current\<lparr>ad_entryPeg := Some (dict_spread (get_or (ad_entryPeg current) (cf_entryPeg (ceriousDraft current))) patch)\<rparr>"

definition updateLayerPlan :: "jobj \<Rightarrow> algo_definition \<Rightarrow> algo_definition" where
  "updateLayerPlan patch current =
     current\<lparr>ad_layerPlan := Some (dict_spread (get_or (ad_layerPlan current) (cf_layerPlan (ceriousDraft current))) patch)\<rparr>"

definition updateExitPolicy :: "jobj \<Rightarrow> algo_definition \<Rightarrow> algo_definition" where
  "updateExitPolicy patch current =
     current\<lparr>ad_exitPolicy := Some (dict_spread (get_or (ad_exitPolicy current) (cf_exitPolicy (ceriousDraft current))) patch)\<rparr>"

definition updateOrderPolicy :: "jobj \<Rightarrow> algo_definition \<Rightarrow> algo_definition" where
  "updateOrderPolicy patch current =
     current\<lparr>ad_orderPolicy := Some (dict_spread (get_or (ad_orderPolicy current) (cf_orderPolicy (ceriousDraft current))) patch)\<rparr>"

definition setSniperMode :: "bool \<Rightarrow> algo_definition \<Rightarrow> algo_definition" where
  "setSniperMode enabled current =
     (let f = ceriousDraft current in current\<lparr>ad_orderType := ''limit'',
        ad_syntheticOrderManager := Some (dict_set ''holdUntilTriggered'' (Bool enabled)
          (dict_set ''entryTechnique'' (Str (if enabled then ''sniper-market-if-target-price-achievable'' else ''regular-limit''))
            (get_or (ad_syntheticOrderManager current) (cf_syntheticOrderManager f)))),
        ad_orderPolicy := Some (dict_set ''orderType'' (Str (if enabled then ''synthetic-held-market-release'' else ''limit''))
          (dict_set ''mode'' (Str (if enabled then ''synthetic-sniper'' else ''regular-limit''))
            (get_or (ad_orderPolicy current) (cf_orderPolicy f))))\<rparr>)"

subsection \<open>Saving\<close>

definition save_side :: "jobj \<Rightarrow> string" where
  "save_side layerPlan =
     (let buys = truthy (oget layerPlan ''workBuySide''); sells = truthy (oget layerPlan ''workSellSide'')
      in if buys \<and> sells then ''both'' else if buys then ''bid'' else if sells then ''offer'' else ''both'')"

definition save_symbol :: "string \<Rightarrow> product_option option \<Rightarrow> string" where
  "save_symbol symbol selectedOption = get_or (Option.bind selectedOption po_marketKey) symbol"

definition saved_algo ::
    "jsnum \<Rightarrow> string \<Rightarrow> string \<Rightarrow> product_option option \<Rightarrow> string \<Rightarrow> string \<Rightarrow> algo_definition \<Rightarrow> algo_definition" where
  "saved_algo now provider symbol selectedOption operatorName status draft =
     (let key = save_symbol symbol selectedOption;
          f = normalizeCeriousFields (draft_obj (draft\<lparr>ad_instruments :=
            Some (case ad_instruments draft of None \<Rightarrow> [key] | Some xs \<Rightarrow> if xs = [] then [key] else xs)\<rparr>)) key
      in (with_fields f draft)\<lparr>
        ad_id := (if ad_id draft \<noteq> [] then ad_id draft else ''algo-'' @ num_text now),
        ad_provider := provider, ad_symbol := key, ad_marketKey := Some key, ad_instruments := Some [key],
        ad_side := save_side (cf_layerPlan f),
        ad_entryPeg := Some (dict_set ''source'' (Str ''linear-regression'') (cf_entryPeg f)),
        ad_orderPolicy := Some (dict_set ''priceReference'' (Str ''linear-regression'') (cf_orderPolicy f)),
        ad_operator := operatorName, ad_status := (if status = ''draft'' then ''draft'' else ''held''), ad_updatedAt := now\<rparr>)"

text \<open>The library after the save with its storage and what is announced, what is sent to the algo service,
  and the new draft.\<close>

definition saveAlgoDraft ::
    "(string \<Rightarrow> string \<Rightarrow> int) \<Rightarrow> jsnum \<Rightarrow> string \<Rightarrow> string \<Rightarrow> product_option option \<Rightarrow> string \<Rightarrow> string \<Rightarrow> algo_definition
       \<Rightarrow> algo_definition list \<Rightarrow> storage \<Rightarrow> (algo_definition list \<times> storage \<times> algo_definition list) \<times> algo_definition \<times> algo_definition" where
  "saveAlgoDraft lc now provider symbol selectedOption operatorName status draft algos st =
     (let saved = saved_algo now provider symbol selectedOption operatorName status draft
      in (commit_algos lc (upsertAlgo now saved) algos st, saved, defaultAlgo now selectedOption operatorName))"

lemma save_side_cases: "save_side plan \<in> {''bid'', ''offer'', ''both''}"
    "save_side plan = ''both'' \<longleftrightarrow> truthy (oget plan ''workBuySide'') = truthy (oget plan ''workSellSide'')"
    "save_side plan = ''bid'' \<longleftrightarrow> truthy (oget plan ''workBuySide'') \<and> \<not> truthy (oget plan ''workSellSide'')"
    "save_side plan = ''offer'' \<longleftrightarrow> \<not> truthy (oget plan ''workBuySide'') \<and> truthy (oget plan ''workSellSide'')"
  by (auto simp: save_side_def Let_def)

text \<open>The layer plan of the draft is the one that is saved, filled up by the defaults.\<close>

lemma saved_layer_plan:
  assumes "ad_layerPlan draft = Some p" "dict_get p k = Some v" "dict_wf p"
  shows "\<exists>plan. ad_layerPlan (saved_algo now provider symbol selectedOption operatorName status draft) = Some plan \<and> oget plan k = v"
proof -
  have "map_of (rev p) k = Some v" 
    by (rule map_of_is_SomeI) (use assms(2,3) in \<open>auto simp: dict_wf_def rev_map [symmetric] dest: map_of_SomeD\<close>)
  moreover have "oget (draft_obj (draft\<lparr>ad_instruments := x\<rparr>)) ''layerPlan'' = Obj p" for x
    using assms(1) by (simp add: draft_obj_def algo_obj_def as_obj_def oget_def opt_obj_def)
  ultimately show ?thesis
    by (simp add: saved_algo_def with_fields_def normalizeCeriousFields_def Let_def mergeObject_def object_like_def is_object_def
        is_array_def spread_entries_def oget_def dict_get_spread)
qed

lemma oget_dict_set_same: "oget (dict_set k v d) k = v"
  by (simp add: oget_def dict_get_set)

text \<open>C27. Every definition that is saved has an id, the symbol as its only instrument, the linear regression as
  its entry and its price reference, and is a draft or held; its layer plan keeps every choice of the draft, and it
  bids when only the buy side is ticked there, offers when only the sell side is, and works both sides when both or
  neither is. The library holds it once under its id, every other definition as before, and nothing else.\<close>

theorem saved_definition_ok:
  assumes "saveAlgoDraft lc now provider symbol selectedOption operatorName status draft algos st = ((algos', st', heard), saved, draft')"
  shows "ad_id saved \<noteq> [] \<and> ad_symbol saved = save_symbol symbol selectedOption \<and> ad_instruments saved = Some [ad_symbol saved]
    \<and> ad_status saved \<in> {''draft'', ''held''} \<and> heard = algos' \<and> ad_status draft' = ''held''
    \<and> (\<exists>peg policy plan. ad_entryPeg saved = Some peg \<and> oget peg ''source'' = Str ''linear-regression''
        \<and> ad_orderPolicy saved = Some policy \<and> oget policy ''priceReference'' = Str ''linear-regression''
        \<and> ad_layerPlan saved = Some plan
        \<and> (\<forall>p k v. ad_layerPlan draft = Some p \<and> dict_wf p \<and> dict_get p k = Some v \<longrightarrow> oget plan k = v)
        \<and> (let buys = truthy (oget plan ''workBuySide''); sells = truthy (oget plan ''workSellSide'') in
            (ad_side saved = ''bid'' \<longleftrightarrow> buys \<and> \<not> sells) \<and> (ad_side saved = ''offer'' \<longleftrightarrow> sells \<and> \<not> buys)
            \<and> (ad_side saved = ''both'' \<longleftrightarrow> buys = sells)))
    \<and> ad_provider saved = provider \<and> ad_operator saved = operatorName \<and> ad_updatedAt saved = now
    \<and> mset algos' = add_mset saved (filter_mset (\<lambda>item. ad_id item \<noteq> ad_id saved) (mset algos))"
proof -
  have saved: "saved = saved_algo now provider symbol selectedOption operatorName status draft"
    and algos: "algos' = sortAlgoDefinitions lc (upsertAlgo now saved algos)" "heard = algos'"
    and draft: "draft' = defaultAlgo now selectedOption operatorName"
    using assms by (auto simp: saveAlgoDraft_def commit_algos_def publishAlgoLibrary_def Let_def)
  have "saved\<lparr>ad_updatedAt := now\<rparr> = saved" by (simp add: saved saved_algo_def Let_def)
  then have "mset algos' = add_mset saved (filter_mset (\<lambda>item. ad_id item \<noteq> ad_id saved) (mset algos))"
    by (simp add: algos sortAlgoDefinitions_def upsertAlgo_def)
  moreover have "\<exists>peg policy plan. ad_entryPeg saved = Some peg \<and> oget peg ''source'' = Str ''linear-regression''
        \<and> ad_orderPolicy saved = Some policy \<and> oget policy ''priceReference'' = Str ''linear-regression''
        \<and> ad_layerPlan saved = Some plan
        \<and> (\<forall>p k v. ad_layerPlan draft = Some p \<and> dict_wf p \<and> dict_get p k = Some v \<longrightarrow> oget plan k = v)
        \<and> (let buys = truthy (oget plan ''workBuySide''); sells = truthy (oget plan ''workSellSide'') in
            (ad_side saved = ''bid'' \<longleftrightarrow> buys \<and> \<not> sells) \<and> (ad_side saved = ''offer'' \<longleftrightarrow> sells \<and> \<not> buys)
            \<and> (ad_side saved = ''both'' \<longleftrightarrow> buys = sells))"
  proof -
    obtain peg policy plan where f: "ad_entryPeg saved = Some peg" "oget peg ''source'' = Str ''linear-regression''"
        "ad_orderPolicy saved = Some policy" "oget policy ''priceReference'' = Str ''linear-regression''"
        "ad_layerPlan saved = Some plan" "ad_side saved = save_side plan"
      by (simp add: saved saved_algo_def Let_def with_fields_def oget_dict_set_same)
    moreover have "oget plan k = v" if "ad_layerPlan draft = Some p" "dict_wf p" "dict_get p k = Some v" for p k v
      using saved_layer_plan [OF that(1,3,2), of now provider symbol selectedOption operatorName status] f(5) by (auto simp: saved)
    ultimately show ?thesis by (auto simp: Let_def save_side_cases)
  qed
  moreover have "ad_id saved \<noteq> []" "ad_symbol saved = save_symbol symbol selectedOption" "ad_instruments saved = Some [ad_symbol saved]"
      "ad_status saved \<in> {''draft'', ''held''}" "ad_provider saved = provider" "ad_operator saved = operatorName" "ad_updatedAt saved = now"
    by (simp_all add: saved saved_algo_def Let_def)
  moreover have "ad_status draft' = ''held''" by (simp add: draft defaultAlgo_def Let_def)
  ultimately show ?thesis using algos(2) by blast
qed

subsection \<open>The price reference\<close>

lemma dict_set_twice [simp]: "dict_set k v (dict_set k w d) = dict_set k v d"
  by (induction d) auto

lemma dict_set_swap: "k \<noteq> k' \<Longrightarrow> k \<in> fst ` set d \<Longrightarrow> dict_set k v (dict_set k' w d) = dict_set k' w (dict_set k v d)"
proof (induction d)
  case (Cons e d)
  then show ?case by (cases e) auto
qed simp

lemma fst_dict_set: "fst ` set (dict_set k v d) = insert k (fst ` set d)"
  using keys_dict_set [of k v d] by simp

lemma spread_absorbs: "k \<in> fst ` set d \<Longrightarrow> dict_set k v (dict_spread (dict_set k w d) e) = dict_set k v (dict_spread d e)"
proof (induction e arbitrary: d)
  case (Cons kv e)
  obtain k' w' where kv: "kv = (k', w')" by (cases kv)
  show ?case
  proof (cases "k' = k")
    case False
    with Cons.IH [of "dict_set k' w' d"] Cons.prems show ?thesis
      by (simp add: kv dict_spread_def dict_set_swap [of k k' d w w'] fst_dict_set)
  qed (simp add: kv dict_spread_def)
qed (simp add: dict_spread_def)

lemma spread_forced: "k \<in> fst ` set d \<Longrightarrow> dict_set k v (dict_spread d (dict_set k w e)) = dict_set k v (dict_spread d e)"
proof (induction e arbitrary: d)
  case (Cons kv e)
  obtain k' w' where kv: "kv = (k', w')" by (cases kv)
  show ?case
  proof (cases "k' = k")
    case True
    then show ?thesis using spread_absorbs [OF Cons.prems, of v _ e] by (simp add: kv dict_spread_def)
  next
    case False
    then show ?thesis using Cons.IH [of "dict_set k' w' d"] Cons.prems by (simp add: kv dict_spread_def fst_dict_set)
  qed
qed (simp add: dict_spread_def)

lemma migrated_forced:
  assumes "''priceReference'' \<in> fst ` set defaults"
  shows "dict_set ''priceReference'' v (migrated_order_policy defaults (Obj (dict_set ''priceReference'' w p)))
    = dict_set ''priceReference'' v (migrated_order_policy defaults (Obj p))"
  using spread_forced [OF assms, of v w p]
  by (simp add: migrated_order_policy_def mergeObject_def object_like_def is_object_def is_array_def spread_entries_def Let_def)

lemma draft_with_policy:
  "oget (draft_obj (draft\<lparr>ad_orderPolicy := Some p\<rparr>)) k = (if k = ''orderPolicy'' then Obj p else oget (draft_obj draft) k)"
proof (cases "k = ''orderPolicy''")
  case True
  then show ?thesis by (simp add: draft_obj_def algo_obj_def as_obj_def oget_def opt_obj_def)
next
  case False
  then show ?thesis by (simp add: draft_obj_def algo_obj_def as_obj_def oget_def)
qed

lemma fields_with_policy:
  "normalizeCeriousFields (draft_obj (draft\<lparr>ad_orderPolicy := Some p\<rparr>)) s = (normalizeCeriousFields (draft_obj draft) s)\<lparr>cf_orderPolicy :=
     migrated_order_policy (cf_orderPolicy (defaultCeriousMeanReversionFields
       (if normalizeProductKey (Str s) = [] then ''ES_NQ'' else normalizeProductKey (Str s)))) (Obj p)\<rparr>"
  by (simp add: normalizeCeriousFields_def draft_with_policy Let_def)

lemma saved_with_policy:
  "saved_algo now provider symbol selectedOption operatorName status
      (draft\<lparr>ad_orderPolicy := Some (dict_set ''priceReference'' w p)\<rparr>)
    = saved_algo now provider symbol selectedOption operatorName status (draft\<lparr>ad_orderPolicy := Some p\<rparr>)"
proof -
  have key: "''priceReference'' \<in> fst ` set (cf_orderPolicy (defaultCeriousMeanReversionFields s))" for s
    by (simp add: defaultCeriousMeanReversionFields_def)
  have swap: "(draft\<lparr>ad_orderPolicy := x\<rparr>)\<lparr>ad_instruments := y\<rparr> = (draft\<lparr>ad_instruments := y\<rparr>)\<lparr>ad_orderPolicy := x\<rparr>" for x y
    by simp
  show ?thesis
    by (simp only: saved_algo_def Let_def algo_definition.select_convs algo_definition.update_convs swap fields_with_policy)
      (simp add: with_fields_def migrated_forced [OF key])
qed

text \<open>What is typed as the price reference of the order policy has no effect: the saved definition, the library
  and what the algo service is sent are the same whatever it is.\<close>

theorem price_reference_discarded:
  assumes "ad_orderPolicy draft = Some policy"
  shows "saveAlgoDraft lc now provider symbol selectedOption operatorName status
      (updateOrderPolicy [(''priceReference'', Str typed)] draft) algos st
    = saveAlgoDraft lc now provider symbol selectedOption operatorName status draft algos st"
proof -
  have "updateOrderPolicy [(''priceReference'', Str typed)] draft
      = draft\<lparr>ad_orderPolicy := Some (dict_set ''priceReference'' (Str typed) policy)\<rparr>"
    using assms by (simp add: updateOrderPolicy_def dict_spread_def get_or_def)
  moreover have "draft\<lparr>ad_orderPolicy := Some policy\<rparr> = draft" using assms by simp
  ultimately show ?thesis using saved_with_policy [where draft = draft and p = policy and w = "Str typed"] by (simp only: saveAlgoDraft_def)
qed

lemma saved_definition_ok_witness:
  "let r = saveAlgoDraft (\<lambda>s t. 0) (Fin 5) ''cme'' ''ES_NQ'' None ''op'' ''quoting'' (defaultAlgo (Fin 5) None ''op'') [] []
   in ad_status (fst (snd r)) \<in> {''draft'', ''held''} \<and> mset (fst (fst r)) = {#fst (snd r)#}"
proof -
  obtain algos' st' heard saved draft' where r: "saveAlgoDraft (\<lambda>s t. 0) (Fin 5) ''cme'' ''ES_NQ'' None ''op'' ''quoting''
      (defaultAlgo (Fin 5) None ''op'') [] [] = ((algos', st', heard), saved, draft')" by (metis surj_pair)
  from saved_definition_ok [OF r] have "ad_status saved \<in> {''draft'', ''held''}" "mset algos' = {#saved#}"
    by (simp_all only: mset.simps(1) filter_empty_mset)
  then show ?thesis by (simp only: r Let_def fst_conv snd_conv simp_thms)
qed

lemma price_reference_discarded_witness:
  "saveAlgoDraft (\<lambda>s t. 0) (Fin 5) ''cme'' ''ES_NQ'' None ''op'' ''held''
      (updateOrderPolicy [(''priceReference'', Str ''vwap'')] (defaultAlgo (Fin 5) None ''op'')) [] []
    = saveAlgoDraft (\<lambda>s t. 0) (Fin 5) ''cme'' ''ES_NQ'' None ''op'' ''held'' (defaultAlgo (Fin 5) None ''op'') [] []"
  by (rule price_reference_discarded) (simp only: defaultAlgo_def Let_def algo_definition.select_convs)

end
