(* ===== verification/DesktopShell.thy ===== *)
theory DesktopShell
  imports CanvasDesk
begin

text \<open>
  The desktop pages of \<open>apps/terminal/src/components/WorkspaceCanvas.tsx\<close>: the page of one window and the
  toolbar. An operation gives the new state and the list of what it sends, in order: requests, messages to
  the other pages, and commands to the desktop runtime. Its answers, and what is read from the runtime, are
  arguments; \<open>err\<close> is the message of a thrown error, \<open>query\<close> and \<open>enc\<close> read and write the query of a URL.
  Commands to the runtime are best effort in the code, so their failures do not show. Main results: loading a
  workspace opens each of its windows once and counts it as opened or failed; the services are shut down only
  after confirmation, save and reset, in this order; and a save keeps the windows that answered and no other.
\<close>

subsection \<open>Commands\<close>

datatype window_command =
    SetBounds jsnum jsnum jsnum jsnum
  | ShowAt jsnum jsnum
  | Minimize
  | ShowIt
  | Restore
  | Maximize
  | SetForeground

datatype shell_output =
    ShellRequest string jsv
  | ShellGet string
  | ShellAsk string
  | ShellBroadcast string string
  | ShellReply jsv
  | ShellLock string
  | ShellCreate jobj
  | ShellWindow "window_command list"
  | ShellCloseChild nat
  | ShellOpenPage string
  | ShellQuit
  | ShellCloseCurrent

definition showOpenFinWindow :: "window_bounds option \<Rightarrow> string \<Rightarrow> window_command list" where
  "showOpenFinWindow bounds state =
     (case bounds of None \<Rightarrow> [] | Some b \<Rightarrow>
        (let compact = jlt (bd_h b) (Fin 160); x = math_round (bd_x b); y = math_round (bd_y b)
         in SetBounds x y (math_max (Fin (if compact then 420 else 320)) (math_round (bd_w b)))
              (math_max (Fin (if compact then 72 else 220)) (math_round (bd_h b)))
            # (if state \<noteq> ''minimized'' then [ShowAt x y] else [])))
     @ (if state = ''minimized'' then [Minimize]
        else [ShowIt, Restore] @ (if state = ''maximized'' then [Maximize] else []) @ [SetForeground])"

text \<open>The options of a window: where it opens, whether it is shown, and the data that identify it.\<close>

definition create_options ::
    "(string \<Rightarrow> string) \<Rightarrow> string \<Rightarrow> string \<Rightarrow> string \<Rightarrow> jobj \<Rightarrow> jsnum \<times> jsnum \<Rightarrow> jsnum \<times> jsnum \<Rightarrow> string \<Rightarrow> jobj" where
  "create_options enc page icon name item xy wh state =
     [(''name'', Str (''cerious-'' @ to_str (oget item ''id''))), (''url'', Str (desktopWindowUrl enc page item)),
      (''x'', Num (fst xy)), (''y'', Num (snd xy)), (''width'', Num (fst wh)), (''height'', Num (snd wh)),
      (''defaultLeft'', Num (fst xy)), (''defaultTop'', Num (snd xy)), (''defaultWidth'', Num (fst wh)), (''defaultHeight'', Num (snd wh)),
      (''minWidth'', Num (Fin 320)), (''minHeight'', Num (Fin 220)), (''frame'', Bool True),
      (''autoShow'', Bool (state \<noteq> ''minimized'')), (''state'', Str state), (''saveWindowState'', Bool False),
      (''includeInSnapshots'', Bool False), (''showTaskbarIcon'', Bool True), (''waitForPageLoad'', Bool False), (''icon'', Str icon),
      (''customData'', Obj [(''ceriousClient'', Str ''openfin-desktop-window''), (''workspace'', Str name),
         (''windowId'', oget item ''id''), (''windowKind'', oget item ''kind''), (''provider'', oget item ''provider''),
         (''symbol'', oget item ''symbol''), (''authority'', Str ''server'')])]"

text \<open>Opening the windows of a workspace: \<open>created\<close> says for each whether its creation succeeded; the
  counts of the opened and of the failed ones, and what is sent.\<close>

definition open_one ::
    "(string \<Rightarrow> string) \<Rightarrow> string \<Rightarrow> string \<Rightarrow> string \<Rightarrow> jobj \<times> window_bounds \<Rightarrow> bool \<Rightarrow> shell_output list" where
  "open_one enc page icon name ib ok =
     (let item = fst ib; b = snd ib; state = normalizeDesktopWindowState (oget item ''desktopState'')
      in ShellCreate (create_options enc page icon name item (math_round (bd_x b), math_round (bd_y b))
            (math_max (Fin 360) (math_round (bd_w b)), math_max (Fin 260) (math_round (bd_h b))) state)
         # (if ok then [ShellWindow (showOpenFinWindow (Some b) state)] else []))"

fun open_all ::
    "(jobj \<times> window_bounds \<Rightarrow> bool \<Rightarrow> shell_output list) \<Rightarrow> (jobj \<Rightarrow> bool) \<Rightarrow> (jobj \<times> window_bounds) list
       \<Rightarrow> nat \<times> nat \<times> shell_output list" where
  "open_all opening created [] = (0, 0, [])"
| "open_all opening created (ib # ibs) =
     (let ok = created (fst ib); r = open_all opening created ibs
      in (fst r + (if ok then 1 else 0), fst (snd r) + (if ok then 0 else 1), opening ib ok @ snd (snd r)))"

definition openDesktopWorkspaceContentWindows ::
    "(string \<Rightarrow> string) \<Rightarrow> string \<Rightarrow> string \<Rightarrow> bool \<Rightarrow> (jobj \<Rightarrow> bool) \<Rightarrow> saved_workspace \<Rightarrow> nat \<times> nat \<times> shell_output list" where
  "openDesktopWorkspaceContentWindows enc page icon runtime created w =
     (if \<not> runtime then (0, 0, [])
      else open_all (open_one enc page icon (sw_name w)) created (prepareDesktopLaunchWindows w))"

definition closeOpenFinDesktopWindows ::
    "(string \<Rightarrow> (string \<times> string) list option) \<Rightarrow> bool \<Rightarrow> child_window list \<Rightarrow> shell_output list" where
  "closeOpenFinDesktopWindows query includeToolbar children =
     List.map_filter (\<lambda>(index, c).
       (let content = readDesktopInventoryDescriptor query (cw_options c) \<noteq> None;
            toolbar = readStringFromCustomData (jget (cw_options c) ''customData'') ''ceriousClient'' = Some ''openfin-desktop-toolbar''
        in if \<not> content \<and> (\<not> includeToolbar \<or> \<not> toolbar) then None else Some (ShellCloseChild index)))
       (enumerate 0 children)"

definition closeDesktopShell :: "bool \<Rightarrow> string \<Rightarrow> shell_output list" where
  "closeDesktopShell quits reason =
     ShellBroadcast ''desktop-close'' reason # (if quits then [ShellQuit] else []) @ [ShellCloseCurrent]"

subsection \<open>The page of a window\<close>

record desk_page =
  dp_item :: jobj
  dp_rows :: "jobj list"
  dp_alerts :: "alert_rule list"
  dp_provider :: string
  dp_symbol :: jsv
  dp_operator :: string

definition mount_page :: "jsnum \<Rightarrow> (string \<Rightarrow> string option) \<Rightarrow> int \<times> int \<Rightarrow> desk_page" where
  "mount_page now param inner =
     (let resolved = resolveDesktopWindow now param inner; w = fst resolved; item = snd resolved
      in \<lparr>dp_item = item, dp_rows = sw_rows w, dp_alerts = get_or (sw_alerts w) [],
          dp_provider = normalizeProviderKey (coalesce (oget item ''provider'') (opt_str (sw_selectedProvider w))),
          dp_symbol = coalesce (oget item ''symbol'') (coalesce (sw_selectedSymbol w) (Str ''ES'')),
          dp_operator = (if sw_operator w = [] then default_operator else sw_operator w)\<rparr>)"

text \<open>The server's workspace, if it holds the window of the page.\<close>

definition hydrateDesktopWindow ::
    "(string \<Rightarrow> string \<Rightarrow> int) \<Rightarrow> jsnum \<Rightarrow> (string \<Rightarrow> string option) \<Rightarrow> int \<times> int \<Rightarrow> bool \<Rightarrow> answer option
       \<Rightarrow> desk_page \<times> terminal_state \<Rightarrow> desk_page \<times> terminal_state" where
  "hydrateDesktopWindow lc now param inner cancelled a ps =
     (let w = loadDesktopWorkspaceWindowsAsync lc now a;
          i = (case truthy_text (param ''window_id'') of None \<Rightarrow> oget (dp_item (fst ps)) ''id'' | Some t \<Rightarrow> Str t)
      in if cancelled then ps
         else case find_window w i of
           None \<Rightarrow> ps
         | Some saved \<Rightarrow>
             (let provider = normalizeProviderKey (coalesce (opt_str (param ''provider''))
                    (coalesce (oget saved ''provider'') (opt_str (sw_selectedProvider w))));
                  symbol = coalesce (opt_str (param ''symbol'')) (coalesce (oget saved ''symbol'') (coalesce (sw_selectedSymbol w)
                    (Str (defaultSymbolForWindowKind (to_str (oget saved ''kind'')) ''ES''))))
              in ((fst ps)\<lparr>dp_item := dict_spread saved [(''provider'', Str provider), (''symbol'', symbol), (''collapsed'', Bool False),
                     (''x'', Num (Fin 0)), (''y'', Num (Fin 0)), (''w'', Num (num_of_int (fst inner))), (''h'', Num (num_of_int (snd inner)))],
                   dp_rows := sw_rows w, dp_alerts := get_or (sw_alerts w) [], dp_provider := provider, dp_symbol := symbol\<rparr>,
                  setMarketProvider provider (snd ps))))"

text \<open>A message of another page: a close, a lock, or a request for a snapshot, which is answered.\<close>

definition page_message :: "jsv option \<Rightarrow> jsv \<Rightarrow> window_bounds \<Rightarrow> jsv \<Rightarrow> desk_page \<Rightarrow> shell_output list" where
  "page_message reportedState reportedBounds pageBounds message p =
     (if is_lit (jget message ''type'') ''desktop-close'' then [ShellCloseCurrent]
      else if is_lit (jget message ''type'') ''desktop-lock''
      then [ShellLock (to_str (js_or (jget message ''reason'') (Str ''Workspace locked from desktop toolbar'')))]
      else if \<not> is_lit (jget message ''type'') ''snapshot-request'' \<or> \<not> truthy (jget message ''requestId'') then []
      else let snapshot = currentDesktopWindowSnapshot (dp_item p) reportedState reportedBounds pageBounds; b = fst snapshot
        in [ShellReply (Obj [(''type'', Str ''snapshot-response''), (''requestId'', jget message ''requestId''),
              (''item'', Obj (dict_spread (dp_item p) [(''x'', Num (bd_x b)), (''y'', Num (bd_y b)), (''w'', Num (bd_w b)), (''h'', Num (bd_h b)),
                (''floatingBounds'', bounds_obj b), (''desktopState'', Str (snd snapshot)), (''collapsed'', Bool False)]))])])"

definition page_selectProduct :: "string \<Rightarrow> string \<Rightarrow> desk_page \<times> terminal_state \<Rightarrow> desk_page \<times> terminal_state" where
  "page_selectProduct provider symbol ps =
     (let next = normalizeProviderKey (Str provider)
      in ((fst ps)\<lparr>dp_provider := next, dp_symbol := Str symbol\<rparr>, setMarketProvider next (snd ps)))"

definition on_item :: "string \<Rightarrow> (jobj \<Rightarrow> jobj) \<Rightarrow> desk_page \<Rightarrow> desk_page" where
  "on_item i f p = (if has_id i (dp_item p) then p\<lparr>dp_item := f (dp_item p)\<rparr> else p)"

definition page_selectWindowProduct :: "string \<Rightarrow> string \<Rightarrow> string \<Rightarrow> desk_page \<Rightarrow> desk_page" where
  "page_selectWindowProduct i provider symbol =
     on_item i (\<lambda>item. dict_set ''symbol'' (Str symbol) (dict_set ''provider'' (Str (normalizeProviderKey (Str provider))) item))"

definition page_chartSettings :: "string \<Rightarrow> jsv \<Rightarrow> desk_page \<Rightarrow> desk_page" where
  "page_chartSettings i settings = on_item i (dict_set ''chartSettings'' settings)"

definition page_depthSettings :: "string \<Rightarrow> jsv \<Rightarrow> desk_page \<Rightarrow> desk_page" where
  "page_depthSettings i settings =
     on_item i (dict_set ''depthLadderSettings'' (depth_settings_obj (normalizeDepthLadderSettings settings)))"

definition page_saveDepthDefault ::
    "string \<Rightarrow> depth_ladder_settings \<Rightarrow> desk_page \<times> storage \<Rightarrow> desk_page \<times> storage" where
  "page_saveDepthDefault i settings ps =
     (let saved = saveDepthLadderDefaultSettings settings (snd ps)
      in (on_item i (dict_set ''depthLadderSettings'' (depth_settings_obj (fst saved))) (fst ps), snd saved))"

subsection \<open>The toolbar\<close>

record toolbar =
  tb_workspace :: saved_workspace
  tb_saved :: "saved_workspace list"
  tb_widget :: string
  tb_status :: string

definition first_toolbar :: "jsnum \<Rightarrow> toolbar" where
  "first_toolbar now = \<lparr>tb_workspace = fallbackDesktopWorkspace now, tb_saved = [], tb_widget = ''marketData'', tb_status = ''Desktop ready''\<rparr>"

definition hydrate_toolbar ::
    "(string \<Rightarrow> string \<Rightarrow> int) \<Rightarrow> jsnum \<Rightarrow> bool \<Rightarrow> answer option \<Rightarrow> answer option \<Rightarrow> toolbar \<Rightarrow> toolbar" where
  "hydrate_toolbar lc now cancelled a savedList tb =
     (if cancelled then tb
      else tb\<lparr>tb_workspace := loadDesktopWorkspaceWindowsAsync lc now a, tb_saved := fetchDesktopSavedWorkspaces lc now savedList\<rparr>)"

text \<open>What a save finds: the answers of the pages, the child windows, the toolbar's own bounds, the token
  of the session, and the answers of the server to the save and to the list that follows.\<close>

record save_world =
  sv_requestId :: string
  sv_messages :: "jsv list"
  sv_children :: "child_window list"
  sv_pageBounds :: window_bounds
  sv_token :: string
  sv_storage :: storage
  sv_answer :: "answer option"
  sv_list :: "answer option"

definition answered_windows ::
    "(string \<Rightarrow> string \<Rightarrow> int) \<Rightarrow> jsnum \<Rightarrow> (string \<Rightarrow> (string \<times> string) list option) \<Rightarrow> save_world \<Rightarrow> saved_workspace \<Rightarrow> jobj list" where
  "answered_windows lc now query v base =
     combineDesktopSnapshots (collectDesktopWindowSnapshots lc now (sv_requestId v) (sv_messages v))
       (collectOpenFinDesktopWindowInventory query (sv_storage v) (sv_children v) base)"

definition persistDesktopWorkspace ::
    "(string \<Rightarrow> string \<Rightarrow> int) \<Rightarrow> jsnum \<Rightarrow> (string \<Rightarrow> (string \<times> string) list option) \<Rightarrow> save_world \<Rightarrow> string \<Rightarrow> toolbar
       \<Rightarrow> (toolbar \<times> shell_output list) \<times> nat \<times> bool" where
  "persistDesktopWorkspace lc now query v reason tb =
     (let base = withDesktopWorkspaceId (tb_workspace tb);
          snapshots = answered_windows lc now query v base;
          next = (mergeDesktopSnapshots lc now (sv_storage v) base snapshots)\<lparr>sw_desktopToolbarBounds := bounds_obj (sv_pageBounds v)\<rparr>;
          saved = save_outcome (sv_answer v);
          request = desktop_save_request (sv_token v) next reason
      in ((tb\<lparr>tb_status := ''Saving...'', tb_workspace := next,
              tb_saved := (if saved then fetchDesktopSavedWorkspaces lc now (sv_list v) else tb_saved tb)\<rparr>,
           [ShellBroadcast ''snapshot-request'' (sv_requestId v), ShellRequest (fst request) (snd request)]
           @ (if saved then [ShellGet ''/api/desktop/workspaces''] else [])),
          length snapshots, saved))"

definition saveDesktopWorkspace ::
    "(string \<Rightarrow> string \<Rightarrow> int) \<Rightarrow> jsnum \<Rightarrow> (string \<Rightarrow> (string \<times> string) list option) \<Rightarrow> save_world \<Rightarrow> toolbar \<Rightarrow> toolbar \<times> shell_output list" where
  "saveDesktopWorkspace lc now query v tb =
     (let r = persistDesktopWorkspace lc now query v ''desktop toolbar save default'' tb
      in ((fst (fst r))\<lparr>tb_status := (if snd (snd r) then ''Saved '' @ int_text (int (fst (snd r))) @ '' windows''
            else ''Saved locally; server pending'')\<rparr>, snd (fst r)))"

text \<open>Adding a window: without the runtime a page is opened; \<open>created\<close> says whether its creation succeeds,
  else the handler throws and the status stays.\<close>

definition addDesktopWindow ::
    "jsnum \<Rightarrow> storage \<Rightarrow> jsnum \<times> jsnum \<Rightarrow> (string \<Rightarrow> string) \<Rightarrow> string \<Rightarrow> string \<Rightarrow> bool \<Rightarrow> bool \<Rightarrow> toolbar \<Rightarrow> toolbar \<times> shell_output list" where
  "addDesktopWindow now st screen enc page icon runtime created tb =
     (let w = tb_workspace tb; item = defaultDesktopWindowForKind now st screen (tb_widget tb) w;
          tb1 = tb\<lparr>tb_workspace := w\<lparr>sw_windows := sw_windows w @ [item], sw_updatedAt := now\<rparr>\<rparr>;
          opened = tb1\<lparr>tb_status := ''Opened '' @ get_or (dict_get window_labels (tb_widget tb)) []\<rparr>;
          n = (\<lambda>k. to_num (oget item k));
          b = (let src = oget item ''floatingBounds'' in
               \<lparr>bd_x = to_num (jget src ''x''), bd_y = to_num (jget src ''y''), bd_w = to_num (jget src ''w''), bd_h = to_num (jget src ''h'')\<rparr>);
          creation = ShellCreate (create_options enc page icon (sw_name w) item (math_round (n ''x''), math_round (n ''y''))
            (math_round (n ''w''), math_round (n ''h'')) ''normal'')
      in if \<not> runtime then (opened, [ShellOpenPage (desktopWindowUrl enc page item)])
         else if \<not> created then (tb1, [creation])
         else (opened, [creation, ShellWindow (showOpenFinWindow (Some b) ''normal'')]))"

definition loadDesktopWorkspace ::
    "(string \<Rightarrow> string \<Rightarrow> int) \<Rightarrow> jsnum \<Rightarrow> (js_error \<Rightarrow> string) \<Rightarrow> (string \<Rightarrow> (string \<times> string) list option) \<Rightarrow> (string \<Rightarrow> string)
       \<Rightarrow> string \<Rightarrow> string \<Rightarrow> bool \<Rightarrow> (jobj \<Rightarrow> bool) \<Rightarrow> jsv service_answer \<Rightarrow> save_world \<Rightarrow> string \<Rightarrow> toolbar \<Rightarrow> toolbar \<times> shell_output list" where
  "loadDesktopWorkspace lc now err query enc page icon runtime created a v workspaceId tb =
     (let asked = ShellGet (''/api/desktop/workspace?workspaceId='' @ enc workspaceId);
          failed = (\<lambda>m. (tb\<lparr>tb_status := ''Load failed: '' @ m\<rparr>, [asked])) in
      if workspaceId = [] then (tb, [])
      else case a of
        RequestFailed m \<Rightarrow> failed (get_or m ''unknown error'')
      | ServiceAnswer ok status payload \<Rightarrow>
          if \<not> ok then failed (''HTTP '' @ num_text status)
          else if nullish payload then failed (err TypeError)
          else (case normalizeWorkspace lc now (jget payload ''workspace'') of
              Inl e \<Rightarrow> failed (err e)
            | Inr None \<Rightarrow> failed ''workspace not found''
            | Inr (Some next) \<Rightarrow>
                (let w = withDesktopWorkspaceId next;
                     request = desktop_save_request (sv_token v) w ''desktop toolbar activate workspace'';
                     r = openDesktopWorkspaceContentWindows enc page icon runtime created w;
                     opened = ''Loaded '' @ sw_name w @ ''; opened '' @ int_text (int (fst r)) @ '' windows''
                 in (tb\<lparr>tb_workspace := w, tb_saved := fetchDesktopSavedWorkspaces lc now (sv_list v),
                        tb_status := (if fst (snd r) = 0 then opened
                          else opened @ '', '' @ int_text (int (fst (snd r))) @ '' failed'')\<rparr>,
                     [asked, ShellRequest (fst request) (snd request)]
                     @ closeOpenFinDesktopWindows query False (sv_children v) @ snd (snd r) @ [ShellGet ''/api/desktop/workspaces'']))))"

definition lockDesktop :: "toolbar \<Rightarrow> toolbar \<times> shell_output list" where
  "lockDesktop tb = (tb\<lparr>tb_status := ''Locked''\<rparr>, [ShellBroadcast ''desktop-lock'' ''Workspace locked from desktop toolbar''])"

definition server_working_count :: "jobj option \<Rightarrow> jsnum" where
  "server_working_count summary = to_num (coalesce (oget (get_or summary []) ''workingOrderCount'') (Num (Fin 0)))"

definition plural_orders :: "jsnum \<Rightarrow> string" where
  "plural_orders n = num_text n @ '' working order'' @ (if jeq n (Fin 1) then [] else ''s'')"

definition logoutDesktop ::
    "(string \<Rightarrow> string \<Rightarrow> int) \<Rightarrow> jsnum \<Rightarrow> (string \<Rightarrow> (string \<times> string) list option) \<Rightarrow> save_world \<Rightarrow> jobj option \<Rightarrow> bool \<Rightarrow> bool
       \<Rightarrow> toolbar \<Rightarrow> toolbar \<times> shell_output list" where
  "logoutDesktop lc now query v summary accepted quits tb =
     (let r = persistDesktopWorkspace lc now query v ''desktop toolbar logout save'' tb; tb1 = fst (fst r);
          count = server_working_count summary; warns = jlt (Fin 0) count;
          sent = snd (fst r) @ ShellGet ''/api/cerious/order-state'' # (if warns then [ShellAsk (''Log out of Cerious Desktop? '' @ plural_orders count
            @ '' will remain working on the server.'')] else [])
      in if warns \<and> \<not> accepted then (tb1\<lparr>tb_status := ''Logout cancelled''\<rparr>, sent)
         else (tb1\<lparr>tb_status := ''Closing desktop UI...''\<rparr>,
               sent @ [ShellRequest ''/api/auth/logout'' Undefined] @ closeDesktopShell quits ''desktop logout''))"

text \<open>Why a request counts as refused: its message, or what its answer says.\<close>

definition refusal :: "(js_error \<Rightarrow> string) \<Rightarrow> string \<Rightarrow> jsv service_answer \<Rightarrow> string option" where
  "refusal err lead a = (case a of
     RequestFailed m \<Rightarrow> Some (get_or m ''unknown error'')
   | ServiceAnswer ok status payload \<Rightarrow>
       if nullish payload then Some (err TypeError)
       else if ok \<and> truthy (jget payload ''ok'') then None
       else Some (to_str (js_or (jget payload ''detail'') (js_or (jget payload ''message'') (Str (lead @ num_text status))))))"

definition shutdownDesktop ::
    "(string \<Rightarrow> string \<Rightarrow> int) \<Rightarrow> jsnum \<Rightarrow> (js_error \<Rightarrow> string) \<Rightarrow> (string \<Rightarrow> (string \<times> string) list option) \<Rightarrow> save_world \<Rightarrow> jobj option \<Rightarrow> bool
       \<Rightarrow> jsv service_answer \<Rightarrow> jsv service_answer \<Rightarrow> bool \<Rightarrow> toolbar \<Rightarrow> toolbar \<times> shell_output list" where
  "shutdownDesktop lc now err query v summary accepted reset shutdown quits tb =
     (let count = server_working_count summary;
          ask = ShellAsk (''Shutdown and reset Cerious services? This resets the local trading session, clears working orders, clears runtime caches, and restarts the services on the next launch.''
            @ (if jlt (Fin 0) count then '' You currently have '' @ plural_orders count @ '' on the server.'' else [])) in
      if \<not> accepted then (tb, [ShellGet ''/api/cerious/order-state'', ask])
      else let r = persistDesktopWorkspace lc now query v ''desktop toolbar shutdown save'' tb; tb1 = fst (fst r);
               sent1 = ShellGet ''/api/cerious/order-state'' # ask # snd (fst r) @ [ShellRequest ''/api/cerious/session/reset'' (Obj
                 [(''reason'', Str ''desktop toolbar shutdown reset''), (''confirm'', Str ''RESET_TRADING_SESSION''),
                  (''scope'', Str ''simulation''), (''clearFills'', Bool True)])];
               sent2 = sent1 @ [ShellRequest ''/api/system/shutdown'' (Obj
                 [(''reason'', Str ''desktop toolbar shutdown''), (''confirm'', Str ''SHUTDOWN_CERIOUS'')])];
               failed = (\<lambda>m. tb1\<lparr>tb_status := ''Shutdown failed: '' @ m\<rparr>)
        in case refusal err ''reset HTTP '' reset of
             Some m \<Rightarrow> (failed m, sent1)
           | None \<Rightarrow> (case refusal err ''HTTP '' shutdown of
                 Some m \<Rightarrow> (failed m, sent2)
               | None \<Rightarrow> (tb1\<lparr>tb_status := ''Shutdown sent; closing desktop UI...''\<rparr>, sent2 @ closeDesktopShell quits ''desktop shutdown'')))"

subsection \<open>Opening a workspace\<close>

definition created_id :: "shell_output \<Rightarrow> jsv option" where
  "created_id out = (case out of ShellCreate options \<Rightarrow> Some (jget (oget options ''customData'') ''windowId'') | _ \<Rightarrow> None)"

lemma created_id_options: "created_id (ShellCreate (create_options enc page icon name item xy wh state)) = Some (oget item ''id'')"
  by (simp add: created_id_def create_options_def oget_def jget_def)

lemma open_one_created: "List.map_filter created_id (open_one enc page icon name ib ok) = [oget (fst ib) ''id'']"
proof -
  have "created_id (ShellWindow cs) = None" for cs by (simp add: created_id_def)
  then show ?thesis by (simp add: open_one_def Let_def created_id_options)
qed

lemma open_all_counts:
  "fst (open_all opening created ibs) = length (filter (created \<circ> fst) ibs)"
  "fst (snd (open_all opening created ibs)) = length (filter (\<lambda>ib. \<not> created (fst ib)) ibs)"
  "snd (snd (open_all opening created ibs)) = concat (map (\<lambda>ib. opening ib (created (fst ib))) ibs)"
  by (induction ibs) (simp_all add: Let_def)

lemma map_filter_append: "List.map_filter f (xs @ ys) = List.map_filter f xs @ List.map_filter f ys"
  by (simp add: List.map_filter_def)

lemma created_concat:
  "List.map_filter created_id (concat (map (\<lambda>ib. open_one enc page icon name ib (created (fst ib))) ibs)) = map (\<lambda>ib. oget (fst ib) ''id'') ibs"
  by (induction ibs) (simp_all add: map_filter_append open_one_created)

text \<open>C28. Opening a workspace asks the runtime for one window per window of the workspace whose kind still exists,
  in the order of their depth; every one is counted, as opened when it could be created and as failed otherwise.\<close>

theorem launch_opens_each_window:
  "let r = openDesktopWorkspaceContentWindows enc page icon True created w;
       shown = filter (\<lambda>item. \<not> isRemovedWindowKind (oget item ''kind'')) (sw_windows w);
       launched = sort_js (before_asc (\<lambda>item. to_num (oget item ''z''))) shown
   in List.map_filter created_id (snd (snd r)) = map (\<lambda>item. oget item ''id'') launched
    \<and> mset launched = mset shown
    \<and> fst r = length (filter created shown) \<and> fst (snd r) = length (filter (\<lambda>item. \<not> created item) shown)
    \<and> fst r + fst (snd r) = length shown"
proof -
  obtain shown launched where s: "shown = filter (\<lambda>item. \<not> isRemovedWindowKind (oget item ''kind'')) (sw_windows w)"
    and l: "launched = sort_js (before_asc (\<lambda>item. to_num (oget item ''z''))) shown" by simp
  have p: "prepareDesktopLaunchWindows w = map (\<lambda>item. (item, readDesktopBounds item)) launched"
    by (simp add: prepareDesktopLaunchWindows_def s l)
  have m: "mset launched = mset shown" by (simp add: l)
  have n: "length (filter P launched) = length (filter P shown)" for P
    using arg_cong [OF m, of "\<lambda>m. size (filter_mset P m)"] by (simp add: mset_filter [symmetric] del: mset_filter)
  obtain r where r: "r = openDesktopWorkspaceContentWindows enc page icon True created w" by simp
  have ids: "List.map_filter created_id (snd (snd r)) = map (\<lambda>item. oget item ''id'') launched"
    using created_concat [of enc page icon "sw_name w" created "map (\<lambda>item. (item, readDesktopBounds item)) launched"]
    by (simp add: r openDesktopWorkspaceContentWindows_def open_all_counts(3) p o_def)
  have opened: "fst r = length (filter created shown)"
    by (simp add: r openDesktopWorkspaceContentWindows_def open_all_counts(1) p filter_map o_def n)
  have failed: "fst (snd r) = length (filter (\<lambda>item. \<not> created item) shown)"
    by (simp add: r openDesktopWorkspaceContentWindows_def open_all_counts(2) p filter_map o_def n)
  have "length (filter created shown) + length (filter (\<lambda>item. \<not> created item) shown) = length shown"
    by (rule sum_length_filter_compl)
  with ids m opened failed show ?thesis by (simp only: Let_def r [symmetric] s [symmetric] l [symmetric] simp_thms)
qed

subsection \<open>Closing the desktop\<close>

definition request_path :: "shell_output \<Rightarrow> string option" where
  "request_path out = (case out of ShellRequest path body \<Rightarrow> Some path | ShellGet path \<Rightarrow> Some path
     | ShellAsk m \<Rightarrow> Some ''confirm'' | _ \<Rightarrow> None)"

lemma request_path_simps [simp]:
  "request_path (ShellRequest path body) = Some path" "request_path (ShellGet path) = Some path" "request_path (ShellAsk m) = Some ''confirm''"
  "request_path (ShellBroadcast t m) = None" "request_path ShellQuit = None" "request_path ShellCloseCurrent = None"
  by (simp_all add: request_path_def)

lemma persist_sends: "snd (fst (persistDesktopWorkspace lc now query v reason tb)) = [ShellBroadcast ''snapshot-request'' (sv_requestId v),
    ShellRequest ''/api/desktop/workspace/save'' (snd (desktop_save_request (sv_token v) (tb_workspace (fst (fst
      (persistDesktopWorkspace lc now query v reason tb)))) reason))]
    @ (if save_outcome (sv_answer v) then [ShellGet ''/api/desktop/workspaces''] else [])"
  by (simp add: persistDesktopWorkspace_def desktop_save_request_def Let_def)

lemma close_paths [simp]: "List.map_filter request_path (closeDesktopShell quits reason) = []"
  by (simp add: closeDesktopShell_def)

text \<open>C11. Shutting down: the order summary is fetched and the operator asked; without confirmation nothing more is
  sent and nothing changes. With it a save of the workspace is sent, then the reset of the session, whether or not
  the save was accepted; only when the reset was accepted the shutdown of the services is sent, and the desktop
  is closed exactly when the shutdown was accepted as well.\<close>

theorem shutdown_in_order:
  "let r = shutdownDesktop lc now err query v summary accepted reset shutdown quits tb;
       reset_ok = (refusal err ''reset HTTP '' reset = None); shutdown_ok = (refusal err ''HTTP '' shutdown = None)
   in List.map_filter request_path (snd r) = [''/api/cerious/order-state'', ''confirm''] @ (if \<not> accepted then []
        else [''/api/desktop/workspace/save''] @ (if save_outcome (sv_answer v) then [''/api/desktop/workspaces''] else [])
          @ [''/api/cerious/session/reset''] @ (if reset_ok then [''/api/system/shutdown''] else []))
    \<and> (ShellCloseCurrent \<in> set (snd r) \<longleftrightarrow> accepted \<and> reset_ok \<and> shutdown_ok)
    \<and> (accepted \<or> fst r = tb)"
  by (cases "refusal err ''reset HTTP '' reset"; cases "refusal err ''HTTP '' shutdown")
    (simp_all add: shutdownDesktop_def persist_sends closeDesktopShell_def map_filter_append Let_def)

text \<open>Logging out when the order service does not answer: no question is asked, and the session and the desktop are
  closed whatever the operator would have said and however many orders are at work on the server.\<close>

theorem logout_without_summary:
  "let r = logoutDesktop lc now query v (fetchServerOrderSummary (RequestFailed m)) accepted quits tb
   in (\<forall>q. ShellAsk q \<notin> set (snd r)) \<and> ShellRequest ''/api/auth/logout'' Undefined \<in> set (snd r)
    \<and> ShellCloseCurrent \<in> set (snd r) \<and> tb_status (fst r) = ''Closing desktop UI...''"
proof -
  have "server_working_count (fetchServerOrderSummary (RequestFailed m)) = Fin 0"
    by (simp add: server_working_count_def fetchServerOrderSummary_def get_or_def coalesce_def nullish_def oget_def)
  then show ?thesis
    by (simp add: logoutDesktop_def persist_sends closeDesktopShell_def Let_def)
qed

subsection \<open>Saving the desktop\<close>

text \<open>C39. A save replaces the windows of the workspace by those that answered, pages before the runtime, one per id: a
  window that does not answer in time is gone from the workspace and from what the server is sent, and when none
  answers the workspace is saved without windows.\<close>

theorem unanswered_windows_forgotten:
  "let r = persistDesktopWorkspace lc now query v reason tb; w = tb_workspace (fst (fst r));
       pages = collectDesktopWindowSnapshots lc now (sv_requestId v) (sv_messages v);
       runtime = collectOpenFinDesktopWindowInventory query (sv_storage v) (sv_children v) (withDesktopWorkspaceId (tb_workspace tb))
   in mset (sw_windows w) = mset (combineDesktopSnapshots pages runtime)
    \<and> set (sw_windows w) \<subseteq> set pages \<union> set runtime
    \<and> (sv_messages v = [] \<and> sv_children v = [] \<longrightarrow> sw_windows w = [])
    \<and> ShellRequest ''/api/desktop/workspace/save'' (snd (desktop_save_request (sv_token v) w reason)) \<in> set (snd (fst r))"
proof -
  obtain r where r: "r = persistDesktopWorkspace lc now query v reason tb" by simp
  obtain pages runtime where p: "pages = collectDesktopWindowSnapshots lc now (sv_requestId v) (sv_messages v)"
    and q: "runtime = collectOpenFinDesktopWindowInventory query (sv_storage v) (sv_children v) (withDesktopWorkspaceId (tb_workspace tb))"
    by simp
  have w: "sw_windows (tb_workspace (fst (fst r))) = sort_js (before_asc (\<lambda>item. to_num (oget item ''z''))) (combineDesktopSnapshots pages runtime)"
    by (simp add: r p q persistDesktopWorkspace_def mergeDesktopSnapshots_def withDesktopWorkspaceId_def answered_windows_def Let_def)
  have sub: "set (combineDesktopSnapshots pages runtime) \<subseteq> set pages \<union> set runtime"
    using latest_by_subset [of "\<lambda>w. oget w ''id''" "runtime @ pages"] unfolding combineDesktopSnapshots_def by auto
  have none: "combineDesktopSnapshots pages runtime = []" if "sv_messages v = []" "sv_children v = []"
    using that by (simp add: p q collectDesktopWindowSnapshots_def collectOpenFinDesktopWindowInventory_def combineDesktopSnapshots_def
        latest_by_def)
  have sent: "ShellRequest ''/api/desktop/workspace/save'' (snd (desktop_save_request (sv_token v) (tb_workspace (fst (fst r))) reason))
      \<in> set (snd (fst r))"
    by (simp only: r persist_sends) simp
  have "mset (sw_windows (tb_workspace (fst (fst r)))) = mset (combineDesktopSnapshots pages runtime)" by (simp only: w mset_sort_js)
  moreover have "set (sw_windows (tb_workspace (fst (fst r)))) \<subseteq> set pages \<union> set runtime" using sub by (simp only: w set_sort_js)
  moreover have "sv_messages v = [] \<and> sv_children v = [] \<longrightarrow> sw_windows (tb_workspace (fst (fst r))) = []"
    using none by (simp add: w)
  ultimately show ?thesis using sent by (simp only: Let_def r [symmetric] p [symmetric] q [symmetric] simp_thms)
qed

definition nobody_answers :: save_world where
  "nobody_answers = \<lparr>sv_requestId = ''snapshot-1'', sv_messages = [], sv_children = [],
     sv_pageBounds = \<lparr>bd_x = Fin 0, bd_y = Fin 0, bd_w = Fin 520, bd_h = Fin 72\<rparr>, sv_token = [], sv_storage = [],
     sv_answer = None, sv_list = None\<rparr>"

lemma unanswered_windows_forgotten_witness:
  "sw_windows (tb_workspace (fst (fst (persistDesktopWorkspace (\<lambda>s t. 0) (Fin 5) (\<lambda>u. None) nobody_answers ''save''
     ((first_toolbar (Fin 1))\<lparr>tb_workspace := (fallbackDesktopWorkspace (Fin 1))\<lparr>sw_windows := [[(''id'', Str ''w1'')]]\<rparr>\<rparr>))))) = []"
  using unanswered_windows_forgotten [of "\<lambda>s t. 0" "Fin 5" "\<lambda>u. None" nobody_answers "''save''"
      "(first_toolbar (Fin 1))\<lparr>tb_workspace := (fallbackDesktopWorkspace (Fin 1))\<lparr>sw_windows := [[(''id'', Str ''w1'')]]\<rparr>\<rparr>"]
  by (simp only: Let_def nobody_answers_def save_world.select_convs simp_thms)

end
