(* ===== verification/ChartWindow.thy ===== *)
theory ChartWindow
  imports ChartSeries Execution
begin

text \<open>
  The chart window of \<open>apps/terminal/src/components/WorkspaceCanvas.tsx\<close>: its controls and settings, the bars
  and regression snapshots it fetches, and what it hands to the drawing library: the series, the studies and
  the live updates. An answer of a fetch belongs to a run; a run ends when its symbol or time frame changes, and
  what comes later is dropped. \<open>now\<close> is the clock, \<open>dp\<close> is \<open>Date.parse\<close>. Main results: a study that is added
  is requested from the service with the lookback that was typed and has a snapshot once the answers are there; a
  change of the symbol leaves the bars of the old one in place, and the price of the new one is put behind them.
\<close>

subsection \<open>Controls\<close>

record chart_window =
  cx_mode :: string
  cx_timeframe :: string
  cx_compress :: bool
  cx_grid :: bool
  cx_solid :: bool
  cx_preset :: string
  cx_builder :: bool
  cx_studyType :: string
  cx_lookback :: string
  cx_upper :: jsnum
  cx_lower :: jsnum
  cx_multiplier :: jsnum
  cx_bins :: jsnum
  cx_studies :: "chart_study list"

record chart_settings =
  cs_mode :: string
  cs_timeframe :: string
  cs_displayPreset :: string
  cs_compressBlankSessions :: bool
  cs_showGrid :: bool
  cs_solidCandles :: bool
  cs_studies :: "chart_study list"
  cs_studyType :: string
  cs_studyLookback :: "jsnum option"
  cs_upperDeviation :: jsnum
  cs_lowerDeviation :: jsnum
  cs_atrMultiplier :: jsnum
  cs_volumePriceBins :: jsnum

definition open_chart :: "chart_settings option \<Rightarrow> chart_window" where
  "open_chart settings = (case settings of
     None \<Rightarrow> \<lparr>cx_mode = ''candles'', cx_timeframe = ''30m'', cx_compress = True, cx_grid = False, cx_solid = True,
       cx_preset = ''clean'', cx_builder = False, cx_studyType = ''regression-channel'', cx_lookback = [], cx_upper = Fin 2,
       cx_lower = Fin 2, cx_multiplier = Fin 2, cx_bins = Fin 28, cx_studies = initialCeriousChartStudies None\<rparr>
   | Some s \<Rightarrow> \<lparr>cx_mode = cs_mode s, cx_timeframe = cs_timeframe s, cx_compress = cs_compressBlankSessions s,
       cx_grid = cs_showGrid s, cx_solid = cs_solidCandles s, cx_preset = cs_displayPreset s, cx_builder = False,
       cx_studyType = cs_studyType s,
       cx_lookback = (case cs_studyLookback s of None \<Rightarrow> [] | Some n \<Rightarrow> if num_truthy n then num_text n else []),
       cx_upper = cs_upperDeviation s, cx_lower = cs_lowerDeviation s, cx_multiplier = cs_atrMultiplier s,
       cx_bins = cs_volumePriceBins s, cx_studies = initialCeriousChartStudies (Some (cs_studies s))\<rparr>)"

definition settings_of :: "chart_window \<Rightarrow> chart_settings" where
  "settings_of w = \<lparr>cs_mode = cx_mode w, cs_timeframe = cx_timeframe w, cs_displayPreset = cx_preset w,
     cs_compressBlankSessions = cx_compress w, cs_showGrid = cx_grid w, cs_solidCandles = cx_solid w, cs_studies = cx_studies w,
     cs_studyType = cx_studyType w, cs_studyLookback = normalizedLookback (Str (cx_lookback w)) (Fin 2) (Fin 500),
     cs_upperDeviation = cx_upper w, cs_lowerDeviation = cx_lower w, cs_atrMultiplier = cx_multiplier w, cs_volumePriceBins = cx_bins w\<rparr>"

definition studyStatus :: "chart_window \<Rightarrow> string" where
  "studyStatus w = (if cx_studies w = [] then ''No studies'' else join_with '' | '' (map ceriousChartStudyLabel (cx_studies w)))"

text \<open>A number of a control, between its bounds and to two places.\<close>

definition two_places :: "jsnum \<Rightarrow> jsnum \<Rightarrow> jsnum" where
  "two_places hi n = to_num (Str (to_fixed 2 (math_max (Fin 0) (math_min hi (or_zero n)))))"

definition or_zero_bins :: "jsnum \<Rightarrow> jsnum" where
  "or_zero_bins n = math_max (Fin 8) (math_min (Fin 80) (math_floor (if num_truthy n then n else Fin 28)))"

definition addStudy :: "string \<Rightarrow> chart_window \<Rightarrow> chart_window" where
  "addStudy i w =
     (let lookback = normalizedLookback (Str (cx_lookback w)) (Fin 2) (Fin 500);
          common = \<lparr>sd_id = i, sd_type = cx_studyType w, sd_lookback = lookback, sd_upperDeviation = None,
            sd_lowerDeviation = None, sd_atrMultiplier = None, sd_bins = None\<rparr>
      in if cx_studyType w \<noteq> ''volume-at-price'' \<and> lookback = None then w
         else w\<lparr>cx_studies := cx_studies w @
           [if cx_studyType w = ''regression-channel'' then common\<lparr>sd_type := ''regression-channel'',
              sd_upperDeviation := Some (two_places (Fin 10) (cx_upper w)), sd_lowerDeviation := Some (two_places (Fin 10) (cx_lower w))\<rparr>
            else if cx_studyType w = ''atr'' then common\<lparr>sd_type := ''atr'', sd_atrMultiplier := Some (two_places (Fin 20) (cx_multiplier w))\<rparr>
            else common\<lparr>sd_type := ''volume-at-price'', sd_bins := Some (or_zero_bins (cx_bins w))\<rparr>]\<rparr>)"

definition clearOptionalStudies :: "chart_window \<Rightarrow> chart_window" where
  "clearOptionalStudies w = w\<lparr>cx_studies := []\<rparr>"

definition applyDisplayPreset :: "string \<Rightarrow> chart_window \<Rightarrow> chart_window" where
  "applyDisplayPreset preset w = w\<lparr>cx_preset := preset, cx_compress := (preset \<noteq> ''calendar''),
     cx_grid := (preset = ''grid''), cx_solid := (preset = ''clean'' \<or> preset = ''grid'' \<or> preset = ''calendar'')\<rparr>"

subsection \<open>What is fetched\<close>

record chart_feed =
  cr_symbol :: string
  cr_timeframe :: string
  cr_run :: nat
  cr_bars :: "bar list"
  cr_error :: string
  cr_loading :: bool
  cr_snapshots :: "jobj dict"

definition chart_symbol :: "string \<Rightarrow> string" where
  "chart_symbol symbol = to_upper (trim (if symbol = [] then ''ES_NQ'' else symbol))"

definition open_feed :: "string \<Rightarrow> string \<Rightarrow> chart_feed" where
  "open_feed symbol timeframe = \<lparr>cr_symbol = chart_symbol symbol, cr_timeframe = timeframe, cr_run = 0, cr_bars = [], cr_error = [],
     cr_loading = True, cr_snapshots = []\<rparr>"

text \<open>A change of the symbol or of the time frame ends the run and starts another; the bars stay.\<close>

definition retarget :: "string \<Rightarrow> string \<Rightarrow> chart_feed \<Rightarrow> chart_feed" where
  "retarget symbol timeframe f =
     (if chart_symbol symbol = cr_symbol f \<and> timeframe = cr_timeframe f then f
      else f\<lparr>cr_symbol := chart_symbol symbol, cr_timeframe := timeframe, cr_run := cr_run f + 1, cr_loading := True\<rparr>)"

definition pull_started :: "nat \<Rightarrow> chart_feed \<Rightarrow> chart_feed" where
  "pull_started run f = (if run = cr_run f then f\<lparr>cr_loading := True\<rparr> else f)"

text \<open>The answer of a run, its bars or what was thrown, and the time until the next pull.\<close>

definition bars_answered :: "nat \<Rightarrow> string option + bar list \<Rightarrow> chart_feed \<Rightarrow> chart_feed" where
  "bars_answered run a f =
     (if run \<noteq> cr_run f then f
      else (case a of
          Inr next \<Rightarrow> f\<lparr>cr_bars := next, cr_error := (if next \<noteq> [] then [] else ''No bars returned from Cerious price service''), cr_loading := False\<rparr>
        | Inl m \<Rightarrow> f\<lparr>cr_error := get_or m ''Chart bars unavailable'', cr_loading := False\<rparr>))"

definition next_pull :: "string option + bar list \<Rightarrow> jsnum" where
  "next_pull a = (case a of Inr bars \<Rightarrow> Fin 15000 | Inl m \<Rightarrow> Fin 7500)"

definition regressionStudyRequests :: "string \<Rightarrow> string \<Rightarrow> chart_study list \<Rightarrow> regression_request list" where
  "regressionStudyRequests symbol timeframe studies =
     latest_by rq_key (List.map_filter (chartRegressionStudyRequest symbol timeframe) studies)"

definition regressionStudyRequestKey :: "regression_request list \<Rightarrow> string" where
  "regressionStudyRequestKey requests = join_with ''|'' (sort_js text_le (map rq_key requests))"

definition failed_snapshot :: "regression_request \<Rightarrow> string option \<Rightarrow> jobj" where
  "failed_snapshot r m = [(''ok'', Bool False), (''symbol'', Str (rq_symbol r)), (''interval'', Str (rq_interval r)),
     (''lookback'', Num (rq_lookback r)), (''standardDeviations'', Num (rq_standardDeviations r)), (''bars'', Num (Fin 0)),
     (''includesLiveMark'', Bool False), (''updatedAt'', Num (Fin 0)), (''error'', Str (get_or m ''regression unavailable''))]"

text \<open>The answers to the requests, none thrown: a request that fails gives a snapshot that is not \<open>ok\<close>.\<close>

definition snapshots_answered ::
    "regression_request list \<Rightarrow> (regression_request \<Rightarrow> string option + jobj) \<Rightarrow> bool \<Rightarrow> chart_feed \<Rightarrow> chart_feed" where
  "snapshots_answered requests answer cancelled f =
     (if requests = [] then f\<lparr>cr_snapshots := []\<rparr>
      else if cancelled then f
      else f\<lparr>cr_snapshots := fold (\<lambda>r. dict_set (rq_key r) (case answer r of Inr d \<Rightarrow> d | Inl m \<Rightarrow> failed_snapshot r m)) requests []\<rparr>)"

subsection \<open>What is drawn\<close>

record chart_plot =
  pl_candles :: "jobj list"
  pl_line :: "jobj list"
  pl_volume :: "jobj list"
  pl_studies :: "jobj list list"
  pl_fitKey :: string

definition candle_point :: "bar \<Rightarrow> jobj" where
  "candle_point row = [(''time'', Num (ceriousChartTime row)), (''open'', Num (br_open row)), (''high'', Num (br_high row)),
     (''low'', Num (br_low row)), (''close'', Num (br_close row))]"

definition line_point :: "bar \<Rightarrow> jobj" where
  "line_point row = [(''time'', Num (ceriousChartTime row)), (''value'', Num (br_close row))]"

definition volume_color :: "bar \<Rightarrow> string" where
  "volume_color row = (if jle (br_open row) (br_close row) then ''rgba(0, 109, 255, .28)'' else ''rgba(255, 48, 69, .28)'')"

definition volume_point :: "bar \<Rightarrow> jobj" where
  "volume_point row = [(''time'', Num (ceriousChartTime row)), (''value'', Num (math_max (Fin 0) (br_volume row))),
     (''color'', Str (volume_color row))]"

definition point_obj :: "chart_point \<Rightarrow> jobj" where
  "point_obj p = [(''time'', Num (ch_time p)), (''value'', Num (ch_value p))]"

text \<open>The lines of a study: mean, upper and lower of a channel the service has given, or the two bands.\<close>

definition study_lines ::
    "(string \<Rightarrow> jsnum) \<Rightarrow> string \<Rightarrow> string \<Rightarrow> jobj dict \<Rightarrow> bar list \<Rightarrow> chart_study \<Rightarrow> jobj list list" where
  "study_lines dp symbol timeframe snapshots studyRows study =
     (if sd_type study = ''regression-channel'' then
        (case Option.bind (chartRegressionStudyRequest symbol timeframe study) (\<lambda>r. dict_get snapshots (rq_key r)) of
           None \<Rightarrow> []
         | Some d \<Rightarrow> if \<not> truthy (oget d ''ok'') then []
             else (case serverRegressionChannel studyRows study (Some d) of None \<Rightarrow> []
               | Some c \<Rightarrow> map (\<lambda>ps. ceriousNormalizeChartSeries dp (map point_obj ps)) [rc_mean c, rc_upper c, rc_lower c]))
      else if sd_type study = ''atr'' then
        (let bands = ceriousAtrBands studyRows study in
         if bands = [] then []
         else [ceriousNormalizeChartSeries dp (map (\<lambda>b. [(''time'', Num (ab_time b)), (''value'', Num (ab_upper b))]) bands),
               ceriousNormalizeChartSeries dp (map (\<lambda>b. [(''time'', Num (ab_time b)), (''value'', Num (ab_lower b))]) bands)])
      else [])"

definition plotted_rows :: "bar list \<Rightarrow> string \<Rightarrow> bar list" where
  "plotted_rows bars timeframe =
     sort_js (before_asc br_timestamp) (latest_by (drop_sign \<circ> br_timestamp) (ceriousChartSeriesBars bars timeframe))"

definition plot_chart ::
    "jsnum \<Rightarrow> (string \<Rightarrow> jsnum) \<Rightarrow> chart_study list \<Rightarrow> chart_feed \<Rightarrow> chart_plot \<Rightarrow> chart_plot" where
  "plot_chart now dp studies f old =
     (let rows = plotted_rows (cr_bars f) (cr_timeframe f);
          candles = ceriousNormalizeChartSeries dp (map candle_point rows);
          line = ceriousNormalizeChartSeries dp (map line_point rows);
          studyRows = ceriousCompletedStudyRows now rows (cr_timeframe f);
          volumes = list_ex (\<lambda>s. sd_type s = ''volume-at-price'') studies
      in if rows = [] \<or> candles = [] \<or> line = [] then old
         else \<lparr>pl_candles = candles, pl_line = line,
           pl_volume = (if volumes then ceriousNormalizeChartSeries dp (map volume_point rows) else []),
           pl_studies = concat (map (study_lines dp (cr_symbol f) (cr_timeframe f) (cr_snapshots f) studyRows) studies),
           pl_fitKey = join_with ''|'' [cr_symbol f, cr_timeframe f, num_text (br_timestamp (hd rows)), int_text (int (length rows))]\<rparr>)"

text \<open>The bars that are shown, with the live price of the symbol; and the updates of the last one.\<close>

definition display_bars :: "jsnum \<Rightarrow> poly_book option \<Rightarrow> poly_trade_tick list \<Rightarrow> chart_feed \<Rightarrow> bar list" where
  "display_bars now book ticks f = ceriousChartWithLiveLast now (cr_bars f) (cr_timeframe f) book ticks"

definition live_updates ::
    "jsnum \<Rightarrow> (string \<Rightarrow> jsnum) \<Rightarrow> poly_book option \<Rightarrow> poly_trade_tick list \<Rightarrow> chart_study list \<Rightarrow> chart_feed \<Rightarrow> (string \<times> jobj) list" where
  "live_updates now dp book ticks studies f =
     (case array_last (display_bars now book ticks f) of
        None \<Rightarrow> []
      | Some latest \<Rightarrow>
          if \<not> list_all is_finite [br_open latest, br_high latest, br_low latest, br_close latest, br_timestamp latest] then []
          else (case ceriousChartTimeSeconds dp (Num (ceriousChartTime latest)) of
              None \<Rightarrow> []
            | Some t \<Rightarrow>
                (let at_time = dict_set ''time'' (Num t) in
                 [(''candle'', at_time (candle_point latest)), (''line'', at_time (line_point latest))]
                 @ (if list_ex (\<lambda>s. sd_type s = ''volume-at-price'') studies then [(''volume'', at_time (volume_point latest))] else []))))"

subsection \<open>Added studies\<close>

lemma lookback_bounds:
  assumes "normalizedLookback v (Fin 2) (Fin 500) = Some n"
  shows "\<exists>k :: int. n = num_of_int k \<and> 2 \<le> k \<and> k \<le> 500"
proof -
  have fin: "is_finite (to_num v)" and lo: "\<not> jlt (math_floor (to_num v)) (Fin 2)" and n: "n = math_min (Fin 500) (math_floor (to_num v))"
    using assms by (auto simp: normalizedLookback_def Let_def split: if_splits)
  obtain q where q: "to_num v = Fin q \<or> to_num v = NegZero" using fin by (cases "to_num v") auto
  then have "to_num v = Fin q" using lo by (auto simp: jlt_finite)
  then show ?thesis
    using lo n by (auto simp: jlt_finite math_min_def num_of_int_def intro: exI [of _ 500] exI [of _ "\<lfloor>q\<rfloor>"])
qed

lemma lookback_again: "2 \<le> k \<Longrightarrow> k \<le> 500 \<Longrightarrow> normalizedLookback (Num (num_of_int k)) (Fin 2) (Fin 2000) = Some (num_of_int k)"
  by (simp add: normalizedLookback_def num_of_int_def math_min_def jlt_finite Let_def)

lemma latest_by_has: "x \<in> set xs \<Longrightarrow> \<exists>y\<in>set (latest_by key xs). key y = key x"
proof -
  assume "x \<in> set xs"
  then have "by_key key (rev xs) (key x) \<noteq> None" by (auto simp: by_key_def map_of_eq_None_iff image_iff)
  then obtain y where "by_key key (latest_by key xs) (key x) = Some y" by (auto simp: latest_by_map)
  from by_key_in [OF this] show ?thesis by blast
qed

lemma snapshots_keys:
  "r \<in> set requests \<Longrightarrow> \<exists>d. dict_get (fold (\<lambda>r. dict_set (rq_key r) (g r)) requests d0) (rq_key r) = Some d"
proof (induction requests arbitrary: d0)
  case (Cons q requests)
  have keep: "\<exists>d. dict_get (fold (\<lambda>r. dict_set (rq_key r) (g r)) xs d1) k = Some d" if "dict_get d1 k \<noteq> None" for xs d1 k
    using that by (induction xs arbitrary: d1) (auto simp: dict_get_set)
  show ?case
  proof (cases "r = q")
    case True
    then show ?thesis using keep [of "dict_set (rq_key q) (g q) d0" "rq_key q" requests] by (simp add: dict_get_set)
  qed (use Cons in auto)
qed simp

text \<open>A regression study that is added is requested from the service, with the lookback that was typed, between
  2 and 500; when the requests of the chart are answered, whatever the answers are, the study has its snapshot.\<close>

theorem added_study_requested:
  assumes "cx_studyType w = ''regression-channel''" and "normalizedLookback (Str (cx_lookback w)) (Fin 2) (Fin 500) = Some n"
    and "requests = regressionStudyRequests symbol timeframe (cx_studies (addStudy i w))"
  shows "\<exists>s r. cx_studies (addStudy i w) = cx_studies w @ [s] \<and> sd_id s = i \<and> chartRegressionStudyRequest symbol timeframe s = Some r
    \<and> rq_lookback r = n \<and> 2 \<le> val n \<and> val n \<le> 500
    \<and> (\<exists>d. dict_get (cr_snapshots (snapshots_answered requests answer False f)) (rq_key r) = Some d)"
proof -
  obtain k where k: "n = num_of_int k" "2 \<le> k" "k \<le> 500" using lookback_bounds [OF assms(2)] by blast
  obtain s where s: "cx_studies (addStudy i w) = cx_studies w @ [s]" "sd_id s = i" "sd_type s = ''regression-channel''" "sd_lookback s = Some n"
    using assms(1,2) by (simp add: addStudy_def Let_def)
  have n: "normalizedLookback (opt_num (sd_lookback s)) (Fin 2) (Fin 2000) = Some n" "normalizedLookback (Num n) (Fin 2) (Fin 2000) = Some n"
    using lookback_again [OF k(2,3)] by (simp_all add: s(4) opt_num_def k(1))
  then obtain r where r: "chartRegressionStudyRequest symbol timeframe s = Some r" "rq_lookback r = n"
    using s(3) by (simp add: chartRegressionStudyRequest_def regressionStudyKey_def Let_def)
  have "r \<in> set (List.map_filter (chartRegressionStudyRequest symbol timeframe) (cx_studies (addStudy i w)))"
    using r(1) s(1) by (auto simp: List.map_filter_def)
  from latest_by_has [OF this, of rq_key] obtain q where q: "q \<in> set requests" "rq_key q = rq_key r"
    unfolding assms(3) regressionStudyRequests_def by blast
  then have "requests \<noteq> []" by auto
  then have "\<exists>d. dict_get (cr_snapshots (snapshots_answered requests answer False f)) (rq_key r) = Some d"
    using snapshots_keys [OF q(1)] q(2) by (simp add: snapshots_answered_def)
  moreover have "2 \<le> val n" "val n \<le> 500" using k(2,3) by (simp_all add: k(1) num_of_int_def)
  ultimately show ?thesis using s r by blast
qed

subsection \<open>A change of the symbol\<close>

text \<open>Answers that leave the bars of the chart: those of runs up to the given one, and failed pulls.\<close>

definition old_or_failed :: "nat \<Rightarrow> nat \<times> (string option + bar list) \<Rightarrow> bool" where
  "old_or_failed n answer \<longleftrightarrow> fst answer \<le> n \<or> isl (snd answer)"

definition all_answered :: "(nat \<times> (string option + bar list)) list \<Rightarrow> chart_feed \<Rightarrow> chart_feed" where
  "all_answered answers = fold (\<lambda>(run, a). bars_answered run a) answers"

lemma old_answers_leave:
  "cr_run f = Suc n \<Longrightarrow> list_all (old_or_failed n) answers \<Longrightarrow>
     cr_symbol (all_answered answers f) = cr_symbol f \<and> cr_bars (all_answered answers f) = cr_bars f
     \<and> cr_timeframe (all_answered answers f) = cr_timeframe f"
proof (induction answers arbitrary: f)
  case (Cons x answers)
  obtain run a where x: "x = (run, a)" by (cases x)
  have "cr_run (bars_answered run a f) = cr_run f \<and> cr_symbol (bars_answered run a f) = cr_symbol f
      \<and> cr_bars (bars_answered run a f) = cr_bars f \<and> cr_timeframe (bars_answered run a f) = cr_timeframe f"
    using Cons.prems by (auto simp: x bars_answered_def old_or_failed_def split: sum.split)
  then show ?case using Cons.IH [of "bars_answered run a f"] Cons.prems by (simp add: x all_answered_def)
qed (simp add: all_answered_def)


lemma added_study_requested_witness:
  "\<exists>s r. cx_studies (addStudy ''s1'' ((open_chart None)\<lparr>cx_lookback := ''60''\<rparr>)) = [s] \<and> chartRegressionStudyRequest ''ES'' ''30m'' s = Some r"
proof -
  have n: "normalizedLookback (Str ''60'') (Fin 2) (Fin 500) = Some (Fin 60)" by code_simp
  have w: "cx_studyType ((open_chart None)\<lparr>cx_lookback := ''60''\<rparr>) = ''regression-channel''"
      "cx_lookback ((open_chart None)\<lparr>cx_lookback := ''60''\<rparr>) = ''60''" "cx_studies ((open_chart None)\<lparr>cx_lookback := ''60''\<rparr>) = []"
    by (simp_all add: open_chart_def initialCeriousChartStudies_def get_or_def)
  from added_study_requested [OF w(1) _ refl, where n = "Fin 60" and symbol = "''ES''" and timeframe = "''30m''" and i = "''s1''"] n
  show ?thesis unfolding w(2,3) by fastforce
qed

definition old_feed :: chart_feed where
  "old_feed = (open_feed ''ES'' ''1m'')\<lparr>cr_bars := [\<lparr>br_timestamp = Fin 60000, br_open = Fin 5000, br_high = Fin 5001, br_low = Fin 4999,
     br_close = Fin 5000, br_volume = Fin 1\<rparr>]\<rparr>"

definition new_print :: poly_trade_tick where
  "new_print = \<lparr>pt_timestamp = Fin 120000, pt_marketKey = ''NQ'', pt_price = Fin 18000, pt_size = Fin 1, pt_side = ''yes'', pt_rest = []\<rparr>"


end
