(* ===== verification/Panels.thy ===== *)
theory Panels
  imports Execution
begin

text \<open>
  The panels of the intelligence services (\<open>components/WorkspaceCanvas.tsx\<close>): the state of a polled endpoint, the
  tones and lights, the rows of spreads and their configurations, the filters of the audit trail, the pressure of
  the macro factors, the import of trade analytics, and the ladder of the binary adapter. A payload is the object
  the service sends, read property by property; \<open>None\<close> is a payload that has not come yet. The markup is not
  modelled.
\<close>

subsection \<open>Polled endpoints\<close>

record 'a panel_feed =
  ep_data :: "'a option"
  ep_error :: string

definition first_feed :: "'a panel_feed" where
  "first_feed = \<lparr>ep_data = None, ep_error = []\<rparr>"

text \<open>An answer of \<open>useCeriousEndpoint\<close>, after the panel was closed or before; a body that does not parse is a
  request that failed.\<close>

definition endpoint_answered :: "bool \<Rightarrow> 'a service_answer \<Rightarrow> 'a panel_feed \<Rightarrow> 'a panel_feed" where
  "endpoint_answered cancelled a f =
     (if cancelled then f
      else case a of
        RequestFailed m \<Rightarrow> f\<lparr>ep_error := get_or m ''Refresh failed''\<rparr>
      | ServiceAnswer ok status payload \<Rightarrow>
          if ok then \<lparr>ep_data = Some payload, ep_error = []\<rparr> else f\<lparr>ep_error := ''HTTP '' @ num_text status\<rparr>)"

definition advisory_refresh_ms :: jsnum where
  "advisory_refresh_ms = Fin 1800000"

text \<open>The request of \<open>useCeriousIntelligence\<close>, the first one possibly with a refresh, and its answer.\<close>

definition intelligence_path :: "(string \<Rightarrow> string) \<Rightarrow> bool \<Rightarrow> string \<Rightarrow> jsnum \<Rightarrow> string" where
  "intelligence_path enc refresh reason now =
     ''/api/cerious/intelligence'' @ (if refresh then ''?refresh=1&reason='' @ enc reason @ ''&_='' @ num_text now else [])"

definition intelligence_answered :: "bool \<Rightarrow> 'a service_answer \<Rightarrow> 'a option \<Rightarrow> 'a option" where
  "intelligence_answered cancelled a data =
     (case a of RequestFailed m \<Rightarrow> data
      | ServiceAnswer ok status payload \<Rightarrow> if \<not> ok \<or> cancelled then data else Some payload)"

subsection \<open>Tones and lights\<close>

record spread_tone =
  sp_label :: string
  sp_text :: string
  sp_accent :: string
  sp_border :: string
  sp_bg :: string
  sp_fill :: string
  sp_soft :: string

definition tone_bias :: "jsnum \<Rightarrow> string" where
  "tone_bias z = (if jle z (Fin (- 3 / 2)) then ''buy'' else if jge z (Fin (3 / 2)) then ''sell''
     else if jge (math_abs z) (Fin 1) then ''watch'' else ''neutral'')"

definition spreadTone :: "jobj \<Rightarrow> spread_tone" where
  "spreadTone stat =
     (let z = to_num (coalesce (oget stat ''z'') (Num (Fin 0))); bias = coalesce (oget stat ''bias'') (Str (tone_bias z)) in
      if bias = Str ''buy'' then \<lparr>sp_label = ''Cheap / buy spread'', sp_text = ''text-blue-200'', sp_accent = ''text-blue-300'',
        sp_border = ''border-blue-500/45'', sp_bg = ''bg-blue-500/10'', sp_fill = ''#38bdf8'', sp_soft = ''rgba(56, 189, 248, .16)''\<rparr>
      else if bias = Str ''sell'' then \<lparr>sp_label = ''Rich / sell spread'', sp_text = ''text-red-200'', sp_accent = ''text-red-300'',
        sp_border = ''border-red-500/45'', sp_bg = ''bg-red-500/10'', sp_fill = ''#fb7185'', sp_soft = ''rgba(251, 113, 133, .16)''\<rparr>
      else if bias = Str ''watch'' then \<lparr>sp_label = (if jgt z (Fin 0) then ''Rich watch'' else ''Cheap watch''),
        sp_text = ''text-amber-100'', sp_accent = ''text-amber-300'',
        sp_border = ''border-amber-500/45'', sp_bg = ''bg-amber-500/10'', sp_fill = ''#fbbf24'', sp_soft = ''rgba(251, 191, 36, .14)''\<rparr>
      else \<lparr>sp_label = ''Fair value'', sp_text = ''text-slate-200'', sp_accent = ''text-slate-300'',
        sp_border = ''border-surface-border'', sp_bg = ''bg-surface-card'', sp_fill = ''#94a3b8'', sp_soft = ''rgba(148, 163, 184, .12)''\<rparr>)"

text \<open>The tone of a value alone, as the rows ask for it.\<close>

definition tone_of :: "jsnum \<Rightarrow> spread_tone" where
  "tone_of z = spreadTone [(''z'', Num z)]"

record goose_tone =
  gt_border :: string
  gt_bg :: string
  gt_text :: string
  gt_accent :: string

definition mentions :: "string list \<Rightarrow> string \<Rightarrow> bool" where
  "mentions words s = list_ex (\<lambda>w. str_includes w s) words"

definition gooseTone :: "string \<Rightarrow> string option \<Rightarrow> goose_tone" where
  "gooseTone label v =
     (let s = to_lower (label @ '' '' @ get_or v []) in
      if mentions [''short'', ''sell'', ''risk-off'', ''aggressive''] s then
        \<lparr>gt_border = ''border-red-500/40'', gt_bg = ''bg-red-500/10'', gt_text = ''text-red-200'', gt_accent = ''text-red-300''\<rparr>
      else if mentions [''long'', ''buy'', ''risk-on'', ''high''] s then
        \<lparr>gt_border = ''border-blue-500/40'', gt_bg = ''bg-blue-500/10'', gt_text = ''text-blue-200'', gt_accent = ''text-blue-300''\<rparr>
      else if mentions [''moderate'', ''medium'', ''mixed'', ''watch'', ''mean''] s then
        \<lparr>gt_border = ''border-amber-500/40'', gt_bg = ''bg-amber-500/10'', gt_text = ''text-amber-100'', gt_accent = ''text-amber-300''\<rparr>
      else \<lparr>gt_border = ''border-surface-border'', gt_bg = ''bg-surface-card'', gt_text = ''text-slate-200'', gt_accent = ''text-accent''\<rparr>)"

definition dailySummaryPillClass :: "jsv \<Rightarrow> string" where
  "dailySummaryPillClass tone =
     (let raw = to_lower (to_str (coalesce tone (Str []))) in
      if raw = ''red'' then ''border-red-500/35 bg-red-500/15 text-red-300''
      else if raw = ''amber'' then ''border-amber-500/35 bg-amber-500/15 text-amber-300''
      else ''border-blue-500/35 bg-blue-500/15 text-blue-300'')"

text \<open>A scale of ten lights: what is lit, its color, and the text beside it.\<close>

definition scale_value :: "jsv \<Rightarrow> jsnum option" where
  "scale_value v = (case v of Num n \<Rightarrow> if is_finite n then Some n else None | _ \<Rightarrow> None)"

definition scale_lit :: "jsv \<Rightarrow> jsnum" where
  "scale_lit v = (case scale_value v of None \<Rightarrow> Fin 0 | Some n \<Rightarrow> math_round (jdiv (clamp n (Fin 0) (Fin 100)) (Fin 10)))"

definition scale_text :: "jsv \<Rightarrow> string" where
  "scale_text v = (case scale_value v of None \<Rightarrow> ''waiting''
     | Some n \<Rightarrow> num_text (math_round (clamp n (Fin 0) (Fin 100))) @ ''/100'')"

definition scale_color :: "string option \<Rightarrow> string" where
  "scale_color polarity = (let p = get_or polarity ''risk-on'' in
     if p = ''risk-off'' then ''#fb7185'' else if p = ''order-flow'' then ''#fbbf24'' else ''#38bdf8'')"

definition lights :: "jsv \<Rightarrow> bool list" where
  "lights v = map (\<lambda>index. jlt (num_of_int (int index)) (scale_lit v)) [0..<10]"

subsection \<open>Rows of spreads\<close>

abbreviation (input) fin_of :: "jobj \<Rightarrow> string \<Rightarrow> jsnum option" where
  "fin_of row k \<equiv> finiteOptional (oget row k)"

text \<open>The price of a spread: from the book, the last print, or the row of the service.\<close>

definition liveSpreadLast :: "jobj \<Rightarrow> poly_book dict \<Rightarrow> poly_trade_tick list dict \<Rightarrow> jsv" where
  "liveSpreadLast row books ticks =
     (let key = to_str (oget row ''key''); b = dict_get books key; t = Option.bind (dict_get ticks key) array_last in
      case or_else (finiteOptional (opt_num (Option.bind b pb_ltp))) (finiteOptional (opt_num (map_option pb_up_pct b))) of
        Some n \<Rightarrow> Num n
      | None \<Rightarrow> coalesce (opt_num (map_option pt_price t)) (coalesce (oget row ''lastTraded'') (oget row ''spread'')))"

record signal_row =
  sg_last :: "jsnum option"
  sg_baseline :: "jsnum option"
  sg_dayZ :: "jsnum option"
  sg_z :: "jsnum option"
  sg_moveFromMean :: "jsnum option"
  sg_atr :: "jsnum option"
  sg_orderFlow :: "jsnum option"
  sg_tone :: spread_tone
  sg_title :: string

definition signal_row_of :: "jobj \<Rightarrow> signal_row" where
  "signal_row_of row =
     \<lparr>sg_last = or_else (fin_of row ''lastTraded'') (fin_of row ''spread''),
      sg_baseline = or_else (fin_of row ''lookbackMean'') (fin_of row ''mean''),
      sg_dayZ = fin_of row ''dayZ'', sg_z = fin_of row ''z'', sg_moveFromMean = fin_of row ''moveFromMean'',
      sg_atr = or_else (fin_of row ''blendedAtr'') (fin_of row ''atr''), sg_orderFlow = fin_of row ''orderFlowScore'',
      sg_tone = tone_of (get_or (or_else (fin_of row ''dayZ'') (fin_of row ''z'')) (Fin 0)),
      sg_title = to_str (coalesce (oget row ''linearRegressionBars'') (Num (Fin 0))) @ '' x ''
        @ to_str (coalesce (oget row ''linearRegressionInterval'') (Str ''30m''))
        @ (if truthy (oget row ''linearRegressionIsForming'') then '' including active bar'' else [])\<rparr>"

text \<open>The marker of a spread between two units below and above its mean, in percent of the bar.\<close>

definition marker_x :: "jsnum option \<Rightarrow> jsnum" where
  "marker_x z = (case z of None \<Rightarrow> Fin 50
     | Some z \<Rightarrow> clamp (jadd (Fin 50) (jmul (clamp z (Fin (- 2)) (Fin 2)) (Fin 25))) (Fin 0) (Fin 100))"

record visual_row =
  vr_last :: "jsnum option"
  vr_z :: "jsnum option"
  vr_x :: jsnum
  vr_tone :: spread_tone
  vr_baseline :: "jsnum option"
  vr_atr :: "jsnum option"
  vr_vwapBasis :: "jsnum option"

definition visual_row_of :: "jobj \<Rightarrow> visual_row" where
  "visual_row_of row =
     \<lparr>vr_last = or_else (fin_of row ''lastTraded'') (fin_of row ''spread''), vr_z = fin_of row ''z'',
      vr_x = marker_x (fin_of row ''z''), vr_tone = tone_of (get_or (fin_of row ''z'') (Fin 0)),
      vr_baseline = or_else (fin_of row ''lookbackMean'') (fin_of row ''mean''),
      vr_atr = or_else (fin_of row ''blendedAtr'') (fin_of row ''atr''), vr_vwapBasis = fin_of row ''vwapBasis''\<rparr>"

subsection \<open>Configurations of spreads\<close>

record spread_config =
  cf_symbol :: string
  cf_label :: string
  cf_meaning :: string
  cf_legA :: string
  cf_legB :: string
  cf_ttRatio :: string
  cf_displayFormula :: string
  cf_syntheticTickValue :: jsnum
  cf_leftRatio :: jsnum
  cf_rightRatio :: jsnum
  cf_ratio :: jsnum

text \<open>Symbol, label and legs of the spreads the terminal knows by itself.\<close>

definition cerious_spread_products :: "(string \<times> string \<times> string) list" where
  "cerious_spread_products = [(''ES_NQ'', ''ES / NQ'', ''ES - 0.2666667 x NQ''), (''YM_ES'', ''YM / ES'', ''YM - 6.6666667 x ES''),
     (''RTY_ES'', ''RTY / ES'', ''RTY - 0.4285714 x ES'')]"

text \<open>\<open>replace(' x ', ' * ')\<close>: the first occurrence.\<close>

fun times_sign :: "string \<Rightarrow> string" where
  "times_sign (a # b # c # s) = (if [a, b, c] = '' x '' then '' * '' @ s else a # times_sign (b # c # s))"
| "times_sign s = s"

definition first_text :: "string list \<Rightarrow> string" where
  "first_text parts = (case parts of [] \<Rightarrow> [] | p # ps \<Rightarrow> p)"

definition fallback_config :: "string \<times> string \<times> string \<Rightarrow> spread_config" where
  "fallback_config product =
     (let symbol = fst product; parts = split_on CHR ''_'' symbol in
      \<lparr>cf_symbol = symbol, cf_label = fst (snd product), cf_meaning = ''Waiting for spread configuration service.'',
       cf_legA = first_text parts, cf_legB = first_text (tl parts), cf_ttRatio = ''-'',
       cf_displayFormula = times_sign (snd (snd product)), cf_syntheticTickValue = Fin 0, cf_leftRatio = Fin 0,
       cf_rightRatio = Fin 0, cf_ratio = Fin 0\<rparr>)"

definition shown_configs :: "spread_config list option \<Rightarrow> spread_config list" where
  "shown_configs served = (case served of
     Some cs \<Rightarrow> if cs \<noteq> [] then cs else map fallback_config cerious_spread_products
   | None \<Rightarrow> map fallback_config cerious_spread_products)"

definition config_symbols :: "spread_config list \<Rightarrow> jobj list \<Rightarrow> string list" where
  "config_symbols configs rows =
     dedup_by (=) (filter (\<lambda>s. s \<noteq> []) (map cf_symbol configs)
       @ map to_str (filter truthy (map (\<lambda>row. oget row ''key'') rows)))"

text \<open>The service's row of a key, the last of equal keys.\<close>

definition spread_of :: "jobj list \<Rightarrow> string \<Rightarrow> jobj option" where
  "spread_of rows key = find (\<lambda>row. to_str (oget row ''key'') = key) (rev rows)"

record config_row =
  cw_last :: jsv
  cw_tone :: spread_tone
  cw_bid :: "jsnum option"
  cw_ask :: "jsnum option"
  cw_live :: bool

definition config_row_of ::
    "jobj list \<Rightarrow> poly_book dict \<Rightarrow> poly_trade_tick list dict \<Rightarrow> spread_config \<Rightarrow> config_row" where
  "config_row_of rows books ticks config =
     (let key = cf_symbol config; stat = spread_of rows key; row = get_or stat []; b = dict_get books key;
          prints = get_or (dict_get ticks key) [];
          fallback = get_or (first_some [finiteOptional (opt_num (Option.bind b pb_ltp)),
            finiteOptional (opt_num (map_option pb_up_pct b)), fin_of row ''lastTraded'', fin_of row ''spread'']) (Fin 0);
          book_side = (\<lambda>side. finiteOptional (case b of None \<Rightarrow> Undefined | Some b \<Rightarrow> null_num (side b)))
      in \<lparr>cw_last = (case stat of None \<Rightarrow> Num fallback | Some row \<Rightarrow> liveSpreadLast row books ticks),
          cw_tone = tone_of (get_or (or_else (fin_of row ''dayZ'') (fin_of row ''z'')) (Fin 0)),
          cw_bid = book_side pb_best_bid, cw_ask = book_side pb_best_ask,
          cw_live = (b \<noteq> None \<or> prints \<noteq> [] \<or> truthy (oget row ''live''))\<rparr>)"

definition renderLegs :: "product_leg list option \<Rightarrow> string" where
  "renderLegs legs = (case legs of None \<Rightarrow> ''-'' | Some ls \<Rightarrow>
     if ls = [] then ''-'' else join_with '' / '' (map (\<lambda>leg. (if jgt (pg_side leg) (Fin 0) then ''+'' else ''-'')
       @ num_text (pg_ratio leg) @ '' '' @ pg_symbol leg) ls))"

subsection \<open>News, audit trail and macro factors\<close>

definition news_class :: "jsv \<Rightarrow> string" where
  "news_class status = (if status = Str ''ok'' then ''bg-blue-500/15 text-blue-300 border-blue-500/35''
     else ''bg-amber-500/15 text-amber-300 border-amber-500/35'')"

text \<open>The feed that the chosen mode of the news window reads.\<close>

definition active_news :: "string \<Rightarrow> 'a \<Rightarrow> 'a \<Rightarrow> 'a" where
  "active_news mode news calendar = (if mode = ''calendar'' then calendar else news)"

record audit_entry =
  au_id :: string
  au_channel :: string
  au_severity :: string

definition audit_shown :: "string \<Rightarrow> string \<Rightarrow> audit_entry list \<Rightarrow> audit_entry list" where
  "audit_shown channel severity entries = filter (\<lambda>e. (channel = [] \<or> au_channel e = channel)
     \<and> (severity = [] \<or> au_severity e = severity)) entries"

definition audit_channels :: "audit_entry list \<Rightarrow> string list" where
  "audit_channels entries = sort_js text_le (dedup_by (=) (map au_channel entries))"

record macro_factor =
  mf_key :: string
  mf_value :: jsnum
  mf_weight :: jsnum

definition regime_tone :: "string option \<Rightarrow> string" where
  "regime_tone label = (if label = Some ''Risk-Off'' then ''risk-off'' else ''risk-on'')"

definition factor_pressure :: "macro_factor list \<Rightarrow> jsnum" where
  "factor_pressure rows = (if rows = [] then Fin 0
     else clamp (fold (\<lambda>row sum. jadd sum (jmul (jmul (math_abs (mf_value row)) (mf_weight row)) (Fin 100))) rows (Fin 0))
       (Fin 0) (Fin 100))"

definition factor_width :: "macro_factor \<Rightarrow> jsnum" where
  "factor_width row = clamp (jmul (jadd (mf_value row) (Fin 1)) (Fin 50)) (Fin 0) (Fin 100)"

definition factor_class :: "macro_factor \<Rightarrow> string" where
  "factor_class row = (if jge (mf_value row) (rnd False (15 / 100)) then ''bg-blue-400''
     else if jle (mf_value row) (jneg (rnd False (15 / 100))) then ''bg-red-400'' else ''bg-amber-300'')"

subsection \<open>The ladder of the binary adapter\<close>

definition ladder_option :: "product_option list \<Rightarrow> string \<Rightarrow> string \<Rightarrow> product_option option" where
  "ladder_option options provider symbol = find (\<lambda>item. po_provider item = provider \<and> po_symbol item = symbol) options"

definition ladder_key :: "product_option option \<Rightarrow> string \<Rightarrow> string \<Rightarrow> string option" where
  "ladder_key opt provider symbol = or_else (Option.bind opt po_marketKey)
     (if provider = ''polymarket'' \<and> symbol \<noteq> [] then Some symbol else None)"

definition ladder_center :: "product_option option \<Rightarrow> jsnum" where
  "ladder_center opt = math_round (get_or (Option.bind opt po_yes) (Fin 50))"

definition ladder_prices :: "jsnum \<Rightarrow> jsnum list" where
  "ladder_prices center = map (\<lambda>index. math_max (Fin 1) (math_min (Fin 99)
     (jsub (jadd center (Fin 15)) (num_of_int (int index))))) [0..<31]"

record generic_row =
  gr_price :: jsnum
  gr_near :: bool
  gr_yesDepth :: jsnum
  gr_noDepth :: jsnum

definition generic_row_of :: "product_option option \<Rightarrow> jsnum \<Rightarrow> generic_row" where
  "generic_row_of opt price =
     (let center = ladder_center opt in
      \<lparr>gr_price = price, gr_near = jle (math_abs (jsub price center)) (Fin 1),
       gr_yesDepth = math_max (Fin 0) (jsub (Fin 1000) (jmul (math_abs (jsub price center)) (Fin 55))),
       gr_noDepth = math_max (Fin 0) (jsub (Fin 880) (jmul (math_abs (jsub (jsub (Fin 100) price)
         (get_or (Option.bind opt po_no) (Fin 50)))) (Fin 45)))\<rparr>)"

definition generic_rows :: "product_option option \<Rightarrow> generic_row list" where
  "generic_rows opt = map (generic_row_of opt) (ladder_prices (ladder_center opt))"

subsection \<open>Windows of plain content\<close>

record panel_details =
  ct_service :: string
  ct_body :: string
  ct_bullets :: "string list"

definition panel_details_table :: "panel_details dict" where
  "panel_details_table = [
     (''goose'', \<lparr>ct_service = ''advisor.goose'',
        ct_body = ''Macro advisor window restored as a native Cerious window. This is parked as its own boundary so the advisor feed can run independently of the trading canvas.'',
        ct_bullets = [''Macro context'', ''Operator notes'', ''Signal commentary'']\<rparr>),
     (''streamingNews'', \<lparr>ct_service = ''news.stream'',
        ct_body = ''Streaming News window reserved for the real-time news ingestion feed.'',
        ct_bullets = [''Timestamped feed'', ''Source attribution'', ''Spread impact tags'']\<rparr>),
     (''liveApiArchitecture'', \<lparr>ct_service = ''terminal.gateway'',
        ct_body = ''Live API Architecture view for watching the service split as CME ingress, pricing, algos, orders, fills, alerts, and sim exchange move apart.'',
        ct_bullets = [''CME ingress only'', ''Gateway fanout'', ''Microservice readiness'']\<rparr>),
     (''tradeAnalytics'', \<lparr>ct_service = ''analytics.trade'',
        ct_body = ''Trade Analytics workspace fed by fills, orders, spread marks, and operator tags.'',
        ct_bullets = [''P&L attribution'', ''Operator/source split'', ''Export-ready rows'']\<rparr>),
     (''positionsOrders'', \<lparr>ct_service = ''order.service'',
        ct_body = ''Positions & Orders window. This keeps the old workflow visible while routing the new build toward a dedicated order service.'',
        ct_bullets = [''Open orders'', ''Positions'', ''Cancel/replace path'']\<rparr>),
     (''auditTrail'', \<lparr>ct_service = ''audit.journal'',
        ct_body = ''Audit Trail restored as a native Cerious window, intended to capture every operator action, algo state change, order event, and fill.'',
        ct_bullets = [''Operator activity'', ''Algo events'', ''Gateway responses'']\<rparr>),
     (''spreadConfigurations'', \<lparr>ct_service = ''product-library'',
        ct_body = ''Spread Configurations window for Cerious synthetic products and leg definitions.'',
        ct_bullets = map (\<lambda>product. fst product @ '': '' @ snd (snd product)) cerious_spread_products\<rparr>),
     (''spreadBuilder'', \<lparr>ct_service = ''product-library'',
        ct_body = ''Spread Builder product definition library.'',
        ct_bullets = [''Backend definitions'', ''Synthetic legs'', ''Tick values'']\<rparr>),
     (''relativeSpreadVisuals'', \<lparr>ct_service = ''visuals.relative-spread'',
        ct_body = ''Relative Spread Visuals reserved for cross-spread visual diagnostics.'',
        ct_bullets = [''Spread value'', ''Leg pressure'', ''Dislocation state'']\<rparr>),
     (''notionalCalculator'', \<lparr>ct_service = ''risk.notional'',
        ct_body = ''Notional Calculator restored as a native Cerious operator utility and future risk-service client.'',
        ct_bullets = [''Leg ratio sizing'', ''Dollar notional'', ''Spread exposure'']\<rparr>),
     (''macroRegimeSummary'', \<lparr>ct_service = ''macro.regime'',
        ct_body = ''Macro Regime Summary ready for the macro advisor and market-state feed.'',
        ct_bullets = [''Regime state'', ''Volatility context'', ''Session profile'']\<rparr>),
     (''liveSpreadSignals'', \<lparr>ct_service = ''signal.spread'',
        ct_body = ''Live Spread Signals window, fed by synthetic marks, z-score, ATR, and trigger criteria.'',
        ct_bullets = [''ES/NQ'', ''YM/ES'', ''RTY/ES'']\<rparr>),
     (''atrZScoreEngine'', \<lparr>ct_service = ''signal.atr-zscore'',
        ct_body = ''ATR and Z-Score Engine preserved as a signal service target.'',
        ct_bullets = [''Rolling z-score'', ''ATR bands'', ''Trigger thresholds'']\<rparr>),
     (''executionRules'', \<lparr>ct_service = ''risk.execution-rules'',
        ct_body = ''Execution Rules window for the operating checklist around held orders and releases.'',
        ct_bullets = [''Entry gating'', ''Cancel logic'', ''Throttle rules'']\<rparr>),
     (''orderLayeringTechniques'', \<lparr>ct_service = ''algo.layering'',
        ct_body = ''Order Layering Techniques reference window for the algo builder and manager.'',
        ct_bullets = [''Layer spacing'', ''Clip size'', ''Pull-forward behavior'']\<rparr>),
     (''moneyManagement'', \<lparr>ct_service = ''risk.money-management'',
        ct_body = ''Money Management window, staged for max risk, loss limits, and account-level notional controls.'',
        ct_bullets = [''Max position'', ''Daily limit'', ''Strategy cap'']\<rparr>),
     (''crossSpreadOpportunityMap'', \<lparr>ct_service = ''signal.cross-spread'',
        ct_body = ''Cross-Spread Opportunity Map intended to compare all synthetic spread products.'',
        ct_bullets = [''Relative z-score'', ''Best opportunity'', ''Correlation check'']\<rparr>),
     (''riskChecklist'', \<lparr>ct_service = ''risk.checklist'',
        ct_body = ''Risk Checklist window restored for operator workflow and pre-release checks.'',
        ct_bullets = [''Data live'', ''Risk armed'', ''Algo state checked'']\<rparr>),
     (''sourceNotes'', \<lparr>ct_service = ''knowledge.notes'',
        ct_body = ''Source Notes kept for model assumptions, data-source comments, and operator notes.'',
        ct_bullets = [''Model notes'', ''Data notes'', ''Change notes'']\<rparr>),
     (''modelResearchGovernance'', \<lparr>ct_service = ''knowledge.governance'',
        ct_body = ''Model Research & Governance window reserved for model versioning and review state.'',
        ct_bullets = [''Version registry'', ''Research status'', ''Approval state'']\<rparr>)]"

definition content_service :: "string \<Rightarrow> jobj option \<Rightarrow> string" where
  "content_service kind data = to_str (coalesce (oget (get_or data []) ''service'')
     (Str (case dict_get panel_details_table kind of Some d \<Rightarrow> ct_service d | None \<Rightarrow> ''terminal.workspace'')))"

text \<open>The text that is shown while the service has sent neither sections nor rows.\<close>

definition content_pending :: "string \<Rightarrow> jobj option \<Rightarrow> string option" where
  "content_pending kind data =
     (if as_list (oget (get_or data []) ''sections'') \<noteq> [] \<or> as_list (oget (get_or data []) ''rows'') \<noteq> [] then None
      else Some (case dict_get panel_details_table kind of Some d \<Rightarrow> ct_body d
        | None \<Rightarrow> ''Window registered; service content pending.''))"

subsection \<open>Quotes that are missing\<close>

lemma finiteOptional_null: "finiteOptional Null = Some (Fin 0)" "finiteOptional Undefined = None"
  by (simp_all add: finiteOptional_def)

text \<open>A book without a best bid is shown with a bid of zero, and one without a best ask with an ask of zero; only a
  spread without a book is shown without them.\<close>

theorem missing_quotes_shown_as_zero:
  assumes "dict_get books (cf_symbol config) = Some b"
  shows "(pb_best_bid b = None \<longrightarrow> cw_bid (config_row_of rows books ticks config) = Some (Fin 0))
    \<and> (pb_best_ask b = None \<longrightarrow> cw_ask (config_row_of rows books ticks config) = Some (Fin 0))
    \<and> (dict_get books' (cf_symbol config) = None \<longrightarrow> cw_bid (config_row_of rows books' ticks config) = None
        \<and> cw_ask (config_row_of rows books' ticks config) = None)
    \<and> cw_live (config_row_of rows books ticks config)"
  using assms by (simp add: config_row_of_def Let_def null_num_def finiteOptional_null)

theorem missing_quotes_shown_as_zero_witness:
  "cw_bid (config_row_of [] [(''ES'', sample_book)] [] ((fallback_config (hd cerious_spread_products))\<lparr>cf_symbol := ''ES''\<rparr>)) = Some (Fin 0)"
  using missing_quotes_shown_as_zero [of "[(''ES'', sample_book)]" "(fallback_config (hd cerious_spread_products))\<lparr>cf_symbol := ''ES''\<rparr>" sample_book "[]" "[]"]
  by (simp add: sample_book_def)

subsection \<open>Rows of the binary adapter\<close>

lemma ladder_price:
  assumes "\<bar>c\<bar> \<le> 1000" "i < 31"
  shows "ladder_prices (num_of_int c) ! i = num_of_int (max 1 (min 99 (c + 15 - int i)))"
proof -
  have "jadd (num_of_int c) (Fin 15) = num_of_int (c + 15)" using jadd_int [of c 15] assms by (simp add: num_of_int_def)
  moreover have "jsub (num_of_int (c + 15)) (num_of_int (int i)) = num_of_int (c + 15 - int i)"
    using jsub_int [of "c + 15" "int i"] assms by (simp add: num_of_int_def)
  ultimately show ?thesis
    using assms(2) min_int [of 99 "c + 15 - int i"] max_int [of 1 "min 99 (c + 15 - int i)"]
    by (simp add: ladder_prices_def num_of_int_def del: of_int_diff of_int_add)
qed

lemma num_of_int_eq: "num_of_int m = num_of_int n \<longleftrightarrow> m = n"
  by (simp add: num_of_int_def)

text \<open>The ladder of the binary adapter has 31 rows around its center, each with a price from 1 to 99. No price is listed
  twice exactly while the center is at least 16 and at most 84: nearer to an end the outermost price fills the
  rows that are left.\<close>

theorem ladder_prices_repeat:
  assumes "ladder_center opt = num_of_int c" "1 \<le> c" "c \<le> 99"
  shows "length (generic_rows opt) = 31 \<and> ladder_center opt \<in> gr_price ` set (generic_rows opt)
    \<and> gr_price ` set (generic_rows opt) \<subseteq> num_of_int ` {1..99}
    \<and> (distinct (map gr_price (generic_rows opt)) \<longleftrightarrow> 16 \<le> c \<and> c \<le> 84)"
proof -
  let ?p = "ladder_prices (num_of_int c)"
  have prices: "map gr_price (generic_rows opt) = ?p"
    by (simp add: generic_rows_def generic_row_of_def assms(1) comp_def Let_def)
  have len: "length ?p = 31" by (simp add: ladder_prices_def)
  have at: "?p ! i = num_of_int (max 1 (min 99 (c + 15 - int i)))" if "i < 31" for i
    using ladder_price [OF _ that, of c] assms by simp
  have img: "gr_price ` set (generic_rows opt) = (\<lambda>i. num_of_int (max 1 (min 99 (c + 15 - int i)))) ` {..<31}"
  proof -
    have "gr_price ` set (generic_rows opt) = (!) ?p ` {..<31}"
      using arg_cong [OF prices, of set] by (auto simp: set_conv_nth [of ?p] len)
    then show ?thesis using at by simp
  qed
  have "distinct ?p \<longleftrightarrow> 16 \<le> c \<and> c \<le> 84"
  proof
    assume d: "distinct ?p"
    show "16 \<le> c \<and> c \<le> 84"
    proof (rule ccontr)
      assume "\<not> (16 \<le> c \<and> c \<le> 84)"
      then have "?p ! 0 = ?p ! 1 \<or> ?p ! 29 = ?p ! 30" using at [of 0] at [of 1] at [of 29] at [of 30] assms(2,3) by (auto simp: num_of_int_eq)
      with d show False using nth_eq_iff_index_eq [OF d, of 0 1] nth_eq_iff_index_eq [OF d, of 29 30] len by simp
    qed
  next
    assume "16 \<le> c \<and> c \<le> 84"
    then show "distinct ?p" by (auto simp: distinct_conv_nth len at num_of_int_eq)
  qed
  moreover have "num_of_int c \<in> gr_price ` set (generic_rows opt)"
    unfolding img by (rule image_eqI [of _ _ 15]) (use assms in simp_all)
  moreover have "gr_price ` set (generic_rows opt) \<subseteq> num_of_int ` {1..99}" unfolding img by auto
  moreover have "length (generic_rows opt) = 31" using arg_cong [OF prices, of length] len by simp
  ultimately show ?thesis by (simp add: prices assms(1))
qed

lemma sample_center: "ladder_center None = num_of_int 50"
proof -
  have "\<lfloor>101 / 2 :: rat\<rfloor> = 50" by (rule floor_unique) simp_all
  then show ?thesis by (simp add: ladder_center_def get_or_def num_of_int_def)
qed

theorem ladder_prices_repeat_witness:
  "distinct (map gr_price (generic_rows None)) \<and> length (generic_rows None) = 31"
  using ladder_prices_repeat [OF sample_center] by simp

end
