(* ===== verification/PanelPlots.thy ===== *)
theory PanelPlots
  imports Panels RoundMono
begin

text \<open>
  What the panels draw (\<open>components/WorkspaceCanvas.tsx\<close>): the chart of a spread with its mean and bands, and the
  curves, bars and import of trade analytics. A coordinate is computed in doubles as the code does; the properties
  say that it stays in the box of its drawing and that the order of prices is the order of heights.
\<close>

subsection \<open>The chart of a spread\<close>

record spread_point =
  pp_close :: jsnum
  pp_timestamp :: jsnum

definition spread_point_of :: "jobj \<Rightarrow> spread_point option" where
  "spread_point_of row = (case (fin_of row ''close'', fin_of row ''timestamp'') of
     (Some c, Some t) \<Rightarrow> Some \<lparr>pp_close = c, pp_timestamp = t\<rparr> | _ \<Rightarrow> None)"

definition spread_points :: "jobj \<Rightarrow> spread_point list" where
  "spread_points stat = slice_last 90 (List.map_filter (\<lambda>row. spread_point_of (as_obj row)) (as_list (oget stat ''bars'')))"

record spread_levels =
  lv_last :: jsnum
  lv_mean :: "jsnum option"
  lv_upper :: "jsnum option"
  lv_lower :: "jsnum option"

definition spread_levels_of :: "jobj \<Rightarrow> jsnum \<Rightarrow> spread_levels" where
  "spread_levels_of stat close =
     (let m = fin_of stat ''mean''; a = fin_of stat ''atr'';
          band = (\<lambda>op. case (m, a) of (Some m, Some a) \<Rightarrow> Some (op m (jmul (Fin 2) a)) | _ \<Rightarrow> None)
      in \<lparr>lv_last = get_or (or_else (fin_of stat ''lastTraded'') (fin_of stat ''spread'')) close,
          lv_mean = m, lv_upper = band jadd, lv_lower = band jsub\<rparr>)"

definition plot_values :: "jsnum list \<Rightarrow> spread_levels \<Rightarrow> jsnum list" where
  "plot_values closes l = filter is_finite
     (closes @ lv_last l # List.map_filter id [lv_mean l, lv_upper l, lv_lower l])"

definition plot_span :: "jsnum \<Rightarrow> jsnum \<Rightarrow> jsnum" where
  "plot_span lo hi = (let s = jsub hi lo in if num_truthy s then s else Fin 1)"

definition plot_y :: "jsnum list \<Rightarrow> jsnum \<Rightarrow> jsnum" where
  "plot_y values v = (let lo = math_min_list values; hi = math_max_list values in
     jadd (Fin 18) (jmul (jdiv (jsub hi v) (plot_span lo hi)) (Fin 124)))"

definition plot_x :: "nat \<Rightarrow> nat \<Rightarrow> jsnum" where
  "plot_x n i = jadd (Fin 38) (if n \<le> 1 then Fin 0
     else jmul (jdiv (num_of_int (int i)) (num_of_int (int n - 1))) (Fin 368))"

definition point_text :: "jsnum \<Rightarrow> jsnum \<Rightarrow> string" where
  "point_text x y = to_fixed 1 x @ '','' @ to_fixed 1 y"

text \<open>The levels that are drawn, with the place of their text.\<close>

definition level_line :: "jsnum list \<Rightarrow> string \<Rightarrow> jsnum \<Rightarrow> string \<times> jsnum \<times> jsnum" where
  "level_line values label v = (let yy = plot_y values v in (label, yy, math_max (Fin 12) (jsub yy (Fin 3))))"

record spread_plot =
  sv_points :: "(jsnum \<times> jsnum) list"
  sv_levels :: "(string \<times> jsnum \<times> jsnum) list"
  sv_close :: "jsnum \<times> jsnum"
  sv_live :: "jsnum \<times> jsnum"

definition spread_values :: "jobj \<Rightarrow> jsnum list" where
  "spread_values stat = (let points = spread_points stat in
     plot_values (map pp_close points) (spread_levels_of stat (pp_close (last points))))"

definition spread_plot_of :: "jobj \<Rightarrow> spread_plot option" where
  "spread_plot_of stat =
     (let points = spread_points stat; n = length points in
      if n < 2 then None
      else let l = spread_levels_of stat (pp_close (last points)); values = spread_values stat;
               line = (\<lambda>label v. map (level_line values label) (List.map_filter id [v]))
           in Some \<lparr>sv_points = map (\<lambda>(i, p). (plot_x n i, plot_y values (pp_close p))) (enumerate 0 points),
                sv_levels = line ''+2 ATR'' (lv_upper l) @ line ''Mean'' (lv_mean l) @ line ''-2 ATR'' (lv_lower l),
                sv_close = (plot_x n (n - 1), plot_y values (pp_close (last points))),
                sv_live = (plot_x n (n - 1), plot_y values (lv_last l))\<rparr>)"

definition spread_line :: "spread_plot \<Rightarrow> string" where
  "spread_line p = join_with '' '' (map (\<lambda>(x, y). point_text x y) (sv_points p))"

text \<open>The row a chart of the charts window is drawn from.\<close>

definition live_stat :: "jobj \<Rightarrow> jobj" where
  "live_stat stat =
     (let close = Option.bind (array_last (as_list (oget stat ''bars''))) (\<lambda>b. finiteOptional (jget b ''close''));
          v = Num (get_or (first_some [fin_of stat ''lastTraded'', fin_of stat ''spread'', close]) (Fin 0))
      in dict_set ''lastTraded'' v (dict_set ''spread'' v stat))"

subsection \<open>Trade analytics\<close>

record equity_point =
  eq_equity :: jsnum
  eq_drawdown :: jsnum
  eq_maxDrawdown :: jsnum

definition trade_account_size :: jsnum where
  "trade_account_size = Fin 500000"

text \<open>A number of the metrics, with what is taken while there are none.\<close>

definition metric_or :: "jobj option \<Rightarrow> string \<Rightarrow> jsnum \<Rightarrow> jsnum" where
  "metric_or metrics k d = to_num (coalesce (case metrics of None \<Rightarrow> Undefined | Some m \<Rightarrow> oget m k) (Num d))"

definition curve_x :: "nat \<Rightarrow> nat \<Rightarrow> jsnum" where
  "curve_x n i = (if n \<le> 1 then Fin 0 else jmul (jdiv (num_of_int (int i)) (num_of_int (int n - 1))) (Fin 100))"

definition equity_high :: "jobj option \<Rightarrow> equity_point list \<Rightarrow> jsnum" where
  "equity_high metrics curve = math_max_list (map eq_equity curve @ [metric_or metrics ''accountSize'' (Fin 1)])"

definition equity_low :: "jobj option \<Rightarrow> equity_point list \<Rightarrow> jsnum" where
  "equity_low metrics curve = math_min_list (map eq_equity curve @ [metric_or metrics ''accountSize'' (Fin 0)])"

definition equity_y :: "jsnum \<Rightarrow> jsnum \<Rightarrow> jsnum \<Rightarrow> jsnum" where
  "equity_y lo hi v = jsub (Fin 80) (jmul (jdiv (jsub v lo) (plot_span lo hi)) (Fin 70))"

definition equity_line :: "jobj option \<Rightarrow> equity_point list \<Rightarrow> (jsnum \<times> jsnum) list" where
  "equity_line metrics curve = (let lo = equity_low metrics curve; hi = equity_high metrics curve in
     map (\<lambda>(i, p). (curve_x (length curve) i, equity_y lo hi (eq_equity p))) (enumerate 0 curve))"

definition max_drawdown :: "jobj option \<Rightarrow> equity_point list \<Rightarrow> jsnum" where
  "max_drawdown metrics curve = math_max_list (map eq_maxDrawdown curve @ [metric_or metrics ''drawdown'' (Fin 0), Fin 1])"

definition drawdown_line :: "jobj option \<Rightarrow> equity_point list \<Rightarrow> (jsnum \<times> jsnum) list" where
  "drawdown_line metrics curve = (let m = max_drawdown metrics curve in
     map (\<lambda>(i, p). (curve_x (length curve) i, jadd (Fin 12) (jmul (jdiv (eq_drawdown p) m) (Fin 66)))) (enumerate 0 curve))"

record mini_bar =
  mb_label :: string
  mb_pct :: jsnum
  mb_value :: string

definition mini_bars :: "(jsnum \<Rightarrow> string) \<Rightarrow> jobj option \<Rightarrow> mini_bar list" where
  "mini_bars currency metrics = (case metrics of None \<Rightarrow> [] | Some m \<Rightarrow>
     (let f = (\<lambda>k. to_num (oget m k)); pct = (\<lambda>x. clamp x (Fin 0) (Fin 100)) in
      [\<lparr>mb_label = ''Win rate'', mb_pct = pct (jmul (f ''winRate'') (Fin 100)), mb_value = fmtPct (oget m ''winRate'')\<rparr>,
       \<lparr>mb_label = ''Return/risk'', mb_pct = pct (jmul (math_abs (f ''sharpe'')) (Fin 25)), mb_value = fmtNum (oget m ''sharpe'') 2\<rparr>,
       \<lparr>mb_label = ''Account return'', mb_pct = pct (jmul (f ''returnPct'') (Fin 1000)), mb_value = fmtPct (oget m ''returnPct'')\<rparr>,
       \<lparr>mb_label = ''Drawdown'', mb_pct = pct (jsub (Fin 100) (jmul (jdiv (f ''drawdown'')
          (to_num (js_or (oget m ''accountSize'') (Num trade_account_size)))) (Fin 5000))),
        mb_value = fmtMoney currency (oget m ''drawdown'')\<rparr>]))"

record trade_window =
  tw_imported :: "jobj option"
  tw_importStatus :: jsv

definition open_trades :: trade_window where
  "open_trades = \<lparr>tw_imported = None, tw_importStatus = Str []\<rparr>"

text \<open>The request an import sends, and its answer; a file that cannot be read is a request that failed.\<close>

definition import_path :: "(string \<Rightarrow> string) \<Rightarrow> string \<Rightarrow> string" where
  "import_path enc name = ''/api/cerious/trade-analytics/import?filename='' @ enc name"

definition handleImportFile :: "jobj service_answer option \<Rightarrow> trade_window \<Rightarrow> trade_window" where
  "handleImportFile a w = (case a of None \<Rightarrow> w
   | Some (RequestFailed m) \<Rightarrow> w\<lparr>tw_importStatus := Str (get_or m ''Import failed'')\<rparr>
   | Some (ServiceAnswer ok status next) \<Rightarrow>
       if \<not> ok \<or> oget next ''ok'' = Bool False
       then w\<lparr>tw_importStatus := Str (to_str (coalesce (oget next ''detail'') (Str (''Import failed HTTP '' @ num_text status))))\<rparr>
       else \<lparr>tw_imported = Some next, tw_importStatus = oget next ''status''\<rparr>)"

definition clearImport :: "trade_window \<Rightarrow> trade_window" where
  "clearImport w = \<lparr>tw_imported = None,
     tw_importStatus = Str ''Imported fills cleared. Load a CSV snapshot to run Trade Analytics.''\<rparr>"

subsection \<open>Bounds of a list\<close>

lemma max_list_bounds:
  "xs \<noteq> [] \<Longrightarrow> list_all is_finite xs \<Longrightarrow>
    math_max_list xs \<in> set xs \<and> list_all (\<lambda>x. val x \<le> val (math_max_list xs)) xs"
proof (induction xs rule: rev_nonempty_induct)
  case (single x)
  then show ?case by (cases x) (simp_all add: math_max_list_def math_max_def jlt_def)
next
  case (snoc x xs)
  then have IH: "math_max_list xs \<in> set xs" "list_all (\<lambda>x. val x \<le> val (math_max_list xs)) xs"
    and fin: "is_finite x" "list_all is_finite xs" by simp_all
  have m: "math_max_list (xs @ [x]) = math_max (math_max_list xs) x" by (simp add: math_max_list_def)
  have "is_finite (math_max_list xs)" using IH(1) fin by (auto simp: list_all_iff)
  then have "val (math_max_list (xs @ [x])) = max (val (math_max_list xs)) (val x)" "math_max (math_max_list xs) x \<noteq> NaN"
    using fin(1) math_max_finite [of "math_max_list xs" x] by (auto simp: m)
  with IH math_max_cases [of "math_max_list xs" x] show ?case by (fastforce simp: m list_all_iff)
qed

lemma min_list_bounds:
  "xs \<noteq> [] \<Longrightarrow> list_all is_finite xs \<Longrightarrow>
    math_min_list xs \<in> set xs \<and> list_all (\<lambda>x. val (math_min_list xs) \<le> val x) xs"
proof (induction xs rule: rev_nonempty_induct)
  case (single x)
  then show ?case by (cases x) (simp_all add: math_min_list_def math_min_def jlt_def)
next
  case (snoc x xs)
  then have IH: "math_min_list xs \<in> set xs" "list_all (\<lambda>x. val (math_min_list xs) \<le> val x) xs"
    and fin: "is_finite x" "list_all is_finite xs" by simp_all
  have m: "math_min_list (xs @ [x]) = math_min (math_min_list xs) x" by (simp add: math_min_list_def)
  have "is_finite (math_min_list xs)" using IH(1) fin by (auto simp: list_all_iff)
  then have "val (math_min_list (xs @ [x])) = min (val (math_min_list xs)) (val x)" "math_min (math_min_list xs) x \<noteq> NaN"
    using fin(1) math_min_finite [of "math_min_list xs" x] by (auto simp: m)
  with IH math_min_cases [of "math_min_list xs" x] show ?case by (fastforce simp: m list_all_iff)
qed

subsection \<open>Heights and places\<close>

text \<open>The part of a length that a distance is of a span, in doubles: between nothing and all of it, and no less for a
  larger distance.\<close>

definition part :: "jsnum \<Rightarrow> jsnum \<Rightarrow> int \<Rightarrow> jsnum" where
  "part d s k = jmul (jdiv d s) (Fin (of_int k))"

lemma jdiv_nonneg:
  assumes "is_finite d" "is_finite s" "0 \<le> val d" "0 < val s"
  shows "\<exists>t. jdiv d s = rnd t (val d / val s)"
  using assms by (cases d; cases s) (auto simp: jdiv_def Let_def)

lemma jmul_finite: "is_finite a \<Longrightarrow> is_finite b \<Longrightarrow> \<exists>t. jmul a b = rnd t (val a * val b)"
  by (cases a; cases b) (auto simp: jmul_def Let_def)

lemma part_bounds:
  assumes "is_finite d" "is_finite s" "0 \<le> val d" "val d \<le> val s" "0 < val s" "0 \<le> k" "k \<le> 2 ^ 53"
  shows "is_finite (part d s k)" "0 \<le> val (part d s k)" "val (part d s k) \<le> of_int k"
proof -
  obtain t where t: "jdiv d s = rnd t (val d / val s)" using jdiv_nonneg assms by blast
  have q: "0 \<le> val d / val s" "val d / val s \<le> 1" using assms by simp_all
  have r: "is_finite (jdiv d s)" "0 \<le> val (jdiv d s)" "val (jdiv d s) \<le> 1"
    unfolding t using rnd_keeps_bounds [OF _ q, of t] representable_int [of 0] representable_int [of 1] by simp_all
  obtain u where u: "part d s k = rnd u (val (jdiv d s) * of_int k)"
    using jmul_finite [OF r(1), of "Fin (of_int k)"] by (auto simp: part_def)
  have m: "0 \<le> val (jdiv d s) * of_int k" "val (jdiv d s) * of_int k \<le> of_int k"
    using r(2,3) assms(6) by (simp_all add: mult_left_le_one_le)
  show "is_finite (part d s k)" "0 \<le> val (part d s k)" "val (part d s k) \<le> of_int k"
    unfolding u using rnd_keeps_bounds [OF _ m, of u] representable_int [of 0] representable_int [of k] assms(6,7) by simp_all
qed

lemma part_mono:
  assumes "is_finite d" "is_finite e" "is_finite s" "0 \<le> val d" "val d \<le> val e" "val e \<le> val s" "0 < val s" "0 \<le> k" "k \<le> 2 ^ 53"
  shows "val (part d s k) \<le> val (part e s k)"
proof -
  obtain t t' where t: "jdiv d s = rnd t (val d / val s)" "jdiv e s = rnd t' (val e / val s)"
    using jdiv_nonneg [of d s] jdiv_nonneg [of e s] assms by auto
  have q: "0 \<le> val d / val s" "val d / val s \<le> val e / val s" "0 \<le> val e / val s" "val e / val s \<le> 1"
    using assms by (simp_all add: divide_right_mono)
  have e: "is_finite (jdiv e s)" unfolding t using rnd_keeps_bounds [OF _ q(3,4), of t'] representable_int [of 0] representable_int [of 1] by simp
  have d: "is_finite (jdiv d s)" "0 \<le> val (jdiv d s)" "val (jdiv d s) \<le> val (jdiv e s)"
    using rnd_mono [OF q(1,2), of t' t] e by (simp_all add: t)
  obtain u u' where u: "part d s k = rnd u (val (jdiv d s) * of_int k)" "part e s k = rnd u' (val (jdiv e s) * of_int k)"
    using jmul_finite [OF d(1), of "Fin (of_int k)"] jmul_finite [OF e, of "Fin (of_int k)"] by (auto simp: part_def)
  have m: "0 \<le> val (jdiv d s) * of_int k" "val (jdiv d s) * of_int k \<le> val (jdiv e s) * of_int k"
    using d assms(8) by (simp_all add: mult_right_mono)
  have "is_finite (part e s k)" using part_bounds(1) [OF assms(2,3) _ assms(6-9)] assms(4,5) by linarith
  then show ?thesis using rnd_mono(3) [OF m, of u' u] by (simp add: u)
qed

lemma plus_part:
  assumes "is_finite d" "0 \<le> val d" "val d \<le> of_int k" "0 \<le> a" "0 \<le> k" "a + k \<le> 2 ^ 53"
  shows "is_finite (jadd (Fin (of_int a)) d)" "of_int a \<le> val (jadd (Fin (of_int a)) d)" "val (jadd (Fin (of_int a)) d) \<le> of_int (a + k)"
proof -
  have "jadd (Fin (of_int a)) d = rnd False (of_int a + val d)" using assms(1) by (cases d) (simp_all add: jadd_finite)
  moreover have "of_int a \<le> of_int a + val d" "of_int a + val d \<le> of_int (a + k)" using assms(2,3) by simp_all
  ultimately show "is_finite (jadd (Fin (of_int a)) d)" "of_int a \<le> val (jadd (Fin (of_int a)) d)" "val (jadd (Fin (of_int a)) d) \<le> of_int (a + k)"
    using rnd_keeps_bounds [of "of_int a" "of_int a + val d" "of_int (a + k)" False] representable_int [of a] representable_int [of "a + k"] assms(4-6)
    by simp_all
qed

text \<open>The distance of a value from the highest one is a part of the span.\<close>

lemma distance_parts:
  assumes "is_double hi" "is_double lo" "is_double v" "is_finite (jsub hi lo)" "val lo \<le> val v" "val v \<le> val hi"
  shows "is_finite (jsub hi v)" "0 \<le> val (jsub hi v)" "val (jsub hi v) \<le> val (plot_span lo hi)"
    "is_finite (plot_span lo hi)" "0 < val (plot_span lo hi)"
proof -
  have fin: "is_finite hi" "is_finite lo" "is_finite v" using assms by (simp_all add: is_double_def)
  obtain s t where e: "jsub hi v = rnd s (val hi - val v)" "jsub hi lo = rnd t (val hi - val lo)"
    using fin by (simp add: jsub_finite)
  have d: "is_finite (jsub hi v)" "0 \<le> val (jsub hi v)" "val (jsub hi v) \<le> val (jsub hi lo)"
    using rnd_mono [of "val hi - val v" "val hi - val lo" t s] assms(4-6) by (simp_all add: e)
  show "is_finite (jsub hi v)" "0 \<le> val (jsub hi v)" by (fact d)+
  have truthy: "num_truthy (jsub hi lo) \<longleftrightarrow> val (jsub hi lo) \<noteq> 0"
    using assms(4) by (cases "jsub hi lo") (auto simp: num_truthy_def jeq_def)
  show "val (jsub hi v) \<le> val (plot_span lo hi)" using d by (auto simp: plot_span_def Let_def truthy)
  show "is_finite (plot_span lo hi)" using assms(4) by (simp add: plot_span_def Let_def)
  show "0 < val (plot_span lo hi)" using d by (auto simp: plot_span_def Let_def truthy)
qed

lemma distance_mono:
  assumes "is_double hi" "is_double v" "is_double w" "is_finite (jsub hi v)" "val v \<le> val w" "val w \<le> val hi"
  shows "is_finite (jsub hi w)" "val (jsub hi w) \<le> val (jsub hi v)"
proof -
  have fin: "is_finite hi" "is_finite v" "is_finite w" using assms by (simp_all add: is_double_def)
  obtain s t where e: "jsub hi v = rnd s (val hi - val v)" "jsub hi w = rnd t (val hi - val w)"
    using fin by (simp add: jsub_finite)
  show "is_finite (jsub hi w)" "val (jsub hi w) \<le> val (jsub hi v)"
    using rnd_mono [of "val hi - val w" "val hi - val v" s t] assms(4-6) by (simp_all add: e)
qed

definition plot_ok :: "jsnum list \<Rightarrow> bool" where
  "plot_ok values \<longleftrightarrow> list_all is_double values \<and> is_finite (jsub (math_max_list values) (math_min_list values))"

lemma plot_y_bounds:
  assumes "plot_ok values" "v \<in> set values"
  shows "is_finite (plot_y values v)" "18 \<le> val (plot_y values v)" "val (plot_y values v) \<le> 142"
proof -
  let ?hi = "math_max_list values" and ?lo = "math_min_list values"
  have vs: "values \<noteq> []" "list_all is_finite values" "list_all is_double values" "is_finite (jsub ?hi ?lo)"
    using assms by (auto simp: plot_ok_def list_all_iff is_double_def)
  note mx = max_list_bounds [OF vs(1,2)] and mn = min_list_bounds [OF vs(1,2)]
  have d: "is_double ?hi" "is_double ?lo" "is_double v" "val ?lo \<le> val v" "val v \<le> val ?hi"
    using mx mn vs(3) assms(2) by (auto simp: list_all_iff)
  note p = distance_parts [OF d(1-3) vs(4) d(4,5)]
  note q = part_bounds [OF p(1,4,2,3,5), of 124]
  show "is_finite (plot_y values v)" "18 \<le> val (plot_y values v)" "val (plot_y values v) \<le> 142"
    using plus_part [of "part (jsub ?hi v) (plot_span ?lo ?hi) 124" 124 18] q by (simp_all add: plot_y_def part_def Let_def)
qed

lemma plot_y_order:
  assumes "plot_ok values" "v \<in> set values" "w \<in> set values" "val v \<le> val w"
  shows "val (plot_y values w) \<le> val (plot_y values v)"
proof -
  let ?hi = "math_max_list values" and ?lo = "math_min_list values"
  have vs: "values \<noteq> []" "list_all is_finite values" "list_all is_double values" "is_finite (jsub ?hi ?lo)"
    using assms by (auto simp: plot_ok_def list_all_iff is_double_def)
  note mx = max_list_bounds [OF vs(1,2)] and mn = min_list_bounds [OF vs(1,2)]
  have d: "is_double ?hi" "is_double ?lo" "is_double v" "is_double w" "val ?lo \<le> val v" "val v \<le> val ?hi"
      "val ?lo \<le> val w" "val w \<le> val ?hi"
    using mx mn vs(3) assms(2,3) by (auto simp: list_all_iff)
  note p = distance_parts [OF d(1,2,3) vs(4) d(5,6)] and p' = distance_parts [OF d(1,2,4) vs(4) d(7,8)]
  note m = distance_mono [OF d(1,3,4) p(1) assms(4) d(8)]
  let ?s = "plot_span ?lo ?hi"
  have le: "val (part (jsub ?hi w) ?s 124) \<le> val (part (jsub ?hi v) ?s 124)"
    by (rule part_mono [OF p'(1) p(1) p(4) p'(2) m(2) p(3,5)]) simp_all
  note b = part_bounds [OF p(1,4,2,3,5), of 124] and b' = part_bounds [OF p'(1,4,2,3,5), of 124]
  have e: "plot_y values v = rnd False (18 + val (part (jsub ?hi v) ?s 124))" "plot_y values w = rnd False (18 + val (part (jsub ?hi w) ?s 124))"
    using b(1) b'(1) by (simp_all add: plot_y_def part_def Let_def jadd_finite)
  show ?thesis using rnd_mono(3) [of "18 + val (part (jsub ?hi w) ?s 124)" "18 + val (part (jsub ?hi v) ?s 124)" False False]
      plot_y_bounds(1) [OF assms(1,2)] le b'(2) by (simp add: e)
qed

lemma plot_x_bounds:
  assumes "i < n" "n \<le> 90"
  shows "is_finite (plot_x n i)" "38 \<le> val (plot_x n i)" "val (plot_x n i) \<le> 406"
proof -
  have "is_finite (plot_x n i) \<and> 38 \<le> val (plot_x n i) \<and> val (plot_x n i) \<le> 406"
  proof (cases "n \<le> 1")
    case True
    then show ?thesis using plus_part [of "Fin 0" 368 38] by (simp add: plot_x_def)
  next
    case False
    have "is_finite (part (num_of_int (int i)) (num_of_int (int n - 1)) 368)" "0 \<le> val (part (num_of_int (int i)) (num_of_int (int n - 1)) 368)"
      "val (part (num_of_int (int i)) (num_of_int (int n - 1)) 368) \<le> of_int 368"
      by (rule part_bounds; use assms False in \<open>simp add: num_of_int_def\<close>)+
    then show ?thesis using plus_part [of "part (num_of_int (int i)) (num_of_int (int n - 1)) 368" 368 38] False
      by (simp add: plot_x_def part_def)
  qed
  then show "is_finite (plot_x n i)" "38 \<le> val (plot_x n i)" "val (plot_x n i) \<le> 406" by auto
qed

subsection \<open>The plot of a spread\<close>

lemma plotted_points:
  assumes "spread_plot_of stat = Some p"
  shows "sv_points p = map (\<lambda>(i, q). (plot_x (length (spread_points stat)) i, plot_y (spread_values stat) (pp_close q)))
      (enumerate 0 (spread_points stat))" "2 \<le> length (spread_points stat)"
    "sv_close p = (plot_x (length (spread_points stat)) (length (spread_points stat) - 1), plot_y (spread_values stat) (pp_close (last (spread_points stat))))"
    "sv_live p = (plot_x (length (spread_points stat)) (length (spread_points stat) - 1),
      plot_y (spread_values stat) (lv_last (spread_levels_of stat (pp_close (last (spread_points stat))))))"
  using assms by (auto simp: spread_plot_of_def Let_def split: if_splits)

lemma point_finite: "q \<in> set (spread_points stat) \<Longrightarrow> is_finite (pp_close q)"
proof -
  assume "q \<in> set (spread_points stat)"
  then have "q \<in> set (List.map_filter (\<lambda>row. spread_point_of (as_obj row)) (as_list (oget stat ''bars'')))"
    using set_slice_last by (fastforce simp: spread_points_def)
  then show ?thesis
    by (auto simp: map_filter_def spread_point_of_def finiteOptional_def Let_def split: option.splits if_splits)
qed

lemma closes_shown:
  assumes "q \<in> set (spread_points stat)"
  shows "pp_close q \<in> set (spread_values stat)"
  using assms point_finite [OF assms] by (simp add: spread_values_def plot_values_def Let_def)

lemma live_shown:
  assumes "spread_points stat \<noteq> []"
  shows "lv_last (spread_levels_of stat (pp_close (last (spread_points stat)))) \<in> set (spread_values stat)"
proof -
  have "is_finite (lv_last (spread_levels_of stat (pp_close (last (spread_points stat)))))"
    using point_finite [OF last_in_set [OF assms]]
    by (auto simp: spread_levels_of_def Let_def get_or_def or_else_def finiteOptional_def split: option.splits)
  then show ?thesis by (simp add: spread_values_def plot_values_def Let_def)
qed

lemma points_le_90: "length (spread_points stat) \<le> 90"
  by (simp add: spread_points_def length_slice_last_le)

definition in_box :: "jsnum \<times> jsnum \<Rightarrow> bool" where
  "in_box c \<longleftrightarrow> is_finite (fst c) \<and> is_finite (snd c) \<and> 38 \<le> val (fst c) \<and> val (fst c) \<le> 406 \<and> 18 \<le> val (snd c) \<and> val (snd c) \<le> 142"

lemma box_intro: "plot_ok values \<Longrightarrow> v \<in> set values \<Longrightarrow> i < n \<Longrightarrow> n \<le> 90 \<Longrightarrow> in_box (plot_x n i, plot_y values v)"
  by (simp add: in_box_def plot_x_bounds plot_y_bounds)

text \<open>C31. When the drawn values are doubles whose span is finite, the polyline has a point per close, every point and both
  dots lie in the box of the plot, every level that is drawn is within its height, and a higher value is never
  drawn lower.\<close>

theorem spread_plot_in_box:
  assumes "spread_plot_of stat = Some p" and "plot_ok (spread_values stat)"
  shows "length (sv_points p) = length (spread_points stat) \<and> list_all in_box (sv_points p @ [sv_close p, sv_live p])
    \<and> (\<forall>v \<in> set (spread_values stat). 18 \<le> val (plot_y (spread_values stat) v) \<and> val (plot_y (spread_values stat) v) \<le> 142)
    \<and> (\<forall>v \<in> set (spread_values stat). \<forall>w \<in> set (spread_values stat).
        val v \<le> val w \<longrightarrow> val (plot_y (spread_values stat) w) \<le> val (plot_y (spread_values stat) v))"
proof -
  note pts = plotted_points [OF assms(1)]
  let ?n = "length (spread_points stat)"
  have ne: "spread_points stat \<noteq> []" "?n - 1 < ?n" using pts(2) by auto
  have "list_all in_box (sv_points p)"
    unfolding pts(1) using closes_shown [of _ stat]
    by (auto simp: list_all_iff enumerate_eq_zip intro!: box_intro assms(2) points_le_90 dest: set_zip_leftD set_zip_rightD)
  moreover have "in_box (sv_close p)" "in_box (sv_live p)"
    unfolding pts(3,4) using ne by (auto intro!: box_intro assms(2) points_le_90 closes_shown live_shown)
  ultimately show ?thesis
    using plot_y_bounds [OF assms(2)] plot_y_order [OF assms(2)] by (simp add: pts(1))
qed

definition sample_stat :: jobj where
  "sample_stat = [(''label'', Str ''ES / NQ''), (''mean'', Num (Fin 11)), (''atr'', Num (Fin 1)),
     (''bars'', Arr [Obj [(''timestamp'', Num (Fin 1)), (''close'', Num (Fin 10))], Obj [(''timestamp'', Num (Fin 2)), (''close'', Num (Fin 12))]])]"

lemma sample_points: "spread_points sample_stat = [\<lparr>pp_close = Fin 10, pp_timestamp = Fin 1\<rparr>, \<lparr>pp_close = Fin 12, pp_timestamp = Fin 2\<rparr>]"
  by (simp add: spread_points_def sample_stat_def spread_point_of_def oget_def as_list_def as_obj_def finiteOptional_def map_filter_def slice_last_def)

lemma sample_fields: "oget sample_stat ''mean'' = Num (Fin 11)" "oget sample_stat ''atr'' = Num (Fin 1)"
    "oget sample_stat ''lastTraded'' = Undefined" "oget sample_stat ''spread'' = Undefined"
  by (simp_all add: sample_stat_def oget_def)

lemma sample_values: "spread_values sample_stat = [Fin 10, Fin 12, Fin 12, Fin 11, Fin 13, Fin 9]"
  using rnd_int [of 2] rnd_int [of 13] rnd_int [of 9]
  by (simp add: spread_values_def sample_points spread_levels_of_def Let_def plot_values_def sample_fields finiteOptional_def
      map_filter_def jmul_def jadd_finite jsub_finite or_else_def get_or_def)

lemma sample_plot: "plot_ok (spread_values sample_stat)" "\<exists>p. spread_plot_of sample_stat = Some p"
  using rnd_int [of 4] representable_int [of 9] representable_int [of 10] representable_int [of 11] representable_int [of 12] representable_int [of 13]
   apply (simp add: plot_ok_def sample_values is_double_def math_max_list_def math_min_list_def math_max_def math_min_def jlt_def jsub_finite)
  by (simp add: spread_plot_of_def sample_points Let_def)

theorem spread_plot_in_box_witness:
  "list_all in_box (sv_points (the (spread_plot_of sample_stat))) \<and> length (sv_points (the (spread_plot_of sample_stat))) = 2
   \<and> val (plot_y (spread_values sample_stat) (Fin 13)) \<le> val (plot_y (spread_values sample_stat) (Fin 9))"
proof -
  obtain p where p: "spread_plot_of sample_stat = Some p" using sample_plot(2) by blast
  then show ?thesis using spread_plot_in_box [OF p sample_plot(1)] by (simp add: sample_points sample_values)
qed

end
