(* ===== verification/Spec2Isabelle.thy ===== *)
theory Spec2Isabelle
  imports GatewayBook MarketDisplay Desktop PortalGate FillsWindow ChartProps DepthStream DepthOrders
    Alerts MarketRows ModelVariants CanvasDesk DomOrders OrdersWindows AlgoBuilder DesktopShell ChartWindow
    PanelPlots
begin

text \<open>
  Verification of the Cerious terminal, the browser and desktop front end under
  \<open>apps/terminal/src\<close>. The terminal keeps a store of market state that a stream of web-socket
  messages feeds, builds order books from gateway packets, and lets an operator arrange windows,
  alerts and trading algos into workspaces that live in browser storage and on a server. The
  definitions follow the TypeScript sources function by function and keep their names.

  \<^bold>\<open>Values of the language.\<close> \<open>JsNumber\<close> models numbers as doubles: a datatype of finite values (as
  rationals that rounding keeps representable), negative zero, infinities and not-a-number, with
  rounding to 53 bits written out (\<open>rnd\<close>), so that sums and products round as the program's do.
  \<open>JsNumText\<close> holds \<open>Number(text)\<close> and \<open>String(number)\<close>, \<open>JsString\<close> the string methods on char lists,
  \<open>JsValue\<close> dynamic values (the result of \<open>JSON.parse\<close>), property access, truthiness, \<open>||\<close> and
  \<open>??\<close>, and what a value is after \<open>JSON.stringify\<close> and \<open>JSON.parse\<close> (\<open>json_norm\<close>); a storage cell is
  absent, text that does not parse, or a parsed value. \<open>Prelude\<close> holds the dictionaries in insertion
  order, slices, the sum type of results that throw (\<open>js_result\<close>), the locale of stable sorting and
  the lemma collections the other theories share.

  \<^bold>\<open>Theories and sources.\<close>
  \<^item> \<open>Types\<close>: the interfaces and tables of \<open>types.ts\<close>.
  \<^item> \<open>Bars\<close> (\<open>utils/bars.ts\<close>): the payload parser of chart bars.
  \<^item> \<open>MarketDisplay\<close> (\<open>utils/marketDisplay.ts\<close>): price increments and formats.
  \<^item> \<open>GatewayBook\<close> (\<open>hooks/useGatewayEventBook.ts\<close>): deltas, packets, the cut of a side, and the hook
    that buffers packets between rendering ticks. Shown: the invariant of a book, the map a delta
    refines, and that buffering loses nothing.
  \<^item> \<open>ExchangeRows\<close>, \<open>ExecutionMarks\<close>, \<open>Store\<close>, \<open>StoreProps\<close> (\<open>store/index.ts\<close>): normalisers of exchange rows,
    marking of positions, every action of the store, and their properties.
  \<^item> \<open>Services\<close> (\<open>platform/transport.ts\<close>, \<open>services/settings.ts\<close>, \<open>services/workspaceServices.ts\<close>,
    \<open>App.tsx\<close>, \<open>components/ErrorBoundary.tsx\<close>): targets of requests, stored theme, tables, shell.
  \<^item> \<open>EngineStream\<close> (\<open>services/engineStream.ts\<close>): dispatch of messages to actions, and the connection as a
    state machine; its bounds and its recovery.
  \<^item> \<open>BroadcastSync\<close> (\<open>hooks/useBroadcastSync.ts\<close>): messages between the primary window and its panels.
  \<^item> \<open>WorkspaceSettings\<close>, \<open>CanvasSettings\<close>, \<open>AlgoLibrary\<close>, \<open>AlgoHook\<close>, \<open>AlgoManager\<close>, \<open>Workspaces\<close>, \<open>Desktop\<close>
    (\<open>components/WorkspaceCanvas.tsx\<close>): provider and product keys and window kinds; depth-ladder
    settings, alert rules and the stored state of the algo manager; algo definitions and their
    library; the hook that changes it and tells other instances; the manager window with its queue,
    deployments and emergency stop; workspaces, their normalisation, list and backups; desktop
    windows, their ids, packing and snapshots.
  \<^item> \<open>Execution\<close>, \<open>FillsWindow\<close> (\<open>components/WorkspaceCanvas.tsx\<close>): the product table, the rows of fills
    and working orders that the execution windows list, their rollups per product and per leg, the
    trading snapshot of the server and the requests that submit and cancel orders. Shown: every fill
    is counted once, and a rollup is the sum of its fills.
  \<^item> \<open>ChartSeries\<close>, \<open>ChartProps\<close> (\<open>components/WorkspaceCanvas.tsx\<close>): chart studies, buckets of bars, the
    live bar, the series handed to the chart, regression channel, range bands and volume at price.
  \<^item> \<open>MarketFeed\<close>, \<open>DepthStream\<close> (\<open>components/WorkspaceCanvas.tsx\<close>): texts and statistics of quotes, books and
    prints of the exchange in the form of the store, the export of rows, subscriptions of symbols, and the
    stream behind a depth ladder as a machine of answers, frames and socket events.
  \<^item> \<open>DepthLadder\<close>, \<open>DepthOrders\<close> (\<open>components/WorkspaceCanvas.tsx\<close>): sizes per row, the model of prices, the
    rows around an anchor and the columns; the orders of the ladder with the requests each handler sends.
    Shown: the invariants of rows, columns and orders, and where what is shown and what was sent part.
  \<^item> \<open>Products\<close>, \<open>MarketRows\<close>, \<open>Alerts\<close>, \<open>ModelVariants\<close> (\<open>components/WorkspaceCanvas.tsx\<close>): the catalogue of
    products with its orders and selectors and the readiness of the services; the rows and columns of the
    market data window and the liquidity map; the alert rules with what they read, when they are delivered
    and how they are edited; the variants of models and their library. Shown: when a rule is delivered,
    that edited rules are read back, and that the library is a map.
  \<^item> \<open>CanvasWindows\<close>, \<open>CanvasDesk\<close> (\<open>components/WorkspaceCanvas.tsx\<close>): frames that are dragged and resized, the
    list of windows, the pan of the desk; the state of the canvas, the effects that write storage, saving,
    loading and recovery of desks and the system actions. Shown: frames stay in reach, a saved desk is the
    one that is mounted again, and what a recovery replaces.
  \<^item> \<open>DomBook\<close>, \<open>DomOrders\<close> (\<open>components/OrderBook2.tsx\<close>): settings, rows, flashes and market of the order book of
    prediction markets; its orders as a machine of clicks, answers and events of the store. Shown: rows add up their
    levels, entries stay within the built-in limits, which no stored limit changes, and what the simulation does.
  \<^item> \<open>OrdersWindows\<close>, \<open>AlgoBuilder\<close> (\<open>components/WorkspaceCanvas.tsx\<close>): the order book window and the panel of
    positions and orders with what they list and cancel; the draft of the algo builder, its edits and its save.
  \<^item> \<open>DesktopShell\<close> (\<open>components/WorkspaceCanvas.tsx\<close>): launch and closing of desktop windows, the page of one
    window, the toolbar with saving, loading, logging out and shutting down. A step returns the state and the list of
    commands to the runtime, questions and requests in their order (\<open>shell_output\<close>).
  \<^item> \<open>ChartWindow\<close> (\<open>components/WorkspaceCanvas.tsx\<close>): the controls of a chart window, the bars and study snapshots
    it requests, as a machine of answers and changes of the symbol, and the series it plots.
  \<^item> \<open>Panels\<close>, \<open>PanelPlots\<close> (\<open>components/WorkspaceCanvas.tsx\<close>): the panels of the intelligence services, their
    polled endpoints, tones, rows and filters; the chart of a spread and the curves of trade analytics. Shown: a
    plotted point lies in its box and prices keep their order, by \<open>RoundMono\<close>, rounding to doubles is monotone.
  \<^item> \<open>JsDate\<close>, \<open>Gather\<close>: dates of the language, and the loop that collects rows into a dictionary.
  \<^item> \<open>PortalGate\<close> (\<open>components/PortalGate.tsx\<close>): the session, the login form and the gate.

  \<^bold>\<open>How parts interact.\<close> The stream's frames become store actions (\<open>EngineStream\<close> on \<open>Store\<close>); a
  selection in one window becomes messages for others (\<open>BroadcastSync\<close> on \<open>Store\<close>); the library, the
  manager and the workspaces share one storage, a map from keys to cells that every operation takes
  and returns (\<open>CanvasSettings\<close>), so that what one window writes is what another reads.

  \<^bold>\<open>Interfaces.\<close> \<open>sort_order\<close> states what a comparison gives a stable sort; it is interpreted for the
  orders of books, histories, bars, algos and workspaces. \<open>keyed_list\<close> states what a list updated by
  key promises, an update of the map from keys to entries; it is interpreted for the algo library, for
  the saved workspaces and for the model variants. \<open>own_cells\<close> states that a pass over items treats each
  in a cell of its own; it is interpreted for the alert rules. \<open>grouping\<close> and \<open>counted_grouping\<close> state what a rollup that starts an entry
  and adds to it promises, the sum of its members; they are interpreted for the rollups by product
  and by leg.

  \<^bold>\<open>Parameters.\<close> Time (\<open>Date.now\<close>) is an argument of every step that reads it. Comparison of texts by
  locale is an argument \<open>lc\<close>, assumed to be a total preorder where order matters (\<open>collation\<close>). Answers
  of servers, the encoding of URLs, the texts of errors, the logarithm of the liquidity score, and the
  reading and writing of dates in local form are arguments. No fuel is used: every
  function ends by its structure or by the measure given with it.

  \<^bold>\<open>Not modelled.\<close> The JSX markup, styles and canvas drawing; fields of a payload that a
  panel renders as they come; the creation of charts by the drawing library; the calls of the OpenFin
  runtime; the native gateway and the services, in other languages.
  Strings hold the characters of HOL's \<open>char\<close>, one code unit each.
\<close>

end
